(* ===== verification/Prelude.thy ===== *)
theory Prelude
  imports Main "HOL-Library.Word"
begin

text \<open>
  What every component of the model shares: the results of the Rust code (\<open>outcome\<close>: a value,
  an \<open>anyhow\<close> error, a panic, or a future that has not completed), the \<open>?\<close> operator on plain
  results and on state-passing code (\<open>io\<close>), little-endian byte strings, a few facts on machine
  words, and the collection of rewrite rules the component proofs use.
\<close>

section \<open>Results\<close>

text \<open>
  The errors the code distinguishes. \<open>Msg\<close> is an \<open>anyhow!\<close>/\<open>bail!\<close> message, \<open>Context\<close> an error
  wrapped by \<open>.context(..)\<close>, \<open>ContextError\<close> one wrapped by another error, \<open>External\<close> an error
  reported by code outside the repository, \<open>JsonRpcError\<close> one reported by a JSON-RPC server; the others are the error structs of \<open>bitcoin.rs\<close>,
  \<open>beldex.rs\<close>, \<open>swap_setup/alice.rs\<close> and \<open>asb/recovery/refund.rs\<close>.
\<close>

datatype error =
    Msg string
  | Context string error
  | ContextError error error
  | External nat
  | InvalidSignature
  | InvalidEncryptedSignature
  | NoInputs
  | TooManyInputs nat
  | EmptyWitnessStack
  | NotThreeWitnesses nat
  | BitcoinAddressNetworkMismatch nat nat
  | BeldexAddressNetworkMismatch nat nat
  | InsufficientFunds nat nat
  | RefundTransactionNotPublishedYet nat
  | JsonRpcError int string

datatype 'a outcome = Ok 'a | Err error | Panic string | Pending

named_theorems outcome_rules \<open>rewrite rules of the result type and of its sequencing\<close>

primrec obind :: "'a outcome \<Rightarrow> ('a \<Rightarrow> 'b outcome) \<Rightarrow> 'b outcome" where
  "obind (Ok x) f = f x"
| "obind (Err e) f = Err e"
| "obind (Panic p) f = Panic p"
| "obind Pending f = Pending"

primrec with_context :: "string \<Rightarrow> 'a outcome \<Rightarrow> 'a outcome" where
  "with_context c (Ok x) = Ok x"
| "with_context c (Err e) = Err (Context c e)"
| "with_context c (Panic p) = Panic p"
| "with_context c Pending = Pending"

primrec expect_ok :: "string \<Rightarrow> 'a outcome \<Rightarrow> 'a outcome" where
  "expect_ok p (Ok x) = Ok x"
| "expect_ok p (Err e) = Panic p"
| "expect_ok p (Panic q) = Panic q"
| "expect_ok p Pending = Pending"

primrec of_option :: "error \<Rightarrow> 'a option \<Rightarrow> 'a outcome" where
  "of_option e None = Err e"
| "of_option e (Some x) = Ok x"

primrec expect_some :: "string \<Rightarrow> 'a option \<Rightarrow> 'a outcome" where
  "expect_some p None = Panic p"
| "expect_some p (Some x) = Ok x"

definition ensure :: "bool \<Rightarrow> error \<Rightarrow> unit outcome" where
  "ensure b e = (if b then Ok () else Err e)"

primrec omap :: "('a \<Rightarrow> 'b) \<Rightarrow> 'a outcome \<Rightarrow> 'b outcome" where
  "omap f (Ok x) = Ok (f x)"
| "omap f (Err e) = Err e"
| "omap f (Panic p) = Panic p"
| "omap f Pending = Pending"

lemma obind_eq_Ok [outcome_rules]:
  "obind m f = Ok y \<longleftrightarrow> (\<exists>x. m = Ok x \<and> f x = Ok y)"
  by (cases m) auto

lemma obind_eq_Err [outcome_rules]:
  "obind m f = Err e \<longleftrightarrow> m = Err e \<or> (\<exists>x. m = Ok x \<and> f x = Err e)"
  by (cases m) auto

lemma obind_eq_Panic [outcome_rules]:
  "obind m f = Panic p \<longleftrightarrow> m = Panic p \<or> (\<exists>x. m = Ok x \<and> f x = Panic p)"
  by (cases m) auto

lemma obind_assoc: "obind (obind m f) g = obind m (\<lambda>x. obind (f x) g)"
  by (cases m) auto

lemma obind_Ok [simp]: "obind m Ok = m"
  by (cases m) auto

lemma with_context_eq_Ok [outcome_rules]: "with_context c m = Ok y \<longleftrightarrow> m = Ok y"
  by (cases m) auto

lemma expect_ok_eq_Ok [outcome_rules]: "expect_ok p m = Ok y \<longleftrightarrow> m = Ok y"
  by (cases m) auto

lemma of_option_eq_Ok [outcome_rules]: "of_option e m = Ok y \<longleftrightarrow> m = Some y"
  by (cases m) auto

lemma expect_some_eq_Ok [outcome_rules]: "expect_some p m = Ok y \<longleftrightarrow> m = Some y"
  by (cases m) auto

lemma omap_eq_Ok [outcome_rules]: "omap f m = Ok y \<longleftrightarrow> (\<exists>x. m = Ok x \<and> y = f x)"
  by (cases m) auto

lemma ensure_eq_Ok [outcome_rules]: "ensure b e = Ok u \<longleftrightarrow> b"
  by (auto simp: ensure_def)

lemma ensure_eq_Err [outcome_rules]: "ensure b e = Err e' \<longleftrightarrow> \<not> b \<and> e' = e"
  by (auto simp: ensure_def)

lemma ensure_simps [simp]: "ensure True e = Ok ()" "ensure False e = Err e"
  by (simp_all add: ensure_def)

section \<open>Slices\<close>

text \<open>\<open>xs[i]\<close> panics outside the slice; \<open>iter().position(p)\<close>.\<close>

definition index_vec :: "'a list \<Rightarrow> nat \<Rightarrow> 'a outcome" where
  "index_vec xs i = (if i < length xs then Ok (xs ! i) else Panic ''index out of bounds'')"

primrec position :: "('a \<Rightarrow> bool) \<Rightarrow> 'a list \<Rightarrow> nat option" where
  "position P [] = None"
| "position P (x # xs) = (if P x then Some 0 else map_option Suc (position P xs))"

lemma index_vec_eq_Ok [outcome_rules]: "index_vec xs i = Ok x \<longleftrightarrow> i < length xs \<and> x = xs ! i"
  by (auto simp: index_vec_def)

lemma position_SomeD:
  "position P xs = Some i \<Longrightarrow> i < length xs \<and> P (xs ! i) \<and> (\<forall>j<i. \<not> P (xs ! j))"
proof (induction xs arbitrary: i)
  case (Cons x xs)
  show ?case
  proof (cases "P x")
    case False
    then obtain k where k: "position P xs = Some k" "i = Suc k" using Cons.prems by auto
    have "\<forall>j<Suc k. \<not> P ((x # xs) ! j)"
      using Cons.IH[OF k(1)] False by (simp add: nth_Cons split: nat.splits)
    thus ?thesis using Cons.IH[OF k(1)] k(2) by simp
  qed (use Cons.prems in auto)
qed simp

lemma position_None [simp]: "position P xs = None \<longleftrightarrow> (\<forall>x\<in>set xs. \<not> P x)"
  by (induction xs) auto

text \<open>\<open>iter().map(f).collect::<Result<Vec<_>, _>>()\<close>.\<close>

primrec collect_results :: "('a \<Rightarrow> 'b outcome) \<Rightarrow> 'a list \<Rightarrow> 'b list outcome" where
  "collect_results f [] = Ok []"
| "collect_results f (x # xs) =
     obind (f x) (\<lambda>y. obind (collect_results f xs) (\<lambda>ys. Ok (y # ys)))"

section \<open>State-passing code\<close>

text \<open>
  An \<open>async fn\<close> is a function of the world it runs in: it returns its result and the world it
  leaves. \<open>bindio\<close> is \<open>.await?\<close> followed by the rest of the function.
\<close>

type_synonym ('w, 'a) io = "'w \<Rightarrow> 'a outcome \<times> 'w"

definition ret :: "'a \<Rightarrow> ('w, 'a) io" where
  "ret x = (\<lambda>w. (Ok x, w))"

definition lift :: "'a outcome \<Rightarrow> ('w, 'a) io" where
  "lift m = (\<lambda>w. (m, w))"

definition bindio :: "('w, 'a) io \<Rightarrow> ('a \<Rightarrow> ('w, 'b) io) \<Rightarrow> ('w, 'b) io" where
  "bindio m f = (\<lambda>w. case m w of
     (Ok x, w') \<Rightarrow> f x w'
   | (Err e, w') \<Rightarrow> (Err e, w')
   | (Panic p, w') \<Rightarrow> (Panic p, w')
   | (Pending, w') \<Rightarrow> (Pending, w'))"

text \<open>\<open>match fut.await { Ok(x) => .., Err(e) => .. }\<close>: an error is a value, a panic is not.\<close>

definition attempt :: "('w, 'a) io \<Rightarrow> ('w, error + 'a) io" where
  "attempt m = (\<lambda>w. case m w of
     (Ok x, w') \<Rightarrow> (Ok (Inr x), w')
   | (Err e, w') \<Rightarrow> (Ok (Inl e), w')
   | (Panic p, w') \<Rightarrow> (Panic p, w')
   | (Pending, w') \<Rightarrow> (Pending, w'))"

definition context_io :: "string \<Rightarrow> ('w, 'a) io \<Rightarrow> ('w, 'a) io" where
  "context_io c m = (\<lambda>w. case m w of (r, w') \<Rightarrow> (with_context c r, w'))"

lemma ret_apply [simp]: "ret x w = (Ok x, w)"
  by (simp add: ret_def)

lemma lift_apply [simp]: "lift m w = (m, w)"
  by (simp add: lift_def)

lemma bindio_eq_Ok [outcome_rules]:
  "bindio m f w = (Ok y, w'') \<longleftrightarrow> (\<exists>x w'. m w = (Ok x, w') \<and> f x w' = (Ok y, w''))"
  by (auto simp: bindio_def split: prod.splits outcome.splits)

lemma bindio_ret [simp]: "bindio (ret x) f = f x"
  by (simp add: bindio_def ret_def)

lemma bindio_Pair_Ok [simp]: "bindio (Pair (Ok x)) f = f x"
  by (simp add: bindio_def)

lemma bindio_lift_Ok [simp]: "bindio (lift (Ok x)) f = f x"
  by (simp add: bindio_def lift_def)

lemma bindio_lift_Err [simp]: "bindio (lift (Err e)) f = lift (Err e)"
  by (simp add: bindio_def lift_def)

lemma bindio_lift_Panic [simp]: "bindio (lift (Panic p)) f = lift (Panic p)"
  by (simp add: bindio_def lift_def)

lemma attempt_eq_Ok [outcome_rules]:
  "attempt m w = (Ok r, w') \<longleftrightarrow>
     (\<exists>x. m w = (Ok x, w') \<and> r = Inr x) \<or> (\<exists>e. m w = (Err e, w') \<and> r = Inl e)"
  by (auto simp: attempt_def split: prod.splits outcome.splits)

lemma context_io_eq_Ok [outcome_rules]: "context_io c m w = (Ok y, w') \<longleftrightarrow> m w = (Ok y, w')"
  by (auto simp: context_io_def with_context_eq_Ok split: prod.splits)

section \<open>Little-endian bytes\<close>

primrec le_bytes :: "nat \<Rightarrow> nat \<Rightarrow> nat list" where
  "le_bytes 0 v = []"
| "le_bytes (Suc n) v = v mod 256 # le_bytes n (v div 256)"

fun from_le :: "nat list \<Rightarrow> nat" where
  "from_le [] = 0"
| "from_le (b # bs) = b + 256 * from_le bs"

lemma length_le_bytes [simp]: "length (le_bytes n v) = n"
  by (induction n arbitrary: v) auto

lemma le_bytes_bound: "b \<in> set (le_bytes n v) \<Longrightarrow> b < 256"
  by (induction n arbitrary: v) auto

lemma from_le_le_bytes_mod: "from_le (le_bytes n v) = v mod 256 ^ n"
  by (induction n arbitrary: v) (auto simp: mod_mult2_eq)

lemma from_le_le_bytes: "v < 256 ^ n \<Longrightarrow> from_le (le_bytes n v) = v"
  by (simp add: from_le_le_bytes_mod)

lemma from_le_bound: "(\<And>b. b \<in> set bs \<Longrightarrow> b < 256) \<Longrightarrow> from_le bs < 256 ^ length bs"
proof (induction bs)
  case (Cons b bs)
  have "b < 256" "from_le bs < 256 ^ length bs" using Cons by auto
  hence "b + 256 * from_le bs < 256 + 256 * (256 ^ length bs - 1)"
    by (metis add_less_le_mono less_eq_Suc_le mult_le_mono2 Suc_diff_1 zero_less_power
        zero_less_numeral less_Suc_eq_le)
  thus ?case using zero_less_power[of "256::nat" "length bs"] by (simp add: algebra_simps)
qed simp

lemma le_bytes_from_le:
  "(\<And>b. b \<in> set bs \<Longrightarrow> b < 256) \<Longrightarrow> le_bytes (length bs) (from_le bs) = bs"
  by (induction bs) auto

section \<open>Machine words\<close>

lemma unat_minus_le: "(b :: 'a::len word) \<le> a \<Longrightarrow> unat (a - b) = unat a - unat b"
  by (simp add: unat_sub)

lemma unat_plus_no_wrap:
  "unat (a :: 'a::len word) + unat b < 2 ^ LENGTH('a) \<Longrightarrow> unat (a + b) = unat a + unat b"
  using unat_add_lem[of a b] by blast

definition saturating_sub :: "'a::len word \<Rightarrow> 'a word \<Rightarrow> 'a word" where
  "saturating_sub a b = (if a < b then 0 else a - b)"

lemma unat_saturating_sub: "unat (saturating_sub a b) = unat a - unat b"
  by (auto simp: saturating_sub_def word_less_nat_alt unat_minus_le word_le_nat_alt)

end
