(* ===== verification/Timelocks.thy ===== *)
theory Timelocks
  imports Prelude
begin

text \<open>
  \<open>bitcoin/timelocks.rs\<close>, the two timelocks of \<open>bitcoin/cancel.rs\<close> and \<open>bitcoin/punish.rs\<close>, the
  confirmation status of a watched script (\<open>ScriptStatus\<close>, \<open>Confirmed\<close> of \<open>bitcoin/wallet.rs\<close>) and
  \<open>current_epoch\<close> of \<open>bitcoin.rs\<close>, which decides in which phase of the swap the chain is. Heights
  and depths are \<open>u32\<close>: 32-bit words, on which \<open>+\<close> and \<open>-\<close> wrap as in a release build.
\<close>

type_synonym u32 = "32 word"
type_synonym u64 = "64 word"

section \<open>Block heights and timelocks\<close>

datatype block_height = BlockHeight (height_u32: u32)
datatype cancel_timelock = CancelTimelock (cancel_u32: u32)
datatype punish_timelock = PunishTimelock (punish_u32: u32)

instantiation block_height :: linorder
begin

definition less_eq_block_height :: "block_height \<Rightarrow> block_height \<Rightarrow> bool" where
  "less_eq_block_height a b = (height_u32 a \<le> height_u32 b)"

definition less_block_height :: "block_height \<Rightarrow> block_height \<Rightarrow> bool" where
  "less_block_height a b = (height_u32 a < height_u32 b)"

instance
  by standard (auto simp: less_eq_block_height_def less_block_height_def intro: block_height.expand)

end

text \<open>\<open>TryFrom<HeaderNotification>\<close>: the height is a \<open>usize\<close>, of which only 32 bits fit.\<close>

definition block_height_try_from :: "u64 \<Rightarrow> block_height outcome" where
  "block_height_try_from h =
     (if unat h < 2 ^ 32 then Ok (BlockHeight (ucast h))
      else Err (Context ''Failed to fit usize into u32'' (External 0)))"

definition height_add :: "block_height \<Rightarrow> u32 \<Rightarrow> block_height" where
  "height_add h n = BlockHeight (height_u32 h + n)"

definition height_add_cancel :: "block_height \<Rightarrow> cancel_timelock \<Rightarrow> block_height" where
  "height_add_cancel h t = height_add h (cancel_u32 t)"

definition height_add_punish :: "block_height \<Rightarrow> punish_timelock \<Rightarrow> block_height" where
  "height_add_punish h t = height_add h (punish_u32 t)"

datatype expired_timelocks = NoneExpired (blocks_left: u32) | CancelExpired (blocks_left: u32) | PunishExpired

section \<open>Confirmation status of a script\<close>

record confirmed = depth :: u32

definition confirmed_new :: "u32 \<Rightarrow> confirmed" where
  "confirmed_new d = \<lparr>depth = d\<rparr>"

definition from_inclusion_and_latest_block :: "u32 \<Rightarrow> u32 \<Rightarrow> confirmed" where
  "from_inclusion_and_latest_block inclusion_height latest_block =
     \<lparr>depth = saturating_sub latest_block inclusion_height\<rparr>"

definition confirmations :: "confirmed \<Rightarrow> u32" where
  "confirmations c = depth c + 1"

definition meets_target :: "confirmed \<Rightarrow> u32 \<Rightarrow> bool" where
  "meets_target c target \<longleftrightarrow> target \<le> confirmations c"

definition confirmed_blocks_left_until :: "confirmed \<Rightarrow> u32 \<Rightarrow> u32" where
  "confirmed_blocks_left_until c target =
     (if meets_target c target then 0 else target - confirmations c)"

datatype script_status = Unseen | InMempool | Confirmed confirmed | Retrying

definition from_confirmations :: "u32 \<Rightarrow> script_status" where
  "from_confirmations n = (if n = 0 then InMempool else Confirmed (confirmed_new (n - 1)))"

definition is_confirmed :: "script_status \<Rightarrow> bool" where
  "is_confirmed s = (case s of Confirmed _ \<Rightarrow> True | _ \<Rightarrow> False)"

definition is_confirmed_with :: "script_status \<Rightarrow> u32 \<Rightarrow> bool" where
  "is_confirmed_with s target = (case s of Confirmed c \<Rightarrow> meets_target c target | _ \<Rightarrow> False)"

definition blocks_left_until :: "script_status \<Rightarrow> u32 \<Rightarrow> u32" where
  "blocks_left_until s target =
     (case s of Confirmed c \<Rightarrow> confirmed_blocks_left_until c target | _ \<Rightarrow> target)"

definition has_been_seen :: "script_status \<Rightarrow> bool" where
  "has_been_seen s = (case s of InMempool \<Rightarrow> True | Confirmed _ \<Rightarrow> True | _ \<Rightarrow> False)"

section \<open>The epoch of a swap\<close>

definition current_epoch ::
  "cancel_timelock \<Rightarrow> punish_timelock \<Rightarrow> script_status \<Rightarrow> script_status \<Rightarrow> expired_timelocks" where
  "current_epoch ct pt tx_lock_status tx_cancel_status =
     (if is_confirmed_with tx_cancel_status (punish_u32 pt) then PunishExpired
      else if is_confirmed_with tx_lock_status (cancel_u32 ct) then
        CancelExpired (blocks_left_until tx_cancel_status (punish_u32 pt))
      else NoneExpired (blocks_left_until tx_lock_status (cancel_u32 ct)))"

section \<open>Facts\<close>

text \<open>
  The reading of a status as a number of confirmations over \<open>nat\<close>, the abstract view in which the
  epoch is specified. Only a depth of \<open>2^32 - 1\<close> wraps.
\<close>

definition confs :: "script_status \<Rightarrow> nat" where
  "confs s = (case s of Confirmed c \<Rightarrow> unat (depth c) + 1 | _ \<Rightarrow> 0)"

definition no_wrap :: "script_status \<Rightarrow> bool" where
  "no_wrap s \<longleftrightarrow> confs s < 2 ^ 32"

lemma unat_confirmations:
  "no_wrap (Confirmed c) \<Longrightarrow> unat (confirmations c) = unat (depth c) + 1"
  by (simp add: no_wrap_def confs_def confirmations_def unat_plus_no_wrap)

lemma meets_target_confs:
  "no_wrap (Confirmed c) \<Longrightarrow> meets_target c t \<longleftrightarrow> unat t \<le> confs (Confirmed c)"
  by (simp add: meets_target_def word_le_nat_alt unat_confirmations confs_def)

lemma is_confirmed_with_confs:
  "no_wrap s \<Longrightarrow> is_confirmed_with s t \<longleftrightarrow> is_confirmed s \<and> unat t \<le> confs s"
  by (cases s) (auto simp: is_confirmed_with_def is_confirmed_def meets_target_confs)

lemma is_confirmed_with_pos:
  "no_wrap s \<Longrightarrow> t \<noteq> 0 \<Longrightarrow> is_confirmed_with s t \<longleftrightarrow> unat t \<le> confs s"
  by (cases s) (auto simp: is_confirmed_with_def is_confirmed_def meets_target_confs confs_def
      unat_eq_0)

lemma blocks_left_confs: "no_wrap s \<Longrightarrow> unat (blocks_left_until s t) = unat t - confs s"
proof (cases s)
  case (Confirmed c)
  assume nw: "no_wrap s"
  have "unat (confirmations c) = confs s"
    using nw Confirmed by (simp add: unat_confirmations confs_def)
  thus ?thesis
    using Confirmed nw
    by (auto simp: blocks_left_until_def confirmed_blocks_left_until_def meets_target_def
        word_le_nat_alt unat_minus_le)
qed (auto simp: blocks_left_until_def confs_def)

end
