(* ===== verification/Timelock_Properties.thy ===== *)
theory Timelock_Properties
  imports Timelocks
begin

text \<open>
  What the timelock arithmetic promises: \<open>current_epoch\<close> implements a specification on natural
  numbers, the epoch never goes back while confirmations grow, and the number of blocks it reports
  is exact.
\<close>

section \<open>The specification on natural numbers\<close>

datatype epoch = EpochNone nat | EpochCancel nat | EpochPunish

primrec epoch_of :: "expired_timelocks \<Rightarrow> epoch" where
  "epoch_of (NoneExpired n) = EpochNone (unat n)"
| "epoch_of (CancelExpired n) = EpochCancel (unat n)"
| "epoch_of PunishExpired = EpochPunish"

text \<open>
  The epoch for timelocks \<open>ct\<close> and \<open>pt\<close> when the lock transaction has \<open>l\<close> confirmations and the
  cancel transaction \<open>c\<close>.
\<close>

definition epoch_spec :: "nat \<Rightarrow> nat \<Rightarrow> nat \<Rightarrow> nat \<Rightarrow> epoch" where
  "epoch_spec ct pt l c =
     (if pt \<le> c then EpochPunish
      else if ct \<le> l then EpochCancel (pt - c)
      else EpochNone (ct - l))"

definition epoch_phase :: "epoch \<Rightarrow> nat" where
  "epoch_phase e = (case e of EpochNone _ \<Rightarrow> 0 | EpochCancel _ \<Rightarrow> 1 | EpochPunish \<Rightarrow> 2)"

text \<open>
  C19: \<open>current_epoch\<close> implements the specification on natural numbers: for timelocks that are not
  zero and depths below \<open>2^32 - 1\<close>, its words denote the epoch and the number of blocks left that
  the numbers of confirmations determine.
\<close>

theorem current_epoch_refines_spec:
  assumes "no_wrap l" "no_wrap c" "cancel_u32 ct \<noteq> 0" "punish_u32 pt \<noteq> 0"
  shows "epoch_of (current_epoch ct pt l c) =
    epoch_spec (unat (cancel_u32 ct)) (unat (punish_u32 pt)) (confs l) (confs c)"
  using assms
  by (simp add: current_epoch_def epoch_spec_def is_confirmed_with_pos blocks_left_confs)

theorem current_epoch_refines_spec_witness:
  "epoch_of (current_epoch (CancelTimelock 72) (PunishTimelock 72) (Confirmed (confirmed_new 71)) InMempool)
     = EpochCancel 72"
  using current_epoch_refines_spec[of "Confirmed (confirmed_new 71)" InMempool "CancelTimelock 72" "PunishTimelock 72"]
  by (simp add: epoch_spec_def confs_def no_wrap_def confirmed_new_def)

text \<open>
  the epoch never goes back: while the confirmations of the lock and of the cancel transaction
  grow, the phase does not decrease, and within one phase the number of blocks left does not grow.
\<close>

theorem current_epoch_monotone:
  assumes "no_wrap l" "no_wrap c" "no_wrap l'" "no_wrap c'"
    and "cancel_u32 ct \<noteq> 0" "punish_u32 pt \<noteq> 0"
    and "confs l \<le> confs l'" "confs c \<le> confs c'"
    and "e = current_epoch ct pt l c" "e' = current_epoch ct pt l' c'"
  shows "epoch_phase (epoch_of e) \<le> epoch_phase (epoch_of e') \<and>
    (epoch_phase (epoch_of e) = epoch_phase (epoch_of e') \<longrightarrow> e \<noteq> PunishExpired \<longrightarrow>
       blocks_left e' \<le> blocks_left e)"
proof -
  have "epoch_of e = epoch_spec (unat (cancel_u32 ct)) (unat (punish_u32 pt)) (confs l) (confs c)"
    "epoch_of e' = epoch_spec (unat (cancel_u32 ct)) (unat (punish_u32 pt)) (confs l') (confs c')"
    using assms(1-6,9,10)
    by (simp_all add: current_epoch_def epoch_spec_def is_confirmed_with_pos blocks_left_confs)
  thus ?thesis
    using assms(7,8)
    by (cases e; cases e') (auto simp: epoch_spec_def epoch_phase_def word_le_nat_alt split: if_splits)
qed

theorem current_epoch_monotone_witness:
  "epoch_phase (epoch_of (current_epoch (CancelTimelock 72) (PunishTimelock 72) InMempool Unseen)) \<le>
   epoch_phase (epoch_of (current_epoch (CancelTimelock 72) (PunishTimelock 72)
     (Confirmed (confirmed_new 80)) (Confirmed (confirmed_new 3))))"
  using current_epoch_monotone[of InMempool Unseen "Confirmed (confirmed_new 80)" "Confirmed (confirmed_new 3)"
      "CancelTimelock 72" "PunishTimelock 72", OF _ _ _ _ _ _ _ _ refl refl]
  by (simp add: no_wrap_def confs_def confirmed_new_def)

text \<open>
  the number of blocks that \<open>current_epoch\<close> reports before the cancel timelock is exact: the
  timelock expires with precisely that many further confirmations of the lock transaction, as long
  as the cancel transaction is not confirmed.
\<close>

theorem blocks_until_cancel_exact:
  assumes "current_epoch ct pt l c = NoneExpired n"
    and "no_wrap l" "no_wrap l'" "no_wrap c" "cancel_u32 ct \<noteq> 0" "punish_u32 pt \<noteq> 0"
    and "confs l' = confs l + k"
  shows "(\<exists>m. current_epoch ct pt l' c = NoneExpired m) \<longleftrightarrow> k < unat n"
proof -
  have "unat n = unat (cancel_u32 ct) - confs l" "confs l < unat (cancel_u32 ct)"
    using assms(1,2,5) by (auto simp: current_epoch_def is_confirmed_with_pos blocks_left_confs split: if_splits)
  moreover have "\<not> is_confirmed_with c (punish_u32 pt)"
    using assms(1) by (auto simp: current_epoch_def split: if_splits)
  ultimately show ?thesis
    using assms(3,5,7) by (auto simp: current_epoch_def is_confirmed_with_pos)
qed

theorem blocks_until_cancel_exact_witness:
  "current_epoch (CancelTimelock 72) (PunishTimelock 72) (Confirmed (confirmed_new 69)) Unseen = NoneExpired 2 \<and>
   (\<exists>m. current_epoch (CancelTimelock 72) (PunishTimelock 72) (Confirmed (confirmed_new 70)) Unseen = NoneExpired m) \<and>
   \<not> (\<exists>m. current_epoch (CancelTimelock 72) (PunishTimelock 72) (Confirmed (confirmed_new 71)) Unseen = NoneExpired m)"
proof -
  have e: "current_epoch (CancelTimelock 72) (PunishTimelock 72) (Confirmed (confirmed_new 69)) Unseen = NoneExpired 2"
    by (simp add: current_epoch_def is_confirmed_with_def meets_target_def confirmations_def confirmed_new_def
        blocks_left_until_def confirmed_blocks_left_until_def)
  show ?thesis
    using e blocks_until_cancel_exact[OF e, of "Confirmed (confirmed_new 70)" 1]
      blocks_until_cancel_exact[OF e, of "Confirmed (confirmed_new 71)" 2]
    by (simp add: no_wrap_def confs_def confirmed_new_def)
qed

text \<open>
  a status survives the way over a number of confirmations: for every depth below
  \<open>2^32 - 1\<close>, \<open>from_confirmations\<close> rebuilds the status from the confirmations it reports, and the
  confirmations computed from heights are one more than the blocks on top of the inclusion block,
  or one if the latest known block is older.
\<close>

theorem confirmations_roundtrip:
  "(no_wrap (Confirmed c) \<longrightarrow> from_confirmations (confirmations c) = Confirmed c) \<and>
   (no_wrap (Confirmed (from_inclusion_and_latest_block i b)) \<longrightarrow>
     confs (Confirmed (from_inclusion_and_latest_block i b)) = unat b - unat i + 1)"
proof -
  have "confirmations c \<noteq> 0" if "no_wrap (Confirmed c)"
    using that unat_confirmations[OF that] by (metis add_is_0 one_neq_zero unat_0)
  hence "no_wrap (Confirmed c) \<longrightarrow> from_confirmations (confirmations c) = Confirmed c"
    by (auto simp: from_confirmations_def confirmations_def confirmed_new_def)
  moreover have "unat (saturating_sub b i) = unat b - unat i"
    by (auto simp: saturating_sub_def word_less_nat_alt unat_sub_if_size)
  ultimately show ?thesis
    by (simp add: confs_def from_inclusion_and_latest_block_def)
qed

theorem confirmations_roundtrip_witness:
  "from_confirmations (confirmations (confirmed_new 5)) = Confirmed (confirmed_new 5) \<and>
   confs (Confirmed (from_inclusion_and_latest_block 100 105)) = 6"
  using confirmations_roundtrip[of "confirmed_new 5" 100 105]
  by (simp add: no_wrap_def confs_def confirmed_new_def from_inclusion_and_latest_block_def saturating_sub_def)

end
