(* ===== verification/Bitcoin_Crypto.thy ===== *)
theory Bitcoin_Crypto
  imports Timelocks
begin

text \<open>
  The keys and signatures of \<open>bitcoin.rs\<close> and the cross-curve scalars of \<open>beldex.rs\<close> and
  \<open>beldex_ext.rs\<close>. The cryptography itself (\<open>ecdsa_fun\<close>, \<open>secp256kfun\<close>, \<open>secp256k1\<close>,
  \<open>curve25519-dalek-ng\<close>, \<open>sigma_fun\<close>) and the transaction library (\<open>rust-bitcoin\<close>, \<open>bdk\<close>,
  \<open>miniscript\<close>) are crates outside the repository: every function of theirs that the code calls
  is a field of the record \<open>lib\<close>, an argument of the definitions that use it. What the code
  relies on of them is stated by the predicates at the end of this theory and of \<open>Bitcoin_Tx\<close>.
\<close>

section \<open>The values of the external crates\<close>

type_synonym scalar = nat
type_synonym point = nat
type_synonym signature = nat
type_synonym encsig = nat
type_synonym sighash = nat
type_synonym txid = nat
type_synonym secp_sig = nat
type_synonym bytes = "nat list"
type_synonym script = bytes
type_synonym bdx_scalar = nat
type_synonym bdx_point = nat
type_synonym ed_point = nat
type_synonym dleq_proof = nat

datatype network = Bitcoin | Testnet | Signet | Regtest

datatype address_kind = P2pkh | P2sh | P2wpkh | P2wsh | P2tr

record address =
  addr_network :: network
  addr_payload :: nat

record bitcoin_pubkey =
  pk_compressed :: bool
  pk_inner :: nat

datatype sighash_type = SigHashAll

record ecdsa_sig =
  es_sig :: secp_sig
  es_hash_ty :: sighash_type

type_synonym miniscript = string

datatype descriptor = Wsh miniscript

record txin =
  previous_output :: "txid \<times> u32"
  script_sig :: script
  tx_sequence :: u32
  witness :: "bytes list"

record txout =
  txo_value :: u64
  txo_script :: script

record transaction =
  tx_version :: nat
  tx_lock_time :: u32
  tx_input :: "txin list"
  tx_output :: "txout list"

record psbt =
  unsigned_tx :: transaction
  psbt_inputs :: "nat list"

record lib =
  vk_for :: "scalar \<Rightarrow> point"
  scalar_to_bytes :: "scalar \<Rightarrow> bytes"
  scalar_from_bytes :: "bytes \<Rightarrow> scalar option"
  scalar_non_zero :: "scalar \<Rightarrow> scalar option"
  point_to_bytes :: "point \<Rightarrow> bytes"
  point_to_string :: "point \<Rightarrow> string"
  ecdsa_sign :: "scalar \<Rightarrow> sighash \<Rightarrow> signature"
  ecdsa_verify :: "point \<Rightarrow> sighash \<Rightarrow> signature \<Rightarrow> bool"
  encrypted_sign :: "scalar \<Rightarrow> point \<Rightarrow> sighash \<Rightarrow> encsig"
  verify_encrypted_signature :: "point \<Rightarrow> point \<Rightarrow> sighash \<Rightarrow> encsig \<Rightarrow> bool"
  decrypt_signature :: "scalar \<Rightarrow> encsig \<Rightarrow> signature"
  recover_decryption_key :: "point \<Rightarrow> signature \<Rightarrow> encsig \<Rightarrow> scalar option"
  sig_to_bytes :: "signature \<Rightarrow> bytes"
  sig_from_bytes :: "bytes \<Rightarrow> signature option"
  secp_pk_from_slice :: "bytes \<Rightarrow> nat outcome"
  btc_pk_from_slice :: "bytes \<Rightarrow> bitcoin_pubkey outcome"
  secp_sig_from_compact :: "bytes \<Rightarrow> secp_sig outcome"
  secp_sig_from_der :: "bytes \<Rightarrow> secp_sig outcome"
  secp_serialize_compact :: "secp_sig \<Rightarrow> bytes"
  miniscript_from_str :: "string \<Rightarrow> miniscript outcome"
  wsh_new :: "miniscript \<Rightarrow> miniscript outcome"
  desc_script_pubkey :: "descriptor \<Rightarrow> script"
  desc_script_code :: "descriptor \<Rightarrow> script outcome"
  desc_address :: "descriptor \<Rightarrow> network \<Rightarrow> address outcome"
  desc_satisfy :: "descriptor \<Rightarrow> txin \<Rightarrow> (bitcoin_pubkey \<rightharpoonup> ecdsa_sig) \<Rightarrow> txin outcome"
  segwit_sighash :: "transaction \<Rightarrow> nat \<Rightarrow> script \<Rightarrow> u64 \<Rightarrow> sighash_type \<Rightarrow> sighash outcome"
  compute_txid :: "transaction \<Rightarrow> txid"
  psbt_extract_tx :: "psbt \<Rightarrow> transaction"
  psbt_fee_amount :: "psbt \<Rightarrow> u64 option"
  address_from_str :: "string \<Rightarrow> address outcome"
  address_kind_of :: "address \<Rightarrow> address_kind option"
  address_script :: "address \<Rightarrow> script"
  ed_to_bytes :: "bdx_scalar \<Rightarrow> bytes"
  ed_from_bytes_mod_order :: "bytes \<Rightarrow> bdx_scalar"
  ed_scalar_add :: "bdx_scalar \<Rightarrow> bdx_scalar \<Rightarrow> bdx_scalar"
  ed_base_mul :: "bdx_scalar \<Rightarrow> bdx_point"
  ed_decompress :: "bdx_point \<Rightarrow> ed_point option"
  ed_point_add :: "ed_point \<Rightarrow> ed_point \<Rightarrow> ed_point"
  ed_compress :: "ed_point \<Rightarrow> bdx_point"
  dleq_prove :: "bdx_scalar \<Rightarrow> nat \<Rightarrow> dleq_proof \<times> (point \<times> ed_point)"
  dleq_verify :: "dleq_proof \<Rightarrow> point \<times> ed_point \<Rightarrow> bool"

section \<open>Bitcoin keys\<close>

record secret_key =
  sk_inner :: scalar
  sk_public :: point

datatype public_key = PublicKey (pk_point: point)

text \<open>\<open>SecretKey::new_random\<close>; the scalar is the value that \<open>Scalar::random(rng)\<close> draws.\<close>

definition secret_key_new_random :: "lib \<Rightarrow> scalar \<Rightarrow> secret_key" where
  "secret_key_new_random L drawn = \<lparr>sk_inner = drawn, sk_public = vk_for L drawn\<rparr>"

definition public :: "secret_key \<Rightarrow> public_key" where
  "public sk = PublicKey (sk_public sk)"

definition sign :: "lib \<Rightarrow> secret_key \<Rightarrow> sighash \<Rightarrow> signature" where
  "sign L sk digest = ecdsa_sign L (sk_inner sk) digest"

definition encsign :: "lib \<Rightarrow> secret_key \<Rightarrow> public_key \<Rightarrow> sighash \<Rightarrow> encsig" where
  "encsign L sk Y digest = encrypted_sign L (sk_inner sk) (pk_point Y) digest"

definition secret_key_from_scalar :: "lib \<Rightarrow> scalar \<Rightarrow> secret_key" where
  "secret_key_from_scalar L s = \<lparr>sk_inner = s, sk_public = vk_for L s\<rparr>"

definition public_key_from_scalar :: "lib \<Rightarrow> scalar \<Rightarrow> public_key" where
  "public_key_from_scalar L s = PublicKey (vk_for L s)"

definition bitcoin_pubkey_try_from :: "lib \<Rightarrow> public_key \<Rightarrow> bitcoin_pubkey outcome" where
  "bitcoin_pubkey_try_from L pk = btc_pk_from_slice L (point_to_bytes L (pk_point pk))"

definition verify_sig :: "lib \<Rightarrow> public_key \<Rightarrow> sighash \<Rightarrow> signature \<Rightarrow> unit outcome" where
  "verify_sig L vk digest sig =
     (if ecdsa_verify L (pk_point vk) digest sig then Ok () else Err InvalidSignature)"

definition verify_encsig ::
  "lib \<Rightarrow> public_key \<Rightarrow> public_key \<Rightarrow> sighash \<Rightarrow> encsig \<Rightarrow> unit outcome" where
  "verify_encsig L vk ek digest es =
     (if verify_encrypted_signature L (pk_point vk) (pk_point ek) digest es then Ok ()
      else Err InvalidEncryptedSignature)"

definition recover :: "lib \<Rightarrow> public_key \<Rightarrow> signature \<Rightarrow> encsig \<Rightarrow> secret_key outcome" where
  "recover L S sig es =
     omap (secret_key_from_scalar L)
       (of_option (Msg ''Failed to recover secret from adaptor signature'')
         (recover_decryption_key L (pk_point S) sig es))"

section \<open>The shared output\<close>

text \<open>\<open>str::replace\<close> of one character by a string.\<close>

fun replace_char :: "char \<Rightarrow> string \<Rightarrow> string \<Rightarrow> string" where
  "replace_char c s [] = []"
| "replace_char c s (x # xs) = (if x = c then s @ replace_char c s xs else x # replace_char c s xs)"

definition miniscript_template :: string where
  "miniscript_template = ''c:and_v(v:pk(A),pk_k(B))''"

definition build_shared_output_descriptor :: "lib \<Rightarrow> point \<Rightarrow> point \<Rightarrow> descriptor outcome" where
  "build_shared_output_descriptor L A B =
     obind (expect_ok ''a valid miniscript''
              (miniscript_from_str L
                (replace_char CHR ''B'' (point_to_string L B)
                  (replace_char CHR ''A'' (point_to_string L A) miniscript_template))))
       (\<lambda>ms. omap Wsh (wsh_new L ms))"

section \<open>Addresses\<close>

definition address_parse :: "lib \<Rightarrow> string \<Rightarrow> address outcome" where
  "address_parse L s =
     obind (address_from_str L s) (\<lambda>a.
       if address_kind_of L a \<noteq> Some P2wpkh
       then Err (Msg ''Invalid Bitcoin address provided, only bech32 format is supported!'')
       else Ok a)"

primrec network_code :: "network \<Rightarrow> nat" where
  "network_code Bitcoin = 0"
| "network_code Testnet = 1"
| "network_code Signet = 2"
| "network_code Regtest = 3"

definition address_validate :: "address \<Rightarrow> network \<Rightarrow> address outcome" where
  "address_validate a expected =
     (if addr_network a \<noteq> expected
      then Err (BitcoinAddressNetworkMismatch (network_code expected) (network_code (addr_network a)))
      else Ok a)"

definition address_validate_is_testnet :: "address \<Rightarrow> bool \<Rightarrow> address outcome" where
  "address_validate_is_testnet a is_testnet =
     address_validate a (if is_testnet then Testnet else Bitcoin)"

section \<open>Signatures on the witness stack\<close>

text \<open>\<open>extract_ecdsa_sig\<close>: \<open>sig.len() - 1\<close> of an empty slice is an index out of range.\<close>

definition extract_ecdsa_sig :: "lib \<Rightarrow> bytes \<Rightarrow> signature outcome" where
  "extract_ecdsa_sig L sig =
     (if sig = [] then Panic ''slice index out of range''
      else obind (secp_sig_from_der L (butlast sig)) (\<lambda>s.
             of_option (Msg ''invalid signature'') (sig_from_bytes L (secp_serialize_compact L s))))"

section \<open>RPC error codes\<close>

datatype rpc_error_code = RpcVerifyRejected | RpcVerifyAlreadyInChain | RpcVerifyError

definition i64_from :: "rpc_error_code \<Rightarrow> int" where
  "i64_from c = (case c of
     RpcVerifyError \<Rightarrow> -25
   | RpcVerifyRejected \<Rightarrow> -26
   | RpcVerifyAlreadyInChain \<Rightarrow> -27)"

text \<open>The value of \<open>serde_json\<close>; an object keeps its fields in a list.\<close>

datatype json =
    JNull
  | JBool bool
  | JInt int
  | JFloat nat
  | JString string
  | JArray "json list"
  | JObject "(string \<times> json) list"

text \<open>
  \<open>parse_rpc_error_code\<close>. The error is classified by the library: \<open>Some s\<close> where it is the
  Electrum protocol error with the string \<open>s\<close>; \<open>parse\<close> is \<open>serde_json::from_str\<close> after the
  prefix is removed, and a number that is no \<open>i64\<close> is out of range.
\<close>

definition parse_rpc_error_code ::
  "(error \<Rightarrow> string option) \<Rightarrow> (string \<Rightarrow> json outcome) \<Rightarrow> error \<Rightarrow> int outcome" where
  "parse_rpc_error_code electrum_protocol parse e =
     (case electrum_protocol e of
        None \<Rightarrow> Err (Msg ''Error is of incorrect variant'')
      | Some s \<Rightarrow> obind (parse s) (\<lambda>j.
          case j of
            JObject m \<Rightarrow>
              (case map_of m ''code'' of
                 None \<Rightarrow> Err (Msg ''No error code field'')
               | Some (JInt i) \<Rightarrow>
                   if - (2 ^ 63) \<le> i \<and> i < 2 ^ 63 then Ok i
                   else Err (Msg ''Error code is not an unsigned integer'')
               | Some (JFloat _) \<Rightarrow> Err (Msg ''Error code is not an unsigned integer'')
               | Some _ \<Rightarrow> Err (Msg ''Error code is not a number''))
          | _ \<Rightarrow> Err (Msg ''Json error is not json object '')))"

section \<open>Scalars of the two curves\<close>

datatype private_key = PrivateKey (pk_scalar: bdx_scalar)
datatype private_view_key = PrivateViewKey (pvk_key: private_key)
datatype bdx_public_key = BdxPublicKey (bdx_pk_point: bdx_point)
datatype public_view_key = PublicViewKey (pubvk_key: bdx_public_key)

definition private_key_add :: "lib \<Rightarrow> private_key \<Rightarrow> private_key \<Rightarrow> private_key" where
  "private_key_add L a b = PrivateKey (ed_scalar_add L (pk_scalar a) (pk_scalar b))"

definition bdx_public_from_private :: "lib \<Rightarrow> private_key \<Rightarrow> bdx_public_key" where
  "bdx_public_from_private L k = BdxPublicKey (ed_base_mul L (pk_scalar k))"

definition bdx_point_of :: "lib \<Rightarrow> bdx_public_key \<Rightarrow> ed_point outcome" where
  "bdx_point_of L P =
     expect_some ''PublicKey Can only be created if a valid point is found. QED''
       (ed_decompress L (bdx_pk_point P))"

definition bdx_public_key_add :: "lib \<Rightarrow> bdx_public_key \<Rightarrow> bdx_public_key \<Rightarrow> bdx_public_key outcome" where
  "bdx_public_key_add L P Q =
     obind (bdx_point_of L P) (\<lambda>p. obind (bdx_point_of L Q) (\<lambda>q.
       Ok (BdxPublicKey (ed_compress L (ed_point_add L p q)))))"

definition private_view_key_new_random :: "bdx_scalar \<Rightarrow> private_view_key" where
  "private_view_key_new_random drawn = PrivateViewKey (PrivateKey drawn)"

definition private_view_key_public :: "lib \<Rightarrow> private_view_key \<Rightarrow> public_view_key" where
  "private_view_key_public L v = PublicViewKey (bdx_public_from_private L (pvk_key v))"

definition private_view_key_add :: "lib \<Rightarrow> private_view_key \<Rightarrow> private_view_key \<Rightarrow> private_view_key" where
  "private_view_key_add L v w = PrivateViewKey (private_key_add L (pvk_key v) (pvk_key w))"

definition private_key_from_secp256k1_scalar :: "lib \<Rightarrow> scalar \<Rightarrow> private_key" where
  "private_key_from_secp256k1_scalar L s =
     PrivateKey (ed_from_bytes_mod_order L (rev (scalar_to_bytes L s)))"

definition to_secpfun_scalar :: "lib \<Rightarrow> bdx_scalar \<Rightarrow> scalar outcome" where
  "to_secpfun_scalar L s =
     obind (expect_some ''valid scalar'' (scalar_from_bytes L (rev (ed_to_bytes L s))))
       (\<lambda>x. expect_some ''non-zero scalar'' (scalar_non_zero L x))"

section \<open>What the code relies on of the crates\<close>

text \<open>The orders of the two groups.\<close>

definition secp_q :: nat where
  "secp_q = 0xFFFFFFFFFFFFFFFFFFFFFFFFFFFFFFFEBAAEDCE6AF48A03BBFD25E8CD0364141"

definition ed_l :: nat where
  "ed_l = 0x1000000000000000000000000000000014DEF9DEA2F79CD65812631A5CF5D3ED"

text \<open>
  \<open>scalar_laws\<close>: the byte formats. A secp256k1 scalar is 32 big-endian bytes and one is read from
  bytes below the order; an ed25519 scalar is 32 little-endian bytes, read modulo the order, and
  added modulo the order.
\<close>

definition scalar_laws :: "lib \<Rightarrow> bool" where
  "scalar_laws L \<longleftrightarrow>
     (\<forall>s. s < secp_q \<longrightarrow> scalar_to_bytes L s = rev (le_bytes 32 s)) \<and>
     (\<forall>s. s < 2 ^ 256 \<longrightarrow>
        scalar_from_bytes L (rev (le_bytes 32 s)) = (if s < secp_q then Some s else None)) \<and>
     (\<forall>s. scalar_non_zero L s = (if s = 0 then None else Some s)) \<and>
     (\<forall>s. s < ed_l \<longrightarrow> ed_to_bytes L s = le_bytes 32 s) \<and>
     (\<forall>s. s < 2 ^ 256 \<longrightarrow> ed_from_bytes_mod_order L (le_bytes 32 s) = s mod ed_l) \<and>
     (\<forall>a b. ed_scalar_add L a b = (a + b) mod ed_l)"

text \<open>
  \<open>signature_laws\<close>: completeness of ECDSA and of its adaptor signatures. A signature made with a
  key verifies under it; an encrypted signature made with a key verifies; decrypting a valid
  encrypted signature gives a valid signature, and that signature and the encrypted one give the
  decryption key.
\<close>

definition signature_laws :: "lib \<Rightarrow> bool" where
  "signature_laws L \<longleftrightarrow>
     (\<forall>s m. ecdsa_verify L (vk_for L s) m (ecdsa_sign L s m)) \<and>
     (\<forall>s Y m. verify_encrypted_signature L (vk_for L s) Y m (encrypted_sign L s Y m)) \<and>
     (\<forall>V y m c. verify_encrypted_signature L V (vk_for L y) m c \<longrightarrow>
        ecdsa_verify L V m (decrypt_signature L y c)) \<and>
     (\<forall>V y m c. verify_encrypted_signature L V (vk_for L y) m c \<longrightarrow>
        recover_decryption_key L (vk_for L y) (decrypt_signature L y c) c = Some y)"

text \<open>
  \<open>group_laws\<close>: the public key of a sum of scalars is the sum of the public keys, on points that
  decompress.
\<close>

definition group_laws :: "lib \<Rightarrow> bool" where
  "group_laws L \<longleftrightarrow>
     (\<forall>a. ed_decompress L (ed_base_mul L a) \<noteq> None) \<and>
     (\<forall>a b p q. ed_decompress L (ed_base_mul L a) = Some p \<longrightarrow>
        ed_decompress L (ed_base_mul L b) = Some q \<longrightarrow>
        ed_compress L (ed_point_add L p q) = ed_base_mul L (ed_scalar_add L a b))"

section \<open>Facts\<close>

lemma ed_l_less_secp_q: "ed_l < secp_q"
  by (simp add: ed_l_def secp_q_def)

lemma secp_q_bound: "secp_q < 2 ^ 256"
  by (simp add: secp_q_def)

lemma verify_sig_Ok [outcome_rules]:
  "verify_sig L V m s = Ok u \<longleftrightarrow> ecdsa_verify L (pk_point V) m s"
  by (simp add: verify_sig_def)

lemma verify_encsig_Ok [outcome_rules]:
  "verify_encsig L V Y m s = Ok u \<longleftrightarrow> verify_encrypted_signature L (pk_point V) (pk_point Y) m s"
  by (simp add: verify_encsig_def)

lemma to_secpfun_scalar_total:
  assumes "scalar_laws L" "0 < s" "s < ed_l"
  shows "to_secpfun_scalar L s = Ok s"
proof -
  have "s < secp_q" "s < 2 ^ 256"
    using assms ed_l_less_secp_q secp_q_bound by linarith+
  thus ?thesis
    using assms by (simp add: to_secpfun_scalar_def scalar_laws_def)
qed

lemma private_key_from_secp_id:
  assumes "scalar_laws L" "s < ed_l"
  shows "private_key_from_secp256k1_scalar L s = PrivateKey s"
proof -
  have "s < secp_q" "s < 2 ^ 256"
    using assms ed_l_less_secp_q secp_q_bound by linarith+
  thus ?thesis
    using assms by (simp add: private_key_from_secp256k1_scalar_def scalar_laws_def)
qed

lemma bdx_public_add_from_private:
  assumes "group_laws L"
  shows "bdx_public_key_add L (bdx_public_from_private L a) (bdx_public_from_private L b)
           = Ok (bdx_public_from_private L (private_key_add L a b))"
proof -
  have "ed_decompress L (ed_base_mul L x) \<noteq> None" for x
    using assms by (simp add: group_laws_def)
  then obtain p q where "ed_decompress L (ed_base_mul L (pk_scalar a)) = Some p"
    and "ed_decompress L (ed_base_mul L (pk_scalar b)) = Some q"
    by (metis not_None_eq)
  thus ?thesis
    using assms by (simp add: bdx_public_key_add_def bdx_public_from_private_def bdx_point_of_def
        private_key_add_def group_laws_def)
qed

lemma replace_char_absent: "c \<notin> set xs \<Longrightarrow> replace_char c s xs = xs"
  by (induction xs) auto

lemma replace_char_append: "replace_char c s (xs @ ys) = replace_char c s xs @ replace_char c s ys"
  by (induction xs) auto

end
