(* ===== verification/Bitcoin_Tx.thy ===== *)
theory Bitcoin_Tx
  imports Bitcoin_Crypto
begin

text \<open>
  The five Bitcoin transactions of a swap: \<open>bitcoin/lock.rs\<close>, \<open>bitcoin/cancel.rs\<close>,
  \<open>bitcoin/refund.rs\<close>, \<open>bitcoin/redeem.rs\<close> and \<open>bitcoin/punish.rs\<close>. Amounts are \<open>u64\<close>, on which
  the code's \<open>-\<close> wraps in a release build. Definitions carry the prefix of their struct.
\<close>

section \<open>TxLock\<close>

record tx_lock =
  tl_inner :: psbt
  tl_descriptor :: descriptor

definition SCRIPT_SIZE :: nat where "SCRIPT_SIZE = 34"
definition TX_LOCK_WEIGHT :: nat where "TX_LOCK_WEIGHT = 485"

text \<open>
  \<open>TxLock::new\<close>; \<open>send\<close> is \<open>wallet.send_to_address\<close> and \<open>net\<close> is \<open>wallet.get_network()\<close>.
\<close>

definition tx_lock_new ::
  "lib \<Rightarrow> network \<Rightarrow> (address \<Rightarrow> u64 \<Rightarrow> address option \<Rightarrow> ('w, psbt) io) \<Rightarrow>
   u64 \<Rightarrow> public_key \<Rightarrow> public_key \<Rightarrow> address \<Rightarrow> ('w, tx_lock) io" where
  "tx_lock_new L net send amount A B change =
     bindio (lift (build_shared_output_descriptor L (pk_point A) (pk_point B))) (\<lambda>d.
     bindio (lift (expect_ok ''can derive address from descriptor'' (desc_address L d net))) (\<lambda>addr.
     bindio (send addr amount (Some change)) (\<lambda>p.
     ret \<lparr>tl_inner = p, tl_descriptor = d\<rparr>)))"

definition shared_output_candidate :: "psbt \<Rightarrow> u64 \<Rightarrow> txout outcome" where
  "shared_output_candidate p btc =
     (case tx_output (unsigned_tx p) of
        [o1, o2] \<Rightarrow>
          if txo_value o1 = btc then Ok o1
          else if txo_value o2 = btc then Ok o2
          else Err (Msg ''Neither of the two provided outputs pays the right amount!'')
      | [o1] \<Rightarrow>
          if txo_value o1 = btc then Ok o1
          else Err (Msg ''The provided output does not pay the right amount!'')
      | _ \<Rightarrow> Err (Msg ''PSBT has wrong number of outputs, expected one or two. Something is fishy!''))"

definition tx_lock_from_psbt :: "lib \<Rightarrow> psbt \<Rightarrow> public_key \<Rightarrow> public_key \<Rightarrow> u64 \<Rightarrow> tx_lock outcome" where
  "tx_lock_from_psbt L p A B btc =
     obind (shared_output_candidate p btc) (\<lambda>cand.
     obind (build_shared_output_descriptor L (pk_point A) (pk_point B)) (\<lambda>d.
     if txo_script cand \<noteq> desc_script_pubkey L d
     then Err (Msg ''Output script is not a shared output'')
     else Ok \<lparr>tl_inner = p, tl_descriptor = d\<rparr>))"

definition tx_lock_output_vout :: "lib \<Rightarrow> tx_lock \<Rightarrow> nat outcome" where
  "tx_lock_output_vout L t =
     expect_some ''transaction contains lock output''
       (position (\<lambda>out. txo_script out = desc_script_pubkey L (tl_descriptor t))
         (tx_output (psbt_extract_tx L (tl_inner t))))"

definition tx_lock_amount :: "lib \<Rightarrow> tx_lock \<Rightarrow> u64 outcome" where
  "tx_lock_amount L t =
     obind (tx_lock_output_vout L t) (\<lambda>i.
     omap txo_value (index_vec (tx_output (psbt_extract_tx L (tl_inner t))) i))"

definition tx_lock_fee :: "lib \<Rightarrow> tx_lock \<Rightarrow> u64 outcome" where
  "tx_lock_fee L t =
     of_option (Msg ''The PSBT is missing a TxOut for an input'') (psbt_fee_amount L (tl_inner t))"

definition tx_lock_txid :: "lib \<Rightarrow> tx_lock \<Rightarrow> txid" where
  "tx_lock_txid L t = compute_txid L (psbt_extract_tx L (tl_inner t))"

definition tx_lock_as_outpoint :: "lib \<Rightarrow> tx_lock \<Rightarrow> (txid \<times> u32) outcome" where
  "tx_lock_as_outpoint L t =
     omap (\<lambda>i. (tx_lock_txid L t, of_nat i)) (tx_lock_output_vout L t)"

definition tx_lock_script_pubkey :: "lib \<Rightarrow> tx_lock \<Rightarrow> script" where
  "tx_lock_script_pubkey L t = desc_script_pubkey L (tl_descriptor t)"

definition spend_tx :: "txid \<times> u32 \<Rightarrow> u32 \<Rightarrow> u64 \<Rightarrow> script \<Rightarrow> transaction" where
  "spend_tx prev sequence v spk =
     \<lparr>tx_version = 2, tx_lock_time = 0,
      tx_input = [\<lparr>previous_output = prev, script_sig = [], tx_sequence = sequence, witness = []\<rparr>],
      tx_output = [\<lparr>txo_value = v, txo_script = spk\<rparr>]\<rparr>"

definition tx_lock_build_spend ::
  "lib \<Rightarrow> tx_lock \<Rightarrow> address \<Rightarrow> u32 option \<Rightarrow> u64 \<Rightarrow> transaction outcome" where
  "tx_lock_build_spend L t spend_address sequence spending_fee =
     obind (tx_lock_as_outpoint L t) (\<lambda>prev.
     obind (tx_lock_output_vout L t) (\<lambda>i.
     obind (index_vec (tx_output (psbt_extract_tx L (tl_inner t))) i) (\<lambda>out.
     Ok (spend_tx prev (case sequence of None \<Rightarrow> 0xFFFFFFFF | Some s \<Rightarrow> s)
           (txo_value out - spending_fee) (address_script L spend_address)))))"

section \<open>Signing and the witness stack\<close>

text \<open>
  The satisfier: a map from the two public keys to the two signatures. If both keys are the same,
  the second signature replaces the first, as in the code's \<open>HashMap\<close>.
\<close>

definition compressed_pubkey :: "lib \<Rightarrow> point \<Rightarrow> bitcoin_pubkey outcome" where
  "compressed_pubkey L p =
     omap (\<lambda>k. \<lparr>pk_compressed = True, pk_inner = k\<rparr>) (secp_pk_from_slice L (point_to_bytes L p))"

definition two_signatures ::
  "lib \<Rightarrow> bitcoin_pubkey \<Rightarrow> signature \<Rightarrow> bitcoin_pubkey \<Rightarrow> signature \<Rightarrow>
   (bitcoin_pubkey \<rightharpoonup> ecdsa_sig) outcome" where
  "two_signatures L A sig_a B sig_b =
     obind (secp_sig_from_compact L (sig_to_bytes L sig_a)) (\<lambda>sa.
     obind (secp_sig_from_compact L (sig_to_bytes L sig_b)) (\<lambda>sb.
     Ok (Map.empty(A \<mapsto> \<lparr>es_sig = sa, es_hash_ty = SigHashAll\<rparr>,
                    B \<mapsto> \<lparr>es_sig = sb, es_hash_ty = SigHashAll\<rparr>))))"

definition satisfier ::
  "lib \<Rightarrow> public_key \<Rightarrow> signature \<Rightarrow> public_key \<Rightarrow> signature \<Rightarrow>
   (bitcoin_pubkey \<rightharpoonup> ecdsa_sig) outcome" where
  "satisfier L A sig_a B sig_b =
     obind (compressed_pubkey L (pk_point A)) (\<lambda>A'.
     obind (compressed_pubkey L (pk_point B)) (\<lambda>B'.
     two_signatures L A' sig_a B' sig_b))"

text \<open>\<open>descriptor.satisfy(&mut tx.input[0], satisfier)?\<close>.\<close>

definition satisfy_input0 ::
  "lib \<Rightarrow> descriptor \<Rightarrow> transaction \<Rightarrow> (bitcoin_pubkey \<rightharpoonup> ecdsa_sig) \<Rightarrow> transaction outcome" where
  "satisfy_input0 L d tx sat =
     obind (index_vec (tx_input tx) 0) (\<lambda>i.
     obind (desc_satisfy L d i sat) (\<lambda>i'.
     Ok (tx\<lparr>tx_input := (tx_input tx)[0 := i']\<rparr>)))"

text \<open>
  \<open>SighashCache::new(&tx).segwit_signature_hash(0, script_code, value, All).expect("sighash")\<close>.
\<close>

definition segwit_digest :: "lib \<Rightarrow> transaction \<Rightarrow> descriptor \<Rightarrow> u64 \<Rightarrow> sighash outcome" where
  "segwit_digest L tx d v =
     obind (expect_ok ''scriptcode'' (desc_script_code L d)) (\<lambda>code.
     expect_ok ''sighash'' (segwit_sighash L tx 0 code v SigHashAll))"

text \<open>\<open>extract_signature_by_key\<close> of \<open>TxRedeem\<close> and of \<open>TxRefund\<close>, which share their body.\<close>

definition witness_signatures :: "lib \<Rightarrow> transaction \<Rightarrow> signature list outcome" where
  "witness_signatures L tx =
     (case tx_input tx of
        [i] \<Rightarrow>
          (case witness i of
             [sig_1, sig_2, _] \<Rightarrow> collect_results (extract_ecdsa_sig L) [sig_1, sig_2]
           | [] \<Rightarrow> Err EmptyWitnessStack
           | ws \<Rightarrow> Err (NotThreeWitnesses (length ws)))
      | [] \<Rightarrow> Err NoInputs
      | is \<Rightarrow> Err (TooManyInputs (length is)))"

definition signature_by_key ::
  "lib \<Rightarrow> transaction \<Rightarrow> public_key \<Rightarrow> sighash \<Rightarrow> signature outcome" where
  "signature_by_key L tx B digest =
     obind (witness_signatures L tx) (\<lambda>sigs.
     of_option (Msg ''Neither signature on witness stack verifies against B'')
       (find (\<lambda>s. verify_sig L B digest s = Ok ()) sigs))"

section \<open>TxCancel\<close>

record tx_cancel =
  tc_inner :: transaction
  tc_digest :: sighash
  tc_output_descriptor :: descriptor
  tc_lock_output_descriptor :: descriptor

definition tx_cancel_new ::
  "lib \<Rightarrow> tx_lock \<Rightarrow> cancel_timelock \<Rightarrow> public_key \<Rightarrow> public_key \<Rightarrow> u64 \<Rightarrow> tx_cancel outcome" where
  "tx_cancel_new L t ct A B spending_fee =
     obind (build_shared_output_descriptor L (pk_point A) (pk_point B)) (\<lambda>d.
     obind (tx_lock_as_outpoint L t) (\<lambda>prev.
     obind (tx_lock_amount L t) (\<lambda>amount.
     let tx = spend_tx prev (cancel_u32 ct) (amount - spending_fee) (desc_script_pubkey L d) in
     obind (segwit_digest L tx (tl_descriptor t) amount) (\<lambda>digest.
     Ok \<lparr>tc_inner = tx, tc_digest = digest, tc_output_descriptor = d,
         tc_lock_output_descriptor = tl_descriptor t\<rparr>))))"

definition tx_cancel_txid :: "lib \<Rightarrow> tx_cancel \<Rightarrow> txid" where
  "tx_cancel_txid L t = compute_txid L (tc_inner t)"

definition tx_cancel_amount :: "tx_cancel \<Rightarrow> u64 outcome" where
  "tx_cancel_amount t = omap txo_value (index_vec (tx_output (tc_inner t)) 0)"

definition tx_cancel_as_outpoint :: "lib \<Rightarrow> tx_cancel \<Rightarrow> txid \<times> u32" where
  "tx_cancel_as_outpoint L t = (compute_txid L (tc_inner t), 0)"

definition tx_cancel_script :: "lib \<Rightarrow> tx_cancel \<Rightarrow> script" where
  "tx_cancel_script L t = desc_script_pubkey L (tc_output_descriptor t)"

definition tx_cancel_add_signatures ::
  "lib \<Rightarrow> tx_cancel \<Rightarrow> public_key \<times> signature \<Rightarrow> public_key \<times> signature \<Rightarrow> transaction outcome" where
  "tx_cancel_add_signatures L t = (\<lambda>(A, sig_a) (B, sig_b).
     obind (satisfier L A sig_a B sig_b) (\<lambda>sat.
     satisfy_input0 L (tc_lock_output_descriptor t) (tc_inner t) sat))"

definition tx_cancel_complete_as_alice ::
  "lib \<Rightarrow> tx_cancel \<Rightarrow> secret_key \<Rightarrow> public_key \<Rightarrow> signature \<Rightarrow> transaction outcome" where
  "tx_cancel_complete_as_alice L t a B tx_cancel_sig_B =
     expect_ok ''sig_{a,b} to be valid signatures for tx_cancel''
       (tx_cancel_add_signatures L t (public a, sign L a (tc_digest t)) (B, tx_cancel_sig_B))"

definition tx_cancel_complete_as_bob ::
  "lib \<Rightarrow> tx_cancel \<Rightarrow> public_key \<Rightarrow> secret_key \<Rightarrow> signature \<Rightarrow> transaction outcome" where
  "tx_cancel_complete_as_bob L t A b tx_cancel_sig_A =
     expect_ok ''sig_{a,b} to be valid signatures for tx_cancel''
       (tx_cancel_add_signatures L t (A, tx_cancel_sig_A) (public b, sign L b (tc_digest t)))"

definition tx_cancel_build_spend ::
  "lib \<Rightarrow> tx_cancel \<Rightarrow> address \<Rightarrow> punish_timelock option \<Rightarrow> u64 \<Rightarrow> transaction outcome" where
  "tx_cancel_build_spend L t spend_address sequence spending_fee =
     obind (tx_cancel_amount t) (\<lambda>amount.
     Ok (spend_tx (tx_cancel_as_outpoint L t)
           (case sequence of None \<Rightarrow> 0xFFFFFFFF | Some s \<Rightarrow> punish_u32 s)
           (amount - spending_fee) (address_script L spend_address)))"

definition tx_cancel_weight :: nat where "tx_cancel_weight = 596"

section \<open>TxRefund\<close>

record tx_refund =
  tr_inner :: transaction
  tr_digest :: sighash
  tr_cancel_output_descriptor :: descriptor
  tr_watch_script :: script

definition tx_refund_new :: "lib \<Rightarrow> tx_cancel \<Rightarrow> address \<Rightarrow> u64 \<Rightarrow> tx_refund outcome" where
  "tx_refund_new L c refund_address spending_fee =
     obind (tx_cancel_build_spend L c refund_address None spending_fee) (\<lambda>tx.
     obind (tx_cancel_amount c) (\<lambda>amount.
     obind (segwit_digest L tx (tc_output_descriptor c) amount) (\<lambda>digest.
     Ok \<lparr>tr_inner = tx, tr_digest = digest, tr_cancel_output_descriptor = tc_output_descriptor c,
         tr_watch_script = address_script L refund_address\<rparr>)))"

definition tx_refund_txid :: "lib \<Rightarrow> tx_refund \<Rightarrow> txid" where
  "tx_refund_txid L t = compute_txid L (tr_inner t)"

definition tx_refund_add_signatures ::
  "lib \<Rightarrow> tx_refund \<Rightarrow> public_key \<times> signature \<Rightarrow> public_key \<times> signature \<Rightarrow> transaction outcome" where
  "tx_refund_add_signatures L t = (\<lambda>(A, sig_a) (B, sig_b).
     obind (satisfier L A sig_a B sig_b) (\<lambda>sat.
     satisfy_input0 L (tr_cancel_output_descriptor t) (tr_inner t) sat))"

definition tx_refund_extract_signature_by_key ::
  "lib \<Rightarrow> tx_refund \<Rightarrow> transaction \<Rightarrow> public_key \<Rightarrow> signature outcome" where
  "tx_refund_extract_signature_by_key L t candidate B = signature_by_key L candidate B (tr_digest t)"

definition tx_refund_extract_beldex_private_key ::
  "lib \<Rightarrow> tx_refund \<Rightarrow> transaction \<Rightarrow> bdx_scalar \<Rightarrow> secret_key \<Rightarrow> public_key \<Rightarrow> private_key outcome" where
  "tx_refund_extract_beldex_private_key L t published s_a a S_b_bitcoin =
     obind (with_context ''Failed to extract signature from Bitcoin refund tx''
              (tx_refund_extract_signature_by_key L t published (public a))) (\<lambda>sig.
     obind (with_context ''Failed to recover Beldex secret key from Bitcoin signature''
              (recover L S_b_bitcoin sig (encsign L a S_b_bitcoin (tr_digest t)))) (\<lambda>s_b.
     Ok (private_key_add L (PrivateKey s_a)
           (private_key_from_secp256k1_scalar L (sk_inner s_b)))))"

definition tx_refund_weight :: nat where "tx_refund_weight = 548"

section \<open>TxRedeem\<close>

record tx_redeem =
  td_inner :: transaction
  td_digest :: sighash
  td_lock_output_descriptor :: descriptor
  td_watch_script :: script

definition tx_redeem_new :: "lib \<Rightarrow> tx_lock \<Rightarrow> address \<Rightarrow> u64 \<Rightarrow> tx_redeem outcome" where
  "tx_redeem_new L t redeem_address spending_fee =
     obind (tx_lock_build_spend L t redeem_address None spending_fee) (\<lambda>tx.
     obind (tx_lock_amount L t) (\<lambda>amount.
     obind (segwit_digest L tx (tl_descriptor t) amount) (\<lambda>digest.
     Ok \<lparr>td_inner = tx, td_digest = digest, td_lock_output_descriptor = tl_descriptor t,
         td_watch_script = address_script L redeem_address\<rparr>)))"

definition tx_redeem_txid :: "lib \<Rightarrow> tx_redeem \<Rightarrow> txid" where
  "tx_redeem_txid L t = compute_txid L (td_inner t)"

definition tx_redeem_complete ::
  "lib \<Rightarrow> tx_redeem \<Rightarrow> encsig \<Rightarrow> secret_key \<Rightarrow> scalar \<Rightarrow> public_key \<Rightarrow> transaction outcome" where
  "tx_redeem_complete L t encrypted_signature a s_a B =
     obind (with_context ''Invalid encrypted signature received''
              (verify_encsig L B (public_key_from_scalar L s_a) (td_digest t) encrypted_signature)) (\<lambda>_.
     obind (satisfier L (public a) (sign L a (td_digest t))
              B (decrypt_signature L s_a encrypted_signature)) (\<lambda>sat.
     with_context ''Failed to sign Bitcoin redeem transaction''
       (satisfy_input0 L (td_lock_output_descriptor t) (td_inner t) sat)))"

definition tx_redeem_extract_signature_by_key ::
  "lib \<Rightarrow> tx_redeem \<Rightarrow> transaction \<Rightarrow> public_key \<Rightarrow> signature outcome" where
  "tx_redeem_extract_signature_by_key L t candidate B = signature_by_key L candidate B (td_digest t)"

definition tx_redeem_weight :: nat where "tx_redeem_weight = 548"

section \<open>TxPunish\<close>

record tx_punish =
  tp_inner :: transaction
  tp_digest :: sighash
  tp_cancel_output_descriptor :: descriptor
  tp_watch_script :: script

definition tx_punish_new :: "lib \<Rightarrow> tx_cancel \<Rightarrow> address \<Rightarrow> punish_timelock \<Rightarrow> u64 \<Rightarrow> tx_punish outcome" where
  "tx_punish_new L c punish_address pt spending_fee =
     obind (tx_cancel_build_spend L c punish_address (Some pt) spending_fee) (\<lambda>tx.
     obind (tx_cancel_amount c) (\<lambda>amount.
     obind (segwit_digest L tx (tc_output_descriptor c) amount) (\<lambda>digest.
     Ok \<lparr>tp_inner = tx, tp_digest = digest, tp_cancel_output_descriptor = tc_output_descriptor c,
         tp_watch_script = address_script L punish_address\<rparr>)))"

definition tx_punish_complete ::
  "lib \<Rightarrow> tx_punish \<Rightarrow> signature \<Rightarrow> secret_key \<Rightarrow> public_key \<Rightarrow> transaction outcome" where
  "tx_punish_complete L t tx_punish_sig_bob a B =
     obind (bitcoin_pubkey_try_from L (public a)) (\<lambda>A'.
     obind (bitcoin_pubkey_try_from L B) (\<lambda>B'.
     obind (two_signatures L A' (sign L a (tp_digest t)) B' tx_punish_sig_bob) (\<lambda>sat.
     with_context ''Failed to satisfy inputs with given signatures''
       (satisfy_input0 L (tp_cancel_output_descriptor t) (tp_inner t) sat))))"

definition tx_punish_weight :: nat where "tx_punish_weight = 548"

end
