(* ===== verification/Beldex_Types.thy ===== *)
theory Beldex_Types
  imports Bitcoin_Tx
begin

text \<open>
  The data of \<open>beldex.rs\<close> (amounts, transfer proofs, addresses), the two requests of
  \<open>beldex/wallet.rs\<close> and the configuration of \<open>env.rs\<close>. A Bitcoin amount is its number of
  satoshi, a \<open>Duration\<close> its number of nanoseconds.
\<close>

section \<open>Amounts\<close>

type_synonym btc_amount = u64

datatype bdx_amount = BdxAmount (as_atomic: u64)

instantiation bdx_amount :: linorder
begin

definition less_eq_bdx_amount :: "bdx_amount \<Rightarrow> bdx_amount \<Rightarrow> bool" where
  "less_eq_bdx_amount a b = (as_atomic a \<le> as_atomic b)"

definition less_bdx_amount :: "bdx_amount \<Rightarrow> bdx_amount \<Rightarrow> bool" where
  "less_bdx_amount a b = (as_atomic a < as_atomic b)"

instance
  by standard (auto simp: less_eq_bdx_amount_def less_bdx_amount_def intro: bdx_amount.expand)

end

definition BDX_OFFSET :: u64 where "BDX_OFFSET = 1000000000"

definition from_atomic :: "u64 \<Rightarrow> bdx_amount" where
  "from_atomic n = BdxAmount n"

definition BELDEX_FEE :: bdx_amount where "BELDEX_FEE = from_atomic 20000000"
definition BDX_ZERO :: bdx_amount where "BDX_ZERO = BdxAmount 0"
definition ONE_BDX :: bdx_amount where "ONE_BDX = BdxAmount BDX_OFFSET"

definition bdx_add :: "bdx_amount \<Rightarrow> bdx_amount \<Rightarrow> bdx_amount" where
  "bdx_add a b = BdxAmount (as_atomic a + as_atomic b)"

definition bdx_sub :: "bdx_amount \<Rightarrow> bdx_amount \<Rightarrow> bdx_amount" where
  "bdx_sub a b = BdxAmount (as_atomic a - as_atomic b)"

definition bdx_mul :: "bdx_amount \<Rightarrow> u64 \<Rightarrow> bdx_amount" where
  "bdx_mul a n = BdxAmount (as_atomic a * n)"

text \<open>
  The operations of the crate \<open>rust_decimal\<close> that the price arithmetic uses, as arguments of the
  definitions.
\<close>

record 'd decimal =
  dec_from_u64 :: "u64 \<Rightarrow> 'd"
  dec_div :: "'d \<Rightarrow> 'd \<Rightarrow> 'd"
  dec_checked_div :: "'d \<Rightarrow> 'd \<Rightarrow> 'd option"
  dec_checked_mul :: "'d \<Rightarrow> 'd \<Rightarrow> 'd option"
  dec_mul :: "'d \<Rightarrow> 'd \<Rightarrow> 'd outcome"
  dec_to_u64 :: "'d \<Rightarrow> u64 option"

definition max_bitcoin_for_price :: "'d decimal \<Rightarrow> bdx_amount \<Rightarrow> btc_amount \<Rightarrow> btc_amount option" where
  "max_bitcoin_for_price D amount ask_price =
     (let atomic_minus_fee = saturating_sub (as_atomic amount) (as_atomic BELDEX_FEE) in
      if atomic_minus_fee = 0 then Some 0
      else
        let ask_sats_per_atomic = dec_div D (dec_from_u64 D ask_price) (dec_from_u64 D BDX_OFFSET) in
        case dec_checked_mul D (dec_from_u64 D atomic_minus_fee) ask_sats_per_atomic of
          None \<Rightarrow> None
        | Some max_sats \<Rightarrow> dec_to_u64 D max_sats)"

definition bdx_from_decimal :: "'d decimal \<Rightarrow> 'd \<Rightarrow> bdx_amount outcome" where
  "bdx_from_decimal D amount =
     obind (dec_mul D amount (dec_from_u64 D BDX_OFFSET)) (\<lambda>atomics.
       omap BdxAmount (of_option (Msg ''Overflow, cannot convert to u64'') (dec_to_u64 D atomics)))"

section \<open>Transfers\<close>

text \<open>\<open>BlockHeight\<close> of the crate \<open>beldex-rpc\<close>.\<close>

type_synonym bdx_height = u32

datatype tx_hash = TxHash (hash_string: string)

record transfer_proof =
  tpf_hash :: tx_hash
  tpf_key :: private_key

definition transfer_proof_new :: "tx_hash \<Rightarrow> private_key \<Rightarrow> transfer_proof" where
  "transfer_proof_new h k = \<lparr>tpf_hash = h, tpf_key = k\<rparr>"

record transfer_request =
  trq_public_spend_key :: bdx_public_key
  trq_public_view_key :: public_view_key
  trq_amount :: bdx_amount

record watch_request =
  wrq_public_spend_key :: bdx_public_key
  wrq_public_view_key :: public_view_key
  wrq_transfer_proof :: transfer_proof
  wrq_conf_target :: u64
  wrq_expected :: bdx_amount

section \<open>Beldex addresses\<close>

datatype bdx_network = BdxMainnet | BdxStagenet | BdxTestnet

record bdx_address =
  ba_network :: bdx_network
  ba_public_spend :: bdx_public_key
  ba_public_view :: bdx_public_key

primrec bdx_network_code :: "bdx_network \<Rightarrow> nat" where
  "bdx_network_code BdxMainnet = 0"
| "bdx_network_code BdxStagenet = 1"
| "bdx_network_code BdxTestnet = 2"

text \<open>\<open>Address::standard\<close> of the vendored \<open>monero\<close> crate.\<close>

definition bdx_address_standard :: "bdx_network \<Rightarrow> bdx_public_key \<Rightarrow> bdx_public_key \<Rightarrow> bdx_address" where
  "bdx_address_standard n s v = \<lparr>ba_network = n, ba_public_spend = s, ba_public_view = v\<rparr>"

definition bdx_address_validate :: "bdx_address \<Rightarrow> bdx_network \<Rightarrow> bdx_address outcome" where
  "bdx_address_validate a expected =
     (if ba_network a \<noteq> expected
      then Err (BeldexAddressNetworkMismatch (bdx_network_code expected) (bdx_network_code (ba_network a)))
      else Ok a)"

definition bdx_address_validate_is_testnet :: "bdx_address \<Rightarrow> bool \<Rightarrow> bdx_address outcome" where
  "bdx_address_validate_is_testnet a is_testnet =
     bdx_address_validate a (if is_testnet then BdxTestnet else BdxMainnet)"

section \<open>Configuration\<close>

definition secs :: "nat \<Rightarrow> nat" where "secs n = n * 1000000000"

record config =
  bitcoin_lock_mempool_timeout :: nat
  bitcoin_lock_confirmed_timeout :: nat
  bitcoin_finality_confirmations :: u32
  bitcoin_avg_block_time :: nat
  bitcoin_cancel_timelock :: cancel_timelock
  bitcoin_punish_timelock :: punish_timelock
  bitcoin_network :: network
  beldex_avg_block_time :: nat
  beldex_finality_confirmations :: u64
  beldex_network :: bdx_network

definition mainnet_config :: config where
  "mainnet_config =
     \<lparr>bitcoin_lock_mempool_timeout = secs (10 * 60),
      bitcoin_lock_confirmed_timeout = secs (2 * 3600),
      bitcoin_finality_confirmations = 1,
      bitcoin_avg_block_time = secs (10 * 60),
      bitcoin_cancel_timelock = CancelTimelock 72,
      bitcoin_punish_timelock = PunishTimelock 72,
      bitcoin_network = Bitcoin,
      beldex_avg_block_time = secs (2 * 60),
      beldex_finality_confirmations = 2,
      beldex_network = BdxMainnet\<rparr>"

definition testnet_config :: config where
  "testnet_config =
     \<lparr>bitcoin_lock_mempool_timeout = secs (10 * 60),
      bitcoin_lock_confirmed_timeout = secs 3600,
      bitcoin_finality_confirmations = 1,
      bitcoin_avg_block_time = secs (10 * 60),
      bitcoin_cancel_timelock = CancelTimelock 12,
      bitcoin_punish_timelock = PunishTimelock 6,
      bitcoin_network = Testnet,
      beldex_avg_block_time = secs (2 * 60),
      beldex_finality_confirmations = 2,
      beldex_network = BdxTestnet\<rparr>"

definition regtest_config :: config where
  "regtest_config =
     \<lparr>bitcoin_lock_mempool_timeout = secs 30,
      bitcoin_lock_confirmed_timeout = secs 60,
      bitcoin_finality_confirmations = 1,
      bitcoin_avg_block_time = secs 5,
      bitcoin_cancel_timelock = CancelTimelock 100,
      bitcoin_punish_timelock = PunishTimelock 50,
      bitcoin_network = Regtest,
      beldex_avg_block_time = secs 1,
      beldex_finality_confirmations = 2,
      beldex_network = BdxMainnet\<rparr>"

definition sync_interval :: "nat \<Rightarrow> nat" where
  "sync_interval avg_block_time = max (avg_block_time div 10) (secs 1)"

definition bitcoin_sync_interval :: "config \<Rightarrow> nat" where
  "bitcoin_sync_interval c = sync_interval (bitcoin_avg_block_time c)"

definition beldex_sync_interval :: "config \<Rightarrow> nat" where
  "beldex_sync_interval c = sync_interval (beldex_avg_block_time c)"

text \<open>\<open>env::new\<close>; the two optional overrides are those of the maker's configuration file.\<close>

definition env_new :: "bool \<Rightarrow> u32 option \<Rightarrow> u64 option \<Rightarrow> config" where
  "env_new is_testnet btc_finality bdx_finality =
     (let c0 = if is_testnet then testnet_config else mainnet_config;
          c1 = (case btc_finality of
                  Some n \<Rightarrow> c0\<lparr>bitcoin_finality_confirmations := n\<rparr>
                | None \<Rightarrow> c0)
      in case bdx_finality of
           Some n \<Rightarrow> c1\<lparr>beldex_finality_confirmations := n\<rparr>
         | None \<Rightarrow> c1)"

end
