(* ===== verification/Alice_State.thy ===== *)
theory Alice_State
  imports Beldex_Types
begin

text \<open>
  \<open>protocol.rs\<close>'s five setup messages and \<open>protocol/alice/state.rs\<close>: the states \<open>State0\<close> to
  \<open>State3\<close> that Alice goes through while a swap is set up, with their \<open>receive\<close> and
  \<open>next_message\<close>, the transactions she builds from \<open>State3\<close>, and the states of her swap.
  The methods that use a wallet are in \<open>Alice_Swap\<close>. Fields carry the prefix of their struct.
\<close>

section \<open>Messages\<close>

type_synonym uuid = nat
type_synonym peer_id = nat

record message0 =
  m0_swap_id :: uuid
  m0_B :: public_key
  m0_S_b_beldex :: bdx_public_key
  m0_S_b_bitcoin :: public_key
  m0_dleq_proof_s_b :: dleq_proof
  m0_v_b :: private_view_key
  m0_refund_address :: address
  m0_tx_refund_fee :: btc_amount
  m0_tx_cancel_fee :: btc_amount

record message1 =
  m1_A :: public_key
  m1_S_a_beldex :: bdx_public_key
  m1_S_a_bitcoin :: public_key
  m1_dleq_proof_s_a :: dleq_proof
  m1_v_a :: private_view_key
  m1_redeem_address :: address
  m1_punish_address :: address
  m1_tx_redeem_fee :: btc_amount
  m1_tx_punish_fee :: btc_amount

record message2 =
  m2_psbt :: psbt

record message3 =
  m3_tx_cancel_sig :: signature
  m3_tx_refund_encsig :: encsig

record message4 =
  m4_tx_punish_sig :: signature
  m4_tx_cancel_sig :: signature

section \<open>State0\<close>

record alice_state0 =
  a0_a :: secret_key
  a0_s_a :: bdx_scalar
  a0_v_a :: private_view_key
  a0_S_a_beldex :: bdx_public_key
  a0_S_a_bitcoin :: public_key
  a0_dleq_proof_s_a :: dleq_proof
  a0_btc :: btc_amount
  a0_bdx :: bdx_amount
  a0_cancel_timelock :: cancel_timelock
  a0_punish_timelock :: punish_timelock
  a0_redeem_address :: address
  a0_punish_address :: address
  a0_tx_redeem_fee :: btc_amount
  a0_tx_punish_fee :: btc_amount

text \<open>
  \<open>State0::new\<close>. The values drawn from the random number generator are arguments: the secret key
  \<open>a\<close>, the view key, the scalar \<open>s_a\<close> and the randomness of the proof.
\<close>

definition alice_state0_new ::
  "lib \<Rightarrow> btc_amount \<Rightarrow> bdx_amount \<Rightarrow> config \<Rightarrow> address \<Rightarrow> address \<Rightarrow> btc_amount \<Rightarrow> btc_amount \<Rightarrow>
   scalar \<Rightarrow> bdx_scalar \<Rightarrow> bdx_scalar \<Rightarrow> nat \<Rightarrow> alice_state0" where
  "alice_state0_new L btc bdx env_config redeem_address punish_address tx_redeem_fee tx_punish_fee
     rand_a rand_v rand_s rand_proof =
     (let a = secret_key_new_random L rand_a;
          v_a = private_view_key_new_random rand_v;
          s_a = rand_s;
          (proof_a, (S_a_bitcoin, S_a_point)) = dleq_prove L s_a rand_proof
      in \<lparr>a0_a = a, a0_s_a = s_a, a0_v_a = v_a,
          a0_S_a_beldex = BdxPublicKey (ed_compress L S_a_point),
          a0_S_a_bitcoin = PublicKey S_a_bitcoin,
          a0_dleq_proof_s_a = proof_a, a0_btc = btc, a0_bdx = bdx,
          a0_cancel_timelock = bitcoin_cancel_timelock env_config,
          a0_punish_timelock = bitcoin_punish_timelock env_config,
          a0_redeem_address = redeem_address, a0_punish_address = punish_address,
          a0_tx_redeem_fee = tx_redeem_fee, a0_tx_punish_fee = tx_punish_fee\<rparr>)"

section \<open>State1\<close>

record alice_state1 =
  a1_a :: secret_key
  a1_B :: public_key
  a1_s_a :: bdx_scalar
  a1_S_a_beldex :: bdx_public_key
  a1_S_a_bitcoin :: public_key
  a1_S_b_beldex :: bdx_public_key
  a1_S_b_bitcoin :: public_key
  a1_v :: private_view_key
  a1_v_a :: private_view_key
  a1_dleq_proof_s_a :: dleq_proof
  a1_btc :: btc_amount
  a1_bdx :: bdx_amount
  a1_cancel_timelock :: cancel_timelock
  a1_punish_timelock :: punish_timelock
  a1_refund_address :: address
  a1_redeem_address :: address
  a1_punish_address :: address
  a1_tx_redeem_fee :: btc_amount
  a1_tx_punish_fee :: btc_amount
  a1_tx_refund_fee :: btc_amount
  a1_tx_cancel_fee :: btc_amount

definition alice_state0_receive :: "lib \<Rightarrow> alice_state0 \<Rightarrow> message0 \<Rightarrow> (uuid \<times> alice_state1) outcome" where
  "alice_state0_receive L st msg =
     obind (of_option (Msg ''S_b is not a beldex curve point'')
              (ed_decompress L (bdx_pk_point (m0_S_b_beldex msg)))) (\<lambda>S_b.
     if \<not> dleq_verify L (m0_dleq_proof_s_b msg) (pk_point (m0_S_b_bitcoin msg), S_b)
     then Err (Msg ''Bob's dleq proof doesn't verify'')
     else
       let v = private_view_key_add L (a0_v_a st) (m0_v_b msg) in
       Ok (m0_swap_id msg,
         \<lparr>a1_a = a0_a st, a1_B = m0_B msg, a1_s_a = a0_s_a st, a1_S_a_beldex = a0_S_a_beldex st,
          a1_S_a_bitcoin = a0_S_a_bitcoin st, a1_S_b_beldex = m0_S_b_beldex msg,
          a1_S_b_bitcoin = m0_S_b_bitcoin msg, a1_v = v, a1_v_a = a0_v_a st,
          a1_dleq_proof_s_a = a0_dleq_proof_s_a st, a1_btc = a0_btc st, a1_bdx = a0_bdx st,
          a1_cancel_timelock = a0_cancel_timelock st, a1_punish_timelock = a0_punish_timelock st,
          a1_refund_address = m0_refund_address msg, a1_redeem_address = a0_redeem_address st,
          a1_punish_address = a0_punish_address st, a1_tx_redeem_fee = a0_tx_redeem_fee st,
          a1_tx_punish_fee = a0_tx_punish_fee st, a1_tx_refund_fee = m0_tx_refund_fee msg,
          a1_tx_cancel_fee = m0_tx_cancel_fee msg\<rparr>))"

definition alice_state1_next_message :: "alice_state1 \<Rightarrow> message1" where
  "alice_state1_next_message st =
     \<lparr>m1_A = public (a1_a st), m1_S_a_beldex = a1_S_a_beldex st, m1_S_a_bitcoin = a1_S_a_bitcoin st,
      m1_dleq_proof_s_a = a1_dleq_proof_s_a st, m1_v_a = a1_v_a st,
      m1_redeem_address = a1_redeem_address st, m1_punish_address = a1_punish_address st,
      m1_tx_redeem_fee = a1_tx_redeem_fee st, m1_tx_punish_fee = a1_tx_punish_fee st\<rparr>"

section \<open>State2\<close>

record alice_state2 =
  a2_a :: secret_key
  a2_B :: public_key
  a2_s_a :: bdx_scalar
  a2_S_b_beldex :: bdx_public_key
  a2_S_b_bitcoin :: public_key
  a2_v :: private_view_key
  a2_btc :: btc_amount
  a2_bdx :: bdx_amount
  a2_cancel_timelock :: cancel_timelock
  a2_punish_timelock :: punish_timelock
  a2_refund_address :: address
  a2_redeem_address :: address
  a2_punish_address :: address
  a2_tx_lock :: tx_lock
  a2_tx_redeem_fee :: btc_amount
  a2_tx_punish_fee :: btc_amount
  a2_tx_refund_fee :: btc_amount
  a2_tx_cancel_fee :: btc_amount

definition alice_state1_receive :: "lib \<Rightarrow> alice_state1 \<Rightarrow> message2 \<Rightarrow> alice_state2 outcome" where
  "alice_state1_receive L st msg =
     obind (with_context ''Failed to re-construct TxLock from received PSBT''
              (tx_lock_from_psbt L (m2_psbt msg) (public (a1_a st)) (a1_B st) (a1_btc st))) (\<lambda>lock.
     Ok \<lparr>a2_a = a1_a st, a2_B = a1_B st, a2_s_a = a1_s_a st, a2_S_b_beldex = a1_S_b_beldex st,
         a2_S_b_bitcoin = a1_S_b_bitcoin st, a2_v = a1_v st, a2_btc = a1_btc st,
         a2_bdx = a1_bdx st, a2_cancel_timelock = a1_cancel_timelock st,
         a2_punish_timelock = a1_punish_timelock st, a2_refund_address = a1_refund_address st,
         a2_redeem_address = a1_redeem_address st, a2_punish_address = a1_punish_address st,
         a2_tx_lock = lock, a2_tx_redeem_fee = a1_tx_redeem_fee st,
         a2_tx_punish_fee = a1_tx_punish_fee st, a2_tx_refund_fee = a1_tx_refund_fee st,
         a2_tx_cancel_fee = a1_tx_cancel_fee st\<rparr>)"

definition alice_state2_next_message :: "lib \<Rightarrow> alice_state2 \<Rightarrow> message3 outcome" where
  "alice_state2_next_message L st =
     obind (expect_ok ''valid cancel tx''
              (tx_cancel_new L (a2_tx_lock st) (a2_cancel_timelock st) (public (a2_a st)) (a2_B st)
                (a2_tx_cancel_fee st))) (\<lambda>cancel.
     obind (tx_refund_new L cancel (a2_refund_address st) (a2_tx_refund_fee st)) (\<lambda>refund.
     Ok \<lparr>m3_tx_cancel_sig = sign L (a2_a st) (tc_digest cancel),
         m3_tx_refund_encsig = encsign L (a2_a st) (a2_S_b_bitcoin st) (tr_digest refund)\<rparr>))"

section \<open>State3\<close>

record alice_state3 =
  a3_a :: secret_key
  a3_B :: public_key
  a3_s_a :: bdx_scalar
  a3_S_b_beldex :: bdx_public_key
  a3_S_b_bitcoin :: public_key
  a3_v :: private_view_key
  a3_btc :: btc_amount
  a3_bdx :: bdx_amount
  a3_cancel_timelock :: cancel_timelock
  a3_punish_timelock :: punish_timelock
  a3_refund_address :: address
  a3_redeem_address :: address
  a3_punish_address :: address
  a3_tx_lock :: tx_lock
  a3_tx_punish_sig_bob :: signature
  a3_tx_cancel_sig_bob :: signature
  a3_tx_redeem_fee :: btc_amount
  a3_tx_punish_fee :: btc_amount
  a3_tx_refund_fee :: btc_amount
  a3_tx_cancel_fee :: btc_amount

definition alice_state2_receive :: "lib \<Rightarrow> alice_state2 \<Rightarrow> message4 \<Rightarrow> alice_state3 outcome" where
  "alice_state2_receive L st msg =
     obind (tx_cancel_new L (a2_tx_lock st) (a2_cancel_timelock st) (public (a2_a st)) (a2_B st)
              (a2_tx_cancel_fee st)) (\<lambda>cancel.
     obind (with_context ''Failed to verify cancel transaction''
              (verify_sig L (a2_B st) (tc_digest cancel) (m4_tx_cancel_sig msg))) (\<lambda>_.
     obind (tx_punish_new L cancel (a2_punish_address st) (a2_punish_timelock st)
              (a2_tx_punish_fee st)) (\<lambda>punish.
     obind (with_context ''Failed to verify punish transaction''
              (verify_sig L (a2_B st) (tp_digest punish) (m4_tx_punish_sig msg))) (\<lambda>_.
     Ok \<lparr>a3_a = a2_a st, a3_B = a2_B st, a3_s_a = a2_s_a st, a3_S_b_beldex = a2_S_b_beldex st,
         a3_S_b_bitcoin = a2_S_b_bitcoin st, a3_v = a2_v st, a3_btc = a2_btc st,
         a3_bdx = a2_bdx st, a3_cancel_timelock = a2_cancel_timelock st,
         a3_punish_timelock = a2_punish_timelock st, a3_refund_address = a2_refund_address st,
         a3_redeem_address = a2_redeem_address st, a3_punish_address = a2_punish_address st,
         a3_tx_lock = a2_tx_lock st, a3_tx_punish_sig_bob = m4_tx_punish_sig msg,
         a3_tx_cancel_sig_bob = m4_tx_cancel_sig msg, a3_tx_redeem_fee = a2_tx_redeem_fee st,
         a3_tx_punish_fee = a2_tx_punish_fee st, a3_tx_refund_fee = a2_tx_refund_fee st,
         a3_tx_cancel_fee = a2_tx_cancel_fee st\<rparr>))))"

definition alice_public_spend_key :: "lib \<Rightarrow> alice_state3 \<Rightarrow> bdx_public_key outcome" where
  "alice_public_spend_key L st =
     bdx_public_key_add L (bdx_public_from_private L (PrivateKey (a3_s_a st))) (a3_S_b_beldex st)"

definition alice_lock_bdx_transfer_request :: "lib \<Rightarrow> alice_state3 \<Rightarrow> transfer_request outcome" where
  "alice_lock_bdx_transfer_request L st =
     obind (alice_public_spend_key L st) (\<lambda>S.
     Ok \<lparr>trq_public_spend_key = S, trq_public_view_key = private_view_key_public L (a3_v st),
         trq_amount = a3_bdx st\<rparr>)"

definition alice_lock_bdx_watch_request ::
  "lib \<Rightarrow> alice_state3 \<Rightarrow> transfer_proof \<Rightarrow> u64 \<Rightarrow> watch_request outcome" where
  "alice_lock_bdx_watch_request L st proof conf_target =
     obind (alice_public_spend_key L st) (\<lambda>S.
     Ok \<lparr>wrq_public_spend_key = S, wrq_public_view_key = private_view_key_public L (a3_v st),
         wrq_transfer_proof = proof, wrq_conf_target = conf_target, wrq_expected = a3_bdx st\<rparr>)"

definition alice_tx_cancel :: "lib \<Rightarrow> alice_state3 \<Rightarrow> tx_cancel outcome" where
  "alice_tx_cancel L st =
     expect_ok ''valid cancel tx''
       (tx_cancel_new L (a3_tx_lock st) (a3_cancel_timelock st) (public (a3_a st)) (a3_B st)
         (a3_tx_cancel_fee st))"

definition alice_tx_refund :: "lib \<Rightarrow> alice_state3 \<Rightarrow> tx_refund outcome" where
  "alice_tx_refund L st =
     obind (alice_tx_cancel L st) (\<lambda>c. tx_refund_new L c (a3_refund_address st) (a3_tx_refund_fee st))"

definition alice_tx_redeem :: "lib \<Rightarrow> alice_state3 \<Rightarrow> tx_redeem outcome" where
  "alice_tx_redeem L st = tx_redeem_new L (a3_tx_lock st) (a3_redeem_address st) (a3_tx_redeem_fee st)"

definition alice_tx_punish :: "lib \<Rightarrow> alice_state3 \<Rightarrow> tx_punish outcome" where
  "alice_tx_punish L st =
     obind (alice_tx_cancel L st) (\<lambda>c.
       tx_punish_new L c (a3_punish_address st) (a3_punish_timelock st) (a3_tx_punish_fee st))"

definition alice_extract_beldex_private_key ::
  "lib \<Rightarrow> alice_state3 \<Rightarrow> transaction \<Rightarrow> private_key outcome" where
  "alice_extract_beldex_private_key L st published =
     obind (alice_tx_refund L st) (\<lambda>r.
       tx_refund_extract_beldex_private_key L r published (a3_s_a st) (a3_a st) (a3_S_b_bitcoin st))"

definition alice_signed_redeem_transaction ::
  "lib \<Rightarrow> alice_state3 \<Rightarrow> encsig \<Rightarrow> transaction outcome" where
  "alice_signed_redeem_transaction L st sig =
     obind (alice_tx_redeem L st) (\<lambda>r.
     obind (to_secpfun_scalar L (a3_s_a st)) (\<lambda>s_a.
     with_context ''Failed to complete Bitcoin redeem transaction''
       (tx_redeem_complete L r sig (a3_a st) s_a (a3_B st))))"

definition alice_signed_cancel_transaction :: "lib \<Rightarrow> alice_state3 \<Rightarrow> transaction outcome" where
  "alice_signed_cancel_transaction L st =
     obind (alice_tx_cancel L st) (\<lambda>c.
     with_context ''Failed to complete Bitcoin cancel transaction''
       (tx_cancel_complete_as_alice L c (a3_a st) (a3_B st) (a3_tx_cancel_sig_bob st)))"

definition alice_signed_punish_transaction :: "lib \<Rightarrow> alice_state3 \<Rightarrow> transaction outcome" where
  "alice_signed_punish_transaction L st =
     obind (alice_tx_punish L st) (\<lambda>p.
     with_context ''Failed to complete Bitcoin punish transaction''
       (tx_punish_complete L p (a3_tx_punish_sig_bob st) (a3_a st) (a3_B st)))"

section \<open>The states of Alice's swap\<close>

datatype alice_state =
    AStarted alice_state3
  | ABtcLockTransactionSeen alice_state3
  | ABtcLocked alice_state3
  | ABeldexLockTransactionSent bdx_height transfer_proof alice_state3
  | ABeldexLocked bdx_height transfer_proof alice_state3
  | ABeldexLockTransferProofSent bdx_height transfer_proof alice_state3
  | AEncSigLearned bdx_height transfer_proof encsig alice_state3
  | ABtcRedeemTransactionPublished alice_state3
  | ABtcRedeemed
  | ABtcCancelled bdx_height transfer_proof alice_state3
  | ABtcRefunded bdx_height transfer_proof private_key alice_state3
  | ABtcPunishable bdx_height transfer_proof alice_state3
  | ABeldexRefunded
  | ACancelTimelockExpired bdx_height transfer_proof alice_state3
  | ABtcPunished alice_state3
  | ASafelyAborted

definition alice_state_display :: "alice_state \<Rightarrow> string" where
  "alice_state_display s = (case s of
     AStarted _ \<Rightarrow> ''started''
   | ABtcLockTransactionSeen _ \<Rightarrow> ''bitcoin lock transaction in mempool''
   | ABtcLocked _ \<Rightarrow> ''btc is locked''
   | ABeldexLockTransactionSent _ _ _ \<Rightarrow> ''bdx lock transaction sent''
   | ABeldexLocked _ _ _ \<Rightarrow> ''bdx is locked''
   | ABeldexLockTransferProofSent _ _ _ \<Rightarrow> ''bdx lock transfer proof sent''
   | AEncSigLearned _ _ _ _ \<Rightarrow> ''encrypted signature is learned''
   | ABtcRedeemTransactionPublished _ \<Rightarrow> ''bitcoin redeem transaction published''
   | ABtcRedeemed \<Rightarrow> ''btc is redeemed''
   | ABtcCancelled _ _ _ \<Rightarrow> ''btc is cancelled''
   | ABtcRefunded _ _ _ _ \<Rightarrow> ''btc is refunded''
   | ABtcPunished _ \<Rightarrow> ''btc is punished''
   | ASafelyAborted \<Rightarrow> ''safely aborted''
   | ABtcPunishable _ _ _ \<Rightarrow> ''btc is punishable''
   | ABeldexRefunded \<Rightarrow> ''bdx is refunded''
   | ACancelTimelockExpired _ _ _ \<Rightarrow> ''cancel timelock is expired'')"

definition alice_is_complete :: "alice_state \<Rightarrow> bool" where
  "alice_is_complete s = (case s of
     ABeldexRefunded \<Rightarrow> True
   | ABtcRedeemed \<Rightarrow> True
   | ABtcPunished _ \<Rightarrow> True
   | ASafelyAborted \<Rightarrow> True
   | _ \<Rightarrow> False)"

end
