(* ===== verification/Bob_State.thy ===== *)
theory Bob_State
  imports Alice_State
begin

text \<open>
  \<open>protocol/bob/state.rs\<close>: the states \<open>State0\<close> to \<open>State6\<close> of Bob, the messages he sends and
  receives while a swap is set up, the transactions he builds, and the states of his swap. The
  methods that use a wallet are in \<open>Bob_Swap\<close>; \<open>State0::receive\<close>, which funds the lock
  transaction, takes the wallet's \<open>send_to_address\<close> as an argument.
\<close>

section \<open>State0\<close>

record bob_state0 =
  b0_swap_id :: uuid
  b0_b :: secret_key
  b0_s_b :: bdx_scalar
  b0_S_b_beldex :: bdx_public_key
  b0_S_b_bitcoin :: public_key
  b0_v_b :: private_view_key
  b0_dleq_proof_s_b :: dleq_proof
  b0_btc :: btc_amount
  b0_bdx :: bdx_amount
  b0_cancel_timelock :: cancel_timelock
  b0_punish_timelock :: punish_timelock
  b0_refund_address :: address
  b0_min_beldex_confirmations :: u64
  b0_tx_refund_fee :: btc_amount
  b0_tx_cancel_fee :: btc_amount

definition bob_state0_new ::
  "lib \<Rightarrow> uuid \<Rightarrow> btc_amount \<Rightarrow> bdx_amount \<Rightarrow> cancel_timelock \<Rightarrow> punish_timelock \<Rightarrow> address \<Rightarrow>
   u64 \<Rightarrow> btc_amount \<Rightarrow> btc_amount \<Rightarrow> scalar \<Rightarrow> bdx_scalar \<Rightarrow> bdx_scalar \<Rightarrow> nat \<Rightarrow> bob_state0" where
  "bob_state0_new L swap_id btc bdx ct pt refund_address min_confs tx_refund_fee tx_cancel_fee
     rand_b rand_s rand_v rand_proof =
     (let b = secret_key_new_random L rand_b;
          s_b = rand_s;
          v_b = private_view_key_new_random rand_v;
          (proof_b, (S_b_bitcoin, S_b_point)) = dleq_prove L s_b rand_proof
      in \<lparr>b0_swap_id = swap_id, b0_b = b, b0_s_b = s_b,
          b0_S_b_beldex = BdxPublicKey (ed_compress L S_b_point),
          b0_S_b_bitcoin = PublicKey S_b_bitcoin, b0_v_b = v_b,
          b0_dleq_proof_s_b = proof_b, b0_btc = btc, b0_bdx = bdx,
          b0_cancel_timelock = ct, b0_punish_timelock = pt, b0_refund_address = refund_address,
          b0_min_beldex_confirmations = min_confs, b0_tx_refund_fee = tx_refund_fee,
          b0_tx_cancel_fee = tx_cancel_fee\<rparr>)"

definition bob_state0_next_message :: "bob_state0 \<Rightarrow> message0" where
  "bob_state0_next_message st =
     \<lparr>m0_swap_id = b0_swap_id st, m0_B = public (b0_b st), m0_S_b_beldex = b0_S_b_beldex st,
      m0_S_b_bitcoin = b0_S_b_bitcoin st, m0_dleq_proof_s_b = b0_dleq_proof_s_b st,
      m0_v_b = b0_v_b st, m0_refund_address = b0_refund_address st,
      m0_tx_refund_fee = b0_tx_refund_fee st, m0_tx_cancel_fee = b0_tx_cancel_fee st\<rparr>"

section \<open>State1\<close>

record bob_state1 =
  b1_A :: public_key
  b1_b :: secret_key
  b1_s_b :: bdx_scalar
  b1_S_a_beldex :: bdx_public_key
  b1_S_a_bitcoin :: public_key
  b1_v :: private_view_key
  b1_bdx :: bdx_amount
  b1_cancel_timelock :: cancel_timelock
  b1_punish_timelock :: punish_timelock
  b1_refund_address :: address
  b1_redeem_address :: address
  b1_punish_address :: address
  b1_tx_lock :: tx_lock
  b1_min_beldex_confirmations :: u64
  b1_tx_redeem_fee :: btc_amount
  b1_tx_refund_fee :: btc_amount
  b1_tx_punish_fee :: btc_amount
  b1_tx_cancel_fee :: btc_amount

definition bob_state0_receive ::
  "lib \<Rightarrow> network \<Rightarrow> (address \<Rightarrow> u64 \<Rightarrow> address option \<Rightarrow> ('w, psbt) io) \<Rightarrow>
   bob_state0 \<Rightarrow> message1 \<Rightarrow> ('w, bob_state1) io" where
  "bob_state0_receive L net send st msg =
     bindio (lift (of_option (Msg ''S_a is not a beldex curve point'')
                     (ed_decompress L (bdx_pk_point (m1_S_a_beldex msg))))) (\<lambda>S_a.
     if \<not> dleq_verify L (m1_dleq_proof_s_a msg) (pk_point (m1_S_a_bitcoin msg), S_a)
     then lift (Err (Msg ''Alice's dleq proof doesn't verify''))
     else
       bindio (tx_lock_new L net send (b0_btc st) (m1_A msg) (public (b0_b st)) (b0_refund_address st)) (\<lambda>lock.
       let v = private_view_key_add L (m1_v_a msg) (b0_v_b st) in
       ret \<lparr>b1_A = m1_A msg, b1_b = b0_b st, b1_s_b = b0_s_b st,
            b1_S_a_beldex = m1_S_a_beldex msg, b1_S_a_bitcoin = m1_S_a_bitcoin msg, b1_v = v,
            b1_bdx = b0_bdx st, b1_cancel_timelock = b0_cancel_timelock st,
            b1_punish_timelock = b0_punish_timelock st, b1_refund_address = b0_refund_address st,
            b1_redeem_address = m1_redeem_address msg, b1_punish_address = m1_punish_address msg,
            b1_tx_lock = lock, b1_min_beldex_confirmations = b0_min_beldex_confirmations st,
            b1_tx_redeem_fee = m1_tx_redeem_fee msg, b1_tx_refund_fee = b0_tx_refund_fee st,
            b1_tx_punish_fee = m1_tx_punish_fee msg, b1_tx_cancel_fee = b0_tx_cancel_fee st\<rparr>))"

definition bob_state1_next_message :: "bob_state1 \<Rightarrow> message2" where
  "bob_state1_next_message st = \<lparr>m2_psbt = tl_inner (b1_tx_lock st)\<rparr>"

section \<open>State2\<close>

record bob_state2 =
  b2_A :: public_key
  b2_b :: secret_key
  b2_s_b :: bdx_scalar
  b2_S_a_beldex :: bdx_public_key
  b2_S_a_bitcoin :: public_key
  b2_v :: private_view_key
  b2_bdx :: bdx_amount
  b2_cancel_timelock :: cancel_timelock
  b2_punish_timelock :: punish_timelock
  b2_refund_address :: address
  b2_redeem_address :: address
  b2_punish_address :: address
  b2_tx_lock :: tx_lock
  b2_tx_cancel_sig_a :: signature
  b2_tx_refund_encsig :: encsig
  b2_min_beldex_confirmations :: u64
  b2_tx_redeem_fee :: btc_amount
  b2_tx_punish_fee :: btc_amount
  b2_tx_refund_fee :: btc_amount
  b2_tx_cancel_fee :: btc_amount

definition bob_state1_receive :: "lib \<Rightarrow> bob_state1 \<Rightarrow> message3 \<Rightarrow> bob_state2 outcome" where
  "bob_state1_receive L st msg =
     obind (tx_cancel_new L (b1_tx_lock st) (b1_cancel_timelock st) (b1_A st) (public (b1_b st))
              (b1_tx_cancel_fee st)) (\<lambda>cancel.
     obind (tx_refund_new L cancel (b1_refund_address st) (b1_tx_refund_fee st)) (\<lambda>refund.
     obind (verify_sig L (b1_A st) (tc_digest cancel) (m3_tx_cancel_sig msg)) (\<lambda>_.
     obind (to_secpfun_scalar L (b1_s_b st)) (\<lambda>s_b.
     obind (verify_encsig L (b1_A st) (public_key_from_scalar L s_b) (tr_digest refund)
              (m3_tx_refund_encsig msg)) (\<lambda>_.
     Ok \<lparr>b2_A = b1_A st, b2_b = b1_b st, b2_s_b = b1_s_b st, b2_S_a_beldex = b1_S_a_beldex st,
         b2_S_a_bitcoin = b1_S_a_bitcoin st, b2_v = b1_v st, b2_bdx = b1_bdx st,
         b2_cancel_timelock = b1_cancel_timelock st, b2_punish_timelock = b1_punish_timelock st,
         b2_refund_address = b1_refund_address st, b2_redeem_address = b1_redeem_address st,
         b2_punish_address = b1_punish_address st, b2_tx_lock = b1_tx_lock st,
         b2_tx_cancel_sig_a = m3_tx_cancel_sig msg, b2_tx_refund_encsig = m3_tx_refund_encsig msg,
         b2_min_beldex_confirmations = b1_min_beldex_confirmations st,
         b2_tx_redeem_fee = b1_tx_redeem_fee st, b2_tx_punish_fee = b1_tx_punish_fee st,
         b2_tx_refund_fee = b1_tx_refund_fee st, b2_tx_cancel_fee = b1_tx_cancel_fee st\<rparr>)))))"

definition bob_state2_next_message :: "lib \<Rightarrow> bob_state2 \<Rightarrow> message4 outcome" where
  "bob_state2_next_message L st =
     obind (expect_ok ''valid cancel tx''
              (tx_cancel_new L (b2_tx_lock st) (b2_cancel_timelock st) (b2_A st) (public (b2_b st))
                (b2_tx_cancel_fee st))) (\<lambda>cancel.
     obind (tx_punish_new L cancel (b2_punish_address st) (b2_punish_timelock st)
              (b2_tx_punish_fee st)) (\<lambda>punish.
     Ok \<lparr>m4_tx_punish_sig = sign L (b2_b st) (tp_digest punish),
         m4_tx_cancel_sig = sign L (b2_b st) (tc_digest cancel)\<rparr>))"

section \<open>State3\<close>

record bob_state3 =
  b3_A :: public_key
  b3_b :: secret_key
  b3_s_b :: bdx_scalar
  b3_S_a_beldex :: bdx_public_key
  b3_S_a_bitcoin :: public_key
  b3_v :: private_view_key
  b3_bdx :: bdx_amount
  b3_cancel_timelock :: cancel_timelock
  b3_punish_timelock :: punish_timelock
  b3_refund_address :: address
  b3_redeem_address :: address
  b3_tx_lock :: tx_lock
  b3_tx_cancel_sig_a :: signature
  b3_tx_refund_encsig :: encsig
  b3_min_beldex_confirmations :: u64
  b3_tx_redeem_fee :: btc_amount
  b3_tx_refund_fee :: btc_amount
  b3_tx_cancel_fee :: btc_amount

definition bob_lock_btc :: "bob_state2 \<Rightarrow> bob_state3 \<times> tx_lock" where
  "bob_lock_btc st =
     (\<lparr>b3_A = b2_A st, b3_b = b2_b st, b3_s_b = b2_s_b st, b3_S_a_beldex = b2_S_a_beldex st,
       b3_S_a_bitcoin = b2_S_a_bitcoin st, b3_v = b2_v st, b3_bdx = b2_bdx st,
       b3_cancel_timelock = b2_cancel_timelock st, b3_punish_timelock = b2_punish_timelock st,
       b3_refund_address = b2_refund_address st, b3_redeem_address = b2_redeem_address st,
       b3_tx_lock = b2_tx_lock st, b3_tx_cancel_sig_a = b2_tx_cancel_sig_a st,
       b3_tx_refund_encsig = b2_tx_refund_encsig st,
       b3_min_beldex_confirmations = b2_min_beldex_confirmations st,
       b3_tx_redeem_fee = b2_tx_redeem_fee st, b3_tx_refund_fee = b2_tx_refund_fee st,
       b3_tx_cancel_fee = b2_tx_cancel_fee st\<rparr>,
      b2_tx_lock st)"

definition bob_lock_bdx_watch_request ::
  "lib \<Rightarrow> bob_state3 \<Rightarrow> transfer_proof \<Rightarrow> watch_request outcome" where
  "bob_lock_bdx_watch_request L st proof =
     (let S_b = bdx_public_from_private L (PrivateKey (b3_s_b st)) in
      obind (bdx_public_key_add L (b3_S_a_beldex st) S_b) (\<lambda>S.
      Ok \<lparr>wrq_public_spend_key = S, wrq_public_view_key = private_view_key_public L (b3_v st),
          wrq_transfer_proof = proof, wrq_conf_target = b3_min_beldex_confirmations st,
          wrq_expected = b3_bdx st\<rparr>))"

section \<open>State4\<close>

record bob_state4 =
  b4_A :: public_key
  b4_b :: secret_key
  b4_s_b :: bdx_scalar
  b4_S_a_bitcoin :: public_key
  b4_v :: private_view_key
  b4_cancel_timelock :: cancel_timelock
  b4_punish_timelock :: punish_timelock
  b4_refund_address :: address
  b4_redeem_address :: address
  b4_tx_lock :: tx_lock
  b4_tx_cancel_sig_a :: signature
  b4_tx_refund_encsig :: encsig
  b4_restore_height :: bdx_height
  b4_tx_redeem_fee :: btc_amount
  b4_tx_refund_fee :: btc_amount
  b4_tx_cancel_fee :: btc_amount

definition bob_bdx_locked :: "bob_state3 \<Rightarrow> bdx_height \<Rightarrow> bob_state4" where
  "bob_bdx_locked st h =
     \<lparr>b4_A = b3_A st, b4_b = b3_b st, b4_s_b = b3_s_b st, b4_S_a_bitcoin = b3_S_a_bitcoin st,
      b4_v = b3_v st, b4_cancel_timelock = b3_cancel_timelock st,
      b4_punish_timelock = b3_punish_timelock st, b4_refund_address = b3_refund_address st,
      b4_redeem_address = b3_redeem_address st, b4_tx_lock = b3_tx_lock st,
      b4_tx_cancel_sig_a = b3_tx_cancel_sig_a st, b4_tx_refund_encsig = b3_tx_refund_encsig st,
      b4_restore_height = h, b4_tx_redeem_fee = b3_tx_redeem_fee st,
      b4_tx_refund_fee = b3_tx_refund_fee st, b4_tx_cancel_fee = b3_tx_cancel_fee st\<rparr>"

section \<open>State5\<close>

record bob_state5 =
  b5_s_a :: private_key
  b5_s_b :: bdx_scalar
  b5_v :: private_view_key
  b5_tx_lock :: tx_lock
  b5_restore_height :: bdx_height

definition bob_bdx_keys :: "lib \<Rightarrow> bob_state5 \<Rightarrow> private_key \<times> private_view_key" where
  "bob_bdx_keys L st = (private_key_add L (b5_s_a st) (PrivateKey (b5_s_b st)), b5_v st)"

definition bob3_attempt_cooperative_redeem :: "bob_state3 \<Rightarrow> private_key \<Rightarrow> bdx_height \<Rightarrow> bob_state5" where
  "bob3_attempt_cooperative_redeem st s_a h =
     \<lparr>b5_s_a = s_a, b5_s_b = b3_s_b st, b5_v = b3_v st, b5_tx_lock = b3_tx_lock st,
      b5_restore_height = h\<rparr>"

definition bob_tx_redeem :: "lib \<Rightarrow> bob_state4 \<Rightarrow> tx_redeem outcome" where
  "bob_tx_redeem L st = tx_redeem_new L (b4_tx_lock st) (b4_redeem_address st) (b4_tx_redeem_fee st)"

definition bob_tx_redeem_encsig :: "lib \<Rightarrow> bob_state4 \<Rightarrow> encsig outcome" where
  "bob_tx_redeem_encsig L st =
     obind (bob_tx_redeem L st) (\<lambda>r. Ok (encsign L (b4_b st) (b4_S_a_bitcoin st) (td_digest r)))"

text \<open>
  The part of \<open>watch_for_redeem_btc\<close> and of \<open>check_for_tx_redeem\<close> that follows the extraction of
  a signature: the key of Alice, and with it \<open>State5\<close>.
\<close>

definition bob_state5_from_sig ::
  "lib \<Rightarrow> bob_state4 \<Rightarrow> encsig \<Rightarrow> signature \<Rightarrow> bob_state5 outcome" where
  "bob_state5_from_sig L st tx_redeem_encsig tx_redeem_sig =
     obind (recover L (b4_S_a_bitcoin st) tx_redeem_sig tx_redeem_encsig) (\<lambda>s_a.
     Ok \<lparr>b5_s_a = private_key_from_secp256k1_scalar L (sk_inner s_a), b5_s_b = b4_s_b st,
         b5_v = b4_v st, b5_tx_lock = b4_tx_lock st, b5_restore_height = b4_restore_height st\<rparr>)"

section \<open>State6\<close>

record bob_state6 =
  b6_A :: public_key
  b6_b :: secret_key
  b6_s_b :: bdx_scalar
  b6_v :: private_view_key
  b6_restore_height :: bdx_height
  b6_cancel_timelock :: cancel_timelock
  b6_punish_timelock :: punish_timelock
  b6_refund_address :: address
  b6_tx_lock :: tx_lock
  b6_tx_cancel_sig_a :: signature
  b6_tx_refund_encsig :: encsig
  b6_tx_refund_fee :: btc_amount
  b6_tx_cancel_fee :: btc_amount

definition bob3_cancel :: "bob_state3 \<Rightarrow> bdx_height \<Rightarrow> bob_state6" where
  "bob3_cancel st h =
     \<lparr>b6_A = b3_A st, b6_b = b3_b st, b6_s_b = b3_s_b st, b6_v = b3_v st, b6_restore_height = h,
      b6_cancel_timelock = b3_cancel_timelock st, b6_punish_timelock = b3_punish_timelock st,
      b6_refund_address = b3_refund_address st, b6_tx_lock = b3_tx_lock st,
      b6_tx_cancel_sig_a = b3_tx_cancel_sig_a st, b6_tx_refund_encsig = b3_tx_refund_encsig st,
      b6_tx_refund_fee = b3_tx_refund_fee st, b6_tx_cancel_fee = b3_tx_cancel_fee st\<rparr>"

definition bob4_cancel :: "bob_state4 \<Rightarrow> bob_state6" where
  "bob4_cancel st =
     \<lparr>b6_A = b4_A st, b6_b = b4_b st, b6_s_b = b4_s_b st, b6_v = b4_v st,
      b6_restore_height = b4_restore_height st, b6_cancel_timelock = b4_cancel_timelock st,
      b6_punish_timelock = b4_punish_timelock st, b6_refund_address = b4_refund_address st,
      b6_tx_lock = b4_tx_lock st, b6_tx_cancel_sig_a = b4_tx_cancel_sig_a st,
      b6_tx_refund_encsig = b4_tx_refund_encsig st, b6_tx_refund_fee = b4_tx_refund_fee st,
      b6_tx_cancel_fee = b4_tx_cancel_fee st\<rparr>"

definition bob_construct_tx_cancel :: "lib \<Rightarrow> bob_state6 \<Rightarrow> tx_cancel outcome" where
  "bob_construct_tx_cancel L st =
     tx_cancel_new L (b6_tx_lock st) (b6_cancel_timelock st) (b6_A st) (public (b6_b st))
       (b6_tx_cancel_fee st)"

definition bob_signed_cancel_transaction :: "lib \<Rightarrow> bob_state6 \<Rightarrow> transaction outcome" where
  "bob_signed_cancel_transaction L st =
     obind (bob_construct_tx_cancel L st) (\<lambda>c.
     with_context ''Failed to complete Bitcoin cancel transaction''
       (tx_cancel_complete_as_bob L c (b6_A st) (b6_b st) (b6_tx_cancel_sig_a st)))"

definition bob_tx_refund :: "lib \<Rightarrow> bob_state6 \<Rightarrow> tx_refund outcome" where
  "bob_tx_refund L st =
     obind (bob_construct_tx_cancel L st) (\<lambda>c. tx_refund_new L c (b6_refund_address st) (b6_tx_refund_fee st))"

definition bob_signed_refund_transaction :: "lib \<Rightarrow> bob_state6 \<Rightarrow> transaction outcome" where
  "bob_signed_refund_transaction L st =
     obind (bob_tx_refund L st) (\<lambda>r.
     let sig_b = sign L (b6_b st) (tr_digest r) in
     obind (to_secpfun_scalar L (b6_s_b st)) (\<lambda>s_b.
     let sig_a = decrypt_signature L s_b (b6_tx_refund_encsig st) in
     tx_refund_add_signatures L r (b6_A st, sig_a) (public (b6_b st), sig_b)))"

definition bob6_attempt_cooperative_redeem :: "bob_state6 \<Rightarrow> private_key \<Rightarrow> bob_state5" where
  "bob6_attempt_cooperative_redeem st s_a =
     \<lparr>b5_s_a = s_a, b5_s_b = b6_s_b st, b5_v = b6_v st, b5_tx_lock = b6_tx_lock st,
      b5_restore_height = b6_restore_height st\<rparr>"

section \<open>The states of Bob's swap\<close>

datatype bob_state =
    BStarted btc_amount address
  | BSwapSetupCompleted bob_state2
  | BBtcLocked bob_state3 bdx_height
  | BBeldexLockProofReceived bob_state3 transfer_proof bdx_height
  | BBeldexLocked bob_state4
  | BEncSigSent bob_state4
  | BBtcRedeemed bob_state5
  | BCancelTimelockExpired bob_state6
  | BBtcCancelled bob_state6
  | BBtcRefunded bob_state6
  | BBeldexRedeemed txid tx_hash
  | BBtcPunished bob_state6 txid
  | BSafelyAborted

definition bob_state_display :: "bob_state \<Rightarrow> string" where
  "bob_state_display s = (case s of
     BStarted _ _ \<Rightarrow> ''quote has been requested''
   | BSwapSetupCompleted _ \<Rightarrow> ''execution setup done''
   | BBtcLocked _ _ \<Rightarrow> ''btc is locked''
   | BBeldexLockProofReceived _ _ _ \<Rightarrow> ''BDX lock transaction transfer proof received''
   | BBeldexLocked _ \<Rightarrow> ''bdx is locked''
   | BEncSigSent _ \<Rightarrow> ''encrypted signature is sent''
   | BBtcRedeemed _ \<Rightarrow> ''btc is redeemed''
   | BCancelTimelockExpired _ \<Rightarrow> ''cancel timelock is expired''
   | BBtcCancelled _ \<Rightarrow> ''btc is cancelled''
   | BBtcRefunded _ \<Rightarrow> ''btc is refunded''
   | BBeldexRedeemed _ _ \<Rightarrow> ''bdx is redeemed''
   | BBtcPunished _ _ \<Rightarrow> ''btc is punished''
   | BSafelyAborted \<Rightarrow> ''safely aborted'')"

definition bob_is_complete :: "bob_state \<Rightarrow> bool" where
  "bob_is_complete s = (case s of
     BBtcRefunded _ \<Rightarrow> True
   | BBeldexRedeemed _ _ \<Rightarrow> True
   | BSafelyAborted \<Rightarrow> True
   | _ \<Rightarrow> False)"

definition bob_is_run_at_most_once :: "bob_state \<Rightarrow> bool" where
  "bob_is_run_at_most_once s = (case s of BBtcPunished _ _ \<Rightarrow> True | _ \<Rightarrow> False)"

section \<open>The state of either role\<close>

datatype swap_state = SAlice alice_state | SBob bob_state

definition swap_finished :: "swap_state \<Rightarrow> bool" where
  "swap_finished s = (case s of SAlice a \<Rightarrow> alice_is_complete a | SBob b \<Rightarrow> bob_is_complete b)"

definition try_into_bob_state :: "swap_state \<Rightarrow> bob_state outcome" where
  "try_into_bob_state s =
     (case s of SAlice _ \<Rightarrow> Err (Msg ''Not in the role of Bob'') | SBob b \<Rightarrow> Ok b)"

definition try_into_alice_state :: "swap_state \<Rightarrow> alice_state outcome" where
  "try_into_alice_state s =
     (case s of SAlice a \<Rightarrow> Ok a | SBob _ \<Rightarrow> Err (Msg ''Not in the role of Alice''))"

end
