(* ===== verification/Setup.thy ===== *)
theory Setup
  imports Bob_State
begin

text \<open>
  What the setup of a swap (the messages \<open>Message0\<close> to \<open>Message4\<close>) gives the two parties: both hold
  the same transactions, each holds the signatures its fallback needs, and a published redeem or
  refund transaction reveals the other party's half of the Beldex key.
\<close>

section \<open>What the code relies on of the transaction library\<close>

text \<open>
  Satisfying the shared descriptor puts both signatures, DER-encoded and followed by one byte for
  the sighash type, and the script on the witness stack; a compact signature is read back.
\<close>

definition sig_entry :: "lib \<Rightarrow> bytes \<Rightarrow> ecdsa_sig \<Rightarrow> bool" where
  "sig_entry L x e \<longleftrightarrow> x \<noteq> [] \<and> secp_sig_from_der L (butlast x) = Ok (es_sig e)"

definition witness_laws :: "lib \<Rightarrow> bool" where
  "witness_laws L \<longleftrightarrow>
     (\<forall>A B d i i' sat A' B' ea eb.
        build_shared_output_descriptor L A B = Ok d \<longrightarrow>
        compressed_pubkey L A = Ok A' \<longrightarrow> compressed_pubkey L B = Ok B' \<longrightarrow>
        sat A' = Some ea \<longrightarrow> sat B' = Some eb \<longrightarrow> desc_satisfy L d i sat = Ok i' \<longrightarrow>
        (\<exists>x y scr. witness i' = [x, y, scr] \<and>
           (sig_entry L x ea \<and> sig_entry L y eb \<or> sig_entry L x eb \<and> sig_entry L y ea))) \<and>
     (\<forall>s x. secp_sig_from_compact L (sig_to_bytes L s) = Ok x \<longrightarrow>
        sig_from_bytes L (secp_serialize_compact L x) = Some s)"

text \<open>Extracting a finalised transaction from a PSBT keeps its outputs.\<close>

definition psbt_laws :: "lib \<Rightarrow> bool" where
  "psbt_laws L \<longleftrightarrow> (\<forall>p. tx_output (psbt_extract_tx L p) = tx_output (unsigned_tx p))"

text \<open>
  \<open>completion_laws\<close>: a signature that \<open>ecdsa_fun\<close> serializes is read by \<open>secp256k1\<close>; the two ways in which
  the code reads a point as a Bitcoin key give the same compressed key; and a descriptor whose two keys
  both have a signature in the satisfier is satisfied, which sets the script and the witness of the
  input and nothing else.
\<close>

definition completion_laws :: "lib \<Rightarrow> bool" where
  "completion_laws L \<longleftrightarrow>
     (\<forall>s. \<exists>x. secp_sig_from_compact L (sig_to_bytes L s) = Ok x) \<and>
     (\<forall>P. \<exists>k. compressed_pubkey L P = Ok k \<and> bitcoin_pubkey_try_from L (PublicKey P) = Ok k) \<and>
     (\<forall>A B d i sat A' B' ea eb.
        build_shared_output_descriptor L A B = Ok d \<longrightarrow>
        compressed_pubkey L A = Ok A' \<longrightarrow> compressed_pubkey L B = Ok B' \<longrightarrow>
        sat A' = Some ea \<longrightarrow> sat B' = Some eb \<longrightarrow>
        (\<exists>i'. desc_satisfy L d i sat = Ok i' \<and> previous_output i' = previous_output i \<and>
           tx_sequence i' = tx_sequence i))"

section \<open>The two parties' views of one swap\<close>

text \<open>
  The lock transaction, the signing keys, the timelocks, the addresses and the fees, of which the five
  Bitcoin transactions are made. The keys on the Beldex side are in \<open>counterpart_keys\<close> and
  \<open>holds_public_keys\<close> below.
\<close>

definition same_swap :: "alice_state3 \<Rightarrow> bob_state2 \<Rightarrow> bool" where
  "same_swap a b \<longleftrightarrow>
     a3_tx_lock a = b2_tx_lock b \<and> b2_A b = public (a3_a a) \<and> a3_B a = public (b2_b b) \<and>
     a3_cancel_timelock a = b2_cancel_timelock b \<and> a3_punish_timelock a = b2_punish_timelock b \<and>
     a3_refund_address a = b2_refund_address b \<and> a3_redeem_address a = b2_redeem_address b \<and>
     a3_punish_address a = b2_punish_address b \<and> a3_tx_redeem_fee a = b2_tx_redeem_fee b \<and>
     a3_tx_punish_fee a = b2_tx_punish_fee b \<and> a3_tx_refund_fee a = b2_tx_refund_fee b \<and>
     a3_tx_cancel_fee a = b2_tx_cancel_fee b"

text \<open>
  Every key that a party keeps after the setup is the one with which it, or the other party, entered
  the setup: its own secrets, the signing key of the other, both public halves of the other's share of
  the Beldex spend key, and the sum of the two view keys.
\<close>

definition counterpart_keys :: "lib \<Rightarrow> alice_state0 \<Rightarrow> bob_state0 \<Rightarrow> alice_state3 \<Rightarrow> bob_state2 \<Rightarrow> bool" where
  "counterpart_keys L a0 b0 a b \<longleftrightarrow>
     a3_a a = a0_a a0 \<and> a3_s_a a = a0_s_a a0 \<and> b2_b b = b0_b b0 \<and> b2_s_b b = b0_s_b b0 \<and>
     a3_B a = public (b0_b b0) \<and> b2_A b = public (a0_a a0) \<and>
     a3_S_b_beldex a = b0_S_b_beldex b0 \<and> a3_S_b_bitcoin a = b0_S_b_bitcoin b0 \<and>
     b2_S_a_beldex b = a0_S_a_beldex a0 \<and> b2_S_a_bitcoin b = a0_S_a_bitcoin a0 \<and>
     a3_v a = private_view_key_add L (a0_v_a a0) (b0_v_b b0) \<and> b2_v b = a3_v a"

text \<open>The same, of the final states alone: the public halves are those of the other's secret scalar.\<close>

definition holds_public_keys :: "lib \<Rightarrow> alice_state3 \<Rightarrow> bob_state2 \<Rightarrow> bool" where
  "holds_public_keys L a b \<longleftrightarrow>
     a3_B a = public (b2_b b) \<and> b2_A b = public (a3_a a) \<and>
     a3_S_b_beldex a = bdx_public_from_private L (PrivateKey (b2_s_b b)) \<and>
     a3_S_b_bitcoin a = public_key_from_scalar L (b2_s_b b) \<and>
     b2_S_a_beldex b = bdx_public_from_private L (PrivateKey (a3_s_a a)) \<and>
     b2_S_a_bitcoin b = public_key_from_scalar L (a3_s_a a) \<and> a3_v a = b2_v b"

text \<open>
  The terms: one lock transaction, which pays the bitcoin amount of Alice to the output of both keys;
  the addresses and fees that each party proposed; and the Beldex amount and the timelocks, which each
  party keeps as it entered the setup with them.
\<close>

definition agreed_terms :: "lib \<Rightarrow> alice_state0 \<Rightarrow> bob_state0 \<Rightarrow> alice_state3 \<Rightarrow> bob_state2 \<Rightarrow> bool" where
  "agreed_terms L a0 b0 a b \<longleftrightarrow>
     a3_tx_lock a = b2_tx_lock b \<and>
     build_shared_output_descriptor L (pk_point (public (a0_a a0))) (pk_point (public (b0_b b0)))
       = Ok (tl_descriptor (a3_tx_lock a)) \<and>
     (\<exists>out \<in> set (tx_output (unsigned_tx (tl_inner (a3_tx_lock a)))).
        txo_value out = a0_btc a0 \<and> txo_script out = tx_lock_script_pubkey L (a3_tx_lock a)) \<and>
     a3_btc a = a0_btc a0 \<and> a3_bdx a = a0_bdx a0 \<and> b2_bdx b = b0_bdx b0 \<and>
     a3_cancel_timelock a = a0_cancel_timelock a0 \<and> b2_cancel_timelock b = b0_cancel_timelock b0 \<and>
     a3_punish_timelock a = a0_punish_timelock a0 \<and> b2_punish_timelock b = b0_punish_timelock b0 \<and>
     a3_refund_address a = b0_refund_address b0 \<and> b2_refund_address b = b0_refund_address b0 \<and>
     a3_redeem_address a = a0_redeem_address a0 \<and> b2_redeem_address b = a0_redeem_address a0 \<and>
     a3_punish_address a = a0_punish_address a0 \<and> b2_punish_address b = a0_punish_address a0 \<and>
     a3_tx_redeem_fee a = a0_tx_redeem_fee a0 \<and> b2_tx_redeem_fee b = a0_tx_redeem_fee a0 \<and>
     a3_tx_punish_fee a = a0_tx_punish_fee a0 \<and> b2_tx_punish_fee b = a0_tx_punish_fee a0 \<and>
     a3_tx_refund_fee a = b0_tx_refund_fee b0 \<and> b2_tx_refund_fee b = b0_tx_refund_fee b0 \<and>
     a3_tx_cancel_fee a = b0_tx_cancel_fee b0 \<and> b2_tx_cancel_fee b = b0_tx_cancel_fee b0"

text \<open>
  Both parties build the same cancel, refund, punish and redeem transaction. Bob never builds the punish
  transaction after the setup: what is his of it is the signature in \<open>Message4\<close>.
\<close>

definition same_transactions :: "lib \<Rightarrow> alice_state3 \<Rightarrow> bob_state2 \<Rightarrow> bool" where
  "same_transactions L a b \<longleftrightarrow>
     (\<exists>c r p. alice_tx_cancel L a = Ok c \<and> alice_tx_refund L a = Ok r \<and> alice_tx_punish L a = Ok p \<and>
        (\<forall>h. bob_construct_tx_cancel L (bob3_cancel (fst (bob_lock_btc b)) h) = Ok c \<and>
             bob_tx_refund L (bob3_cancel (fst (bob_lock_btc b)) h) = Ok r) \<and>
        bob_state2_next_message L b = Ok \<lparr>m4_tx_punish_sig = sign L (b2_b b) (tp_digest p),
                                         m4_tx_cancel_sig = sign L (b2_b b) (tc_digest c)\<rparr>) \<and>
     (\<forall>h. alice_tx_redeem L a = bob_tx_redeem L (bob_bdx_locked (fst (bob_lock_btc b)) h))"

text \<open>
  A completed transaction: it is the unsigned one but for the script and witness of its inputs, and the
  two signatures on its witness stack verify, one under each key.
\<close>

definition signed_by_both :: "lib \<Rightarrow> transaction \<Rightarrow> transaction \<Rightarrow> sighash \<Rightarrow> public_key \<Rightarrow> public_key \<Rightarrow> bool" where
  "signed_by_both L tx tx0 digest A B \<longleftrightarrow>
     tx_output tx = tx_output tx0 \<and> tx_version tx = tx_version tx0 \<and>
     tx_lock_time tx = tx_lock_time tx0 \<and>
     map previous_output (tx_input tx) = map previous_output (tx_input tx0) \<and>
     map tx_sequence (tx_input tx) = map tx_sequence (tx_input tx0) \<and>
     (\<exists>sa sb. (witness_signatures L tx = Ok [sa, sb] \<or> witness_signatures L tx = Ok [sb, sa]) \<and>
        ecdsa_verify L (pk_point A) digest sa \<and> ecdsa_verify L (pk_point B) digest sb)"

text \<open>
  A scalar and its two public keys, as \<open>CROSS_CURVE_PROOF_SYSTEM.prove\<close> makes them for an honest
  party.
\<close>

definition cross_keys :: "lib \<Rightarrow> bdx_scalar \<Rightarrow> public_key \<Rightarrow> bdx_public_key \<Rightarrow> bool" where
  "cross_keys L s Sbtc Sbdx \<longleftrightarrow>
     0 < s \<and> s < ed_l \<and> Sbtc = public_key_from_scalar L s \<and>
     Sbdx = bdx_public_from_private L (PrivateKey s)"

definition key_pair :: "lib \<Rightarrow> secret_key \<Rightarrow> bool" where
  "key_pair L k \<longleftrightarrow> sk_public k = vk_for L (sk_inner k)"

lemma key_pair_new_random [simp]: "key_pair L (secret_key_new_random L r)"
  by (simp add: key_pair_def secret_key_new_random_def)

lemma key_pair_sign:
  "signature_laws L \<Longrightarrow> key_pair L k \<Longrightarrow> ecdsa_verify L (pk_point (public k)) m (sign L k m)"
  by (simp add: signature_laws_def key_pair_def public_def sign_def)

lemma key_pair_encsign:
  "signature_laws L \<Longrightarrow> key_pair L k \<Longrightarrow>
   verify_encrypted_signature L (pk_point (public k)) (pk_point Y) m (encsign L k Y m)"
  by (simp add: signature_laws_def key_pair_def public_def encsign_def)

section \<open>The messages of one setup\<close>

text \<open>
  The seven calls of a setup in the order in which the two handlers make them; each
  \<open>next_message\<close> is received by the other side.
\<close>

definition setup_run ::
  "lib \<Rightarrow> network \<Rightarrow> (address \<Rightarrow> u64 \<Rightarrow> address option \<Rightarrow> ('w, psbt) io) \<Rightarrow>
   alice_state0 \<Rightarrow> bob_state0 \<Rightarrow> ('w, alice_state3 \<times> bob_state2) io" where
  "setup_run L net send a0 b0 =
     bindio (lift (alice_state0_receive L a0 (bob_state0_next_message b0))) (\<lambda>(_, a1).
     bindio (bob_state0_receive L net send b0 (alice_state1_next_message a1)) (\<lambda>b1.
     bindio (lift (alice_state1_receive L a1 (bob_state1_next_message b1))) (\<lambda>a2.
     bindio (lift (alice_state2_next_message L a2)) (\<lambda>m3.
     bindio (lift (bob_state1_receive L b1 m3)) (\<lambda>b2.
     bindio (lift (bob_state2_next_message L b2)) (\<lambda>m4.
     bindio (lift (alice_state2_receive L a2 m4)) (\<lambda>a3.
     ret (a3, b2))))))))"

section \<open>Transactions\<close>

lemma spend_tx_simps [simp]:
  "tx_input (spend_tx prev sq v spk) =
     [\<lparr>previous_output = prev, script_sig = [], tx_sequence = sq, witness = []\<rparr>]"
  "tx_output (spend_tx prev sq v spk) = [\<lparr>txo_value = v, txo_script = spk\<rparr>]"
  by (simp_all add: spend_tx_def)

lemma tx_cancel_new_OkD:
  assumes "tx_cancel_new L t ct A B fee = Ok c"
  obtains d prev amount where
    "build_shared_output_descriptor L (pk_point A) (pk_point B) = Ok d"
    "tx_lock_as_outpoint L t = Ok prev" "tx_lock_amount L t = Ok amount"
    "tc_inner c = spend_tx prev (cancel_u32 ct) (amount - fee) (desc_script_pubkey L d)"
    "segwit_digest L (tc_inner c) (tl_descriptor t) amount = Ok (tc_digest c)"
    "tc_output_descriptor c = d" "tc_lock_output_descriptor c = tl_descriptor t"
  using assms by (auto simp: tx_cancel_new_def Let_def outcome_rules)

lemma tx_cancel_amount_new:
  assumes "tx_cancel_new L t ct A B fee = Ok c" "tx_lock_amount L t = Ok amount"
  shows "tx_cancel_amount c = Ok (amount - fee)"
  using assms by (auto elim!: tx_cancel_new_OkD simp: tx_cancel_amount_def index_vec_def)

lemma tx_refund_new_OkD:
  assumes "tx_refund_new L c addr fee = Ok r"
  obtains amount where "tx_cancel_amount c = Ok amount"
    "tr_inner r = spend_tx (tx_cancel_as_outpoint L c) 0xFFFFFFFF (amount - fee) (address_script L addr)"
    "tr_cancel_output_descriptor r = tc_output_descriptor c"
  using assms by (auto simp: tx_refund_new_def tx_cancel_build_spend_def outcome_rules)

lemma tx_punish_new_OkD:
  assumes "tx_punish_new L c addr pt fee = Ok p"
  obtains amount where "tx_cancel_amount c = Ok amount"
    "tp_inner p = spend_tx (tx_cancel_as_outpoint L c) (punish_u32 pt) (amount - fee) (address_script L addr)"
    "tp_cancel_output_descriptor p = tc_output_descriptor c"
  using assms by (auto simp: tx_punish_new_def tx_cancel_build_spend_def outcome_rules)

lemma tx_redeem_new_OkD:
  assumes "tx_redeem_new L t addr fee = Ok r"
  obtains prev amount where "tx_lock_as_outpoint L t = Ok prev" "tx_lock_amount L t = Ok amount"
    "td_inner r = spend_tx prev 0xFFFFFFFF (amount - fee) (address_script L addr)"
    "td_lock_output_descriptor r = tl_descriptor t"
  using assms
  by (auto simp: tx_redeem_new_def tx_lock_build_spend_def tx_lock_amount_def outcome_rules)

section \<open>Signatures on the witness stack\<close>

lemma satisfier_lookup:
  assumes "satisfier L A sa B sb = Ok sat"
    and "compressed_pubkey L (pk_point A) \<noteq> compressed_pubkey L (pk_point B)"
  obtains A' B' xa xb where
    "compressed_pubkey L (pk_point A) = Ok A'" "compressed_pubkey L (pk_point B) = Ok B'"
    "secp_sig_from_compact L (sig_to_bytes L sa) = Ok xa"
    "secp_sig_from_compact L (sig_to_bytes L sb) = Ok xb"
    "sat A' = Some \<lparr>es_sig = xa, es_hash_ty = SigHashAll\<rparr>"
    "sat B' = Some \<lparr>es_sig = xb, es_hash_ty = SigHashAll\<rparr>"
  using assms by (auto simp: satisfier_def two_signatures_def outcome_rules)

lemma extract_sig_entry:
  assumes "witness_laws L" "sig_entry L x \<lparr>es_sig = y, es_hash_ty = h\<rparr>"
    and "secp_sig_from_compact L (sig_to_bytes L s) = Ok y"
  shows "extract_ecdsa_sig L x = Ok s"
  using assms by (simp add: extract_ecdsa_sig_def sig_entry_def witness_laws_def)

lemma witness_signatures_satisfied:
  assumes laws: "witness_laws L"
    and desc: "build_shared_output_descriptor L (pk_point A) (pk_point B) = Ok d"
    and sat: "satisfier L A sa B sb = Ok sat"
    and distinct: "compressed_pubkey L (pk_point A) \<noteq> compressed_pubkey L (pk_point B)"
    and one: "tx_input tx = [i]"
    and fin: "satisfy_input0 L d tx sat = Ok tx'"
  shows "witness_signatures L tx' = Ok [sa, sb] \<or> witness_signatures L tx' = Ok [sb, sa]"
proof -
  obtain A' B' xa xb where keys:
      "compressed_pubkey L (pk_point A) = Ok A'" "compressed_pubkey L (pk_point B) = Ok B'"
    and sigs: "secp_sig_from_compact L (sig_to_bytes L sa) = Ok xa"
      "secp_sig_from_compact L (sig_to_bytes L sb) = Ok xb"
    and look: "sat A' = Some \<lparr>es_sig = xa, es_hash_ty = SigHashAll\<rparr>"
      "sat B' = Some \<lparr>es_sig = xb, es_hash_ty = SigHashAll\<rparr>"
    using satisfier_lookup[OF sat distinct] by metis
  obtain i' where i': "desc_satisfy L d i sat = Ok i'" "tx' = tx\<lparr>tx_input := [i']\<rparr>"
    using fin one by (auto simp: satisfy_input0_def index_vec_def outcome_rules)
  obtain x y scr where w: "witness i' = [x, y, scr]"
    and e: "sig_entry L x \<lparr>es_sig = xa, es_hash_ty = SigHashAll\<rparr> \<and>
              sig_entry L y \<lparr>es_sig = xb, es_hash_ty = SigHashAll\<rparr> \<or>
            sig_entry L x \<lparr>es_sig = xb, es_hash_ty = SigHashAll\<rparr> \<and>
              sig_entry L y \<lparr>es_sig = xa, es_hash_ty = SigHashAll\<rparr>"
    using laws desc keys look i'(1) unfolding witness_laws_def by meson
  show ?thesis
    using e extract_sig_entry[OF laws _ sigs(1)] extract_sig_entry[OF laws _ sigs(2)] i'(2) w
    by (auto simp: witness_signatures_def)
qed

lemma two_signatures_total:
  assumes "completion_laws L" "A' \<noteq> B'"
  obtains sat ea eb where "two_signatures L A' sa B' sb = Ok sat" "sat A' = Some ea" "sat B' = Some eb"
proof -
  obtain xa xb where "secp_sig_from_compact L (sig_to_bytes L sa) = Ok xa"
    "secp_sig_from_compact L (sig_to_bytes L sb) = Ok xb"
    using assms(1) unfolding completion_laws_def by meson
  thus thesis using that assms(2) by (simp add: two_signatures_def)
qed

text \<open>Two signatures that verify complete a transaction of one input that spends the shared output.\<close>

lemma satisfy_input0_signed:
  assumes laws: "witness_laws L" "completion_laws L"
    and desc: "build_shared_output_descriptor L (pk_point A) (pk_point B) = Ok d"
    and distinct: "compressed_pubkey L (pk_point A) \<noteq> compressed_pubkey L (pk_point B)"
    and one: "tx_input tx = [i]"
    and sigs: "ecdsa_verify L (pk_point A) m sa" "ecdsa_verify L (pk_point B) m sb"
  obtains sat tx' where "satisfier L A sa B sb = Ok sat" "satisfy_input0 L d tx sat = Ok tx'"
    "signed_by_both L tx' tx m A B"
proof -
  obtain A' B' where keys: "compressed_pubkey L (pk_point A) = Ok A'" "compressed_pubkey L (pk_point B) = Ok B'"
    using laws(2) unfolding completion_laws_def by meson
  have "A' \<noteq> B'" using distinct keys by simp
  then obtain sat ea eb where sat: "two_signatures L A' sa B' sb = Ok sat" "sat A' = Some ea" "sat B' = Some eb"
    using two_signatures_total[OF laws(2)] by metis
  obtain i' where i': "desc_satisfy L d i sat = Ok i'" "previous_output i' = previous_output i"
    "tx_sequence i' = tx_sequence i"
    using laws(2) desc keys sat(2,3) unfolding completion_laws_def by meson
  have s: "satisfier L A sa B sb = Ok sat" using keys sat(1) by (simp add: satisfier_def)
  have f: "satisfy_input0 L d tx sat = Ok (tx\<lparr>tx_input := [i']\<rparr>)"
    using one i'(1) by (simp add: satisfy_input0_def index_vec_def)
  have "signed_by_both L (tx\<lparr>tx_input := [i']\<rparr>) tx m A B"
    using witness_signatures_satisfied[OF laws(1) desc s distinct one f] sigs one i'(2,3)
    by (auto simp: signed_by_both_def)
  thus thesis using that s f by blast
qed

text \<open>\<open>TxPunish::complete\<close> reads the keys in the other way.\<close>

lemma try_from_satisfier:
  assumes "completion_laws L" "satisfier L A sa B sb = Ok sat"
  shows "obind (bitcoin_pubkey_try_from L A) (\<lambda>A'. obind (bitcoin_pubkey_try_from L B) (\<lambda>B'.
    two_signatures L A' sa B' sb)) = Ok sat"
proof -
  have "bitcoin_pubkey_try_from L K = compressed_pubkey L (pk_point K)" for K
    using assms(1) unfolding completion_laws_def by (cases K) (metis public_key.sel)
  thus ?thesis using assms(2) by (simp add: satisfier_def)
qed

lemma signature_by_key_found:
  assumes "witness_signatures L tx = Ok [sa, sb] \<or> witness_signatures L tx = Ok [sb, sa]"
    and "ecdsa_verify L (pk_point K) m sa" "\<not> ecdsa_verify L (pk_point K) m sb"
  shows "signature_by_key L tx K m = Ok sa"
  using assms by (auto simp: signature_by_key_def verify_sig_def)

end
