(* ===== verification/Sample_Library.thy ===== *)
theory Sample_Library
  imports Setup
begin

text \<open>
  A concrete instance of the record \<open>lib\<close> on which every law that the theorems assume of the
  external crates holds. The witnesses of the theorems evaluate the model on it. A point is its
  discrete logarithm and a signature a code of the signer and the message: nothing here is secret,
  but completeness, extraction and the byte formats are as documented.
\<close>

definition sample_keys :: "string \<Rightarrow> nat \<times> nat" where
  "sample_keys s =
     (let A = length (takeWhile (\<lambda>c. c = CHR ''x'') (drop 13 s));
          B = length (takeWhile (\<lambda>c. c = CHR ''x'') (drop (20 + A) s))
      in (A, B))"

definition sample_sig :: "nat \<Rightarrow> nat \<Rightarrow> nat" where
  "sample_sig s m = s * 1000 + m mod 1000"

definition sample_key :: "nat \<Rightarrow> bitcoin_pubkey" where
  "sample_key p = \<lparr>pk_compressed = True, pk_inner = p\<rparr>"

definition sample_hash :: "transaction \<Rightarrow> nat" where
  "sample_hash tx =
     sum_list (map (\<lambda>out. unat (txo_value out)) (tx_output tx)) +
     7 * sum_list (map (\<lambda>i. unat (tx_sequence i)) (tx_input tx))"

definition single_byte :: "bytes \<Rightarrow> nat outcome" where
  "single_byte bs = (case bs of [x] \<Rightarrow> Ok x | _ \<Rightarrow> Err (External 1))"

definition sample_lib :: lib where
  "sample_lib =
     \<lparr>vk_for = (\<lambda>s. s),
      scalar_to_bytes = (\<lambda>s. rev (le_bytes 32 s)),
      scalar_from_bytes = (\<lambda>bs. if from_le (rev bs) < secp_q then Some (from_le (rev bs)) else None),
      scalar_non_zero = (\<lambda>s. if s = 0 then None else Some s),
      point_to_bytes = (\<lambda>p. [p]),
      point_to_string = (\<lambda>p. replicate p CHR ''x''),
      ecdsa_sign = sample_sig,
      ecdsa_verify = (\<lambda>V m s. s = sample_sig V m),
      encrypted_sign = (\<lambda>s Y m. sample_sig s m),
      verify_encrypted_signature = (\<lambda>V Y m c. c = sample_sig V m),
      decrypt_signature = (\<lambda>y c. c),
      recover_decryption_key = (\<lambda>Y s c. Some Y),
      sig_to_bytes = (\<lambda>s. [s]),
      sig_from_bytes = (\<lambda>bs. case bs of [x] \<Rightarrow> Some x | _ \<Rightarrow> None),
      secp_pk_from_slice = single_byte,
      btc_pk_from_slice = (\<lambda>bs. omap sample_key (single_byte bs)),
      secp_sig_from_compact = single_byte,
      secp_sig_from_der = single_byte,
      secp_serialize_compact = (\<lambda>s. [s]),
      miniscript_from_str =
        (\<lambda>s. if fst (sample_keys s) = snd (sample_keys s) then Err (External 2) else Ok s),
      wsh_new = Ok,
      desc_script_pubkey = (\<lambda>d. case d of Wsh s \<Rightarrow> [fst (sample_keys s), snd (sample_keys s)]),
      desc_script_code = (\<lambda>d. Ok []),
      desc_address = (\<lambda>d n. Ok \<lparr>addr_network = n, addr_payload = 0\<rparr>),
      desc_satisfy = (\<lambda>d i sat. case d of Wsh s \<Rightarrow>
        (case (sat (sample_key (fst (sample_keys s))), sat (sample_key (snd (sample_keys s)))) of
           (Some ea, Some eb) \<Rightarrow> Ok (i\<lparr>witness := [[es_sig eb, 1], [es_sig ea, 1], []]\<rparr>)
         | _ \<Rightarrow> Err (External 3))),
      segwit_sighash = (\<lambda>tx n code v t. Ok (sample_hash tx)),
      compute_txid = sample_hash,
      psbt_extract_tx = unsigned_tx,
      psbt_fee_amount = (\<lambda>p. Some 100),
      address_from_str = (\<lambda>s. Ok \<lparr>addr_network = Testnet, addr_payload = length s\<rparr>),
      address_kind_of = (\<lambda>a. Some P2wpkh),
      address_script = (\<lambda>a. [addr_payload a]),
      ed_to_bytes = le_bytes 32,
      ed_from_bytes_mod_order = (\<lambda>bs. from_le bs mod ed_l),
      ed_scalar_add = (\<lambda>a b. (a + b) mod ed_l),
      ed_base_mul = (\<lambda>a. a mod ed_l),
      ed_decompress = Some,
      ed_point_add = (\<lambda>p q. (p + q) mod ed_l),
      ed_compress = (\<lambda>p. p),
      dleq_prove = (\<lambda>s r. (s, (s, s mod ed_l))),
      dleq_verify = (\<lambda>pf k. k = (pf, pf mod ed_l))\<rparr>"

lemma sample_lib_simps [simp]:
  "vk_for sample_lib s = s"
  "ecdsa_sign sample_lib = sample_sig"
  "ecdsa_verify sample_lib V m x = (x = sample_sig V m)"
  "encrypted_sign sample_lib s Y m = sample_sig s m"
  "verify_encrypted_signature sample_lib V Y m c = (c = sample_sig V m)"
  "decrypt_signature sample_lib y c = c"
  "recover_decryption_key sample_lib Y x c = Some Y"
  "point_to_bytes sample_lib p = [p]"
  "sig_to_bytes sample_lib x = [x]"
  "psbt_extract_tx sample_lib = unsigned_tx"
  "compute_txid sample_lib = sample_hash"
  "segwit_sighash sample_lib tx k code v t = Ok (sample_hash tx)"
  "address_script sample_lib a = [addr_payload a]"
  "desc_script_code sample_lib d = Ok []"
  "desc_address sample_lib d n = Ok \<lparr>addr_network = n, addr_payload = 0\<rparr>"
  "ed_decompress sample_lib = Some"
  "ed_compress sample_lib x3 = x3"
  "ed_base_mul sample_lib x1 = x1 mod ed_l"
  "ed_scalar_add sample_lib x2 y2 = (x2 + y2) mod ed_l"
  "ed_point_add sample_lib p2 q2 = (p2 + q2) mod ed_l"
  "dleq_prove sample_lib s rr = (s, (s, s mod ed_l))"
  "dleq_verify sample_lib pf kk = (kk = (pf, pf mod ed_l))"
  "wsh_new sample_lib = Ok"
  by (simp_all add: sample_lib_def)

lemma sample_scalar_laws: "scalar_laws sample_lib"
proof -
  have "256 ^ 32 = (2::nat) ^ 256" by simp
  hence r: "from_le (le_bytes 32 s) = s" if "s < 2 ^ 256" for s
    using that from_le_le_bytes[of s 32] by metis
  show ?thesis
    by (simp add: scalar_laws_def sample_lib_def r del: le_bytes.simps)
qed

lemma sample_signature_laws: "signature_laws sample_lib"
  by (simp add: signature_laws_def)

lemma sample_group_laws: "group_laws sample_lib"
  by (simp add: group_laws_def mod_add_eq)

lemma sample_psbt_laws: "psbt_laws sample_lib"
  by (simp add: psbt_laws_def)

lemma sample_template:
  "replace_char CHR ''B'' (replicate B CHR ''x'')
     (replace_char CHR ''A'' (replicate A CHR ''x'') miniscript_template)
   = ''c:and_v(v:pk('' @ replicate A CHR ''x'' @ ''),pk_k('' @ replicate B CHR ''x'' @ ''))''"
  by (simp add: miniscript_template_def replace_char_append replace_char_absent)

definition sample_desc :: "nat \<Rightarrow> nat \<Rightarrow> descriptor" where
  "sample_desc A B =
     Wsh (''c:and_v(v:pk('' @ replicate A CHR ''x'' @ ''),pk_k('' @ replicate B CHR ''x'' @ ''))'')"

lemma sample_keys_template:
  "sample_keys (''c:and_v(v:pk('' @ replicate A CHR ''x'' @ ''),pk_k('' @ replicate B CHR ''x'' @ ''))'')
     = (A, B)"
  by (simp add: sample_keys_def Let_def takeWhile_append numeral_eq_Suc)

lemma sample_descriptor [simp]:
  "build_shared_output_descriptor sample_lib A B =
     (if A = B then Panic ''a valid miniscript'' else Ok (sample_desc A B))"
proof -
  have "point_to_string sample_lib = (\<lambda>p. replicate p CHR ''x'')"
    and "miniscript_from_str sample_lib =
      (\<lambda>s. if fst (sample_keys s) = snd (sample_keys s) then Err (External 2) else Ok s)"
    by (simp_all add: sample_lib_def)
  thus ?thesis
    unfolding build_shared_output_descriptor_def sample_desc_def
    by (simp only: sample_template sample_keys_template) simp
qed

lemma sample_compressed [simp]: "compressed_pubkey sample_lib p = Ok (sample_key p)"
  by (simp add: compressed_pubkey_def sample_lib_def single_byte_def sample_key_def)

lemma sample_desc_script [simp]: "desc_script_pubkey sample_lib (sample_desc A B) = [A, B]"
  unfolding sample_desc_def
  by (simp add: sample_lib_def sample_keys_template del: append.simps)

lemma sample_desc_satisfy [simp]:
  "desc_satisfy sample_lib (sample_desc A B) i sat =
      (case (sat (sample_key A), sat (sample_key B)) of
           (Some ea, Some eb) \<Rightarrow> Ok (i\<lparr>witness := [[es_sig eb, 1], [es_sig ea, 1], []]\<rparr>)
         | _ \<Rightarrow> Err (External 3))"
  unfolding sample_desc_def
  by (simp add: sample_lib_def sample_keys_template del: append.simps)

lemma sample_compact [simp]:
  "secp_sig_from_compact sample_lib [s] = Ok s"
  "sig_from_bytes sample_lib (secp_serialize_compact sample_lib s) = Some s"
  "secp_sig_from_der sample_lib [s] = Ok s"
  "btc_pk_from_slice sample_lib [s] = Ok (sample_key s)"
  by (simp_all add: sample_lib_def single_byte_def sample_key_def)

lemma sample_key_inject [simp]: "sample_key p = sample_key q \<longleftrightarrow> p = q"
  by (simp add: sample_key_def)

lemma sample_witness_laws: "witness_laws sample_lib"
  unfolding witness_laws_def
  by (auto simp: sig_entry_def split: if_splits)

lemma sample_completion_laws: "completion_laws sample_lib"
  unfolding completion_laws_def
  by (auto simp: bitcoin_pubkey_try_from_def split: if_splits)

lemma sample_to_secpfun_scalar [simp]:
  "0 < s \<Longrightarrow> s < ed_l \<Longrightarrow> to_secpfun_scalar sample_lib s = Ok s"
  by (simp add: to_secpfun_scalar_total sample_scalar_laws)

lemma sample_from_secp [simp]:
  "s < ed_l \<Longrightarrow> private_key_from_secp256k1_scalar sample_lib s = PrivateKey s"
  by (simp add: private_key_from_secp_id sample_scalar_laws)

section \<open>A sample swap\<close>

definition sample_address :: "nat \<Rightarrow> address" where
  "sample_address n = \<lparr>addr_network = Testnet, addr_payload = n\<rparr>"

definition sample_alice0 :: alice_state0 where
  "sample_alice0 = alice_state0_new sample_lib 5000 (BdxAmount 70000) testnet_config
     (sample_address 11) (sample_address 12) 100 110 1 5 3 0"

definition sample_bob0 :: bob_state0 where
  "sample_bob0 = bob_state0_new sample_lib 77 5000 (BdxAmount 70000) (CancelTimelock 12)
     (PunishTimelock 6) (sample_address 13) 2 120 130 2 4 6 0"

definition sample_psbt :: psbt where
  "sample_psbt = \<lparr>unsigned_tx = spend_tx (9, 0) 0 5000 [1, 2], psbt_inputs = []\<rparr>"

definition sample_lock :: tx_lock where
  "sample_lock = \<lparr>tl_inner = sample_psbt, tl_descriptor = sample_desc 1 2\<rparr>"

definition sample_send :: "address \<Rightarrow> u64 \<Rightarrow> address option \<Rightarrow> (unit, psbt) io" where
  "sample_send addr amount change = ret sample_psbt"

definition sample_alice3 :: alice_state3 where
  "sample_alice3 =
     \<lparr>a3_a = \<lparr>sk_inner = 1, sk_public = 1\<rparr>, a3_B = PublicKey 2, a3_s_a = 3,
      a3_S_b_beldex = BdxPublicKey 4, a3_S_b_bitcoin = PublicKey 4,
      a3_v = PrivateViewKey (PrivateKey 11), a3_btc = 5000, a3_bdx = BdxAmount 70000,
      a3_cancel_timelock = CancelTimelock 12, a3_punish_timelock = PunishTimelock 6,
      a3_refund_address = sample_address 13, a3_redeem_address = sample_address 11,
      a3_punish_address = sample_address 12, a3_tx_lock = sample_lock,
      a3_tx_punish_sig_bob = 2802, a3_tx_cancel_sig_bob = 2954,
      a3_tx_redeem_fee = 100, a3_tx_punish_fee = 110, a3_tx_refund_fee = 120,
      a3_tx_cancel_fee = 130\<rparr>"

definition sample_bob2 :: bob_state2 where
  "sample_bob2 =
     \<lparr>b2_A = PublicKey 1, b2_b = \<lparr>sk_inner = 2, sk_public = 2\<rparr>, b2_s_b = 4,
      b2_S_a_beldex = BdxPublicKey 3, b2_S_a_bitcoin = PublicKey 3,
      b2_v = PrivateViewKey (PrivateKey 11), b2_bdx = BdxAmount 70000,
      b2_cancel_timelock = CancelTimelock 12, b2_punish_timelock = PunishTimelock 6,
      b2_refund_address = sample_address 13, b2_redeem_address = sample_address 11,
      b2_punish_address = sample_address 12, b2_tx_lock = sample_lock,
      b2_tx_cancel_sig_a = 1954, b2_tx_refund_encsig = 1815, b2_min_beldex_confirmations = 2,
      b2_tx_redeem_fee = 100, b2_tx_punish_fee = 110, b2_tx_refund_fee = 120,
      b2_tx_cancel_fee = 130\<rparr>"

lemma sample_alice3_simps [simp]:
  "a3_a sample_alice3 = \<lparr>sk_inner = 1, sk_public = 1\<rparr>"
  "a3_B sample_alice3 = PublicKey 2"
  "a3_s_a sample_alice3 = 3"
  "a3_S_b_beldex sample_alice3 = BdxPublicKey 4"
  "a3_S_b_bitcoin sample_alice3 = PublicKey 4"
  "a3_v sample_alice3 = PrivateViewKey (PrivateKey 11)"
  "a3_btc sample_alice3 = 5000"
  "a3_bdx sample_alice3 = BdxAmount 70000"
  "a3_cancel_timelock sample_alice3 = CancelTimelock 12"
  "a3_punish_timelock sample_alice3 = PunishTimelock 6"
  "a3_refund_address sample_alice3 = sample_address 13"
  "a3_redeem_address sample_alice3 = sample_address 11"
  "a3_punish_address sample_alice3 = sample_address 12"
  "a3_tx_lock sample_alice3 = sample_lock"
  "a3_tx_punish_sig_bob sample_alice3 = 2802"
  "a3_tx_cancel_sig_bob sample_alice3 = 2954"
  "a3_tx_redeem_fee sample_alice3 = 100"
  "a3_tx_punish_fee sample_alice3 = 110"
  "a3_tx_refund_fee sample_alice3 = 120"
  "a3_tx_cancel_fee sample_alice3 = 130"
  by (simp_all add: sample_alice3_def)

lemma sample_bob2_simps [simp]:
  "b2_A sample_bob2 = PublicKey 1"
  "b2_b sample_bob2 = \<lparr>sk_inner = 2, sk_public = 2\<rparr>"
  "b2_s_b sample_bob2 = 4"
  "b2_S_a_beldex sample_bob2 = BdxPublicKey 3"
  "b2_S_a_bitcoin sample_bob2 = PublicKey 3"
  "b2_v sample_bob2 = PrivateViewKey (PrivateKey 11)"
  "b2_bdx sample_bob2 = BdxAmount 70000"
  "b2_cancel_timelock sample_bob2 = CancelTimelock 12"
  "b2_punish_timelock sample_bob2 = PunishTimelock 6"
  "b2_refund_address sample_bob2 = sample_address 13"
  "b2_redeem_address sample_bob2 = sample_address 11"
  "b2_punish_address sample_bob2 = sample_address 12"
  "b2_tx_lock sample_bob2 = sample_lock"
  "b2_tx_cancel_sig_a sample_bob2 = 1954"
  "b2_tx_refund_encsig sample_bob2 = 1815"
  "b2_min_beldex_confirmations sample_bob2 = 2"
  "b2_tx_redeem_fee sample_bob2 = 100"
  "b2_tx_punish_fee sample_bob2 = 110"
  "b2_tx_refund_fee sample_bob2 = 120"
  "b2_tx_cancel_fee sample_bob2 = 130"
  by (simp_all add: sample_bob2_def)

definition sample_cancel :: tx_cancel where
  "sample_cancel =
     \<lparr>tc_inner = spend_tx (5000, 0) 12 4870 [1, 2], tc_digest = 4954,
      tc_output_descriptor = sample_desc 1 2, tc_lock_output_descriptor = sample_desc 1 2\<rparr>"

definition sample_refund :: tx_refund where
  "sample_refund =
     \<lparr>tr_inner = spend_tx (4954, 0) 0xFFFFFFFF 4750 [13], tr_digest = 30064775815,
      tr_cancel_output_descriptor = sample_desc 1 2, tr_watch_script = [13]\<rparr>"

definition sample_punish :: tx_punish where
  "sample_punish =
     \<lparr>tp_inner = spend_tx (4954, 0) 6 4760 [12], tp_digest = 4802,
      tp_cancel_output_descriptor = sample_desc 1 2, tp_watch_script = [12]\<rparr>"

definition sample_redeem :: tx_redeem where
  "sample_redeem =
     \<lparr>td_inner = spend_tx (5000, 0) 0xFFFFFFFF 4900 [11], td_digest = 30064775965,
      td_lock_output_descriptor = sample_desc 1 2, td_watch_script = [11]\<rparr>"

lemma sample_lock_outpoint [simp]:
  "tx_lock_as_outpoint sample_lib sample_lock = Ok (5000, 0)"
  "tx_lock_amount sample_lib sample_lock = Ok 5000"
  "tx_lock_output_vout sample_lib sample_lock = Ok 0"
  by (simp_all add: tx_lock_as_outpoint_def tx_lock_amount_def tx_lock_output_vout_def
      tx_lock_txid_def sample_lock_def sample_psbt_def sample_hash_def index_vec_def)

lemma sample_cancel_new [simp]:
  "tx_cancel_new sample_lib sample_lock (CancelTimelock 12) (PublicKey 1) (PublicKey 2) 130
     = Ok sample_cancel"
  by (simp add: tx_cancel_new_def segwit_digest_def sample_hash_def sample_cancel_def Let_def)
    (simp add: sample_lock_def)

lemma sample_cancel_spend [simp]:
  "tx_cancel_amount sample_cancel = Ok 4870"
  "tx_cancel_as_outpoint sample_lib sample_cancel = (4954, 0)"
  "tc_digest sample_cancel = 4954" "tc_inner sample_cancel = spend_tx (5000, 0) 12 4870 [1, 2]"
  "tc_output_descriptor sample_cancel = sample_desc 1 2"
  "tc_lock_output_descriptor sample_cancel = sample_desc 1 2"
  by (simp_all add: tx_cancel_amount_def tx_cancel_as_outpoint_def sample_cancel_def sample_hash_def
      index_vec_def)

lemma sample_refund_new [simp]:
  "tx_refund_new sample_lib sample_cancel (sample_address 13) 120 = Ok sample_refund"
  by (simp add: tx_refund_new_def tx_cancel_build_spend_def segwit_digest_def sample_hash_def
      sample_refund_def sample_address_def)

lemma sample_punish_new [simp]:
  "tx_punish_new sample_lib sample_cancel (sample_address 12) (PunishTimelock 6) 110
     = Ok sample_punish"
  by (simp add: tx_punish_new_def tx_cancel_build_spend_def segwit_digest_def sample_hash_def
      sample_punish_def sample_address_def)

lemma sample_redeem_new [simp]:
  "tx_redeem_new sample_lib sample_lock (sample_address 11) 100 = Ok sample_redeem"
  by (simp add: tx_redeem_new_def tx_lock_build_spend_def segwit_digest_def sample_hash_def
      sample_redeem_def sample_address_def index_vec_def)
    (simp add: sample_lock_def sample_psbt_def)

lemma sample_setup_ok:
  "setup_run sample_lib Testnet sample_send sample_alice0 sample_bob0 ()
     = (Ok (sample_alice3, sample_bob2), ())"
proof -
  have l: "(3::nat) < ed_l" "(4::nat) < ed_l" "(5::nat) < ed_l" "(11::nat) < ed_l"
    by (simp_all add: ed_l_def)
  have lock: "\<lparr>tl_inner = sample_psbt, tl_descriptor = sample_desc 1 2\<rparr> = sample_lock"
    "tl_inner sample_lock = sample_psbt"
    by (simp_all add: sample_lock_def)
  have lock_of: "tx_lock_from_psbt sample_lib sample_psbt (PublicKey 1) (PublicKey 2) 5000 = Ok sample_lock"
    by (simp add: tx_lock_from_psbt_def shared_output_candidate_def sample_psbt_def sample_lock_def)
  have a0: "sample_alice0 = \<lparr>a0_a = \<lparr>sk_inner = 1, sk_public = 1\<rparr>, a0_s_a = 3,
      a0_v_a = PrivateViewKey (PrivateKey 5), a0_S_a_beldex = BdxPublicKey 3,
      a0_S_a_bitcoin = PublicKey 3, a0_dleq_proof_s_a = 3, a0_btc = 5000, a0_bdx = BdxAmount 70000,
      a0_cancel_timelock = CancelTimelock 12, a0_punish_timelock = PunishTimelock 6,
      a0_redeem_address = sample_address 11, a0_punish_address = sample_address 12,
      a0_tx_redeem_fee = 100, a0_tx_punish_fee = 110\<rparr>"
    using l by (simp add: sample_alice0_def alice_state0_new_def secret_key_new_random_def
        private_view_key_new_random_def testnet_config_def)
  have b0: "sample_bob0 = \<lparr>b0_swap_id = 77, b0_b = \<lparr>sk_inner = 2, sk_public = 2\<rparr>, b0_s_b = 4,
      b0_S_b_beldex = BdxPublicKey 4, b0_S_b_bitcoin = PublicKey 4,
      b0_v_b = PrivateViewKey (PrivateKey 6), b0_dleq_proof_s_b = 4, b0_btc = 5000,
      b0_bdx = BdxAmount 70000, b0_cancel_timelock = CancelTimelock 12,
      b0_punish_timelock = PunishTimelock 6, b0_refund_address = sample_address 13,
      b0_min_beldex_confirmations = 2, b0_tx_refund_fee = 120, b0_tx_cancel_fee = 130\<rparr>"
    using l by (simp add: sample_bob0_def bob_state0_new_def secret_key_new_random_def
        private_view_key_new_random_def)
  note defs = a0 b0 bob_state0_next_message_def alice_state0_receive_def
    alice_state1_next_message_def bob_state1_next_message_def public_def
    private_view_key_add_def private_key_add_def
  show ?thesis
    unfolding setup_run_def using l
    by (simp add: defs bob_state0_receive_def tx_lock_new_def sample_send_def Let_def lock
        alice_state1_receive_def lock_of alice_state2_next_message_def sign_def encsign_def
        sample_sig_def bob_state1_receive_def verify_sig_def verify_encsig_def sample_refund_def
        public_key_from_scalar_def bob_state2_next_message_def sample_punish_def
        alice_state2_receive_def sample_alice3_def sample_bob2_def del: One_nat_def)
qed

end
