(* ===== verification/Setup_Properties.thy ===== *)
theory Setup_Properties
  imports Sample_Library
begin

text \<open>
  The properties of the setup: agreement of the two parties, the signatures that secure each
  party's way out, and the extraction of the other party's scalar from a published transaction.
\<close>

section \<open>Inversion of the setup steps\<close>

lemma alice_state0_receive_OkD:
  assumes "alice_state0_receive L st msg = Ok (sid, a1)"
  shows "sid = m0_swap_id msg" "a1_a a1 = a0_a st" "a1_B a1 = m0_B msg" "a1_s_a a1 = a0_s_a st"
    "a1_S_a_beldex a1 = a0_S_a_beldex st" "a1_S_a_bitcoin a1 = a0_S_a_bitcoin st"
    "a1_S_b_beldex a1 = m0_S_b_beldex msg" "a1_S_b_bitcoin a1 = m0_S_b_bitcoin msg"
    "a1_v a1 = private_view_key_add L (a0_v_a st) (m0_v_b msg)" "a1_v_a a1 = a0_v_a st"
    "a1_btc a1 = a0_btc st" "a1_bdx a1 = a0_bdx st"
    "a1_cancel_timelock a1 = a0_cancel_timelock st" "a1_punish_timelock a1 = a0_punish_timelock st"
    "a1_refund_address a1 = m0_refund_address msg" "a1_redeem_address a1 = a0_redeem_address st"
    "a1_punish_address a1 = a0_punish_address st" "a1_tx_redeem_fee a1 = a0_tx_redeem_fee st"
    "a1_tx_punish_fee a1 = a0_tx_punish_fee st" "a1_tx_refund_fee a1 = m0_tx_refund_fee msg"
    "a1_tx_cancel_fee a1 = m0_tx_cancel_fee msg"
  using assms by (auto simp: alice_state0_receive_def Let_def outcome_rules split: if_splits)

lemma bob_state0_receive_OkD:
  assumes "bob_state0_receive L net send st msg w = (Ok b1, w')"
  shows "b1_A b1 = m1_A msg" "b1_b b1 = b0_b st" "b1_s_b b1 = b0_s_b st"
    "b1_S_a_beldex b1 = m1_S_a_beldex msg" "b1_S_a_bitcoin b1 = m1_S_a_bitcoin msg"
    "b1_v b1 = private_view_key_add L (m1_v_a msg) (b0_v_b st)" "b1_bdx b1 = b0_bdx st"
    "b1_cancel_timelock b1 = b0_cancel_timelock st" "b1_punish_timelock b1 = b0_punish_timelock st"
    "b1_refund_address b1 = b0_refund_address st" "b1_redeem_address b1 = m1_redeem_address msg"
    "b1_punish_address b1 = m1_punish_address msg" "b1_tx_redeem_fee b1 = m1_tx_redeem_fee msg"
    "b1_tx_refund_fee b1 = b0_tx_refund_fee st" "b1_tx_punish_fee b1 = m1_tx_punish_fee msg"
    "b1_tx_cancel_fee b1 = b0_tx_cancel_fee st"
    "build_shared_output_descriptor L (pk_point (m1_A msg)) (pk_point (public (b0_b st)))
       = Ok (tl_descriptor (b1_tx_lock b1))"
  using assms
  by (auto simp: bob_state0_receive_def tx_lock_new_def Let_def outcome_rules split: if_splits)

lemma alice_state1_receive_OkD:
  assumes "alice_state1_receive L st msg = Ok a2"
  shows "a2_a a2 = a1_a st" "a2_B a2 = a1_B st" "a2_s_a a2 = a1_s_a st"
    "a2_S_b_beldex a2 = a1_S_b_beldex st" "a2_S_b_bitcoin a2 = a1_S_b_bitcoin st"
    "a2_v a2 = a1_v st" "a2_btc a2 = a1_btc st" "a2_bdx a2 = a1_bdx st"
    "a2_cancel_timelock a2 = a1_cancel_timelock st" "a2_punish_timelock a2 = a1_punish_timelock st"
    "a2_refund_address a2 = a1_refund_address st" "a2_redeem_address a2 = a1_redeem_address st"
    "a2_punish_address a2 = a1_punish_address st" "a2_tx_redeem_fee a2 = a1_tx_redeem_fee st"
    "a2_tx_punish_fee a2 = a1_tx_punish_fee st" "a2_tx_refund_fee a2 = a1_tx_refund_fee st"
    "a2_tx_cancel_fee a2 = a1_tx_cancel_fee st"
    "tx_lock_from_psbt L (m2_psbt msg) (public (a1_a st)) (a1_B st) (a1_btc st) = Ok (a2_tx_lock a2)"
  using assms by (auto simp: alice_state1_receive_def outcome_rules)

lemma bob_state1_receive_OkD:
  assumes "bob_state1_receive L st msg = Ok b2"
  shows "b2_A b2 = b1_A st" "b2_b b2 = b1_b st" "b2_s_b b2 = b1_s_b st"
    "b2_S_a_beldex b2 = b1_S_a_beldex st" "b2_S_a_bitcoin b2 = b1_S_a_bitcoin st"
    "b2_v b2 = b1_v st" "b2_bdx b2 = b1_bdx st"
    "b2_cancel_timelock b2 = b1_cancel_timelock st" "b2_punish_timelock b2 = b1_punish_timelock st"
    "b2_refund_address b2 = b1_refund_address st" "b2_redeem_address b2 = b1_redeem_address st"
    "b2_punish_address b2 = b1_punish_address st" "b2_tx_lock b2 = b1_tx_lock st"
    "b2_tx_cancel_sig_a b2 = m3_tx_cancel_sig msg" "b2_tx_refund_encsig b2 = m3_tx_refund_encsig msg"
    "b2_tx_redeem_fee b2 = b1_tx_redeem_fee st" "b2_tx_punish_fee b2 = b1_tx_punish_fee st"
    "b2_tx_refund_fee b2 = b1_tx_refund_fee st" "b2_tx_cancel_fee b2 = b1_tx_cancel_fee st"
  using assms by (auto simp: bob_state1_receive_def outcome_rules)

lemma alice_state2_receive_OkD:
  assumes "alice_state2_receive L st msg = Ok a3"
  shows "a3_a a3 = a2_a st" "a3_B a3 = a2_B st" "a3_s_a a3 = a2_s_a st"
    "a3_S_b_beldex a3 = a2_S_b_beldex st" "a3_S_b_bitcoin a3 = a2_S_b_bitcoin st"
    "a3_v a3 = a2_v st" "a3_btc a3 = a2_btc st" "a3_bdx a3 = a2_bdx st"
    "a3_cancel_timelock a3 = a2_cancel_timelock st" "a3_punish_timelock a3 = a2_punish_timelock st"
    "a3_refund_address a3 = a2_refund_address st" "a3_redeem_address a3 = a2_redeem_address st"
    "a3_punish_address a3 = a2_punish_address st" "a3_tx_lock a3 = a2_tx_lock st"
    "a3_tx_punish_sig_bob a3 = m4_tx_punish_sig msg" "a3_tx_cancel_sig_bob a3 = m4_tx_cancel_sig msg"
    "a3_tx_redeem_fee a3 = a2_tx_redeem_fee st" "a3_tx_punish_fee a3 = a2_tx_punish_fee st"
    "a3_tx_refund_fee a3 = a2_tx_refund_fee st" "a3_tx_cancel_fee a3 = a2_tx_cancel_fee st"
  using assms by (auto simp: alice_state2_receive_def outcome_rules)

lemmas setup_OkD = alice_state0_receive_OkD bob_state0_receive_OkD alice_state1_receive_OkD
  bob_state1_receive_OkD alice_state2_receive_OkD

lemma tx_lock_from_psbt_OkD:
  assumes "tx_lock_from_psbt L p A B btc = Ok t"
  shows "tl_inner t = p"
    "build_shared_output_descriptor L (pk_point A) (pk_point B) = Ok (tl_descriptor t)"
  using assms by (auto simp: tx_lock_from_psbt_def outcome_rules split: if_splits)

lemma setup_run_OkD:
  assumes "setup_run L net send a0 b0 w = (Ok (a3, b2), w')"
  obtains sid a1 b1 a2 m3 m4 where
    "alice_state0_receive L a0 (bob_state0_next_message b0) = Ok (sid, a1)"
    "bob_state0_receive L net send b0 (alice_state1_next_message a1) w = (Ok b1, w')"
    "alice_state1_receive L a1 (bob_state1_next_message b1) = Ok a2"
    "alice_state2_next_message L a2 = Ok m3" "bob_state1_receive L b1 m3 = Ok b2"
    "bob_state2_next_message L b2 = Ok m4" "alice_state2_receive L a2 m4 = Ok a3"
  using assms by (auto simp: setup_run_def outcome_rules)

section \<open>Agreement\<close>

lemma setup_same_swap:
  assumes run: "setup_run L net send a0 b0 w = (Ok (a3, b2), w')"
    and ct: "a0_cancel_timelock a0 = b0_cancel_timelock b0"
    and pt: "a0_punish_timelock a0 = b0_punish_timelock b0"
  shows "same_swap a3 b2 \<and> a3_v a3 = b2_v b2 \<and>
    build_shared_output_descriptor L (pk_point (public (a3_a a3))) (pk_point (public (b2_b b2)))
      = Ok (tl_descriptor (a3_tx_lock a3))"
proof -
  obtain sid a1 b1 a2 m3 m4 where s:
    "alice_state0_receive L a0 (bob_state0_next_message b0) = Ok (sid, a1)"
    "bob_state0_receive L net send b0 (alice_state1_next_message a1) w = (Ok b1, w')"
    "alice_state1_receive L a1 (bob_state1_next_message b1) = Ok a2"
    "alice_state2_next_message L a2 = Ok m3" "bob_state1_receive L b1 m3 = Ok b2"
    "bob_state2_next_message L b2 = Ok m4" "alice_state2_receive L a2 m4 = Ok a3"
    using run by (elim setup_run_OkD)
  note f = alice_state0_receive_OkD[OF s(1)] bob_state0_receive_OkD[OF s(2)]
    alice_state1_receive_OkD[OF s(3)] bob_state1_receive_OkD[OF s(5)]
    alice_state2_receive_OkD[OF s(7)] bob_state0_next_message_def alice_state1_next_message_def
    bob_state1_next_message_def
  have psbt: "tl_inner (a2_tx_lock a2) = tl_inner (b1_tx_lock b1)"
    and desc: "build_shared_output_descriptor L (pk_point (public (a1_a a1))) (pk_point (a1_B a1))
        = Ok (tl_descriptor (a2_tx_lock a2))"
    using tx_lock_from_psbt_OkD[OF alice_state1_receive_OkD(18)[OF s(3)]] by (simp_all add: f)
  hence "a2_tx_lock a2 = b1_tx_lock b1"
    using bob_state0_receive_OkD(17)[OF s(2)] by (simp add: f tx_lock.equality)
  thus ?thesis
    using desc ct pt by (simp add: same_swap_def f)
qed

lemma same_swap_tx_cancel:
  "same_swap a b \<Longrightarrow>
   alice_tx_cancel L a =
     expect_ok ''valid cancel tx'' (bob_construct_tx_cancel L (bob3_cancel (fst (bob_lock_btc b)) h))"
  by (simp add: same_swap_def alice_tx_cancel_def bob_construct_tx_cancel_def bob3_cancel_def
      bob_lock_btc_def)

lemma same_swap_tx_refund:
  assumes "same_swap a b"
  shows "alice_tx_refund L a = Ok r \<longleftrightarrow> bob_tx_refund L (bob3_cancel (fst (bob_lock_btc b)) h) = Ok r"
proof -
  let ?b6 = "bob3_cancel (fst (bob_lock_btc b)) h"
  have "a3_refund_address a = b6_refund_address ?b6" "a3_tx_refund_fee a = b6_tx_refund_fee ?b6"
    using assms by (simp_all add: same_swap_def bob3_cancel_def bob_lock_btc_def)
  thus ?thesis
    by (auto simp: alice_tx_refund_def bob_tx_refund_def same_swap_tx_cancel[OF assms, of _ h]
        outcome_rules)
qed

lemma same_swap_tx_redeem:
  "same_swap a b \<Longrightarrow> alice_tx_redeem L a = bob_tx_redeem L (bob_bdx_locked (fst (bob_lock_btc b)) h)"
  by (simp add: same_swap_def alice_tx_redeem_def bob_tx_redeem_def bob_bdx_locked_def
      bob_lock_btc_def)

lemma setup_counterpart_keys:
  assumes "setup_run L net send a0 b0 w = (Ok (a, b), w')"
  shows "counterpart_keys L a0 b0 a b"
proof -
  obtain sid a1 b1 a2 m3 m4 where s:
    "alice_state0_receive L a0 (bob_state0_next_message b0) = Ok (sid, a1)"
    "bob_state0_receive L net send b0 (alice_state1_next_message a1) w = (Ok b1, w')"
    "alice_state1_receive L a1 (bob_state1_next_message b1) = Ok a2"
    "alice_state2_next_message L a2 = Ok m3" "bob_state1_receive L b1 m3 = Ok b"
    "bob_state2_next_message L b = Ok m4" "alice_state2_receive L a2 m4 = Ok a"
    using assms by (elim setup_run_OkD)
  show ?thesis
    by (simp add: counterpart_keys_def alice_state0_receive_OkD[OF s(1)] bob_state0_receive_OkD[OF s(2)]
      alice_state1_receive_OkD[OF s(3)] bob_state1_receive_OkD[OF s(5)] alice_state2_receive_OkD[OF s(7)]
      bob_state0_next_message_def alice_state1_next_message_def)
qed

lemma tx_lock_from_psbt_output:
  assumes "tx_lock_from_psbt L p A B btc = Ok t"
  shows "\<exists>out \<in> set (tx_output (unsigned_tx p)). txo_value out = btc \<and> txo_script out = tx_lock_script_pubkey L t"
  using assms
  by (auto simp: tx_lock_from_psbt_def tx_lock_script_pubkey_def shared_output_candidate_def outcome_rules
      split: list.splits if_splits)

lemma setup_agreed_terms:
  assumes "setup_run L net send a0 b0 w = (Ok (a, b), w')"
  shows "agreed_terms L a0 b0 a b"
proof -
  obtain sid a1 b1 a2 m3 m4 where s:
    "alice_state0_receive L a0 (bob_state0_next_message b0) = Ok (sid, a1)"
    "bob_state0_receive L net send b0 (alice_state1_next_message a1) w = (Ok b1, w')"
    "alice_state1_receive L a1 (bob_state1_next_message b1) = Ok a2"
    "alice_state2_next_message L a2 = Ok m3" "bob_state1_receive L b1 m3 = Ok b"
    "bob_state2_next_message L b = Ok m4" "alice_state2_receive L a2 m4 = Ok a"
    using assms by (elim setup_run_OkD)
  note f = alice_state0_receive_OkD[OF s(1)] bob_state0_receive_OkD[OF s(2)]
    alice_state1_receive_OkD[OF s(3)] bob_state1_receive_OkD[OF s(5)]
    alice_state2_receive_OkD[OF s(7)] bob_state0_next_message_def alice_state1_next_message_def
    bob_state1_next_message_def
  note from_psbt = alice_state1_receive_OkD(18)[OF s(3)]
  have psbt: "tl_inner (a2_tx_lock a2) = tl_inner (b1_tx_lock b1)"
    and desc: "build_shared_output_descriptor L (pk_point (public (a1_a a1))) (pk_point (a1_B a1))
        = Ok (tl_descriptor (a2_tx_lock a2))"
    using tx_lock_from_psbt_OkD[OF from_psbt] by (simp_all add: f)
  hence lock: "a2_tx_lock a2 = b1_tx_lock b1"
    using bob_state0_receive_OkD(17)[OF s(2)] by (simp add: f tx_lock.equality)
  have "\<exists>out \<in> set (tx_output (unsigned_tx (tl_inner (b1_tx_lock b1)))).
        txo_value out = a0_btc a0 \<and> txo_script out = tx_lock_script_pubkey L (a2_tx_lock a2)"
    using tx_lock_from_psbt_output[OF from_psbt] by (simp add: f)
  thus ?thesis
    using desc lock by (simp add: agreed_terms_def f)
qed

lemma agreed_terms_same_swap:
  assumes "counterpart_keys L a0 b0 a b" "agreed_terms L a0 b0 a b"
    and "a0_cancel_timelock a0 = b0_cancel_timelock b0" "a0_punish_timelock a0 = b0_punish_timelock b0"
  shows "same_swap a b"
  using assms by (simp add: counterpart_keys_def agreed_terms_def same_swap_def)

lemma setup_same_transactions:
  assumes run: "setup_run L net send a0 b0 w = (Ok (a, b), w')"
    and ct: "a0_cancel_timelock a0 = b0_cancel_timelock b0"
    and pt: "a0_punish_timelock a0 = b0_punish_timelock b0"
  shows "same_transactions L a b"
proof -
  obtain sid a1 b1 a2 m3 m4 where s: "alice_state2_next_message L a2 = Ok m3"
    "bob_state2_next_message L b = Ok m4" "alice_state2_receive L a2 m4 = Ok a"
    using run by (elim setup_run_OkD)
  note f = alice_state2_receive_OkD[OF s(3)]
  have same: "same_swap a b"
    using agreed_terms_same_swap[OF setup_counterpart_keys[OF run] setup_agreed_terms[OF run] ct pt] .
  obtain c r where c: "alice_tx_cancel L a = Ok c" and r: "alice_tx_refund L a = Ok r"
    using s(1) by (auto simp: alice_state2_next_message_def alice_tx_cancel_def alice_tx_refund_def f outcome_rules)
  obtain p where p: "alice_tx_punish L a = Ok p"
    using s(3) by (auto simp: alice_state2_receive_def alice_tx_cancel_def alice_tx_punish_def f outcome_rules)
  have bob: "bob_construct_tx_cancel L (bob3_cancel (fst (bob_lock_btc b)) h) = Ok c" for h
    using c same_swap_tx_cancel[OF same, of L h] by (simp add: outcome_rules)
  have "m4 = \<lparr>m4_tx_punish_sig = sign L (b2_b b) (tp_digest p), m4_tx_cancel_sig = sign L (b2_b b) (tc_digest c)\<rparr>"
    using s(2) c p same
    by (auto simp: bob_state2_next_message_def alice_tx_punish_def alice_tx_cancel_def same_swap_def outcome_rules)
  thus ?thesis
    using c r p bob s(2) same_swap_tx_refund[OF same] same_swap_tx_redeem[OF same]
    unfolding same_transactions_def by blast
qed

lemma cancel_u32_inject: "cancel_u32 x = cancel_u32 y \<longleftrightarrow> x = y"
  by (cases x; cases y) simp

lemma setup_cancel_differs:
  assumes run: "setup_run L net send a0 b0 w = (Ok (a, b), w')"
    and c: "alice_tx_cancel L a = Ok c"
    and c': "bob_construct_tx_cancel L (bob3_cancel (fst (bob_lock_btc b)) h) = Ok c'"
  shows "c = c' \<longleftrightarrow> a0_cancel_timelock a0 = b0_cancel_timelock b0"
proof -
  have t: "counterpart_keys L a0 b0 a b" "agreed_terms L a0 b0 a b"
    using setup_counterpart_keys[OF run] setup_agreed_terms[OF run] by auto
  have a: "tx_cancel_new L (b2_tx_lock b) (a0_cancel_timelock a0) (b2_A b) (public (b2_b b)) (b2_tx_cancel_fee b) = Ok c"
    and b: "tx_cancel_new L (b2_tx_lock b) (b0_cancel_timelock b0) (b2_A b) (public (b2_b b)) (b2_tx_cancel_fee b) = Ok c'"
    using c c' t by (auto simp: alice_tx_cancel_def bob_construct_tx_cancel_def bob3_cancel_def bob_lock_btc_def
        counterpart_keys_def agreed_terms_def outcome_rules)
  obtain prev prev' v v' spk spk' where
    "tc_inner c = spend_tx prev (cancel_u32 (a0_cancel_timelock a0)) v spk"
    "tc_inner c' = spend_tx prev' (cancel_u32 (b0_cancel_timelock b0)) v' spk'"
    using tx_cancel_new_OkD[OF a] tx_cancel_new_OkD[OF b] by metis
  moreover have "c = c'" if "a0_cancel_timelock a0 = b0_cancel_timelock b0" using a b that by simp
  ultimately show ?thesis by (auto simp: spend_tx_def cancel_u32_inject)
qed

text \<open>
  C1: a setup that completes leaves both parties with the same swap, whatever states they enter with.
  Each keeps its own secrets, the other's signing key and both public halves of the other's share of
  the Beldex spend key, and both keep the same view key (\<open>counterpart_keys\<close>); both keep the same lock
  transaction, which pays Alice's bitcoin amount to the output of both keys, and the same addresses and
  fees (\<open>agreed_terms\<close>), so they build the same redeem transaction. The timelocks are configuration and
  not part of any message: when they are equal, both build the same cancel, refund and punish
  transaction (\<open>same_transactions\<close>), and the two cancel transactions are the same only then.
\<close>

theorem setup_agreement:
  assumes "setup_run L net send a0 b0 w = (Ok (a, b), w')"
  shows "counterpart_keys L a0 b0 a b \<and> agreed_terms L a0 b0 a b \<and>
    alice_tx_redeem L a = bob_tx_redeem L (bob_bdx_locked (fst (bob_lock_btc b)) h) \<and>
    (a0_cancel_timelock a0 = b0_cancel_timelock b0 \<and> a0_punish_timelock a0 = b0_punish_timelock b0 \<longrightarrow>
       same_swap a b \<and> same_transactions L a b) \<and>
    (alice_tx_cancel L a = Ok c \<longrightarrow>
     bob_construct_tx_cancel L (bob3_cancel (fst (bob_lock_btc b)) h) = Ok c' \<longrightarrow>
       (c = c' \<longleftrightarrow> a0_cancel_timelock a0 = b0_cancel_timelock b0))"
proof -
  have t: "counterpart_keys L a0 b0 a b" "agreed_terms L a0 b0 a b"
    using setup_counterpart_keys[OF assms] setup_agreed_terms[OF assms] by auto
  have "alice_tx_redeem L a = bob_tx_redeem L (bob_bdx_locked (fst (bob_lock_btc b)) h)"
    using t(2) by (simp add: agreed_terms_def alice_tx_redeem_def bob_tx_redeem_def bob_bdx_locked_def bob_lock_btc_def)
  thus ?thesis
    using t agreed_terms_same_swap[OF t] setup_same_transactions[OF assms] setup_cancel_differs[OF assms] by simp
qed

theorem setup_agreement_witness:
  "counterpart_keys sample_lib sample_alice0 sample_bob0 sample_alice3 sample_bob2 \<and>
    agreed_terms sample_lib sample_alice0 sample_bob0 sample_alice3 sample_bob2 \<and>
    same_swap sample_alice3 sample_bob2 \<and> same_transactions sample_lib sample_alice3 sample_bob2 \<and>
    bob_construct_tx_cancel sample_lib (bob3_cancel (fst (bob_lock_btc sample_bob2)) 40) = Ok sample_cancel"
proof -
  have "a0_cancel_timelock sample_alice0 = b0_cancel_timelock sample_bob0"
    "a0_punish_timelock sample_alice0 = b0_punish_timelock sample_bob0"
    by (simp_all add: sample_alice0_def sample_bob0_def alice_state0_new_def bob_state0_new_def
        Let_def testnet_config_def)
  moreover have "bob_construct_tx_cancel sample_lib (bob3_cancel (fst (bob_lock_btc sample_bob2)) 40) = Ok sample_cancel"
    by (simp add: bob_construct_tx_cancel_def bob3_cancel_def bob_lock_btc_def sample_bob2_def public_def
        del: One_nat_def)
  ultimately show ?thesis
    using setup_agreement[OF sample_setup_ok, of 40 sample_cancel sample_cancel] by blast
qed

section \<open>The signatures that secure each party's way out\<close>

text \<open>What a completed setup leaves Alice with, whatever Bob sent.\<close>

lemma alice_receives_desc:
  assumes "alice_state1_receive L a1 m2 = Ok a2" "alice_state2_receive L a2 m4 = Ok a"
  shows "build_shared_output_descriptor L (pk_point (public (a3_a a))) (pk_point (a3_B a))
    = Ok (tl_descriptor (a3_tx_lock a))"
  using tx_lock_from_psbt_OkD(2)[OF alice_state1_receive_OkD(18)[OF assms(1)]]
  by (simp add: alice_state1_receive_OkD[OF assms(1)] alice_state2_receive_OkD[OF assms(2)])

lemma alice_holds_signatures:
  assumes "alice_state2_receive L a2 m4 = Ok a"
  obtains c p where "alice_tx_cancel L a = Ok c" "alice_tx_punish L a = Ok p"
    "ecdsa_verify L (pk_point (a3_B a)) (tc_digest c) (a3_tx_cancel_sig_bob a)"
    "ecdsa_verify L (pk_point (a3_B a)) (tp_digest p) (a3_tx_punish_sig_bob a)"
  using assms alice_state2_receive_OkD[OF assms]
  by (auto simp: alice_state2_receive_def alice_tx_cancel_def alice_tx_punish_def outcome_rules)

lemma cancel_descriptors:
  assumes "tx_cancel_new L t ct A B fee = Ok c"
    and "build_shared_output_descriptor L (pk_point A) (pk_point B) = Ok (tl_descriptor t)"
  shows "tc_output_descriptor c = tl_descriptor t" "tc_lock_output_descriptor c = tl_descriptor t"
    "\<exists>i. tx_input (tc_inner c) = [i]"
  using assms by (auto elim!: tx_cancel_new_OkD)

text \<open>
  C7: once Alice has received Bob's three messages, whatever they hold, she can complete the cancel and
  the punish transaction of her state without Bob: \<open>signed_cancel_transaction\<close> and
  \<open>signed_punish_transaction\<close> return, what they return is the transaction she built but for its witness,
  and on the witness stack are two signatures that verify, one under her key and one under Bob's.
  Assumed: her signing key is a key pair, the two keys differ as Bitcoin keys, and the documented
  behaviour of the crates (\<open>signature_laws\<close>, \<open>witness_laws\<close>, \<open>completion_laws\<close>).
\<close>

theorem alice_setup_secures_cancel_and_punish:
  assumes m: "alice_state0_receive L a0 m0 = Ok (sid, a1)" "alice_state1_receive L a1 m2 = Ok a2"
      "alice_state2_receive L a2 m4 = Ok a"
    and key: "key_pair L (a0_a a0)"
    and laws: "signature_laws L" "witness_laws L" "completion_laws L"
    and distinct: "compressed_pubkey L (pk_point (public (a0_a a0))) \<noteq> compressed_pubkey L (pk_point (m0_B m0))"
  shows "\<exists>c p txc txp. alice_tx_cancel L a = Ok c \<and> alice_tx_punish L a = Ok p \<and>
    alice_signed_cancel_transaction L a = Ok txc \<and>
    signed_by_both L txc (tc_inner c) (tc_digest c) (public (a0_a a0)) (m0_B m0) \<and>
    alice_signed_punish_transaction L a = Ok txp \<and>
    signed_by_both L txp (tp_inner p) (tp_digest p) (public (a0_a a0)) (m0_B m0)"
proof -
  note f = alice_state0_receive_OkD[OF m(1)] alice_state1_receive_OkD[OF m(2)] alice_state2_receive_OkD[OF m(3)]
  have keys: "a3_a a = a0_a a0" "a3_B a = m0_B m0" by (simp_all add: f)
  note desc = alice_receives_desc[OF m(2,3), unfolded keys]
  obtain c p where c: "alice_tx_cancel L a = Ok c" and p: "alice_tx_punish L a = Ok p"
    and sb: "ecdsa_verify L (pk_point (m0_B m0)) (tc_digest c) (a3_tx_cancel_sig_bob a)"
      "ecdsa_verify L (pk_point (m0_B m0)) (tp_digest p) (a3_tx_punish_sig_bob a)"
    using alice_holds_signatures[OF m(3)] keys by metis
  have new: "tx_cancel_new L (a3_tx_lock a) (a3_cancel_timelock a) (public (a0_a a0)) (m0_B m0) (a3_tx_cancel_fee a) = Ok c"
    using c by (simp add: alice_tx_cancel_def keys outcome_rules)
  note d = cancel_descriptors[OF new desc]
  have pd: "tp_cancel_output_descriptor p = tl_descriptor (a3_tx_lock a)" "\<exists>i. tx_input (tp_inner p) = [i]"
    using p c d(1) by (auto simp: alice_tx_punish_def elim!: tx_punish_new_OkD)
  note own = key_pair_sign[OF laws(1) key]
  obtain sat txc where "satisfier L (public (a0_a a0)) (sign L (a0_a a0) (tc_digest c)) (m0_B m0)
      (a3_tx_cancel_sig_bob a) = Ok sat" "satisfy_input0 L (tl_descriptor (a3_tx_lock a)) (tc_inner c) sat = Ok txc"
    and txc: "signed_by_both L txc (tc_inner c) (tc_digest c) (public (a0_a a0)) (m0_B m0)"
    using satisfy_input0_signed[OF laws(2,3) desc distinct _ own sb(1)] d(3) by metis
  hence "alice_signed_cancel_transaction L a = Ok txc"
    using c d(2) by (simp add: alice_signed_cancel_transaction_def tx_cancel_complete_as_alice_def
        tx_cancel_add_signatures_def keys outcome_rules)
  moreover obtain sat' txp where s: "satisfier L (public (a0_a a0)) (sign L (a0_a a0) (tp_digest p)) (m0_B m0)
      (a3_tx_punish_sig_bob a) = Ok sat'" "satisfy_input0 L (tl_descriptor (a3_tx_lock a)) (tp_inner p) sat' = Ok txp"
    and txp: "signed_by_both L txp (tp_inner p) (tp_digest p) (public (a0_a a0)) (m0_B m0)"
    using satisfy_input0_signed[OF laws(2,3) desc distinct _ own sb(2)] pd(2) by metis
  have "alice_signed_punish_transaction L a = Ok txp"
    using p pd(1) s(2) try_from_satisfier[OF laws(3) s(1)]
    by (auto simp: alice_signed_punish_transaction_def tx_punish_complete_def keys outcome_rules)
  ultimately show ?thesis using c p txc txp by blast
qed

theorem alice_setup_secures_cancel_and_punish_witness:
  "\<exists>txc txp. alice_signed_cancel_transaction sample_lib sample_alice3 = Ok txc \<and>
    signed_by_both sample_lib txc (tc_inner sample_cancel) (tc_digest sample_cancel) (PublicKey 1) (PublicKey 2) \<and>
    alice_signed_punish_transaction sample_lib sample_alice3 = Ok txp \<and>
    signed_by_both sample_lib txp (tp_inner sample_punish) (tp_digest sample_punish) (PublicKey 1) (PublicKey 2)"
proof -
  obtain sid a1 a2 m2 m4 where m:
    "alice_state0_receive sample_lib sample_alice0 (bob_state0_next_message sample_bob0) = Ok (sid, a1)"
    "alice_state1_receive sample_lib a1 m2 = Ok a2" "alice_state2_receive sample_lib a2 m4 = Ok sample_alice3"
    using sample_setup_ok by (elim setup_run_OkD)
  have k: "a0_a sample_alice0 = \<lparr>sk_inner = 1, sk_public = 1\<rparr>" "m0_B (bob_state0_next_message sample_bob0) = PublicKey 2"
    by (simp_all add: sample_alice0_def sample_bob0_def alice_state0_new_def bob_state0_new_def Let_def
        bob_state0_next_message_def secret_key_new_random_def public_def)
  have "alice_tx_cancel sample_lib sample_alice3 = Ok sample_cancel"
    "alice_tx_punish sample_lib sample_alice3 = Ok sample_punish"
    by (simp_all add: alice_tx_cancel_def alice_tx_punish_def sample_alice3_def public_def del: One_nat_def)
  thus ?thesis
    using alice_setup_secures_cancel_and_punish[OF m _ sample_signature_laws sample_witness_laws sample_completion_laws]
    by (simp add: k key_pair_def public_def del: One_nat_def)
qed

text \<open>
  The two ways in which Bob's swap gets to \<open>State6\<close> after the lock, from \<open>State3\<close> and from \<open>State4\<close>,
  give the same state.
\<close>

lemma bob4_cancel_bdx_locked: "bob4_cancel (bob_bdx_locked st h) = bob3_cancel st h"
  by (simp add: bob4_cancel_def bob_bdx_locked_def bob3_cancel_def)

text \<open>
  C8: once Bob has received Alice's two messages, whatever they hold, and so before he locks his
  bitcoin, he can complete the cancel and the refund transaction of the states that follow without
  Alice: \<open>signed_cancel_transaction\<close> and \<open>signed_refund_transaction\<close> return, what they return is the
  transaction he built but for its witness, and on the witness stack are two signatures that verify, one
  under Alice's key (of the refund: the one he decrypts with his own Beldex scalar) and one under his.
  Assumed as for Alice.
\<close>

theorem bob_setup_secures_refund:
  assumes m: "bob_state0_receive L net send b0 m1 w = (Ok b1, w')" "bob_state1_receive L b1 m3 = Ok b"
    and key: "key_pair L (b0_b b0)"
    and laws: "signature_laws L" "witness_laws L" "completion_laws L"
    and distinct: "compressed_pubkey L (pk_point (m1_A m1)) \<noteq> compressed_pubkey L (pk_point (public (b0_b b0)))"
    and b6: "b6 = bob3_cancel (fst (bob_lock_btc b)) h \<or> b6 = bob4_cancel (bob_bdx_locked (fst (bob_lock_btc b)) h)"
  shows "\<exists>c r txc txr. bob_construct_tx_cancel L b6 = Ok c \<and> bob_tx_refund L b6 = Ok r \<and>
    bob_signed_cancel_transaction L b6 = Ok txc \<and>
    signed_by_both L txc (tc_inner c) (tc_digest c) (m1_A m1) (public (b0_b b0)) \<and>
    bob_signed_refund_transaction L b6 = Ok txr \<and>
    signed_by_both L txr (tr_inner r) (tr_digest r) (m1_A m1) (public (b0_b b0))"
proof -
  obtain c r s_b where s:
    "tx_cancel_new L (b1_tx_lock b1) (b1_cancel_timelock b1) (b1_A b1) (public (b1_b b1)) (b1_tx_cancel_fee b1) = Ok c"
    "tx_refund_new L c (b1_refund_address b1) (b1_tx_refund_fee b1) = Ok r"
    "ecdsa_verify L (pk_point (b1_A b1)) (tc_digest c) (m3_tx_cancel_sig m3)"
    "to_secpfun_scalar L (b1_s_b b1) = Ok s_b"
    "verify_encrypted_signature L (pk_point (b1_A b1)) (vk_for L s_b) (tr_digest r) (m3_tx_refund_encsig m3)"
    using m(2) by (auto simp: bob_state1_receive_def public_key_from_scalar_def outcome_rules)
  note f = bob_state0_receive_OkD[OF m(1)] bob_state1_receive_OkD[OF m(2)]
  note defs = b6[unfolded bob4_cancel_bdx_locked disj_absorb] bob3_cancel_def bob_lock_btc_def
  have keys: "b1_A b1 = m1_A m1" "b1_b b1 = b0_b b0" by (simp_all add: f)
  have c: "bob_construct_tx_cancel L b6 = Ok c" and r: "bob_tx_refund L b6 = Ok r"
    using s(1,2) by (simp_all add: bob_construct_tx_cancel_def bob_tx_refund_def defs f)
  have desc: "build_shared_output_descriptor L (pk_point (m1_A m1)) (pk_point (public (b0_b b0)))
      = Ok (tl_descriptor (b1_tx_lock b1))"
    by (rule bob_state0_receive_OkD(17)[OF m(1)])
  note d = cancel_descriptors[OF s(1)[unfolded keys] desc]
  have rd: "tr_cancel_output_descriptor r = tl_descriptor (b1_tx_lock b1)" "\<exists>i. tx_input (tr_inner r) = [i]"
    using s(2) d(1) by (auto elim!: tx_refund_new_OkD)
  note own = key_pair_sign[OF laws(1) key]
  have dec: "ecdsa_verify L (pk_point (m1_A m1)) (tr_digest r) (decrypt_signature L s_b (m3_tx_refund_encsig m3))"
    using s(5) laws(1) by (simp add: keys signature_laws_def)
  obtain sat txc where "satisfier L (m1_A m1) (m3_tx_cancel_sig m3) (public (b0_b b0)) (sign L (b0_b b0) (tc_digest c))
      = Ok sat" "satisfy_input0 L (tl_descriptor (b1_tx_lock b1)) (tc_inner c) sat = Ok txc"
    and txc: "signed_by_both L txc (tc_inner c) (tc_digest c) (m1_A m1) (public (b0_b b0))"
    using satisfy_input0_signed[OF laws(2,3) desc distinct _ s(3)[unfolded keys] own] d(3) by metis
  hence "bob_signed_cancel_transaction L b6 = Ok txc"
    using c d(2) by (simp add: bob_signed_cancel_transaction_def tx_cancel_complete_as_bob_def
        tx_cancel_add_signatures_def defs f outcome_rules)
  moreover obtain sat' txr where "satisfier L (m1_A m1) (decrypt_signature L s_b (m3_tx_refund_encsig m3))
      (public (b0_b b0)) (sign L (b0_b b0) (tr_digest r)) = Ok sat'"
      "satisfy_input0 L (tl_descriptor (b1_tx_lock b1)) (tr_inner r) sat' = Ok txr"
    and txr: "signed_by_both L txr (tr_inner r) (tr_digest r) (m1_A m1) (public (b0_b b0))"
    using satisfy_input0_signed[OF laws(2,3) desc distinct _ dec own] rd(2) by metis
  hence "bob_signed_refund_transaction L b6 = Ok txr"
    using r rd(1) s(4) by (simp add: bob_signed_refund_transaction_def tx_refund_add_signatures_def defs f Let_def)
  ultimately show ?thesis using c r txc txr by blast
qed

theorem bob_setup_secures_refund_witness:
  "\<exists>c r txc txr. bob_construct_tx_cancel sample_lib (bob3_cancel (fst (bob_lock_btc sample_bob2)) 40) = Ok c \<and>
    bob_tx_refund sample_lib (bob3_cancel (fst (bob_lock_btc sample_bob2)) 40) = Ok r \<and>
    bob_signed_cancel_transaction sample_lib (bob3_cancel (fst (bob_lock_btc sample_bob2)) 40) = Ok txc \<and>
    signed_by_both sample_lib txc (tc_inner c) (tc_digest c) (PublicKey 1) (PublicKey 2) \<and>
    bob_signed_refund_transaction sample_lib (bob3_cancel (fst (bob_lock_btc sample_bob2)) 40) = Ok txr \<and>
    signed_by_both sample_lib txr (tr_inner r) (tr_digest r) (PublicKey 1) (PublicKey 2)"
proof -
  obtain a1 b1 m3 where m:
    "bob_state0_receive sample_lib Testnet sample_send sample_bob0 (alice_state1_next_message a1) () = (Ok b1, ())"
    "bob_state1_receive sample_lib b1 m3 = Ok sample_bob2"
    using sample_setup_ok by (elim setup_run_OkD) simp
  have k: "b0_b sample_bob0 = \<lparr>sk_inner = 2, sk_public = 2\<rparr>"
    by (simp add: sample_bob0_def bob_state0_new_def Let_def secret_key_new_random_def)
  have A: "m1_A (alice_state1_next_message a1) = PublicKey 1"
    using bob_state0_receive_OkD(1)[OF m(1)] bob_state1_receive_OkD(1)[OF m(2)] by simp
  show ?thesis
    using bob_setup_secures_refund[OF m _ sample_signature_laws sample_witness_laws sample_completion_laws _ disjI1[OF refl]]
    by (simp add: k A key_pair_def public_def)
qed

section \<open>Honest parties\<close>

text \<open>
  \<open>dleq_laws\<close>: \<open>CROSS_CURVE_PROOF_SYSTEM.prove\<close> returns the public keys of its scalar on both curves.
\<close>

definition dleq_laws :: "lib \<Rightarrow> bool" where
  "dleq_laws L \<longleftrightarrow> (\<forall>s r. case dleq_prove L s r of
     (pf, (P, Q)) \<Rightarrow> P = vk_for L s \<and> ed_compress L Q = ed_base_mul L s)"

lemma sample_dleq_laws: "dleq_laws sample_lib"
  by (simp add: dleq_laws_def)

definition honest_alice0 :: "lib \<Rightarrow> alice_state0 \<Rightarrow> bool" where
  "honest_alice0 L a0 \<longleftrightarrow> key_pair L (a0_a a0) \<and>
     cross_keys L (a0_s_a a0) (a0_S_a_bitcoin a0) (a0_S_a_beldex a0)"

definition honest_bob0 :: "lib \<Rightarrow> bob_state0 \<Rightarrow> bool" where
  "honest_bob0 L b0 \<longleftrightarrow> key_pair L (b0_b b0) \<and>
     cross_keys L (b0_s_b b0) (b0_S_b_bitcoin b0) (b0_S_b_beldex b0)"

lemma alice_state0_new_honest:
  "dleq_laws L \<Longrightarrow> 0 < s \<Longrightarrow> s < ed_l \<Longrightarrow>
   honest_alice0 L (alice_state0_new L btc bdx cfg ra pa rf pf x v s r)"
  by (auto simp: honest_alice0_def alice_state0_new_def cross_keys_def dleq_laws_def Let_def
      public_key_from_scalar_def bdx_public_from_private_def split: prod.splits)

lemma bob_state0_new_honest:
  "dleq_laws L \<Longrightarrow> 0 < s \<Longrightarrow> s < ed_l \<Longrightarrow>
   honest_bob0 L (bob_state0_new L sid btc bdx ct pt ra mc rf cf x s v r)"
  by (auto simp: honest_bob0_def bob_state0_new_def cross_keys_def dleq_laws_def Let_def
      public_key_from_scalar_def bdx_public_from_private_def split: prod.splits)

text \<open>What a completed setup between two honest parties leaves in their states.\<close>

definition honest_pair :: "lib \<Rightarrow> alice_state3 \<Rightarrow> bob_state2 \<Rightarrow> bool" where
  "honest_pair L a b \<longleftrightarrow>
     same_swap a b \<and> a3_v a = b2_v b \<and> key_pair L (a3_a a) \<and> key_pair L (b2_b b) \<and>
     cross_keys L (a3_s_a a) (b2_S_a_bitcoin b) (b2_S_a_beldex b) \<and>
     cross_keys L (b2_s_b b) (a3_S_b_bitcoin a) (a3_S_b_beldex a) \<and>
     build_shared_output_descriptor L (pk_point (public (a3_a a))) (pk_point (public (b2_b b)))
       = Ok (tl_descriptor (a3_tx_lock a)) \<and>
     (\<forall>r. alice_tx_refund L a = Ok r \<longrightarrow>
        b2_tx_refund_encsig b = encsign L (a3_a a) (a3_S_b_bitcoin a) (tr_digest r))"

lemma honest_setup:
  assumes run: "setup_run L net send a0 b0 w = (Ok (a, b), w')"
    and "a0_cancel_timelock a0 = b0_cancel_timelock b0"
    and "a0_punish_timelock a0 = b0_punish_timelock b0"
    and "honest_alice0 L a0" "honest_bob0 L b0"
  shows "honest_pair L a b"
proof -
  obtain sid a1 b1 a2 m3 m4 where s:
    "alice_state0_receive L a0 (bob_state0_next_message b0) = Ok (sid, a1)"
    "bob_state0_receive L net send b0 (alice_state1_next_message a1) w = (Ok b1, w')"
    "alice_state1_receive L a1 (bob_state1_next_message b1) = Ok a2"
    "alice_state2_next_message L a2 = Ok m3" "bob_state1_receive L b1 m3 = Ok b"
    "bob_state2_next_message L b = Ok m4" "alice_state2_receive L a2 m4 = Ok a"
    using run by (elim setup_run_OkD)
  note f = alice_state0_receive_OkD[OF s(1)] bob_state0_receive_OkD[OF s(2)]
    alice_state1_receive_OkD[OF s(3)] bob_state1_receive_OkD[OF s(5)]
    alice_state2_receive_OkD[OF s(7)] bob_state0_next_message_def alice_state1_next_message_def
  have "b2_tx_refund_encsig b = encsign L (a3_a a) (a3_S_b_bitcoin a) (tr_digest r)"
    if "alice_tx_refund L a = Ok r" for r
    using that s(4)
    by (auto simp: alice_tx_refund_def alice_tx_cancel_def alice_state2_next_message_def f
        outcome_rules)
  moreover have "key_pair L (a3_a a)" "key_pair L (b2_b b)"
    "cross_keys L (a3_s_a a) (b2_S_a_bitcoin b) (b2_S_a_beldex b)"
    "cross_keys L (b2_s_b b) (a3_S_b_bitcoin a) (a3_S_b_beldex a)"
    using assms(4,5) by (simp_all add: honest_alice0_def honest_bob0_def f)
  ultimately show ?thesis
    using setup_same_swap[OF assms(1-3)] by (auto simp: honest_pair_def)
qed

lemma sample_honest_pair: "honest_pair sample_lib sample_alice3 sample_bob2"
  by (rule honest_setup[OF sample_setup_ok])
    (simp_all add: sample_alice0_def sample_bob0_def alice_state0_new_honest bob_state0_new_honest
      sample_dleq_laws ed_l_def alice_state0_new_def bob_state0_new_def testnet_config_def Let_def
      honest_alice0_def honest_bob0_def key_pair_def cross_keys_def secret_key_new_random_def
      public_key_from_scalar_def bdx_public_from_private_def)

section \<open>Published transactions reveal the other party's scalar\<close>

lemma redeem_witness_signatures:
  assumes h: "honest_pair L a b" and laws: "witness_laws L"
    and distinct: "compressed_pubkey L (pk_point (public (a3_a a)))
           \<noteq> compressed_pubkey L (pk_point (public (b2_b b)))"
    and r: "alice_tx_redeem L a = Ok r" and s_a: "to_secpfun_scalar L (a3_s_a a) = Ok s_a"
    and tx: "alice_signed_redeem_transaction L a es = Ok tx"
  defines "sa \<equiv> sign L (a3_a a) (td_digest r)" and "sb \<equiv> decrypt_signature L s_a es"
  shows "(witness_signatures L tx = Ok [sb, sa] \<or> witness_signatures L tx = Ok [sa, sb]) \<and>
    verify_encrypted_signature L (pk_point (a3_B a)) (vk_for L s_a) (td_digest r) es"
proof -
  have B: "a3_B a = public (b2_b b)"
    and d: "build_shared_output_descriptor L (pk_point (public (a3_a a))) (pk_point (public (b2_b b)))
       = Ok (tl_descriptor (a3_tx_lock a))"
    using h by (auto simp: honest_pair_def same_swap_def)
  have td: "td_lock_output_descriptor r = tl_descriptor (a3_tx_lock a)"
    and one: "\<exists>i. tx_input (td_inner r) = [i]"
    using r by (auto simp: alice_tx_redeem_def elim!: tx_redeem_new_OkD)
  obtain sat where v: "verify_encrypted_signature L (pk_point (a3_B a)) (vk_for L s_a) (td_digest r) es"
    and sat: "satisfier L (public (a3_a a)) sa (public (b2_b b)) sb = Ok sat"
    and fin: "satisfy_input0 L (tl_descriptor (a3_tx_lock a)) (td_inner r) sat = Ok tx"
    using tx r s_a by (auto simp: alice_signed_redeem_transaction_def tx_redeem_complete_def
        public_key_from_scalar_def sa_def sb_def B td outcome_rules)
  show ?thesis
    using v one witness_signatures_satisfied[OF laws d sat distinct _ fin] by blast
qed

text \<open>
  C2: when Alice redeems the bitcoin with the encrypted signature that Bob sent, the transaction
  she publishes gives Bob her Beldex scalar: what he extracts from it and recovers with his own
  copy of the encrypted signature is a \<open>State5\<close> that holds exactly \<open>s_a\<close>. Assumed: both parties are
  honest during setup, the keys differ, and Alice's signature does not verify under Bob's key.
\<close>

theorem redeem_reveals_s_a:
  fixes b4 :: bob_state4
  assumes h: "honest_pair L a b" and "scalar_laws L" "signature_laws L" "witness_laws L"
    and b4: "b4 = bob_bdx_locked (fst (bob_lock_btc b)) height"
    and es: "bob_tx_redeem_encsig L b4 = Ok es"
    and tx: "alice_signed_redeem_transaction L a es = Ok tx"
    and r: "bob_tx_redeem L b4 = Ok r"
    and distinct: "compressed_pubkey L (pk_point (public (a3_a a)))
           \<noteq> compressed_pubkey L (pk_point (public (b2_b b)))"
    and no_forgery: "\<not> ecdsa_verify L (pk_point (public (b2_b b))) (td_digest r)
           (sign L (a3_a a) (td_digest r))"
  shows "obind (tx_redeem_extract_signature_by_key L r tx (public (b4_b b4))) (bob_state5_from_sig L b4 es)
    = Ok \<lparr>b5_s_a = PrivateKey (a3_s_a a), b5_s_b = b2_s_b b, b5_v = b2_v b,
          b5_tx_lock = b2_tx_lock b, b5_restore_height = height\<rparr>"
proof -
  have ck: "0 < a3_s_a a" "a3_s_a a < ed_l" "b2_S_a_bitcoin b = public_key_from_scalar L (a3_s_a a)"
    and same: "same_swap a b"
    using h by (auto simp: honest_pair_def cross_keys_def)
  have r': "alice_tx_redeem L a = Ok r"
    using same_swap_tx_redeem[OF same] r b4 by simp
  have s_a: "to_secpfun_scalar L (a3_s_a a) = Ok (a3_s_a a)"
    using to_secpfun_scalar_total ck assms(2) by blast
  let ?sb = "decrypt_signature L (a3_s_a a) es"
  have w: "witness_signatures L tx = Ok [?sb, sign L (a3_a a) (td_digest r)] \<or>
      witness_signatures L tx = Ok [sign L (a3_a a) (td_digest r), ?sb]"
    and v: "verify_encrypted_signature L (pk_point (public (b2_b b))) (vk_for L (a3_s_a a)) (td_digest r) es"
    using redeem_witness_signatures[OF h assms(4) distinct r' s_a tx] same
    by (auto simp: same_swap_def)
  have sb: "ecdsa_verify L (pk_point (public (b2_b b))) (td_digest r) ?sb"
    and rec: "recover_decryption_key L (vk_for L (a3_s_a a)) ?sb es = Some (a3_s_a a)"
    using v assms(3) by (auto simp: signature_laws_def)
  have "tx_redeem_extract_signature_by_key L r tx (public (b4_b b4)) = Ok ?sb"
    using signature_by_key_found[OF w sb no_forgery] b4
    by (simp add: tx_redeem_extract_signature_by_key_def bob_bdx_locked_def bob_lock_btc_def)
  thus ?thesis
    using rec ck assms(2) b4
    by (simp add: bob_state5_from_sig_def recover_def bob_bdx_locked_def bob_lock_btc_def
        public_key_from_scalar_def secret_key_from_scalar_def private_key_from_secp_id)
qed

text \<open>
  C3: when Bob refunds the bitcoin, the transaction he publishes gives Alice his Beldex scalar:
  what she extracts from it is exactly \<open>s_a + s_b\<close>, the spend key of the Beldex she locked. Assumed
  as in the previous property, with Bob's signature not verifying under Alice's key.
\<close>

theorem refund_reveals_s_b:
  fixes b6 :: bob_state6
  assumes h: "honest_pair L a b" and "scalar_laws L" "signature_laws L" "witness_laws L"
    and b6: "b6 = bob3_cancel (fst (bob_lock_btc b)) height"
    and tx: "bob_signed_refund_transaction L b6 = Ok tx"
    and r: "bob_tx_refund L b6 = Ok r"
    and distinct: "compressed_pubkey L (pk_point (public (a3_a a)))
           \<noteq> compressed_pubkey L (pk_point (public (b2_b b)))"
    and no_forgery: "\<not> ecdsa_verify L (pk_point (public (a3_a a))) (tr_digest r)
           (sign L (b2_b b) (tr_digest r))"
  shows "alice_extract_beldex_private_key L a tx
    = Ok (private_key_add L (PrivateKey (a3_s_a a)) (PrivateKey (b2_s_b b)))"
proof -
  have ck: "0 < b2_s_b b" "b2_s_b b < ed_l" "a3_S_b_bitcoin a = public_key_from_scalar L (b2_s_b b)"
    and same: "same_swap a b" and kp: "key_pair L (a3_a a)"
    and d: "build_shared_output_descriptor L (pk_point (public (a3_a a))) (pk_point (public (b2_b b)))
       = Ok (tl_descriptor (a3_tx_lock a))"
    using h by (auto simp: honest_pair_def cross_keys_def)
  have r': "alice_tx_refund L a = Ok r"
    using same_swap_tx_refund[OF same] r b6 by blast
  let ?es = "encsign L (a3_a a) (a3_S_b_bitcoin a) (tr_digest r)"
  have es: "b2_tx_refund_encsig b = ?es" using h r' by (simp add: honest_pair_def)
  let ?sa = "decrypt_signature L (b2_s_b b) ?es"
  let ?sb = "sign L (b2_b b) (tr_digest r)"
  have "verify_encrypted_signature L (pk_point (public (a3_a a))) (vk_for L (b2_s_b b)) (tr_digest r) ?es"
    using key_pair_encsign[OF assms(3) kp, of "a3_S_b_bitcoin a" "tr_digest r"] ck(3)
    by (simp add: public_key_from_scalar_def)
  hence sa: "ecdsa_verify L (pk_point (public (a3_a a))) (tr_digest r) ?sa"
    and rec: "recover_decryption_key L (vk_for L (b2_s_b b)) ?sa ?es = Some (b2_s_b b)"
    using assms(3) by (auto simp: signature_laws_def)
  have td: "tr_cancel_output_descriptor r = tl_descriptor (a3_tx_lock a)"
    and one: "\<exists>i. tx_input (tr_inner r) = [i]"
    using r' d same
    by (auto simp: alice_tx_refund_def alice_tx_cancel_def same_swap_def outcome_rules
        elim!: tx_refund_new_OkD tx_cancel_new_OkD)
  obtain sat where sat: "satisfier L (public (a3_a a)) ?sa (public (b2_b b)) ?sb = Ok sat"
    and fin: "satisfy_input0 L (tl_descriptor (a3_tx_lock a)) (tr_inner r) sat = Ok tx"
    using tx r b6 to_secpfun_scalar_total[OF assms(2) ck(1,2)] same td es
    by (auto simp: bob_signed_refund_transaction_def tx_refund_add_signatures_def
        bob3_cancel_def bob_lock_btc_def same_swap_def outcome_rules)
  have "witness_signatures L tx = Ok [?sa, ?sb] \<or> witness_signatures L tx = Ok [?sb, ?sa]"
    using one witness_signatures_satisfied[OF assms(4) d sat distinct _ fin] by blast
  hence "tx_refund_extract_signature_by_key L r tx (public (a3_a a)) = Ok ?sa"
    using signature_by_key_found[OF _ sa no_forgery]
    by (simp add: tx_refund_extract_signature_by_key_def)
  thus ?thesis
    using rec ck(1,2) r' assms(2)
    by (simp add: alice_extract_beldex_private_key_def tx_refund_extract_beldex_private_key_def
        ck(3) recover_def public_key_from_scalar_def secret_key_from_scalar_def
        private_key_from_secp_id)
qed

lemma sample_redeem_facts:
  "bob_tx_redeem sample_lib (bob_bdx_locked (fst (bob_lock_btc sample_bob2)) 40) = Ok sample_redeem"
  "bob_tx_redeem_encsig sample_lib (bob_bdx_locked (fst (bob_lock_btc sample_bob2)) 40) = Ok 2965"
  "alice_tx_redeem sample_lib sample_alice3 = Ok sample_redeem"
  "td_digest sample_redeem = 30064775965" "td_lock_output_descriptor sample_redeem = sample_desc 1 2"
  "tx_input (td_inner sample_redeem) \<noteq> []"
  by (simp_all add: bob_tx_redeem_def bob_tx_redeem_encsig_def bob_bdx_locked_def bob_lock_btc_def
      sample_bob2_def encsign_def sample_sig_def alice_tx_redeem_def sample_alice3_def
      sample_redeem_def)

lemma sample_redeem_signed:
  "\<exists>tx. alice_signed_redeem_transaction sample_lib sample_alice3 2965 = Ok tx"
proof -
  have a: "a3_s_a sample_alice3 = 3" "public (a3_a sample_alice3) = PublicKey 1"
    "a3_B sample_alice3 = PublicKey 2" "sign sample_lib (a3_a sample_alice3) m = sample_sig 1 m" for m
    by (simp_all add: sample_alice3_def public_def sign_def)
  have "to_secpfun_scalar sample_lib 3 = Ok 3" by (simp add: ed_l_def)
  thus ?thesis
    using sample_redeem_facts
    by (simp add: alice_signed_redeem_transaction_def a public_def tx_redeem_complete_def verify_encsig_def
        sample_sig_def public_key_from_scalar_def satisfier_def two_signatures_def
        satisfy_input0_def index_vec_def del: One_nat_def)
qed

theorem redeem_reveals_s_a_witness:
  "\<exists>tx. alice_signed_redeem_transaction sample_lib sample_alice3 2965 = Ok tx \<and>
    obind (tx_redeem_extract_signature_by_key sample_lib sample_redeem tx (PublicKey 2))
      (bob_state5_from_sig sample_lib (bob_bdx_locked (fst (bob_lock_btc sample_bob2)) 40) 2965)
    = Ok \<lparr>b5_s_a = PrivateKey 3, b5_s_b = 4, b5_v = PrivateViewKey (PrivateKey 11),
          b5_tx_lock = sample_lock, b5_restore_height = 40\<rparr>"
proof -
  obtain tx where tx: "alice_signed_redeem_transaction sample_lib sample_alice3 2965 = Ok tx"
    using sample_redeem_signed by blast
  have pk: "public (a3_a sample_alice3) = PublicKey 1" "public (b2_b sample_bob2) = PublicKey 2"
    by (simp_all add: sample_alice3_def sample_bob2_def public_def)
  have "compressed_pubkey sample_lib (pk_point (public (a3_a sample_alice3)))
      \<noteq> compressed_pubkey sample_lib (pk_point (public (b2_b sample_bob2)))"
    by (simp add: public_def del: One_nat_def)
  moreover have "\<not> ecdsa_verify sample_lib (pk_point (public (b2_b sample_bob2))) (td_digest sample_redeem)
      (sign sample_lib (a3_a sample_alice3) (td_digest sample_redeem))"
    by (simp add: public_def sign_def sample_sig_def)
  ultimately show ?thesis
    using redeem_reveals_s_a[OF sample_honest_pair sample_scalar_laws sample_signature_laws
        sample_witness_laws refl sample_redeem_facts(2) tx sample_redeem_facts(1)] tx
    by (simp add: pk sample_alice3_def sample_bob2_def bob_bdx_locked_def bob_lock_btc_def public_def)
qed

lemma sample_refund_facts:
  "bob_tx_refund sample_lib (bob3_cancel (fst (bob_lock_btc sample_bob2)) 40) = Ok sample_refund"
  "tr_digest sample_refund = 30064775815" "tr_cancel_output_descriptor sample_refund = sample_desc 1 2"
  "tx_input (tr_inner sample_refund) \<noteq> []"
  by (simp_all add: bob_tx_refund_def bob_construct_tx_cancel_def bob3_cancel_def bob_lock_btc_def
      sample_bob2_def public_def sample_refund_def del: One_nat_def)

lemma sample_refund_signed:
  "\<exists>tx. bob_signed_refund_transaction sample_lib (bob3_cancel (fst (bob_lock_btc sample_bob2)) 40) = Ok tx"
proof -
  have "to_secpfun_scalar sample_lib 4 = Ok 4" by (simp add: ed_l_def)
  thus ?thesis
    using sample_refund_facts
    by (simp add: bob_signed_refund_transaction_def bob3_cancel_def bob_lock_btc_def sample_bob2_def
        tx_refund_add_signatures_def public_def satisfier_def two_signatures_def satisfy_input0_def
        index_vec_def Let_def del: One_nat_def)
qed

theorem refund_reveals_s_b_witness:
  "\<exists>tx. bob_signed_refund_transaction sample_lib (bob3_cancel (fst (bob_lock_btc sample_bob2)) 40) = Ok tx \<and>
    alice_extract_beldex_private_key sample_lib sample_alice3 tx = Ok (PrivateKey 7)"
proof -
  obtain tx where tx:
    "bob_signed_refund_transaction sample_lib (bob3_cancel (fst (bob_lock_btc sample_bob2)) 40) = Ok tx"
    using sample_refund_signed by blast
  have pk: "public (a3_a sample_alice3) = PublicKey 1" "public (b2_b sample_bob2) = PublicKey 2"
    by (simp_all add: sample_alice3_def sample_bob2_def public_def)
  have "compressed_pubkey sample_lib (pk_point (public (a3_a sample_alice3)))
      \<noteq> compressed_pubkey sample_lib (pk_point (public (b2_b sample_bob2)))"
    by (simp add: public_def del: One_nat_def)
  moreover have "\<not> ecdsa_verify sample_lib (pk_point (public (a3_a sample_alice3))) (tr_digest sample_refund)
      (sign sample_lib (b2_b sample_bob2) (tr_digest sample_refund))"
    by (simp add: public_def sign_def sample_sig_def)
  ultimately have "alice_extract_beldex_private_key sample_lib sample_alice3 tx
      = Ok (private_key_add sample_lib (PrivateKey (a3_s_a sample_alice3)) (PrivateKey (b2_s_b sample_bob2)))"
    using refund_reveals_s_b[OF sample_honest_pair sample_scalar_laws sample_signature_laws
        sample_witness_laws refl tx sample_refund_facts(1)] by blast
  thus ?thesis
    using tx by (simp add: sample_alice3_def sample_bob2_def private_key_add_def ed_l_def)
qed

section \<open>The shared Beldex output\<close>

lemma transfer_request_keys:
  assumes h: "honest_pair L a b" and "group_laws L" "scalar_laws L"
    and s5: "b5_s_a s5 = PrivateKey (a3_s_a a)" "b5_s_b s5 = b2_s_b b" "b5_v s5 = b2_v b"
    and keys: "bob_bdx_keys L s5 = (spend_key, view_key)"
  shows "alice_lock_bdx_transfer_request L a =
      Ok \<lparr>trq_public_spend_key = bdx_public_from_private L spend_key,
          trq_public_view_key = private_view_key_public L view_key, trq_amount = a3_bdx a\<rparr> \<and>
    bob_lock_bdx_watch_request L (fst (bob_lock_btc b)) proof =
      Ok \<lparr>wrq_public_spend_key = bdx_public_from_private L spend_key,
          wrq_public_view_key = private_view_key_public L view_key, wrq_transfer_proof = proof,
          wrq_conf_target = b2_min_beldex_confirmations b, wrq_expected = b2_bdx b\<rparr>"
proof -
  have S: "a3_S_b_beldex a = bdx_public_from_private L (PrivateKey (b2_s_b b))"
    "b2_S_a_beldex b = bdx_public_from_private L (PrivateKey (a3_s_a a))"
    and v: "a3_v a = b2_v b"
    using h by (auto simp: honest_pair_def cross_keys_def)
  have "spend_key = private_key_add L (PrivateKey (a3_s_a a)) (PrivateKey (b2_s_b b))"
    "view_key = b2_v b"
    using keys s5 by (auto simp: bob_bdx_keys_def)
  thus ?thesis
    using bdx_public_add_from_private[OF assms(2)]
    by (simp add: alice_lock_bdx_transfer_request_def alice_public_spend_key_def S v
        bob_lock_bdx_watch_request_def bob_lock_btc_def Let_def)
qed

text \<open>
  the keys that Bob computes from a \<open>State5\<close> holding Alice's scalar open the output that Alice
  locks her Beldex to: their public keys are those of her transfer request, and the output he
  watches for before he sends his encrypted signature is that same output and amount.
\<close>

theorem bdx_keys_open_shared_output:
  assumes h: "honest_pair L a b" and "group_laws L" "scalar_laws L"
    and s5: "b5_s_a s5 = PrivateKey (a3_s_a a)" "b5_s_b s5 = b2_s_b b" "b5_v s5 = b2_v b"
    and keys: "bob_bdx_keys L s5 = (spend_key, view_key)"
  shows "alice_lock_bdx_transfer_request L a =
      Ok \<lparr>trq_public_spend_key = bdx_public_from_private L spend_key,
          trq_public_view_key = private_view_key_public L view_key, trq_amount = a3_bdx a\<rparr> \<and>
    bob_lock_bdx_watch_request L (fst (bob_lock_btc b)) proof =
      Ok \<lparr>wrq_public_spend_key = bdx_public_from_private L spend_key,
          wrq_public_view_key = private_view_key_public L view_key, wrq_transfer_proof = proof,
          wrq_conf_target = b2_min_beldex_confirmations b, wrq_expected = b2_bdx b\<rparr>"
  by (rule transfer_request_keys[OF assms])

theorem bdx_keys_open_shared_output_witness:
  "alice_lock_bdx_transfer_request sample_lib sample_alice3 =
      Ok \<lparr>trq_public_spend_key = bdx_public_from_private sample_lib (PrivateKey 7),
          trq_public_view_key = private_view_key_public sample_lib (PrivateViewKey (PrivateKey 11)),
          trq_amount = BdxAmount 70000\<rparr>"
proof -
  let ?s5 = "\<lparr>b5_s_a = PrivateKey 3, b5_s_b = 4, b5_v = PrivateViewKey (PrivateKey 11),
          b5_tx_lock = sample_lock, b5_restore_height = 40\<rparr>"
  have "bob_bdx_keys sample_lib ?s5 = (PrivateKey 7, PrivateViewKey (PrivateKey 11))"
    by (simp add: bob_bdx_keys_def private_key_add_def ed_l_def)
  from bdx_keys_open_shared_output[OF sample_honest_pair sample_group_laws sample_scalar_laws _ _ _ this]
  show ?thesis by (simp add: sample_alice3_def sample_bob2_def)
qed

section \<open>The cancel transaction\<close>



section \<open>The lock transaction\<close>

lemma shared_output_candidate_OkD:
  assumes "shared_output_candidate p btc = Ok out"
  shows "out \<in> set (tx_output (unsigned_tx p))" "txo_value out = btc"
    "length (tx_output (unsigned_tx p)) \<in> {1, 2}"
  using assms
  by (auto simp: shared_output_candidate_def split: list.splits if_splits)

lemma tx_lock_amount_unique:
  assumes "psbt_laws L" and out: "out \<in> set (tx_output (unsigned_tx (tl_inner t)))"
    and script: "txo_script out = tx_lock_script_pubkey L t"
    and unique: "distinct (map txo_script (tx_output (unsigned_tx (tl_inner t))))"
  shows "tx_lock_amount L t = Ok (txo_value out)"
proof -
  let ?outs = "tx_output (unsigned_tx (tl_inner t))"
  let ?P = "\<lambda>out. txo_script out = desc_script_pubkey L (tl_descriptor t)"
  have ex: "tx_output (psbt_extract_tx L (tl_inner t)) = ?outs"
    using assms(1) by (simp add: psbt_laws_def)
  obtain i where i: "position ?P ?outs = Some i"
    using out script position_None[of ?P ?outs] by (fastforce simp: tx_lock_script_pubkey_def)
  have at: "i < length ?outs" "txo_script (?outs ! i) = txo_script out"
    using position_SomeD[OF i] script by (simp_all add: tx_lock_script_pubkey_def)
  obtain j where j: "j < length ?outs" "?outs ! j = out"
    using out by (auto simp: in_set_conv_nth)
  have "i = j"
    using nth_eq_iff_index_eq[OF unique, of i j] at j by simp
  thus ?thesis
    using i at j ex by (simp add: tx_lock_amount_def tx_lock_output_vout_def index_vec_def)
qed

text \<open>
  \<open>TxLock::from_psbt\<close> accepts a PSBT only if it has one or two outputs of which one pays exactly
  the agreed amount to the shared output of the two keys; and when no two outputs have the same
  script, the amount the swap goes on with (\<open>lock_amount\<close>) is the agreed one.
\<close>

theorem from_psbt_pays_shared_output:
  assumes "tx_lock_from_psbt L p A B btc = Ok t" and "psbt_laws L"
  shows "length (tx_output (unsigned_tx p)) \<in> {1, 2} \<and>
    (\<exists>out. out \<in> set (tx_output (unsigned_tx p)) \<and> txo_value out = btc \<and>
       txo_script out = tx_lock_script_pubkey L t) \<and>
    (distinct (map txo_script (tx_output (unsigned_tx p))) \<longrightarrow> tx_lock_amount L t = Ok btc)"
proof -
  obtain out where out: "shared_output_candidate p btc = Ok out"
    and script: "txo_script out = tx_lock_script_pubkey L t" and p: "tl_inner t = p"
    using assms(1) by (auto simp: tx_lock_from_psbt_def tx_lock_script_pubkey_def outcome_rules
        split: if_splits)
  note facts = shared_output_candidate_OkD[OF out]
  show ?thesis
    using facts script tx_lock_amount_unique[OF assms(2), of out t] p by auto
qed

lemma sample_from_psbt:
  "tx_lock_from_psbt sample_lib sample_psbt (PublicKey 1) (PublicKey 2) 5000 = Ok sample_lock"
  by (simp add: tx_lock_from_psbt_def shared_output_candidate_def sample_psbt_def sample_lock_def
      del: One_nat_def)

theorem from_psbt_pays_shared_output_witness:
  "length (tx_output (unsigned_tx sample_psbt)) \<in> {1, 2} \<and>
    (\<exists>out. out \<in> set (tx_output (unsigned_tx sample_psbt)) \<and> txo_value out = 5000 \<and>
       txo_script out = tx_lock_script_pubkey sample_lib sample_lock) \<and>
    tx_lock_amount sample_lib sample_lock = Ok 5000"
proof -
  have "distinct (map txo_script (tx_output (unsigned_tx sample_psbt)))"
    by (simp add: sample_psbt_def)
  thus ?thesis
    using from_psbt_pays_shared_output[OF sample_from_psbt sample_psbt_laws] by blast
qed

lemma first_script_output:
  assumes "psbt_laws L" "tx_output (unsigned_tx (tl_inner t)) = o1 # os"
    and "txo_script o1 = desc_script_pubkey L (tl_descriptor t)"
  shows "tx_lock_output_vout L t = Ok 0" "tx_lock_amount L t = Ok (txo_value o1)"
    "tx_lock_as_outpoint L t = Ok (tx_lock_txid L t, 0)"
proof -
  have "tx_output (psbt_extract_tx L (tl_inner t)) = o1 # os" using assms(1,2) by (simp add: psbt_laws_def)
  thus v: "tx_lock_output_vout L t = Ok 0" and "tx_lock_amount L t = Ok (txo_value o1)"
    using assms(3) by (simp_all add: tx_lock_output_vout_def tx_lock_amount_def index_vec_def)
  show "tx_lock_as_outpoint L t = Ok (tx_lock_txid L t, 0)" using v by (simp add: tx_lock_as_outpoint_def)
qed

lemma from_psbt_second_output:
  assumes "build_shared_output_descriptor L (pk_point A) (pk_point B) = Ok d"
    and "tx_output (unsigned_tx p) = [o1, o2]"
    and "txo_script o2 = desc_script_pubkey L d" "txo_value o1 \<noteq> btc" "txo_value o2 = btc"
  shows "tx_lock_from_psbt L p A B btc = Ok \<lparr>tl_inner = p, tl_descriptor = d\<rparr>"
  using assms by (simp add: tx_lock_from_psbt_def shared_output_candidate_def)

text \<open>
  C29: the acceptance test and the later use of the lock transaction disagree when both outputs pay
  the shared script: \<open>from_psbt\<close> looks for the output by its value, \<open>lock_output_vout\<close> takes the first
  one with the script. Every PSBT with two outputs to the shared script of which only the second pays
  the agreed amount is accepted by Alice's \<open>State1::receive\<close>; she goes on with the agreed amounts of both
  currencies, but the redeem and the cancel transaction of the \<open>State3\<close> she reaches spend the first
  output and pay its value, whatever it is, less their fee.
\<close>

theorem from_psbt_accepts_wrong_vout:
  assumes psbt: "psbt_laws L"
    and desc: "build_shared_output_descriptor L (pk_point (public (a1_a st))) (pk_point (a1_B st)) = Ok d"
    and outs: "tx_output (unsigned_tx p) = [o1, o2]"
    and scripts: "txo_script o1 = desc_script_pubkey L d" "txo_script o2 = desc_script_pubkey L d"
    and amounts: "txo_value o1 \<noteq> a1_btc st" "txo_value o2 = a1_btc st"
  shows "\<exists>st2 lock. alice_state1_receive L st \<lparr>m2_psbt = p\<rparr> = Ok st2 \<and> a2_tx_lock st2 = lock \<and>
    tx_lock_output_vout L lock = Ok 0 \<and> tx_lock_amount L lock = Ok (txo_value o1) \<and>
    (\<forall>m4 a. alice_state2_receive L st2 m4 = Ok a \<longrightarrow> a3_btc a = txo_value o2 \<and> a3_bdx a = a1_bdx st \<and>
       (\<forall>r. alice_tx_redeem L a = Ok r \<longrightarrow>
          map previous_output (tx_input (td_inner r)) = [(tx_lock_txid L lock, 0)] \<and>
          map txo_value (tx_output (td_inner r)) = [txo_value o1 - a3_tx_redeem_fee a]) \<and>
       (\<forall>c. alice_tx_cancel L a = Ok c \<longrightarrow>
          map previous_output (tx_input (tc_inner c)) = [(tx_lock_txid L lock, 0)] \<and>
          map txo_value (tx_output (tc_inner c)) = [txo_value o1 - a3_tx_cancel_fee a]))"
proof -
  let ?lock = "\<lparr>tl_inner = p, tl_descriptor = d\<rparr>"
  note lock = first_script_output[OF psbt, of ?lock o1 "[o2]", simplified, OF outs scripts(1)]
  obtain st2 where st2: "alice_state1_receive L st \<lparr>m2_psbt = p\<rparr> = Ok st2"
    using from_psbt_second_output[OF desc outs scripts(2) amounts] by (simp add: alice_state1_receive_def)
  have l: "a2_tx_lock st2 = ?lock"
    using alice_state1_receive_OkD(18)[OF st2] from_psbt_second_output[OF desc outs scripts(2) amounts] by simp
  have "a3_btc a = txo_value o2 \<and> a3_bdx a = a1_bdx st \<and>
       (\<forall>r. alice_tx_redeem L a = Ok r \<longrightarrow>
          map previous_output (tx_input (td_inner r)) = [(tx_lock_txid L ?lock, 0)] \<and>
          map txo_value (tx_output (td_inner r)) = [txo_value o1 - a3_tx_redeem_fee a]) \<and>
       (\<forall>c. alice_tx_cancel L a = Ok c \<longrightarrow>
          map previous_output (tx_input (tc_inner c)) = [(tx_lock_txid L ?lock, 0)] \<and>
          map txo_value (tx_output (tc_inner c)) = [txo_value o1 - a3_tx_cancel_fee a])"
    if "alice_state2_receive L st2 m4 = Ok a" for m4 a
    using lock amounts(2)
    by (auto simp: alice_state1_receive_OkD[OF st2] alice_state2_receive_OkD[OF that] l alice_tx_redeem_def
        alice_tx_cancel_def outcome_rules elim!: tx_redeem_new_OkD tx_cancel_new_OkD)
  thus ?thesis using st2 l lock by auto
qed

text \<open>Two outputs to the shared script, of 1000 and of the agreed 5000 satoshi.\<close>

definition double_psbt :: psbt where
  "double_psbt = \<lparr>unsigned_tx = (spend_tx (9, 0) 0 1000 [1, 2])
     \<lparr>tx_output := [\<lparr>txo_value = 1000, txo_script = [1, 2]\<rparr>, \<lparr>txo_value = 5000, txo_script = [1, 2]\<rparr>]\<rparr>,
     psbt_inputs = []\<rparr>"

theorem from_psbt_accepts_wrong_vout_witness:
  "\<exists>sid st st2 m4 a r. alice_state0_receive sample_lib sample_alice0 (bob_state0_next_message sample_bob0) = Ok (sid, st) \<and>
     a1_btc st = 5000 \<and> alice_state1_receive sample_lib st \<lparr>m2_psbt = double_psbt\<rparr> = Ok st2 \<and>
     tx_lock_amount sample_lib (a2_tx_lock st2) = Ok 1000 \<and> alice_state2_receive sample_lib st2 m4 = Ok a \<and>
     a3_btc a = 5000 \<and> a3_bdx a = BdxAmount 70000 \<and> alice_tx_redeem sample_lib a = Ok r \<and>
     map txo_value (tx_output (td_inner r)) = [900]"
proof -
  let ?o1 = "\<lparr>txo_value = 1000, txo_script = [1, 2]\<rparr>" and ?o2 = "\<lparr>txo_value = 5000, txo_script = [1, 2]\<rparr>"
  let ?m4 = "\<lparr>m4_tx_punish_sig = 2802, m4_tx_cancel_sig = 2954\<rparr>"
  obtain sid st where st:
    "alice_state0_receive sample_lib sample_alice0 (bob_state0_next_message sample_bob0) = Ok (sid, st)"
    using sample_setup_ok by (elim setup_run_OkD)
  note sample = sample_alice0_def sample_bob0_def alice_state0_new_def bob_state0_new_def Let_def
    bob_state0_next_message_def secret_key_new_random_def public_def testnet_config_def
  have f: "public (a1_a st) = PublicKey 1" "a1_B st = PublicKey 2" "a1_btc st = 5000" "a1_bdx st = BdxAmount 70000"
    "a1_tx_cancel_fee st = 130" "a1_tx_punish_fee st = 110" "a1_tx_redeem_fee st = 100"
    "a1_cancel_timelock st = CancelTimelock 12" "a1_punish_timelock st = PunishTimelock 6"
    by (simp_all add: alice_state0_receive_OkD[OF st] sample)
  have desc: "build_shared_output_descriptor sample_lib (pk_point (public (a1_a st))) (pk_point (a1_B st))
      = Ok (sample_desc 1 2)" by (simp add: f del: One_nat_def)
  obtain st2 where st2: "alice_state1_receive sample_lib st \<lparr>m2_psbt = double_psbt\<rparr> = Ok st2"
    and lock: "tx_lock_output_vout sample_lib (a2_tx_lock st2) = Ok 0"
      "tx_lock_amount sample_lib (a2_tx_lock st2) = Ok 1000"
    and rest: "\<And>a r. alice_state2_receive sample_lib st2 ?m4 = Ok a \<Longrightarrow> a3_btc a = 5000 \<and> a3_bdx a = BdxAmount 70000 \<and>
       (alice_tx_redeem sample_lib a = Ok r \<longrightarrow>
          map txo_value (tx_output (td_inner r)) = [1000 - a3_tx_redeem_fee a])"
    using from_psbt_accepts_wrong_vout[OF sample_psbt_laws desc, of double_psbt ?o1 ?o2]
    by (auto simp: double_psbt_def f simp del: One_nat_def)
  note g = alice_state1_receive_OkD[OF st2] f
  obtain a where a: "alice_state2_receive sample_lib st2 ?m4 = Ok a"
    by (simp add: alice_state2_receive_def g tx_cancel_new_def tx_lock_as_outpoint_def lock segwit_digest_def
        tx_punish_new_def tx_cancel_build_spend_def tx_cancel_amount_def index_vec_def spend_tx_def sample_hash_def
        sample_sig_def verify_sig_def Let_def del: One_nat_def)
  obtain r where r: "alice_tx_redeem sample_lib a = Ok r"
    using lock by (auto simp: alice_tx_redeem_def alice_state2_receive_OkD[OF a] tx_redeem_new_def tx_lock_build_spend_def
        tx_lock_as_outpoint_def tx_lock_amount_def segwit_digest_def outcome_rules)
  have "map txo_value (tx_output (td_inner r)) = [900]"
    using rest[OF a, of r] r by (simp add: alice_state2_receive_OkD[OF a] g)
  thus ?thesis
    using st st2 f(3) lock(2) a r conjunct1[OF rest[OF a]] conjunct1[OF conjunct2[OF rest[OF a]]]
    by (intro exI conjI)
qed

section \<open>Timelocks and amounts of the transaction chain\<close>

text \<open>
  the transactions of a swap enforce its timelocks and pay out what was locked: the cancel
  transaction spends the lock output after \<open>cancel_timelock\<close> blocks, the punish transaction spends
  the cancel output after \<open>punish_timelock\<close> blocks, and the refund transaction spends that same
  output without waiting; each pays its address what it spends less its fee, as long as the fees,
  part of which the counterparty proposes, do not exceed the amount.
\<close>

theorem transaction_chain:
  assumes c: "alice_tx_cancel L a = Ok c" and p: "alice_tx_punish L a = Ok p"
    and r: "alice_tx_refund L a = Ok r"
    and amount: "tx_lock_amount L (a3_tx_lock a) = Ok amount"
    and fees: "unat (a3_tx_cancel_fee a) + unat (a3_tx_punish_fee a) \<le> unat amount"
      "unat (a3_tx_cancel_fee a) + unat (a3_tx_refund_fee a) \<le> unat amount"
  shows "(\<exists>i out. tx_input (tc_inner c) = [i] \<and> tx_output (tc_inner c) = [out] \<and>
      tx_lock_as_outpoint L (a3_tx_lock a) = Ok (previous_output i) \<and>
      tx_sequence i = cancel_u32 (a3_cancel_timelock a) \<and>
      unat (txo_value out) = unat amount - unat (a3_tx_cancel_fee a)) \<and>
    (\<exists>i out. tx_input (tp_inner p) = [i] \<and> tx_output (tp_inner p) = [out] \<and>
      previous_output i = (tx_cancel_txid L c, 0) \<and>
      tx_sequence i = punish_u32 (a3_punish_timelock a) \<and>
      txo_script out = address_script L (a3_punish_address a) \<and>
      unat (txo_value out) = unat amount - unat (a3_tx_cancel_fee a) - unat (a3_tx_punish_fee a)) \<and>
    (\<exists>i out. tx_input (tr_inner r) = [i] \<and> tx_output (tr_inner r) = [out] \<and>
      previous_output i = (tx_cancel_txid L c, 0) \<and> tx_sequence i = 0xFFFFFFFF \<and>
      txo_script out = address_script L (a3_refund_address a) \<and>
      unat (txo_value out) = unat amount - unat (a3_tx_cancel_fee a) - unat (a3_tx_refund_fee a))"
proof -
  have c': "tx_cancel_new L (a3_tx_lock a) (a3_cancel_timelock a) (public (a3_a a)) (a3_B a)
      (a3_tx_cancel_fee a) = Ok c"
    using c by (simp add: alice_tx_cancel_def outcome_rules)
  have amt: "tx_cancel_amount c = Ok (amount - a3_tx_cancel_fee a)"
    by (rule tx_cancel_amount_new[OF c' amount])
  have "a3_tx_cancel_fee a \<le> amount" using fees by (simp add: word_le_nat_alt)
  hence u: "unat (amount - a3_tx_cancel_fee a) = unat amount - unat (a3_tx_cancel_fee a)"
    by (rule unat_minus_le)
  have "a3_tx_punish_fee a \<le> amount - a3_tx_cancel_fee a"
    "a3_tx_refund_fee a \<le> amount - a3_tx_cancel_fee a"
    using fees u by (simp_all add: word_le_nat_alt)
  hence v: "unat (amount - a3_tx_cancel_fee a - a3_tx_punish_fee a)
        = unat amount - unat (a3_tx_cancel_fee a) - unat (a3_tx_punish_fee a)"
    "unat (amount - a3_tx_cancel_fee a - a3_tx_refund_fee a)
        = unat amount - unat (a3_tx_cancel_fee a) - unat (a3_tx_refund_fee a)"
    by (simp_all add: unat_minus_le u)
  have p': "tx_punish_new L c (a3_punish_address a) (a3_punish_timelock a) (a3_tx_punish_fee a) = Ok p"
    and r': "tx_refund_new L c (a3_refund_address a) (a3_tx_refund_fee a) = Ok r"
    using p r c by (simp_all add: alice_tx_punish_def alice_tx_refund_def)
  show ?thesis
    using c' p' r' amt u v amount
    by (auto elim!: tx_cancel_new_OkD tx_punish_new_OkD tx_refund_new_OkD
        simp: tx_cancel_as_outpoint_def tx_cancel_txid_def)
qed

theorem transaction_chain_witness:
  "\<exists>i out. tx_input (tp_inner sample_punish) = [i] \<and> tx_output (tp_inner sample_punish) = [out] \<and>
      previous_output i = (tx_cancel_txid sample_lib sample_cancel, 0) \<and> tx_sequence i = 6 \<and>
      txo_script out = [12] \<and> unat (txo_value out) = 4760"
proof -
  have "alice_tx_cancel sample_lib sample_alice3 = Ok sample_cancel"
    "alice_tx_punish sample_lib sample_alice3 = Ok sample_punish"
    "alice_tx_refund sample_lib sample_alice3 = Ok sample_refund"
    by (simp_all add: alice_tx_cancel_def alice_tx_punish_def alice_tx_refund_def
        sample_alice3_def public_def del: One_nat_def)
  from transaction_chain[OF this, of 5000] show ?thesis
    by (simp add: sample_alice3_def sample_address_def)
qed

section \<open>Scalars that are valid on both curves\<close>

text \<open>
  every non-zero ed25519 scalar is a secp256k1 scalar of the same value, so neither of the two
  \<open>expect\<close> of \<open>to_secpfun_scalar\<close> can panic on the scalar of a swap, and converting it there and back
  (with the byte reversal both ways) gives the key it came from.
\<close>

theorem scalar_conversion_roundtrip:
  assumes "scalar_laws L" "0 < s" "s < ed_l"
  shows "omap (private_key_from_secp256k1_scalar L) (to_secpfun_scalar L s) = Ok (PrivateKey s)"
  using to_secpfun_scalar_total[OF assms] private_key_from_secp_id[OF assms(1,3)] by simp

theorem scalar_conversion_roundtrip_witness:
  "omap (private_key_from_secp256k1_scalar sample_lib) (to_secpfun_scalar sample_lib 300)
     = Ok (PrivateKey 300)"
  by (rule scalar_conversion_roundtrip[OF sample_scalar_laws]) (simp_all add: ed_l_def)

end
