(* ===== verification/Swap_Env.thy ===== *)
theory Swap_Env
  imports Bob_State
begin

text \<open>
  The world a swap runs in. The two swap loops reach the outside only through their Bitcoin wallet
  (\<open>bitcoin/wallet.rs\<close>), their Beldex wallet (\<open>beldex/wallet.rs\<close>), the handle of the network event
  loop (\<open>asb/event_loop.rs\<close>, \<open>cli/event_loop.rs\<close>) and the database. The replies of those parties are
  the record \<open>env\<close>: one function per method, of the arguments and of an external state \<open>'v\<close> that it
  may change. Every call is recorded in the log of the world, so that theorems can speak of what
  was sent, broadcast and stored, and in which order.

  A future that the code awaits is a poll function: it is given one snapshot of what the outside
  offers at that moment and says whether it completes. An await is run over the list of snapshots
  that the environment provides; if none lets it complete, the run is still pending.
\<close>

section \<open>Calls and their log\<close>

record new_swap =
  ns_swap_id :: uuid
  ns_btc :: btc_amount
  ns_tx_refund_fee :: btc_amount
  ns_tx_cancel_fee :: btc_amount
  ns_bitcoin_refund_address :: address

datatype reject_reason = UnknownSwap | MaliciousRequest | SwapInvalidState

definition reject_reason_display :: "reject_reason \<Rightarrow> string" where
  "reject_reason_display r = (case r of
     UnknownSwap \<Rightarrow> ''Alice does not have a record of the swap''
   | MaliciousRequest \<Rightarrow> ''Alice rejected the request because it deemed it malicious''
   | SwapInvalidState \<Rightarrow> ''Alice is in a state where a cooperative redeem is not possible'')"

datatype coop_response = Fullfilled uuid bdx_scalar | Rejected uuid reject_reason

datatype request_error = SendError | RecvError | RecvTimeoutError

datatype wait_kind = UntilSeen | UntilFinal | UntilConfirmedWith u32

datatype call =
    CStatusOfScript txid script
  | CScriptHistory script
  | CGetTx txid
  | CSubscribe txid script
  | CBroadcast transaction string
  | CEstimateFee nat btc_amount
  | CSignAndFinalize psbt
  | CBlockHeight
  | CTransfer transfer_request
  | CWatchForTransfer watch_request
  | CCreateFrom string private_key private_view_key bdx_height
  | CCreateFromAndLoad string private_key private_view_key bdx_height
  | COpenWallet string
  | CRefresh nat
  | CSweepAll bdx_address
  | CSendTransferProof transfer_proof
  | CRecvEncSig
  | CSetupSwap new_swap
  | CRecvTransferProof
  | CSendEncSig encsig
  | CRequestCoopRedeem uuid
  | CInsertLatestState uuid swap_state
  | CGetBufferedProof uuid
  | CGetState uuid
  | CGetPeerId uuid
  | CWait wait_kind txid

text \<open>
  \<open>Begun c\<close>: a future that makes the call was polled for the first time; \<open>Done c\<close> and \<open>Failed c\<close>: the
  call returned.
\<close>

datatype event = Begun call | Done call | Failed call

primrec event_call :: "event \<Rightarrow> call" where
  "event_call (Begun c) = c"
| "event_call (Done c) = c"
| "event_call (Failed c) = c"

definition is_transfer :: "event \<Rightarrow> bool" where
  "is_transfer e = (case event_call e of CTransfer _ \<Rightarrow> True | _ \<Rightarrow> False)"

definition is_broadcast :: "string \<Rightarrow> event \<Rightarrow> bool" where
  "is_broadcast kind e = (case event_call e of CBroadcast _ k \<Rightarrow> k = kind | _ \<Rightarrow> False)"

record 'v world =
  w_log :: "event list"
  w_ext :: 'v

primrec event_of :: "call \<Rightarrow> 'a outcome \<Rightarrow> event" where
  "event_of c (Ok x) = Done c"
| "event_of c (Err e) = Failed c"
| "event_of c (Panic p) = Failed c"
| "event_of c Pending = Begun c"

definition perform :: "call \<Rightarrow> ('v \<Rightarrow> 'a outcome \<times> 'v) \<Rightarrow> ('v world, 'a) io" where
  "perform c f = (\<lambda>w. case f (w_ext w) of
     (r, v') \<Rightarrow> (r, w\<lparr>w_log := w_log w @ [event_of c r], w_ext := v'\<rparr>))"

definition record_events :: "event list \<Rightarrow> ('v world, unit) io" where
  "record_events evs = (\<lambda>w. (Ok (), w\<lparr>w_log := w_log w @ evs\<rparr>))"

text \<open>Code that looks at the world it starts in.\<close>

definition with_world :: "('v world \<Rightarrow> ('v world, 'a) io) \<Rightarrow> ('v world, 'a) io" where
  "with_world f = (\<lambda>w. f w w)"

section \<open>The environment\<close>

record subscription =
  sub_txid :: txid
  sub_script :: script
  sub_finality :: u32

record snap =
  sn_status :: "txid \<Rightarrow> script \<Rightarrow> script_status"
  sn_closed :: bool
  sn_elapsed :: bool
  sn_coin :: bool
  sn_proof_ack :: "unit outcome option"
  sn_encsig :: "encsig outcome option"
  sn_transfer_proof :: "transfer_proof outcome option"
  sn_encsig_ack :: "(request_error + unit) option"
  sn_bdx :: "unit outcome option"
  sn_tx :: "transaction option outcome option"
  sn_respond :: "unit outcome"

record 'v env =
  e_lib :: lib
  e_finality :: u32
  e_uuid_to_string :: "uuid \<Rightarrow> string"
  e_status :: "txid \<Rightarrow> script \<Rightarrow> 'v \<Rightarrow> script_status outcome \<times> 'v"
  e_history :: "script \<Rightarrow> 'v \<Rightarrow> txid list outcome \<times> 'v"
  e_get_tx :: "txid \<Rightarrow> 'v \<Rightarrow> transaction option outcome \<times> 'v"
  e_broadcast :: "transaction \<Rightarrow> 'v \<Rightarrow> unit outcome \<times> 'v"
  e_estimate_fee :: "nat \<Rightarrow> btc_amount \<Rightarrow> 'v \<Rightarrow> btc_amount outcome \<times> 'v"
  e_sign_and_finalize :: "psbt \<Rightarrow> 'v \<Rightarrow> transaction outcome \<times> 'v"
  e_block_height :: "'v \<Rightarrow> bdx_height outcome \<times> 'v"
  e_transfer :: "transfer_request \<Rightarrow> 'v \<Rightarrow> transfer_proof outcome \<times> 'v"
  e_create_from :: "string \<Rightarrow> private_key \<Rightarrow> private_view_key \<Rightarrow> bdx_height \<Rightarrow> 'v \<Rightarrow> unit outcome \<times> 'v"
  e_create_from_and_load ::
    "string \<Rightarrow> private_key \<Rightarrow> private_view_key \<Rightarrow> bdx_height \<Rightarrow> 'v \<Rightarrow> unit outcome \<times> 'v"
  e_open_wallet :: "string \<Rightarrow> 'v \<Rightarrow> unit outcome \<times> 'v"
  e_refresh :: "nat \<Rightarrow> 'v \<Rightarrow> unit outcome \<times> 'v"
  e_sweep_all :: "bdx_address \<Rightarrow> 'v \<Rightarrow> tx_hash list outcome \<times> 'v"
  e_setup_swap :: "new_swap \<Rightarrow> 'v \<Rightarrow> bob_state2 outcome \<times> 'v"
  e_coop_redeem :: "uuid \<Rightarrow> 'v \<Rightarrow> coop_response outcome \<times> 'v"
  e_insert_latest_state :: "uuid \<Rightarrow> swap_state \<Rightarrow> 'v \<Rightarrow> unit outcome \<times> 'v"
  e_get_buffered_proof :: "uuid \<Rightarrow> 'v \<Rightarrow> transfer_proof option outcome \<times> 'v"
  e_get_state :: "uuid \<Rightarrow> 'v \<Rightarrow> swap_state outcome \<times> 'v"
  e_get_peer_id :: "uuid \<Rightarrow> 'v \<Rightarrow> peer_id outcome \<times> 'v"
  e_polls :: "call list \<Rightarrow> 'v \<Rightarrow> snap list \<times> 'v"

section \<open>The Bitcoin wallet\<close>

definition status_of_script :: "'v env \<Rightarrow> txid \<Rightarrow> script \<Rightarrow> ('v world, script_status) io" where
  "status_of_script E i s = perform (CStatusOfScript i s) (e_status E i s)"

definition script_history_for :: "'v env \<Rightarrow> script \<Rightarrow> ('v world, txid list) io" where
  "script_history_for E s = perform (CScriptHistory s) (e_history E s)"

definition get_raw_transaction :: "'v env \<Rightarrow> txid \<Rightarrow> ('v world, transaction) io" where
  "get_raw_transaction E i =
     bindio (perform (CGetTx i) (e_get_tx E i)) (\<lambda>r.
       lift (of_option (Msg ''Could not get raw tx with id'') r))"

definition subscribe_to :: "'v env \<Rightarrow> txid \<Rightarrow> script \<Rightarrow> ('v world, subscription) io" where
  "subscribe_to E i s =
     bindio (record_events [Done (CSubscribe i s)]) (\<lambda>_.
       ret \<lparr>sub_txid = i, sub_script = s, sub_finality = e_finality E\<rparr>)"

text \<open>
  \<open>Wallet::broadcast\<close>: subscribe to the first output, then hand the transaction to the blockchain.
\<close>

definition broadcast :: "'v env \<Rightarrow> transaction \<Rightarrow> string \<Rightarrow> ('v world, txid \<times> subscription) io" where
  "broadcast E tx kind =
     (let i = compute_txid (e_lib E) tx in
      bindio (lift (index_vec (tx_output tx) 0)) (\<lambda>out.
      bindio (subscribe_to E i (txo_script out)) (\<lambda>sub.
      bindio (context_io ''Failed to broadcast Bitcoin transaction''
                (perform (CBroadcast tx kind) (e_broadcast E tx))) (\<lambda>_.
      ret (i, sub)))))"

section \<open>Futures\<close>

type_synonym 'a fut = "snap \<Rightarrow> nat \<Rightarrow> 'a outcome option \<times> nat \<times> event list"

text \<open>
  \<open>Subscription::wait_until\<close>: the predicate is tried on the current status; if it fails, the next
  status is awaited, which is an error once the sender is gone.
\<close>

definition wait_until :: "subscription \<Rightarrow> wait_kind \<Rightarrow> (script_status \<Rightarrow> bool) \<Rightarrow> unit fut" where
  "wait_until sub kind predicate = (\<lambda>s st.
     if predicate (sn_status s (sub_txid sub) (sub_script sub))
     then (Some (Ok ()), st, [Done (CWait kind (sub_txid sub))])
     else if sn_closed s
     then (Some (Err (Msg ''Failed while waiting for next status update'')), st,
           [Failed (CWait kind (sub_txid sub))])
     else (None, st, []))"

definition is_final :: "u32 \<Rightarrow> script_status \<Rightarrow> bool" where
  "is_final conf_target s = (case s of Confirmed inner \<Rightarrow> meets_target inner conf_target | _ \<Rightarrow> False)"

definition wait_until_final :: "subscription \<Rightarrow> unit fut" where
  "wait_until_final sub = wait_until sub UntilFinal (is_final (sub_finality sub))"

definition wait_until_seen :: "subscription \<Rightarrow> unit fut" where
  "wait_until_seen sub = wait_until sub UntilSeen has_been_seen"

definition wait_until_confirmed_with :: "subscription \<Rightarrow> u32 \<Rightarrow> unit fut" where
  "wait_until_confirmed_with sub target =
     wait_until sub (UntilConfirmedWith target) (\<lambda>s. is_confirmed_with s target)"

text \<open>The timer of \<open>tokio::time::timeout\<close>.\<close>

definition timer :: "unit fut" where
  "timer s st = (if sn_elapsed s then (Some (Ok ()), st, []) else (None, st, []))"

text \<open>
  A future that makes one call when it is first polled and then waits for the reply that \<open>reply\<close>
  finds in the snapshot.
\<close>

definition call_fut :: "call \<Rightarrow> (snap \<Rightarrow> 'a outcome option) \<Rightarrow> 'a fut" where
  "call_fut c reply = (\<lambda>s st.
     let begun = (if st = 0 then [Begun c] else []) in
     case reply s of
       None \<Rightarrow> (None, 1, begun)
     | Some r \<Rightarrow> (Some r, 1, begun @ [event_of c r]))"

text \<open>\<open>select!\<close> of two branches: \<open>biased\<close> polls the first one first, otherwise the order is random.\<close>

fun select2 ::
  "bool \<Rightarrow> 'a fut \<Rightarrow> 'b fut \<Rightarrow> nat \<Rightarrow> nat \<Rightarrow> snap list \<Rightarrow>
   ('a outcome + 'b outcome) option \<times> event list" where
  "select2 biased f g i j [] = (None, [])"
| "select2 biased f g i j (s # ss) =
     (if biased \<or> sn_coin s then
        (case f s i of
           (Some r, _, ev) \<Rightarrow> (Some (Inl r), ev)
         | (None, i', ev) \<Rightarrow>
             (case g s j of
                (Some r, _, ev') \<Rightarrow> (Some (Inr r), ev @ ev')
              | (None, j', ev') \<Rightarrow>
                  (case select2 biased f g i' j' ss of (r, evs) \<Rightarrow> (r, ev @ ev' @ evs))))
      else
        (case g s j of
           (Some r, _, ev) \<Rightarrow> (Some (Inr r), ev)
         | (None, j', ev) \<Rightarrow>
             (case f s i of
                (Some r, _, ev') \<Rightarrow> (Some (Inl r), ev @ ev')
              | (None, i', ev') \<Rightarrow>
                  (case select2 biased f g i' j' ss of (r, evs) \<Rightarrow> (r, ev @ ev' @ evs)))))"

text \<open>
  The await of a \<open>select!\<close>: the environment provides the snapshots, and the branch that completed is
  handled by \<open>h1\<close> or \<open>h2\<close>, which are given its result.
\<close>

definition select_io ::
  "'v env \<Rightarrow> call list \<Rightarrow> bool \<Rightarrow> 'a fut \<Rightarrow> 'b fut \<Rightarrow>
   ('a outcome \<Rightarrow> ('v world, 'c) io) \<Rightarrow> ('b outcome \<Rightarrow> ('v world, 'c) io) \<Rightarrow> ('v world, 'c) io" where
  "select_io E cs biased f g h1 h2 = (\<lambda>w. case e_polls E cs (w_ext w) of
     (ss, v') \<Rightarrow>
       (case select2 biased f g 0 0 ss of
          (r, evs) \<Rightarrow>
            let w' = w\<lparr>w_log := w_log w @ evs, w_ext := v'\<rparr> in
            (case r of
               None \<Rightarrow> (Pending, w')
             | Some (Inl x) \<Rightarrow> h1 x w'
             | Some (Inr y) \<Rightarrow> h2 y w')))"

text \<open>A branch that never completes; awaiting one future is a \<open>select!\<close> with it.\<close>

definition never :: "unit fut" where
  "never s st = (None, st, [])"

definition await_io :: "'v env \<Rightarrow> call list \<Rightarrow> 'a fut \<Rightarrow> ('v world, 'a) io" where
  "await_io E cs f = select_io E cs True f never lift (\<lambda>_. lift Pending)"

text \<open>\<open>timeout(d, fut).await\<close>: the future is polled before the timer; \<open>None\<close> is \<open>Err(Elapsed)\<close>.\<close>

definition timeout_io :: "'v env \<Rightarrow> call list \<Rightarrow> 'a fut \<Rightarrow> ('v world, 'a outcome option) io" where
  "timeout_io E cs f = select_io E cs True f timer (\<lambda>r. ret (Some r)) (\<lambda>_. ret None)"


text \<open>\<open>Wallet::watch_for_transfer\<close> and \<open>Database::insert_latest_state\<close>.\<close>

definition watch_for_transfer :: "watch_request \<Rightarrow> unit fut" where
  "watch_for_transfer req = call_fut (CWatchForTransfer req) sn_bdx"

definition insert_latest_state :: "'v env \<Rightarrow> uuid \<Rightarrow> swap_state \<Rightarrow> ('v world, unit) io" where
  "insert_latest_state E swap_id s =
     perform (CInsertLatestState swap_id s) (e_insert_latest_state E swap_id s)"

section \<open>What a computation may log\<close>

text \<open>
  \<open>logs Q m\<close>: every run of \<open>m\<close> extends the log by a list with the property \<open>Q\<close>, whatever the
  environment answers and however the run ends; \<open>emits P m\<close>: each new event has the property \<open>P\<close>.
\<close>

definition logs :: "(event list \<Rightarrow> bool) \<Rightarrow> ('v world, 'a) io \<Rightarrow> bool" where
  "logs Q m \<longleftrightarrow> (\<forall>w. \<exists>evs. w_log (snd (m w)) = w_log w @ evs \<and> Q evs)"

abbreviation emits :: "(event \<Rightarrow> bool) \<Rightarrow> ('v world, 'a) io \<Rightarrow> bool" where
  "emits P \<equiv> logs (list_all P)"

definition fut_emits :: "(event \<Rightarrow> bool) \<Rightarrow> 'a fut \<Rightarrow> bool" where
  "fut_emits P f \<longleftrightarrow> (\<forall>s st. list_all P (snd (snd (f s st))))"

named_theorems emits_rules \<open>introduction rules for \<open>emits\<close>\<close>

lemma logsD: "logs Q m \<Longrightarrow> m w = (r, w') \<Longrightarrow> \<exists>evs. w_log w' = w_log w @ evs \<and> Q evs"
  unfolding logs_def by (metis snd_conv)

lemma emits_weaken: "emits P m \<Longrightarrow> (\<And>e. P e \<Longrightarrow> P' e) \<Longrightarrow> emits P' m"
  unfolding logs_def by (metis list.pred_mono_strong)

lemma emits_ret [emits_rules]: "emits P (ret x)"
  by (simp add: logs_def)

lemma emits_lift [emits_rules]: "emits P (lift m)"
  by (simp add: logs_def)

lemma emits_bindio [emits_rules]:
  assumes m: "emits P m" and f: "\<And>x. emits P (f x)"
  shows "emits P (bindio m f)"
  unfolding logs_def
proof
  fix w
  obtain r w1 where m1: "m w = (r, w1)" by fastforce
  obtain e1 where e1: "w_log w1 = w_log w @ e1" "list_all P e1"
    using logsD[OF m m1] by blast
  show "\<exists>evs. w_log (snd (bindio m f w)) = w_log w @ evs \<and> list_all P evs"
  proof (cases r)
    case (Ok x)
    obtain e2 where "w_log (snd (f x w1)) = w_log w1 @ e2" "list_all P e2"
      using f[of x] unfolding logs_def by blast
    thus ?thesis using e1 Ok m1 by (auto simp: bindio_def)
  qed (use e1 m1 in \<open>auto simp: bindio_def\<close>)
qed

lemma snd_attempt [simp]: "snd (attempt m w) = snd (m w)"
  by (simp add: attempt_def split: prod.splits outcome.splits)

lemma snd_context_io [simp]: "snd (context_io c m w) = snd (m w)"
  by (simp add: context_io_def split: prod.splits)

lemma emits_attempt [emits_rules]: "emits P m \<Longrightarrow> emits P (attempt m)"
  by (simp add: logs_def)

lemma emits_context_io [emits_rules]: "emits P m \<Longrightarrow> emits P (context_io c m)"
  by (simp add: logs_def)

lemma emits_perform [emits_rules]:
  "P (Done c) \<Longrightarrow> P (Failed c) \<Longrightarrow> P (Begun c) \<Longrightarrow> emits P (perform c f)"
  unfolding logs_def perform_def
  by (intro allI) (auto split: prod.splits, case_tac x1, auto)

lemma emits_record_events [emits_rules]: "list_all P evs \<Longrightarrow> emits P (record_events evs)"
  by (simp add: logs_def record_events_def)

lemma emits_with_world [emits_rules]: "(\<And>w. emits P (f w)) \<Longrightarrow> emits P (with_world f)"
  by (simp add: logs_def with_world_def)

lemma emits_if [emits_rules]: "emits P m \<Longrightarrow> emits P m' \<Longrightarrow> emits P (if b then m else m')"
  by simp

lemma fut_emits_wait_until [emits_rules]:
  "P (Done (CWait k (sub_txid sub))) \<Longrightarrow> P (Failed (CWait k (sub_txid sub))) \<Longrightarrow>
   fut_emits P (wait_until sub k p)"
  by (auto simp: fut_emits_def wait_until_def)

lemma fut_emits_call_fut [emits_rules]:
  "P (Begun c) \<Longrightarrow> P (Done c) \<Longrightarrow> P (Failed c) \<Longrightarrow> fut_emits P (call_fut c reply)"
  unfolding fut_emits_def call_fut_def Let_def
  by (auto split: option.splits) (case_tac x2, auto)+

lemma fut_emits_timer [emits_rules]: "fut_emits P timer"
  by (simp add: fut_emits_def timer_def)

lemma fut_emits_never [emits_rules]: "fut_emits P never"
  by (simp add: fut_emits_def never_def)

lemma select2_emits:
  assumes "fut_emits P f" "fut_emits P g"
  shows "list_all P (snd (select2 b f g i j ss))"
proof (induction ss arbitrary: i j)
  case (Cons s ss)
  obtain r1 i' e1 where f: "f s i = (r1, i', e1)" by (cases "f s i") auto
  obtain r2 j' e2 where g: "g s j = (r2, j', e2)" by (cases "g s j") auto
  have e: "list_all P e1" "list_all P e2"
    using assms f g unfolding fut_emits_def by (metis snd_conv)+
  show ?case
    using Cons.IH[of i' j'] e
    by (auto simp: f g split: option.splits prod.splits)
qed simp

lemma emits_select_io [emits_rules]:
  fixes h1 :: "'c outcome \<Rightarrow> ('a world, 'b) io"
  assumes "fut_emits P f" "fut_emits P g" "\<And>x. emits P (h1 x)" "\<And>y. emits P (h2 y)"
  shows "emits P (select_io E cs b f g h1 h2)"
  unfolding logs_def
proof
  fix w :: "'a world"
  obtain ss v' where p: "e_polls E cs (w_ext w) = (ss, v')" by fastforce
  obtain r evs where s: "select2 b f g 0 0 ss = (r, evs)" by fastforce
  have e: "list_all P evs" using select2_emits[OF assms(1,2)] s by (metis snd_conv)
  let ?w = "w\<lparr>w_log := w_log w @ evs, w_ext := v'\<rparr>"
  have h: "\<exists>ev. w_log (snd (h1 x ?w)) = w_log w @ evs @ ev \<and> list_all P ev"
    "\<exists>ev. w_log (snd (h2 y ?w)) = w_log w @ evs @ ev \<and> list_all P ev" for x y
    using assms(3)[of x] assms(4)[of y] unfolding logs_def by (fastforce dest: spec[of _ ?w])+
  show "\<exists>ev. w_log (snd (select_io E cs b f g h1 h2 w)) = w_log w @ ev \<and> list_all P ev"
  proof (cases r)
    case None
    thus ?thesis using p s e by (auto simp: select_io_def Let_def)
  next
    case (Some q)
    thus ?thesis
    proof (cases q)
      case (Inl x)
      obtain ev where "w_log (snd (h1 x ?w)) = w_log w @ evs @ ev" "list_all P ev"
        using h(1) by blast
      thus ?thesis using p s e Some Inl by (auto simp: select_io_def Let_def)
    next
      case (Inr y)
      obtain ev where "w_log (snd (h2 y ?w)) = w_log w @ evs @ ev" "list_all P ev"
        using h(2) by blast
      thus ?thesis using p s e Some Inr by (auto simp: select_io_def Let_def)
    qed
  qed
qed

lemma emits_await_io [emits_rules]: "fut_emits P f \<Longrightarrow> emits P (await_io E cs f)"
  unfolding await_io_def by (intro emits_rules)

lemma emits_timeout_io [emits_rules]: "fut_emits P f \<Longrightarrow> emits P (timeout_io E cs f)"
  unfolding timeout_io_def by (intro emits_rules)


section \<open>Inversion of awaits\<close>

lemma select2_InlD:
  "select2 b f g i j ss = (Some (Inl x), evs) \<Longrightarrow>
   \<exists>s\<in>set ss. \<exists>i0 pre. fst (f s i0) = Some x \<and> evs = pre @ snd (snd (f s i0))"
proof (induction ss arbitrary: i j evs)
  case (Cons s ss)
  obtain r1 i' e1 where f: "f s i = (r1, i', e1)" by (cases "f s i") auto
  obtain r2 j' e2 where g: "g s j = (r2, j', e2)" by (cases "g s j") auto
  show ?case
  proof (cases "r1 = None \<and> r2 = None")
    case True
    obtain r evs' where rec: "select2 b f g i' j' ss = (r, evs')" by fastforce
    have r: "r = Some (Inl x)" and "\<exists>pre. evs = pre @ evs'"
      using rec Cons.prems True by (auto simp: f g split: if_splits)
    then obtain pre where pre: "evs = pre @ evs'" by blast
    obtain t i0 pre' where t: "t \<in> set ss" "fst (f t i0) = Some x" "evs' = pre' @ snd (snd (f t i0))"
      using Cons.IH[of i' j' evs'] rec r by blast
    show ?thesis
      by (rule bexI[of _ t], rule exI[of _ i0], rule exI[of _ "pre @ pre'"]) (simp_all add: t pre)
  next
    case False
    hence "r1 = Some x" "\<exists>pre. evs = pre @ e1"
      using Cons.prems by (auto simp: f g split: if_splits option.splits prod.splits)
    thus ?thesis using f by (intro bexI[of _ s] exI[of _ i]) auto
  qed
qed simp

lemma select2_InrD:
  "select2 b f g i j ss = (Some (Inr y), evs) \<Longrightarrow>
   \<exists>s\<in>set ss. \<exists>j0 pre. fst (g s j0) = Some y \<and> evs = pre @ snd (snd (g s j0))"
proof (induction ss arbitrary: i j evs)
  case (Cons s ss)
  obtain r1 i' e1 where f: "f s i = (r1, i', e1)" by (cases "f s i") auto
  obtain r2 j' e2 where g: "g s j = (r2, j', e2)" by (cases "g s j") auto
  show ?case
  proof (cases "r1 = None \<and> r2 = None")
    case True
    obtain r evs' where rec: "select2 b f g i' j' ss = (r, evs')" by fastforce
    have r: "r = Some (Inr y)" and "\<exists>pre. evs = pre @ evs'"
      using rec Cons.prems True by (auto simp: f g split: if_splits)
    then obtain pre where pre: "evs = pre @ evs'" by blast
    obtain t i0 pre' where t: "t \<in> set ss" "fst (g t i0) = Some y" "evs' = pre' @ snd (snd (g t i0))"
      using Cons.IH[of i' j' evs'] rec r by blast
    show ?thesis
      by (rule bexI[of _ t], rule exI[of _ i0], rule exI[of _ "pre @ pre'"]) (simp_all add: t pre)
  next
    case False
    hence "r2 = Some y" "\<exists>pre. evs = pre @ e2"
      using Cons.prems by (auto simp: f g split: if_splits option.splits prod.splits)
    thus ?thesis using g by (intro bexI[of _ s] exI[of _ j]) auto
  qed
qed simp

lemma select_io_eq_Ok [outcome_rules]:
  "select_io E cs b f g h1 h2 w = (Ok y, w'') \<longleftrightarrow>
   (\<exists>ss v' evs. e_polls E cs (w_ext w) = (ss, v') \<and>
      ((\<exists>x. select2 b f g 0 0 ss = (Some (Inl x), evs) \<and>
          h1 x (w\<lparr>w_log := w_log w @ evs, w_ext := v'\<rparr>) = (Ok y, w'')) \<or>
       (\<exists>x. select2 b f g 0 0 ss = (Some (Inr x), evs) \<and>
          h2 x (w\<lparr>w_log := w_log w @ evs, w_ext := v'\<rparr>) = (Ok y, w''))))"
  by (auto simp: select_io_def Let_def split: prod.splits option.splits sum.splits)

lemma await_io_eq_Ok [outcome_rules]:
  "await_io E cs f w = (Ok y, w'') \<longleftrightarrow>
   (\<exists>ss v' evs. e_polls E cs (w_ext w) = (ss, v') \<and>
      select2 True f never 0 0 ss = (Some (Inl (Ok y)), evs) \<and>
      w'' = w\<lparr>w_log := w_log w @ evs, w_ext := v'\<rparr>)"
  by (auto simp: await_io_def outcome_rules)

lemma timeout_io_eq_Ok [outcome_rules]:
  "timeout_io E cs f w = (Ok r, w'') \<longleftrightarrow>
   (\<exists>ss v' evs. e_polls E cs (w_ext w) = (ss, v') \<and> w'' = w\<lparr>w_log := w_log w @ evs, w_ext := v'\<rparr> \<and>
      ((\<exists>x. select2 True f timer 0 0 ss = (Some (Inl x), evs) \<and> r = Some x) \<or>
       (\<exists>x. select2 True f timer 0 0 ss = (Some (Inr x), evs) \<and> r = None)))"
  by (auto simp: timeout_io_def outcome_rules)

lemma perform_eq_Ok [outcome_rules]:
  "perform c f w = (Ok y, w') \<longleftrightarrow>
   (\<exists>v'. f (w_ext w) = (Ok y, v') \<and> w' = w\<lparr>w_log := w_log w @ [Done c], w_ext := v'\<rparr>)"
  by (auto simp: perform_def split: prod.splits)

lemma record_events_eq_Ok [outcome_rules]:
  "record_events evs w = (Ok y, w') \<longleftrightarrow> w' = w\<lparr>w_log := w_log w @ evs\<rparr>"
  by (auto simp: record_events_def)

lemma subscribe_to_eq_Ok [outcome_rules]:
  "subscribe_to E i s w = (Ok sub, w') \<longleftrightarrow>
   sub = \<lparr>sub_txid = i, sub_script = s, sub_finality = e_finality E\<rparr> \<and>
   w' = w\<lparr>w_log := w_log w @ [Done (CSubscribe i s)]\<rparr>"
  by (auto simp: subscribe_to_def outcome_rules)


section \<open>What a computation may return\<close>

text \<open>\<open>returns Q m\<close>: whenever \<open>m\<close> returns a value, the value has the property \<open>Q\<close>.\<close>

definition returns :: "('a \<Rightarrow> bool) \<Rightarrow> ('v world, 'a) io \<Rightarrow> bool" where
  "returns Q m \<longleftrightarrow> (\<forall>w x w'. m w = (Ok x, w') \<longrightarrow> Q x)"

named_theorems returns_rules \<open>introduction rules for \<open>returns\<close>\<close>

lemma returnsD: "returns Q m \<Longrightarrow> m w = (Ok x, w') \<Longrightarrow> Q x"
  unfolding returns_def by blast

lemma returns_ret [returns_rules]: "Q x \<Longrightarrow> returns Q (ret x)"
  by (simp add: returns_def)

lemma returns_lift [returns_rules]: "(\<And>x. m = Ok x \<Longrightarrow> Q x) \<Longrightarrow> returns Q (lift m)"
  by (auto simp: returns_def)

lemma returns_bindio [returns_rules]: "(\<And>x. returns Q (f x)) \<Longrightarrow> returns Q (bindio m f)"
  unfolding returns_def by (auto simp: outcome_rules)

lemma returns_select_io [returns_rules]:
  "(\<And>x. returns Q (h1 x)) \<Longrightarrow> (\<And>x. returns Q (h2 x)) \<Longrightarrow> returns Q (select_io E cs b f g h1 h2)"
  unfolding returns_def select_io_eq_Ok by blast

lemma returns_with_world [returns_rules]: "(\<And>w. returns Q (f w)) \<Longrightarrow> returns Q (with_world f)"
  unfolding returns_def with_world_def by blast

lemma returns_context_io [returns_rules]: "returns Q m \<Longrightarrow> returns Q (context_io c m)"
  unfolding returns_def by (auto simp: outcome_rules)

lemma returns_bindio_with: "returns R m \<Longrightarrow> (\<And>x. R x \<Longrightarrow> returns Q (f x)) \<Longrightarrow> returns Q (bindio m f)"
  unfolding returns_def bindio_eq_Ok by blast

lemma returns_bindio_attempt:
  "returns R m \<Longrightarrow> (\<And>x. R x \<Longrightarrow> returns Q (f (Inr x))) \<Longrightarrow> (\<And>e. returns Q (f (Inl e))) \<Longrightarrow>
   returns Q (bindio (attempt m) f)"
  unfolding returns_def bindio_eq_Ok attempt_eq_Ok by blast

definition fut_returns :: "('a \<Rightarrow> bool) \<Rightarrow> 'a fut \<Rightarrow> bool" where
  "fut_returns R f \<longleftrightarrow> (\<forall>s j x. fst (f s j) = Some (Ok x) \<longrightarrow> R x)"

lemma returns_select_io_futs:
  assumes "fut_returns R f" "fut_returns S g"
    and "\<And>x. (\<And>y. x = Ok y \<Longrightarrow> R y) \<Longrightarrow> returns Q (h1 x)" "\<And>x. (\<And>y. x = Ok y \<Longrightarrow> S y) \<Longrightarrow> returns Q (h2 x)"
  shows "returns Q (select_io E cs b f g h1 h2)"
  unfolding returns_def
proof (intro allI impI)
  fix w x w'
  assume "select_io E cs b f g h1 h2 w = (Ok x, w')"
  then obtain ss v' evs where "(\<exists>y. select2 b f g 0 0 ss = (Some (Inl y), evs) \<and>
          h1 y (w\<lparr>w_log := w_log w @ evs, w_ext := v'\<rparr>) = (Ok x, w')) \<or>
       (\<exists>y. select2 b f g 0 0 ss = (Some (Inr y), evs) \<and>
          h2 y (w\<lparr>w_log := w_log w @ evs, w_ext := v'\<rparr>) = (Ok x, w'))"
    unfolding select_io_eq_Ok by blast
  thus "Q x"
  proof (elim disjE exE conjE)
    fix y
    assume y: "select2 b f g 0 0 ss = (Some (Inl y), evs)"
      "h1 y (w\<lparr>w_log := w_log w @ evs, w_ext := v'\<rparr>) = (Ok x, w')"
    have r: "returns Q (h1 y)"
    proof (rule assms(3))
      fix z
      assume "y = Ok z"
      then obtain s j where "fst (f s j) = Some (Ok z)" using select2_InlD[OF y(1)] by auto
      thus "R z" using assms(1) by (simp add: fut_returns_def)
    qed
    show "Q x" by (rule returnsD[OF r y(2)])
  next
    fix y
    assume y: "select2 b f g 0 0 ss = (Some (Inr y), evs)"
      "h2 y (w\<lparr>w_log := w_log w @ evs, w_ext := v'\<rparr>) = (Ok x, w')"
    have r: "returns Q (h2 y)"
    proof (rule assms(4))
      fix z
      assume "y = Ok z"
      then obtain s j where "fst (g s j) = Some (Ok z)" using select2_InrD[OF y(1)] by auto
      thus "S z" using assms(2) by (simp add: fut_returns_def)
    qed
    show "Q x" by (rule returnsD[OF r y(2)])
  qed
qed

section \<open>Results and log together\<close>

text \<open>
  \<open>post R m\<close>: every run of \<open>m\<close> extends the log by a list that stands in the relation \<open>R\<close> to the
  result. The rules compute the relation backwards through a computation, so that a proof follows
  the code; \<open>post_emits\<close> covers the parts of which only the kind of event matters.
\<close>

definition post :: "('a outcome \<Rightarrow> event list \<Rightarrow> bool) \<Rightarrow> ('v world, 'a) io \<Rightarrow> bool" where
  "post R m \<longleftrightarrow> (\<forall>w. \<exists>evs. w_log (snd (m w)) = w_log w @ evs \<and> R (fst (m w)) evs)"

lemma postD: "post R m \<Longrightarrow> m w = (r, w') \<Longrightarrow> \<exists>evs. w_log w' = w_log w @ evs \<and> R r evs"
  unfolding post_def by (metis fst_conv snd_conv)

lemma post_ret [simp]: "post R (ret x) \<longleftrightarrow> R (Ok x) []"
  by (simp add: post_def)

lemma post_lift [simp]: "post R (lift m) \<longleftrightarrow> R m []"
  by (simp add: post_def)

lemma post_weaken: "post R m \<Longrightarrow> (\<And>r evs. R r evs \<Longrightarrow> R' r evs) \<Longrightarrow> post R' m"
  unfolding post_def by blast

lemma post_emits: "emits P m \<Longrightarrow> (\<And>r evs. list_all P evs \<Longrightarrow> R r evs) \<Longrightarrow> post R m"
  unfolding post_def logs_def by blast

lemma post_perform: "(\<And>r. R r [event_of c r]) \<Longrightarrow> post R (perform c f)"
  unfolding post_def perform_def by (simp split: prod.splits)

lemma post_attempt:
  "post (\<lambda>r evs. case r of Ok x \<Rightarrow> R (Ok (Inr x)) evs | Err e \<Rightarrow> R (Ok (Inl e)) evs
     | Panic p \<Rightarrow> R (Panic p) evs | Pending \<Rightarrow> R Pending evs) m \<Longrightarrow> post R (attempt m)"
  unfolding post_def
proof
  fix w
  assume "\<forall>w. \<exists>evs. w_log (snd (m w)) = w_log w @ evs \<and>
    (case fst (m w) of Ok x \<Rightarrow> R (Ok (Inr x)) evs | Err e \<Rightarrow> R (Ok (Inl e)) evs
     | Panic p \<Rightarrow> R (Panic p) evs | Pending \<Rightarrow> R Pending evs)"
  then obtain evs where e: "w_log (snd (m w)) = w_log w @ evs"
    "case fst (m w) of Ok x \<Rightarrow> R (Ok (Inr x)) evs | Err e \<Rightarrow> R (Ok (Inl e)) evs
     | Panic p \<Rightarrow> R (Panic p) evs | Pending \<Rightarrow> R Pending evs" by blast
  obtain r w' where "m w = (r, w')" by fastforce
  thus "\<exists>evs. w_log (snd (attempt m w)) = w_log w @ evs \<and> R (fst (attempt m w)) evs"
    using e by (cases r) (auto simp: attempt_def)
qed

lemma post_context_io:
  "post (\<lambda>r evs. R (with_context c r) evs) m \<Longrightarrow> post R (context_io c m)"
  unfolding post_def context_io_def by (simp add: split_beta)

lemma post_bindio:
  "post (\<lambda>r evs. case r of Ok x \<Rightarrow> post (\<lambda>r' evs'. R r' (evs @ evs')) (f x) | Err e \<Rightarrow> R (Err e) evs
     | Panic p \<Rightarrow> R (Panic p) evs | Pending \<Rightarrow> R Pending evs) m \<Longrightarrow> post R (bindio m f)"
  unfolding post_def[of _ m]
proof (unfold post_def[of _ "bindio m f"], intro allI)
  fix w
  assume "\<forall>w. \<exists>evs. w_log (snd (m w)) = w_log w @ evs \<and>
    (case fst (m w) of Ok x \<Rightarrow> post (\<lambda>r' evs'. R r' (evs @ evs')) (f x) | Err e \<Rightarrow> R (Err e) evs
     | Panic p \<Rightarrow> R (Panic p) evs | Pending \<Rightarrow> R Pending evs)"
  then obtain evs where e: "w_log (snd (m w)) = w_log w @ evs"
    "case fst (m w) of Ok x \<Rightarrow> post (\<lambda>r' evs'. R r' (evs @ evs')) (f x) | Err e \<Rightarrow> R (Err e) evs
     | Panic p \<Rightarrow> R (Panic p) evs | Pending \<Rightarrow> R Pending evs" by blast
  obtain r w1 where m: "m w = (r, w1)" by fastforce
  show "\<exists>evs. w_log (snd (bindio m f w)) = w_log w @ evs \<and> R (fst (bindio m f w)) evs"
  proof (cases r)
    case (Ok x)
    hence "post (\<lambda>r' evs'. R r' (evs @ evs')) (f x)" using e m by simp
    then obtain evs' where "w_log (snd (f x w1)) = w_log w1 @ evs'" "R (fst (f x w1)) (evs @ evs')"
      unfolding post_def by blast
    thus ?thesis using e m Ok by (intro exI[of _ "evs @ evs'"]) (simp add: bindio_def)
  qed (use e m in \<open>auto simp: bindio_def intro!: exI[of _ evs]\<close>)
qed

lemma post_bind_emits:
  fixes m :: "('v world, 'b) io"
  assumes "emits P m"
    and "\<And>x evs. list_all P evs \<Longrightarrow> post (\<lambda>r' evs'. R r' (evs @ evs')) (f x)"
    and "\<And>e evs. list_all P evs \<Longrightarrow> R (Err e) evs" "\<And>p evs. list_all P evs \<Longrightarrow> R (Panic p) evs"
    and "\<And>evs. list_all P evs \<Longrightarrow> R Pending evs"
  shows "post R (bindio m f)"
proof (rule post_bindio, rule post_emits[OF assms(1)])
  fix r :: "'b outcome" and evs
  assume "list_all P evs"
  thus "case r of Ok x \<Rightarrow> post (\<lambda>r' evs'. R r' (evs @ evs')) (f x) | Err e \<Rightarrow> R (Err e) evs
     | Panic p \<Rightarrow> R (Panic p) evs | Pending \<Rightarrow> R Pending evs"
    using assms(2-5) by (cases r) auto
qed


text \<open>
  A relation that only constrains runs that return a value, and that more events in front do not
  invalidate, needs no more than the rest of the computation.
\<close>

definition prefix_closed :: "('a outcome \<Rightarrow> event list \<Rightarrow> bool) \<Rightarrow> bool" where
  "prefix_closed R \<longleftrightarrow> (\<forall>r xs ys. R r ys \<longrightarrow> R r (xs @ ys)) \<and>
     (\<forall>e xs. R (Err e) xs) \<and> (\<forall>p xs. R (Panic p) xs) \<and> (\<forall>xs. R Pending xs)"

lemma post_bindio_closed:
  fixes m :: "('v world, 'b) io"
  assumes "prefix_closed R" "emits (\<lambda>_. True) m"
    and "\<And>x w w'. m w = (Ok x, w') \<Longrightarrow> post R (f x)"
  shows "post R (bindio m f)"
  unfolding post_def
proof
  fix w
  obtain r w1 where m: "m w = (r, w1)" by fastforce
  obtain e1 where e1: "w_log w1 = w_log w @ e1" using logsD[OF assms(2) m] by blast
  show "\<exists>evs. w_log (snd (bindio m f w)) = w_log w @ evs \<and> R (fst (bindio m f w)) evs"
  proof (cases r)
    case (Ok x)
    then obtain e2 where "w_log (snd (f x w1)) = w_log w1 @ e2" "R (fst (f x w1)) e2"
      using assms(3) m unfolding post_def by blast
    thus ?thesis
      using assms(1) e1 m Ok by (intro exI[of _ "e1 @ e2"]) (auto simp: bindio_def prefix_closed_def)
  qed (use assms(1) e1 m in \<open>auto simp: bindio_def prefix_closed_def intro!: exI[of _ e1]\<close>)
qed

lemma post_select_io:
  fixes h1 :: "'c outcome \<Rightarrow> ('v world, 'b) io"
  assumes "\<And>x evs ss v v'. e_polls E cs v = (ss, v') \<Longrightarrow> select2 b f g 0 0 ss = (Some (Inl x), evs) \<Longrightarrow>
      post (\<lambda>r evs'. R r (evs @ evs')) (h1 x)"
    and "\<And>x evs ss v v'. e_polls E cs v = (ss, v') \<Longrightarrow> select2 b f g 0 0 ss = (Some (Inr x), evs) \<Longrightarrow>
      post (\<lambda>r evs'. R r (evs @ evs')) (h2 x)"
    and "\<And>evs. R Pending evs"
  shows "post R (select_io E cs b f g h1 h2)"
  unfolding post_def
proof
  fix w :: "'v world"
  obtain ss v' where p: "e_polls E cs (w_ext w) = (ss, v')" by fastforce
  obtain r evs where s: "select2 b f g 0 0 ss = (r, evs)" by fastforce
  let ?w = "w\<lparr>w_log := w_log w @ evs, w_ext := v'\<rparr>"
  show "\<exists>ev. w_log (snd (select_io E cs b f g h1 h2 w)) = w_log w @ ev \<and>
      R (fst (select_io E cs b f g h1 h2 w)) ev"
  proof (cases r)
    case None
    thus ?thesis using p s assms(3) by (auto simp: select_io_def Let_def)
  next
    case (Some q)
    show ?thesis
    proof (cases q)
      case (Inl x)
      obtain ev where "w_log (snd (h1 x ?w)) = w_log ?w @ ev" "R (fst (h1 x ?w)) (evs @ ev)"
        using assms(1)[OF p] s Some Inl unfolding post_def by blast
      thus ?thesis
        using p s Some Inl by (intro exI[of _ "evs @ ev"]) (auto simp: select_io_def Let_def)
    next
      case (Inr x)
      obtain ev where "w_log (snd (h2 x ?w)) = w_log ?w @ ev" "R (fst (h2 x ?w)) (evs @ ev)"
        using assms(2)[OF p] s Some Inr unfolding post_def by blast
      thus ?thesis
        using p s Some Inr by (intro exI[of _ "evs @ ev"]) (auto simp: select_io_def Let_def)
    qed
  qed
qed


section \<open>Rules for the calls of both parties\<close>

abbreviation makes :: "(call \<Rightarrow> bool) \<Rightarrow> ('v world, 'a) io \<Rightarrow> bool" where
  "makes Q \<equiv> emits (\<lambda>e. Q (event_call e))"

lemma emits_subscribe_to [emits_rules]: "P (Done (CSubscribe i s)) \<Longrightarrow> emits P (subscribe_to E i s)"
  unfolding subscribe_to_def by (intro emits_rules) simp

lemma emits_get_raw_transaction [emits_rules]:
  "P (Done (CGetTx i)) \<Longrightarrow> P (Failed (CGetTx i)) \<Longrightarrow> P (Begun (CGetTx i)) \<Longrightarrow>
   emits P (get_raw_transaction E i)"
  unfolding get_raw_transaction_def by (intro emits_rules)

lemma emits_status_of_script [emits_rules]:
  "P (Done (CStatusOfScript i s)) \<Longrightarrow> P (Failed (CStatusOfScript i s)) \<Longrightarrow>
   P (Begun (CStatusOfScript i s)) \<Longrightarrow> emits P (status_of_script E i s)"
  unfolding status_of_script_def by (intro emits_rules)

lemma makes_broadcast [emits_rules]:
  "(\<And>i s. Q (CSubscribe i s)) \<Longrightarrow> Q (CBroadcast tx k) \<Longrightarrow> makes Q (broadcast E tx k)"
  unfolding broadcast_def Let_def by (intro emits_rules) simp_all

lemma fut_emits_wait [emits_rules]:
  "(\<And>k i. Q (CWait k i)) \<Longrightarrow> fut_emits (\<lambda>e. Q (event_call e)) (wait_until_final sub)"
  "(\<And>k i. Q (CWait k i)) \<Longrightarrow> fut_emits (\<lambda>e. Q (event_call e)) (wait_until_seen sub)"
  "(\<And>k i. Q (CWait k i)) \<Longrightarrow> fut_emits (\<lambda>e. Q (event_call e)) (wait_until_confirmed_with sub t)"
  unfolding wait_until_final_def wait_until_seen_def wait_until_confirmed_with_def
  by (intro emits_rules; simp)+

lemma fut_emits_watch_for_transfer [emits_rules]:
  "Q (CWatchForTransfer r) \<Longrightarrow> fut_emits (\<lambda>e. Q (event_call e)) (watch_for_transfer r)"
  unfolding watch_for_transfer_def by (intro emits_rules) simp_all

text \<open>
  \<open>waited E evs k p i sc\<close>: an await on the status of transaction \<open>i\<close> succeeded, and the environment
  reported a status that satisfies \<open>p\<close>.
\<close>

definition waited ::
  "'v env \<Rightarrow> event list \<Rightarrow> wait_kind \<Rightarrow> (script_status \<Rightarrow> bool) \<Rightarrow> txid \<Rightarrow> script \<Rightarrow> bool" where
  "waited E evs k p i sc \<longleftrightarrow> Done (CWait k i) \<in> set evs \<and>
     (\<exists>cs v. \<exists>s\<in>set (fst (e_polls E cs v)). p (sn_status s i sc))"

lemma waitedI:
  assumes "e_polls E cs v = (ss, v')" "Done (CWait k i) \<in> set evs" "s \<in> set ss" "p (sn_status s i sc)"
  shows "waited E evs k p i sc"
proof -
  have "s \<in> set (fst (e_polls E cs v))" using assms(1,3) by simp
  thus ?thesis unfolding waited_def using assms(2,4) by blast
qed

lemma select2_wait_Inl:
  assumes "select2 b (wait_until sub k p) g 0 0 ss = (Some (Inl (Ok ())), evs)"
    and "e_polls E cs v = (ss, v')"
  shows "waited E evs k p (sub_txid sub) (sub_script sub)"
  using select2_InlD[OF assms(1)] by (auto simp: wait_until_def split: if_splits intro!: waitedI[OF assms(2)])

lemma select2_wait_Inr:
  assumes "select2 b f (wait_until sub k p) 0 0 ss = (Some (Inr (Ok ())), evs)"
    and "e_polls E cs v = (ss, v')"
  shows "waited E evs k p (sub_txid sub) (sub_script sub)"
  using select2_InrD[OF assms(1)] by (auto simp: wait_until_def split: if_splits intro!: waitedI[OF assms(2)])

lemma waited_append [simp]:
  "waited E (xs @ ys) k p i sc \<longleftrightarrow> waited E xs k p i sc \<or> waited E ys k p i sc"
  by (auto simp: waited_def)

lemma waited_Cons [simp]:
  "waited E (Done (CSubscribe j t) # ys) k p i sc \<longleftrightarrow> waited E ys k p i sc"
  by (auto simp: waited_def)

lemma waited_weaken:
  "waited E xs k p i sc \<Longrightarrow> set xs \<subseteq> set ys \<Longrightarrow> waited E ys k p i sc"
  by (auto simp: waited_def)

end
