(* ===== verification/Swap_Machine.thy ===== *)
theory Swap_Machine
  imports Swap_Env
begin

text \<open>
  The contract between a swap's loop and its step function, shared by Alice and Bob: a step from a
  state in which the loop goes on leads to a state of smaller rank. From it follow, once for both
  parties, that the loop ends, that it ends in a state in which it stops, and that every property
  the steps keep holds at the end.
\<close>

text \<open>One turn of a loop: the step, then the state is stored.\<close>

definition step_and_save ::
  "('s \<Rightarrow> ('w, 's) io) \<Rightarrow> ('s \<Rightarrow> ('w, unit) io) \<Rightarrow> 's \<Rightarrow> ('w, 's) io" where
  "step_and_save next save s = bindio (next s) (\<lambda>s'. bindio (save s') (\<lambda>_. ret s'))"

lemma step_and_save_OkD:
  "step_and_save next save s w = (Ok s', w') \<Longrightarrow>
   \<exists>w1 u. next s w = (Ok s', w1) \<and> save s' w1 = (Ok u, w')"
  by (auto simp: step_and_save_def outcome_rules)

locale ranked_machine =
  fixes step :: "'s \<Rightarrow> ('w, 's) io"
    and stop :: "'s \<Rightarrow> bool"
    and rank :: "'s \<Rightarrow> nat"
    and run :: "'s \<Rightarrow> 'w \<Rightarrow> ('s outcome \<times> 'w) option"
  assumes step_rank: "\<not> stop s \<Longrightarrow> step s w = (Ok s', w') \<Longrightarrow> rank s' < rank s"
    and run_unfold: "run s w =
      (if stop s then Some (Ok s, w)
       else case step s w of
         (Ok s', w') \<Rightarrow> run s' w'
       | (Err e, w') \<Rightarrow> Some (Err e, w')
       | (Panic p, w') \<Rightarrow> Some (Panic p, w')
       | (Pending, w') \<Rightarrow> Some (Pending, w'))"
begin

lemma run_returns: "\<exists>r w'. run s w = Some (r, w')"
proof (induction "rank s" arbitrary: s w rule: less_induct)
  case less
  show ?case
  proof (cases "stop s")
    case False
    obtain r w1 where s: "step s w = (r, w1)" by fastforce
    show ?thesis
    proof (cases r)
      case (Ok s')
      thus ?thesis
        using less[of s' w1] step_rank[OF False, of w s' w1] s False run_unfold[of s w] by auto
    qed (use s False run_unfold[of s w] in auto)
  qed (use run_unfold[of s w] in auto)
qed

text \<open>Induction over the steps of a run that returns a state.\<close>

lemma run_induct [consumes 1, case_names stop step]:
  assumes "run s w = Some (Ok s', w')"
    and "\<And>s w. stop s \<Longrightarrow> P s w s w"
    and "\<And>s w s1 w1 s' w'. \<not> stop s \<Longrightarrow> step s w = (Ok s1, w1) \<Longrightarrow> run s1 w1 = Some (Ok s', w') \<Longrightarrow>
       P s1 w1 s' w' \<Longrightarrow> P s w s' w'"
  shows "P s w s' w'"
  using assms(1)
proof (induction "rank s" arbitrary: s w rule: less_induct)
  case less
  show ?case
  proof (cases "stop s")
    case True
    thus ?thesis using less.prems run_unfold[of s w] assms(2) by auto
  next
    case False
    obtain r w1 where s: "step s w = (r, w1)" by fastforce
    then obtain s1 where s1: "r = Ok s1" "run s1 w1 = Some (Ok s', w')"
      using less.prems False run_unfold[of s w] by (cases r) auto
    hence "P s1 w1 s' w'"
      using less.hyps[of s1 w1] step_rank[OF False, of w s1 w1] s by blast
    thus ?thesis using assms(3)[OF False, of w s1 w1] s s1 by blast
  qed
qed

text \<open>Induction over the steps of a run however it ends.\<close>

lemma run_any_induct [consumes 1, case_names stop fail step]:
  assumes "run s w = Some (r, w')"
    and "\<And>s w. stop s \<Longrightarrow> P s w (Ok s) w"
    and "\<And>s w r w'. \<not> stop s \<Longrightarrow> step s w = (r, w') \<Longrightarrow> P s w r w'"
    and "\<And>s w s1 w1 r w'. \<not> stop s \<Longrightarrow> step s w = (Ok s1, w1) \<Longrightarrow> run s1 w1 = Some (r, w') \<Longrightarrow>
       P s1 w1 r w' \<Longrightarrow> P s w r w'"
  shows "P s w r w'"
  using assms(1)
proof (induction "rank s" arbitrary: s w rule: less_induct)
  case less
  show ?case
  proof (cases "stop s")
    case True
    thus ?thesis using less.prems run_unfold[of s w] assms(2) by auto
  next
    case False
    obtain r1 w1 where s: "step s w = (r1, w1)" by fastforce
    show ?thesis
    proof (cases r1)
      case (Ok s1)
      have run1: "run s1 w1 = Some (r, w')"
        using less.prems False run_unfold[of s w] s Ok by simp
      hence "P s1 w1 r w'"
        using less.hyps[of s1 w1] step_rank[OF False, of w s1 w1] s Ok by blast
      thus ?thesis using assms(4)[OF False, of w s1 w1] s Ok run1 by blast
    qed (use less.prems run_unfold[of s w] False s assms(3)[OF False s] in auto)
  qed
qed

lemma run_stops: "run s w = Some (Ok s', w') \<Longrightarrow> stop s'"
  by (induction rule: run_induct) auto

lemma run_preserves:
  assumes "run s w = Some (Ok s', w')" and "I s w"
    and "\<And>s w s' w'. I s w \<Longrightarrow> \<not> stop s \<Longrightarrow> step s w = (Ok s', w') \<Longrightarrow> I s' w'"
  shows "I s' w'"
  using assms(1,2) by (induction rule: run_induct) (auto intro: assms(3))

lemma run_stopped: "stop s \<Longrightarrow> run s w = Some (Ok s, w)"
  using run_unfold[of s w] by simp

lemma run_rank: "run s w = Some (Ok s', w') \<Longrightarrow> rank s' \<le> rank s"
  by (induction rule: run_induct) (auto dest: step_rank)

end

section \<open>What is stored\<close>

definition stored_state :: "event \<Rightarrow> swap_state option" where
  "stored_state e = (case e of Done (CInsertLatestState _ s) \<Rightarrow> Some s | _ \<Rightarrow> None)"

text \<open>The states that a run has stored, in order.\<close>

definition stored :: "event list \<Rightarrow> swap_state list" where
  "stored evs = List.map_filter stored_state evs"

lemma stored_append [simp]: "stored (xs @ ys) = stored xs @ stored ys"
  by (induction xs) (auto simp: stored_def List.map_filter_simps split: option.splits)

lemma stored_Nil [simp]: "stored [] = []"
  by (simp add: stored_def List.map_filter_simps)

lemma stored_saved [simp]:
  "stored [Done (CInsertLatestState i s)] = [s]" "stored [Failed c] = []" "stored [Begun c] = []"
  by (simp_all add: stored_def stored_state_def List.map_filter_simps)

lemma stored_none: "list_all (\<lambda>e. \<not> (\<exists>i s. event_call e = CInsertLatestState i s)) evs \<Longrightarrow> stored evs = []"
  by (induction evs)
    (auto simp: stored_def stored_state_def List.map_filter_simps split: event.splits call.splits)

lemma step_and_save_stored:
  assumes "makes Q (next s)" "\<And>u x. \<not> Q (CInsertLatestState u x)"
    and "step_and_save next (\<lambda>s. insert_latest_state E i (f s)) s w = (r, w')"
  shows "\<exists>evs. w_log w' = w_log w @ evs \<and> stored evs = (case r of Ok s' \<Rightarrow> [f s'] | _ \<Rightarrow> [])"
proof -
  obtain r1 w1 where n: "next s w = (r1, w1)" by fastforce
  obtain e1 where e1: "w_log w1 = w_log w @ e1" "list_all (\<lambda>e. Q (event_call e)) e1"
    using logsD[OF assms(1) n] by blast
  have "stored e1 = []"
    using e1(2) assms(2) by (intro stored_none) (auto simp: list_all_iff)
  show ?thesis
  proof (cases r1)
    case (Ok s')
    obtain r2 v2 where p: "e_insert_latest_state E i (f s') (w_ext w1) = (r2, v2)" by fastforce
    show ?thesis
      using assms(3) n Ok p e1(1) \<open>stored e1 = []\<close>
      by (cases r2) (auto simp: step_and_save_def bindio_def insert_latest_state_def perform_def)
  qed (use assms(3) n e1(1) \<open>stored e1 = []\<close> in
      \<open>auto simp: step_and_save_def bindio_def intro!: exI[of _ e1]\<close>)
qed

section \<open>How often a kind of event occurs\<close>

definition occurrences :: "(event \<Rightarrow> bool) \<Rightarrow> event list \<Rightarrow> nat" where
  "occurrences P evs = length (filter P evs)"

lemma occurrences_append [simp]: "occurrences P (xs @ ys) = occurrences P xs + occurrences P ys"
  by (simp add: occurrences_def)

lemma occurrences_Nil [simp]: "occurrences P [] = 0"
  by (simp add: occurrences_def)

lemma occurrences_none: "list_all (\<lambda>e. \<not> P e) evs \<Longrightarrow> occurrences P evs = 0"
  by (induction evs) (auto simp: occurrences_def)

definition at_most :: "(event \<Rightarrow> bool) \<Rightarrow> nat \<Rightarrow> ('v world, 'a) io \<Rightarrow> bool" where
  "at_most P n m \<longleftrightarrow> logs (\<lambda>evs. occurrences P evs \<le> n) m"

lemma at_most_weaken: "at_most P n m \<Longrightarrow> n \<le> k \<Longrightarrow> at_most P k m"
  unfolding at_most_def logs_def by (meson le_trans)

lemma at_most_bindio:
  assumes "at_most P m f" "\<And>x. at_most P n (g x)"
  shows "at_most P (m + n) (bindio f g)"
  unfolding at_most_def logs_def
proof
  fix w
  obtain r w1 where f: "f w = (r, w1)" by fastforce
  obtain e1 where e1: "w_log w1 = w_log w @ e1" "occurrences P e1 \<le> m"
    using logsD[OF assms(1)[unfolded at_most_def] f] by blast
  show "\<exists>evs. w_log (snd (bindio f g w)) = w_log w @ evs \<and> occurrences P evs \<le> m + n"
  proof (cases r)
    case (Ok x)
    obtain e2 where "w_log (snd (g x w1)) = w_log w1 @ e2" "occurrences P e2 \<le> n"
      using assms(2)[of x] unfolding at_most_def logs_def by blast
    thus ?thesis using e1 Ok f by (intro exI[of _ "e1 @ e2"]) (auto simp: bindio_def)
  qed (use e1 f in \<open>auto simp: bindio_def intro!: exI[of _ e1]\<close>)
qed

lemma at_most_none: "emits (\<lambda>e. \<not> P e) m \<Longrightarrow> at_most P 0 m"
  unfolding at_most_def logs_def by (metis occurrences_none le_refl)

lemma at_most_perform: "at_most P 1 (perform c f)"
  unfolding at_most_def logs_def perform_def occurrences_def by (auto split: prod.splits)

lemma at_most_bindio_first: "at_most P n f \<Longrightarrow> (\<And>x. at_most P 0 (g x)) \<Longrightarrow> at_most P n (bindio f g)"
  using at_most_bindio[of P n f 0 g] by simp

lemma at_most_bindio_second: "at_most P 0 f \<Longrightarrow> (\<And>x. at_most P n (g x)) \<Longrightarrow> at_most P n (bindio f g)"
  using at_most_bindio[of P 0 f n g] by simp

lemma at_most_context_io: "at_most P n m \<Longrightarrow> at_most P n (context_io c m)"
  by (simp add: at_most_def logs_def)

lemma at_most_pure: "at_most P 0 (ret x)" "at_most P 0 (lift m)"
  by (simp_all add: at_most_def logs_def)

lemma at_mostD: "at_most P n m \<Longrightarrow> m w = (r, w') \<Longrightarrow> \<exists>evs. w_log w' = w_log w @ evs \<and> occurrences P evs \<le> n"
  unfolding at_most_def using logsD by blast

end
