(* ===== verification/Alice_Swap.thy ===== *)
theory Alice_Swap
  imports Swap_Machine
begin

text \<open>
  \<open>protocol/alice/swap.rs\<close> and the methods of \<open>protocol/alice/state.rs\<close> that use a wallet: one
  definition per state of \<open>next_state\<close>, and the loop \<open>run_until\<close>, which stores every new state.
  \<open>rate_service.latest_rate()\<close> is only logged and has no part in the model.
\<close>

section \<open>Methods of State3 that use a wallet\<close>

definition alice_expired_timelocks :: "'v env \<Rightarrow> alice_state3 \<Rightarrow> ('v world, expired_timelocks) io" where
  "alice_expired_timelocks E st =
     (let L = e_lib E in
      bindio (lift (alice_tx_cancel L st)) (\<lambda>c.
      bindio (status_of_script E (tx_lock_txid L (a3_tx_lock st)) (tx_lock_script_pubkey L (a3_tx_lock st))) (\<lambda>tx_lock_status.
      bindio (status_of_script E (tx_cancel_txid L c) (tx_cancel_script L c)) (\<lambda>tx_cancel_status.
      ret (current_epoch (a3_cancel_timelock st) (a3_punish_timelock st) tx_lock_status tx_cancel_status)))))"

definition alice_check_for_tx_cancel :: "'v env \<Rightarrow> alice_state3 \<Rightarrow> ('v world, transaction) io" where
  "alice_check_for_tx_cancel E st =
     bindio (lift (alice_tx_cancel (e_lib E) st)) (\<lambda>c. get_raw_transaction E (tx_cancel_txid (e_lib E) c))"

definition alice_fetch_tx_refund :: "'v env \<Rightarrow> alice_state3 \<Rightarrow> ('v world, transaction) io" where
  "alice_fetch_tx_refund E st =
     bindio (lift (alice_tx_refund (e_lib E) st)) (\<lambda>r. get_raw_transaction E (tx_refund_txid (e_lib E) r))"

definition alice_submit_tx_cancel :: "'v env \<Rightarrow> alice_state3 \<Rightarrow> ('v world, txid) io" where
  "alice_submit_tx_cancel E st =
     bindio (lift (alice_signed_cancel_transaction (e_lib E) st)) (\<lambda>tx.
     bindio (broadcast E tx ''cancel'') (\<lambda>(i, _). ret i))"

definition alice_refund_bdx ::
  "'v env \<Rightarrow> alice_state3 \<Rightarrow> bdx_height \<Rightarrow> string \<Rightarrow> private_key \<Rightarrow> transfer_proof \<Rightarrow> ('v world, unit) io" where
  "alice_refund_bdx E st restore_height file_name spend_key proof =
     bindio (lift (alice_lock_bdx_watch_request (e_lib E) st proof 10)) (\<lambda>req.
     bindio (await_io E [CWatchForTransfer req] (watch_for_transfer req)) (\<lambda>_.
     bindio (perform (CCreateFrom file_name spend_key (a3_v st) restore_height)
               (e_create_from E file_name spend_key (a3_v st) restore_height)) (\<lambda>_.
     ret ())))"

definition alice_punish_btc :: "'v env \<Rightarrow> alice_state3 \<Rightarrow> ('v world, txid) io" where
  "alice_punish_btc E st =
     bindio (lift (alice_signed_punish_transaction (e_lib E) st)) (\<lambda>tx.
     bindio (broadcast E tx ''punish'') (\<lambda>(i, sub).
     bindio (await_io E [CWait UntilFinal i] (wait_until_final sub)) (\<lambda>_.
     ret i)))"

section \<open>The handle of the event loop\<close>

text \<open>
  The handle's two channels are \<open>Option\<close>s that are taken when a call on them begins, so each works
  once in a run: a channel is there as long as the log of the run has no call on it.
\<close>

definition proof_sender_available :: "'v world \<Rightarrow> bool" where
  "proof_sender_available w =
     (\<not> list_ex (\<lambda>e. case e of Begun (CSendTransferProof _) \<Rightarrow> True | _ \<Rightarrow> False) (w_log w))"

definition encsig_receiver_available :: "'v world \<Rightarrow> bool" where
  "encsig_receiver_available w =
     (\<not> list_ex (\<lambda>e. case e of Begun CRecvEncSig \<Rightarrow> True | _ \<Rightarrow> False) (w_log w))"

definition send_transfer_proof :: "bool \<Rightarrow> transfer_proof \<Rightarrow> unit fut" where
  "send_transfer_proof available proof = (\<lambda>s st.
     if st = 0 \<and> \<not> available
     then (Some (Err (Msg ''Transfer proof was already sent'')), 1, [])
     else call_fut (CSendTransferProof proof)
            (\<lambda>s. map_option (with_context ''Failed to send transfer proof'') (sn_proof_ack s)) s st)"

definition recv_encrypted_signature :: "bool \<Rightarrow> encsig fut" where
  "recv_encrypted_signature available = (\<lambda>s st.
     if st = 0 \<and> \<not> available
     then (Some (Err (Msg ''Encrypted signature was already received'')), 1, [])
     else call_fut CRecvEncSig
            (\<lambda>s. map_option (\<lambda>r. obind r (\<lambda>tx_redeem_encsig.
               obind (with_context ''Failed to acknowledge receipt of encrypted signature'' (sn_respond s)) (\<lambda>_.
               Ok tx_redeem_encsig))) (sn_encsig s)) s st)"

section \<open>The arms of next_state\<close>

definition subscribe_to_lock :: "'v env \<Rightarrow> alice_state3 \<Rightarrow> ('v world, subscription) io" where
  "subscribe_to_lock E st =
     subscribe_to E (tx_lock_txid (e_lib E) (a3_tx_lock st)) (tx_lock_script_pubkey (e_lib E) (a3_tx_lock st))"

definition alice_started :: "'v env \<Rightarrow> alice_state3 \<Rightarrow> ('v world, alice_state) io" where
  "alice_started E st =
     bindio (subscribe_to_lock E st) (\<lambda>sub.
     bindio (timeout_io E [CWait UntilSeen (sub_txid sub)] (wait_until_seen sub)) (\<lambda>r.
     case r of
       None \<Rightarrow> ret ASafelyAborted
     | Some res \<Rightarrow> bindio (lift res) (\<lambda>_. ret (ABtcLockTransactionSeen st))))"

definition alice_btc_lock_transaction_seen :: "'v env \<Rightarrow> alice_state3 \<Rightarrow> ('v world, alice_state) io" where
  "alice_btc_lock_transaction_seen E st =
     bindio (subscribe_to_lock E st) (\<lambda>sub.
     bindio (timeout_io E [CWait UntilFinal (sub_txid sub)] (wait_until_final sub)) (\<lambda>r.
     case r of
       None \<Rightarrow> ret ASafelyAborted
     | Some res \<Rightarrow> bindio (lift res) (\<lambda>_. ret (ABtcLocked st))))"

definition alice_btc_locked :: "'v env \<Rightarrow> alice_state3 \<Rightarrow> ('v world, alice_state) io" where
  "alice_btc_locked E st =
     bindio (alice_expired_timelocks E st) (\<lambda>t.
     case t of
       NoneExpired _ \<Rightarrow>
         bindio (perform CBlockHeight (e_block_height E)) (\<lambda>h.
         bindio (lift (alice_lock_bdx_transfer_request (e_lib E) st)) (\<lambda>req.
         bindio (perform (CTransfer req) (e_transfer E req)) (\<lambda>proof.
         ret (ABeldexLockTransactionSent h proof st))))
     | _ \<Rightarrow> ret ASafelyAborted)"

definition alice_beldex_lock_transaction_sent ::
  "'v env \<Rightarrow> bdx_height \<Rightarrow> transfer_proof \<Rightarrow> alice_state3 \<Rightarrow> ('v world, alice_state) io" where
  "alice_beldex_lock_transaction_sent E h proof st =
     bindio (alice_expired_timelocks E st) (\<lambda>t.
     case t of
       NoneExpired _ \<Rightarrow>
         bindio (lift (alice_lock_bdx_watch_request (e_lib E) st proof 1)) (\<lambda>req.
         bindio (context_io ''Failed to watch for transfer of BDX in transaction''
                   (await_io E [CWatchForTransfer req] (watch_for_transfer req))) (\<lambda>_.
         ret (ABeldexLocked h proof st)))
     | _ \<Rightarrow> ret (ACancelTimelockExpired h proof st))"

definition alice_beldex_locked ::
  "'v env \<Rightarrow> bdx_height \<Rightarrow> transfer_proof \<Rightarrow> alice_state3 \<Rightarrow> ('v world, alice_state) io" where
  "alice_beldex_locked E h proof st =
     bindio (subscribe_to_lock E st) (\<lambda>sub.
     with_world (\<lambda>w. select_io E [CSendTransferProof proof, CWait (UntilConfirmedWith (cancel_u32 (a3_cancel_timelock st))) (sub_txid sub)]
        False
        (send_transfer_proof (proof_sender_available w) proof)
        (wait_until_confirmed_with sub (cancel_u32 (a3_cancel_timelock st)))
        (\<lambda>result. bindio (lift result) (\<lambda>_. ret (ABeldexLockTransferProofSent h proof st)))
        (\<lambda>result. bindio (lift result) (\<lambda>_. ret (ACancelTimelockExpired h proof st)))))"

definition alice_beldex_lock_transfer_proof_sent ::
  "'v env \<Rightarrow> bdx_height \<Rightarrow> transfer_proof \<Rightarrow> alice_state3 \<Rightarrow> ('v world, alice_state) io" where
  "alice_beldex_lock_transfer_proof_sent E h proof st =
     bindio (subscribe_to_lock E st) (\<lambda>sub.
     with_world (\<lambda>w. select_io E [CWait (UntilConfirmedWith (cancel_u32 (a3_cancel_timelock st))) (sub_txid sub), CRecvEncSig]
        True
        (wait_until_confirmed_with sub (cancel_u32 (a3_cancel_timelock st)))
        (recv_encrypted_signature (encsig_receiver_available w))
        (\<lambda>result. bindio (lift result) (\<lambda>_. ret (ACancelTimelockExpired h proof st)))
        (\<lambda>enc_sig. bindio (lift enc_sig) (\<lambda>es. ret (AEncSigLearned h proof es st)))))"

definition alice_wait_cancel_timelock ::
  "'v env \<Rightarrow> subscription \<Rightarrow> bdx_height \<Rightarrow> transfer_proof \<Rightarrow> alice_state3 \<Rightarrow> ('v world, alice_state) io" where
  "alice_wait_cancel_timelock E sub h proof st =
     (let target = cancel_u32 (a3_cancel_timelock st) in
      bindio (await_io E [CWait (UntilConfirmedWith target) (sub_txid sub)]
                (wait_until_confirmed_with sub target)) (\<lambda>_.
      ret (ACancelTimelockExpired h proof st)))"

definition alice_publish_redeem ::
  "'v env \<Rightarrow> transaction \<Rightarrow> subscription \<Rightarrow> bdx_height \<Rightarrow> transfer_proof \<Rightarrow> alice_state3 \<Rightarrow>
   ('v world, alice_state) io" where
  "alice_publish_redeem E tx tx_lock_sub h proof st =
     bindio (attempt (broadcast E tx ''redeem'')) (\<lambda>sent.
     case sent of
       Inr (i, sub) \<Rightarrow>
         bindio (attempt (await_io E [CWait UntilSeen i] (wait_until_seen sub))) (\<lambda>seen.
         case seen of
           Inr _ \<Rightarrow> ret (ABtcRedeemTransactionPublished st)
         | Inl e \<Rightarrow> lift (Err (Msg ''Waiting for Bitcoin redeem transaction to be in mempool failed'')))
     | Inl error \<Rightarrow> alice_wait_cancel_timelock E tx_lock_sub h proof st)"

definition alice_enc_sig_learned ::
  "'v env \<Rightarrow> bdx_height \<Rightarrow> transfer_proof \<Rightarrow> encsig \<Rightarrow> alice_state3 \<Rightarrow> ('v world, alice_state) io" where
  "alice_enc_sig_learned E h proof es st =
     bindio (alice_expired_timelocks E st) (\<lambda>t.
     case t of
       NoneExpired _ \<Rightarrow>
         bindio (subscribe_to_lock E st) (\<lambda>tx_lock_sub.
         bindio (attempt (lift (alice_signed_redeem_transaction (e_lib E) st es))) (\<lambda>signed.
         case signed of
           Inr tx \<Rightarrow> alice_publish_redeem E tx tx_lock_sub h proof st
         | Inl error \<Rightarrow> alice_wait_cancel_timelock E tx_lock_sub h proof st))
     | _ \<Rightarrow> ret (ACancelTimelockExpired h proof st))"

definition alice_btc_redeem_transaction_published ::
  "'v env \<Rightarrow> alice_state3 \<Rightarrow> ('v world, alice_state) io" where
  "alice_btc_redeem_transaction_published E st =
     bindio (lift (alice_tx_redeem (e_lib E) st)) (\<lambda>r.
     bindio (subscribe_to E (tx_redeem_txid (e_lib E) r) (td_watch_script r)) (\<lambda>sub.
     bindio (attempt (await_io E [CWait UntilFinal (sub_txid sub)] (wait_until_final sub))) (\<lambda>res.
     case res of
       Inr _ \<Rightarrow> ret ABtcRedeemed
     | Inl e \<Rightarrow> lift (Err (Msg ''The Bitcoin redeem transaction was seen in mempool, but waiting for finality timed out'')))))"

definition alice_cancel_timelock_expired ::
  "'v env \<Rightarrow> bdx_height \<Rightarrow> transfer_proof \<Rightarrow> alice_state3 \<Rightarrow> ('v world, alice_state) io" where
  "alice_cancel_timelock_expired E h proof st =
     bindio (attempt (alice_check_for_tx_cancel E st)) (\<lambda>found.
     bindio (case found of
               Inr _ \<Rightarrow> ret ()
             | Inl _ \<Rightarrow> bindio (attempt (alice_submit_tx_cancel E st)) (\<lambda>_. ret ())) (\<lambda>_.
     ret (ABtcCancelled h proof st)))"

definition alice_learn_spend_key ::
  "'v env \<Rightarrow> bdx_height \<Rightarrow> transfer_proof \<Rightarrow> alice_state3 \<Rightarrow> ('v world, alice_state) io" where
  "alice_learn_spend_key E h proof st =
     bindio (lift (alice_tx_refund (e_lib E) st)) (\<lambda>r.
     bindio (get_raw_transaction E (tx_refund_txid (e_lib E) r)) (\<lambda>published.
     bindio (lift (alice_extract_beldex_private_key (e_lib E) st published)) (\<lambda>spend_key.
     ret (ABtcRefunded h proof spend_key st))))"

definition alice_btc_cancelled ::
  "'v env \<Rightarrow> bdx_height \<Rightarrow> transfer_proof \<Rightarrow> alice_state3 \<Rightarrow> ('v world, alice_state) io" where
  "alice_btc_cancelled E h proof st =
     (let L = e_lib E; target = punish_u32 (a3_punish_timelock st) in
      bindio (lift (alice_tx_refund L st)) (\<lambda>r.
      bindio (subscribe_to E (tx_refund_txid L r) (tr_watch_script r)) (\<lambda>refund_sub.
      bindio (lift (alice_tx_cancel L st)) (\<lambda>c.
      bindio (subscribe_to E (tx_cancel_txid L c) (tx_cancel_script L c)) (\<lambda>cancel_sub.
      select_io E [CWait UntilSeen (sub_txid refund_sub), CWait (UntilConfirmedWith target) (sub_txid cancel_sub)]
        False
        (wait_until_seen refund_sub)
        (wait_until_confirmed_with cancel_sub target)
        (\<lambda>seen_refund. bindio (lift (with_context ''Failed to monitor refund transaction'' seen_refund)) (\<lambda>_.
           alice_learn_spend_key E h proof st))
        (\<lambda>result. bindio (lift result) (\<lambda>_. ret (ABtcPunishable h proof st))))))))"

definition alice_btc_refunded ::
  "'v env \<Rightarrow> uuid \<Rightarrow> bdx_height \<Rightarrow> transfer_proof \<Rightarrow> private_key \<Rightarrow> alice_state3 \<Rightarrow> ('v world, alice_state) io" where
  "alice_btc_refunded E swap_id h proof spend_key st =
     bindio (alice_refund_bdx E st h (e_uuid_to_string E swap_id) spend_key proof) (\<lambda>_.
     ret ABeldexRefunded)"

definition alice_btc_punishable ::
  "'v env \<Rightarrow> bdx_height \<Rightarrow> transfer_proof \<Rightarrow> alice_state3 \<Rightarrow> ('v world, alice_state) io" where
  "alice_btc_punishable E h proof st =
     bindio (attempt (alice_punish_btc E st)) (\<lambda>punish.
     case punish of
       Inr _ \<Rightarrow> ret (ABtcPunished st)
     | Inl error \<Rightarrow> alice_learn_spend_key E h proof st)"

section \<open>The loop\<close>

definition alice_next_state :: "'v env \<Rightarrow> uuid \<Rightarrow> alice_state \<Rightarrow> ('v world, alice_state) io" where
  "alice_next_state E swap_id state = (case state of
     AStarted st \<Rightarrow> alice_started E st
   | ABtcLockTransactionSeen st \<Rightarrow> alice_btc_lock_transaction_seen E st
   | ABtcLocked st \<Rightarrow> alice_btc_locked E st
   | ABeldexLockTransactionSent h proof st \<Rightarrow> alice_beldex_lock_transaction_sent E h proof st
   | ABeldexLocked h proof st \<Rightarrow> alice_beldex_locked E h proof st
   | ABeldexLockTransferProofSent h proof st \<Rightarrow> alice_beldex_lock_transfer_proof_sent E h proof st
   | AEncSigLearned h proof es st \<Rightarrow> alice_enc_sig_learned E h proof es st
   | ABtcRedeemTransactionPublished st \<Rightarrow> alice_btc_redeem_transaction_published E st
   | ACancelTimelockExpired h proof st \<Rightarrow> alice_cancel_timelock_expired E h proof st
   | ABtcCancelled h proof st \<Rightarrow> alice_btc_cancelled E h proof st
   | ABtcRefunded h proof spend_key st \<Rightarrow> alice_btc_refunded E swap_id h proof spend_key st
   | ABtcPunishable h proof st \<Rightarrow> alice_btc_punishable E h proof st
   | ABeldexRefunded \<Rightarrow> ret ABeldexRefunded
   | ABtcRedeemed \<Rightarrow> ret ABtcRedeemed
   | ABtcPunished st \<Rightarrow> ret (ABtcPunished st)
   | ASafelyAborted \<Rightarrow> ret ASafelyAborted)"

definition alice_step :: "'v env \<Rightarrow> uuid \<Rightarrow> alice_state \<Rightarrow> ('v world, alice_state) io" where
  "alice_step E swap_id =
     step_and_save (alice_next_state E swap_id) (\<lambda>s. insert_latest_state E swap_id (SAlice s))"

partial_function (option) alice_run_until ::
  "'v env \<Rightarrow> uuid \<Rightarrow> (alice_state \<Rightarrow> bool) \<Rightarrow> alice_state \<Rightarrow> 'v world \<Rightarrow>
   (alice_state outcome \<times> 'v world) option" where
  "alice_run_until E swap_id exit_early s w =
     (if alice_is_complete s \<or> exit_early s then Some (Ok s, w)
      else case alice_step E swap_id s w of
        (Ok s', w') \<Rightarrow> alice_run_until E swap_id exit_early s' w'
      | (Err e, w') \<Rightarrow> Some (Err e, w')
      | (Panic p, w') \<Rightarrow> Some (Panic p, w')
      | (Pending, w') \<Rightarrow> Some (Pending, w'))"

definition alice_run ::
  "'v env \<Rightarrow> uuid \<Rightarrow> alice_state \<Rightarrow> 'v world \<Rightarrow> (alice_state outcome \<times> 'v world) option" where
  "alice_run E swap_id = alice_run_until E swap_id (\<lambda>_. False)"

end
