(* ===== verification/Alice_Machine.thy ===== *)
theory Alice_Machine
  imports Alice_Swap
begin

text \<open>
  Alice's swap as a state machine: the abstract transition relation \<open>alice_edge\<close>, which
  \<open>next_state\<close> refines, the interpretation of the loop's contract on it, and what follows for every
  run: termination, the possible ends, and the single transfer of her Beldex.
\<close>

section \<open>The abstract machine\<close>

text \<open>Which state can follow which; every edge carries the swap's data over unchanged.\<close>

inductive alice_edge :: "alice_state \<Rightarrow> alice_state \<Rightarrow> bool" where
  lock_seen: "alice_edge (AStarted st) (ABtcLockTransactionSeen st)"
| abort_mempool: "alice_edge (AStarted st) ASafelyAborted"
| locked: "alice_edge (ABtcLockTransactionSeen st) (ABtcLocked st)"
| abort_unconfirmed: "alice_edge (ABtcLockTransactionSeen st) ASafelyAborted"
| transfer: "alice_edge (ABtcLocked st) (ABeldexLockTransactionSent h p st)"
| abort_expired: "alice_edge (ABtcLocked st) ASafelyAborted"
| bdx_locked: "alice_edge (ABeldexLockTransactionSent h p st) (ABeldexLocked h p st)"
| cancel_sent: "alice_edge (ABeldexLockTransactionSent h p st) (ACancelTimelockExpired h p st)"
| proof_sent: "alice_edge (ABeldexLocked h p st) (ABeldexLockTransferProofSent h p st)"
| cancel_locked: "alice_edge (ABeldexLocked h p st) (ACancelTimelockExpired h p st)"
| encsig: "alice_edge (ABeldexLockTransferProofSent h p st) (AEncSigLearned h p es st)"
| cancel_proof: "alice_edge (ABeldexLockTransferProofSent h p st) (ACancelTimelockExpired h p st)"
| redeem: "alice_edge (AEncSigLearned h p es st) (ABtcRedeemTransactionPublished st)"
| cancel_encsig: "alice_edge (AEncSigLearned h p es st) (ACancelTimelockExpired h p st)"
| redeemed: "alice_edge (ABtcRedeemTransactionPublished st) ABtcRedeemed"
| cancelled: "alice_edge (ACancelTimelockExpired h p st) (ABtcCancelled h p st)"
| refund: "alice_edge (ABtcCancelled h p st) (ABtcRefunded h p k st)"
| punishable: "alice_edge (ABtcCancelled h p st) (ABtcPunishable h p st)"
| bdx_refunded: "alice_edge (ABtcRefunded h p k st) ABeldexRefunded"
| punished: "alice_edge (ABtcPunishable h p st) (ABtcPunished st)"
| refund_instead: "alice_edge (ABtcPunishable h p st) (ABtcRefunded h p k st)"

inductive_cases alice_edge_fromE [elim!]:
  "alice_edge (AStarted st) s'" "alice_edge (ABtcLockTransactionSeen st) s'"
  "alice_edge (ABtcLocked st) s'" "alice_edge (ABeldexLockTransactionSent h p st) s'"
  "alice_edge (ABeldexLocked h p st) s'" "alice_edge (ABeldexLockTransferProofSent h p st) s'"
  "alice_edge (AEncSigLearned h p es st) s'" "alice_edge (ABtcRedeemTransactionPublished st) s'"
  "alice_edge (ACancelTimelockExpired h p st) s'" "alice_edge (ABtcCancelled h p st) s'"
  "alice_edge (ABtcRefunded h p k st) s'" "alice_edge (ABtcPunishable h p st) s'"
  "alice_edge ABtcRedeemed s'" "alice_edge ABeldexRefunded s'" "alice_edge (ABtcPunished st) s'"
  "alice_edge ASafelyAborted s'"

inductive_simps alice_edge_to_simps:
  "alice_edge s ABtcRedeemed" "alice_edge s ASafelyAborted" "alice_edge s ABeldexRefunded"
  "alice_edge s (ABtcPunished st)" "alice_edge s (ABtcRefunded h p k st)"
  "alice_edge s (AEncSigLearned h p es st)"

definition alice_rank :: "alice_state \<Rightarrow> nat" where
  "alice_rank s = (case s of
     AStarted _ \<Rightarrow> 12
   | ABtcLockTransactionSeen _ \<Rightarrow> 11
   | ABtcLocked _ \<Rightarrow> 10
   | ABeldexLockTransactionSent _ _ _ \<Rightarrow> 9
   | ABeldexLocked _ _ _ \<Rightarrow> 8
   | ABeldexLockTransferProofSent _ _ _ \<Rightarrow> 7
   | AEncSigLearned _ _ _ _ \<Rightarrow> 6
   | ABtcRedeemTransactionPublished _ \<Rightarrow> 5
   | ACancelTimelockExpired _ _ _ \<Rightarrow> 4
   | ABtcCancelled _ _ _ \<Rightarrow> 3
   | ABtcPunishable _ _ _ \<Rightarrow> 2
   | ABtcRefunded _ _ _ _ \<Rightarrow> 1
   | _ \<Rightarrow> 0)"

lemma alice_edge_rank: "alice_edge s s' \<Longrightarrow> alice_rank s' < alice_rank s"
  by (induction rule: alice_edge.induct) (simp_all add: alice_rank_def)

lemma alice_edge_not_complete: "alice_edge s s' \<Longrightarrow> \<not> alice_is_complete s"
  by (induction rule: alice_edge.induct) (simp_all add: alice_is_complete_def)

section \<open>next_state refines the abstract machine\<close>

lemma alice_started_edge: "returns (alice_edge (AStarted st)) (alice_started E st)"
  unfolding alice_started_def
  by (intro returns_rules) (auto intro!: returns_rules alice_edge.intros split: option.split)

lemma alice_btc_lock_transaction_seen_edge:
  "returns (alice_edge (ABtcLockTransactionSeen st)) (alice_btc_lock_transaction_seen E st)"
  unfolding alice_btc_lock_transaction_seen_def
  by (intro returns_rules) (auto intro!: returns_rules alice_edge.intros split: option.split)

lemma alice_btc_locked_edge: "returns (alice_edge (ABtcLocked st)) (alice_btc_locked E st)"
  unfolding alice_btc_locked_def
  by (intro returns_rules) (auto intro!: returns_rules alice_edge.intros split: expired_timelocks.split)

lemma alice_beldex_lock_transaction_sent_edge:
  "returns (alice_edge (ABeldexLockTransactionSent h p st)) (alice_beldex_lock_transaction_sent E h p st)"
  unfolding alice_beldex_lock_transaction_sent_def
  by (intro returns_rules) (auto intro!: returns_rules alice_edge.intros split: expired_timelocks.split)

lemma alice_beldex_locked_edge:
  "returns (alice_edge (ABeldexLocked h p st)) (alice_beldex_locked E h p st)"
  unfolding alice_beldex_locked_def
  by (auto intro!: returns_rules alice_edge.intros simp del: lift_apply)

lemma alice_beldex_lock_transfer_proof_sent_edge:
  "returns (alice_edge (ABeldexLockTransferProofSent h p st)) (alice_beldex_lock_transfer_proof_sent E h p st)"
  unfolding alice_beldex_lock_transfer_proof_sent_def
  by (auto intro!: returns_rules alice_edge.intros simp del: lift_apply)

lemma alice_wait_cancel_timelock_returns [returns_rules]:
  "Q (ACancelTimelockExpired h p st) \<Longrightarrow> returns Q (alice_wait_cancel_timelock E sub h p st)"
  unfolding alice_wait_cancel_timelock_def Let_def by (auto intro!: returns_rules)

lemma alice_enc_sig_learned_edge:
  "returns (alice_edge (AEncSigLearned h p es st)) (alice_enc_sig_learned E h p es st)"
  unfolding alice_enc_sig_learned_def alice_publish_redeem_def
  by (auto intro!: returns_rules alice_edge.intros split: expired_timelocks.split sum.split)

lemma alice_btc_redeem_transaction_published_edge:
  "returns (alice_edge (ABtcRedeemTransactionPublished st)) (alice_btc_redeem_transaction_published E st)"
  unfolding alice_btc_redeem_transaction_published_def
  by (auto intro!: returns_rules alice_edge.intros split: sum.split)

lemma alice_cancel_timelock_expired_edge:
  "returns (alice_edge (ACancelTimelockExpired h p st)) (alice_cancel_timelock_expired E h p st)"
  unfolding alice_cancel_timelock_expired_def by (auto intro!: returns_rules alice_edge.intros)

lemma alice_learn_spend_key_returns [returns_rules]:
  "(\<And>k. Q (ABtcRefunded h p k st)) \<Longrightarrow> returns Q (alice_learn_spend_key E h p st)"
  unfolding alice_learn_spend_key_def by (auto intro!: returns_rules)

lemma alice_btc_cancelled_edge:
  "returns (alice_edge (ABtcCancelled h p st)) (alice_btc_cancelled E h p st)"
  unfolding alice_btc_cancelled_def Let_def by (auto intro!: returns_rules alice_edge.intros)

lemma alice_btc_refunded_edge:
  "returns (alice_edge (ABtcRefunded h p k st)) (alice_btc_refunded E i h p k st)"
  unfolding alice_btc_refunded_def by (auto intro!: returns_rules alice_edge.intros)

lemma alice_btc_punishable_edge:
  "returns (alice_edge (ABtcPunishable h p st)) (alice_btc_punishable E h p st)"
  unfolding alice_btc_punishable_def
  by (auto intro!: returns_rules alice_edge.intros split: sum.split)

lemmas alice_arm_edges = alice_started_edge alice_btc_lock_transaction_seen_edge
  alice_btc_locked_edge alice_beldex_lock_transaction_sent_edge alice_beldex_locked_edge
  alice_beldex_lock_transfer_proof_sent_edge alice_enc_sig_learned_edge
  alice_btc_redeem_transaction_published_edge alice_cancel_timelock_expired_edge
  alice_btc_cancelled_edge alice_btc_refunded_edge alice_btc_punishable_edge

lemma alice_next_state_edge:
  assumes "\<not> alice_is_complete s" "alice_next_state E i s w = (Ok s', w')"
  shows "alice_edge s s'"
  using assms
  by (cases s) (simp_all add: alice_next_state_def alice_is_complete_def alice_arm_edges[THEN returnsD])

lemma alice_step_OkD:
  assumes "alice_step E i s w = (Ok s', w')"
  obtains w1 v' where "alice_next_state E i s w = (Ok s', w1)"
    "w' = w1\<lparr>w_log := w_log w1 @ [Done (CInsertLatestState i (SAlice s'))], w_ext := v'\<rparr>"
  using step_and_save_OkD[of _ _ s w s' w'] assms
  by (fastforce simp: alice_step_def insert_latest_state_def outcome_rules)

lemma alice_step_edge:
  "\<not> alice_is_complete s \<Longrightarrow> alice_step E i s w = (Ok s', w') \<Longrightarrow> alice_edge s s'"
  by (auto elim!: alice_step_OkD intro: alice_next_state_edge)

section \<open>The loop\<close>

interpretation alice_loop:
  ranked_machine "alice_step E i" "\<lambda>s. alice_is_complete s \<or> exit_early s" alice_rank
    "alice_run_until E i exit_early"
  for E :: "'v env" and i exit_early
proof
  fix s w s' w'
  assume "\<not> (alice_is_complete s \<or> exit_early s)" "alice_step E i s w = (Ok s', w')"
  thus "alice_rank s' < alice_rank s"
    using alice_step_edge alice_edge_rank by blast
next
  fix s w
  show "alice_run_until E i exit_early s w =
      (if alice_is_complete s \<or> exit_early s then Some (Ok s, w)
       else case alice_step E i s w of
         (Ok s', w') \<Rightarrow> alice_run_until E i exit_early s' w'
       | (Err e, w') \<Rightarrow> Some (Err e, w')
       | (Panic p, w') \<Rightarrow> Some (Panic p, w')
       | (Pending, w') \<Rightarrow> Some (Pending, w'))"
    by (subst alice_run_until.simps) (rule refl)
qed

section \<open>What each state may do\<close>

text \<open>The calls that \<open>next_state\<close> may make in each state.\<close>

definition alice_calls :: "alice_state \<Rightarrow> call \<Rightarrow> bool" where
  "alice_calls s c = (case c of
     CSubscribe _ _ \<Rightarrow> True
   | CWait _ _ \<Rightarrow> True
   | CStatusOfScript _ _ \<Rightarrow>
       (case s of ABtcLocked _ \<Rightarrow> True | ABeldexLockTransactionSent _ _ _ \<Rightarrow> True
        | AEncSigLearned _ _ _ _ \<Rightarrow> True | _ \<Rightarrow> False)
   | CBlockHeight \<Rightarrow> (case s of ABtcLocked _ \<Rightarrow> True | _ \<Rightarrow> False)
   | CTransfer _ \<Rightarrow> (case s of ABtcLocked _ \<Rightarrow> True | _ \<Rightarrow> False)
   | CWatchForTransfer _ \<Rightarrow>
       (case s of ABeldexLockTransactionSent _ _ _ \<Rightarrow> True | ABtcRefunded _ _ _ _ \<Rightarrow> True | _ \<Rightarrow> False)
   | CSendTransferProof p' \<Rightarrow> (case s of ABeldexLocked _ p _ \<Rightarrow> p' = p | _ \<Rightarrow> False)
   | CRecvEncSig \<Rightarrow> (case s of ABeldexLockTransferProofSent _ _ _ \<Rightarrow> True | _ \<Rightarrow> False)
   | CBroadcast _ k \<Rightarrow>
       (case s of AEncSigLearned _ _ _ _ \<Rightarrow> k = ''redeem'' | ACancelTimelockExpired _ _ _ \<Rightarrow> k = ''cancel''
        | ABtcPunishable _ _ _ \<Rightarrow> k = ''punish'' | _ \<Rightarrow> False)
   | CGetTx _ \<Rightarrow>
       (case s of ACancelTimelockExpired _ _ _ \<Rightarrow> True | ABtcCancelled _ _ _ \<Rightarrow> True
        | ABtcPunishable _ _ _ \<Rightarrow> True | _ \<Rightarrow> False)
   | CCreateFrom _ k _ _ \<Rightarrow> (case s of ABtcRefunded _ _ k' _ \<Rightarrow> k = k' | _ \<Rightarrow> False)
   | _ \<Rightarrow> False)"

lemmas alice_calls_simps = alice_calls_def subscribe_to_lock_def

lemma fut_emits_send_transfer_proof [emits_rules]:
  "Q (CSendTransferProof p) \<Longrightarrow> fut_emits (\<lambda>e. Q (event_call e)) (send_transfer_proof a p)"
  using fut_emits_call_fut[of "\<lambda>e. Q (event_call e)" "CSendTransferProof p"]
  by (auto simp: fut_emits_def send_transfer_proof_def)

lemma fut_emits_recv_encrypted_signature [emits_rules]:
  "Q CRecvEncSig \<Longrightarrow> fut_emits (\<lambda>e. Q (event_call e)) (recv_encrypted_signature a)"
  using fut_emits_call_fut[of "\<lambda>e. Q (event_call e)" "CRecvEncSig"]
  by (auto simp: fut_emits_def recv_encrypted_signature_def)

lemma makes_alice_expired_timelocks [emits_rules]:
  "(\<And>i s. Q (CStatusOfScript i s)) \<Longrightarrow> makes Q (alice_expired_timelocks E st)"
  unfolding alice_expired_timelocks_def Let_def by (intro emits_rules) simp_all

lemma makes_alice_learn_spend_key [emits_rules]:
  "(\<And>i. Q (CGetTx i)) \<Longrightarrow> makes Q (alice_learn_spend_key E h p st)"
  unfolding alice_learn_spend_key_def by (intro emits_rules) simp_all

lemma makes_alice_wait_cancel_timelock [emits_rules]:
  "(\<And>k i. Q (CWait k i)) \<Longrightarrow> makes Q (alice_wait_cancel_timelock E sub h p st)"
  unfolding alice_wait_cancel_timelock_def Let_def by (intro emits_rules) simp_all

lemma alice_next_state_calls: "makes (alice_calls s) (alice_next_state E i s)"
  by (cases s)
    (auto simp: alice_next_state_def alice_started_def alice_btc_lock_transaction_seen_def
      alice_btc_locked_def alice_beldex_lock_transaction_sent_def alice_beldex_locked_def
      alice_beldex_lock_transfer_proof_sent_def alice_enc_sig_learned_def alice_publish_redeem_def
      alice_btc_redeem_transaction_published_def alice_cancel_timelock_expired_def
      alice_btc_cancelled_def alice_btc_refunded_def alice_btc_punishable_def
      alice_check_for_tx_cancel_def alice_submit_tx_cancel_def alice_refund_bdx_def
      alice_punish_btc_def alice_calls_simps Let_def simp del: lift_apply ret_apply
      intro!: emits_rules split: option.split expired_timelocks.split sum.split prod.split)

end
