(* ===== verification/Sample_World.thy ===== *)
theory Sample_World
  imports Swap_Env Sample_Library
begin

text \<open>
  Concrete environments for the witnesses: one in which every call fails or is never answered, and
  one in which every transaction is deeply confirmed.
\<close>

text \<open>An environment for the witnesses: every call fails, and nothing ever happens.\<close>

definition dead_env :: "unit env" where
  "dead_env =
     \<lparr>e_lib = sample_lib, e_finality = 1, e_uuid_to_string = (\<lambda>i. []),
      e_status = (\<lambda>i s v. (Ok Unseen, v)), e_history = (\<lambda>s v. (Ok [], v)),
      e_get_tx = (\<lambda>i v. (Ok None, v)), e_broadcast = (\<lambda>t v. (Err (External 1), v)),
      e_estimate_fee = (\<lambda>n a v. (Ok 100, v)), e_sign_and_finalize = (\<lambda>p v. (Err (External 2), v)),
      e_block_height = (\<lambda>v. (Ok 40, v)),
      e_transfer = (\<lambda>r v. (Ok (transfer_proof_new (TxHash ''t'') (PrivateKey 9)), v)),
      e_create_from = (\<lambda>f k v h x. (Ok (), x)), e_create_from_and_load = (\<lambda>f k v h x. (Ok (), x)),
      e_open_wallet = (\<lambda>f v. (Ok (), v)), e_refresh = (\<lambda>n v. (Ok (), v)),
      e_sweep_all = (\<lambda>a v. (Ok [], v)), e_setup_swap = (\<lambda>n v. (Ok sample_bob2, v)),
      e_coop_redeem = (\<lambda>i v. (Err (External 3), v)),
      e_insert_latest_state = (\<lambda>i s v. (Ok (), v)), e_get_buffered_proof = (\<lambda>i v. (Ok None, v)),
      e_get_state = (\<lambda>i v. (Err (External 4), v)), e_get_peer_id = (\<lambda>i v. (Ok 5, v)),
      e_polls = (\<lambda>cs v. ([], v))\<rparr>"

definition start_world :: "unit world" where
  "start_world = \<lparr>w_log = [], w_ext = ()\<rparr>"

lemma dead_env_simps [simp]:
  "e_lib dead_env = sample_lib" "e_status dead_env i s v = (Ok Unseen, v)"
  "e_block_height dead_env v = (Ok 40, v)" "e_history dead_env s v = (Ok [], v)"
  "e_transfer dead_env r v = (Ok (transfer_proof_new (TxHash ''t'') (PrivateKey 9)), v)"
  "e_insert_latest_state dead_env u x v = (Ok (), v)" "e_polls dead_env cs v = ([], v)"
  "e_get_tx dead_env i v = (Ok None, v)" "e_broadcast dead_env tx v = (Err (External 1), v)"
  "e_get_buffered_proof dead_env u v = (Ok None, v)" "e_estimate_fee dead_env n a v = (Ok 100, v)"
  "e_setup_swap dead_env ns v = (Ok sample_bob2, v)" "e_finality dead_env = 1"
  by (simp_all add: dead_env_def)

text \<open>An environment in which every transaction is deeply confirmed.\<close>

definition sample_snap :: snap where
  "sample_snap = \<lparr>sn_status = (\<lambda>i sc. Confirmed (confirmed_new 20)), sn_closed = False, sn_elapsed = False,
     sn_coin = False, sn_proof_ack = None, sn_encsig = None, sn_transfer_proof = None, sn_encsig_ack = None,
     sn_bdx = Some (Ok ()), sn_tx = None,
     sn_respond = Ok ()\<rparr>"

definition live_env :: "unit env" where
  "live_env = dead_env\<lparr>e_polls := (\<lambda>cs v. ([sample_snap], v))\<rparr>"

lemma live_env_simps [simp]:
  "e_lib live_env = sample_lib" "e_finality live_env = 1" "e_polls live_env cs v = ([sample_snap], v)"
  by (simp_all add: live_env_def)

lemma sample_snap_simps [simp]:
  "sn_status sample_snap i sc = Confirmed (confirmed_new 20)" "sn_coin sample_snap = False"
  "sn_closed sample_snap = False" "sn_elapsed sample_snap = False" "sn_bdx sample_snap = Some (Ok ())"
  by (simp_all add: sample_snap_def)

end
