(* ===== verification/Alice_Properties.thy ===== *)
theory Alice_Properties
  imports Alice_Machine Sample_World
begin

text \<open>
  The properties of Alice's swap: termination and the possible ends of a run, the order and the
  number of her irreversible actions, and what she has stored when a run ends.
\<close>

section \<open>Termination and refinement\<close>

text \<open>
  C10: Alice's loop always returns: from any state, with any early-exit condition and whatever the
  environment answers, the run ends after finitely many steps, with an error, a panic or a pending
  await of one step, or with a state that is complete or meets the exit condition.
\<close>

theorem alice_run_until_total:
  "\<exists>r w'. alice_run_until E i exit_early s w = Some (r, w') \<and>
     (case r of Ok s' \<Rightarrow> alice_is_complete s' \<or> exit_early s' | _ \<Rightarrow> True)"
proof -
  obtain r w' where r: "alice_run_until E i exit_early s w = Some (r, w')"
    using alice_loop.run_returns by blast
  thus ?thesis
    using alice_loop.run_stops[of E i exit_early s w _ w'] by (cases r) auto
qed

text \<open>
  C12: \<open>next_state\<close> refines the abstract machine of the protocol: a step from a state that is not
  complete follows an edge, so it never skips a phase, never leaves the swap's keys, transfer proof
  or restore height behind, and only ends in \<open>SafelyAborted\<close> before the Beldex is sent.
\<close>

theorem alice_next_state_refines:
  assumes "alice_next_state E i s w = (Ok s', w')" and "\<not> alice_is_complete s"
  shows "alice_edge s s'"
  using alice_next_state_edge assms by blast

lemma sample_alice3_txs [simp]:
  "alice_tx_cancel sample_lib sample_alice3 = Ok sample_cancel"
  "alice_tx_punish sample_lib sample_alice3 = Ok sample_punish"
  "alice_tx_refund sample_lib sample_alice3 = Ok sample_refund"
  "alice_tx_redeem sample_lib sample_alice3 = Ok sample_redeem"
  by (simp_all add: alice_tx_cancel_def alice_tx_punish_def alice_tx_refund_def alice_tx_redeem_def
      public_def del: One_nat_def)

lemma sample_transfer_request:
  "alice_lock_bdx_transfer_request sample_lib sample_alice3 = Ok \<lparr>
      trq_public_spend_key = BdxPublicKey 7,
      trq_public_view_key = PublicViewKey (BdxPublicKey 11), trq_amount = BdxAmount 70000\<rparr>"
  by (simp add: alice_lock_bdx_transfer_request_def alice_public_spend_key_def
      bdx_public_key_add_def bdx_public_from_private_def bdx_point_of_def
      private_view_key_public_def ed_l_def)

lemma sample_expired_timelocks:
  "alice_expired_timelocks dead_env sample_alice3 w =
     (Ok (NoneExpired 12), w\<lparr>w_log := w_log w @
        [Done (CStatusOfScript 5000 [1, 2]), Done (CStatusOfScript 4954 [1, 2])]\<rparr>)"
proof -
  have "tx_lock_txid sample_lib sample_lock = 5000"
    "tx_lock_script_pubkey sample_lib sample_lock = [1, 2]"
    "tx_cancel_txid sample_lib sample_cancel = 4954" "tx_cancel_script sample_lib sample_cancel = [1, 2]"
    by (simp_all add: tx_lock_txid_def tx_lock_script_pubkey_def sample_lock_def
        sample_psbt_def sample_hash_def tx_cancel_txid_def tx_cancel_script_def del: One_nat_def)
  thus ?thesis
    by (cases w) (simp add: alice_expired_timelocks_def Let_def bindio_def status_of_script_def
        perform_def current_epoch_def is_confirmed_with_def blocks_left_until_def del: One_nat_def)
qed

lemma sample_btc_locked_step:
  "fst (alice_next_state dead_env 7 (ABtcLocked sample_alice3) start_world) =
     Ok (ABeldexLockTransactionSent 40 (transfer_proof_new (TxHash ''t'') (PrivateKey 9)) sample_alice3)"
  by (simp add: alice_next_state_def alice_btc_locked_def bindio_def sample_expired_timelocks
      perform_def sample_transfer_request)

theorem alice_next_state_refines_witness:
  "alice_edge (ABtcLocked sample_alice3)
     (ABeldexLockTransactionSent 40 (transfer_proof_new (TxHash ''t'') (PrivateKey 9)) sample_alice3)"
  by (rule alice_next_state_refines[of dead_env 7 _ start_world _
        "snd (alice_next_state dead_env 7 (ABtcLocked sample_alice3) start_world)"])
    (simp_all add: sample_btc_locked_step[symmetric] alice_is_complete_def prod_eq_iff)

section \<open>What Alice does, and how often\<close>

text \<open>
  each state of Alice's swap is limited to its own actions: whatever the environment answers,
  the Beldex is only transferred from \<open>BtcLocked\<close>, the redeem transaction only broadcast from
  \<open>EncSigLearned\<close>, the cancel transaction only from \<open>CancelTimelockExpired\<close> and the punish
  transaction only from \<open>BtcPunishable\<close>, and the only transfer proof she sends is that of the swap.
\<close>

theorem alice_next_state_actions:
  "\<exists>evs. w_log (snd (alice_next_state E i s w)) = w_log w @ evs \<and>
     list_all (\<lambda>e. alice_calls s (event_call e)) evs"
  using alice_next_state_calls[of s E i] by (simp add: logs_def)

lemma alice_step_logs:
  assumes "alice_step E i s w = (r, w')"
  shows "\<exists>evs. w_log w' = w_log w @ evs \<and>
    list_all (\<lambda>e. alice_calls s (event_call e) \<or> (\<exists>x. event_call e = CInsertLatestState i x)) evs"
proof -
  have "emits (\<lambda>e. alice_calls s (event_call e) \<or> (\<exists>x. event_call e = CInsertLatestState i x)) (alice_step E i s)"
    unfolding alice_step_def step_and_save_def insert_latest_state_def
    by (intro emits_rules emits_weaken[OF alice_next_state_calls]) auto
  thus ?thesis using assms logsD by blast
qed

lemma alice_calls_no_transfer:
  "\<not> (\<exists>st. s = ABtcLocked st) \<Longrightarrow> alice_calls s (event_call e) \<Longrightarrow> \<not> is_transfer e"
  by (cases s) (auto simp: alice_calls_def is_transfer_def split: call.splits)

lemma insert_no_transfer: "event_call e = CInsertLatestState i x \<Longrightarrow> \<not> is_transfer e \<and> \<not> is_broadcast k e"
  by (simp add: is_transfer_def is_broadcast_def)

lemma alice_btc_locked_transfers: "at_most is_transfer 1 (alice_btc_locked E st)"
proof -
  have pre1: "at_most is_transfer 0 (alice_expired_timelocks E st)"
    unfolding alice_expired_timelocks_def Let_def
    by (rule at_most_none, intro emits_rules) (simp_all add: is_transfer_def)
  have pre2: "at_most is_transfer 0 (perform CBlockHeight (e_block_height E))"
    by (rule at_most_none, intro emits_rules) (simp_all add: is_transfer_def)
  have send: "at_most is_transfer 1 (bindio (perform CBlockHeight (e_block_height E)) (\<lambda>h.
         bindio (lift (alice_lock_bdx_transfer_request (e_lib E) st)) (\<lambda>req.
         bindio (perform (CTransfer req) (e_transfer E req)) (\<lambda>proof.
         ret (ABeldexLockTransactionSent h proof st)))))"
    by (intro at_most_bindio_second[OF pre2] at_most_bindio_second[OF at_most_pure(2)]
        at_most_bindio_first[OF at_most_perform] at_most_pure)
  show ?thesis
    unfolding alice_btc_locked_def
  proof (rule at_most_bindio_second[OF pre1])
    show "at_most is_transfer 1 (case t of
        NoneExpired _ \<Rightarrow>
         bindio (perform CBlockHeight (e_block_height E)) (\<lambda>h.
         bindio (lift (alice_lock_bdx_transfer_request (e_lib E) st)) (\<lambda>req.
         bindio (perform (CTransfer req) (e_transfer E req)) (\<lambda>proof.
         ret (ABeldexLockTransactionSent h proof st))))
       | _ \<Rightarrow> ret ASafelyAborted)" for t
      using send at_most_weaken[OF at_most_pure(1)] by (cases t) simp_all
  qed
qed

lemma alice_step_transfers:
  assumes "alice_step E i s w = (r, w')"
  shows "\<exists>evs. w_log w' = w_log w @ evs \<and> occurrences is_transfer evs \<le> (if \<exists>st. s = ABtcLocked st then 1 else 0)"
proof (cases "\<exists>st. s = ABtcLocked st")
  case True
  then obtain st where st: "s = ABtcLocked st" by blast
  have save: "at_most is_transfer 0 (bindio (insert_latest_state E i (SAlice s')) (\<lambda>_. ret s'))" for s'
    unfolding insert_latest_state_def by (rule at_most_none, intro emits_rules) (simp_all add: is_transfer_def)
  have "at_most is_transfer (1 + 0) (alice_step E i s)"
    unfolding alice_step_def step_and_save_def st
    using alice_btc_locked_transfers by (intro at_most_bindio[OF _ save]) (simp add: alice_next_state_def)
  then obtain evs where "w_log w' = w_log w @ evs" "occurrences is_transfer evs \<le> 1"
    using assms unfolding at_most_def by (auto dest!: logsD)
  thus ?thesis using True by auto
next
  case False
  obtain evs where evs: "w_log w' = w_log w @ evs"
    "\<forall>e\<in>set evs. alice_calls s (event_call e) \<or> (\<exists>x. event_call e = CInsertLatestState i x)"
    using alice_step_logs[OF assms] by (auto simp: list_all_iff)
  have "\<forall>e\<in>set evs. \<not> is_transfer e"
    using evs(2) alice_calls_no_transfer[OF False] insert_no_transfer by blast
  hence "occurrences is_transfer evs = 0" by (intro occurrences_none) (simp add: list_all_iff)
  thus ?thesis using evs(1) by auto
qed

text \<open>
  C14: in one run Alice asks her wallet to transfer the Beldex at most once, however the run ends,
  and not at all if it starts from a state that lies after the transfer.
\<close>

theorem alice_transfers_at_most_once:
  assumes "alice_run_until E i exit_early s w = Some (r, w')"
  shows "\<exists>evs. w_log w' = w_log w @ evs \<and> occurrences is_transfer evs \<le> 1 \<and>
    (alice_rank s < 10 \<longrightarrow> occurrences is_transfer evs = 0)"
  using assms
proof (induction rule: alice_loop.run_any_induct)
  case (stop s w)
  show ?case by (simp add: occurrences_def)
next
  case (fail s w r w')
  show ?case using alice_step_transfers[OF fail(2)] by (fastforce simp: alice_rank_def split: if_splits)
next
  case (step s w s1 w1 r w')
  obtain e1 where e1: "w_log w1 = w_log w @ e1"
      "occurrences is_transfer e1 \<le> (if \<exists>st. s = ABtcLocked st then 1 else 0)"
    using alice_step_transfers[OF step(2)] by blast
  obtain e2 where e2: "w_log w' = w_log w1 @ e2" "occurrences is_transfer e2 \<le> 1" "alice_rank s1 < 10 \<longrightarrow> occurrences is_transfer e2 = 0"
    using step(4) by blast
  have edge: "alice_edge s s1" using alice_step_edge step(1,2) by blast
  have "alice_rank s1 < alice_rank s" by (rule alice_edge_rank[OF edge])
  moreover have "alice_rank s = 10" if "\<exists>st. s = ABtcLocked st" using that by (auto simp: alice_rank_def)
  ultimately show ?case
    using e1 e2 by (intro exI[of _ "e1 @ e2"]) (auto split: if_splits)
qed

lemma sample_alice_run_pending:
  "alice_run_until dead_env 7 (\<lambda>s. alice_rank s < 10) (ABtcLocked sample_alice3) start_world =
     Some (Ok (ABeldexLockTransactionSent 40 (transfer_proof_new (TxHash ''t'') (PrivateKey 9)) sample_alice3),
       snd (alice_step dead_env 7 (ABtcLocked sample_alice3) start_world))"
proof -
  let ?s' = "ABeldexLockTransactionSent 40 (transfer_proof_new (TxHash ''t'') (PrivateKey 9)) sample_alice3"
  obtain w1 where w1: "alice_next_state dead_env 7 (ABtcLocked sample_alice3) start_world = (Ok ?s', w1)"
    using sample_btc_locked_step by (metis prod.collapse)
  then obtain w2 where w2: "alice_step dead_env 7 (ABtcLocked sample_alice3) start_world = (Ok ?s', w2)"
    by (simp add: alice_step_def step_and_save_def bindio_def insert_latest_state_def perform_def)
  show ?thesis
    using alice_loop.run_unfold[of dead_env 7 "\<lambda>s. alice_rank s < 10" "ABtcLocked sample_alice3" start_world]
      alice_loop.run_stopped[of ?s' "\<lambda>s. alice_rank s < 10" dead_env 7 w2]
    by (simp add: w2 alice_is_complete_def alice_rank_def)
qed

theorem alice_transfers_at_most_once_witness:
  "\<exists>evs. w_log (snd (alice_step dead_env 7 (ABtcLocked sample_alice3) start_world)) = w_log start_world @ evs \<and>
    occurrences is_transfer evs \<le> 1 \<and> (alice_rank (ABtcLocked sample_alice3) < 10 \<longrightarrow> occurrences is_transfer evs = 0)"
  by (rule alice_transfers_at_most_once[OF sample_alice_run_pending])

section \<open>Redeem and cancel exclude each other\<close>

definition redeemed_evs :: "event list \<Rightarrow> bool" where
  "redeemed_evs evs = list_ex (\<lambda>e. case e of Done (CBroadcast _ k) \<Rightarrow> k = ''redeem'' | _ \<Rightarrow> False) evs"

definition fallback_evs :: "event list \<Rightarrow> bool" where
  "fallback_evs evs = list_ex (\<lambda>e. is_broadcast ''cancel'' e \<or> is_broadcast ''punish'' e) evs"

lemma redeemed_evs_append [simp]: "redeemed_evs (xs @ ys) \<longleftrightarrow> redeemed_evs xs \<or> redeemed_evs ys"
  by (simp add: redeemed_evs_def)

lemma fallback_evs_append [simp]: "fallback_evs (xs @ ys) \<longleftrightarrow> fallback_evs xs \<or> fallback_evs ys"
  by (simp add: fallback_evs_def)

definition no_broadcast :: "call \<Rightarrow> bool" where
  "no_broadcast c = (case c of CBroadcast _ _ \<Rightarrow> False | _ \<Rightarrow> True)"

lemma no_broadcast_evs:
  "list_all (\<lambda>e. no_broadcast (event_call e)) evs \<Longrightarrow> \<not> redeemed_evs evs"
  by (induction evs) (auto simp: redeemed_evs_def no_broadcast_def split: event.splits call.splits)

lemma list_all_False [simp]: "list_all (\<lambda>e. False) evs \<longleftrightarrow> evs = []"
  by (cases evs) auto

text \<open>A broadcast that does not succeed leaves no \<open>Done\<close> event.\<close>

lemma broadcast_post:
  "post (\<lambda>r evs. (\<forall>x. r \<noteq> Ok x) \<longrightarrow> \<not> redeemed_evs evs) (broadcast E tx k)"
  unfolding broadcast_def Let_def
proof (intro post_bind_emits[OF emits_lift[where P = "\<lambda>e. False"]], goal_cases)
  case (1 out evs)
  have sub: "emits (\<lambda>e. no_broadcast (event_call e)) (subscribe_to E i s)" for i s
    by (intro emits_rules) (simp add: no_broadcast_def)
  have send: "post (\<lambda>r evs. (\<forall>x. r \<noteq> Ok x) \<longrightarrow> \<not> redeemed_evs evs)
      (context_io c (perform (CBroadcast tx k) f))" for c f
    by (rule post_context_io, rule post_perform, case_tac r) (simp_all add: redeemed_evs_def)
  have last: "post (\<lambda>r evs'. (\<forall>x. r \<noteq> Ok x) \<longrightarrow> \<not> redeemed_evs (evs0 @ evs'))
      (bindio (context_io c (perform (CBroadcast tx k) f)) (\<lambda>_. ret (i, sub)))"
    if "\<not> redeemed_evs evs0" for evs0 c f i sub
    by (rule post_bindio, rule post_weaken[OF send]) (use that in \<open>simp split: outcome.split\<close>)
  have "evs = []" using 1 by simp
  thus ?case
    by (simp only: append_Nil)
      (rule post_bind_emits[OF sub], auto simp only: intro!: last no_broadcast_evs)
qed (auto simp: redeemed_evs_def)

text \<open>What Alice does once she has the signed redeem transaction.\<close>

definition not_both :: "alice_state outcome \<Rightarrow> event list \<Rightarrow> bool" where
  "not_both r evs \<longleftrightarrow> ((\<exists>h p st. r = Ok (ACancelTimelockExpired h p st)) \<longrightarrow> \<not> redeemed_evs evs)"

lemma not_both_append: "\<not> redeemed_evs evs \<Longrightarrow> not_both r (evs @ evs') \<longleftrightarrow> not_both r evs'"
  by (simp add: not_both_def)

lemma not_both_quiet:
  "emits (\<lambda>e. no_broadcast (event_call e)) m \<Longrightarrow> post not_both m"
  by (erule post_emits) (auto simp: not_both_def dest: no_broadcast_evs)

lemma alice_publish_redeem_post: "post not_both (alice_publish_redeem E tx sub h p st)"
  unfolding alice_publish_redeem_def
proof (rule post_bindio, rule post_attempt, rule post_weaken[OF broadcast_post], goal_cases)
  case (1 r evs)
  let ?P = "\<lambda>e. no_broadcast (event_call e)"
  have seen: "emits ?P (attempt (await_io E [CWait UntilSeen i] (wait_until_seen s)))" for i s
    by (intro emits_rules) (simp add: no_broadcast_def)
  have sent: "post (\<lambda>r evs'. not_both r (evs @ evs'))
     (bindio (attempt (await_io E [CWait UntilSeen i] (wait_until_seen s))) (\<lambda>seen.
         case seen of
           Inr _ \<Rightarrow> ret (ABtcRedeemTransactionPublished st)
         | Inl e \<Rightarrow> lift (Err (Msg ''Waiting for Bitcoin redeem transaction to be in mempool failed''))))"
    for i s
    by (rule post_bind_emits[OF seen]) (auto simp: not_both_def split: sum.split)
  have wait: "post not_both (alice_wait_cancel_timelock E sub h p st)"
    by (intro not_both_quiet emits_rules) (simp add: no_broadcast_def)
  have failed: "post (\<lambda>r evs'. not_both r (evs @ evs')) (alice_wait_cancel_timelock E sub h p st)"
    if "\<not> redeemed_evs evs"
    using wait that by (simp add: not_both_append)
  show ?case
    using 1 sent failed by (cases r) (auto simp: not_both_def)
qed

lemma alice_enc_sig_learned_post: "post not_both (alice_enc_sig_learned E h p es st)"
proof -
  let ?P = "\<lambda>e. no_broadcast (event_call e)"
  have quiet: "emits ?P (alice_expired_timelocks E st)" "emits ?P (subscribe_to_lock E st)"
    "emits ?P (attempt (lift x))" "emits ?P (alice_wait_cancel_timelock E sub h p st)" for x sub
    unfolding subscribe_to_lock_def by (intro emits_rules; simp add: no_broadcast_def)+
  have prefix: "post (\<lambda>r evs'. not_both r (evs @ evs')) m" if "post not_both m" "list_all ?P evs"
    for m :: "('a world, alice_state) io" and evs
    using that not_both_append[OF no_broadcast_evs] by simp
  have nb: "post not_both (bindio m f)" if "emits ?P m" "\<And>x. post not_both (f x)"
    for m :: "('a world, 'b) io" and f
  proof (rule post_bind_emits[OF that(1)])
    show "post (\<lambda>r' evs'. not_both r' (evs @ evs')) (f x)" if "list_all ?P evs" for x evs
      by (rule prefix[OF \<open>\<And>x. post not_both (f x)\<close> that])
  qed (auto simp: not_both_def)
  have sign: "post not_both (case signed of Inr tx \<Rightarrow> alice_publish_redeem E tx sub h p st
      | Inl error \<Rightarrow> alice_wait_cancel_timelock E sub h p st)" for signed sub
    by (cases signed) (auto intro: not_both_quiet quiet alice_publish_redeem_post)
  have one: "post not_both (ret (ACancelTimelockExpired h p st) :: ('a world, alice_state) io)"
    by (simp add: not_both_def redeemed_evs_def)
  show ?thesis
    unfolding alice_enc_sig_learned_def
  proof (rule nb[OF quiet(1)])
    show "post not_both (case t of
       NoneExpired _ \<Rightarrow>
         bindio (subscribe_to_lock E st) (\<lambda>tx_lock_sub.
         bindio (attempt (lift (alice_signed_redeem_transaction (e_lib E) st es))) (\<lambda>signed.
         case signed of
           Inr tx \<Rightarrow> alice_publish_redeem E tx tx_lock_sub h p st
         | Inl error \<Rightarrow> alice_wait_cancel_timelock E tx_lock_sub h p st))
     | _ \<Rightarrow> ret (ACancelTimelockExpired h p st))" for t
      using one by (cases t) (auto intro!: nb[OF quiet(2)] nb[OF quiet(3)] sign simp del: post_ret)
  qed
qed

lemma alice_step_not_both:
  assumes "alice_step E i (AEncSigLearned h p es st) w = (Ok (ACancelTimelockExpired h' p' st'), w')"
    and "w_log w' = w_log w @ evs"
  shows "\<not> redeemed_evs evs"
proof -
  obtain w1 v' where n': "alice_next_state E i (AEncSigLearned h p es st) w
      = (Ok (ACancelTimelockExpired h' p' st'), w1)"
    and w'': "w' = w1\<lparr>w_log := w_log w1 @
      [Done (CInsertLatestState i (SAlice (ACancelTimelockExpired h' p' st')))], w_ext := v'\<rparr>"
    by (rule alice_step_OkD[OF assms(1)], rule that, assumption+)
  have n: "alice_enc_sig_learned E h p es st w = (Ok (ACancelTimelockExpired h' p' st'), w1)"
    using n' by (simp add: alice_next_state_def)
  have w': "w_log w' = w_log w1 @ [Done (CInsertLatestState i (SAlice (ACancelTimelockExpired h' p' st')))]"
    unfolding w'' by simp
  obtain e1 where e1: "w_log w1 = w_log w @ e1" "not_both (Ok (ACancelTimelockExpired h' p' st')) e1"
    using postD[OF alice_enc_sig_learned_post n] by blast
  have "evs = e1 @ [Done (CInsertLatestState i (SAlice (ACancelTimelockExpired h' p' st')))]"
    using w' e1(1) assms(2) by simp
  thus ?thesis using e1(2) by (simp add: not_both_def) (simp add: redeemed_evs_def)
qed

lemma redeemed_evs_iff: "redeemed_evs evs \<longleftrightarrow> (\<exists>tx. Done (CBroadcast tx ''redeem'') \<in> set evs)"
proof -
  have "(case e of Done (CBroadcast _ k) \<Rightarrow> k = ''redeem'' | _ \<Rightarrow> False)
      \<longleftrightarrow> (\<exists>tx. e = Done (CBroadcast tx ''redeem''))" for e
  proof (cases e)
    case (Done c)
    thus ?thesis by (cases c) simp_all
  qed simp_all
  hence "(\<lambda>e. case e of Done (CBroadcast _ k) \<Rightarrow> k = ''redeem'' | _ \<Rightarrow> False)
      = (\<lambda>e. \<exists>tx. e = Done (CBroadcast tx ''redeem''))" by (rule ext)
  thus ?thesis by (simp only: redeemed_evs_def list_ex_iff) blast
qed

lemma fallback_evs_iff: "fallback_evs evs \<longleftrightarrow>
   (\<exists>e\<in>set evs. \<exists>tx k. event_call e = CBroadcast tx k \<and> (k = ''cancel'' \<or> k = ''punish''))"
proof -
  have b: "is_broadcast k e \<longleftrightarrow> (\<exists>tx. event_call e = CBroadcast tx k)" for k e
    unfolding is_broadcast_def by (cases "event_call e") auto
  show ?thesis unfolding fallback_evs_def list_ex_iff b by blast
qed

lemma alice_calls_broadcasts:
  assumes "list_all (\<lambda>e. alice_calls s (event_call e) \<or> (\<exists>x. event_call e = CInsertLatestState i x)) evs"
  shows "redeemed_evs evs \<Longrightarrow> alice_rank s = 6" "fallback_evs evs \<Longrightarrow> alice_rank s \<in> {2, 4}"
proof -
  assume "redeemed_evs evs"
  then obtain tx where "Done (CBroadcast tx ''redeem'') \<in> set evs" unfolding redeemed_evs_iff by blast
  hence "alice_calls s (CBroadcast tx ''redeem'')" using assms by (force simp: list_all_iff)
  thus "alice_rank s = 6" by (cases s) (simp_all add: alice_calls_def alice_rank_def)
next
  assume "fallback_evs evs"
  then obtain e tx k where e: "e \<in> set evs" "event_call e = CBroadcast tx k" "k = ''cancel'' \<or> k = ''punish''"
    unfolding fallback_evs_iff by blast
  have "alice_calls s (event_call e)" using assms e by (force simp: list_all_iff)
  thus "alice_rank s \<in> {2, 4}"
    using e(2,3) by (cases s) (auto simp: alice_calls_def alice_rank_def)
qed

lemma alice_run_broadcasts:
  assumes "alice_run_until E i exit_early s w = Some (r, w')"
  shows "\<exists>evs. w_log w' = w_log w @ evs \<and> \<not> (redeemed_evs evs \<and> fallback_evs evs) \<and>
    (alice_rank s < 6 \<longrightarrow> \<not> redeemed_evs evs) \<and> (alice_rank s \<in> {0, 5} \<longrightarrow> \<not> fallback_evs evs)"
  using assms
proof (induction rule: alice_loop.run_any_induct)
  case (stop s w)
  show ?case by (simp add: redeemed_evs_def fallback_evs_def)
next
  case (fail s w r w')
  obtain evs where evs: "w_log w' = w_log w @ evs"
    "list_all (\<lambda>e. alice_calls s (event_call e) \<or> (\<exists>x. event_call e = CInsertLatestState i x)) evs"
    using alice_step_logs[OF fail(2)] by blast
  show ?case using evs(1) alice_calls_broadcasts[OF evs(2)] by (intro exI[of _ evs]) auto
next
  case (step s w s1 w1 r w')
  obtain e1 where e1: "w_log w1 = w_log w @ e1"
    "list_all (\<lambda>e. alice_calls s (event_call e) \<or> (\<exists>x. event_call e = CInsertLatestState i x)) e1"
    using alice_step_logs[OF step(2)] by blast
  note b1 = alice_calls_broadcasts[OF e1(2)]
  obtain e2 where e2: "w_log w' = w_log w1 @ e2" "\<not> (redeemed_evs e2 \<and> fallback_evs e2)"
    "alice_rank s1 < 6 \<longrightarrow> \<not> redeemed_evs e2" "alice_rank s1 \<in> {0, 5} \<longrightarrow> \<not> fallback_evs e2"
    using step(4) by blast
  have edge: "alice_edge s s1" using alice_step_edge step(1,2) by blast
  have rank: "alice_rank s1 < alice_rank s" by (rule alice_edge_rank[OF edge])
  have enc: "alice_rank s1 = 5 \<or> \<not> redeemed_evs e1" if six: "alice_rank s = 6"
  proof -
    obtain h p es st where s: "s = AEncSigLearned h p es st"
      using six by (cases s) (auto simp: alice_rank_def)
    have "s1 = ABtcRedeemTransactionPublished st \<or> s1 = ACancelTimelockExpired h p st"
      using edge s by auto
    thus ?thesis
    proof
      assume c: "s1 = ACancelTimelockExpired h p st"
      show ?thesis
        using alice_step_not_both[OF _ e1(1)] step(2) unfolding s c by blast
    qed (simp add: alice_rank_def)
  qed
  have five: "alice_rank s1 \<in> {0, 5}" if "alice_rank s \<in> {0, 5}"
    using that edge by (cases s) (auto simp: alice_rank_def)
  show ?case
    using e1(1) e2 b1 rank enc five by (intro exI[of _ "e1 @ e2"]) auto
qed

text \<open>
  C4: in one run Alice never both redeems and falls back: once the broadcast of the redeem
  transaction has succeeded she broadcasts neither the cancel nor the punish transaction, and a run
  in which she has started to cancel never broadcasts the redeem transaction.
\<close>

theorem alice_redeem_excludes_cancel:
  assumes "alice_run_until E i exit_early s w = Some (r, w')"
  shows "\<exists>evs. w_log w' = w_log w @ evs \<and> \<not> (redeemed_evs evs \<and> fallback_evs evs)"
  using alice_run_broadcasts[OF assms] by blast

theorem alice_redeem_excludes_cancel_witness:
  "\<exists>evs. w_log (snd (alice_step dead_env 7 (ABtcLocked sample_alice3) start_world)) = w_log start_world @ evs \<and>
    \<not> (redeemed_evs evs \<and> fallback_evs evs)"
  by (rule alice_redeem_excludes_cancel[OF sample_alice_run_pending])

section \<open>What justifies a step\<close>

text \<open>
  Alice transfers her Beldex only after she has read from the chain, in that same step, that
  neither timelock has expired; and what she asks her wallet to transfer is exactly the amount of
  the swap, to the shared output of both parties' keys.
\<close>

theorem alice_transfer_guarded:
  assumes "alice_next_state E i s w = (r, w')" "w_log w' = w_log w @ evs"
    and "e \<in> set evs" "event_call e = CTransfer req"
  shows "\<exists>st n w1. s = ABtcLocked st \<and> alice_expired_timelocks E st w = (Ok (NoneExpired n), w1) \<and>
    alice_lock_bdx_transfer_request (e_lib E) st = Ok req"
proof -
  have "list_all (\<lambda>e. alice_calls s (event_call e)) evs"
    using logsD[OF alice_next_state_calls assms(1)] assms(2) by auto
  hence "alice_calls s (CTransfer req)" using assms(3,4) by (auto simp: list_all_iff)
  then obtain st where s: "s = ABtcLocked st" by (cases s) (auto simp: alice_calls_def)
  obtain t w1 where t: "alice_expired_timelocks E st w = (t, w1)" by fastforce
  have mk: "makes (\<lambda>c. \<exists>i s. c = CStatusOfScript i s) (alice_expired_timelocks E st)"
    by (intro emits_rules) simp
  obtain e1 where e1: "w_log w1 = w_log w @ e1" "\<forall>e\<in>set e1. \<exists>i s. event_call e = CStatusOfScript i s"
    using logsD[OF mk t] by (auto simp: list_all_iff)
  have no: "w' \<noteq> w1"
  proof
    assume "w' = w1"
    hence "evs = e1" using e1(1) assms(2) by simp
    then obtain i s where "event_call e = CStatusOfScript i s" using e1(2) assms(3) by blast
    thus False using assms(4) by simp
  qed
  have step: "alice_btc_locked E st w = (r, w')" using assms(1) s by (simp add: alice_next_state_def)
  then obtain n where n: "t = Ok (NoneExpired n)"
    using t no by (auto simp: alice_btc_locked_def bindio_def split: outcome.splits expired_timelocks.splits)
  obtain h v1 where h: "e_block_height E (w_ext w1) = (h, v1)" by fastforce
  have "alice_lock_bdx_transfer_request (e_lib E) st = Ok req"
    using step t n h e1 assms(2-4)
    by (auto simp: alice_btc_locked_def bindio_def perform_def split: outcome.splits prod.splits)
      (case_tac x1, auto)+
  thus ?thesis using s t n by blast
qed

lemma sample_btc_locked_world:
  "w_log (snd (alice_next_state dead_env 7 (ABtcLocked sample_alice3) start_world)) = w_log start_world @
     [Done (CStatusOfScript 5000 [1, 2]), Done (CStatusOfScript 4954 [1, 2]), Done CBlockHeight,
      Done (CTransfer \<lparr>trq_public_spend_key = BdxPublicKey 7,
        trq_public_view_key = PublicViewKey (BdxPublicKey 11), trq_amount = BdxAmount 70000\<rparr>)]"
  by (simp add: alice_next_state_def alice_btc_locked_def bindio_def sample_expired_timelocks
      perform_def sample_transfer_request)

theorem alice_transfer_guarded_witness:
  "\<exists>st n w1. ABtcLocked sample_alice3 = ABtcLocked st \<and>
    alice_expired_timelocks dead_env st start_world = (Ok (NoneExpired n), w1) \<and>
    alice_lock_bdx_transfer_request (e_lib dead_env) st = Ok \<lparr>trq_public_spend_key = BdxPublicKey 7,
      trq_public_view_key = PublicViewKey (BdxPublicKey 11), trq_amount = BdxAmount 70000\<rparr>"
  by (rule alice_transfer_guarded[OF prod.collapse[symmetric] sample_btc_locked_world,
        where e = "Done (CTransfer \<lparr>trq_public_spend_key = BdxPublicKey 7,
          trq_public_view_key = PublicViewKey (BdxPublicKey 11), trq_amount = BdxAmount 70000\<rparr>)"])
    (simp_all del: One_nat_def)

lemma alice_learn_spend_key_OkD:
  "alice_learn_spend_key E h p st w = (Ok s', w') \<Longrightarrow> \<exists>k. s' = ABtcRefunded h p k st"
  by (rule returnsD[OF alice_learn_spend_key_returns[of "\<lambda>s'. \<exists>k. s' = ABtcRefunded h p k st"]]) auto

text \<open>
  Alice considers the bitcoin punishable only after she has seen the cancel transaction
  confirmed \<open>punish_timelock\<close> times, and the swap redeemed only after she has seen the redeem
  transaction final.
\<close>

theorem alice_waits_justify:
  assumes "alice_next_state E i s w = (Ok s', w')" and "\<not> alice_is_complete s"
    and "w_log w' = w_log w @ evs"
  shows "(\<forall>h p st. s' = ABtcPunishable h p st \<longrightarrow> (\<exists>c. alice_tx_cancel (e_lib E) st = Ok c \<and>
      waited E evs (UntilConfirmedWith (punish_u32 (a3_punish_timelock st)))
        (\<lambda>s. is_confirmed_with s (punish_u32 (a3_punish_timelock st)))
        (tx_cancel_txid (e_lib E) c) (tx_cancel_script (e_lib E) c))) \<and>
    (s' = ABtcRedeemed \<longrightarrow> (\<exists>st r. s = ABtcRedeemTransactionPublished st \<and>
      alice_tx_redeem (e_lib E) st = Ok r \<and>
      waited E evs UntilFinal (is_final (e_finality E)) (tx_redeem_txid (e_lib E) r) (td_watch_script r)))"
proof -
  have edge: "alice_edge s s'" using alice_next_state_edge assms by blast
  have "\<exists>c. alice_tx_cancel (e_lib E) st = Ok c \<and>
      waited E evs (UntilConfirmedWith (punish_u32 (a3_punish_timelock st)))
        (\<lambda>s. is_confirmed_with s (punish_u32 (a3_punish_timelock st)))
        (tx_cancel_txid (e_lib E) c) (tx_cancel_script (e_lib E) c)"
    if target: "s' = ABtcPunishable h p st" for h p st
  proof -
    have s: "s = ABtcCancelled h p st" using edge target by (cases s) auto
    have "alice_btc_cancelled E h p st w = (Ok (ABtcPunishable h p st), w')"
      using assms(1) target s by (simp add: alice_next_state_def)
    thus ?thesis
      using assms(3)
      by (auto simp: alice_btc_cancelled_def Let_def outcome_rules wait_until_confirmed_with_def
          dest!: alice_learn_spend_key_OkD) (drule (1) select2_wait_Inr, simp)
  qed
  moreover have "\<exists>st r. s = ABtcRedeemTransactionPublished st \<and> alice_tx_redeem (e_lib E) st = Ok r \<and>
      waited E evs UntilFinal (is_final (e_finality E)) (tx_redeem_txid (e_lib E) r) (td_watch_script r)"
    if target: "s' = ABtcRedeemed"
  proof -
    obtain st where s: "s = ABtcRedeemTransactionPublished st"
      using edge target by (auto simp: alice_edge_to_simps)
    hence "alice_btc_redeem_transaction_published E st w = (Ok ABtcRedeemed, w')"
      using assms(1) target by (simp add: alice_next_state_def)
    thus ?thesis
      using assms(3) s
      by (auto simp: alice_btc_redeem_transaction_published_def outcome_rules wait_until_final_def)
        (drule (1) select2_wait_Inl, simp)
  qed
  ultimately show ?thesis by blast
qed


lemma sample_punishable_step:
  "alice_next_state live_env 7 (ABtcCancelled 40 p sample_alice3) start_world =
     (Ok (ABtcPunishable 40 p sample_alice3), start_world\<lparr>w_log := w_log start_world @
        [Done (CSubscribe (tx_refund_txid sample_lib sample_refund) (tr_watch_script sample_refund)),
         Done (CSubscribe (tx_cancel_txid sample_lib sample_cancel) (tx_cancel_script sample_lib sample_cancel)),
         Done (CWait (UntilConfirmedWith 6) (tx_cancel_txid sample_lib sample_cancel))]\<rparr>)"
  by (simp add: alice_next_state_def alice_btc_cancelled_def Let_def bindio_def subscribe_to_def
      record_events_def select_io_def wait_until_confirmed_with_def wait_until_def start_world_def
      is_confirmed_with_def meets_target_def confirmations_def confirmed_new_def
      del: One_nat_def)

theorem alice_waits_justify_witness:
  "\<exists>c. alice_tx_cancel sample_lib sample_alice3 = Ok c \<and>
     waited live_env
       [Done (CSubscribe (tx_refund_txid sample_lib sample_refund) (tr_watch_script sample_refund)),
         Done (CSubscribe (tx_cancel_txid sample_lib sample_cancel) (tx_cancel_script sample_lib sample_cancel)),
         Done (CWait (UntilConfirmedWith 6) (tx_cancel_txid sample_lib sample_cancel))]
       (UntilConfirmedWith 6) (\<lambda>s. is_confirmed_with s 6)
       (tx_cancel_txid sample_lib c) (tx_cancel_script sample_lib c)"
  using alice_waits_justify[OF sample_punishable_step[of "transfer_proof_new (TxHash ''t'') (PrivateKey 9)"]]
  by (simp add: alice_is_complete_def del: One_nat_def)


section \<open>What Alice stores\<close>

lemma alice_step_stored:
  assumes "alice_step E i s w = (r, w')"
  shows "\<exists>evs. w_log w' = w_log w @ evs \<and> stored evs = (case r of Ok s' \<Rightarrow> [SAlice s'] | _ \<Rightarrow> [])"
  using assms unfolding alice_step_def
  by (rule step_and_save_stored[OF alice_next_state_calls, rotated]) (simp add: alice_calls_def)

text \<open>
  every state Alice's run goes through is stored, once and in order: however the run ends, the
  states it has stored form, after the state it started from, a path of the abstract machine, and if
  it returns a state that is the last one on the path. So a swap resumed from its latest stored
  state continues where the previous run stopped.
\<close>

theorem alice_stores_path:
  assumes "alice_run_until E i exit_early s w = Some (r, w')"
  shows "\<exists>evs ss. w_log w' = w_log w @ evs \<and> stored evs = map SAlice ss \<and>
    successively alice_edge (s # ss) \<and> (\<forall>s'. r = Ok s' \<longrightarrow> last (s # ss) = s')"
  using assms
proof (induction rule: alice_loop.run_any_induct)
  case (stop s w)
  show ?case by (intro exI[of _ "[]"]) simp
next
  case (fail s w r w')
  obtain evs where evs: "w_log w' = w_log w @ evs"
    "stored evs = (case r of Ok s' \<Rightarrow> [SAlice s'] | _ \<Rightarrow> [])"
    using alice_step_stored[OF fail(2)] by blast
  show ?case
  proof (cases r)
    case (Ok s')
    have "alice_edge s s'" using alice_step_edge fail Ok by blast
    thus ?thesis using evs Ok by (intro exI[of _ evs] exI[of _ "[s']"]) simp
  qed (use evs in \<open>auto intro!: exI[of _ evs] exI[of _ "[]"]\<close>)
next
  case (step s w s1 w1 r w')
  obtain e1 where e1: "w_log w1 = w_log w @ e1" "stored e1 = [SAlice s1]"
    using alice_step_stored[OF step(2)] by auto
  obtain e2 ss where e2: "w_log w' = w_log w1 @ e2" "stored e2 = map SAlice ss"
    "successively alice_edge (s1 # ss)" "\<forall>s'. r = Ok s' \<longrightarrow> last (s1 # ss) = s'"
    using step(4) by blast
  have "alice_edge s s1" using alice_step_edge step(1,2) by blast
  thus ?case
    using e1 e2 by (intro exI[of _ "e1 @ e2"] exI[of _ "s1 # ss"]) simp
qed

theorem alice_stores_path_witness:
  "\<exists>evs ss. w_log (snd (alice_step dead_env 7 (ABtcLocked sample_alice3) start_world)) = w_log start_world @ evs \<and>
    stored evs = map SAlice ss \<and> successively alice_edge (ABtcLocked sample_alice3 # ss) \<and>
    last (ABtcLocked sample_alice3 # ss) =
      ABeldexLockTransactionSent 40 (transfer_proof_new (TxHash ''t'') (PrivateKey 9)) sample_alice3"
  using alice_stores_path[OF sample_alice_run_pending] by blast

text \<open>
  a refund of the Beldex uses the key that Bob's refund revealed: Alice enters \<open>BtcRefunded\<close>
  only with a key extracted from the transaction that the chain returned under the id of the
  swap's refund transaction.
\<close>

theorem alice_refund_key_from_chain:
  assumes "alice_next_state E i s w = (Ok (ABtcRefunded h p k st), w')" and "\<not> alice_is_complete s"
  shows "\<exists>r tx v v'. alice_tx_refund (e_lib E) st = Ok r \<and>
    e_get_tx E (tx_refund_txid (e_lib E) r) v = (Ok (Some tx), v') \<and>
    alice_extract_beldex_private_key (e_lib E) st tx = Ok k"
proof -
  have edge: "alice_edge s (ABtcRefunded h p k st)" using alice_next_state_edge assms by blast
  have learn: "\<exists>r tx v v'. alice_tx_refund (e_lib E) st = Ok r \<and>
      e_get_tx E (tx_refund_txid (e_lib E) r) v = (Ok (Some tx), v') \<and>
      alice_extract_beldex_private_key (e_lib E) st tx = Ok k"
    if "alice_learn_spend_key E h p st w1 = (Ok (ABtcRefunded h p k st), w2)" for w1 w2
    using that by (auto simp: alice_learn_spend_key_def get_raw_transaction_def outcome_rules)
  have "s = ABtcCancelled h p st \<or> s = ABtcPunishable h p st"
    using edge by (auto simp: alice_edge_to_simps)
  then obtain w1 w2 where "alice_learn_spend_key E h p st w1 = (Ok (ABtcRefunded h p k st), w2)"
    using assms(1)
    by (auto simp: alice_next_state_def alice_btc_cancelled_def alice_btc_punishable_def Let_def outcome_rules)
  thus ?thesis using learn by blast
qed

text \<open>A chain on which Bob's refund of the sample swap can be found.\<close>

definition sample_refund_published :: transaction where
  "sample_refund_published = \<lparr>tx_version = 2, tx_lock_time = 0,
     tx_input = [\<lparr>previous_output = (4954, 0), script_sig = [], tx_sequence = 0,
        witness = [[2815, 1], [1815, 1], []]\<rparr>],
     tx_output = []\<rparr>"

definition refunded_env :: "unit env" where
  "refunded_env = live_env\<lparr>e_get_tx := (\<lambda>i v. (Ok (Some sample_refund_published), v)),
     e_polls := (\<lambda>cs v. ([sample_snap\<lparr>sn_coin := True\<rparr>], v))\<rparr>"

lemma refunded_env_simps [simp]:
  "e_polls refunded_env cs v = ([sample_snap\<lparr>sn_coin := True\<rparr>], v)"
  "e_lib refunded_env = sample_lib" "e_get_tx refunded_env i v = (Ok (Some sample_refund_published), v)"
  by (simp_all add: refunded_env_def)

lemma sample_refund_extracted:
  "alice_extract_beldex_private_key sample_lib sample_alice3 sample_refund_published = Ok (PrivateKey 7)"
proof -
  have "tr_digest sample_refund = 30064775815"
    by (simp add: sample_refund_def sample_hash_def)
  thus ?thesis
    by (simp add: alice_extract_beldex_private_key_def tx_refund_extract_beldex_private_key_def
        tx_refund_extract_signature_by_key_def signature_by_key_def witness_signatures_def
        sample_refund_published_def extract_ecdsa_sig_def verify_sig_def sample_sig_def public_def
        recover_def encsign_def private_key_add_def public_key_from_scalar_def
        secret_key_from_scalar_def ed_l_def del: One_nat_def)
qed

theorem alice_refund_key_from_chain_witness:
  "\<exists>r tx v v'. alice_tx_refund sample_lib sample_alice3 = Ok r \<and>
    e_get_tx refunded_env (tx_refund_txid sample_lib r) v = (Ok (Some tx), v') \<and>
    alice_extract_beldex_private_key sample_lib sample_alice3 tx = Ok (PrivateKey 7)"
proof -
  let ?p = "transfer_proof_new (TxHash ''t'') (PrivateKey 9)"
  have "\<exists>w'. alice_next_state refunded_env 7 (ABtcCancelled 40 ?p sample_alice3) start_world
      = (Ok (ABtcRefunded 40 ?p (PrivateKey 7) sample_alice3), w')"
    by (simp add: alice_next_state_def alice_btc_cancelled_def Let_def bindio_def subscribe_to_def
        record_events_def select_io_def wait_until_seen_def wait_until_def has_been_seen_def
        alice_learn_spend_key_def get_raw_transaction_def perform_def sample_refund_extracted)
  thus ?thesis
    using alice_refund_key_from_chain[of refunded_env 7 "ABtcCancelled 40 ?p sample_alice3"]
    by (fastforce simp: alice_is_complete_def)
qed

end
