(* ===== verification/Bob_Swap.thy ===== *)
theory Bob_Swap
  imports Swap_Machine
begin

text \<open>
  \<open>protocol/bob/swap.rs\<close> and the methods of \<open>protocol/bob/state.rs\<close> that use a wallet: one
  definition per state of \<open>next_state\<close>, and the loop \<open>run_until\<close>. The progress events for the user
  interface have no part in the model, but what the code computes to fill them in, and may fail at,
  has.
\<close>

section \<open>Methods that use a wallet\<close>

text \<open>\<open>State3\<close>, \<open>State4\<close> and \<open>State6\<close> have the same \<open>expired_timelock\<close>.\<close>

definition bob_expired_timelock_of ::
  "'v env \<Rightarrow> tx_lock \<Rightarrow> cancel_timelock \<Rightarrow> punish_timelock \<Rightarrow> public_key \<Rightarrow> secret_key \<Rightarrow> btc_amount \<Rightarrow>
   ('v world, expired_timelocks) io" where
  "bob_expired_timelock_of E tx_lock ct pt A b fee =
     (let L = e_lib E in
      bindio (lift (tx_cancel_new L tx_lock ct A (public b) fee)) (\<lambda>c.
      bindio (status_of_script E (tx_lock_txid L tx_lock) (tx_lock_script_pubkey L tx_lock)) (\<lambda>tx_lock_status.
      bindio (status_of_script E (tx_cancel_txid L c) (tx_cancel_script L c)) (\<lambda>tx_cancel_status.
      ret (current_epoch ct pt tx_lock_status tx_cancel_status)))))"

definition bob3_expired_timelock :: "'v env \<Rightarrow> bob_state3 \<Rightarrow> ('v world, expired_timelocks) io" where
  "bob3_expired_timelock E st =
     bob_expired_timelock_of E (b3_tx_lock st) (b3_cancel_timelock st) (b3_punish_timelock st)
       (b3_A st) (b3_b st) (b3_tx_cancel_fee st)"

definition bob4_expired_timelock :: "'v env \<Rightarrow> bob_state4 \<Rightarrow> ('v world, expired_timelocks) io" where
  "bob4_expired_timelock E st =
     bob_expired_timelock_of E (b4_tx_lock st) (b4_cancel_timelock st) (b4_punish_timelock st)
       (b4_A st) (b4_b st) (b4_tx_cancel_fee st)"

definition bob6_expired_timelock :: "'v env \<Rightarrow> bob_state6 \<Rightarrow> ('v world, expired_timelocks) io" where
  "bob6_expired_timelock E st =
     bob_expired_timelock_of E (b6_tx_lock st) (b6_cancel_timelock st) (b6_punish_timelock st)
       (b6_A st) (b6_b st) (b6_tx_cancel_fee st)"

text \<open>The loop of \<open>check_for_tx_redeem\<close> over the history of the redeem script.\<close>

primrec bob_scan_for_redeem ::
  "'v env \<Rightarrow> bob_state4 \<Rightarrow> tx_redeem \<Rightarrow> encsig \<Rightarrow> txid list \<Rightarrow> ('v world, bob_state5) io" where
  "bob_scan_for_redeem E st r es [] =
     lift (Err (Msg ''No valid Bitcoin redeem transaction found in history''))"
| "bob_scan_for_redeem E st r es (tx_hash # history) =
     bindio (get_raw_transaction E tx_hash) (\<lambda>candidate.
     bindio (attempt (lift (tx_redeem_extract_signature_by_key (e_lib E) r candidate (public (b4_b st))))) (\<lambda>found.
     case found of
       Inr tx_redeem_sig \<Rightarrow> lift (bob_state5_from_sig (e_lib E) st es tx_redeem_sig)
     | Inl e \<Rightarrow> bob_scan_for_redeem E st r es history))"

definition bob_check_for_tx_redeem :: "'v env \<Rightarrow> bob_state4 \<Rightarrow> ('v world, bob_state5) io" where
  "bob_check_for_tx_redeem E st =
     bindio (lift (bob_tx_redeem (e_lib E) st)) (\<lambda>r.
     bindio (lift (bob_tx_redeem_encsig (e_lib E) st)) (\<lambda>es.
     bindio (script_history_for E (td_watch_script r)) (\<lambda>history.
     bob_scan_for_redeem E st r es history)))"

text \<open>
  \<open>watch_for_redeem_btc\<close> as a future: it subscribes when it is first polled (stage 0), waits until
  the transaction is seen (stage 1) and then fetches it (stage 2).
\<close>

definition bob_redeem_from_tx ::
  "lib \<Rightarrow> bob_state4 \<Rightarrow> tx_redeem \<Rightarrow> transaction option outcome \<Rightarrow> bob_state5 outcome" where
  "bob_redeem_from_tx L st r got =
     obind got (\<lambda>o_tx.
     obind (of_option (Msg ''Could not get raw tx with id'') o_tx) (\<lambda>candidate.
     obind (tx_redeem_extract_signature_by_key L r candidate (public (b4_b st))) (\<lambda>tx_redeem_sig.
     obind (bob_tx_redeem_encsig L st) (\<lambda>es.
     bob_state5_from_sig L st es tx_redeem_sig))))"

definition bob_fetch_redeem :: "lib \<Rightarrow> bob_state4 \<Rightarrow> tx_redeem \<Rightarrow> bob_state5 fut" where
  "bob_fetch_redeem L st r = (\<lambda>s stage.
     case sn_tx s of
       None \<Rightarrow> (None, 2, [])
     | Some got \<Rightarrow> (Some (bob_redeem_from_tx L st r got), 2, [event_of (CGetTx (tx_redeem_txid L r)) got]))"

definition bob_watch_for_redeem_btc :: "'v env \<Rightarrow> bob_state4 \<Rightarrow> bob_state5 fut" where
  "bob_watch_for_redeem_btc E st = (\<lambda>s stage.
     let L = e_lib E in
     case bob_tx_redeem L st of
       Ok r \<Rightarrow>
         let i = tx_redeem_txid L r; script = td_watch_script r;
             sub = \<lparr>sub_txid = i, sub_script = script, sub_finality = e_finality E\<rparr>;
             begun = (if stage = 0 then [Done (CSubscribe i script)] else []) in
         if stage \<le> 1 then
           (case wait_until_seen sub s stage of
              (None, _, ev) \<Rightarrow> (None, 1, begun @ ev)
            | (Some (Ok _), _, ev) \<Rightarrow>
                (case bob_fetch_redeem L st r s 2 of (res, stage', ev') \<Rightarrow> (res, stage', begun @ ev @ ev'))
            | (Some (Err e), _, ev) \<Rightarrow> (Some (Err e), 1, begun @ ev)
            | (Some (Panic p), _, ev) \<Rightarrow> (Some (Panic p), 1, begun @ ev)
            | (Some Pending, _, ev) \<Rightarrow> (None, 1, begun @ ev))
         else bob_fetch_redeem L st r s stage
     | Err e \<Rightarrow> (Some (Err e), 1, [])
     | Panic p \<Rightarrow> (Some (Panic p), 1, [])
     | Pending \<Rightarrow> (None, 1, []))"

definition bob_redeem_bdx ::
  "'v env \<Rightarrow> bob_state5 \<Rightarrow> string \<Rightarrow> bdx_address \<Rightarrow> ('v world, tx_hash list) io" where
  "bob_redeem_bdx E st file_name receive_address =
     (case bob_bdx_keys (e_lib E) st of (spend_key, view_key) \<Rightarrow>
      bindio (attempt (perform (CCreateFromAndLoad file_name spend_key view_key (b5_restore_height st))
                (e_create_from_and_load E file_name spend_key view_key (b5_restore_height st)))) (\<lambda>created.
      bindio (case created of
                Inl e \<Rightarrow> perform (COpenWallet file_name) (e_open_wallet E file_name)
              | Inr _ \<Rightarrow> ret ()) (\<lambda>_.
      bindio (perform (CRefresh 20) (e_refresh E 20)) (\<lambda>_.
      perform (CSweepAll receive_address) (e_sweep_all E receive_address)))))"

text \<open>The loop of \<open>check_for_tx_cancel\<close> and \<open>check_for_tx_refund\<close>: the first that can be fetched.\<close>

primrec bob_first_found :: "'v env \<Rightarrow> string \<Rightarrow> txid list \<Rightarrow> ('v world, transaction) io" where
  "bob_first_found E none [] = lift (Err (Msg none))"
| "bob_first_found E none (tx_hash # history) =
     bindio (attempt (get_raw_transaction E tx_hash)) (\<lambda>got.
     case got of Inr tx \<Rightarrow> ret tx | Inl e \<Rightarrow> bob_first_found E none history)"

definition bob_check_for_tx_cancel :: "'v env \<Rightarrow> bob_state6 \<Rightarrow> ('v world, transaction) io" where
  "bob_check_for_tx_cancel E st =
     bindio (lift (bob_construct_tx_cancel (e_lib E) st)) (\<lambda>c.
     bindio (script_history_for E (tx_cancel_script (e_lib E) c)) (\<lambda>history.
     bob_first_found E ''No Bitcoin cancel transaction found in history'' history))"

definition bob_submit_tx_cancel :: "'v env \<Rightarrow> bob_state6 \<Rightarrow> ('v world, txid \<times> subscription) io" where
  "bob_submit_tx_cancel E st =
     bindio (lift (bob_signed_cancel_transaction (e_lib E) st)) (\<lambda>tx. broadcast E tx ''cancel'')"

definition bob_check_for_tx_refund :: "'v env \<Rightarrow> bob_state6 \<Rightarrow> ('v world, transaction) io" where
  "bob_check_for_tx_refund E st =
     bindio (lift (bob_signed_refund_transaction (e_lib E) st)) (\<lambda>tx.
     bindio (lift (index_vec (tx_output tx) 0)) (\<lambda>out.
     bindio (script_history_for E (txo_script out)) (\<lambda>history.
     bob_first_found E ''No Bitcoin refund transaction found in history'' history)))"

definition bob_publish_refund_btc :: "'v env \<Rightarrow> bob_state6 \<Rightarrow> ('v world, unit) io" where
  "bob_publish_refund_btc E st =
     bindio (attempt (bob_check_for_tx_refund E st)) (\<lambda>found.
     case found of
       Inr _ \<Rightarrow> ret ()
     | Inl _ \<Rightarrow>
         bindio (lift (bob_signed_refund_transaction (e_lib E) st)) (\<lambda>tx.
         bindio (broadcast E tx ''refund'') (\<lambda>_. ret ())))"

section \<open>The handle of the event loop\<close>

definition bob_recv_transfer_proof :: "transfer_proof fut" where
  "bob_recv_transfer_proof = call_fut CRecvTransferProof
     (\<lambda>s. map_option (\<lambda>r.
        obind (with_context ''Failed to receive transfer proof'' r) (\<lambda>proof.
        obind (with_context ''Failed to acknowledge receipt of transfer proof'' (sn_respond s)) (\<lambda>_.
        Ok proof))) (sn_transfer_proof s))"

definition bob_send_encrypted_signature :: "encsig \<Rightarrow> (request_error + unit) fut" where
  "bob_send_encrypted_signature es = call_fut (CSendEncSig es) (\<lambda>s. map_option Ok (sn_encsig_ack s))"

section \<open>The arms of next_state\<close>

definition bob_subscribe_to_lock :: "'v env \<Rightarrow> tx_lock \<Rightarrow> ('v world, subscription) io" where
  "bob_subscribe_to_lock E tx_lock =
     subscribe_to E (tx_lock_txid (e_lib E) tx_lock) (tx_lock_script_pubkey (e_lib E) tx_lock)"

definition bob_started :: "'v env \<Rightarrow> uuid \<Rightarrow> btc_amount \<Rightarrow> address \<Rightarrow> ('v world, bob_state) io" where
  "bob_started E swap_id amount change =
     bindio (perform (CEstimateFee tx_refund_weight amount) (e_estimate_fee E tx_refund_weight amount)) (\<lambda>refund_fee.
     bindio (perform (CEstimateFee tx_cancel_weight amount) (e_estimate_fee E tx_cancel_weight amount)) (\<lambda>cancel_fee.
     let ns = \<lparr>ns_swap_id = swap_id, ns_btc = amount, ns_tx_refund_fee = refund_fee,
               ns_tx_cancel_fee = cancel_fee, ns_bitcoin_refund_address = change\<rparr> in
     bindio (perform (CSetupSwap ns) (e_setup_swap E ns)) (\<lambda>state2.
     ret (BSwapSetupCompleted state2))))"

text \<open>The amount of the lock output is an argument of the progress event: finding no such output panics.\<close>

definition bob_swap_setup_completed :: "'v env \<Rightarrow> bob_state2 \<Rightarrow> ('v world, bob_state) io" where
  "bob_swap_setup_completed E st =
     bindio (perform CBlockHeight (e_block_height E)) (\<lambda>h.
     case bob_lock_btc st of (state3, tx_lock) \<Rightarrow>
     bindio (context_io ''Failed to sign Bitcoin lock transaction''
               (perform (CSignAndFinalize (tl_inner tx_lock)) (e_sign_and_finalize E (tl_inner tx_lock)))) (\<lambda>signed_tx.
     bindio (lift (tx_lock_amount (e_lib E) tx_lock)) (\<lambda>_.
     bindio (broadcast E signed_tx ''lock'') (\<lambda>_.
     ret (BBtcLocked state3 h)))))"

definition bob_btc_locked :: "'v env \<Rightarrow> uuid \<Rightarrow> bob_state3 \<Rightarrow> bdx_height \<Rightarrow> ('v world, bob_state) io" where
  "bob_btc_locked E swap_id st h =
     bindio (bob_subscribe_to_lock E (b3_tx_lock st)) (\<lambda>sub.
     bindio (bob3_expired_timelock E st) (\<lambda>t.
     case t of
       NoneExpired _ \<Rightarrow>
         bindio (context_io ''Failed to get buffered transfer proof''
                   (perform (CGetBufferedProof swap_id) (e_get_buffered_proof E swap_id))) (\<lambda>buffered.
         case buffered of
           Some proof \<Rightarrow> ret (BBeldexLockProofReceived st proof h)
         | None \<Rightarrow>
             let target = cancel_u32 (b3_cancel_timelock st) in
             select_io E [CRecvTransferProof, CWait (UntilConfirmedWith target) (sub_txid sub)] False
               bob_recv_transfer_proof
               (wait_until_confirmed_with sub target)
               (\<lambda>proof. bindio (lift proof) (\<lambda>p. ret (BBeldexLockProofReceived st p h)))
               (\<lambda>result. bindio (lift result) (\<lambda>_. ret (BCancelTimelockExpired (bob3_cancel st h)))))
     | _ \<Rightarrow> ret (BCancelTimelockExpired (bob3_cancel st h))))"

definition bob_beldex_lock_proof_received ::
  "'v env \<Rightarrow> bob_state3 \<Rightarrow> transfer_proof \<Rightarrow> bdx_height \<Rightarrow> ('v world, bob_state) io" where
  "bob_beldex_lock_proof_received E st proof h =
     bindio (bob_subscribe_to_lock E (b3_tx_lock st)) (\<lambda>sub.
     bindio (bob3_expired_timelock E st) (\<lambda>t.
     let target = cancel_u32 (b3_cancel_timelock st); cancelled = BCancelTimelockExpired (bob3_cancel st h) in
     case t of
       NoneExpired _ \<Rightarrow>
         bindio (lift (bob_lock_bdx_watch_request (e_lib E) st proof)) (\<lambda>req.
         select_io E [CWatchForTransfer req, CWait (UntilConfirmedWith target) (sub_txid sub)] False
           (watch_for_transfer req)
           (wait_until_confirmed_with sub target)
           (\<lambda>received_bdx. bindio (attempt (lift received_bdx)) (\<lambda>r.
              case r of
                Inr _ \<Rightarrow> ret (BBeldexLocked (bob_bdx_locked st h))
              | Inl insufficient \<Rightarrow>
                  bindio (await_io E [CWait (UntilConfirmedWith target) (sub_txid sub)]
                            (wait_until_confirmed_with sub target)) (\<lambda>_.
                  ret cancelled)))
           (\<lambda>result. bindio (lift result) (\<lambda>_. ret cancelled)))
     | _ \<Rightarrow> ret cancelled))"

definition bob_beldex_locked :: "'v env \<Rightarrow> bob_state4 \<Rightarrow> ('v world, bob_state) io" where
  "bob_beldex_locked E st =
     bindio (attempt (bob_check_for_tx_redeem E st)) (\<lambda>redeemed.
     case redeemed of
       Inr state5 \<Rightarrow> ret (BBtcRedeemed state5)
     | Inl _ \<Rightarrow>
         bindio (bob_subscribe_to_lock E (b4_tx_lock st)) (\<lambda>sub.
         bindio (bob4_expired_timelock E st) (\<lambda>t.
         case t of
           NoneExpired _ \<Rightarrow>
             let target = cancel_u32 (b4_cancel_timelock st) in
             bindio (lift (bob_tx_redeem_encsig (e_lib E) st)) (\<lambda>es.
             select_io E [CSendEncSig es, CWait (UntilConfirmedWith target) (sub_txid sub)] False
               (bob_send_encrypted_signature es)
               (wait_until_confirmed_with sub target)
               (\<lambda>result. bindio (lift result) (\<lambda>ack.
                  case ack of
                    Inr _ \<Rightarrow> ret (BEncSigSent st)
                  | Inl RecvTimeoutError \<Rightarrow> lift (Panic ''We construct the channel with no timeout'')
                  | Inl _ \<Rightarrow> lift (Err (Msg ''Failed to communicate encrypted signature through event loop channel''))))
               (\<lambda>result. bindio (lift result) (\<lambda>_. ret (BCancelTimelockExpired (bob4_cancel st)))))
         | _ \<Rightarrow> ret (BCancelTimelockExpired (bob4_cancel st)))))"

definition bob_enc_sig_sent :: "'v env \<Rightarrow> bob_state4 \<Rightarrow> ('v world, bob_state) io" where
  "bob_enc_sig_sent E st =
     bindio (attempt (bob_check_for_tx_redeem E st)) (\<lambda>redeemed.
     case redeemed of
       Inr state5 \<Rightarrow> ret (BBtcRedeemed state5)
     | Inl _ \<Rightarrow>
         bindio (bob_subscribe_to_lock E (b4_tx_lock st)) (\<lambda>sub.
         bindio (bob4_expired_timelock E st) (\<lambda>t.
         case t of
           NoneExpired _ \<Rightarrow>
             let target = cancel_u32 (b4_cancel_timelock st) in
             select_io E ((case bob_tx_redeem (e_lib E) st of Ok r \<Rightarrow> [CWait UntilSeen (tx_redeem_txid (e_lib E) r)] | _ \<Rightarrow> [])
                 @ [CWait (UntilConfirmedWith target) (sub_txid sub)]) False
               (bob_watch_for_redeem_btc E st)
               (wait_until_confirmed_with sub target)
               (\<lambda>state5. bindio (lift state5) (\<lambda>s5. ret (BBtcRedeemed s5)))
               (\<lambda>result. bindio (lift result) (\<lambda>_. ret (BCancelTimelockExpired (bob4_cancel st))))
         | _ \<Rightarrow> ret (BCancelTimelockExpired (bob4_cancel st)))))"

definition first_tx_hash :: "tx_hash list \<Rightarrow> tx_hash" where
  "first_tx_hash hs = (case hs of [] \<Rightarrow> TxHash ''unknown'' | x # _ \<Rightarrow> x)"

definition bob_btc_redeemed ::
  "'v env \<Rightarrow> uuid \<Rightarrow> bdx_address \<Rightarrow> bob_state5 \<Rightarrow> ('v world, bob_state) io" where
  "bob_btc_redeemed E swap_id receive_address st =
     bindio (bob_redeem_bdx E st (e_uuid_to_string E swap_id) receive_address) (\<lambda>tx_hashes.
     ret (BBeldexRedeemed (tx_lock_txid (e_lib E) (b5_tx_lock st)) (first_tx_hash tx_hashes)))"

definition bob_cancel_timelock_expired :: "'v env \<Rightarrow> bob_state6 \<Rightarrow> ('v world, bob_state) io" where
  "bob_cancel_timelock_expired E st =
     bindio (attempt (bob_check_for_tx_cancel E st)) (\<lambda>found.
     bindio (case found of
               Inr _ \<Rightarrow> ret ()
             | Inl _ \<Rightarrow> bindio (bob_submit_tx_cancel E st) (\<lambda>_. ret ())) (\<lambda>_.
     ret (BBtcCancelled st)))"

definition bob_btc_cancelled :: "'v env \<Rightarrow> bob_state6 \<Rightarrow> ('v world, bob_state) io" where
  "bob_btc_cancelled E st =
     bindio (lift (bob_construct_tx_cancel (e_lib E) st)) (\<lambda>_.
     bindio (bob6_expired_timelock E st) (\<lambda>t.
     case t of
       NoneExpired _ \<Rightarrow>
         lift (Err (Msg ''Internal error: canceled state reached before cancel timelock was expired''))
     | CancelExpired _ \<Rightarrow> bindio (bob_publish_refund_btc E st) (\<lambda>_. ret (BBtcRefunded st))
     | PunishExpired \<Rightarrow> ret (BBtcPunished st (tx_lock_txid (e_lib E) (b6_tx_lock st)))))"

definition bob_btc_refunded :: "'v env \<Rightarrow> bob_state6 \<Rightarrow> ('v world, bob_state) io" where
  "bob_btc_refunded E st =
     bindio (lift (bob_signed_refund_transaction (e_lib E) st)) (\<lambda>_. ret (BBtcRefunded st))"

definition bob_btc_punished ::
  "'v env \<Rightarrow> uuid \<Rightarrow> bdx_address \<Rightarrow> bob_state6 \<Rightarrow> txid \<Rightarrow> ('v world, bob_state) io" where
  "bob_btc_punished E swap_id receive_address st tx_lock_id =
     bindio (attempt (perform (CRequestCoopRedeem swap_id) (e_coop_redeem E swap_id))) (\<lambda>response.
     case response of
       Inr (Fullfilled _ s_a) \<Rightarrow>
         let state5 = bob6_attempt_cooperative_redeem st (PrivateKey s_a) in
         bindio (context_io ''Failed to redeem BDX with revealed BDX key''
                   (bob_redeem_bdx E state5 (e_uuid_to_string E swap_id) receive_address)) (\<lambda>tx_hashes.
         ret (BBeldexRedeemed tx_lock_id (first_tx_hash tx_hashes)))
     | Inr (Rejected _ reason) \<Rightarrow>
         lift (Err (Context ''Alice rejected our request for cooperative BDX redeem'' (Msg (reject_reason_display reason))))
     | Inl error \<Rightarrow> lift (Err (Context ''Failed to request cooperative BDX redeem from Alice'' error)))"

section \<open>The loop\<close>

definition bob_next_state ::
  "'v env \<Rightarrow> uuid \<Rightarrow> bdx_address \<Rightarrow> bob_state \<Rightarrow> ('v world, bob_state) io" where
  "bob_next_state E swap_id receive_address state = (case state of
     BStarted amount change \<Rightarrow> bob_started E swap_id amount change
   | BSwapSetupCompleted st \<Rightarrow> bob_swap_setup_completed E st
   | BBtcLocked st h \<Rightarrow> bob_btc_locked E swap_id st h
   | BBeldexLockProofReceived st proof h \<Rightarrow> bob_beldex_lock_proof_received E st proof h
   | BBeldexLocked st \<Rightarrow> bob_beldex_locked E st
   | BEncSigSent st \<Rightarrow> bob_enc_sig_sent E st
   | BBtcRedeemed st \<Rightarrow> bob_btc_redeemed E swap_id receive_address st
   | BCancelTimelockExpired st \<Rightarrow> bob_cancel_timelock_expired E st
   | BBtcCancelled st \<Rightarrow> bob_btc_cancelled E st
   | BBtcRefunded st \<Rightarrow> bob_btc_refunded E st
   | BBtcPunished st tx_lock_id \<Rightarrow> bob_btc_punished E swap_id receive_address st tx_lock_id
   | BSafelyAborted \<Rightarrow> ret BSafelyAborted
   | BBeldexRedeemed tx_lock_id bdx_redeem_txid \<Rightarrow> ret (BBeldexRedeemed tx_lock_id bdx_redeem_txid))"

definition bob_step :: "'v env \<Rightarrow> uuid \<Rightarrow> bdx_address \<Rightarrow> bob_state \<Rightarrow> ('v world, bob_state) io" where
  "bob_step E swap_id receive_address =
     step_and_save (bob_next_state E swap_id receive_address) (\<lambda>s. insert_latest_state E swap_id (SBob s))"

text \<open>The loop ends early, with the state it is in, when a run-at-most-once state does not change.\<close>

partial_function (option) bob_run_until ::
  "'v env \<Rightarrow> uuid \<Rightarrow> bdx_address \<Rightarrow> (bob_state \<Rightarrow> bool) \<Rightarrow> bob_state \<Rightarrow> 'v world \<Rightarrow>
   (bob_state outcome \<times> 'v world) option" where
  "bob_run_until E swap_id receive_address is_target_state s w =
     (if is_target_state s then Some (Ok s, w)
      else case bob_step E swap_id receive_address s w of
        (Ok s', w') \<Rightarrow>
          if bob_is_run_at_most_once s \<and> s' = s then Some (Ok s, w')
          else bob_run_until E swap_id receive_address is_target_state s' w'
      | (Err e, w') \<Rightarrow> Some (Err e, w')
      | (Panic p, w') \<Rightarrow> Some (Panic p, w')
      | (Pending, w') \<Rightarrow> Some (Pending, w'))"

definition bob_run ::
  "'v env \<Rightarrow> uuid \<Rightarrow> bdx_address \<Rightarrow> bob_state \<Rightarrow> 'v world \<Rightarrow> (bob_state outcome \<times> 'v world) option" where
  "bob_run E swap_id receive_address = bob_run_until E swap_id receive_address bob_is_complete"

end
