(* ===== verification/Bob_Machine.thy ===== *)
theory Bob_Machine
  imports Bob_Swap
begin

text \<open>
  Bob's swap as a state machine: the abstract transition relation \<open>bob_edge\<close>, which \<open>next_state\<close>
  refines, the interpretation of the loop's contract on it, and the calls each state may make.
\<close>

section \<open>The abstract machine\<close>

text \<open>Which state can follow which, and with which data.\<close>

inductive bob_edge :: "lib \<Rightarrow> bob_state \<Rightarrow> bob_state \<Rightarrow> bool" for L :: lib where
  setup_done: "bob_edge L (BStarted a c) (BSwapSetupCompleted st2)"
| lock: "bob_edge L (BSwapSetupCompleted st2) (BBtcLocked (fst (bob_lock_btc st2)) h)"
| proof_received: "bob_edge L (BBtcLocked st h) (BBeldexLockProofReceived st p h)"
| cancel_locked: "bob_edge L (BBtcLocked st h) (BCancelTimelockExpired (bob3_cancel st h))"
| bdx_locked: "bob_edge L (BBeldexLockProofReceived st p h) (BBeldexLocked (bob_bdx_locked st h))"
| cancel_proof: "bob_edge L (BBeldexLockProofReceived st p h) (BCancelTimelockExpired (bob3_cancel st h))"
| redeemed_early: "bob_edge L (BBeldexLocked st4) (BBtcRedeemed (bob6_attempt_cooperative_redeem (bob4_cancel st4) s_a))"
| encsig_sent: "bob_edge L (BBeldexLocked st4) (BEncSigSent st4)"
| cancel_bdx: "bob_edge L (BBeldexLocked st4) (BCancelTimelockExpired (bob4_cancel st4))"
| redeemed: "bob_edge L (BEncSigSent st4) (BBtcRedeemed (bob6_attempt_cooperative_redeem (bob4_cancel st4) s_a))"
| cancel_encsig: "bob_edge L (BEncSigSent st4) (BCancelTimelockExpired (bob4_cancel st4))"
| bdx_redeemed: "bob_edge L (BBtcRedeemed st5) (BBeldexRedeemed (tx_lock_txid L (b5_tx_lock st5)) x)"
| cancelled: "bob_edge L (BCancelTimelockExpired st6) (BBtcCancelled st6)"
| refunded: "bob_edge L (BBtcCancelled st6) (BBtcRefunded st6)"
| punished: "bob_edge L (BBtcCancelled st6) (BBtcPunished st6 (tx_lock_txid L (b6_tx_lock st6)))"
| cooperative: "bob_edge L (BBtcPunished st6 t) (BBeldexRedeemed t x)"

inductive_cases bob_edge_fromE [elim!]:
  "bob_edge L (BStarted a c) s'" "bob_edge L (BSwapSetupCompleted st2) s'"
  "bob_edge L (BBtcLocked st h) s'" "bob_edge L (BBeldexLockProofReceived st p h) s'"
  "bob_edge L (BBeldexLocked st4) s'" "bob_edge L (BEncSigSent st4) s'"
  "bob_edge L (BBtcRedeemed st5) s'" "bob_edge L (BCancelTimelockExpired st6) s'"
  "bob_edge L (BBtcCancelled st6) s'" "bob_edge L (BBtcRefunded st6) s'"
  "bob_edge L (BBtcPunished st6 t) s'" "bob_edge L (BBeldexRedeemed t x) s'"
  "bob_edge L BSafelyAborted s'"

inductive_simps bob_edge_to_simps:
  "bob_edge L s (BBeldexLocked st4)" "bob_edge L s (BEncSigSent st4)" "bob_edge L s (BBtcRedeemed st5)"
  "bob_edge L s (BBtcRefunded st6)" "bob_edge L s (BBtcCancelled st6)"
  "bob_edge L s (BBtcPunished st6 t)" "bob_edge L s (BBtcLocked st h)"

definition bob_rank :: "bob_state \<Rightarrow> nat" where
  "bob_rank s = (case s of
     BStarted _ _ \<Rightarrow> 10
   | BSwapSetupCompleted _ \<Rightarrow> 9
   | BBtcLocked _ _ \<Rightarrow> 8
   | BBeldexLockProofReceived _ _ _ \<Rightarrow> 7
   | BBeldexLocked _ \<Rightarrow> 6
   | BEncSigSent _ \<Rightarrow> 5
   | BCancelTimelockExpired _ \<Rightarrow> 4
   | BBtcCancelled _ \<Rightarrow> 3
   | BBtcPunished _ _ \<Rightarrow> 2
   | BBtcRedeemed _ \<Rightarrow> 1
   | _ \<Rightarrow> 0)"

lemma bob_edge_rank: "bob_edge L s s' \<Longrightarrow> bob_rank s' < bob_rank s"
  by (induction rule: bob_edge.induct) (simp_all add: bob_rank_def)

section \<open>next_state refines the abstract machine\<close>

lemma bob_started_edge: "returns (bob_edge L (BStarted a c)) (bob_started E i a c)"
  unfolding bob_started_def Let_def by (auto intro!: returns_rules bob_edge.intros)

lemma bob_swap_setup_completed_edge:
  "returns (bob_edge L (BSwapSetupCompleted st)) (bob_swap_setup_completed E st)"
proof -
  obtain st3 l where l: "bob_lock_btc st = (st3, l)" by fastforce
  have "bob_edge L (BSwapSetupCompleted st) (BBtcLocked st3 x)" for x
    using bob_edge.lock[of L st x] by (simp add: l)
  thus ?thesis
    unfolding bob_swap_setup_completed_def l by (auto intro!: returns_rules)
qed

lemma bob_btc_locked_edge: "returns (bob_edge L (BBtcLocked st h)) (bob_btc_locked E i st h)"
  unfolding bob_btc_locked_def Let_def
  by (auto intro!: returns_rules bob_edge.intros simp del: lift_apply split: expired_timelocks.split option.split)

lemma bob_beldex_lock_proof_received_edge:
  "returns (bob_edge L (BBeldexLockProofReceived st p h)) (bob_beldex_lock_proof_received E st p h)"
  unfolding bob_beldex_lock_proof_received_def Let_def
  by (auto intro!: returns_rules bob_edge.intros simp del: lift_apply split: expired_timelocks.split sum.split)

lemma bob_state5_from_sig_OkD:
  "bob_state5_from_sig L st es x = Ok s5 \<Longrightarrow> \<exists>k. s5 = bob6_attempt_cooperative_redeem (bob4_cancel st) k"
  by (auto simp: bob_state5_from_sig_def bob6_attempt_cooperative_redeem_def bob4_cancel_def outcome_rules)

lemma bob_scan_for_redeem_OkD:
  "bob_scan_for_redeem E st r es hs w = (Ok s5, w') \<Longrightarrow>
   \<exists>k. s5 = bob6_attempt_cooperative_redeem (bob4_cancel st) k"
  by (induction hs arbitrary: w)
    (auto simp: outcome_rules dest: bob_state5_from_sig_OkD)

lemma bob_check_for_tx_redeem_OkD:
  "bob_check_for_tx_redeem E st w = (Ok s5, w') \<Longrightarrow>
   \<exists>k. s5 = bob6_attempt_cooperative_redeem (bob4_cancel st) k"
  by (auto simp: bob_check_for_tx_redeem_def outcome_rules dest: bob_scan_for_redeem_OkD)

lemma bob_fetch_redeem_OkD:
  "bob_fetch_redeem L st r s j = (Some (Ok s5), j', evs) \<Longrightarrow>
   \<exists>tx sig es. sn_tx s = Some (Ok (Some tx)) \<and>
     tx_redeem_extract_signature_by_key L r tx (public (b4_b st)) = Ok sig \<and>
     bob_tx_redeem_encsig L st = Ok es \<and> bob_state5_from_sig L st es sig = Ok s5"
  by (auto simp: bob_fetch_redeem_def bob_redeem_from_tx_def outcome_rules split: option.splits)

lemma bob_watch_for_redeem_btc_OkD:
  assumes "bob_watch_for_redeem_btc E st s j = (Some (Ok s5), j', evs)"
  shows "\<exists>r tx sig es. bob_tx_redeem (e_lib E) st = Ok r \<and> sn_tx s = Some (Ok (Some tx)) \<and>
     tx_redeem_extract_signature_by_key (e_lib E) r tx (public (b4_b st)) = Ok sig \<and>
     bob_tx_redeem_encsig (e_lib E) st = Ok es \<and> bob_state5_from_sig (e_lib E) st es sig = Ok s5"
  using assms
  by (auto simp: bob_watch_for_redeem_btc_def Let_def
      split: outcome.splits if_splits prod.splits option.splits dest!: bob_fetch_redeem_OkD)

lemma bob_check_for_tx_redeem_returns:
  "returns (\<lambda>s5. \<exists>k. s5 = bob6_attempt_cooperative_redeem (bob4_cancel st) k) (bob_check_for_tx_redeem E st)"
  unfolding returns_def using bob_check_for_tx_redeem_OkD by blast

lemma bob_watch_for_redeem_btc_returns:
  "fut_returns (\<lambda>s5. \<exists>k. s5 = bob6_attempt_cooperative_redeem (bob4_cancel st) k) (bob_watch_for_redeem_btc E st)"
  unfolding fut_returns_def
proof (intro allI impI)
  fix s j s5
  assume "fst (bob_watch_for_redeem_btc E st s j) = Some (Ok s5)"
  then obtain j' evs where "bob_watch_for_redeem_btc E st s j = (Some (Ok s5), j', evs)"
    by (metis prod.collapse)
  thus "\<exists>k. s5 = bob6_attempt_cooperative_redeem (bob4_cancel st) k"
    using bob_watch_for_redeem_btc_OkD bob_state5_from_sig_OkD by blast
qed

lemma bob_beldex_locked_edge: "returns (bob_edge L (BBeldexLocked st)) (bob_beldex_locked E st)"
  unfolding bob_beldex_locked_def Let_def
  by (rule returns_bindio_attempt[OF bob_check_for_tx_redeem_returns])
    (auto intro!: returns_rules bob_edge.intros simp del: lift_apply
      split: expired_timelocks.split sum.split request_error.split)

lemma bob_enc_sig_sent_edge: "returns (bob_edge L (BEncSigSent st)) (bob_enc_sig_sent E st)"
proof -
  let ?Q = "bob_edge L (BEncSigSent st)"
  have wait: "fut_returns (\<lambda>_. True) (wait_until_confirmed_with sub t)" for sub t
    by (simp add: fut_returns_def)
  have sel: "returns ?Q (select_io E cs False (bob_watch_for_redeem_btc E st) (wait_until_confirmed_with sub t)
      (\<lambda>state5. bindio (lift state5) (\<lambda>s5. ret (BBtcRedeemed s5)))
      (\<lambda>result. bindio (lift result) (\<lambda>_. ret (BCancelTimelockExpired (bob4_cancel st)))))" for cs sub t
  proof (rule returns_select_io_futs[OF bob_watch_for_redeem_btc_returns wait], goal_cases)
    case (1 x)
    thus ?case by (auto simp: returns_def bindio_eq_Ok intro: bob_edge.intros)
  qed (auto intro!: returns_rules bob_edge.intros simp del: lift_apply)
  show ?thesis
    unfolding bob_enc_sig_sent_def Let_def
    by (rule returns_bindio_attempt[OF bob_check_for_tx_redeem_returns])
      (auto intro!: returns_bindio sel returns_ret bob_edge.intros simp del: lift_apply split: expired_timelocks.split)
qed

lemma bob_btc_redeemed_edge:
  "returns (bob_edge (e_lib E) (BBtcRedeemed st)) (bob_btc_redeemed E i a st)"
  unfolding bob_btc_redeemed_def by (auto intro!: returns_rules bob_edge.intros)

lemma bob_cancel_timelock_expired_edge:
  "returns (bob_edge L (BCancelTimelockExpired st)) (bob_cancel_timelock_expired E st)"
  unfolding bob_cancel_timelock_expired_def by (auto intro!: returns_rules bob_edge.intros)

lemma bob_btc_cancelled_edge:
  "returns (bob_edge (e_lib E) (BBtcCancelled st)) (bob_btc_cancelled E st)"
  unfolding bob_btc_cancelled_def
  by (auto intro!: returns_rules bob_edge.intros simp del: lift_apply split: expired_timelocks.split)

lemma bob_btc_punished_edge:
  "returns (bob_edge L (BBtcPunished st t)) (bob_btc_punished E i a st t)"
  unfolding bob_btc_punished_def Let_def
  by (auto intro!: returns_rules bob_edge.intros simp del: lift_apply split: sum.split coop_response.split)

lemmas bob_arm_edges = bob_started_edge bob_swap_setup_completed_edge bob_btc_locked_edge
  bob_beldex_lock_proof_received_edge bob_beldex_locked_edge bob_enc_sig_sent_edge
  bob_btc_redeemed_edge bob_cancel_timelock_expired_edge bob_btc_cancelled_edge bob_btc_punished_edge

lemma bob_next_state_edge:
  assumes "\<not> bob_is_complete s" "bob_next_state E i a s w = (Ok s', w')"
  shows "bob_edge (e_lib E) s s'"
  using assms
  by (cases s) (simp_all add: bob_next_state_def bob_is_complete_def bob_arm_edges[THEN returnsD])

lemma bob_step_OkD:
  assumes "bob_step E i a s w = (Ok s', w')"
  obtains w1 v' where "bob_next_state E i a s w = (Ok s', w1)"
    "w' = w1\<lparr>w_log := w_log w1 @ [Done (CInsertLatestState i (SBob s'))], w_ext := v'\<rparr>"
  using step_and_save_OkD[of _ _ s w s' w'] assms
  by (fastforce simp: bob_step_def insert_latest_state_def outcome_rules)

lemma bob_step_edge:
  "\<not> bob_is_complete s \<Longrightarrow> bob_step E i a s w = (Ok s', w') \<Longrightarrow> bob_edge (e_lib E) s s'"
  by (auto elim!: bob_step_OkD intro: bob_next_state_edge)

section \<open>The loop\<close>

text \<open>The early exit of the loop is never taken: a step from an incomplete state changes it.\<close>

lemma bob_step_changes:
  "\<not> bob_is_complete s \<Longrightarrow> bob_step E i a s w = (Ok s', w') \<Longrightarrow> s' \<noteq> s"
  using bob_step_edge bob_edge_rank by blast

lemma bob_run_until_unfold:
  "bob_run_until E i a (\<lambda>s. bob_is_complete s \<or> exit_early s) s w =
      (if bob_is_complete s \<or> exit_early s then Some (Ok s, w)
       else case bob_step E i a s w of
         (Ok s', w') \<Rightarrow> bob_run_until E i a (\<lambda>s. bob_is_complete s \<or> exit_early s) s' w'
       | (Err e, w') \<Rightarrow> Some (Err e, w')
       | (Panic p, w') \<Rightarrow> Some (Panic p, w')
       | (Pending, w') \<Rightarrow> Some (Pending, w'))"
  by (subst bob_run_until.simps)
    (auto split: prod.split outcome.split dest: bob_step_changes)

interpretation bob_loop:
  ranked_machine "bob_step E i a" "\<lambda>s. bob_is_complete s \<or> exit_early s" bob_rank
    "bob_run_until E i a (\<lambda>s. bob_is_complete s \<or> exit_early s)"
  for E :: "'v env" and i a exit_early
proof
  fix s w s' w'
  assume "\<not> (bob_is_complete s \<or> exit_early s)" "bob_step E i a s w = (Ok s', w')"
  thus "bob_rank s' < bob_rank s"
    using bob_step_edge bob_edge_rank by blast
qed (rule bob_run_until_unfold)

section \<open>What each state may do\<close>

definition bob_calls :: "bob_state \<Rightarrow> call \<Rightarrow> bool" where
  "bob_calls s c = (case c of
     CSubscribe _ _ \<Rightarrow> True
   | CWait _ _ \<Rightarrow> True
   | CStatusOfScript _ _ \<Rightarrow> True
   | CScriptHistory _ \<Rightarrow> True
   | CGetTx _ \<Rightarrow> True
   | CEstimateFee _ _ \<Rightarrow> (case s of BStarted _ _ \<Rightarrow> True | _ \<Rightarrow> False)
   | CSetupSwap ns \<Rightarrow> (case s of BStarted amount change \<Rightarrow> ns_btc ns = amount \<and> ns_bitcoin_refund_address ns = change | _ \<Rightarrow> False)
   | CBlockHeight \<Rightarrow> (case s of BSwapSetupCompleted _ \<Rightarrow> True | _ \<Rightarrow> False)
   | CSignAndFinalize p \<Rightarrow> (case s of BSwapSetupCompleted st \<Rightarrow> p = tl_inner (b2_tx_lock st) | _ \<Rightarrow> False)
   | CBroadcast _ k \<Rightarrow>
       (case s of BSwapSetupCompleted _ \<Rightarrow> k = ''lock'' | BCancelTimelockExpired _ \<Rightarrow> k = ''cancel''
        | BBtcCancelled _ \<Rightarrow> k = ''refund'' | _ \<Rightarrow> False)
   | CGetBufferedProof _ \<Rightarrow> (case s of BBtcLocked _ _ \<Rightarrow> True | _ \<Rightarrow> False)
   | CRecvTransferProof \<Rightarrow> (case s of BBtcLocked _ _ \<Rightarrow> True | _ \<Rightarrow> False)
   | CWatchForTransfer r \<Rightarrow>
       (case s of BBeldexLockProofReceived st p _ \<Rightarrow> wrq_transfer_proof r = p \<and> wrq_expected r = b3_bdx st
        | _ \<Rightarrow> False)
   | CSendEncSig _ \<Rightarrow> (case s of BBeldexLocked _ \<Rightarrow> True | _ \<Rightarrow> False)
   | CCreateFromAndLoad _ _ _ _ \<Rightarrow> (case s of BBtcRedeemed _ \<Rightarrow> True | BBtcPunished _ _ \<Rightarrow> True | _ \<Rightarrow> False)
   | COpenWallet _ \<Rightarrow> (case s of BBtcRedeemed _ \<Rightarrow> True | BBtcPunished _ _ \<Rightarrow> True | _ \<Rightarrow> False)
   | CRefresh _ \<Rightarrow> (case s of BBtcRedeemed _ \<Rightarrow> True | BBtcPunished _ _ \<Rightarrow> True | _ \<Rightarrow> False)
   | CSweepAll _ \<Rightarrow> (case s of BBtcRedeemed _ \<Rightarrow> True | BBtcPunished _ _ \<Rightarrow> True | _ \<Rightarrow> False)
   | CRequestCoopRedeem _ \<Rightarrow> (case s of BBtcPunished _ _ \<Rightarrow> True | _ \<Rightarrow> False)
   | _ \<Rightarrow> False)"

lemma emits_script_history_for [emits_rules]:
  "P (Done (CScriptHistory s)) \<Longrightarrow> P (Failed (CScriptHistory s)) \<Longrightarrow> P (Begun (CScriptHistory s)) \<Longrightarrow>
   emits P (script_history_for E s)"
  unfolding script_history_for_def by (intro emits_rules)

lemma makes_bob_scan_for_redeem [emits_rules]:
  "(\<And>i. Q (CGetTx i)) \<Longrightarrow> makes Q (bob_scan_for_redeem E st r es hs)"
  by (induction hs) (auto intro!: emits_rules split: sum.split simp del: lift_apply)

lemma makes_bob_first_found [emits_rules]:
  "(\<And>i. Q (CGetTx i)) \<Longrightarrow> makes Q (bob_first_found E n hs)"
  by (induction hs) (auto intro!: emits_rules split: sum.split simp del: lift_apply ret_apply)

lemma makes_bob_expired_timelock [emits_rules]:
  "(\<And>i s. Q (CStatusOfScript i s)) \<Longrightarrow> makes Q (bob3_expired_timelock E st3)"
  "(\<And>i s. Q (CStatusOfScript i s)) \<Longrightarrow> makes Q (bob4_expired_timelock E st4)"
  "(\<And>i s. Q (CStatusOfScript i s)) \<Longrightarrow> makes Q (bob6_expired_timelock E st6)"
  unfolding bob3_expired_timelock_def bob4_expired_timelock_def bob6_expired_timelock_def
    bob_expired_timelock_of_def Let_def
  by (intro emits_rules; simp)+

lemma makes_bob_check_for_tx_redeem [emits_rules]:
  "(\<And>i. Q (CGetTx i)) \<Longrightarrow> (\<And>s. Q (CScriptHistory s)) \<Longrightarrow> makes Q (bob_check_for_tx_redeem E st)"
  unfolding bob_check_for_tx_redeem_def by (intro emits_rules) simp_all

lemma makes_bob_check_for_tx_refund [emits_rules]:
  "(\<And>i. Q (CGetTx i)) \<Longrightarrow> (\<And>s. Q (CScriptHistory s)) \<Longrightarrow> makes Q (bob_check_for_tx_refund E st)"
  unfolding bob_check_for_tx_refund_def by (intro emits_rules) simp_all

lemma makes_bob_check_for_tx_cancel [emits_rules]:
  "(\<And>i. Q (CGetTx i)) \<Longrightarrow> (\<And>s. Q (CScriptHistory s)) \<Longrightarrow> makes Q (bob_check_for_tx_cancel E st)"
  unfolding bob_check_for_tx_cancel_def by (intro emits_rules) simp_all

lemma makes_bob_redeem_bdx [emits_rules]:
  "(\<And>f k v h. Q (CCreateFromAndLoad f k v h)) \<Longrightarrow> (\<And>f. Q (COpenWallet f)) \<Longrightarrow> (\<And>n. Q (CRefresh n)) \<Longrightarrow>
   (\<And>x. Q (CSweepAll x)) \<Longrightarrow> makes Q (bob_redeem_bdx E st f a)"
  unfolding bob_redeem_bdx_def by (auto split: prod.split sum.split intro!: emits_rules simp del: ret_apply)

lemma fut_emits_bob [emits_rules]:
  "Q CRecvTransferProof \<Longrightarrow> fut_emits (\<lambda>e. Q (event_call e)) bob_recv_transfer_proof"
  "Q (CSendEncSig es) \<Longrightarrow> fut_emits (\<lambda>e. Q (event_call e)) (bob_send_encrypted_signature es)"
  unfolding bob_recv_transfer_proof_def bob_send_encrypted_signature_def
  by (intro emits_rules; simp)+

lemma event_call_event_of [simp]: "event_call (event_of c r) = c"
  by (cases r) simp_all

lemma fut_emits_bob_watch_for_redeem_btc [emits_rules]:
  assumes "\<And>i s. Q (CSubscribe i s)" "\<And>k i. Q (CWait k i)" "\<And>i. Q (CGetTx i)"
  shows "fut_emits (\<lambda>e. Q (event_call e)) (bob_watch_for_redeem_btc E st)"
proof -
  have "fut_emits (\<lambda>e. Q (event_call e)) (wait_until_seen sub)" for sub
    using assms by (intro emits_rules) simp
  hence w: "list_all (\<lambda>e. Q (event_call e)) (snd (snd (wait_until_seen sub s j)))" for sub s j
    by (simp add: fut_emits_def)
  have f: "list_all (\<lambda>e. Q (event_call e)) (snd (snd (bob_fetch_redeem L st r s j)))" for L r s j
    using assms by (simp add: bob_fetch_redeem_def split: option.split)
  show ?thesis
    unfolding fut_emits_def bob_watch_for_redeem_btc_def Let_def
    using assms w f
    by (auto split: outcome.split option.split prod.split) (metis snd_conv)+
qed

lemma emits_bindio_lift: "(\<And>x. m = Ok x \<Longrightarrow> emits P (f x)) \<Longrightarrow> emits P (bindio (lift m) f)"
  by (cases m) (auto simp: logs_def bindio_def)

lemma bob_beldex_lock_proof_received_calls:
  "makes (bob_calls (BBeldexLockProofReceived st p h)) (bob_beldex_lock_proof_received E st p h)"
proof -
  let ?Q = "\<lambda>e. bob_calls (BBeldexLockProofReceived st p h) (event_call e)"
  have lock: "emits ?Q (bob_subscribe_to_lock E t)" for t
    unfolding bob_subscribe_to_lock_def by (intro emits_rules) (simp add: bob_calls_def)
  have watch: "emits ?Q (bindio (lift (bob_lock_bdx_watch_request (e_lib E) st p)) (\<lambda>req.
         select_io E (cs req) False (watch_for_transfer req) (wait_until_confirmed_with sub t)
           (\<lambda>received_bdx. bindio (attempt (lift received_bdx)) (\<lambda>r.
              case r of
                Inr _ \<Rightarrow> ret (BBeldexLocked (bob_bdx_locked st h))
              | Inl insufficient \<Rightarrow>
                  bindio (await_io E cs' (wait_until_confirmed_with sub t)) (\<lambda>_. ret cancelled)))
           (\<lambda>result. bindio (lift result) (\<lambda>_. ret cancelled))))" for cs cs' sub t cancelled
  proof (rule emits_bindio_lift)
    fix req
    assume "bob_lock_bdx_watch_request (e_lib E) st p = Ok req"
    hence "wrq_transfer_proof req = p" "wrq_expected req = b3_bdx st"
      by (auto simp: bob_lock_bdx_watch_request_def Let_def outcome_rules)
    thus "emits ?Q (select_io E (cs req) False (watch_for_transfer req) (wait_until_confirmed_with sub t)
           (\<lambda>received_bdx. bindio (attempt (lift received_bdx)) (\<lambda>r.
              case r of
                Inr _ \<Rightarrow> ret (BBeldexLocked (bob_bdx_locked st h))
              | Inl insufficient \<Rightarrow>
                  bindio (await_io E cs' (wait_until_confirmed_with sub t)) (\<lambda>_. ret cancelled)))
           (\<lambda>result. bindio (lift result) (\<lambda>_. ret cancelled)))"
      by (auto intro!: emits_rules simp: bob_calls_def simp del: lift_apply ret_apply split: sum.split)
  qed
  have status: "emits ?Q (bob3_expired_timelock E st)"
    by (rule makes_bob_expired_timelock(1)) (simp add: bob_calls_def)
  show ?thesis
    unfolding bob_beldex_lock_proof_received_def Let_def
    by (rule emits_bindio[OF lock], rule emits_bindio[OF status])
      (auto intro!: watch emits_ret split: expired_timelocks.split simp del: ret_apply)
qed

lemma bob_next_state_calls: "makes (bob_calls s) (bob_next_state E i a s)"
proof (cases s)
  case (BBeldexLockProofReceived st p h)
  thus ?thesis using bob_beldex_lock_proof_received_calls[of st p h E] by (simp add: bob_next_state_def)
next
  case (BSwapSetupCompleted st)
  obtain st3 l where l: "bob_lock_btc st = (st3, l)" "l = b2_tx_lock st"
    by (simp add: bob_lock_btc_def)
  show ?thesis
    by (auto simp: BSwapSetupCompleted bob_next_state_def bob_swap_setup_completed_def l bob_calls_def
        simp del: ret_apply intro!: emits_rules split: prod.split)
qed (auto simp: bob_next_state_def bob_started_def bob_btc_locked_def bob_beldex_locked_def
    bob_enc_sig_sent_def bob_btc_redeemed_def bob_cancel_timelock_expired_def bob_btc_cancelled_def
    bob_btc_refunded_def bob_btc_punished_def bob_publish_refund_btc_def bob_submit_tx_cancel_def
    bob_subscribe_to_lock_def bob_calls_def Let_def simp del: lift_apply ret_apply
    intro!: emits_rules
    split: option.split expired_timelocks.split sum.split prod.split request_error.split coop_response.split)

end
