(* ===== verification/Bob_Properties.thy ===== *)
theory Bob_Properties
  imports Bob_Machine Sample_World
begin

text \<open>
  The properties of Bob's swap: termination and the possible ends of a run, what must have happened
  before he sends his encrypted signature or takes his bitcoin back, what he stores, and the
  behaviour of his checks for transactions that are already on the chain.
\<close>

section \<open>Termination and refinement\<close>

text \<open>
  C11: Bob's swap always ends: from any state and whatever the environment answers, \<open>run\<close> returns
  after finitely many steps, with an error, a panic or a pending await of one step, or with a state
  that is complete. In particular a run never loops in \<open>BtcPunished\<close>.
\<close>

theorem bob_run_total:
  "\<exists>r w'. bob_run E i a s w = Some (r, w') \<and>
     (case r of Ok s' \<Rightarrow> bob_is_complete s' | _ \<Rightarrow> True)"
proof -
  obtain r w' where r: "bob_run E i a s w = Some (r, w')"
    using bob_loop.run_returns[of E i a "\<lambda>_. False" s w] by (auto simp: bob_run_def)
  thus ?thesis
    using bob_loop.run_stops[of E i a "\<lambda>_. False" s w _ w'] by (cases r) (auto simp: bob_run_def)
qed

text \<open>
  C13: \<open>next_state\<close> refines the abstract machine of Bob's side: a step from a state that is not
  complete follows an edge, so no phase is skipped and the keys, signatures, timelocks and restore
  height he agreed on are carried over unchanged.
\<close>

theorem bob_next_state_refines:
  assumes "bob_next_state E i a s w = (Ok s', w')" and "\<not> bob_is_complete s"
  shows "bob_edge (e_lib E) s s'"
  using bob_next_state_edge assms by blast

lemma sample_bob_started:
  "bob_next_state dead_env 7 a (BStarted 5000 (sample_address 13)) start_world =
     (Ok (BSwapSetupCompleted sample_bob2), start_world\<lparr>w_log :=
       [Done (CEstimateFee tx_refund_weight 5000), Done (CEstimateFee tx_cancel_weight 5000),
        Done (CSetupSwap \<lparr>ns_swap_id = 7, ns_btc = 5000, ns_tx_refund_fee = 100,
          ns_tx_cancel_fee = 100, ns_bitcoin_refund_address = sample_address 13\<rparr>)]\<rparr>)"
  by (simp add: bob_next_state_def bob_started_def Let_def bindio_def perform_def start_world_def)

theorem bob_next_state_refines_witness:
  "bob_edge sample_lib (BStarted 5000 (sample_address 13)) (BSwapSetupCompleted sample_bob2)"
  using bob_next_state_refines[OF sample_bob_started] by (simp add: bob_is_complete_def)

text \<open>
  each state of Bob's swap is limited to its own actions: the lock transaction is only signed
  and broadcast from \<open>SwapSetupCompleted\<close>, the encrypted signature only sent from \<open>BeldexLocked\<close>,
  the cancel transaction only broadcast from \<open>CancelTimelockExpired\<close>, the refund transaction only from
  \<open>BtcCancelled\<close>, and the wallet of the shared output only opened from \<open>BtcRedeemed\<close> or
  \<open>BtcPunished\<close>.
\<close>

theorem bob_next_state_actions:
  "\<exists>evs. w_log (snd (bob_next_state E i a s w)) = w_log w @ evs \<and>
     list_all (\<lambda>e. bob_calls s (event_call e)) evs"
  using bob_next_state_calls[of s E i a] by (simp add: logs_def)

lemma bob_step_logs:
  assumes "bob_step E i a s w = (r, w')"
  shows "\<exists>evs. w_log w' = w_log w @ evs \<and>
    list_all (\<lambda>e. bob_calls s (event_call e) \<or> (\<exists>x. event_call e = CInsertLatestState i x)) evs"
proof -
  have "emits (\<lambda>e. bob_calls s (event_call e) \<or> (\<exists>x. event_call e = CInsertLatestState i x)) (bob_step E i a s)"
    unfolding bob_step_def step_and_save_def insert_latest_state_def
    by (intro emits_rules emits_weaken[OF bob_next_state_calls]) auto
  thus ?thesis using assms logsD by blast
qed

section \<open>The encrypted signature\<close>

text \<open>
  A log in which every attempt to send the encrypted signature comes after the transfer of the
  Beldex has been verified.
\<close>

fun watched_first :: "(watch_request \<Rightarrow> bool) \<Rightarrow> event list \<Rightarrow> bool" where
  "watched_first W [] \<longleftrightarrow> True"
| "watched_first W (e # evs) \<longleftrightarrow>
     (\<exists>req. e = Done (CWatchForTransfer req) \<and> W req) \<or>
     (\<not> (\<exists>es. event_call e = CSendEncSig es) \<and> watched_first W evs)"

definition no_encsig :: "event list \<Rightarrow> bool" where
  "no_encsig evs \<longleftrightarrow> list_all (\<lambda>e. \<not> (\<exists>es. event_call e = CSendEncSig es)) evs"

lemma watched_first_no_encsig: "no_encsig evs \<Longrightarrow> watched_first W evs"
  by (induction evs) (auto simp: no_encsig_def)

lemma watched_first_append:
  "no_encsig xs \<Longrightarrow> watched_first W ys \<Longrightarrow> watched_first W (xs @ ys)"
  by (induction xs) (auto simp: no_encsig_def)

lemma watched_first_prefix:
  "no_encsig xs \<Longrightarrow> Done (CWatchForTransfer req) \<in> set xs \<Longrightarrow> W req \<Longrightarrow> watched_first W (xs @ ys)"
  by (induction xs) (auto simp: no_encsig_def)

lemma bob_step_no_encsig:
  assumes "bob_step E i a s w = (r, w')" and "\<not> (\<exists>st. s = BBeldexLocked st)"
  shows "\<exists>evs. w_log w' = w_log w @ evs \<and> no_encsig evs"
proof -
  obtain evs where evs: "w_log w' = w_log w @ evs"
    "list_all (\<lambda>e. bob_calls s (event_call e) \<or> (\<exists>x. event_call e = CInsertLatestState i x)) evs"
    using bob_step_logs[OF assms(1)] by blast
  have "\<not> bob_calls s (CSendEncSig es)" for es
    using assms(2) by (cases s) (auto simp: bob_calls_def)
  hence "no_encsig evs" using evs(2) by (auto simp: no_encsig_def list_all_iff)
  thus ?thesis using evs(1) by blast
qed

lemma call_fut_Some:
  "fst (call_fut c reply s j) = Some x \<Longrightarrow> reply s = Some x \<and> event_of c x \<in> set (snd (snd (call_fut c reply s j)))"
  by (auto simp: call_fut_def Let_def split: option.splits)

text \<open>The environment has confirmed a transfer.\<close>

definition transfer_confirmed :: "'v env \<Rightarrow> bool" where
  "transfer_confirmed E \<longleftrightarrow> (\<exists>cs v. \<exists>s\<in>set (fst (e_polls E cs v)). sn_bdx s = Some (Ok ()))"

lemma select2_watch_Inl:
  assumes "select2 b (watch_for_transfer req) g 0 0 ss = (Some (Inl (Ok ())), evs)"
    and "e_polls E cs v = (ss, v')"
  shows "Done (CWatchForTransfer req) \<in> set evs \<and> transfer_confirmed E"
proof -
  obtain s j pre where s: "s \<in> set ss" "fst (watch_for_transfer req s j) = Some (Ok ())"
    "evs = pre @ snd (snd (watch_for_transfer req s j))"
    using select2_InlD[OF assms(1)] by blast
  have "s \<in> set (fst (e_polls E cs v))" using s(1) assms(2) by simp
  thus ?thesis
    using s(3) call_fut_Some[OF s(2)[unfolded watch_for_transfer_def]]
    by (auto simp: watch_for_transfer_def transfer_confirmed_def)
qed

definition watched_transfer ::
  "'v env \<Rightarrow> bob_state3 \<Rightarrow> transfer_proof \<Rightarrow> bob_state outcome \<Rightarrow> event list \<Rightarrow> bool" where
  "watched_transfer E st p r evs \<longleftrightarrow> ((\<exists>st4. r = Ok (BBeldexLocked st4)) \<longrightarrow>
     (\<exists>req. bob_lock_bdx_watch_request (e_lib E) st p = Ok req \<and>
        Done (CWatchForTransfer req) \<in> set evs \<and> transfer_confirmed E))"

lemma watched_transfer_closed: "prefix_closed (watched_transfer E st p)"
  by (auto simp: prefix_closed_def watched_transfer_def)

lemma watched_transfer_quiet:
  "emits (\<lambda>_. True) m \<Longrightarrow> returns (\<lambda>s. \<not> (\<exists>st4. s = BBeldexLocked st4)) m \<Longrightarrow> post (watched_transfer E st p) m"
  unfolding post_def watched_transfer_def returns_def logs_def by (metis prod.collapse)

lemma bob_beldex_lock_proof_received_post:
  "post (watched_transfer E st p) (bob_beldex_lock_proof_received E st p h)"
proof -
  let ?c = "BCancelTimelockExpired (bob3_cancel st h)"
  have sub: "emits (\<lambda>_. True) (bob_subscribe_to_lock E t)" for t
    unfolding bob_subscribe_to_lock_def by (intro emits_rules) simp
  have tl: "emits (\<lambda>_. True) (bob3_expired_timelock E st)"
    using makes_bob_expired_timelock(1)[of "\<lambda>_. True"] by simp
  have c: "post (watched_transfer E st p) (ret ?c)"
    by (simp add: watched_transfer_def)
  have select: "post (watched_transfer E st p)
        (select_io E cs False (watch_for_transfer req) (wait_until_confirmed_with s t)
           (\<lambda>received_bdx. bindio (attempt (lift received_bdx)) (\<lambda>r.
              case r of
                Inr _ \<Rightarrow> ret (BBeldexLocked (bob_bdx_locked st h))
              | Inl insufficient \<Rightarrow> bindio (await_io E cs' (wait_until_confirmed_with s t)) (\<lambda>_. ret ?c)))
           (\<lambda>result. bindio (lift result) (\<lambda>_. ret ?c)))"
    if req: "bob_lock_bdx_watch_request (e_lib E) st p = Ok req" for req cs cs' s t
  proof (rule post_select_io, goal_cases)
    case (1 x evs ss v v')
    have q: "watched_transfer E st p (Ok (BBeldexLocked (bob_bdx_locked st h))) evs" if "x = Ok ()"
      using select2_watch_Inl[of False req _ ss evs E cs v v'] 1 that req
      by (auto simp: watched_transfer_def)
    have wait: "post (\<lambda>r evs'. watched_transfer E st p r (evs @ evs'))
        (bindio (await_io E cs' (wait_until_confirmed_with s t)) (\<lambda>_. ret ?c))"
    proof (rule post_weaken[OF watched_transfer_quiet[of _ E st p]])
      show "watched_transfer E st p r (evs @ xs)" if "watched_transfer E st p r xs" for r xs
        using that by (auto simp: watched_transfer_def)
    qed (auto intro!: emits_rules returns_rules)
    show ?case
      using q wait by (cases x) (auto simp: bindio_def attempt_def post_def watched_transfer_def)
  next
    case (2 x evs ss v v')
    show ?case by (cases x) (auto simp: bindio_def post_def watched_transfer_def)
  qed (simp add: watched_transfer_def)
  show ?thesis
    unfolding bob_beldex_lock_proof_received_def Let_def
  proof (intro post_bindio_closed[OF watched_transfer_closed sub] post_bindio_closed[OF watched_transfer_closed tl],
      goal_cases)
    case (1 x w w' t w1 w1')
    show ?case
    proof (cases t)
      case (NoneExpired n)
      show ?thesis
        unfolding NoneExpired expired_timelocks.case
        by (rule post_bindio_closed[OF watched_transfer_closed emits_lift]) (auto intro: select)
    qed (use c in simp_all)
  qed
qed

definition locks_for :: "lib \<Rightarrow> bob_state3 \<Rightarrow> watch_request \<Rightarrow> bool" where
  "locks_for L st req \<longleftrightarrow> (\<exists>p. bob_lock_bdx_watch_request L st p = Ok req)"

text \<open>
  What a run may do with the encrypted signature, by the state it starts from: before the Beldex is
  locked it must watch the transfer first, once the swap is cancelled it never sends it.
\<close>

definition encsig_ok :: "lib \<Rightarrow> bob_state3 \<Rightarrow> bob_state \<Rightarrow> event list \<Rightarrow> bool" where
  "encsig_ok L st s evs \<longleftrightarrow>
     (bob_rank s \<le> 5 \<longrightarrow> no_encsig evs) \<and>
     ((\<exists>h. s = BBtcLocked st h) \<or> (\<exists>p h. s = BBeldexLockProofReceived st p h) \<longrightarrow>
        watched_first (locks_for L st) evs)"

lemma no_encsig_append [simp]: "no_encsig (xs @ ys) \<longleftrightarrow> no_encsig xs \<and> no_encsig ys"
  by (simp add: no_encsig_def)

lemma bob_step_watched:
  assumes "bob_step E i a (BBeldexLockProofReceived st p h) w = (Ok (BBeldexLocked st4), w')"
    and "w_log w' = w_log w @ evs"
  shows "\<exists>req. Done (CWatchForTransfer req) \<in> set evs \<and> locks_for (e_lib E) st req"
proof -
  obtain w1 v' where n: "bob_next_state E i a (BBeldexLockProofReceived st p h) w = (Ok (BBeldexLocked st4), w1)"
    and w': "w' = w1\<lparr>w_log := w_log w1 @ [Done (CInsertLatestState i (SBob (BBeldexLocked st4)))], w_ext := v'\<rparr>"
    by (rule bob_step_OkD[OF assms(1)], rule that, assumption+)
  have "bob_beldex_lock_proof_received E st p h w = (Ok (BBeldexLocked st4), w1)"
    using n by (simp add: bob_next_state_def)
  then obtain e1 req where "w_log w1 = w_log w @ e1" "Done (CWatchForTransfer req) \<in> set e1"
    "bob_lock_bdx_watch_request (e_lib E) st p = Ok req"
    using postD[OF bob_beldex_lock_proof_received_post] unfolding watched_transfer_def by blast
  thus ?thesis using w' assms(2) by (auto simp: locks_for_def)
qed

lemma bob_run_encsig_ok:
  assumes "bob_run_until E i a (\<lambda>s. bob_is_complete s \<or> exit_early s) s w = Some (r, w')"
  shows "\<exists>evs. w_log w' = w_log w @ evs \<and> encsig_ok (e_lib E) st s evs"
  using assms
proof (induction rule: bob_loop.run_any_induct)
  case (stop s w)
  show ?case by (intro exI[of _ "[]"]) (simp add: encsig_ok_def no_encsig_def)
next
  case (fail s w r w')
  show ?case
  proof (cases "\<exists>st. s = BBeldexLocked st")
    case True
    thus ?thesis
      using bob_step_logs[OF fail(2)] by (auto simp: encsig_ok_def bob_rank_def)
  next
    case False
    then obtain evs where evs: "w_log w' = w_log w @ evs" "no_encsig evs"
      using bob_step_no_encsig[OF fail(2)] by blast
    thus ?thesis
      by (intro exI[of _ evs]) (simp add: encsig_ok_def watched_first_no_encsig)
  qed
next
  case (step s w s1 w1 r w')
  obtain e2 where e2: "w_log w' = w_log w1 @ e2" "encsig_ok (e_lib E) st s1 e2" using step(4) by blast
  have edge: "bob_edge (e_lib E) s s1" using bob_step_edge step(1,2) by blast
  have rank: "bob_rank s1 < bob_rank s" by (rule bob_edge_rank[OF edge])
  show ?case
  proof (cases "\<exists>st. s = BBeldexLocked st")
    case True
    obtain e1 where "w_log w1 = w_log w @ e1" using bob_step_logs[OF step(2)] by blast
    thus ?thesis using True e2(1) by (auto simp: encsig_ok_def bob_rank_def)
  next
    case False
    obtain e1 where e1: "w_log w1 = w_log w @ e1" "no_encsig e1"
      using bob_step_no_encsig[OF step(2) False] by blast
    have "encsig_ok (e_lib E) st s (e1 @ e2)"
      unfolding encsig_ok_def
    proof (intro conjI impI)
      assume "bob_rank s \<le> 5"
      thus "no_encsig (e1 @ e2)" using e1(2) e2(2) rank by (simp add: encsig_ok_def)
    next
      assume "(\<exists>h. s = BBtcLocked st h) \<or> (\<exists>p h. s = BBeldexLockProofReceived st p h)"
      thus "watched_first (locks_for (e_lib E) st) (e1 @ e2)"
      proof (elim disjE exE)
        fix h
        assume s: "s = BBtcLocked st h"
        have "watched_first (locks_for (e_lib E) st) e2"
          using edge e2(2) unfolding s
          by (auto simp: encsig_ok_def bob_rank_def intro: watched_first_no_encsig)
        thus ?thesis by (rule watched_first_append[OF e1(2)])
      next
        fix p h
        assume s: "s = BBeldexLockProofReceived st p h"
        have s1: "s1 = BBeldexLocked (bob_bdx_locked st h) \<or> s1 = BCancelTimelockExpired (bob3_cancel st h)"
          using edge unfolding s by auto
        thus ?thesis
        proof
          assume "s1 = BBeldexLocked (bob_bdx_locked st h)"
          then obtain req where "Done (CWatchForTransfer req) \<in> set e1" "locks_for (e_lib E) st req"
            using bob_step_watched e1(1) step(2) unfolding s by blast
          thus ?thesis by (rule watched_first_prefix[OF e1(2)])
        next
          assume "s1 = BCancelTimelockExpired (bob3_cancel st h)"
          hence "no_encsig e2" using e2(2) by (simp add: encsig_ok_def bob_rank_def)
          thus ?thesis using e1(2) by (intro watched_first_no_encsig) simp
        qed
      qed
    qed
    thus ?thesis using e1(1) e2(1) by (intro exI[of _ "e1 @ e2"]) simp
  qed
qed

text \<open>
  C5: Bob gives away the encrypted signature with which Alice can take the bitcoin only after his
  wallet reported her side: in any run from \<open>BtcLocked\<close>, every attempt to send it comes after the
  wallet's watch for a transfer of the agreed amount to the shared output of the swap has returned
  successfully. What that report is worth is the subject of \<open>Beldex_Wallet_Properties\<close>.
\<close>

theorem bob_encsig_after_transfer:
  assumes "bob_run_until E i a (\<lambda>s. bob_is_complete s \<or> exit_early s) (BBtcLocked st h) w = Some (r, w')"
  shows "\<exists>evs. w_log w' = w_log w @ evs \<and> watched_first (locks_for (e_lib E) st) evs"
  using bob_run_encsig_ok[OF assms, of st] by (auto simp: encsig_ok_def)

definition sample_bob3 :: bob_state3 where
  "sample_bob3 = fst (bob_lock_btc sample_bob2)"

lemma sample_bob3_simps [simp]:
  "b3_A sample_bob3 = PublicKey 1" "b3_b sample_bob3 = \<lparr>sk_inner = 2, sk_public = 2\<rparr>"
  "b3_tx_lock sample_bob3 = sample_lock" "b3_cancel_timelock sample_bob3 = CancelTimelock 12"
  "b3_punish_timelock sample_bob3 = PunishTimelock 6" "b3_tx_cancel_fee sample_bob3 = 130"
  "b3_bdx sample_bob3 = BdxAmount 70000" "b3_S_a_beldex sample_bob3 = BdxPublicKey 3"
  "b3_s_b sample_bob3 = 4" "b3_v sample_bob3 = PrivateViewKey (PrivateKey 11)"
  "b3_min_beldex_confirmations sample_bob3 = 2"
  by (simp_all add: sample_bob3_def bob_lock_btc_def)

lemma sample_bob_pending_run:
  "\<exists>w'. bob_run_until dead_env 7 a (\<lambda>s. bob_is_complete s \<or> False) (BBtcLocked sample_bob3 40) start_world
     = Some (Pending, w') \<and> w_log w' = [Done (CSubscribe 5000 [1, 2]),
        Done (CStatusOfScript 5000 [1, 2]), Done (CStatusOfScript 4954 [1, 2]), Done (CGetBufferedProof 7)]"
proof -
  have txs: "tx_lock_txid sample_lib sample_lock = 5000"
    "tx_lock_script_pubkey sample_lib sample_lock = [1, 2]"
    "tx_cancel_txid sample_lib sample_cancel = 4954" "tx_cancel_script sample_lib sample_cancel = [1, 2]"
    by (simp_all add: tx_lock_txid_def tx_lock_script_pubkey_def sample_lock_def
        sample_psbt_def sample_hash_def tx_cancel_txid_def tx_cancel_script_def del: One_nat_def)
  show ?thesis
    by (subst bob_run_until_unfold) (simp add: bob_is_complete_def bob_step_def step_and_save_def bob_next_state_def bob_btc_locked_def
        Let_def bindio_def bob_subscribe_to_lock_def subscribe_to_def record_events_def txs public_def
        bob3_expired_timelock_def bob_expired_timelock_of_def status_of_script_def perform_def
        current_epoch_def is_confirmed_with_def context_io_def select_io_def start_world_def del: One_nat_def)
qed

theorem bob_encsig_after_transfer_witness:
  "watched_first (locks_for sample_lib sample_bob3) [Done (CSubscribe 5000 [1, 2]),
     Done (CStatusOfScript 5000 [1, 2]), Done (CStatusOfScript 4954 [1, 2]), Done (CGetBufferedProof 7)]"
proof -
  fix a
  obtain w' where "bob_run_until dead_env 7 a (\<lambda>s. bob_is_complete s \<or> False)
      (BBtcLocked sample_bob3 40) start_world = Some (Pending, w')"
    "w_log w' = [Done (CSubscribe 5000 [1, 2]),
        Done (CStatusOfScript 5000 [1, 2]), Done (CStatusOfScript 4954 [1, 2]), Done (CGetBufferedProof 7)]"
    using sample_bob_pending_run by blast
  thus ?thesis using bob_encsig_after_transfer by (fastforce simp: start_world_def)
qed

section \<open>Refund, punishment and redeem\<close>

text \<open>
  what the chain says decides between refund and punishment: Bob reaches \<open>BtcRefunded\<close> only from
  \<open>BtcCancelled\<close> and only if in that same step the chain reported that the cancel timelock has
  expired and the punish timelock has not, and \<open>BtcPunished\<close> only if it reported that the punish
  timelock has expired.
\<close>

theorem bob_refund_or_punished:
  assumes "bob_next_state E i a s w = (Ok s', w')" and "\<not> bob_is_complete s"
  shows "(\<forall>st. s' = BBtcRefunded st \<longrightarrow> s = BBtcCancelled st \<and>
      (\<exists>n w1. bob6_expired_timelock E st w = (Ok (CancelExpired n), w1))) \<and>
    (\<forall>st t. s' = BBtcPunished st t \<longrightarrow> s = BBtcCancelled st \<and> t = tx_lock_txid (e_lib E) (b6_tx_lock st) \<and>
      (\<exists>w1. bob6_expired_timelock E st w = (Ok PunishExpired, w1)))"
proof -
  have edge: "bob_edge (e_lib E) s s'" using bob_next_state_edge assms by blast
  have step: "\<exists>t w1. bob6_expired_timelock E st w = (Ok t, w1) \<and>
      (s' = BBtcRefunded st \<longrightarrow> (\<exists>n. t = CancelExpired n)) \<and>
      ((\<exists>x. s' = BBtcPunished st x) \<longrightarrow> t = PunishExpired)" if s: "s = BBtcCancelled st" for st
  proof -
    have run: "bob_btc_cancelled E st w = (Ok s', w')" using assms(1) s by (simp add: bob_next_state_def)
    then obtain t w1 where t: "bob6_expired_timelock E st w = (Ok t, w1)"
      by (auto simp: bob_btc_cancelled_def bindio_eq_Ok)
    thus ?thesis
      using run by (cases t) (auto simp: bob_btc_cancelled_def bindio_eq_Ok)
  qed
  show ?thesis
    using edge step by (auto simp: bob_edge_to_simps)
qed

definition expired_env :: "unit env" where
  "expired_env = dead_env\<lparr>e_status := (\<lambda>i s v. (Ok (Confirmed (confirmed_new 20)), v))\<rparr>"

lemma expired_env_simps [simp]:
  "e_lib expired_env = sample_lib" "e_status expired_env i s v = (Ok (Confirmed (confirmed_new 20)), v)"
  by (simp_all add: expired_env_def)

definition sample_bob6 :: bob_state6 where
  "sample_bob6 = bob3_cancel sample_bob3 40"

lemma sample_bob6_simps [simp]:
  "b6_A sample_bob6 = PublicKey 1" "b6_b sample_bob6 = \<lparr>sk_inner = 2, sk_public = 2\<rparr>"
  "b6_tx_lock sample_bob6 = sample_lock" "b6_cancel_timelock sample_bob6 = CancelTimelock 12"
  "b6_punish_timelock sample_bob6 = PunishTimelock 6" "b6_tx_cancel_fee sample_bob6 = 130"
  "b6_tx_refund_fee sample_bob6 = 120" "b6_refund_address sample_bob6 = sample_address 13"
  "b6_s_b sample_bob6 = 4" "b6_tx_refund_encsig sample_bob6 = 1815"
  by (simp_all add: sample_bob6_def bob3_cancel_def sample_bob3_def bob_lock_btc_def)

lemma sample_bob6_cancel: "bob_construct_tx_cancel sample_lib sample_bob6 = Ok sample_cancel"
  by (simp add: bob_construct_tx_cancel_def public_def del: One_nat_def)

lemma sample_bob_punished_step:
  "\<exists>w'. bob_next_state expired_env 7 a (BBtcCancelled sample_bob6) start_world
     = (Ok (BBtcPunished sample_bob6 (tx_lock_txid sample_lib sample_lock)), w')"
  by (simp add: bob_next_state_def bob_btc_cancelled_def sample_bob6_cancel bindio_def
      bob6_expired_timelock_def bob_expired_timelock_of_def Let_def public_def status_of_script_def perform_def
      current_epoch_def is_confirmed_with_def meets_target_def confirmations_def confirmed_new_def
      del: One_nat_def)

theorem bob_refund_or_punished_witness:
  "\<exists>w1. bob6_expired_timelock expired_env sample_bob6 start_world = (Ok PunishExpired, w1)"
proof -
  fix a
  obtain w' where "bob_next_state expired_env 7 a (BBtcCancelled sample_bob6) start_world
     = (Ok (BBtcPunished sample_bob6 (tx_lock_txid sample_lib sample_lock)), w')"
    using sample_bob_punished_step by blast
  from bob_refund_or_punished[OF this] show ?thesis
    by (simp add: bob_is_complete_def)
qed

text \<open>Alice's scalar in \<open>s5\<close> was recovered from a redeem transaction of the swap.\<close>

definition key_from_redeem :: "lib \<Rightarrow> bob_state4 \<Rightarrow> bob_state5 \<Rightarrow> bool" where
  "key_from_redeem L st s5 \<longleftrightarrow> (\<exists>r tx sig es.
     bob_tx_redeem L st = Ok r \<and> bob_tx_redeem_encsig L st = Ok es \<and>
     tx_redeem_extract_signature_by_key L r tx (public (b4_b st)) = Ok sig \<and>
     bob_state5_from_sig L st es sig = Ok s5)"

lemma bob_check_for_tx_redeem_key:
  "returns (key_from_redeem (e_lib E) st) (bob_check_for_tx_redeem E st)"
proof -
  have "\<exists>tx sig. tx_redeem_extract_signature_by_key (e_lib E) r tx (public (b4_b st)) = Ok sig \<and>
      bob_state5_from_sig (e_lib E) st es sig = Ok s5"
    if "bob_scan_for_redeem E st r es hs w1 = (Ok s5, w2)" for r es hs w1 w2 s5
    using that by (induction hs arbitrary: w1) (auto simp: outcome_rules, blast+)
  thus ?thesis
    unfolding returns_def bob_check_for_tx_redeem_def key_from_redeem_def
    by (fastforce simp: bindio_eq_Ok)
qed

lemma bob_watch_for_redeem_btc_key:
  "fut_returns (key_from_redeem (e_lib E) st) (bob_watch_for_redeem_btc E st)"
  unfolding fut_returns_def
proof (intro allI impI)
  fix s j s5
  assume "fst (bob_watch_for_redeem_btc E st s j) = Some (Ok s5)"
  then obtain j' evs where "bob_watch_for_redeem_btc E st s j = (Some (Ok s5), j', evs)"
    by (metis prod.collapse)
  thus "key_from_redeem (e_lib E) st s5"
    unfolding key_from_redeem_def using bob_watch_for_redeem_btc_OkD by blast
qed

definition redeemed_with_key :: "lib \<Rightarrow> bob_state4 \<Rightarrow> bob_state \<Rightarrow> bool" where
  "redeemed_with_key L st s' \<longleftrightarrow> (\<forall>s5. s' = BBtcRedeemed s5 \<longrightarrow> key_from_redeem L st s5)"

lemma redeemed_with_key_simps [simp]:
  "redeemed_with_key L st (BBtcRedeemed s5) \<longleftrightarrow> key_from_redeem L st s5"
  "redeemed_with_key L st (BEncSigSent st4)" "redeemed_with_key L st (BCancelTimelockExpired st6)"
  by (simp_all add: redeemed_with_key_def)

lemma bob_beldex_locked_key: "returns (redeemed_with_key (e_lib E) st) (bob_beldex_locked E st)"
  unfolding bob_beldex_locked_def Let_def
  by (rule returns_bindio_attempt[OF bob_check_for_tx_redeem_key])
    (auto intro!: returns_rules simp del: lift_apply ret_apply
      split: expired_timelocks.split sum.split request_error.split)

lemma bob_enc_sig_sent_key: "returns (redeemed_with_key (e_lib E) st) (bob_enc_sig_sent E st)"
proof -
  let ?Q = "redeemed_with_key (e_lib E) st"
  have wait: "fut_returns (\<lambda>_. True) (wait_until_confirmed_with sub t)" for sub t
    by (simp add: fut_returns_def)
  have sel: "returns ?Q (select_io E cs False (bob_watch_for_redeem_btc E st) (wait_until_confirmed_with sub t)
      (\<lambda>state5. bindio (lift state5) (\<lambda>s5. ret (BBtcRedeemed s5)))
      (\<lambda>result. bindio (lift result) (\<lambda>_. ret (BCancelTimelockExpired (bob4_cancel st)))))" for cs sub t
    by (rule returns_select_io_futs[OF bob_watch_for_redeem_btc_key wait])
      (auto simp: returns_def bindio_eq_Ok)
  show ?thesis
    unfolding bob_enc_sig_sent_def Let_def
    by (rule returns_bindio_attempt[OF bob_check_for_tx_redeem_key])
      (auto intro!: returns_bindio sel returns_ret simp del: lift_apply ret_apply split: expired_timelocks.split)
qed

text \<open>
  Bob's key to the Beldex comes from Alice's redeem: he reaches \<open>BtcRedeemed\<close> only with Alice's
  scalar recovered from a signature on the swap's redeem transaction that verifies under his own key
  and that he found in a transaction of the chain, with his own encrypted signature as the other
  half; his other secrets are those of the swap.
\<close>

theorem bob_redeem_key_from_chain:
  assumes "bob_next_state E i a s w = (Ok (BBtcRedeemed s5), w')" and "\<not> bob_is_complete s"
  shows "\<exists>st. (s = BBeldexLocked st \<or> s = BEncSigSent st) \<and> key_from_redeem (e_lib E) st s5"
proof -
  have "bob_edge (e_lib E) s (BBtcRedeemed s5)" using bob_next_state_edge assms by blast
  then obtain st where s: "s = BBeldexLocked st \<or> s = BEncSigSent st" by (auto simp: bob_edge_to_simps)
  hence "bob_beldex_locked E st w = (Ok (BBtcRedeemed s5), w') \<or> bob_enc_sig_sent E st w = (Ok (BBtcRedeemed s5), w')"
    using assms(1) by (auto simp: bob_next_state_def)
  hence "redeemed_with_key (e_lib E) st (BBtcRedeemed s5)"
    using returnsD[OF bob_beldex_locked_key] returnsD[OF bob_enc_sig_sent_key] by blast
  thus ?thesis using s by auto
qed

text \<open>A chain on which Alice's redeem of the sample swap can be found.\<close>

definition sample_redeem_published :: transaction where
  "sample_redeem_published = \<lparr>tx_version = 2, tx_lock_time = 0,
     tx_input = [\<lparr>previous_output = (5000, 0), script_sig = [], tx_sequence = 0,
        witness = [[2965, 1], [1965, 1], []]\<rparr>],
     tx_output = []\<rparr>"

definition redeemed_env :: "unit env" where
  "redeemed_env = dead_env\<lparr>e_history := (\<lambda>s v. (Ok [1], v)),
     e_get_tx := (\<lambda>i v. (Ok (Some sample_redeem_published), v))\<rparr>"

lemma redeemed_env_simps [simp]:
  "e_lib redeemed_env = sample_lib" "e_history redeemed_env s v = (Ok [1], v)"
  "e_get_tx redeemed_env i v = (Ok (Some sample_redeem_published), v)"
  by (simp_all add: redeemed_env_def)

definition sample_bob4 :: bob_state4 where
  "sample_bob4 = bob_bdx_locked sample_bob3 40"

definition sample_bob5 :: bob_state5 where
  "sample_bob5 = \<lparr>b5_s_a = PrivateKey 3, b5_s_b = 4, b5_v = PrivateViewKey (PrivateKey 11),
     b5_tx_lock = sample_lock, b5_restore_height = 40\<rparr>"

lemma sample_bob4_simps [simp]:
  "b4_b sample_bob4 = \<lparr>sk_inner = 2, sk_public = 2\<rparr>" "b4_S_a_bitcoin sample_bob4 = PublicKey 3"
  "b4_tx_lock sample_bob4 = sample_lock" "b4_redeem_address sample_bob4 = sample_address 11"
  "b4_tx_redeem_fee sample_bob4 = 100" "b4_s_b sample_bob4 = 4"
  "b4_v sample_bob4 = PrivateViewKey (PrivateKey 11)" "b4_restore_height sample_bob4 = 40"
  by (simp_all add: sample_bob4_def bob_bdx_locked_def sample_bob3_def bob_lock_btc_def)

lemma sample_bob_redeem:
  "bob_tx_redeem sample_lib sample_bob4 = Ok sample_redeem"
  "bob_tx_redeem_encsig sample_lib sample_bob4 = Ok 2965"
  "tx_redeem_extract_signature_by_key sample_lib sample_redeem sample_redeem_published (PublicKey 2) = Ok 2965"
  "bob_state5_from_sig sample_lib sample_bob4 2965 2965 = Ok sample_bob5"
proof -
  have d: "td_digest sample_redeem = 30064775965"
    by (simp add: sample_redeem_def sample_hash_def)
  show r: "bob_tx_redeem sample_lib sample_bob4 = Ok sample_redeem"
    by (simp add: bob_tx_redeem_def)
  show "bob_tx_redeem_encsig sample_lib sample_bob4 = Ok 2965"
    by (simp add: bob_tx_redeem_encsig_def r d encsign_def sample_sig_def)
  show "tx_redeem_extract_signature_by_key sample_lib sample_redeem sample_redeem_published (PublicKey 2) = Ok 2965"
    by (simp add: tx_redeem_extract_signature_by_key_def signature_by_key_def witness_signatures_def
        sample_redeem_published_def extract_ecdsa_sig_def verify_sig_def sample_sig_def d)
  show "bob_state5_from_sig sample_lib sample_bob4 2965 2965 = Ok sample_bob5"
    by (simp add: bob_state5_from_sig_def recover_def secret_key_from_scalar_def sample_bob5_def ed_l_def)
qed

theorem bob_redeem_key_from_chain_witness:
  "key_from_redeem sample_lib sample_bob4 sample_bob5"
proof -
  fix a
  have "\<exists>w'. bob_next_state redeemed_env 7 a (BEncSigSent sample_bob4) start_world
      = (Ok (BBtcRedeemed sample_bob5), w')"
    by (simp add: bob_next_state_def bob_enc_sig_sent_def bob_check_for_tx_redeem_def sample_bob_redeem
        bindio_def attempt_def script_history_for_def perform_def get_raw_transaction_def public_def)
  then obtain w' where "bob_next_state redeemed_env 7 a (BEncSigSent sample_bob4) start_world
      = (Ok (BBtcRedeemed sample_bob5), w')" by blast
  from bob_redeem_key_from_chain[OF this] show ?thesis
    by (auto simp: bob_is_complete_def)
qed

section \<open>What Bob stores\<close>

lemma bob_step_stored:
  assumes "bob_step E i a s w = (r, w')"
  shows "\<exists>evs. w_log w' = w_log w @ evs \<and> stored evs = (case r of Ok s' \<Rightarrow> [SBob s'] | _ \<Rightarrow> [])"
  using assms unfolding bob_step_def
  by (rule step_and_save_stored[OF bob_next_state_calls, rotated]) (simp add: bob_calls_def)

text \<open>
  every state Bob's run goes through is stored, once and in order: however the run ends, the
  states it has stored form, after the state it started from, a path of the abstract machine, and if
  it returns a state that is the last one on the path.
\<close>

theorem bob_stores_path:
  assumes "bob_run_until E i a (\<lambda>s. bob_is_complete s \<or> exit_early s) s w = Some (r, w')"
  shows "\<exists>evs ss. w_log w' = w_log w @ evs \<and> stored evs = map SBob ss \<and>
    successively (bob_edge (e_lib E)) (s # ss) \<and> (\<forall>s'. r = Ok s' \<longrightarrow> last (s # ss) = s')"
  using assms
proof (induction rule: bob_loop.run_any_induct)
  case (stop s w)
  show ?case by (intro exI[of _ "[]"]) simp
next
  case (fail s w r w')
  obtain evs where evs: "w_log w' = w_log w @ evs"
    "stored evs = (case r of Ok s' \<Rightarrow> [SBob s'] | _ \<Rightarrow> [])"
    using bob_step_stored[OF fail(2)] by blast
  show ?case
  proof (cases r)
    case (Ok s')
    have "bob_edge (e_lib E) s s'" using bob_step_edge fail Ok by blast
    thus ?thesis using evs Ok by (intro exI[of _ evs] exI[of _ "[s']"]) simp
  qed (use evs in \<open>auto intro!: exI[of _ evs] exI[of _ "[]"]\<close>)
next
  case (step s w s1 w1 r w')
  obtain e1 where e1: "w_log w1 = w_log w @ e1" "stored e1 = [SBob s1]"
    using bob_step_stored[OF step(2)] by auto
  obtain e2 ss where e2: "w_log w' = w_log w1 @ e2" "stored e2 = map SBob ss"
    "successively (bob_edge (e_lib E)) (s1 # ss)" "\<forall>s'. r = Ok s' \<longrightarrow> last (s1 # ss) = s'"
    using step(4) by blast
  have "bob_edge (e_lib E) s s1" using bob_step_edge step(1,2) by blast
  thus ?case
    using e1 e2 by (intro exI[of _ "e1 @ e2"] exI[of _ "s1 # ss"]) simp
qed

lemma sample_bob_setup_run:
  "\<exists>w'. bob_run_until dead_env 7 a (\<lambda>s. bob_is_complete s \<or> bob_rank s < 10) (BStarted 5000 (sample_address 13)) start_world
     = Some (Ok (BSwapSetupCompleted sample_bob2), w')"
proof -
  obtain w' where "bob_step dead_env 7 a (BStarted 5000 (sample_address 13)) start_world
      = (Ok (BSwapSetupCompleted sample_bob2), w')"
    by (simp add: bob_step_def step_and_save_def bindio_def sample_bob_started insert_latest_state_def perform_def)
  moreover have "bob_run_until dead_env 7 a (\<lambda>s. bob_is_complete s \<or> bob_rank s < 10) (BSwapSetupCompleted sample_bob2) w'
      = Some (Ok (BSwapSetupCompleted sample_bob2), w')"
    by (rule bob_loop.run_stopped) (simp add: bob_rank_def)
  ultimately show ?thesis
    by (subst bob_run_until_unfold) (simp add: bob_is_complete_def bob_rank_def)
qed

theorem bob_stores_path_witness:
  "\<exists>ss. successively (bob_edge sample_lib) (BStarted 5000 (sample_address 13) # ss) \<and>
    last (BStarted 5000 (sample_address 13) # ss) = BSwapSetupCompleted sample_bob2"
proof -
  fix a
  obtain w' where "bob_run_until dead_env 7 a (\<lambda>s. bob_is_complete s \<or> bob_rank s < 10)
      (BStarted 5000 (sample_address 13)) start_world = Some (Ok (BSwapSetupCompleted sample_bob2), w')"
    using sample_bob_setup_run by blast
  from bob_stores_path[OF this] show ?thesis by (simp only: dead_env_simps) blast
qed

section \<open>The lock transaction\<close>

abbreviation lock_broadcast :: "event \<Rightarrow> bool" where
  "lock_broadcast \<equiv> is_broadcast ''lock''"

lemma at_most_broadcast: "at_most P 1 (broadcast E tx k)" if "\<And>i s. \<not> P (Done (CSubscribe i s))"
proof -
  have sub: "at_most P 0 (subscribe_to E i s)" for i s
    using that by (intro at_most_none emits_subscribe_to)
  have "at_most P 1 (bindio (subscribe_to E i s) (\<lambda>sub.
      bindio (context_io c (perform (CBroadcast tx k) f)) (\<lambda>_. ret (i, sub))))" for i s c f
    by (intro at_most_bindio_second[OF sub] at_most_bindio_first at_most_context_io at_most_perform at_most_pure)
  thus ?thesis
    unfolding broadcast_def Let_def by (intro at_most_bindio_second[OF at_most_pure(2)])
qed

lemma bob_swap_setup_completed_locks: "at_most lock_broadcast 1 (bob_swap_setup_completed E st)"
proof -
  have no: "at_most lock_broadcast 0 (perform c f)" if "\<And>tx k. c \<noteq> CBroadcast tx k" for c f
    using that by (intro at_most_none emits_perform) (auto simp: is_broadcast_def split: call.split)
  have b: "at_most lock_broadcast 1 (broadcast E tx k)" for tx k
    by (rule at_most_broadcast) (simp add: is_broadcast_def)
  show ?thesis
    unfolding bob_swap_setup_completed_def
    by (cases "bob_lock_btc st")
      (auto intro!: at_most_bindio_second[OF no] at_most_bindio_second[OF at_most_context_io[OF no]]
        at_most_bindio_second[OF at_most_pure(2)] at_most_bindio_first[OF b] at_most_pure simp del: ret_apply lift_apply One_nat_def)
qed

lemma bob_step_locks:
  assumes "bob_step E i a s w = (r, w')"
  shows "\<exists>evs. w_log w' = w_log w @ evs \<and>
    occurrences lock_broadcast evs \<le> (if \<exists>st. s = BSwapSetupCompleted st then 1 else 0)"
proof (cases "\<exists>st. s = BSwapSetupCompleted st")
  case True
  then obtain st where st: "s = BSwapSetupCompleted st" by blast
  have save: "at_most lock_broadcast 0 (bindio (insert_latest_state E i (SBob s')) (\<lambda>_. ret s'))" for s'
    unfolding insert_latest_state_def
    by (rule at_most_none, intro emits_rules) (simp_all add: is_broadcast_def)
  have "at_most lock_broadcast (1 + 0) (bob_step E i a s)"
    unfolding bob_step_def step_and_save_def st
    using bob_swap_setup_completed_locks by (intro at_most_bindio[OF _ save]) (simp add: bob_next_state_def)
  then obtain evs where "w_log w' = w_log w @ evs" "occurrences lock_broadcast evs \<le> 1"
    using assms unfolding at_most_def by (auto dest!: logsD)
  thus ?thesis using True by auto
next
  case False
  obtain evs where evs: "w_log w' = w_log w @ evs"
    "\<forall>e\<in>set evs. bob_calls s (event_call e) \<or> (\<exists>x. event_call e = CInsertLatestState i x)"
    using bob_step_logs[OF assms] by (auto simp: list_all_iff)
  have "\<not> lock_broadcast e" if "bob_calls s (event_call e)" for e
    using that False by (cases s; cases "event_call e") (auto simp: bob_calls_def is_broadcast_def)
  moreover have "\<not> lock_broadcast e" if "event_call e = CInsertLatestState i x" for e x
    using that by (simp add: is_broadcast_def)
  ultimately have "occurrences lock_broadcast evs = 0"
    using evs(2) by (intro occurrences_none) (auto simp: list_all_iff)
  thus ?thesis using evs(1) by auto
qed

text \<open>
  in one run Bob broadcasts the transaction that locks his bitcoin at most once, however the run
  ends, and not at all if it starts from a state that lies after the lock.
\<close>

theorem bob_locks_at_most_once:
  assumes "bob_run_until E i a (\<lambda>s. bob_is_complete s \<or> exit_early s) s w = Some (r, w')"
  shows "\<exists>evs. w_log w' = w_log w @ evs \<and> occurrences lock_broadcast evs \<le> 1 \<and>
    (bob_rank s < 9 \<longrightarrow> occurrences lock_broadcast evs = 0)"
  using assms
proof (induction rule: bob_loop.run_any_induct)
  case (stop s w)
  show ?case by simp
next
  case (fail s w r w')
  show ?case using bob_step_locks[OF fail(2)] by (fastforce simp: bob_rank_def split: if_splits)
next
  case (step s w s1 w1 r w')
  obtain e1 where e1: "w_log w1 = w_log w @ e1"
      "occurrences lock_broadcast e1 \<le> (if \<exists>st. s = BSwapSetupCompleted st then 1 else 0)"
    using bob_step_locks[OF step(2)] by blast
  obtain e2 where e2: "w_log w' = w_log w1 @ e2" "occurrences lock_broadcast e2 \<le> 1"
    "bob_rank s1 < 9 \<longrightarrow> occurrences lock_broadcast e2 = 0"
    using step(4) by blast
  have "bob_rank s1 < bob_rank s" using bob_edge_rank bob_step_edge step(1,2) by blast
  moreover have "bob_rank s = 9" if "\<exists>st. s = BSwapSetupCompleted st" using that by (auto simp: bob_rank_def)
  ultimately show ?case
    using e1 e2 by (intro exI[of _ "e1 @ e2"]) (auto split: if_splits)
qed

theorem bob_locks_at_most_once_witness:
  "occurrences lock_broadcast [Done (CSubscribe 5000 [1, 2]),
     Done (CStatusOfScript 5000 [1, 2]), Done (CStatusOfScript 4954 [1, 2]), Done (CGetBufferedProof 7)] = 0"
proof -
  fix a
  obtain w' where "bob_run_until dead_env 7 a (\<lambda>s. bob_is_complete s \<or> False)
      (BBtcLocked sample_bob3 40) start_world = Some (Pending, w')"
    and w': "w_log w' = [Done (CSubscribe 5000 [1, 2]),
        Done (CStatusOfScript 5000 [1, 2]), Done (CStatusOfScript 4954 [1, 2]), Done (CGetBufferedProof 7)]"
    using sample_bob_pending_run by blast
  from bob_locks_at_most_once[OF this(1)] show ?thesis
    by (auto simp: w' start_world_def bob_rank_def)
qed

section \<open>Transactions that are already on the chain\<close>

definition no_broadcasts :: "event list \<Rightarrow> bool" where
  "no_broadcasts evs \<longleftrightarrow> list_all (\<lambda>e. \<forall>k. \<not> is_broadcast k e) evs"

text \<open>
  C28: Bob does not publish the cancel transaction when his wallet can fetch the transaction that
  locked his bitcoin: \<open>check_for_tx_cancel\<close> looks for a transaction in the history of the script of the
  cancel output, which is the script of the lock output, so the first transaction of that
  history, the lock transaction itself, counts as the cancel transaction, and
  \<open>CancelTimelockExpired\<close> goes over to \<open>BtcCancelled\<close> with nothing broadcast.
\<close>

theorem bob_mistakes_lock_for_cancel:
  assumes "build_shared_output_descriptor (e_lib E) (pk_point (b6_A st)) (pk_point (public (b6_b st)))
      = Ok (tl_descriptor (b6_tx_lock st))"
    and "bob_construct_tx_cancel (e_lib E) st = Ok c"
    and "\<And>v. e_history E (tx_lock_script_pubkey (e_lib E) (b6_tx_lock st)) v = (Ok (lock_txid # rest), v)"
    and "\<And>v. e_get_tx E lock_txid v = (Ok (Some lock_tx), v)"
  shows "\<exists>w' evs. bob_next_state E i a (BCancelTimelockExpired st) w = (Ok (BBtcCancelled st), w') \<and>
    w_log w' = w_log w @ evs \<and> no_broadcasts evs"
proof -
  have "tx_cancel_script (e_lib E) c = tx_lock_script_pubkey (e_lib E) (b6_tx_lock st)"
    using assms(1,2)
    by (auto simp: bob_construct_tx_cancel_def tx_cancel_script_def tx_lock_script_pubkey_def
        elim!: tx_cancel_new_OkD)
  thus ?thesis
    using assms(2-4)
    by (simp add: bob_next_state_def bob_cancel_timelock_expired_def bob_check_for_tx_cancel_def bindio_def
        attempt_def script_history_for_def perform_def get_raw_transaction_def no_broadcasts_def is_broadcast_def)
qed

definition locked_env :: "unit env" where
  "locked_env = expired_env\<lparr>e_history := (\<lambda>s v. (Ok [5000], v)),
     e_get_tx := (\<lambda>i v. (Ok (if i = 5000 then Some (unsigned_tx sample_psbt) else None), v)),
     e_status := (\<lambda>i s v. (Ok (if i = 5000 then Confirmed (confirmed_new 20) else Unseen), v))\<rparr>"

lemma locked_env_simps [simp]:
  "e_lib locked_env = sample_lib" "e_history locked_env s v = (Ok [5000], v)"
  "e_get_tx locked_env 5000 v = (Ok (Some (unsigned_tx sample_psbt)), v)"
  "e_status locked_env i s v = (Ok (if i = 5000 then Confirmed (confirmed_new 20) else Unseen), v)"
  by (simp_all add: locked_env_def)

theorem bob_mistakes_lock_for_cancel_witness:
  "\<forall>a. \<exists>w' evs. bob_next_state locked_env 7 a (BCancelTimelockExpired sample_bob6) start_world
      = (Ok (BBtcCancelled sample_bob6), w') \<and> w_log w' = w_log start_world @ evs \<and> no_broadcasts evs"
  by (intro allI, rule bob_mistakes_lock_for_cancel[where lock_txid = 5000 and rest = "[]"
        and lock_tx = "unsigned_tx sample_psbt" and c = sample_cancel])
    (simp_all add: sample_bob6_cancel public_def sample_lock_def del: One_nat_def)

text \<open>
  Bob can end in \<open>BtcRefunded\<close> without having published his refund: \<open>publish_refund_btc\<close> takes any
  transaction in the history of his refund address for the refund. That address is also where the
  lock transaction sent its change (\<open>State0::receive\<close> gives it to \<open>TxLock::new\<close>), so once that
  history is not empty, and the cancel timelock has expired, the swap is reported as refunded and
  complete with nothing broadcast.
\<close>

theorem bob_refunded_without_refund:
  assumes "bob_construct_tx_cancel (e_lib E) st = Ok c"
    and "bob_signed_refund_transaction (e_lib E) st = Ok tx"
    and "tx_output tx = [\<lparr>txo_value = v, txo_script = address_script (e_lib E) (b6_refund_address st)\<rparr>]"
    and "\<And>v. e_history E (address_script (e_lib E) (b6_refund_address st)) v = (Ok (j # rest), v)"
    and "\<And>v. e_get_tx E j v = (Ok (Some change_tx), v)"
    and "bob6_expired_timelock E st w = (Ok (CancelExpired n), w1)"
  shows "\<exists>w' evs. bob_next_state E i a (BBtcCancelled st) w = (Ok (BBtcRefunded st), w') \<and>
    bob_is_complete (BBtcRefunded st) \<and> w_log w' = w_log w @ evs \<and> no_broadcasts evs"
proof -
  have mk: "makes (\<lambda>c. \<exists>i s. c = CStatusOfScript i s) (bob6_expired_timelock E st)"
    by (rule makes_bob_expired_timelock) simp
  obtain e1 where e1: "w_log w1 = w_log w @ e1" "list_all (\<lambda>e. \<exists>i s. event_call e = CStatusOfScript i s) e1"
    using logsD[OF mk assms(6)] by blast
  have q: "no_broadcasts e1"
    using e1(2) by (auto simp: no_broadcasts_def list_all_iff is_broadcast_def)
  show ?thesis
    using assms e1(1) q
    by (simp add: bob_next_state_def bob_btc_cancelled_def bob_publish_refund_btc_def bob_check_for_tx_refund_def
        bindio_def attempt_def index_vec_def script_history_for_def perform_def get_raw_transaction_def
        bob_is_complete_def) (simp add: no_broadcasts_def is_broadcast_def)
qed

lemma sample_bob6_refund:
  "\<exists>tx. bob_signed_refund_transaction sample_lib sample_bob6 = Ok tx \<and>
     tx_output tx = [\<lparr>txo_value = 4750, txo_script = [13]\<rparr>]"
proof -
  have "to_secpfun_scalar sample_lib 4 = Ok 4" by (simp add: ed_l_def)
  moreover have "bob_tx_refund sample_lib sample_bob6 = Ok sample_refund"
    by (simp add: bob_tx_refund_def sample_bob6_cancel)
  moreover have "tr_cancel_output_descriptor sample_refund = sample_desc 1 2"
    "tx_output (tr_inner sample_refund) = [\<lparr>txo_value = 4750, txo_script = [13]\<rparr>]"
    "tx_input (tr_inner sample_refund) \<noteq> []"
    by (simp_all add: sample_refund_def)
  ultimately show ?thesis
    by (simp add: bob_signed_refund_transaction_def tx_refund_add_signatures_def public_def satisfier_def
        two_signatures_def satisfy_input0_def index_vec_def Let_def del: One_nat_def)
qed

theorem bob_refunded_without_refund_witness:
  "\<forall>a. \<exists>w' evs. bob_next_state locked_env 7 a (BBtcCancelled sample_bob6) start_world
      = (Ok (BBtcRefunded sample_bob6), w') \<and> bob_is_complete (BBtcRefunded sample_bob6) \<and>
      w_log w' = w_log start_world @ evs \<and> no_broadcasts evs"
proof
  fix a
  obtain tx where tx: "bob_signed_refund_transaction sample_lib sample_bob6 = Ok tx"
    "tx_output tx = [\<lparr>txo_value = 4750, txo_script = [13]\<rparr>]"
    using sample_bob6_refund by blast
  have ids: "tx_lock_txid sample_lib sample_lock = 5000" "tx_cancel_txid sample_lib sample_cancel = 4954"
    by (simp_all add: tx_lock_txid_def sample_lock_def sample_psbt_def sample_hash_def tx_cancel_txid_def
        del: One_nat_def)
  have "\<exists>w1. bob6_expired_timelock locked_env sample_bob6 start_world = (Ok (CancelExpired 6), w1)"
    by (simp add: bob6_expired_timelock_def bob_expired_timelock_of_def Let_def bindio_def public_def
        status_of_script_def perform_def ids current_epoch_def is_confirmed_with_def meets_target_def
        confirmations_def confirmed_new_def blocks_left_until_def del: One_nat_def)
  then obtain w1 where w1: "bob6_expired_timelock locked_env sample_bob6 start_world = (Ok (CancelExpired 6), w1)"
    by blast
  show "\<exists>w' evs. bob_next_state locked_env 7 a (BBtcCancelled sample_bob6) start_world
      = (Ok (BBtcRefunded sample_bob6), w') \<and> bob_is_complete (BBtcRefunded sample_bob6) \<and>
      w_log w' = w_log start_world @ evs \<and> no_broadcasts evs"
    by (rule bob_refunded_without_refund[OF _ _ _ _ _ w1, where c = sample_cancel and tx = tx and v = 4750
          and j = 5000 and rest = "[]" and change_tx = "unsigned_tx sample_psbt"])
      (simp_all add: sample_bob6_cancel tx sample_address_def del: One_nat_def)
qed

text \<open>
  \<open>BtcPunished\<close> has only two ends: the cooperative redeem succeeds and the swap is complete with
  the lock transaction it recorded, or the step fails; it never returns the state it was in, so the
  early exit that \<open>run_until\<close> has for it is never taken.
\<close>

theorem bob_punished_step:
  assumes "bob_next_state E i a (BBtcPunished st t) w = (Ok s', w')"
  shows "\<exists>x s_a j v v'. s' = BBeldexRedeemed t x \<and> e_coop_redeem E i v = (Ok (Fullfilled j s_a), v')"
proof -
  obtain r v' where r: "e_coop_redeem E i (w_ext w) = (r, v')" by fastforce
  note run = assms[unfolded bob_next_state_def bob_state.case bob_btc_punished_def]
  show ?thesis
  proof (cases r)
    case (Ok response)
    show ?thesis
    proof (cases response)
      case (Fullfilled j s_a)
      hence "e_coop_redeem E i (w_ext w) = (Ok (Fullfilled j s_a), v')" using r Ok by simp
      moreover have "\<exists>x. s' = BBeldexRedeemed t x"
        using run r Ok Fullfilled by (auto simp: attempt_eq_Ok bindio_eq_Ok perform_eq_Ok Let_def)
      ultimately show ?thesis by blast
    qed (use run r Ok in \<open>auto simp: attempt_eq_Ok bindio_eq_Ok perform_eq_Ok\<close>)
  qed (use run r in \<open>auto simp: attempt_def bindio_def perform_def\<close>)
qed

definition coop_env :: "unit env" where
  "coop_env = dead_env\<lparr>e_coop_redeem := (\<lambda>i v. (Ok (Fullfilled i 3), v))\<rparr>"

theorem bob_punished_step_witness:
  "\<exists>v v' j s_a. e_coop_redeem coop_env 7 v = (Ok (Fullfilled j s_a), v')"
proof -
  fix a
  have "\<exists>w'. bob_next_state coop_env 7 a (BBtcPunished sample_bob6 5000) start_world
      = (Ok (BBeldexRedeemed 5000 (TxHash ''unknown'')), w')"
    by (simp add: bob_next_state_def bob_btc_punished_def coop_env_def dead_env_def bindio_def attempt_def
        perform_def Let_def bob_redeem_bdx_def bob_bdx_keys_def context_io_def first_tx_hash_def)
  thus ?thesis using bob_punished_step by fastforce
qed

end
