(* ===== verification/Database.thy ===== *)
theory Database
  imports Bob_State
begin

text \<open>
  \<open>database.rs\<close>, \<open>database/alice.rs\<close>, \<open>database/bob.rs\<close>: the form in which the state of a swap is
  stored, and the conversions from and to the states of the two parties; \<open>database/sqlite.rs\<close> with
  the tables of \<open>migrations/\<close>: what each statement does to its table. The tables are lists of rows
  in the order of insertion; a statement is translated clause by clause (\<open>WHERE\<close> is a filter,
  \<open>ORDER BY id desc\<close> a sort, \<open>GROUP BY\<close> with \<open>max(id)\<close> picks the row of each group that has the
  largest id). What crates outside the repository do (the text form of ids, addresses and of JSON,
  the connection pool) is the record \<open>db_lib\<close>.
\<close>

section \<open>Stored states\<close>

datatype db_alice_end =
    DASafelyAborted | DABtcRedeemed | DABeldexRefunded | DABtcPunished alice_state3

datatype db_alice =
    DAStarted alice_state3
  | DABtcLockTransactionSeen alice_state3
  | DABtcLocked alice_state3
  | DABeldexLockTransactionSent bdx_height transfer_proof alice_state3
  | DABeldexLocked bdx_height transfer_proof alice_state3
  | DABeldexLockTransferProofSent bdx_height transfer_proof alice_state3
  | DAEncSigLearned bdx_height transfer_proof encsig alice_state3
  | DABtcRedeemTransactionPublished alice_state3
  | DACancelTimelockExpired bdx_height transfer_proof alice_state3
  | DABtcCancelled bdx_height transfer_proof alice_state3
  | DABtcPunishable bdx_height transfer_proof alice_state3
  | DABtcRefunded bdx_height transfer_proof alice_state3 private_key
  | DADone db_alice_end

definition db_alice_from :: "alice_state \<Rightarrow> db_alice" where
  "db_alice_from s = (case s of
     AStarted st \<Rightarrow> DAStarted st
   | ABtcLockTransactionSeen st \<Rightarrow> DABtcLockTransactionSeen st
   | ABtcLocked st \<Rightarrow> DABtcLocked st
   | ABeldexLockTransactionSent h p st \<Rightarrow> DABeldexLockTransactionSent h p st
   | ABeldexLocked h p st \<Rightarrow> DABeldexLocked h p st
   | ABeldexLockTransferProofSent h p st \<Rightarrow> DABeldexLockTransferProofSent h p st
   | AEncSigLearned h p es st \<Rightarrow> DAEncSigLearned h p es st
   | ABtcRedeemTransactionPublished st \<Rightarrow> DABtcRedeemTransactionPublished st
   | ABtcRedeemed \<Rightarrow> DADone DABtcRedeemed
   | ABtcCancelled h p st \<Rightarrow> DABtcCancelled h p st
   | ABtcRefunded h p k st \<Rightarrow> DABtcRefunded h p st k
   | ABtcPunishable h p st \<Rightarrow> DABtcPunishable h p st
   | ABeldexRefunded \<Rightarrow> DADone DABeldexRefunded
   | ACancelTimelockExpired h p st \<Rightarrow> DACancelTimelockExpired h p st
   | ABtcPunished st \<Rightarrow> DADone (DABtcPunished st)
   | ASafelyAborted \<Rightarrow> DADone DASafelyAborted)"

definition alice_state_from_db :: "db_alice \<Rightarrow> alice_state" where
  "alice_state_from_db d = (case d of
     DAStarted st \<Rightarrow> AStarted st
   | DABtcLockTransactionSeen st \<Rightarrow> ABtcLockTransactionSeen st
   | DABtcLocked st \<Rightarrow> ABtcLocked st
   | DABeldexLockTransactionSent h p st \<Rightarrow> ABeldexLockTransactionSent h p st
   | DABeldexLocked h p st \<Rightarrow> ABeldexLocked h p st
   | DABeldexLockTransferProofSent h p st \<Rightarrow> ABeldexLockTransferProofSent h p st
   | DAEncSigLearned h p es st \<Rightarrow> AEncSigLearned h p es st
   | DABtcRedeemTransactionPublished st \<Rightarrow> ABtcRedeemTransactionPublished st
   | DACancelTimelockExpired h p st \<Rightarrow> ACancelTimelockExpired h p st
   | DABtcCancelled h p st \<Rightarrow> ABtcCancelled h p st
   | DABtcPunishable h p st \<Rightarrow> ABtcPunishable h p st
   | DABtcRefunded h p st k \<Rightarrow> ABtcRefunded h p k st
   | DADone end_state \<Rightarrow> (case end_state of
       DASafelyAborted \<Rightarrow> ASafelyAborted
     | DABtcRedeemed \<Rightarrow> ABtcRedeemed
     | DABeldexRefunded \<Rightarrow> ABeldexRefunded
     | DABtcPunished st \<Rightarrow> ABtcPunished st))"

text \<open>\<open>#[derive(strum::Display)]\<close> prints the name of the variant.\<close>

definition db_alice_end_display :: "db_alice_end \<Rightarrow> string" where
  "db_alice_end_display d = (case d of
     DASafelyAborted \<Rightarrow> ''SafelyAborted''
   | DABtcRedeemed \<Rightarrow> ''BtcRedeemed''
   | DABeldexRefunded \<Rightarrow> ''BeldexRefunded''
   | DABtcPunished _ \<Rightarrow> ''BtcPunished'')"

definition db_alice_display :: "db_alice \<Rightarrow> string" where
  "db_alice_display d = (case d of
     DAStarted _ \<Rightarrow> ''Started''
   | DABtcLockTransactionSeen _ \<Rightarrow> ''Bitcoin lock transaction in mempool''
   | DABtcLocked _ \<Rightarrow> ''Bitcoin locked''
   | DABeldexLockTransactionSent _ _ _ \<Rightarrow> ''Beldex lock transaction sent''
   | DABeldexLocked _ _ _ \<Rightarrow> ''Beldex locked''
   | DABeldexLockTransferProofSent _ _ _ \<Rightarrow> ''Beldex lock transfer proof sent''
   | DAEncSigLearned _ _ _ _ \<Rightarrow> ''Encrypted signature learned''
   | DABtcRedeemTransactionPublished _ \<Rightarrow> ''Bitcoin redeem transaction published''
   | DACancelTimelockExpired _ _ _ \<Rightarrow> ''Cancel timelock is expired''
   | DABtcCancelled _ _ _ \<Rightarrow> ''Bitcoin cancel transaction published''
   | DABtcPunishable _ _ _ \<Rightarrow> ''Bitcoin punishable''
   | DABtcRefunded _ _ _ _ \<Rightarrow> ''Beldex refundable''
   | DADone end_state \<Rightarrow> ''Done: '' @ db_alice_end_display end_state)"

datatype db_bob_end = DBSafelyAborted | DBBeldexRedeemed txid tx_hash | DBBtcRefunded bob_state6

datatype db_bob =
    DBStarted btc_amount address
  | DBExecutionSetupDone bob_state2
  | DBBtcLocked bob_state3 bdx_height
  | DBBeldexLockProofReceived bob_state3 transfer_proof bdx_height
  | DBBeldexLocked bob_state4
  | DBEncSigSent bob_state4
  | DBBtcPunished bob_state6 txid
  | DBBtcRedeemed bob_state5
  | DBCancelTimelockExpired bob_state6
  | DBBtcCancelled bob_state6
  | DBDone db_bob_end

definition db_bob_from :: "bob_state \<Rightarrow> db_bob" where
  "db_bob_from s = (case s of
     BStarted amount change \<Rightarrow> DBStarted amount change
   | BSwapSetupCompleted st2 \<Rightarrow> DBExecutionSetupDone st2
   | BBtcLocked st3 h \<Rightarrow> DBBtcLocked st3 h
   | BBeldexLockProofReceived st p h \<Rightarrow> DBBeldexLockProofReceived st p h
   | BBeldexLocked st4 \<Rightarrow> DBBeldexLocked st4
   | BEncSigSent st4 \<Rightarrow> DBEncSigSent st4
   | BBtcRedeemed st5 \<Rightarrow> DBBtcRedeemed st5
   | BCancelTimelockExpired st6 \<Rightarrow> DBCancelTimelockExpired st6
   | BBtcCancelled st6 \<Rightarrow> DBBtcCancelled st6
   | BBtcPunished st i \<Rightarrow> DBBtcPunished st i
   | BBtcRefunded st6 \<Rightarrow> DBDone (DBBtcRefunded st6)
   | BBeldexRedeemed i t \<Rightarrow> DBDone (DBBeldexRedeemed i t)
   | BSafelyAborted \<Rightarrow> DBDone DBSafelyAborted)"

definition bob_state_from_db :: "db_bob \<Rightarrow> bob_state" where
  "bob_state_from_db d = (case d of
     DBStarted amount change \<Rightarrow> BStarted amount change
   | DBExecutionSetupDone st2 \<Rightarrow> BSwapSetupCompleted st2
   | DBBtcLocked st3 h \<Rightarrow> BBtcLocked st3 h
   | DBBeldexLockProofReceived st p h \<Rightarrow> BBeldexLockProofReceived st p h
   | DBBeldexLocked st4 \<Rightarrow> BBeldexLocked st4
   | DBEncSigSent st4 \<Rightarrow> BEncSigSent st4
   | DBBtcRedeemed st5 \<Rightarrow> BBtcRedeemed st5
   | DBCancelTimelockExpired st6 \<Rightarrow> BCancelTimelockExpired st6
   | DBBtcCancelled st6 \<Rightarrow> BBtcCancelled st6
   | DBBtcPunished st i \<Rightarrow> BBtcPunished st i
   | DBDone end_state \<Rightarrow> (case end_state of
       DBSafelyAborted \<Rightarrow> BSafelyAborted
     | DBBeldexRedeemed i t \<Rightarrow> BBeldexRedeemed i t
     | DBBtcRefunded st6 \<Rightarrow> BBtcRefunded st6))"

definition db_bob_end_display :: "db_bob_end \<Rightarrow> string" where
  "db_bob_end_display d = (case d of
     DBSafelyAborted \<Rightarrow> ''SafelyAborted''
   | DBBeldexRedeemed _ _ \<Rightarrow> ''BeldexRedeemed''
   | DBBtcRefunded _ \<Rightarrow> ''BtcRefunded'')"

definition db_bob_display :: "db_bob \<Rightarrow> string" where
  "db_bob_display d = (case d of
     DBStarted _ _ \<Rightarrow> ''Started''
   | DBExecutionSetupDone _ \<Rightarrow> ''Execution setup done''
   | DBBtcLocked _ _ \<Rightarrow> ''Bitcoin locked''
   | DBBeldexLockProofReceived _ _ _ \<Rightarrow> ''BDX lock transaction transfer proof received''
   | DBBeldexLocked _ \<Rightarrow> ''Beldex locked''
   | DBEncSigSent _ \<Rightarrow> ''Encrypted signature sent''
   | DBBtcPunished _ _ \<Rightarrow> ''Bitcoin punished''
   | DBBtcRedeemed _ \<Rightarrow> ''Beldex redeemable''
   | DBCancelTimelockExpired _ \<Rightarrow> ''Cancel timelock is expired''
   | DBBtcCancelled _ \<Rightarrow> ''Bitcoin refundable''
   | DBDone end_state \<Rightarrow> ''Done: '' @ db_bob_end_display end_state)"

datatype db_swap = DbAlice db_alice | DbBob db_bob

definition db_swap_from_state :: "swap_state \<Rightarrow> db_swap" where
  "db_swap_from_state s =
     (case s of SAlice a \<Rightarrow> DbAlice (db_alice_from a) | SBob b \<Rightarrow> DbBob (db_bob_from b))"

definition state_from_db_swap :: "db_swap \<Rightarrow> swap_state" where
  "state_from_db_swap d =
     (case d of DbAlice a \<Rightarrow> SAlice (alice_state_from_db a) | DbBob b \<Rightarrow> SBob (bob_state_from_db b))"

definition db_swap_display :: "db_swap \<Rightarrow> string" where
  "db_swap_display d = (case d of DbAlice a \<Rightarrow> db_alice_display a | DbBob b \<Rightarrow> db_bob_display b)"

definition db_swap_try_into_alice :: "db_swap \<Rightarrow> db_alice outcome" where
  "db_swap_try_into_alice d =
     (case d of DbAlice a \<Rightarrow> Ok a | DbBob _ \<Rightarrow> Err (Msg ''Not in the role of Alice''))"

definition db_swap_try_into_bob :: "db_swap \<Rightarrow> db_bob outcome" where
  "db_swap_try_into_bob d =
     (case d of DbBob b \<Rightarrow> Ok b | DbAlice _ \<Rightarrow> Err (Msg ''Not in the role of Bob''))"

section \<open>Codecs\<close>

text \<open>
  The contract of every conversion to a stored form: what was written is read back.
\<close>

locale codec =
  fixes enc :: "'a \<Rightarrow> 'b" and dec :: "'b \<Rightarrow> 'a"
  assumes dec_enc: "dec (enc x) = x"
begin

lemma enc_eq: "enc x = enc y \<longleftrightarrow> x = y"
  by (metis dec_enc)

lemma map_dec_enc: "map dec (map enc xs) = xs"
  by (simp add: dec_enc comp_def)

end

text \<open>A codec that loses nothing in the other direction either.\<close>

locale exact_codec = codec +
  assumes enc_dec: "enc (dec y) = y"
begin

lemma dec_eq: "dec x = dec y \<longleftrightarrow> x = y"
  by (metis enc_dec)

lemma bij_enc: "bij enc"
  by (rule bij_betw_byWitness[of _ dec]) (auto simp: dec_enc enc_dec)

end

interpretation alice_codec: exact_codec db_alice_from alice_state_from_db
  by unfold_locales
    (auto simp: db_alice_from_def alice_state_from_db_def split: alice_state.split db_alice.split db_alice_end.split)

interpretation bob_codec: exact_codec db_bob_from bob_state_from_db
  by unfold_locales
    (auto simp: db_bob_from_def bob_state_from_db_def split: bob_state.split db_bob.split db_bob_end.split)

interpretation swap_codec: exact_codec db_swap_from_state state_from_db_swap
  by unfold_locales
    (auto simp: db_swap_from_state_def state_from_db_swap_def alice_codec.dec_enc alice_codec.enc_dec
      bob_codec.dec_enc bob_codec.enc_dec split: swap_state.split db_swap.split)

end
