(* ===== verification/Sqlite.thy ===== *)
theory Sqlite
  imports Database
begin

text \<open>
  \<open>database/sqlite.rs\<close>: the tables of the database and the statements of \<open>SqliteDatabase\<close> on them.
  Rows stand in the order of insertion. The two tables with a primary key on the swap refuse a
  second row for it; the ids of \<open>swap_states\<close> come from \<open>autoincrement\<close> and are never used twice.
  The contract of the stored states, as the swap loops rely on it, is the locale \<open>latest_store\<close>.
\<close>

section \<open>Tables\<close>

record state_row =
  sr_id :: nat
  sr_swap_id :: string
  sr_entered_at :: string
  sr_state :: string

record sqlite =
  t_swap_states :: "state_row list"
  t_sequence :: nat
  t_beldex_addresses :: "(string \<times> string) list"
  t_peers :: "(string \<times> string) list"
  t_peer_addresses :: "(string \<times> string) list"
  t_proofs :: "(string \<times> string) list"

type_synonym multiaddr = nat

text \<open>
  What other crates do for the database: acquiring a connection of the pool, the text forms of ids
  and addresses, and JSON.
\<close>

record db_lib =
  dl_acquire :: "sqlite \<Rightarrow> unit outcome"
  dl_uuid_to_string :: "uuid \<Rightarrow> string"
  dl_uuid_from_str :: "string \<Rightarrow> uuid outcome"
  dl_peer_to_string :: "peer_id \<Rightarrow> string"
  dl_peer_from_str :: "string \<Rightarrow> peer_id outcome"
  dl_multiaddr_to_string :: "multiaddr \<Rightarrow> string"
  dl_multiaddr_from_str :: "string \<Rightarrow> multiaddr outcome"
  dl_address_to_string :: "bdx_address \<Rightarrow> string"
  dl_address_parse :: "string \<Rightarrow> bdx_address outcome"
  dl_swap_to_json :: "db_swap \<Rightarrow> string outcome"
  dl_swap_from_json :: "string \<Rightarrow> db_swap outcome"
  dl_proof_to_json :: "transfer_proof \<Rightarrow> string outcome"
  dl_proof_from_json :: "string \<Rightarrow> transfer_proof outcome"

text \<open>
  Printed forms are read back, a connection is there, and what \<open>serde_json\<close> could write it reads
  back.
\<close>

definition db_laws :: "db_lib \<Rightarrow> bool" where
  "db_laws D \<longleftrightarrow>
     (\<forall>t. dl_acquire D t = Ok ()) \<and>
     (\<forall>i. dl_uuid_from_str D (dl_uuid_to_string D i) = Ok i) \<and>
     (\<forall>i. dl_peer_from_str D (dl_peer_to_string D i) = Ok i) \<and>
     (\<forall>a. dl_multiaddr_from_str D (dl_multiaddr_to_string D a) = Ok a) \<and>
     (\<forall>a. dl_address_parse D (dl_address_to_string D a) = Ok a) \<and>
     (\<forall>s j. dl_swap_to_json D s = Ok j \<longrightarrow> dl_swap_from_json D j = Ok s) \<and>
     (\<forall>p. \<exists>j. dl_proof_to_json D p = Ok j \<and> dl_proof_from_json D j = Ok p)"

definition acquire :: "db_lib \<Rightarrow> (sqlite, unit) io" where
  "acquire D = (\<lambda>t. (dl_acquire D t, t))"

section \<open>Statements\<close>

text \<open>\<open>insert into T (..) values (?, ?)\<close> with a primary key, and \<open>SELECT .. WHERE key = ?\<close> with \<open>fetch_one\<close>.\<close>

definition insert_keyed :: "string \<Rightarrow> string \<Rightarrow> (string \<times> string) list \<Rightarrow> (string \<times> string) list outcome" where
  "insert_keyed k v t =
     (if k \<in> fst ` set t then Err (Msg ''UNIQUE constraint failed'') else Ok (t @ [(k, v)]))"

definition select_keyed :: "string \<Rightarrow> (string \<times> string) list \<Rightarrow> string list" where
  "select_keyed k t = map snd (filter (\<lambda>r. fst r = k) t)"

primrec fetch_one :: "'a list \<Rightarrow> 'a outcome" where
  "fetch_one [] = Err (Msg ''no rows returned by a query that expected to return at least one row'')"
| "fetch_one (r # rs) = Ok r"

definition insert_peer_id :: "db_lib \<Rightarrow> uuid \<Rightarrow> peer_id \<Rightarrow> (sqlite, unit) io" where
  "insert_peer_id D swap_id peer =
     bindio (acquire D) (\<lambda>_. \<lambda>t.
     case insert_keyed (dl_uuid_to_string D swap_id) (dl_peer_to_string D peer) (t_peers t) of
       Ok rows \<Rightarrow> (Ok (), t\<lparr>t_peers := rows\<rparr>)
     | r \<Rightarrow> (omap (\<lambda>_. ()) r, t))"

definition get_peer_id :: "db_lib \<Rightarrow> uuid \<Rightarrow> (sqlite, peer_id) io" where
  "get_peer_id D swap_id =
     bindio (acquire D) (\<lambda>_. \<lambda>t.
     (obind (fetch_one (select_keyed (dl_uuid_to_string D swap_id) (t_peers t))) (dl_peer_from_str D), t))"

definition insert_beldex_address :: "db_lib \<Rightarrow> uuid \<Rightarrow> bdx_address \<Rightarrow> (sqlite, unit) io" where
  "insert_beldex_address D swap_id address =
     bindio (acquire D) (\<lambda>_. \<lambda>t.
     case insert_keyed (dl_uuid_to_string D swap_id) (dl_address_to_string D address) (t_beldex_addresses t) of
       Ok rows \<Rightarrow> (Ok (), t\<lparr>t_beldex_addresses := rows\<rparr>)
     | r \<Rightarrow> (omap (\<lambda>_. ()) r, t))"

definition get_beldex_address :: "db_lib \<Rightarrow> uuid \<Rightarrow> (sqlite, bdx_address) io" where
  "get_beldex_address D swap_id =
     bindio (acquire D) (\<lambda>_. \<lambda>t.
     (obind (fetch_one (select_keyed (dl_uuid_to_string D swap_id) (t_beldex_addresses t))) (dl_address_parse D), t))"

text \<open>\<open>peer_addresses\<close> has no key; \<open>DISTINCT\<close> removes repeated addresses when they are read.\<close>

definition insert_address :: "db_lib \<Rightarrow> peer_id \<Rightarrow> multiaddr \<Rightarrow> (sqlite, unit) io" where
  "insert_address D peer address =
     bindio (acquire D) (\<lambda>_. \<lambda>t.
     (Ok (), t\<lparr>t_peer_addresses := t_peer_addresses t @ [(dl_peer_to_string D peer, dl_multiaddr_to_string D address)]\<rparr>))"

definition get_addresses :: "db_lib \<Rightarrow> peer_id \<Rightarrow> (sqlite, multiaddr list) io" where
  "get_addresses D peer =
     bindio (acquire D) (\<lambda>_. \<lambda>t.
     (collect_results (dl_multiaddr_from_str D)
        (remdups (select_keyed (dl_peer_to_string D peer) (t_peer_addresses t))), t))"

text \<open>The text order that \<open>min\<close> uses on a column of type \<open>TEXT\<close>: byte by byte.\<close>

fun text_le :: "string \<Rightarrow> string \<Rightarrow> bool" where
  "text_le [] y = True"
| "text_le (a # x) [] = False"
| "text_le (a # x) (b # y) =
     (of_char a < (of_char b :: nat) \<or> a = b \<and> text_le x y)"

fun text_min :: "string list \<Rightarrow> string option" where
  "text_min [] = None"
| "text_min (x # xs) = (case text_min xs of None \<Rightarrow> Some x | Some m \<Rightarrow> Some (if text_le x m then x else m))"

definition rows_of :: "string \<Rightarrow> sqlite \<Rightarrow> state_row list" where
  "rows_of i t = filter (\<lambda>r. sr_swap_id r = i) (t_swap_states t)"

definition get_swap_start_date :: "db_lib \<Rightarrow> uuid \<Rightarrow> (sqlite, string) io" where
  "get_swap_start_date D swap_id =
     bindio (acquire D) (\<lambda>_. \<lambda>t.
     (of_option (Msg ''Could not get swap start date'')
        (text_min (map sr_entered_at (rows_of (dl_uuid_to_string D swap_id) t))), t))"

text \<open>\<open>now\<close> is the printed time at which the state is entered.\<close>

definition sql_insert_latest_state :: "db_lib \<Rightarrow> string \<Rightarrow> uuid \<Rightarrow> swap_state \<Rightarrow> (sqlite, unit) io" where
  "sql_insert_latest_state D now swap_id state =
     bindio (acquire D) (\<lambda>_.
     bindio (lift (dl_swap_to_json D (db_swap_from_state state))) (\<lambda>swap. \<lambda>t.
     (Ok (), t\<lparr>t_swap_states := t_swap_states t @
                [\<lparr>sr_id = Suc (t_sequence t), sr_swap_id = dl_uuid_to_string D swap_id,
                  sr_entered_at = now, sr_state = swap\<rparr>],
               t_sequence := Suc (t_sequence t)\<rparr>)))"

definition sql_get_state :: "db_lib \<Rightarrow> uuid \<Rightarrow> (sqlite, swap_state) io" where
  "sql_get_state D swap_id =
     bindio (acquire D) (\<lambda>_. \<lambda>t.
     (obind (case take 1 (rev (sort_key sr_id (rows_of (dl_uuid_to_string D swap_id) t))) of
               [] \<Rightarrow> Err (Msg (''No state in database for swap: '' @ dl_uuid_to_string D swap_id))
             | row # _ \<Rightarrow> Ok row) (\<lambda>row.
      obind (dl_swap_from_json D (sr_state row)) (\<lambda>swap.
      Ok (state_from_db_swap swap))), t))"

text \<open>
  \<open>SELECT max(id), swap_id, state .. GROUP BY swap_id\<close>: one row per swap, with the columns of the row
  that has the largest id. The order of the groups is not fixed by the statement.
\<close>

definition latest_row :: "state_row list \<Rightarrow> state_row option" where
  "latest_row rows = (case rev (sort_key sr_id rows) of [] \<Rightarrow> None | r # _ \<Rightarrow> Some r)"

definition latest_rows :: "sqlite \<Rightarrow> state_row list" where
  "latest_rows t = List.map_filter (\<lambda>i. latest_row (rows_of i t)) (remdups (map sr_swap_id (t_swap_states t)))"

definition sql_all :: "db_lib \<Rightarrow> (sqlite, (uuid \<times> swap_state) list) io" where
  "sql_all D =
     bindio (acquire D) (\<lambda>_. \<lambda>t.
     (collect_results (\<lambda>row.
        obind (dl_uuid_from_str D (sr_swap_id row)) (\<lambda>swap_id.
        obind (dl_swap_from_json D (sr_state row)) (\<lambda>a.
        Ok (swap_id, state_from_db_swap a)))) (latest_rows t), t))"

definition sql_get_states :: "db_lib \<Rightarrow> uuid \<Rightarrow> (sqlite, swap_state list) io" where
  "sql_get_states D swap_id =
     bindio (acquire D) (\<lambda>_. \<lambda>t.
     (collect_results (\<lambda>row.
        obind (dl_swap_from_json D (sr_state row)) (\<lambda>a. Ok (state_from_db_swap a)))
        (rows_of (dl_uuid_to_string D swap_id) t), t))"

definition insert_buffered_transfer_proof :: "db_lib \<Rightarrow> uuid \<Rightarrow> transfer_proof \<Rightarrow> (sqlite, unit) io" where
  "insert_buffered_transfer_proof D swap_id proof =
     bindio (acquire D) (\<lambda>_.
     bindio (lift (dl_proof_to_json D proof)) (\<lambda>json. \<lambda>t.
     case insert_keyed (dl_uuid_to_string D swap_id) json (t_proofs t) of
       Ok rows \<Rightarrow> (Ok (), t\<lparr>t_proofs := rows\<rparr>)
     | r \<Rightarrow> (omap (\<lambda>_. ()) r, t)))"

definition get_buffered_transfer_proof :: "db_lib \<Rightarrow> uuid \<Rightarrow> (sqlite, transfer_proof option) io" where
  "get_buffered_transfer_proof D swap_id =
     bindio (acquire D) (\<lambda>_. \<lambda>t.
     (case select_keyed (dl_uuid_to_string D swap_id) (t_proofs t) of
        [] \<Rightarrow> Ok None
      | proof # _ \<Rightarrow> obind (dl_proof_from_json D proof) (\<lambda>p. Ok (Some p)), t))"

end
