(* ===== verification/Database_Properties.thy ===== *)
theory Database_Properties
  imports Sqlite
begin

text \<open>
  What the database promises its clients. The stored states are a map from swaps to their latest
  state (the locale \<open>latest_store\<close>), the tables with a primary key are maps in which the first entry
  stays (the locale \<open>once_store\<close>). Both contracts are proved of the statements of \<open>Sqlite\<close>, on
  databases that the operations themselves have filled (\<open>sqlite_ok\<close>).
\<close>

section \<open>Interfaces\<close>

primrec for_each :: "('a \<Rightarrow> ('w, unit) io) \<Rightarrow> 'a list \<Rightarrow> ('w, unit) io" where
  "for_each f [] = ret ()"
| "for_each f (x # xs) = bindio (f x) (\<lambda>_. for_each f xs)"

text \<open>\<open>let _ = f().await;\<close>: an error is dropped.\<close>

definition discard :: "('w, 'a) io \<Rightarrow> ('w, unit) io" where
  "discard m = bindio (attempt m) (\<lambda>_. ret ())"

lemma discard_simps:
  "m w = (Ok x, w') \<Longrightarrow> discard m w = (Ok (), w')"
  "m w = (Err e, w') \<Longrightarrow> discard m w = (Ok (), w')"
  by (simp_all add: discard_def attempt_def bindio_def)

primrec ok_value :: "'a outcome \<Rightarrow> 'a option" where
  "ok_value (Ok x) = Some x"
| "ok_value (Err e) = None"
| "ok_value (Panic p) = None"
| "ok_value Pending = None"

text \<open>
  An insertion that succeeds replaces what its key had, any other changes nothing; \<open>'t\<close> is the time
  of the insertion.
\<close>

locale latest_store =
  fixes insert :: "'t \<Rightarrow> 'k \<Rightarrow> 'v \<Rightarrow> ('w, unit) io"
    and get :: "'k \<Rightarrow> 'w \<Rightarrow> 'v option"
    and valid :: "'w \<Rightarrow> bool"
  assumes insert_valid: "valid w \<Longrightarrow> insert t k v w = (Ok u, w') \<Longrightarrow> valid w'"
    and get_insert: "valid w \<Longrightarrow> insert t k v w = (Ok u, w') \<Longrightarrow> get i w' = (if i = k then Some v else get i w)"
    and insert_refused: "valid w \<Longrightarrow> insert t k v w = (r, w') \<Longrightarrow> r \<noteq> Ok () \<Longrightarrow> w' = w"
begin

lemma insert_all:
  "valid w \<Longrightarrow> for_each (\<lambda>(t, k, v). insert t k v) es w = (Ok u, w') \<Longrightarrow> valid w' \<and>
     (\<forall>i. get i w' = (case map_of (rev (map snd es)) i of Some v \<Rightarrow> Some v | None \<Rightarrow> get i w))"
proof (induction es arbitrary: w)
  case (Cons e es)
  obtain t k v where e: "e = (t, k, v)" by (cases e) auto
  obtain w1 where w1: "insert t k v w = (Ok (), w1)"
    and w2: "for_each (\<lambda>(t, k, v). insert t k v) es w1 = (Ok u, w')"
    using Cons.prems(2) by (auto simp: e outcome_rules)
  have "valid w1" by (rule insert_valid[OF Cons.prems(1) w1])
  from Cons.IH[OF this w2] show ?case
    using get_insert[OF Cons.prems(1) w1] by (simp add: e map_add_def split: option.splits)
qed simp

text \<open>Insertions that stop at a failure leave the last accepted state of each key.\<close>

lemma insert_all_valid: "valid w \<Longrightarrow> for_each (\<lambda>(t, k, v). insert t k v) es w = (r, w') \<Longrightarrow> valid w'"
proof (induction es arbitrary: w)
  case (Cons e es)
  obtain t k v where e: "e = (t, k, v)" by (cases e) auto
  obtain r1 w1 where w1: "insert t k v w = (r1, w1)" by fastforce
  have "valid w1"
    using insert_valid[OF Cons.prems(1), of t k v "()" w1] insert_refused[OF Cons.prems(1) w1] Cons.prems(1) w1
    by (cases "r1 = Ok ()") auto
  thus ?case
    using Cons.IH[of w1] Cons.prems(2) w1 by (cases r1) (auto simp: e bindio_def)
qed simp

end

text \<open>A key is inserted once; a second insertion is refused and changes nothing.\<close>

locale once_store =
  fixes insert :: "'k \<Rightarrow> 'v \<Rightarrow> ('w, unit) io"
    and get :: "'k \<Rightarrow> 'w \<Rightarrow> 'v option"
    and valid :: "'w \<Rightarrow> bool"
  assumes insert_fresh: "valid w \<Longrightarrow> get k w = None \<Longrightarrow>
      \<exists>w'. insert k v w = (Ok (), w') \<and> valid w' \<and> (\<forall>i. get i w' = (if i = k then Some v else get i w))"
    and insert_taken: "valid w \<Longrightarrow> get k w = Some u \<Longrightarrow> \<exists>e. insert k v w = (Err e, w)"
begin

lemma attempt_all:
  "valid w \<Longrightarrow> \<exists>w'. for_each (\<lambda>(k, v). discard (insert k v)) es w = (Ok (), w') \<and> valid w' \<and>
     (\<forall>i. get i w' = (case get i w of Some v \<Rightarrow> Some v | None \<Rightarrow> map_of es i))"
proof (induction es arbitrary: w)
  case Nil
  thus ?case by (auto split: option.splits)
next
  case (Cons e es)
  obtain k v where e: "e = (k, v)" by (cases e) auto
  let ?put = "discard (insert k v)"
  have "\<exists>w1. ?put w = (Ok (), w1) \<and> valid w1 \<and>
      (\<forall>i. get i w1 = (case get i w of Some v \<Rightarrow> Some v | None \<Rightarrow> if i = k then Some v else None))"
  proof (cases "get k w")
    case None
    from insert_fresh[OF Cons.prems None, of v] obtain w1 where
      "insert k v w = (Ok (), w1)" "valid w1" "\<forall>i. get i w1 = (if i = k then Some v else get i w)" by blast
    thus ?thesis using None by (auto simp: discard_simps split: option.splits)
  next
    case (Some u)
    from insert_taken[OF Cons.prems Some, of v] obtain er where "insert k v w = (Err er, w)" by blast
    thus ?thesis using Some Cons.prems by (auto simp: discard_simps split: option.splits)
  qed
  then obtain w1 where w1: "?put w = (Ok (), w1)" "valid w1"
    "\<forall>i. get i w1 = (case get i w of Some v \<Rightarrow> Some v | None \<Rightarrow> if i = k then Some v else None)" by blast
  from Cons.IH[OF w1(2)] obtain w2 where w2:
    "for_each (\<lambda>(k, v). discard (insert k v)) es w1 = (Ok (), w2)" "valid w2"
    "\<forall>i. get i w2 = (case get i w1 of Some v \<Rightarrow> Some v | None \<Rightarrow> map_of es i)" by blast
  have "for_each (\<lambda>(k, v). discard (insert k v)) (e # es) w = (Ok (), w2)"
    using w1(1) w2(1) by (simp add: e bindio_def)
  moreover have "get i w2 = (case get i w of Some v \<Rightarrow> Some v | None \<Rightarrow> map_of (e # es) i)" for i
    using w1(3) w2(3) by (simp add: e split: option.splits)
  ultimately show ?case using w2(2) by blast
qed

end

section \<open>Databases that the operations have filled\<close>

definition decodes :: "(string \<Rightarrow> 'a outcome) \<Rightarrow> string \<Rightarrow> bool" where
  "decodes f s \<longleftrightarrow> (\<exists>x. f s = Ok x)"

definition sqlite_ok :: "db_lib \<Rightarrow> sqlite \<Rightarrow> bool" where
  "sqlite_ok D t \<longleftrightarrow>
     sorted_wrt (<) (map sr_id (t_swap_states t)) \<and>
     (\<forall>r\<in>set (t_swap_states t). sr_id r \<le> t_sequence t \<and> decodes (dl_swap_from_json D) (sr_state r) \<and>
        sr_swap_id r \<in> range (dl_uuid_to_string D)) \<and>
     (\<forall>r\<in>set (t_peers t). decodes (dl_peer_from_str D) (snd r)) \<and>
     (\<forall>r\<in>set (t_beldex_addresses t). decodes (dl_address_parse D) (snd r)) \<and>
     (\<forall>r\<in>set (t_proofs t). decodes (dl_proof_from_json D) (snd r))"

definition empty_sqlite :: sqlite where
  "empty_sqlite = \<lparr>t_swap_states = [], t_sequence = 0, t_beldex_addresses = [], t_peers = [],
     t_peer_addresses = [], t_proofs = []\<rparr>"

lemma sqlite_ok_empty [simp]: "sqlite_ok D empty_sqlite"
  by (simp add: sqlite_ok_def empty_sqlite_def)

lemma acquire_ok [simp]: "db_laws D \<Longrightarrow> acquire D t = (Ok (), t)"
  by (simp add: acquire_def db_laws_def)

lemma uuid_string_eq: "db_laws D \<Longrightarrow> dl_uuid_to_string D i = dl_uuid_to_string D j \<longleftrightarrow> i = j"
  unfolding db_laws_def by (metis outcome.inject(1))

lemma sort_key_sorted: "sorted (map f xs) \<Longrightarrow> sort_key f xs = xs"
proof (induction xs)
  case (Cons x xs)
  thus ?case by (cases xs) auto
qed simp

lemma rows_of_sorted: "sqlite_ok D t \<Longrightarrow> sort_key sr_id (rows_of i t) = rows_of i t"
  unfolding sqlite_ok_def rows_of_def
  by (intro sort_key_sorted) (metis (no_types, lifting) sorted_wrt_filter sorted_wrt_map sorted_wrt_mono_rel less_imp_le)

section \<open>The stored states\<close>

abbreviation swap_state_of :: "db_lib \<Rightarrow> uuid \<Rightarrow> sqlite \<Rightarrow> swap_state option" where
  "swap_state_of D i t \<equiv> ok_value (fst (sql_get_state D i t))"

lemma sql_get_state_last:
  assumes "db_laws D" "sqlite_ok D t"
  shows "sql_get_state D i t =
    ((let rows = rows_of (dl_uuid_to_string D i) t in
      if rows = [] then Err (Msg (''No state in database for swap: '' @ dl_uuid_to_string D i))
      else omap state_from_db_swap (dl_swap_from_json D (sr_state (last rows)))), t)"
proof -
  let ?rows = "rows_of (dl_uuid_to_string D i) t"
  have rows: "sort_key sr_id ?rows = ?rows" by (rule rows_of_sorted[OF assms(2)])
  have omap: "obind m (\<lambda>swap. Ok (state_from_db_swap swap)) = omap state_from_db_swap m" for m
    by (cases m) auto
  show ?thesis
    using rows by (cases ?rows rule: rev_cases) (simp_all add: sql_get_state_def bindio_def assms(1) omap)
qed

lemma sql_insert_cases:
  assumes "db_laws D" "sql_insert_latest_state D now i s t = (r, t')"
  obtains (stored) j where "dl_swap_from_json D j = Ok (db_swap_from_state s)" "r = Ok ()"
      "t' = t\<lparr>t_swap_states := t_swap_states t @
          [\<lparr>sr_id = Suc (t_sequence t), sr_swap_id = dl_uuid_to_string D i, sr_entered_at = now, sr_state = j\<rparr>],
        t_sequence := Suc (t_sequence t)\<rparr>"
    | (refused) "r \<noteq> Ok ()" "t' = t"
proof (cases "dl_swap_to_json D (db_swap_from_state s)")
  case (Ok j)
  hence "dl_swap_from_json D j = Ok (db_swap_from_state s)"
    using assms(1) unfolding db_laws_def by blast
  thus ?thesis using stored assms Ok by (auto simp: sql_insert_latest_state_def bindio_def)
qed (use refused assms in \<open>auto simp: sql_insert_latest_state_def bindio_def\<close>)

lemma sql_insert_ok:
  assumes "db_laws D" "sqlite_ok D t" "sql_insert_latest_state D now i s t = (r, t')"
  shows "sqlite_ok D t'"
  using assms(1,3)
proof (cases rule: sql_insert_cases)
  case (stored j)
  thus ?thesis using assms(2)
    by (auto simp: sqlite_ok_def sorted_wrt_append decodes_def less_Suc_eq_le le_Suc_eq)
qed (use assms in auto)

lemma sql_get_insert:
  assumes "db_laws D" "sqlite_ok D t" "sql_insert_latest_state D now k s t = (Ok u, t')"
  shows "swap_state_of D i t' = (if i = k then Some s else swap_state_of D i t)"
  using assms(1,3)
proof (cases rule: sql_insert_cases)
  case (stored j)
  have rows: "rows_of (dl_uuid_to_string D i) t' = rows_of (dl_uuid_to_string D i) t @
      (if i = k then [\<lparr>sr_id = Suc (t_sequence t), sr_swap_id = dl_uuid_to_string D k,
         sr_entered_at = now, sr_state = j\<rparr>] else [])"
    using stored(3) uuid_string_eq[OF assms(1), of k i] by (auto simp: rows_of_def)
  show ?thesis
    unfolding sql_get_state_last[OF assms(1) sql_insert_ok[OF assms]] sql_get_state_last[OF assms(1,2)] rows
    using stored(1) by (simp add: Let_def swap_codec.dec_enc)
qed simp

interpretation swap_states:
  latest_store "sql_insert_latest_state D" "swap_state_of D" "\<lambda>t. db_laws D \<and> sqlite_ok D t" for D
proof
  fix now k s r and t t' :: sqlite
  assume "db_laws D \<and> sqlite_ok D t" "sql_insert_latest_state D now k s t = (r, t')" "r \<noteq> Ok ()"
  thus "t' = t" by (blast elim: sql_insert_cases)
qed (use sql_insert_ok sql_get_insert in blast)+

section \<open>Tables with a primary key\<close>

definition keyed_value :: "(string \<Rightarrow> 'a outcome) \<Rightarrow> string \<Rightarrow> (string \<times> string) list \<Rightarrow> 'a option" where
  "keyed_value f k t = (case select_keyed k t of [] \<Rightarrow> None | v # _ \<Rightarrow> ok_value (f v))"

lemma select_keyed_append [simp]: "select_keyed k (t @ u) = select_keyed k t @ select_keyed k u"
  by (simp add: select_keyed_def)

lemma select_keyed_Nil: "select_keyed k t = [] \<longleftrightarrow> k \<notin> fst ` set t"
  by (auto simp: select_keyed_def filter_empty_conv)

lemma select_keyed_one [simp]: "select_keyed k [(i, v)] = (if i = k then [v] else [])"
  by (simp add: select_keyed_def)

lemma keyed_value_None:
  assumes "\<forall>r\<in>set t. decodes f (snd r)"
  shows "keyed_value f k t = None \<longleftrightarrow> k \<notin> fst ` set t"
proof (cases "select_keyed k t")
  case (Cons v vs)
  hence "v \<in> set (select_keyed k t)" by simp
  hence "decodes f v" using assms by (auto simp: select_keyed_def)
  thus ?thesis using Cons select_keyed_Nil[of k t] by (auto simp: keyed_value_def decodes_def)
qed (simp add: keyed_value_def flip: select_keyed_Nil)

lemma insert_keyed_fresh:
  assumes "\<forall>r\<in>set t. decodes f (snd r)" "keyed_value f k t = None" "f v = Ok x"
  shows "insert_keyed k v t = Ok (t @ [(k, v)])"
    and "keyed_value f i (t @ [(k, v)]) = (if i = k then Some x else keyed_value f i t)"
proof -
  have new: "k \<notin> fst ` set t" using assms(2) keyed_value_None[OF assms(1)] by simp
  thus "insert_keyed k v t = Ok (t @ [(k, v)])" by (simp add: insert_keyed_def)
  have "select_keyed k t = []" using new by (simp add: select_keyed_Nil)
  thus "keyed_value f i (t @ [(k, v)]) = (if i = k then Some x else keyed_value f i t)"
    using assms(3) by (auto simp: keyed_value_def split: list.split)
qed

lemma insert_keyed_taken:
  assumes "keyed_value f k t = Some u"
  shows "insert_keyed k v t = Err (Msg ''UNIQUE constraint failed'')"
proof -
  have "select_keyed k t \<noteq> []" using assms by (auto simp: keyed_value_def)
  thus ?thesis by (simp add: insert_keyed_def select_keyed_Nil)
qed

abbreviation peer_of :: "db_lib \<Rightarrow> uuid \<Rightarrow> sqlite \<Rightarrow> peer_id option" where
  "peer_of D i t \<equiv> ok_value (fst (get_peer_id D i t))"

abbreviation address_of :: "db_lib \<Rightarrow> uuid \<Rightarrow> sqlite \<Rightarrow> bdx_address option" where
  "address_of D i t \<equiv> ok_value (fst (get_beldex_address D i t))"

abbreviation proof_of :: "db_lib \<Rightarrow> uuid \<Rightarrow> sqlite \<Rightarrow> transfer_proof option" where
  "proof_of D i t \<equiv> Option.bind (ok_value (fst (get_buffered_transfer_proof D i t))) id"

lemma ok_value_fetch: "ok_value (obind (fetch_one rs) f) = (case rs of [] \<Rightarrow> None | v # _ \<Rightarrow> ok_value (f v))"
  by (cases rs) auto

lemma bind_ok_value: "Option.bind (ok_value (obind m (\<lambda>p. Ok (Some p)))) id = ok_value m"
  by (cases m) auto

lemma keyed_values:
  assumes "db_laws D"
  shows "peer_of D i t = keyed_value (dl_peer_from_str D) (dl_uuid_to_string D i) (t_peers t)"
    and "address_of D i t = keyed_value (dl_address_parse D) (dl_uuid_to_string D i) (t_beldex_addresses t)"
    and "proof_of D i t = keyed_value (dl_proof_from_json D) (dl_uuid_to_string D i) (t_proofs t)"
  by (simp_all add: get_peer_id_def get_beldex_address_def get_buffered_transfer_proof_def keyed_value_def
      ok_value_fetch bind_ok_value bindio_def assms split: list.split)

lemma keyed_rows_decode:
  assumes "sqlite_ok D t"
  shows "\<forall>r\<in>set (t_peers t). decodes (dl_peer_from_str D) (snd r)"
    and "\<forall>r\<in>set (t_beldex_addresses t). decodes (dl_address_parse D) (snd r)"
    and "\<forall>r\<in>set (t_proofs t). decodes (dl_proof_from_json D) (snd r)"
  using assms by (simp_all add: sqlite_ok_def)

interpretation peers: once_store "insert_peer_id D" "peer_of D" "\<lambda>t. db_laws D \<and> sqlite_ok D t" for D
proof
  fix k v and t :: sqlite
  assume ok: "db_laws D \<and> sqlite_ok D t" and "peer_of D k t = None"
  hence none: "keyed_value (dl_peer_from_str D) (dl_uuid_to_string D k) (t_peers t) = None"
    by (simp add: keyed_values)
  have v: "dl_peer_from_str D (dl_peer_to_string D v) = Ok v" using ok by (simp add: db_laws_def)
  note new = insert_keyed_fresh[OF keyed_rows_decode(1) none v]
  show "\<exists>t'. insert_peer_id D k v t = (Ok (), t') \<and> (db_laws D \<and> sqlite_ok D t') \<and>
      (\<forall>i. peer_of D i t' = (if i = k then Some v else peer_of D i t))"
    using ok new v
    by (auto simp: insert_peer_id_def bindio_def sqlite_ok_def decodes_def keyed_values uuid_string_eq)
next
  fix k u v and t :: sqlite
  assume "db_laws D \<and> sqlite_ok D t" "peer_of D k t = Some u"
  thus "\<exists>e. insert_peer_id D k v t = (Err e, t)"
    by (auto simp: insert_peer_id_def bindio_def keyed_values insert_keyed_taken)
qed

interpretation addresses: once_store "insert_beldex_address D" "address_of D" "\<lambda>t. db_laws D \<and> sqlite_ok D t" for D
proof
  fix k v and t :: sqlite
  assume ok: "db_laws D \<and> sqlite_ok D t" and "address_of D k t = None"
  hence none: "keyed_value (dl_address_parse D) (dl_uuid_to_string D k) (t_beldex_addresses t) = None"
    by (simp add: keyed_values)
  have v: "dl_address_parse D (dl_address_to_string D v) = Ok v" using ok by (simp add: db_laws_def)
  note new = insert_keyed_fresh[OF keyed_rows_decode(2) none v]
  show "\<exists>t'. insert_beldex_address D k v t = (Ok (), t') \<and> (db_laws D \<and> sqlite_ok D t') \<and>
      (\<forall>i. address_of D i t' = (if i = k then Some v else address_of D i t))"
    using ok new v
    by (auto simp: insert_beldex_address_def bindio_def sqlite_ok_def decodes_def keyed_values uuid_string_eq)
next
  fix k u v and t :: sqlite
  assume "db_laws D \<and> sqlite_ok D t" "address_of D k t = Some u"
  thus "\<exists>e. insert_beldex_address D k v t = (Err e, t)"
    by (auto simp: insert_beldex_address_def bindio_def keyed_values insert_keyed_taken)
qed

lemma proof_json:
  assumes "db_laws D"
  obtains j where "dl_proof_to_json D p = Ok j" "dl_proof_from_json D j = Ok p"
  using assms unfolding db_laws_def by blast

interpretation proofs: once_store "insert_buffered_transfer_proof D" "proof_of D" "\<lambda>t. db_laws D \<and> sqlite_ok D t" for D
proof
  fix k v and t :: sqlite
  assume ok: "db_laws D \<and> sqlite_ok D t" and "proof_of D k t = None"
  hence none: "keyed_value (dl_proof_from_json D) (dl_uuid_to_string D k) (t_proofs t) = None"
    by (simp only: keyed_values)
  obtain j where j: "dl_proof_to_json D v = Ok j" "dl_proof_from_json D j = Ok v"
    using proof_json ok by blast
  note new = insert_keyed_fresh[OF keyed_rows_decode(3) none j(2)]
  let ?t = "t\<lparr>t_proofs := t_proofs t @ [(dl_uuid_to_string D k, j)]\<rparr>"
  have "insert_buffered_transfer_proof D k v t = (Ok (), ?t)"
    using ok new(1) j(1) by (simp add: insert_buffered_transfer_proof_def bindio_def)
  moreover have "db_laws D \<and> sqlite_ok D ?t"
    using ok j(2) by (auto simp: sqlite_ok_def decodes_def)
  moreover have "proof_of D i ?t = (if i = k then Some v else proof_of D i t)" for i
    unfolding keyed_values(3)[OF conjunct1[OF ok]] using ok new(2) by (simp add: uuid_string_eq)
  ultimately show "\<exists>t'. insert_buffered_transfer_proof D k v t = (Ok (), t') \<and> (db_laws D \<and> sqlite_ok D t') \<and>
      (\<forall>i. proof_of D i t' = (if i = k then Some v else proof_of D i t))"
    by blast
next
  fix k u v and t :: sqlite
  assume ok: "db_laws D \<and> sqlite_ok D t" and "proof_of D k t = Some u"
  hence some: "keyed_value (dl_proof_from_json D) (dl_uuid_to_string D k) (t_proofs t) = Some u"
    by (simp only: keyed_values)
  obtain j where "dl_proof_to_json D v = Ok j" using proof_json ok by blast
  thus "\<exists>e. insert_buffered_transfer_proof D k v t = (Err e, t)"
    using ok insert_keyed_taken[OF some] by (simp add: insert_buffered_transfer_proof_def bindio_def)
qed

section \<open>The list of all swaps\<close>

lemma rows_of_known: "rows_of i t \<noteq> [] \<longleftrightarrow> i \<in> sr_swap_id ` set (t_swap_states t)"
  by (auto simp: rows_of_def filter_empty_conv)

lemma latest_row_last:
  assumes "sqlite_ok D t" "rows_of i t \<noteq> []"
  shows "latest_row (rows_of i t) = Some (last (rows_of i t))"
  using rows_of_sorted[OF assms(1), of i] assms(2)
  by (cases "rows_of i t" rule: rev_cases) (simp_all add: latest_row_def)

lemma latest_rows_eq:
  assumes "sqlite_ok D t"
  shows "latest_rows t = map (\<lambda>i. last (rows_of i t)) (remdups (map sr_swap_id (t_swap_states t)))"
proof -
  have "List.map_filter (\<lambda>i. latest_row (rows_of i t)) is = map (\<lambda>i. last (rows_of i t)) is"
    if "set is \<subseteq> sr_swap_id ` set (t_swap_states t)" for "is"
    using that by (induction "is") (auto simp: List.map_filter_simps latest_row_last[OF assms] rows_of_known)
  thus ?thesis by (simp add: latest_rows_def)
qed

lemma last_row:
  assumes "db_laws D" "sqlite_ok D t" "i \<in> sr_swap_id ` set (t_swap_states t)"
  obtains k s where "i = dl_uuid_to_string D k" "sr_swap_id (last (rows_of i t)) = i"
    "dl_swap_from_json D (sr_state (last (rows_of i t))) = Ok s" "swap_state_of D k t = Some (state_from_db_swap s)"
proof -
  have ne: "rows_of i t \<noteq> []" using assms(3) by (simp add: rows_of_known)
  hence "last (rows_of i t) \<in> set (rows_of i t)" by simp
  hence row: "last (rows_of i t) \<in> set (t_swap_states t)" "sr_swap_id (last (rows_of i t)) = i"
    by (auto simp: rows_of_def)
  then obtain k s where "i = dl_uuid_to_string D k" "dl_swap_from_json D (sr_state (last (rows_of i t))) = Ok s"
    using assms(2) by (fastforce simp: sqlite_ok_def decodes_def)
  thus ?thesis using that row(2) ne by (simp add: sql_get_state_last[OF assms(1,2)])
qed

lemma collect_results_map_map:
  "(\<And>x. x \<in> set xs \<Longrightarrow> f (h x) = Ok (g x)) \<Longrightarrow> collect_results f (map h xs) = Ok (map g xs)"
  by (induction xs) auto

lemma all_swaps:
  assumes "db_laws D" and "sqlite_ok D t"
  shows "\<exists>xs. sql_all D t = (Ok xs, t) \<and> distinct (map fst xs) \<and>
    (\<forall>i s. (i, s) \<in> set xs \<longleftrightarrow> ok_value (fst (sql_get_state D i t)) = Some s)"
proof -
  let ?ids = "remdups (map sr_swap_id (t_swap_states t))"
  define K where "K = (\<lambda>i. the (ok_value (dl_uuid_from_str D i)))"
  define S where "S = (\<lambda>i. the (swap_state_of D (K i) t))"
  let ?xs = "map (\<lambda>i. (K i, S i)) ?ids"
  have K: "K (dl_uuid_to_string D k) = k" for k
    using assms(1) by (simp add: K_def db_laws_def)
  have row: "obind (dl_uuid_from_str D (sr_swap_id (last (rows_of i t)))) (\<lambda>swap_id.
        obind (dl_swap_from_json D (sr_state (last (rows_of i t)))) (\<lambda>a. Ok (swap_id, state_from_db_swap a)))
      = Ok (K i, S i) \<and> swap_state_of D (K i) t = Some (S i) \<and> dl_uuid_to_string D (K i) = i"
    if "i \<in> set ?ids" for i
  proof -
    have "i \<in> sr_swap_id ` set (t_swap_states t)" using that by simp
    then obtain k s where k: "i = dl_uuid_to_string D k" "sr_swap_id (last (rows_of i t)) = i"
      "dl_swap_from_json D (sr_state (last (rows_of i t))) = Ok s" "swap_state_of D k t = Some (state_from_db_swap s)"
      by (rule last_row[OF assms])
    thus ?thesis using assms(1) K[of k] by (simp add: S_def db_laws_def)
  qed
  have "collect_results (\<lambda>row. obind (dl_uuid_from_str D (sr_swap_id row)) (\<lambda>swap_id.
      obind (dl_swap_from_json D (sr_state row)) (\<lambda>a. Ok (swap_id, state_from_db_swap a))))
      (latest_rows t) = Ok ?xs"
    unfolding latest_rows_eq[OF assms(2)] by (rule collect_results_map_map) (use row in blast)
  hence all: "sql_all D t = (Ok ?xs, t)"
    by (simp add: sql_all_def bindio_def assms(1))
  have "inj_on K (set ?ids)" using row by (metis inj_on_inverseI)
  hence "distinct (map fst ?xs)" by (simp add: comp_def distinct_map)
  moreover have "(i, s) \<in> set ?xs \<longleftrightarrow> swap_state_of D i t = Some s" for i s
  proof
    assume "swap_state_of D i t = Some s"
    moreover from this have "rows_of (dl_uuid_to_string D i) t \<noteq> []"
      by (auto simp: sql_get_state_last[OF assms])
    hence "dl_uuid_to_string D i \<in> set ?ids" by (simp add: rows_of_known)
    ultimately show "(i, s) \<in> set ?xs" using K[of i] S_def by force
  qed (use row in auto)
  ultimately show ?thesis using all by blast
qed

text \<open>
  \<open>all\<close> lists every swap of the database once, with the state that \<open>get_state\<close> returns for it.
\<close>

theorem all_lists_latest_states:
  assumes "db_laws D" and "sqlite_ok D t"
  shows "\<exists>xs. sql_all D t = (Ok xs, t) \<and> distinct (map fst xs) \<and>
    (\<forall>i s. (i, s) \<in> set xs \<longleftrightarrow> ok_value (fst (sql_get_state D i t)) = Some s)"
  by (rule all_swaps[OF assms])

section \<open>A concrete library\<close>

text \<open>Numbers in unary, each followed by a full stop.\<close>

definition unary :: "nat \<Rightarrow> string" where
  "unary n = replicate n (CHR ''1'') @ ''.''"

definition read_unary :: "string \<Rightarrow> nat \<times> string" where
  "read_unary s = (length (takeWhile (\<lambda>c. c = CHR ''1'') s), drop 1 (dropWhile (\<lambda>c. c = CHR ''1'') s))"

lemma read_unary [simp]: "read_unary (unary n @ rest) = (n, rest)"
  by (induction n) (auto simp: read_unary_def unary_def)

definition sample_network :: "nat \<Rightarrow> bdx_network" where
  "sample_network n = (if n = 0 then BdxMainnet else if n = 1 then BdxStagenet else BdxTestnet)"

text \<open>JSON texts for the states of a list: the place in the list, in unary.\<close>

definition sample_db_for :: "db_swap list \<Rightarrow> db_lib" where
  "sample_db_for xs =
     \<lparr>dl_acquire = (\<lambda>t. Ok ()),
      dl_uuid_to_string = unary, dl_uuid_from_str = (\<lambda>s. Ok (fst (read_unary s))),
      dl_peer_to_string = unary, dl_peer_from_str = (\<lambda>s. Ok (fst (read_unary s))),
      dl_multiaddr_to_string = unary, dl_multiaddr_from_str = (\<lambda>s. Ok (fst (read_unary s))),
      dl_address_to_string = (\<lambda>a. unary (bdx_network_code (ba_network a)) @
         unary (bdx_pk_point (ba_public_spend a)) @ unary (bdx_pk_point (ba_public_view a))),
      dl_address_parse = (\<lambda>s. let (n, s1) = read_unary s; (p, s2) = read_unary s1; (v, s3) = read_unary s2 in
         Ok \<lparr>ba_network = sample_network n, ba_public_spend = BdxPublicKey p, ba_public_view = BdxPublicKey v\<rparr>),
      dl_swap_to_json = (\<lambda>s. omap unary (of_option (External 5) (position (\<lambda>x. x = s) xs))),
      dl_swap_from_json = (\<lambda>j. of_option (External 6)
         (if fst (read_unary j) < length xs then Some (xs ! fst (read_unary j)) else None)),
      dl_proof_to_json = (\<lambda>p. Ok (unary (pk_scalar (tpf_key p)) @ hash_string (tpf_hash p))),
      dl_proof_from_json = (\<lambda>j. let (k, h) = read_unary j in Ok (transfer_proof_new (TxHash h) (PrivateKey k)))\<rparr>"

lemma sample_network_code: "sample_network (bdx_network_code n) = n"
  by (cases n) (simp_all add: sample_network_def)

lemma sample_db_for_laws: "db_laws (sample_db_for xs)"
proof -
  have u: "read_unary (unary n) = (n, [])" for n using read_unary[of n "[]"] by simp
  have "dl_swap_from_json (sample_db_for xs) j = Ok s" if "dl_swap_to_json (sample_db_for xs) s = Ok j" for s j
    using that position_SomeD[of "\<lambda>x. x = s" xs] by (auto simp: sample_db_for_def omap_eq_Ok of_option_eq_Ok u)
  thus ?thesis
    using u by (auto simp: db_laws_def sample_db_for_def sample_network_code transfer_proof_new_def)
qed

definition sample_db :: db_lib where
  "sample_db = sample_db_for [DbAlice (DADone DABtcRedeemed), DbAlice (DADone DASafelyAborted), DbBob (DBDone DBSafelyAborted)]"

lemma sample_db_laws: "db_laws sample_db"
  by (simp add: sample_db_def sample_db_for_laws)

section \<open>The stored states as a map\<close>

text \<open>
  C18: a state of either party is stored and restored unchanged, and no stored form is the form of two
  states: the conversions between \<open>State\<close> and \<open>Swap\<close> are inverse to each other, and keep the role.
\<close>

theorem stored_state_roundtrip:
  "state_from_db_swap (db_swap_from_state s) = s \<and> db_swap_from_state (state_from_db_swap d) = d \<and>
   omap alice_state_from_db (db_swap_try_into_alice (db_swap_from_state s)) = try_into_alice_state s \<and>
   omap bob_state_from_db (db_swap_try_into_bob (db_swap_from_state s)) = try_into_bob_state s"
proof -
  have "omap alice_state_from_db (db_swap_try_into_alice (db_swap_from_state s)) = try_into_alice_state s \<and>
    omap bob_state_from_db (db_swap_try_into_bob (db_swap_from_state s)) = try_into_bob_state s"
    by (cases s) (simp_all add: db_swap_try_into_alice_def db_swap_try_into_bob_def try_into_alice_state_def
        try_into_bob_state_def db_swap_from_state_def alice_codec.dec_enc bob_codec.dec_enc)
  thus ?thesis using swap_codec.dec_enc swap_codec.enc_dec by blast
qed

text \<open>
  after any sequence of insertions that all succeed, \<open>get_state\<close> returns for each swap the last
  state inserted for it, and what the database had before for a swap without an insertion.
\<close>

theorem latest_state_wins:
  assumes "db_laws D" and "sqlite_ok D t"
    and "for_each (\<lambda>(now, i, s). sql_insert_latest_state D now i s) es t = (Ok (), t')"
  shows "sqlite_ok D t' \<and>
    ok_value (fst (sql_get_state D i t')) =
      (case map_of (rev (map snd es)) i of Some s \<Rightarrow> Some s | None \<Rightarrow> ok_value (fst (sql_get_state D i t)))"
  using swap_states.insert_all[of D t es "()" t'] assms by blast

definition sample_inserts :: "(string \<times> uuid \<times> swap_state) list" where
  "sample_inserts = [(''1'', 7, SAlice ABtcRedeemed), (''2'', 8, SBob BSafelyAborted), (''3'', 7, SAlice ASafelyAborted)]"

definition sample_rows :: sqlite where
  "sample_rows = snd (for_each (\<lambda>(now, i, s). sql_insert_latest_state sample_db now i s) sample_inserts empty_sqlite)"

lemma sample_inserts_ok:
  "for_each (\<lambda>(now, i, s). sql_insert_latest_state sample_db now i s) sample_inserts empty_sqlite = (Ok (), sample_rows)"
  by (simp add: sample_rows_def sample_inserts_def sql_insert_latest_state_def acquire_def sample_db_def sample_db_for_def bindio_def
      db_swap_from_state_def db_alice_from_def db_bob_from_def)

theorem latest_state_wins_witness:
  "ok_value (fst (sql_get_state sample_db 7 sample_rows)) = Some (SAlice ASafelyAborted) \<and>
   ok_value (fst (sql_get_state sample_db 8 sample_rows)) = Some (SBob BSafelyAborted)"
  using latest_state_wins[OF sample_db_laws sqlite_ok_empty sample_inserts_ok, of 7]
    latest_state_wins[OF sample_db_laws sqlite_ok_empty sample_inserts_ok, of 8]
  by (simp add: sample_inserts_def)

lemma sample_rows_ok: "sqlite_ok sample_db sample_rows"
  using swap_states.insert_all_valid[OF _ sample_inserts_ok] sample_db_laws by simp

theorem all_lists_latest_states_witness:
  "\<exists>xs. sql_all sample_db sample_rows = (Ok xs, sample_rows) \<and> distinct (map fst xs) \<and>
    (7, SAlice ASafelyAborted) \<in> set xs \<and> (7, SAlice ABtcRedeemed) \<notin> set xs"
proof -
  obtain xs where xs: "sql_all sample_db sample_rows = (Ok xs, sample_rows)" "distinct (map fst xs)"
    "\<forall>i s. (i, s) \<in> set xs \<longleftrightarrow> ok_value (fst (sql_get_state sample_db i sample_rows)) = Some s"
    using all_lists_latest_states[OF sample_db_laws sample_rows_ok] by blast
  have "swap_state_of sample_db 7 sample_rows = Some (SAlice ASafelyAborted)"
    using swap_states.insert_all[OF _ sample_inserts_ok] sample_db_laws by (simp add: sample_inserts_def)
  thus ?thesis using xs by auto
qed

text \<open>
  of the transfer proofs that are buffered for a swap the first one stays: a later
  \<open>insert_buffered_transfer_proof\<close> for the same swap fails and changes nothing.
\<close>

theorem first_proof_stays:
  assumes "db_laws D" and "sqlite_ok D t"
  shows "\<exists>t'. for_each (\<lambda>(i, p). discard (insert_buffered_transfer_proof D i p)) es t = (Ok (), t') \<and>
    (\<forall>i. Option.bind (ok_value (fst (get_buffered_transfer_proof D i t'))) id =
      (case Option.bind (ok_value (fst (get_buffered_transfer_proof D i t))) id of
         Some p \<Rightarrow> Some p | None \<Rightarrow> map_of es i))"
  using proofs.attempt_all[of D t es] assms by blast

theorem first_proof_stays_witness:
  "\<exists>t'. for_each (\<lambda>(i, p). discard (insert_buffered_transfer_proof sample_db i p))
      [(7, transfer_proof_new (TxHash ''a'') (PrivateKey 1)), (7, transfer_proof_new (TxHash ''b'') (PrivateKey 2))]
      empty_sqlite = (Ok (), t') \<and>
    Option.bind (ok_value (fst (get_buffered_transfer_proof sample_db 7 t'))) id
      = Some (transfer_proof_new (TxHash ''a'') (PrivateKey 1))"
proof -
  let ?es = "[(7, transfer_proof_new (TxHash ''a'') (PrivateKey 1)), (7, transfer_proof_new (TxHash ''b'') (PrivateKey 2))]"
  obtain t' where t': "for_each (\<lambda>(i, p). discard (insert_buffered_transfer_proof sample_db i p)) ?es empty_sqlite = (Ok (), t')"
    "\<forall>i. proof_of sample_db i t' = (case proof_of sample_db i empty_sqlite of Some p \<Rightarrow> Some p | None \<Rightarrow> map_of ?es i)"
    using first_proof_stays[OF sample_db_laws sqlite_ok_empty, of ?es] by blast
  have "proof_of sample_db 7 empty_sqlite = None"
    by (simp add: keyed_values[OF sample_db_laws] keyed_value_def empty_sqlite_def select_keyed_def)
  thus ?thesis using t' by auto
qed

end
