(* ===== verification/Resume.thy ===== *)
theory Resume
  imports Alice_Properties Bob_Properties Database_Properties
begin

text \<open>
  The swap loops and the database together: an environment whose database is the model of
  \<open>Sqlite\<close>, and what it holds for a swap however a run of its loop ends, so that a run resumed from
  \<open>get_state\<close> goes on where the last one stopped.
\<close>

section \<open>An environment with a database\<close>

definition on_ext :: "('v \<Rightarrow> 'a \<times> 'v) \<Rightarrow> 'v \<times> sqlite \<Rightarrow> 'a \<times> 'v \<times> sqlite" where
  "on_ext f p = (case f (fst p) of (r, v) \<Rightarrow> (r, v, snd p))"

definition on_db :: "(sqlite, 'a) io \<Rightarrow> 'v \<times> sqlite \<Rightarrow> 'a outcome \<times> 'v \<times> sqlite" where
  "on_db m p = (case m (snd p) of (r, t) \<Rightarrow> (r, fst p, t))"

text \<open>\<open>now\<close> reads the clock.\<close>

definition with_db :: "db_lib \<Rightarrow> ('v \<Rightarrow> string) \<Rightarrow> 'v env \<Rightarrow> ('v \<times> sqlite) env" where
  "with_db D now E =
     \<lparr>e_lib = e_lib E, e_finality = e_finality E, e_uuid_to_string = e_uuid_to_string E,
      e_status = (\<lambda>i s. on_ext (e_status E i s)), e_history = (\<lambda>s. on_ext (e_history E s)),
      e_get_tx = (\<lambda>i. on_ext (e_get_tx E i)), e_broadcast = (\<lambda>tx. on_ext (e_broadcast E tx)),
      e_estimate_fee = (\<lambda>n a. on_ext (e_estimate_fee E n a)),
      e_sign_and_finalize = (\<lambda>p. on_ext (e_sign_and_finalize E p)),
      e_block_height = on_ext (e_block_height E), e_transfer = (\<lambda>r. on_ext (e_transfer E r)),
      e_create_from = (\<lambda>f k v h. on_ext (e_create_from E f k v h)),
      e_create_from_and_load = (\<lambda>f k v h. on_ext (e_create_from_and_load E f k v h)),
      e_open_wallet = (\<lambda>f. on_ext (e_open_wallet E f)), e_refresh = (\<lambda>n. on_ext (e_refresh E n)),
      e_sweep_all = (\<lambda>a. on_ext (e_sweep_all E a)), e_setup_swap = (\<lambda>n. on_ext (e_setup_swap E n)),
      e_coop_redeem = (\<lambda>i. on_ext (e_coop_redeem E i)),
      e_insert_latest_state = (\<lambda>i s p. on_db (sql_insert_latest_state D (now (fst p)) i s) p),
      e_get_buffered_proof = (\<lambda>i. on_db (get_buffered_transfer_proof D i)),
      e_get_state = (\<lambda>i. on_db (sql_get_state D i)), e_get_peer_id = (\<lambda>i. on_db (get_peer_id D i)),
      e_polls = (\<lambda>cs. on_ext (e_polls E cs))\<rparr>"

section \<open>Computations that leave the database alone\<close>

definition keeps_db :: "(('v \<times> sqlite) world, 'a) io \<Rightarrow> bool" where
  "keeps_db m \<longleftrightarrow> (\<forall>w. snd (w_ext (snd (m w))) = snd (w_ext w))"

named_theorems keeps_rules \<open>introduction rules for \<open>keeps_db\<close>\<close>

lemma snd_on_ext [simp]: "snd (snd (on_ext f p)) = snd p"
  by (simp add: on_ext_def split: prod.split)

lemma snd_on_db: "(\<And>t. snd (m t) = t) \<Longrightarrow> snd (snd (on_db m p)) = snd p"
  by (simp add: on_db_def split: prod.split) (metis snd_conv)

lemma keeps_ret [keeps_rules]: "keeps_db (ret x)"
  by (simp add: keeps_db_def)

lemma keeps_lift [keeps_rules]: "keeps_db (lift m)"
  by (simp add: keeps_db_def)

lemma keeps_bindio [keeps_rules]: "keeps_db m \<Longrightarrow> (\<And>x. keeps_db (f x)) \<Longrightarrow> keeps_db (bindio m f)"
  unfolding keeps_db_def bindio_def by (auto split: prod.split outcome.split) (metis snd_conv)+

lemma keeps_attempt [keeps_rules]: "keeps_db m \<Longrightarrow> keeps_db (attempt m)"
  by (simp add: keeps_db_def)

lemma keeps_context_io [keeps_rules]: "keeps_db m \<Longrightarrow> keeps_db (context_io c m)"
  by (simp add: keeps_db_def)

lemma keeps_perform:
  assumes "\<And>p. snd (snd (f p)) = snd p"
  shows "keeps_db (perform c f)"
  unfolding keeps_db_def
proof
  fix w
  show "snd (w_ext (snd (perform c f w))) = snd (w_ext w)"
    using assms[of "w_ext w"] by (cases "f (w_ext w)") (simp add: perform_def)
qed

lemma keeps_record_events [keeps_rules]: "keeps_db (record_events evs)"
  by (simp add: keeps_db_def record_events_def)

lemma keeps_with_world [keeps_rules]: "(\<And>w. keeps_db (f w)) \<Longrightarrow> keeps_db (with_world f)"
  by (simp add: keeps_db_def with_world_def)

lemma keeps_select_io [keeps_rules]:
  fixes h1 :: "'a outcome \<Rightarrow> (('v \<times> sqlite) world, 'c) io"
  assumes "\<And>x. keeps_db (h1 x)" "\<And>y. keeps_db (h2 y)" "\<And>p. snd (snd (e_polls E cs p)) = snd p"
  shows "keeps_db (select_io E cs b f g h1 h2)"
  unfolding keeps_db_def
proof
  fix w :: "('v \<times> sqlite) world"
  obtain ss v where p: "e_polls E cs (w_ext w) = (ss, v)" by (cases "e_polls E cs (w_ext w)")
  obtain r evs where s: "select2 b f g 0 0 ss = (r, evs)" by fastforce
  have v: "snd v = snd (w_ext w)" using assms(3)[of "w_ext w"] p by simp
  show "snd (w_ext (snd (select_io E cs b f g h1 h2 w))) = snd (w_ext w)"
  proof (cases r)
    case (Some q)
    thus ?thesis using p s v assms(1,2) by (cases q) (simp_all add: select_io_def Let_def keeps_db_def)
  qed (simp add: select_io_def Let_def p s v)
qed

lemma keeps_await_io [keeps_rules]: "(\<And>p. snd (snd (e_polls E cs p)) = snd p) \<Longrightarrow> keeps_db (await_io E cs f)"
  unfolding await_io_def by (intro keeps_rules)

lemma keeps_timeout_io [keeps_rules]: "(\<And>p. snd (snd (e_polls E cs p)) = snd p) \<Longrightarrow> keeps_db (timeout_io E cs f)"
  unfolding timeout_io_def by (intro keeps_rules)

text \<open>Every call of a swap loop but \<open>insert_latest_state\<close> only reads the database.\<close>

lemma snd_get_buffered [simp]: "snd (get_buffered_transfer_proof D i t) = t"
  by (simp add: get_buffered_transfer_proof_def bindio_def acquire_def split: outcome.split)

lemma with_db_keeps [simp]:
  "snd (snd (e_status (with_db D now E) i s p)) = snd p"
  "snd (snd (e_history (with_db D now E) s p)) = snd p"
  "snd (snd (e_get_tx (with_db D now E) i p)) = snd p"
  "snd (snd (e_broadcast (with_db D now E) tx p)) = snd p"
  "snd (snd (e_estimate_fee (with_db D now E) n a p)) = snd p"
  "snd (snd (e_sign_and_finalize (with_db D now E) q p)) = snd p"
  "snd (snd (e_block_height (with_db D now E) p)) = snd p"
  "snd (snd (e_transfer (with_db D now E) rq p)) = snd p"
  "snd (snd (e_create_from (with_db D now E) f k v h p)) = snd p"
  "snd (snd (e_create_from_and_load (with_db D now E) f k v h p)) = snd p"
  "snd (snd (e_open_wallet (with_db D now E) f p)) = snd p"
  "snd (snd (e_refresh (with_db D now E) n p)) = snd p"
  "snd (snd (e_sweep_all (with_db D now E) ad p)) = snd p"
  "snd (snd (e_setup_swap (with_db D now E) ns p)) = snd p"
  "snd (snd (e_coop_redeem (with_db D now E) i p)) = snd p"
  "snd (snd (e_get_buffered_proof (with_db D now E) i p)) = snd p"
  "snd (snd (e_polls (with_db D now E) cs p)) = snd p"
  by (simp_all add: with_db_def snd_on_db)

lemma keeps_calls [keeps_rules]:
  "keeps_db (status_of_script (with_db D now E) i s)"
  "keeps_db (script_history_for (with_db D now E) s)"
  "keeps_db (get_raw_transaction (with_db D now E) i)"
  "keeps_db (subscribe_to F i s)"
  "keeps_db (broadcast (with_db D now E) tx k)"
  unfolding status_of_script_def script_history_for_def get_raw_transaction_def subscribe_to_def broadcast_def Let_def
  by (intro keeps_rules keeps_perform; simp)+

lemma keeps_alice_expired_timelocks [keeps_rules]: "keeps_db (alice_expired_timelocks (with_db D now E) st)"
  unfolding alice_expired_timelocks_def Let_def by (intro keeps_rules)

lemma keeps_alice_learn_spend_key [keeps_rules]: "keeps_db (alice_learn_spend_key (with_db D now E) h p st)"
  unfolding alice_learn_spend_key_def by (intro keeps_rules)

lemma keeps_alice_wait_cancel_timelock [keeps_rules]:
  "keeps_db (alice_wait_cancel_timelock (with_db D now E) sub h p st)"
  unfolding alice_wait_cancel_timelock_def Let_def by (intro keeps_rules; simp)

lemma keeps_alice_next_state: "keeps_db (alice_next_state (with_db D now E) i s)"
  by (cases s)
    (auto simp: alice_next_state_def alice_started_def alice_btc_lock_transaction_seen_def
      alice_btc_locked_def alice_beldex_lock_transaction_sent_def alice_beldex_locked_def
      alice_beldex_lock_transfer_proof_sent_def alice_enc_sig_learned_def alice_publish_redeem_def
      alice_btc_redeem_transaction_published_def alice_cancel_timelock_expired_def
      alice_btc_cancelled_def alice_btc_refunded_def alice_btc_punishable_def
      alice_check_for_tx_cancel_def alice_submit_tx_cancel_def alice_refund_bdx_def subscribe_to_lock_def
      alice_punish_btc_def Let_def simp del: lift_apply ret_apply
      intro!: keeps_rules keeps_perform split: option.split expired_timelocks.split sum.split prod.split)

lemma keeps_bob_expired_timelock [keeps_rules]:
  "keeps_db (bob3_expired_timelock (with_db D now E) st3)"
  "keeps_db (bob4_expired_timelock (with_db D now E) st4)"
  "keeps_db (bob6_expired_timelock (with_db D now E) st6)"
  unfolding bob3_expired_timelock_def bob4_expired_timelock_def bob6_expired_timelock_def
    bob_expired_timelock_of_def Let_def
  by (intro keeps_rules)+

lemma keeps_bob_first_found [keeps_rules]: "keeps_db (bob_first_found (with_db D now E) none hs)"
  by (induction hs) (auto simp del: ret_apply lift_apply intro!: keeps_rules split: sum.split)

lemma keeps_bob_scan [keeps_rules]: "keeps_db (bob_scan_for_redeem (with_db D now E) st r es hs)"
  by (induction hs) (auto simp del: ret_apply lift_apply intro!: keeps_rules split: sum.split outcome.split)

lemma keeps_bob_checks [keeps_rules]:
  "keeps_db (bob_check_for_tx_redeem (with_db D now E) st4)"
  "keeps_db (bob_check_for_tx_cancel (with_db D now E) st6)"
  "keeps_db (bob_check_for_tx_refund (with_db D now E) st6)"
  unfolding bob_check_for_tx_redeem_def bob_check_for_tx_cancel_def bob_check_for_tx_refund_def
  by (intro keeps_rules; simp)+

lemma keeps_bob_redeem_bdx [keeps_rules]: "keeps_db (bob_redeem_bdx (with_db D now E) st f a)"
  unfolding bob_redeem_bdx_def
  by (auto simp del: ret_apply intro!: keeps_rules keeps_perform split: prod.split sum.split)

lemma keeps_bob_next_state: "keeps_db (bob_next_state (with_db D now E) i a s)"
  by (cases s)
    (auto simp: bob_next_state_def bob_started_def bob_swap_setup_completed_def bob_btc_locked_def
      bob_beldex_lock_proof_received_def bob_beldex_locked_def
      bob_enc_sig_sent_def bob_btc_redeemed_def bob_cancel_timelock_expired_def bob_btc_cancelled_def
      bob_btc_refunded_def bob_btc_punished_def bob_publish_refund_btc_def bob_submit_tx_cancel_def
      bob_subscribe_to_lock_def Let_def simp del: lift_apply ret_apply
      intro!: keeps_rules keeps_perform
      split: option.split expired_timelocks.split sum.split prod.split request_error.split coop_response.split)

section \<open>Runs\<close>

context ranked_machine
begin

text \<open>
  A relation between states and worlds that every step moves along keeps up with a run however it
  ends: the world it leaves stands for the last state that was reached.
\<close>

lemma run_tracks:
  assumes "run s w = Some (r, w')" and "T s w"
    and "\<And>s w r w'. \<not> stop s \<Longrightarrow> T s w \<Longrightarrow> step s w = (r, w') \<Longrightarrow>
      (case r of Ok s' \<Rightarrow> T s' w' \<and> R s s' | Err e \<Rightarrow> T s w' | Panic p \<Rightarrow> T s w' | Pending \<Rightarrow> T s w')"
  shows "\<exists>s1. T s1 w' \<and> R\<^sup>*\<^sup>* s s1 \<and> (\<forall>s'. r = Ok s' \<longrightarrow> s' = s1)"
  using assms(1,2)
proof (induction rule: run_any_induct)
  case (fail s w r w')
  show ?case using assms(3)[OF fail(1,3,2)] by (cases r) auto
next
  case (step s w s1 w1 r w')
  have "T s1 w1 \<and> R s s1" using assms(3)[OF step(1,5,2)] by simp
  thus ?case using step(4) by (meson converse_rtranclp_into_rtranclp)
qed auto

end

text \<open>The database of a world holds the state \<open>x\<close> for swap \<open>i\<close>, and what \<open>t\<close> holds for all others.\<close>

definition holds :: "db_lib \<Rightarrow> uuid \<Rightarrow> sqlite \<Rightarrow> swap_state \<Rightarrow> ('v \<times> sqlite) world \<Rightarrow> bool" where
  "holds D i t x w \<longleftrightarrow> sqlite_ok D (snd (w_ext w)) \<and>
     (\<forall>j. ok_value (fst (sql_get_state D j (snd (w_ext w)))) =
        (if j = i then Some x else ok_value (fst (sql_get_state D j t))))"

lemma step_and_save_holds:
  assumes "db_laws D" "keeps_db (nxt s)" "holds D i t (f s) w"
    and "step_and_save nxt (\<lambda>s. insert_latest_state (with_db D now E) i (f s)) s w = (r, w')"
  shows "case r of Ok s' \<Rightarrow> holds D i t (f s') w' | Err e \<Rightarrow> holds D i t (f s) w'
    | Panic p \<Rightarrow> holds D i t (f s) w' | Pending \<Rightarrow> holds D i t (f s) w'"
proof -
  obtain r1 w1 where n: "nxt s w = (r1, w1)" by fastforce
  have db: "snd (w_ext w1) = snd (w_ext w)" using assms(2) n unfolding keeps_db_def by (metis snd_conv)
  show ?thesis
  proof (cases r1)
    case (Ok s')
    obtain r2 t2 where ins: "sql_insert_latest_state D (now (fst (w_ext w1))) i (f s') (snd (w_ext w)) = (r2, t2)"
      by fastforce
    have valid: "db_laws D \<and> sqlite_ok D (snd (w_ext w))" using assms(1,3) by (simp add: holds_def)
    have run: "r = (case r2 of Ok _ \<Rightarrow> Ok s' | Err e \<Rightarrow> Err e | Panic p \<Rightarrow> Panic p | Pending \<Rightarrow> Pending)"
      "snd (w_ext w') = t2"
      using assms(4) n Ok ins db
      by (auto simp: step_and_save_def bindio_def insert_latest_state_def perform_def with_db_def on_db_def
          split: outcome.splits)
    show ?thesis
    proof (cases "r2 = Ok ()")
      case True
      thus ?thesis
        using run assms(3) swap_states.insert_valid[OF valid ins[unfolded True]]
          swap_states.get_insert[OF valid ins[unfolded True]] by (simp add: holds_def)
    next
      case False
      hence "t2 = snd (w_ext w)" by (rule swap_states.insert_refused[OF valid ins])
      thus ?thesis using run assms(3) False by (cases r2) (simp_all add: holds_def)
    qed
  qed (use assms(3,4) n db in \<open>auto simp: step_and_save_def bindio_def holds_def\<close>)
qed

text \<open>
  a run of Alice's loop can be resumed from the database however it ended, with a state, an
  error, a panic or an await that never completed: \<open>get_state\<close> then returns the last state the run
  reached, which lies on the abstract machine's paths from the state it started in and is the
  returned state if there is one; what the database holds of other swaps has not changed.
\<close>

theorem alice_run_resumable:
  assumes "db_laws D" and "holds D i t (SAlice s) w"
    and "alice_run_until (with_db D now E) i exit_early s w = Some (r, w')"
  shows "\<exists>s1. holds D i t (SAlice s1) w' \<and> alice_edge\<^sup>*\<^sup>* s s1 \<and> (\<forall>s'. r = Ok s' \<longrightarrow> s' = s1)"
proof (rule alice_loop.run_tracks[OF assms(3), where T = "\<lambda>s w. holds D i t (SAlice s) w"])
  fix s w r w'
  assume s: "\<not> (alice_is_complete s \<or> exit_early s)" "holds D i t (SAlice s) w"
    "alice_step (with_db D now E) i s w = (r, w')"
  have "case r of Ok s' \<Rightarrow> holds D i t (SAlice s') w' | Err e \<Rightarrow> holds D i t (SAlice s) w'
    | Panic p \<Rightarrow> holds D i t (SAlice s) w' | Pending \<Rightarrow> holds D i t (SAlice s) w'"
    using s(3) unfolding alice_step_def
    by (rule step_and_save_holds[where nxt = "alice_next_state (with_db D now E) i" and s = s and f = SAlice,
          OF assms(1) keeps_alice_next_state s(2)])
  thus "case r of Ok s' \<Rightarrow> holds D i t (SAlice s') w' \<and> alice_edge s s' | Err e \<Rightarrow> holds D i t (SAlice s) w'
    | Panic p \<Rightarrow> holds D i t (SAlice s) w' | Pending \<Rightarrow> holds D i t (SAlice s) w'"
    using alice_step_edge s by (cases r) auto
qed (rule assms(2))

text \<open>
  A swap in \<open>Started\<close> whose lock transaction never shows up: the database holds its state before and
  \<open>SafelyAborted\<close> after the run.
\<close>

definition elapsed_env :: "unit env" where
  "elapsed_env = dead_env\<lparr>e_polls := (\<lambda>cs v. ([sample_snap\<lparr>sn_status := (\<lambda>i sc. Unseen), sn_elapsed := True\<rparr>], v))\<rparr>"

definition aborting_db :: db_lib where
  "aborting_db = sample_db_for [DbAlice (DAStarted sample_alice3), DbAlice (DADone DASafelyAborted)]"

definition db_world :: "db_lib \<Rightarrow> swap_state \<Rightarrow> (unit \<times> sqlite) world" where
  "db_world D s = \<lparr>w_log = [], w_ext = ((), snd (sql_insert_latest_state D ''0'' 7 s empty_sqlite))\<rparr>"

lemma holds_db_world:
  assumes "db_laws D" "sql_insert_latest_state D ''0'' 7 s empty_sqlite = (Ok (), t)"
  shows "holds D 7 empty_sqlite s (db_world D s)"
proof -
  have v: "db_laws D \<and> sqlite_ok D empty_sqlite" using assms(1) by simp
  have db: "snd (w_ext (db_world D s)) = t" using assms(2) by (simp add: db_world_def)
  have "sqlite_ok D t" using swap_states.insert_valid[OF v assms(2)] by simp
  thus ?thesis using swap_states.get_insert[OF v assms(2)] unfolding holds_def db by blast
qed

lemma aborting_db_insert:
  "\<exists>t'. sql_insert_latest_state aborting_db now 7 (SAlice (AStarted sample_alice3)) t = (Ok (), t')"
  "\<exists>t'. sql_insert_latest_state aborting_db now 7 (SAlice ASafelyAborted) t = (Ok (), t')"
  by (simp_all add: sql_insert_latest_state_def aborting_db_def sample_db_for_def bindio_def acquire_def
      db_swap_from_state_def db_alice_from_def)

lemma insert_with_db:
  "sql_insert_latest_state D (now (fst p)) i s (snd p) = (r, t) \<Longrightarrow>
   e_insert_latest_state (with_db D now E) i s p = (r, fst p, t)"
  by (simp add: with_db_def on_db_def)

lemma step_and_save_stores:
  assumes "nxt s w = (Ok s', w1)" "\<And>now t. \<exists>t'. sql_insert_latest_state D now i (f s') t = (Ok (), t')"
  shows "\<exists>w'. step_and_save nxt (\<lambda>s. insert_latest_state (with_db D now E) i (f s)) s w = (Ok s', w')"
proof -
  obtain t' where "sql_insert_latest_state D (now (fst (w_ext w1))) i (f s') (snd (w_ext w1)) = (Ok (), t')"
    using assms(2) by blast
  hence "e_insert_latest_state (with_db D now E) i (f s') (w_ext w1) = (Ok (), fst (w_ext w1), t')"
    by (rule insert_with_db)
  thus ?thesis
    using assms(1) by (simp add: step_and_save_def bindio_def insert_latest_state_def perform_def)
qed

lemma aborting_step:
  "\<exists>w'. alice_step (with_db aborting_db (\<lambda>_. ''1'') elapsed_env) 7 (AStarted sample_alice3) w = (Ok ASafelyAborted, w')"
proof -
  have "\<exists>w1. alice_next_state (with_db aborting_db (\<lambda>_. ''1'') elapsed_env) 7 (AStarted sample_alice3) w = (Ok ASafelyAborted, w1)"
    by (simp add: alice_next_state_def alice_started_def subscribe_to_lock_def subscribe_to_def record_events_def bindio_def
        timeout_io_def select_io_def with_db_def elapsed_env_def on_ext_def wait_until_seen_def wait_until_def
        timer_def has_been_seen_def Let_def)
  thus ?thesis
    unfolding alice_step_def
    using step_and_save_stores[where nxt = "alice_next_state (with_db aborting_db (\<lambda>_. ''1'') elapsed_env) 7" and f = SAlice]
      aborting_db_insert(2) by blast
qed

theorem alice_run_resumable_witness:
  "\<exists>w'. alice_run_until (with_db aborting_db (\<lambda>_. ''1'') elapsed_env) 7 (\<lambda>_. False) (AStarted sample_alice3)
      (db_world aborting_db (SAlice (AStarted sample_alice3))) = Some (Ok ASafelyAborted, w') \<and>
    holds aborting_db 7 empty_sqlite (SAlice ASafelyAborted) w'"
proof -
  let ?E = "with_db aborting_db (\<lambda>_. ''1'') elapsed_env" and ?w = "db_world aborting_db (SAlice (AStarted sample_alice3))"
  have laws: "db_laws aborting_db" by (simp add: aborting_db_def sample_db_for_laws)
  obtain w' where "alice_step ?E 7 (AStarted sample_alice3) ?w = (Ok ASafelyAborted, w')"
    using aborting_step by blast
  hence run: "alice_run_until ?E 7 (\<lambda>_. False) (AStarted sample_alice3) ?w = Some (Ok ASafelyAborted, w')"
    using alice_loop.run_unfold[of ?E 7 "\<lambda>_. False" "AStarted sample_alice3" ?w]
      alice_loop.run_stopped[of ASafelyAborted "\<lambda>_. False" ?E 7 w']
    by (simp add: alice_is_complete_def)
  have "holds aborting_db 7 empty_sqlite (SAlice (AStarted sample_alice3)) ?w"
    using holds_db_world[OF laws] aborting_db_insert(1) by blast
  from alice_run_resumable[OF laws this run] run show ?thesis by auto
qed

text \<open>
  C15: the same for Bob's loop.
\<close>

theorem bob_run_resumable:
  assumes "db_laws D" and "holds D i t (SBob s) w"
    and "bob_run_until (with_db D now E) i a (\<lambda>s. bob_is_complete s \<or> exit_early s) s w = Some (r, w')"
  shows "\<exists>s1. holds D i t (SBob s1) w' \<and> (bob_edge (e_lib E))\<^sup>*\<^sup>* s s1 \<and> (\<forall>s'. r = Ok s' \<longrightarrow> s' = s1)"
proof (rule bob_loop.run_tracks[OF assms(3), where T = "\<lambda>s w. holds D i t (SBob s) w"])
  fix s w r w'
  assume s: "\<not> (bob_is_complete s \<or> exit_early s)" "holds D i t (SBob s) w"
    "bob_step (with_db D now E) i a s w = (r, w')"
  have L: "e_lib (with_db D now E) = e_lib E" by (simp add: with_db_def)
  have "case r of Ok s' \<Rightarrow> holds D i t (SBob s') w' | Err e \<Rightarrow> holds D i t (SBob s) w'
    | Panic p \<Rightarrow> holds D i t (SBob s) w' | Pending \<Rightarrow> holds D i t (SBob s) w'"
    using s(3) unfolding bob_step_def
    by (rule step_and_save_holds[where nxt = "bob_next_state (with_db D now E) i a" and s = s and f = SBob,
          OF assms(1) keeps_bob_next_state s(2)])
  thus "case r of Ok s' \<Rightarrow> holds D i t (SBob s') w' \<and> bob_edge (e_lib E) s s' | Err e \<Rightarrow> holds D i t (SBob s) w'
    | Panic p \<Rightarrow> holds D i t (SBob s) w' | Pending \<Rightarrow> holds D i t (SBob s) w'"
    using bob_step_edge[of s "with_db D now E" i a w] s L by (cases r) auto
qed (rule assms(2))

definition setup_db :: db_lib where
  "setup_db = sample_db_for [DbBob (DBStarted 5000 (sample_address 13)), DbBob (DBExecutionSetupDone sample_bob2)]"

lemma setup_db_insert:
  "\<exists>t'. sql_insert_latest_state setup_db now 7 (SBob (BStarted 5000 (sample_address 13))) t = (Ok (), t')"
  "\<exists>t'. sql_insert_latest_state setup_db now 7 (SBob (BSwapSetupCompleted sample_bob2)) t = (Ok (), t')"
  by (simp_all add: sql_insert_latest_state_def setup_db_def sample_db_for_def bindio_def acquire_def
      db_swap_from_state_def db_bob_from_def)

lemma setup_step:
  "\<exists>w'. bob_step (with_db setup_db (\<lambda>_. ''1'') dead_env) 7 a (BStarted 5000 (sample_address 13)) w
     = (Ok (BSwapSetupCompleted sample_bob2), w')"
proof -
  have "\<exists>w1. bob_next_state (with_db setup_db (\<lambda>_. ''1'') dead_env) 7 a (BStarted 5000 (sample_address 13)) w
      = (Ok (BSwapSetupCompleted sample_bob2), w1)"
    by (simp add: bob_next_state_def bob_started_def bindio_def perform_def with_db_def on_ext_def Let_def)
  thus ?thesis
    unfolding bob_step_def
    using step_and_save_stores[where nxt = "bob_next_state (with_db setup_db (\<lambda>_. ''1'') dead_env) 7 a" and f = SBob]
      setup_db_insert(2) by blast
qed

theorem bob_run_resumable_witness:
  "\<forall>a. \<exists>w'. bob_run_until (with_db setup_db (\<lambda>_. ''1'') dead_env) 7 a (\<lambda>s. bob_is_complete s \<or> bob_rank s < 10)
      (BStarted 5000 (sample_address 13)) (db_world setup_db (SBob (BStarted 5000 (sample_address 13))))
      = Some (Ok (BSwapSetupCompleted sample_bob2), w') \<and>
    holds setup_db 7 empty_sqlite (SBob (BSwapSetupCompleted sample_bob2)) w'"
proof
  fix a
  let ?E = "with_db setup_db (\<lambda>_. ''1'') dead_env" and ?s = "BStarted 5000 (sample_address 13)"
  let ?w = "db_world setup_db (SBob ?s)" and ?stop = "\<lambda>s. bob_is_complete s \<or> bob_rank s < 10"
  have laws: "db_laws setup_db" by (simp add: setup_db_def sample_db_for_laws)
  obtain w' where "bob_step ?E 7 a ?s ?w = (Ok (BSwapSetupCompleted sample_bob2), w')"
    using setup_step by blast
  moreover have "bob_run_until ?E 7 a ?stop (BSwapSetupCompleted sample_bob2) w'
      = Some (Ok (BSwapSetupCompleted sample_bob2), w')"
    by (rule bob_loop.run_stopped) (simp add: bob_rank_def)
  ultimately have run: "bob_run_until ?E 7 a ?stop ?s ?w = Some (Ok (BSwapSetupCompleted sample_bob2), w')"
    by (subst bob_run_until_unfold) (simp add: bob_is_complete_def bob_rank_def)
  have "holds setup_db 7 empty_sqlite (SBob ?s) ?w"
    using holds_db_world[OF laws] setup_db_insert(1) by blast
  from bob_run_resumable[OF laws this run] run
  show "\<exists>w'. bob_run_until ?E 7 a ?stop ?s ?w = Some (Ok (BSwapSetupCompleted sample_bob2), w') \<and>
      holds setup_db 7 empty_sqlite (SBob (BSwapSetupCompleted sample_bob2)) w'" by auto
qed

end
