(* ===== verification/Recovery.thy ===== *)
theory Recovery
  imports Alice_Swap Bob_Swap
begin

text \<open>
  The manual commands on a stored swap. \<open>asb/recovery/cancel.rs\<close>, \<open>punish.rs\<close>, \<open>redeem.rs\<close>, \<open>refund.rs\<close>
  and \<open>safely_abort.rs\<close> for Alice, \<open>cli/cancel_and_refund.rs\<close> for Bob. Each loads the latest state of
  the swap from the database, decides by it, acts on the chain and stores the new state; the call
  of \<open>parse_rpc_error_code\<close> in \<open>cancel.rs\<close> only chooses a log line.
\<close>

fun decimal :: "nat \<Rightarrow> string" where
  "decimal n = (if n < 10 then [char_of (48 + n)] else decimal (n div 10) @ [char_of (48 + n mod 10)])"

declare decimal.simps [simp del]

definition load_alice :: "'v env \<Rightarrow> uuid \<Rightarrow> ('v world, alice_state) io" where
  "load_alice E swap_id =
     bindio (perform (CGetState swap_id) (e_get_state E swap_id)) (\<lambda>s. lift (try_into_alice_state s))"

definition load_bob :: "'v env \<Rightarrow> uuid \<Rightarrow> ('v world, bob_state) io" where
  "load_bob E swap_id =
     bindio (perform (CGetState swap_id) (e_get_state E swap_id)) (\<lambda>s. lift (try_into_bob_state s))"

section \<open>Alice\<close>

text \<open>The states in which the Beldex may be locked, with what is needed to get it back.\<close>

definition bdx_lock_of :: "alice_state \<Rightarrow> (bdx_height \<times> transfer_proof \<times> alice_state3) option" where
  "bdx_lock_of s = (case s of
     ABeldexLockTransactionSent h p st \<Rightarrow> Some (h, p, st)
   | ABeldexLocked h p st \<Rightarrow> Some (h, p, st)
   | ABeldexLockTransferProofSent h p st \<Rightarrow> Some (h, p, st)
   | AEncSigLearned h p es st \<Rightarrow> Some (h, p, st)
   | ACancelTimelockExpired h p st \<Rightarrow> Some (h, p, st)
   | ABtcCancelled h p st \<Rightarrow> Some (h, p, st)
   | ABtcRefunded h p k st \<Rightarrow> Some (h, p, st)
   | ABtcPunishable h p st \<Rightarrow> Some (h, p, st)
   | _ \<Rightarrow> None)"

definition no_bdx_locked :: "alice_state \<Rightarrow> bool" where
  "no_bdx_locked s = (case s of
     AStarted _ \<Rightarrow> True | ABtcLockTransactionSeen _ \<Rightarrow> True | ABtcLocked _ \<Rightarrow> True | _ \<Rightarrow> False)"

definition asb_cancel_state ::
  "'v env \<Rightarrow> uuid \<Rightarrow> alice_state \<Rightarrow> (bdx_height \<times> transfer_proof \<times> alice_state3) outcome" where
  "asb_cancel_state E swap_id s =
     (if no_bdx_locked s
      then Err (Msg (''Cannot cancel swap '' @ e_uuid_to_string E swap_id @ '' because it is in state '' @
                  alice_state_display s @ '' where no BDX was locked.''))
      else case s of
        ABtcRedeemTransactionPublished _ \<Rightarrow>
          Err (Msg '' The redeem transaction was already published, it is not safe to cancel anymore'')
      | _ \<Rightarrow> of_option (Msg (''Swap is in state '' @ alice_state_display s @ '' which is not cancelable''))
               (bdx_lock_of s))"

definition asb_cancel_from :: "'v env \<Rightarrow> uuid \<Rightarrow> alice_state \<Rightarrow> ('v world, txid \<times> alice_state) io" where
  "asb_cancel_from E swap_id s =
     bindio (lift (asb_cancel_state E swap_id s)) (\<lambda>(h, p, st).
     bindio (alice_submit_tx_cancel E st) (\<lambda>i.
     let s' = ABtcCancelled h p st in
     bindio (insert_latest_state E swap_id (SAlice s')) (\<lambda>_. ret (i, s'))))"

definition asb_cancel :: "'v env \<Rightarrow> uuid \<Rightarrow> ('v world, txid \<times> alice_state) io" where
  "asb_cancel E swap_id = bindio (load_alice E swap_id) (asb_cancel_from E swap_id)"

definition asb_punish_state :: "alice_state \<Rightarrow> alice_state3 outcome" where
  "asb_punish_state s = (case s of
     ABtcLockTransactionSeen st \<Rightarrow> Ok st
   | ABtcLocked st \<Rightarrow> Ok st
   | ABeldexLockTransactionSent _ _ st \<Rightarrow> Ok st
   | ABeldexLocked _ _ st \<Rightarrow> Ok st
   | ABeldexLockTransferProofSent _ _ st \<Rightarrow> Ok st
   | AEncSigLearned _ _ _ st \<Rightarrow> Ok st
   | ACancelTimelockExpired _ _ st \<Rightarrow> Ok st
   | ABtcCancelled _ _ st \<Rightarrow> Ok st
   | ABtcPunishable _ _ st \<Rightarrow> Ok st
   | ABtcRedeemTransactionPublished st \<Rightarrow> Ok st
   | ABtcRefunded _ _ _ st \<Rightarrow> Ok st
   | AStarted st \<Rightarrow> Ok st
   | _ \<Rightarrow> Err (Msg (''Cannot punish swap because it is in state '' @ alice_state_display s @
                    '' which is not punishable'')))"

definition asb_punish_from :: "'v env \<Rightarrow> uuid \<Rightarrow> alice_state \<Rightarrow> ('v world, txid \<times> alice_state) io" where
  "asb_punish_from E swap_id s =
     bindio (lift (asb_punish_state s)) (\<lambda>st.
     bindio (alice_punish_btc E st) (\<lambda>i.
     let s' = ABtcPunished st in
     bindio (insert_latest_state E swap_id (SAlice s')) (\<lambda>_. ret (i, s'))))"

definition asb_punish :: "'v env \<Rightarrow> uuid \<Rightarrow> ('v world, txid \<times> alice_state) io" where
  "asb_punish E swap_id = bindio (load_alice E swap_id) (asb_punish_from E swap_id)"

datatype finality = Await | NotAwait

definition finality_from_bool :: "bool \<Rightarrow> finality" where
  "finality_from_bool do_not_await_finality = (if do_not_await_finality then NotAwait else Await)"

text \<open>\<open>if let Finality::Await = finality { subscription.wait_until_final().await? }\<close>\<close>

definition await_finality :: "'v env \<Rightarrow> finality \<Rightarrow> subscription \<Rightarrow> ('v world, unit) io" where
  "await_finality E finality sub = (case finality of
     Await \<Rightarrow> await_io E [CWait UntilFinal (sub_txid sub)] (wait_until_final sub)
   | NotAwait \<Rightarrow> ret ())"

definition asb_redeem_from :: "'v env \<Rightarrow> uuid \<Rightarrow> finality \<Rightarrow> alice_state \<Rightarrow> ('v world, txid \<times> alice_state) io" where
  "asb_redeem_from E swap_id finality s =
     (case s of
       AEncSigLearned h p es st \<Rightarrow>
         bindio (lift (alice_signed_redeem_transaction (e_lib E) st es)) (\<lambda>redeem_tx.
         bindio (broadcast E redeem_tx ''redeem'') (\<lambda>(i, sub).
         bindio (await_io E [CWait UntilSeen (sub_txid sub)] (wait_until_seen sub)) (\<lambda>_.
         bindio (insert_latest_state E swap_id (SAlice (ABtcRedeemTransactionPublished st))) (\<lambda>_.
         bindio (await_finality E finality sub) (\<lambda>_.
         bindio (insert_latest_state E swap_id (SAlice ABtcRedeemed)) (\<lambda>_.
         ret (i, ABtcRedeemed)))))))
     | ABtcRedeemTransactionPublished st \<Rightarrow>
         bindio (lift (alice_tx_redeem (e_lib E) st)) (\<lambda>r.
         bindio (subscribe_to E (tx_redeem_txid (e_lib E) r) (td_watch_script r)) (\<lambda>sub.
         bindio (await_finality E finality sub) (\<lambda>_.
         bindio (insert_latest_state E swap_id (SAlice ABtcRedeemed)) (\<lambda>_.
         ret (tx_redeem_txid (e_lib E) r, ABtcRedeemed)))))
     | _ \<Rightarrow> lift (Err (Msg (''Cannot redeem swap '' @ e_uuid_to_string E swap_id @ '' because it is in state '' @
              alice_state_display s @ '' which cannot be manually redeemed''))))"

definition asb_redeem :: "'v env \<Rightarrow> uuid \<Rightarrow> finality \<Rightarrow> ('v world, txid \<times> alice_state) io" where
  "asb_redeem E swap_id finality = bindio (load_alice E swap_id) (asb_redeem_from E swap_id finality)"

definition asb_refund_state :: "alice_state \<Rightarrow> (bdx_height \<times> transfer_proof \<times> alice_state3) outcome" where
  "asb_refund_state s =
     (if no_bdx_locked s
      then Err (Msg (''Swap is in state '' @ alice_state_display s @ '' where no BDX was locked. Try aborting instead.''))
      else of_option (Msg (''Swap is in state '' @ alice_state_display s @ '' which is not refundable''))
             (bdx_lock_of s))"

definition asb_refund_from :: "'v env \<Rightarrow> uuid \<Rightarrow> alice_state \<Rightarrow> ('v world, alice_state) io" where
  "asb_refund_from E swap_id s =
     bindio (lift (asb_refund_state s)) (\<lambda>(h, p, st).
     bindio (attempt (alice_fetch_tx_refund E st)) (\<lambda>found.
     bindio (case found of
               Inr published_refund_tx \<Rightarrow> lift (alice_extract_beldex_private_key (e_lib E) st published_refund_tx)
             | Inl _ \<Rightarrow>
                 bindio (perform (CGetPeerId swap_id) (e_get_peer_id E swap_id)) (\<lambda>bob_peer_id.
                 lift (Err (RefundTransactionNotPublishedYet bob_peer_id)))) (\<lambda>spend_key.
     bindio (alice_refund_bdx E st h (e_uuid_to_string E swap_id) spend_key p) (\<lambda>_.
     let s' = ABeldexRefunded in
     bindio (insert_latest_state E swap_id (SAlice s')) (\<lambda>_. ret s')))))"

definition asb_refund :: "'v env \<Rightarrow> uuid \<Rightarrow> ('v world, alice_state) io" where
  "asb_refund E swap_id = bindio (load_alice E swap_id) (asb_refund_from E swap_id)"

definition asb_safely_abort_from :: "'v env \<Rightarrow> uuid \<Rightarrow> alice_state \<Rightarrow> ('v world, alice_state) io" where
  "asb_safely_abort_from E swap_id s =
     (if no_bdx_locked s
     then let s' = ASafelyAborted in
          bindio (insert_latest_state E swap_id (SAlice s')) (\<lambda>_. ret s')
     else lift (Err (Msg (''Cannot safely abort swap '' @ e_uuid_to_string E swap_id @ '' because it is in state '' @
            alice_state_display s @ '' which cannot be safely aborted''))))"

definition asb_safely_abort :: "'v env \<Rightarrow> uuid \<Rightarrow> ('v world, alice_state) io" where
  "asb_safely_abort E swap_id = bindio (load_alice E swap_id) (asb_safely_abort_from E swap_id)"

text \<open>
  The commands of the binary \<open>asb\<close> that work on one swap, from where \<open>main\<close> has opened the wallets.
\<close>

datatype asb_command = Cancel | Refund | Punish | SafelyAbort | Redeem bool

definition asb_manual :: "'v env \<Rightarrow> uuid \<Rightarrow> asb_command \<Rightarrow> ('v world, unit) io" where
  "asb_manual E swap_id c = (case c of
     Cancel \<Rightarrow> bindio (asb_cancel E swap_id) (\<lambda>(txid, _). ret ())
   | Refund \<Rightarrow> bindio (asb_refund E swap_id) (\<lambda>_. ret ())
   | Punish \<Rightarrow> bindio (asb_punish E swap_id) (\<lambda>(txid, _). ret ())
   | SafelyAbort \<Rightarrow> bindio (asb_safely_abort E swap_id) (\<lambda>_. ret ())
   | Redeem do_not_await_finality \<Rightarrow>
       bindio (asb_redeem E swap_id (finality_from_bool do_not_await_finality)) (\<lambda>(txid, _). ret ()))"

section \<open>Bob\<close>

definition cli_cancel_state :: "'v env \<Rightarrow> uuid \<Rightarrow> bob_state \<Rightarrow> bob_state6 outcome" where
  "cli_cancel_state E swap_id s = (case s of
     BBtcLocked st3 h \<Rightarrow> Ok (bob3_cancel st3 h)
   | BBeldexLockProofReceived st3 p h \<Rightarrow> Ok (bob3_cancel st3 h)
   | BBeldexLocked st4 \<Rightarrow> Ok (bob4_cancel st4)
   | BEncSigSent st4 \<Rightarrow> Ok (bob4_cancel st4)
   | BCancelTimelockExpired st6 \<Rightarrow> Ok st6
   | BBtcRefunded st6 \<Rightarrow> Ok st6
   | BBtcCancelled st6 \<Rightarrow> Ok st6
   | _ \<Rightarrow> Err (Msg (''Cannot cancel swap '' @ e_uuid_to_string E swap_id @ '' because it is in state '' @
            bob_state_display s @ '' which is not cancellable.'')))"

text \<open>
  Why the transaction could not be published; \<open>verb\<close> is cancel or refund. When Alice has already
  punished, this is stored before the error is returned.
\<close>

definition cli_publication_failed ::
  "'v env \<Rightarrow> uuid \<Rightarrow> string \<Rightarrow> bob_state6 \<Rightarrow> error \<Rightarrow> ('v world, 'a) io" where
  "cli_publication_failed E swap_id verb st err =
     bindio (attempt (bob6_expired_timelock E st)) (\<lambda>t.
     case t of
       Inr PunishExpired \<Rightarrow>
         bindio (insert_latest_state E swap_id (SBob (BBtcPunished st (tx_lock_txid (e_lib E) (b6_tx_lock st))))) (\<lambda>_.
         lift (Err (Context (''Cannot '' @ verb @ '' swap because we have already been punished'') err)))
     | Inr (NoneExpired n) \<Rightarrow>
         lift (Err (Context (''Cannot '' @ verb @ '' swap because the cancel timelock has not expired yet. Blocks left: ''
           @ decimal (unat n)) err))
     | Inr (CancelExpired _) \<Rightarrow>
         lift (Err (Context (''Failed to '' @ verb @ '' swap even though cancel timelock has expired. This is unexpected.'') err))
     | Inl timelock_err \<Rightarrow>
         lift (Err (Context (''Failed to '' @ verb @ '' swap and could not check timelock status'')
           (ContextError timelock_err err))))"

definition cli_cancel :: "'v env \<Rightarrow> uuid \<Rightarrow> ('v world, txid \<times> bob_state) io" where
  "cli_cancel E swap_id =
     bindio (load_bob E swap_id) (\<lambda>s.
     bindio (lift (cli_cancel_state E swap_id s)) (\<lambda>st.
     bindio (attempt (bob_submit_tx_cancel E st)) (\<lambda>submitted.
     let s' = BBtcCancelled st in
     case submitted of
       Inr (i, _) \<Rightarrow> bindio (insert_latest_state E swap_id (SBob s')) (\<lambda>_. ret (i, s'))
     | Inl err \<Rightarrow>
         bindio (attempt (bob_check_for_tx_cancel E st)) (\<lambda>found.
         case found of
           Inr tx \<Rightarrow>
             bindio (insert_latest_state E swap_id (SBob s')) (\<lambda>_. ret (compute_txid (e_lib E) tx, s'))
         | Inl _ \<Rightarrow> cli_publication_failed E swap_id ''cancel'' st err))))"

definition cli_refund_state :: "'v env \<Rightarrow> uuid \<Rightarrow> bob_state \<Rightarrow> bob_state6 outcome" where
  "cli_refund_state E swap_id s = (case s of
     BBtcLocked st3 h \<Rightarrow> Ok (bob3_cancel st3 h)
   | BBeldexLockProofReceived st3 p h \<Rightarrow> Ok (bob3_cancel st3 h)
   | BBeldexLocked st4 \<Rightarrow> Ok (bob4_cancel st4)
   | BEncSigSent st4 \<Rightarrow> Ok (bob4_cancel st4)
   | BCancelTimelockExpired st6 \<Rightarrow> Ok st6
   | BBtcCancelled st6 \<Rightarrow> Ok st6
   | _ \<Rightarrow> Err (Msg (''Cannot refund swap '' @ e_uuid_to_string E swap_id @ '' because it is in state '' @
            bob_state_display s @ '' which is not refundable.'')))"

definition cli_refund :: "'v env \<Rightarrow> uuid \<Rightarrow> ('v world, bob_state) io" where
  "cli_refund E swap_id =
     bindio (load_bob E swap_id) (\<lambda>s.
     bindio (lift (cli_refund_state E swap_id s)) (\<lambda>st.
     bindio (attempt (bob_publish_refund_btc E st)) (\<lambda>published.
     case published of
       Inr _ \<Rightarrow>
         let s' = BBtcRefunded st in
         bindio (insert_latest_state E swap_id (SBob s')) (\<lambda>_. ret s')
     | Inl bitcoin_publication_err \<Rightarrow> cli_publication_failed E swap_id ''refund'' st bitcoin_publication_err)))"

text \<open>A failure of \<open>cancel\<close> is only logged.\<close>

definition cli_cancel_and_refund :: "'v env \<Rightarrow> uuid \<Rightarrow> ('v world, bob_state) io" where
  "cli_cancel_and_refund E swap_id =
     bindio (attempt (cli_cancel E swap_id)) (\<lambda>_. cli_refund E swap_id)"

end
