(* ===== verification/Recovery_Properties.thy ===== *)
theory Recovery_Properties
  imports Recovery Alice_Properties Bob_Properties
begin

text \<open>
  What the manual commands may do to a swap: which states they store, in which order, which
  transaction they may broadcast, and that a command a state does not allow does nothing at all.
\<close>

section \<open>Computations that store states\<close>

text \<open>
  \<open>stores k xs m\<close>: \<open>m\<close> broadcasts transactions of kind \<open>k\<close> only, stores a beginning of \<open>xs\<close>, and all
  of \<open>xs\<close> if it returns.
\<close>

definition only_broadcasts :: "string \<Rightarrow> call \<Rightarrow> bool" where
  "only_broadcasts k c = (case c of CBroadcast _ j \<Rightarrow> j = k | _ \<Rightarrow> True)"

definition stores :: "string \<Rightarrow> swap_state list \<Rightarrow> ('v world, 'a) io \<Rightarrow> bool" where
  "stores k xs m \<longleftrightarrow> post (\<lambda>r evs. list_all (\<lambda>e. only_broadcasts k (event_call e)) evs \<and>
     (\<exists>ys. stored evs @ ys = xs) \<and> (\<forall>x. r = Ok x \<longrightarrow> stored evs = xs)) m"

named_theorems stores_rules \<open>introduction rules for \<open>stores\<close>\<close>

lemma stores_quiet:
  assumes "makes (\<lambda>c. only_broadcasts k c \<and> \<not> (\<exists>i s. c = CInsertLatestState i s)) m"
  shows "stores k [] m"
  unfolding stores_def
  by (rule post_emits[OF assms]) (auto simp: list_all_iff intro!: stored_none)

lemma stores_bindio:
  fixes m :: "('v world, 'b) io"
  assumes "stores k xs m" "\<And>x. stores k ys (f x)"
  shows "stores k (xs @ ys) (bindio m f)"
  unfolding stores_def
proof (rule post_bindio, rule post_weaken[OF assms(1)[unfolded stores_def]])
  fix r :: "'b outcome" and evs
  assume m: "list_all (\<lambda>e. only_broadcasts k (event_call e)) evs \<and> (\<exists>ys. stored evs @ ys = xs) \<and>
      (\<forall>x. r = Ok x \<longrightarrow> stored evs = xs)"
  have "post (\<lambda>r' evs'. list_all (\<lambda>e. only_broadcasts k (event_call e)) (evs @ evs') \<and>
      (\<exists>zs. stored (evs @ evs') @ zs = xs @ ys) \<and> (\<forall>x. r' = Ok x \<longrightarrow> stored (evs @ evs') = xs @ ys)) (f x)"
    if "r = Ok x" for x
    by (rule post_weaken[OF assms(2)[of x, unfolded stores_def]]) (use m that in auto)
  moreover have "(\<exists>zs. stored evs @ zs = xs @ ys)" using m by (metis append.assoc)
  ultimately show "case r of Ok x \<Rightarrow> post (\<lambda>r' evs'. list_all (\<lambda>e. only_broadcasts k (event_call e)) (evs @ evs') \<and>
      (\<exists>zs. stored (evs @ evs') @ zs = xs @ ys) \<and> (\<forall>x. r' = Ok x \<longrightarrow> stored (evs @ evs') = xs @ ys)) (f x)
    | Err e \<Rightarrow> list_all (\<lambda>e. only_broadcasts k (event_call e)) evs \<and> (\<exists>zs. stored evs @ zs = xs @ ys) \<and>
        (\<forall>x. Err e = Ok x \<longrightarrow> stored evs = xs @ ys)
    | Panic p \<Rightarrow> list_all (\<lambda>e. only_broadcasts k (event_call e)) evs \<and> (\<exists>zs. stored evs @ zs = xs @ ys) \<and>
        (\<forall>x. Panic p = Ok x \<longrightarrow> stored evs = xs @ ys)
    | Pending \<Rightarrow> list_all (\<lambda>e. only_broadcasts k (event_call e)) evs \<and> (\<exists>zs. stored evs @ zs = xs @ ys) \<and>
        (\<forall>x. Pending = Ok x \<longrightarrow> stored evs = xs @ ys)"
    using m by (cases r) auto
qed

lemma stores_insert: "stores k [s] (insert_latest_state E i s)"
  unfolding stores_def insert_latest_state_def
  by (rule post_perform, case_tac r) (simp_all add: only_broadcasts_def)

lemma stores_after [stores_rules]: "stores k [] m \<Longrightarrow> (\<And>x. stores k ys (f x)) \<Longrightarrow> stores k ys (bindio m f)"
  using stores_bindio[of k "[]" m ys f] by simp

lemma stores_insert_then [stores_rules]:
  "(\<And>x. stores k ys (f x)) \<Longrightarrow> stores k (s # ys) (bindio (insert_latest_state E i s) f)"
  using stores_bindio[OF stores_insert[of k s E i], of ys f] by simp

lemma stores_ret [stores_rules]: "stores k [] (ret x)"
  by (simp add: stores_def)

lemma stores_lift [stores_rules]: "stores k [] (lift m)"
  by (simp add: stores_def)

lemma stores_Err: "stores k xs (lift (Err e))"
  by (simp add: stores_def)

lemma storesD:
  assumes "stores k xs m" "m w = (r, w')"
  shows "\<exists>evs. w_log w' = w_log w @ evs \<and> list_all (\<lambda>e. only_broadcasts k (event_call e)) evs \<and>
    (\<exists>ys. stored evs @ ys = xs) \<and> (\<forall>x. r = Ok x \<longrightarrow> stored evs = xs)"
  by (rule postD[OF assms(1)[unfolded stores_def] assms(2)])

section \<open>Alice's commands\<close>

text \<open>The states that a command stores for a swap in a state, if the state allows the command.\<close>

definition asb_plan :: "asb_command \<Rightarrow> alice_state \<Rightarrow> alice_state list option" where
  "asb_plan c s = (case c of
     Cancel \<Rightarrow> map_option (\<lambda>(h, p, st). [ABtcCancelled h p st]) (bdx_lock_of s)
   | Refund \<Rightarrow> map_option (\<lambda>_. [ABeldexRefunded]) (bdx_lock_of s)
   | Punish \<Rightarrow> (case asb_punish_state s of Ok st \<Rightarrow> Some [ABtcPunished st] | _ \<Rightarrow> None)
   | SafelyAbort \<Rightarrow> if no_bdx_locked s then Some [ASafelyAborted] else None
   | Redeem _ \<Rightarrow> (case s of
       AEncSigLearned h p es st \<Rightarrow> Some [ABtcRedeemTransactionPublished st, ABtcRedeemed]
     | ABtcRedeemTransactionPublished st \<Rightarrow> Some [ABtcRedeemed]
     | _ \<Rightarrow> None))"

definition asb_kind :: "asb_command \<Rightarrow> string" where
  "asb_kind c = (case c of Cancel \<Rightarrow> ''cancel'' | Punish \<Rightarrow> ''punish'' | Redeem _ \<Rightarrow> ''redeem'' | _ \<Rightarrow> '''')"

lemma bindio_assoc: "bindio (bindio m f) g = bindio m (\<lambda>x. bindio (f x) g)"
  by (rule ext) (auto simp: bindio_def split: prod.split outcome.split)

lemma load_alice_Ok:
  assumes "e_get_state E i (w_ext w) = (Ok (SAlice s), v)"
  shows "bindio (load_alice E i) f w = f s (w\<lparr>w_log := w_log w @ [Done (CGetState i)], w_ext := v\<rparr>)"
  using assms by (simp add: load_alice_def bindio_def perform_def try_into_alice_state_def)

lemmas asb_command_defs = asb_manual_def asb_cancel_def asb_refund_def asb_punish_def asb_safely_abort_def
  asb_redeem_def

text \<open>The parts of a command that store nothing.\<close>

lemma stores_alice_parts [stores_rules]:
  "stores ''cancel'' [] (alice_submit_tx_cancel E st)"
  "stores ''punish'' [] (alice_punish_btc E st)"
  "stores k [] (alice_fetch_tx_refund E st)"
  "stores k [] (alice_refund_bdx E st h f key p)"
  "stores ''redeem'' [] (broadcast E tx ''redeem'')"
  "stores k [] (await_finality E fin sub)"
  "stores k [] (await_io E cs (wait_until_seen sub))"
  "stores k [] (subscribe_to E j sc)"
  "stores k [] (perform (CGetPeerId i) f')"
  by (auto simp: alice_submit_tx_cancel_def alice_punish_btc_def alice_fetch_tx_refund_def alice_refund_bdx_def
      await_finality_def only_broadcasts_def simp del: ret_apply lift_apply
      intro!: stores_quiet emits_rules split: finality.split prod.split)

lemma stores_attempt [stores_rules]: "stores k [] m \<Longrightarrow> stores k [] (attempt m)"
  unfolding stores_def by (rule post_attempt, erule post_weaken) (auto split: outcome.split)


text \<open>A command once the state is loaded.\<close>

definition asb_manual_from :: "'v env \<Rightarrow> uuid \<Rightarrow> asb_command \<Rightarrow> alice_state \<Rightarrow> ('v world, unit) io" where
  "asb_manual_from E i c s = (case c of
     Cancel \<Rightarrow> bindio (asb_cancel_from E i s) (\<lambda>_. ret ())
   | Refund \<Rightarrow> bindio (asb_refund_from E i s) (\<lambda>_. ret ())
   | Punish \<Rightarrow> bindio (asb_punish_from E i s) (\<lambda>_. ret ())
   | SafelyAbort \<Rightarrow> bindio (asb_safely_abort_from E i s) (\<lambda>_. ret ())
   | Redeem b \<Rightarrow> bindio (asb_redeem_from E i (finality_from_bool b) s) (\<lambda>_. ret ()))"

lemma asb_manual_split: "asb_manual E i c = bindio (load_alice E i) (asb_manual_from E i c)"
  by (cases c) (simp_all add: asb_command_defs bindio_assoc asb_manual_from_def[abs_def] case_prod_unfold)

lemma stores_case_prod [stores_rules]: "(\<And>a b. stores k xs (f a b)) \<Longrightarrow> stores k xs (case p of (a, b) \<Rightarrow> f a b)"
  by (cases p) simp

lemma asb_manual_from_stores:
  assumes "asb_plan c s = Some ss"
  shows "stores (asb_kind c) (map SAlice ss) (asb_manual_from E i c s)"
proof (cases c)
  case Cancel
  then obtain h p st where lock: "bdx_lock_of s = Some (h, p, st)" "ss = [ABtcCancelled h p st]"
    using assms by (auto simp: asb_plan_def)
  hence "asb_cancel_state E i s = Ok (h, p, st)"
    by (cases s) (simp_all add: asb_cancel_state_def no_bdx_locked_def bdx_lock_of_def)
  thus ?thesis using lock(2)
    by (auto simp: Cancel asb_manual_from_def asb_cancel_from_def asb_kind_def bindio_assoc Let_def simp del: ret_apply
        intro!: stores_rules)
next
  case Refund
  then obtain h p st where lock: "bdx_lock_of s = Some (h, p, st)" "ss = [ABeldexRefunded]"
    using assms by (auto simp: asb_plan_def)
  hence "asb_refund_state s = Ok (h, p, st)"
    by (cases s) (simp_all add: asb_refund_state_def no_bdx_locked_def bdx_lock_of_def)
  thus ?thesis using lock(2)
    by (auto simp: Refund asb_manual_from_def asb_refund_from_def bindio_assoc Let_def simp del: ret_apply lift_apply
        intro!: stores_rules split: sum.split)
next
  case Punish
  then obtain st where st: "asb_punish_state s = Ok st" "ss = [ABtcPunished st]"
    using assms by (auto simp: asb_plan_def split: outcome.splits)
  thus ?thesis
    by (auto simp: Punish asb_manual_from_def asb_punish_from_def asb_kind_def bindio_assoc Let_def simp del: ret_apply
        intro!: stores_rules)
next
  case SafelyAbort
  hence "no_bdx_locked s" "ss = [ASafelyAborted]" using assms by (auto simp: asb_plan_def split: if_splits)
  thus ?thesis
    by (auto simp: SafelyAbort asb_manual_from_def asb_safely_abort_from_def bindio_assoc Let_def simp del: ret_apply
        intro!: stores_rules)
next
  case (Redeem b)
  show ?thesis
  proof (cases s)
    case (AEncSigLearned h p es st)
    hence "ss = [ABtcRedeemTransactionPublished st, ABtcRedeemed]"
      using assms by (simp add: Redeem asb_plan_def)
    thus ?thesis
      by (simp add: Redeem AEncSigLearned asb_manual_from_def asb_redeem_from_def asb_kind_def bindio_assoc
          case_prod_unfold del: ret_apply lift_apply)
        (rule stores_insert_then stores_ret stores_lift stores_alice_parts stores_after)+
  next
    case (ABtcRedeemTransactionPublished st)
    hence "ss = [ABtcRedeemed]"
      using assms by (simp add: Redeem asb_plan_def)
    thus ?thesis
      by (simp add: Redeem ABtcRedeemTransactionPublished asb_manual_from_def asb_redeem_from_def asb_kind_def
          bindio_assoc del: ret_apply lift_apply)
        (rule stores_insert_then stores_ret stores_lift stores_alice_parts stores_after)+
  qed (use assms in \<open>auto simp: asb_plan_def Redeem\<close>)
qed

lemma lift_Err_refuses [simp]: "\<exists>e'. lift (Err e) = lift (Err e')"
  by blast

lemma asb_manual_from_refuses:
  assumes "asb_plan c s = None"
  shows "\<exists>e. asb_manual_from E i c s = lift (Err e)"
  using assms
  by (cases c; cases s)
    (simp_all add: asb_plan_def asb_manual_from_def asb_cancel_from_def asb_cancel_state_def asb_punish_from_def
      asb_punish_state_def asb_redeem_from_def asb_refund_from_def asb_refund_state_def asb_safely_abort_from_def
      no_bdx_locked_def bdx_lock_of_def)

text \<open>
  C16: a manual command of Alice keeps to its plan. In a state that does not allow it, it fails and has
  done nothing but read the state. In any other it broadcasts no transaction of another kind, and the
  states it stores are those of the plan: all of them if it succeeds, the first ones if it stops.
  So a swap whose Beldex is locked is never aborted, one whose redeem transaction is published is
  never cancelled or refunded, and a finished one is never touched.
\<close>

theorem asb_manual_follows_plan:
  assumes "asb_manual E i c w = (r, w')" and "e_get_state E i (w_ext w) = (Ok (SAlice s), v)"
  shows "\<exists>evs. w_log w' = w_log w @ Done (CGetState i) # evs \<and>
    (case asb_plan c s of
       None \<Rightarrow> (\<exists>e. r = Err e) \<and> evs = []
     | Some ss \<Rightarrow> list_all (\<lambda>e. only_broadcasts (asb_kind c) (event_call e)) evs \<and>
         (\<exists>ys. stored evs @ ys = map SAlice ss) \<and> (\<forall>x. r = Ok x \<longrightarrow> stored evs = map SAlice ss))"
proof -
  let ?w = "w\<lparr>w_log := w_log w @ [Done (CGetState i)], w_ext := v\<rparr>"
  have run: "asb_manual_from E i c s ?w = (r, w')"
    using assms(1) by (simp add: asb_manual_split load_alice_Ok[OF assms(2)])
  show ?thesis
  proof (cases "asb_plan c s")
    case None
    then obtain e where "asb_manual_from E i c s = lift (Err e)" using asb_manual_from_refuses by blast
    thus ?thesis using run None by auto
  next
    case (Some ss)
    show ?thesis using storesD[OF asb_manual_from_stores[OF Some] run] Some by auto
  qed
qed

text \<open>The environment of a swap that waits in \<open>BtcLocked\<close>, and one in \<open>EncSigLearned\<close>.\<close>

definition stored_env :: "swap_state \<Rightarrow> unit env" where
  "stored_env s = dead_env\<lparr>e_get_state := (\<lambda>i v. (Ok s, v))\<rparr>"

lemma stored_env_simps [simp]:
  "e_get_state (stored_env s) i v = (Ok s, v)" "e_insert_latest_state (stored_env s) i x v = (Ok (), v)"
  by (simp_all add: stored_env_def)

theorem asb_manual_follows_plan_witness:
  "(\<exists>evs e. w_log (snd (asb_manual (stored_env (SAlice (ABtcLocked sample_alice3))) 7 Cancel start_world))
      = [Done (CGetState 7)] \<and>
      fst (asb_manual (stored_env (SAlice (ABtcLocked sample_alice3))) 7 Cancel start_world) = Err e) \<and>
   stored (w_log (snd (asb_manual (stored_env (SAlice (ABtcLocked sample_alice3))) 7 SafelyAbort start_world)))
      = [SAlice ASafelyAborted]"
proof -
  let ?s = "ABtcLocked sample_alice3" and ?E = "stored_env (SAlice (ABtcLocked sample_alice3))"
  have load: "e_get_state ?E 7 (w_ext start_world) = (Ok (SAlice ?s), w_ext start_world)"
    by simp
  have plan: "asb_plan Cancel ?s = None" "asb_plan SafelyAbort ?s = Some [ASafelyAborted]"
    by (simp_all add: asb_plan_def bdx_lock_of_def no_bdx_locked_def)
  obtain e where "asb_manual ?E 7 Cancel start_world = (Err e, snd (asb_manual ?E 7 Cancel start_world))"
    "w_log (snd (asb_manual ?E 7 Cancel start_world)) = w_log start_world @ [Done (CGetState 7)]"
    using asb_manual_follows_plan[OF surjective_pairing load, of Cancel] plan(1) by (auto simp: prod_eq_iff)
  moreover have "asb_manual ?E 7 SafelyAbort start_world = (Ok (), snd (asb_manual ?E 7 SafelyAbort start_world))"
    unfolding asb_manual_split load_alice_Ok[OF load]
    by (simp add: asb_manual_from_def asb_safely_abort_from_def
        no_bdx_locked_def bindio_def insert_latest_state_def perform_def)
  from asb_manual_follows_plan[OF this load] plan(2)
  have "stored (w_log (snd (asb_manual ?E 7 SafelyAbort start_world))) = [SAlice ASafelyAborted]"
    by (auto simp: start_world_def stored_def List.map_filter_simps stored_state_def)
  ultimately show ?thesis by (auto simp: start_world_def prod_eq_iff)
qed

section \<open>Bob's commands\<close>

lemma bindio_load_bob:
  assumes "e_get_state E i (w_ext w) = (Ok (SBob s), v)"
  shows "bindio (load_bob E i) f w = f s (w\<lparr>w_log := w_log w @ [Done (CGetState i)], w_ext := v\<rparr>)"
  using assms by (simp add: load_bob_def bindio_def perform_def try_into_bob_state_def)

lemma bob_check_for_tx_cancel_finds_lock:
  assumes "build_shared_output_descriptor (e_lib E) (pk_point (b6_A st)) (pk_point (public (b6_b st)))
      = Ok (tl_descriptor (b6_tx_lock st))"
    and "bob_construct_tx_cancel (e_lib E) st = Ok c"
    and "\<And>v. e_history E (tx_lock_script_pubkey (e_lib E) (b6_tx_lock st)) v = (Ok (lock_txid # rest), v)"
    and "\<And>v. e_get_tx E lock_txid v = (Ok (Some lock_tx), v)"
  shows "\<exists>w'. bob_check_for_tx_cancel E st w = (Ok lock_tx, w')"
proof -
  have "tx_cancel_script (e_lib E) c = tx_lock_script_pubkey (e_lib E) (b6_tx_lock st)"
    using assms(1,2)
    by (auto simp: bob_construct_tx_cancel_def tx_cancel_script_def tx_lock_script_pubkey_def
        elim!: tx_cancel_new_OkD)
  thus ?thesis using assms(2-4)
    by (simp add: bob_check_for_tx_cancel_def bindio_def attempt_def script_history_for_def perform_def
        get_raw_transaction_def)
qed

text \<open>
  \<open>cancel\<close> of the command line reports success when it has failed: if the cancel transaction
  cannot be published, for instance because the timelock has not expired, the search for one that
  Alice has published finds the lock transaction, whose output has the same script. The command
  returns the id of the lock transaction as that of the cancel transaction, and \<open>BtcCancelled\<close> is
  stored.
\<close>

theorem cli_cancel_reports_lock_as_cancel:
  assumes "build_shared_output_descriptor (e_lib E) (pk_point (b6_A st)) (pk_point (public (b6_b st)))
      = Ok (tl_descriptor (b6_tx_lock st))"
    and "bob_construct_tx_cancel (e_lib E) st = Ok c"
    and "\<And>v. e_history E (tx_lock_script_pubkey (e_lib E) (b6_tx_lock st)) v = (Ok (lock_txid # rest), v)"
    and "\<And>v. e_get_tx E lock_txid v = (Ok (Some lock_tx), v)"
    and "e_get_state E i (w_ext w) = (Ok (SBob s), v1)" and "cli_cancel_state E i s = Ok st"
    and "bob_submit_tx_cancel E st (w\<lparr>w_log := w_log w @ [Done (CGetState i)], w_ext := v1\<rparr>) = (Err e, w2)"
    and "\<And>v. \<exists>v'. e_insert_latest_state E i (SBob (BBtcCancelled st)) v = (Ok (), v')"
  shows "\<exists>w'. cli_cancel E i w = (Ok (compute_txid (e_lib E) lock_tx, BBtcCancelled st), w') \<and>
    last (w_log w') = Done (CInsertLatestState i (SBob (BBtcCancelled st)))"
proof -
  let ?w = "w\<lparr>w_log := w_log w @ [Done (CGetState i)], w_ext := v1\<rparr>"
  obtain w3 where w3: "bob_check_for_tx_cancel E st w2 = (Ok lock_tx, w3)"
    using bob_check_for_tx_cancel_finds_lock[OF assms(1-4)] by blast
  obtain v4 where "e_insert_latest_state E i (SBob (BBtcCancelled st)) (w_ext w3) = (Ok (), v4)"
    using assms(8) by blast
  hence "cli_cancel E i w = (Ok (compute_txid (e_lib E) lock_tx, BBtcCancelled st),
      w3\<lparr>w_log := w_log w3 @ [Done (CInsertLatestState i (SBob (BBtcCancelled st)))], w_ext := v4\<rparr>)"
    unfolding cli_cancel_def bindio_load_bob[OF assms(5)]
    using assms(6,7) w3 by (simp add: bindio_def attempt_def Let_def insert_latest_state_def perform_def)
  thus ?thesis by simp
qed

text \<open>A swap in \<open>BtcLocked\<close> before any timelock: the node refuses the cancel transaction.\<close>

definition early_cancel_env :: "unit env" where
  "early_cancel_env = locked_env\<lparr>e_get_state := (\<lambda>i v. (Ok (SBob (BBtcLocked sample_bob3 40)), v))\<rparr>"

lemma early_cancel_env_simps [simp]:
  "e_lib early_cancel_env = sample_lib" "e_history early_cancel_env s v = (Ok [5000], v)"
  "e_get_tx early_cancel_env 5000 v = (Ok (Some (unsigned_tx sample_psbt)), v)"
  "e_get_state early_cancel_env i v = (Ok (SBob (BBtcLocked sample_bob3 40)), v)"
  "e_insert_latest_state early_cancel_env i x v = (Ok (), v)" "e_broadcast early_cancel_env tx v = (Err (External 1), v)"
  by (simp_all add: early_cancel_env_def locked_env_def expired_env_def)

lemma sample_bob6_signed_cancel:
  "\<exists>tx. bob_signed_cancel_transaction sample_lib sample_bob6 = Ok tx \<and> tx_output tx \<noteq> []"
proof -
  have "b6_tx_cancel_sig_a sample_bob6 = b2_tx_cancel_sig_a sample_bob2"
    by (simp add: sample_bob6_def bob3_cancel_def sample_bob3_def bob_lock_btc_def)
  thus ?thesis
    by (simp add: bob_signed_cancel_transaction_def sample_bob6_cancel tx_cancel_complete_as_bob_def
        tx_cancel_add_signatures_def public_def satisfier_def
        two_signatures_def satisfy_input0_def index_vec_def Let_def del: One_nat_def)
qed

lemma sample_submit_refused:
  "\<exists>e w'. bob_submit_tx_cancel early_cancel_env sample_bob6 w = (Err e, w')"
proof -
  obtain tx where tx: "bob_signed_cancel_transaction sample_lib sample_bob6 = Ok tx" "tx_output tx \<noteq> []"
    using sample_bob6_signed_cancel by blast
  thus ?thesis
    by (cases "tx_output tx") (simp_all add: bob_submit_tx_cancel_def broadcast_def Let_def index_vec_def bindio_def
        subscribe_to_def record_events_def context_io_def perform_def)
qed

theorem cli_cancel_reports_lock_as_cancel_witness:
  "\<exists>w'. cli_cancel early_cancel_env 7 start_world = (Ok (5000, BBtcCancelled sample_bob6), w') \<and>
    last (w_log w') = Done (CInsertLatestState 7 (SBob (BBtcCancelled sample_bob6)))"
proof -
  obtain e w2 where w2: "bob_submit_tx_cancel early_cancel_env sample_bob6
      (start_world\<lparr>w_log := w_log start_world @ [Done (CGetState 7)], w_ext := ()\<rparr>) = (Err e, w2)"
    using sample_submit_refused by blast
  have i: "sample_hash (unsigned_tx sample_psbt) = 5000"
    by (simp add: sample_psbt_def sample_hash_def del: One_nat_def)
  have "\<exists>w'. cli_cancel early_cancel_env 7 start_world
      = (Ok (compute_txid (e_lib early_cancel_env) (unsigned_tx sample_psbt), BBtcCancelled sample_bob6), w') \<and>
    last (w_log w') = Done (CInsertLatestState 7 (SBob (BBtcCancelled sample_bob6)))"
    by (rule cli_cancel_reports_lock_as_cancel[OF _ _ _ _ _ _ w2, where c = sample_cancel and lock_txid = 5000 and rest = "[]"
          and s = "BBtcLocked sample_bob3 40"])
      (simp_all add: sample_bob6_cancel public_def sample_lock_def cli_cancel_state_def sample_bob6_def[symmetric] del: One_nat_def)
  thus ?thesis by (simp add: i)
qed

lemma broadcast_Done:
  assumes "broadcast E tx k w = (Ok x, w')"
  shows "\<exists>evs. w_log w' = w_log w @ evs \<and> Done (CBroadcast tx k) \<in> set evs"
  using assms by (auto simp: broadcast_def Let_def outcome_rules)

lemma bob_first_found_nonempty: "bob_first_found E none hs w = (Ok tx, w') \<Longrightarrow> hs \<noteq> []"
  by (cases hs) auto

lemma bob_publish_refund_how:
  assumes "bob_publish_refund_btc E st w = (Ok u, w')"
  shows "\<exists>tx. bob_signed_refund_transaction (e_lib E) st = Ok tx \<and>
    ((\<exists>out v v' j hs. index_vec (tx_output tx) 0 = Ok out \<and> e_history E (txo_script out) v = (Ok (j # hs), v')) \<or>
     (\<exists>evs. w_log w' = w_log w @ evs \<and> Done (CBroadcast tx ''refund'') \<in> set evs))"
proof -
  obtain found w1 where found: "attempt (bob_check_for_tx_refund E st) w = (Ok found, w1)"
    and rest: "(case found of Inr _ \<Rightarrow> ret ()
      | Inl _ \<Rightarrow> bindio (lift (bob_signed_refund_transaction (e_lib E) st)) (\<lambda>tx.
          bindio (broadcast E tx ''refund'') (\<lambda>_. ret ()))) w1 = (Ok u, w')"
    using assms by (auto simp: bob_publish_refund_btc_def outcome_rules)
  have log: "\<exists>e1. w_log w1 = w_log w @ e1"
  proof -
    have "emits (\<lambda>_. True) (attempt (bob_check_for_tx_refund E st))"
      by (intro emits_attempt makes_bob_check_for_tx_refund[where Q = "\<lambda>_. True"]) simp_all
    thus ?thesis using logsD found by blast
  qed
  show ?thesis
  proof (cases found)
    case (Inr tx)
    hence "bob_check_for_tx_refund E st w = (Ok tx, w1)" using found by (simp add: attempt_eq_Ok)
    then obtain tx' out hs v' w2 where "bob_signed_refund_transaction (e_lib E) st = Ok tx'"
      "index_vec (tx_output tx') 0 = Ok out" "e_history E (txo_script out) (w_ext w) = (Ok hs, v')"
      and first: "bob_first_found E ''No Bitcoin refund transaction found in history'' hs w2 = (Ok tx, w1)"
      unfolding bob_check_for_tx_refund_def script_history_for_def bindio_eq_Ok lift_apply perform_eq_Ok
      by blast
    moreover obtain j hs' where "hs = j # hs'"
      using bob_first_found_nonempty[OF first] by (cases hs) auto
    ultimately show ?thesis by blast
  next
    case (Inl e)
    hence "bindio (lift (bob_signed_refund_transaction (e_lib E) st)) (\<lambda>tx.
          bindio (broadcast E tx ''refund'') (\<lambda>_. ret ())) w1 = (Ok u, w')" using rest by simp
    then obtain tx x where tx: "bob_signed_refund_transaction (e_lib E) st = Ok tx" "broadcast E tx ''refund'' w1 = (Ok x, w')"
      unfolding bindio_eq_Ok lift_apply by auto
    obtain e1 e2 where "w_log w' = (w_log w @ e1) @ e2" "Done (CBroadcast tx ''refund'') \<in> set e2"
      using broadcast_Done[OF tx(2)] log by metis
    hence "w_log w' = w_log w @ (e1 @ e2)" "Done (CBroadcast tx ''refund'') \<in> set (e1 @ e2)" by simp_all
    thus ?thesis using tx(1) by blast
  qed
qed

lemma makes_cli_cancel:
  assumes "\<And>c. Q c"
  shows "makes Q (cli_cancel E i)"
  using assms
  by (auto simp: cli_cancel_def load_bob_def bob_submit_tx_cancel_def cli_publication_failed_def Let_def
      insert_latest_state_def simp del: ret_apply lift_apply intro!: emits_rules
      split: sum.split prod.split expired_timelocks.split)

lemma makes_bob_publish_refund:
  assumes "\<And>c. Q c"
  shows "makes Q (bob_publish_refund_btc E st)"
  using assms
  by (auto simp: bob_publish_refund_btc_def simp del: ret_apply lift_apply intro!: emits_rules split: sum.split)

lemma load_bob_eq_Ok:
  "load_bob E i w = (Ok s, w') \<longleftrightarrow> (\<exists>v'. e_get_state E i (w_ext w) = (Ok (SBob s), v') \<and>
     w' = w\<lparr>w_log := w_log w @ [Done (CGetState i)], w_ext := v'\<rparr>)"
proof (cases "e_get_state E i (w_ext w)")
  case (Pair r v')
  show ?thesis
  proof (cases r)
    case (Ok x)
    thus ?thesis using Pair
      by (cases x) (auto simp: load_bob_def bindio_def perform_def try_into_bob_state_def)
  qed (use Pair in \<open>auto simp: load_bob_def bindio_def perform_def\<close>)
qed

lemma cli_publication_failed_Err: "cli_publication_failed E i verb st err w \<noteq> (Ok x, w')"
  unfolding cli_publication_failed_def bindio_eq_Ok
  by (auto simp: bindio_eq_Ok split: sum.splits expired_timelocks.splits)

text \<open>
  C17: \<open>cancel_and_refund\<close> ends in \<open>BtcRefunded\<close> or fails: a state it returns is \<open>BtcRefunded\<close> with the
  data of a stored state that allows a refund, it is stored last, and either Bob's signed refund
  transaction has been broadcast or the address it pays to already had a history.
\<close>

theorem cli_cancel_and_refund_outcome:
  assumes "cli_cancel_and_refund E i w = (Ok s', w')"
  shows "\<exists>s st v v' tx evs. e_get_state E i v = (Ok (SBob s), v') \<and> cli_refund_state E i s = Ok st \<and>
    s' = BBtcRefunded st \<and> bob_signed_refund_transaction (e_lib E) st = Ok tx \<and>
    w_log w' = w_log w @ evs @ [Done (CInsertLatestState i (SBob s'))] \<and>
    (Done (CBroadcast tx ''refund'') \<in> set evs \<or>
     (\<exists>out u u' j hs. index_vec (tx_output tx) 0 = Ok out \<and> e_history E (txo_script out) u = (Ok (j # hs), u')))"
proof -
  obtain c w1 where c: "attempt (cli_cancel E i) w = (Ok c, w1)" and run: "cli_refund E i w1 = (Ok s', w')"
    using assms unfolding cli_cancel_and_refund_def bindio_eq_Ok by blast
  have "emits (\<lambda>_. True) (attempt (cli_cancel E i))"
    by (intro emits_attempt makes_cli_cancel[where Q = "\<lambda>_. True"]) simp_all
  then obtain e1 where e1: "w_log w1 = w_log w @ e1" using logsD c by blast
  obtain s st w3 v' published where load: "e_get_state E i (w_ext w1) = (Ok (SBob s), v')"
    and st: "cli_refund_state E i s = Ok st"
    and pub: "attempt (bob_publish_refund_btc E st)
        (w1\<lparr>w_log := w_log w1 @ [Done (CGetState i)], w_ext := v'\<rparr>) = (Ok published, w3)"
    and rest: "(case published of
        Inr _ \<Rightarrow> let s' = BBtcRefunded st in bindio (insert_latest_state E i (SBob s')) (\<lambda>_. ret s')
      | Inl err \<Rightarrow> cli_publication_failed E i ''refund'' st err) w3 = (Ok s', w')"
    using run unfolding cli_refund_def bindio_eq_Ok[of "load_bob E i"] bindio_eq_Ok[of "lift _"]
      bindio_eq_Ok[of "attempt _"] lift_apply load_bob_eq_Ok by auto
  define w2 where "w2 = w1\<lparr>w_log := w_log w1 @ [Done (CGetState i)], w_ext := v'\<rparr>"
  note pub = pub[folded w2_def]
  obtain u where u: "published = Inr u"
    using rest by (cases published) (auto simp: cli_publication_failed_Err)
  hence s': "s' = BBtcRefunded st" and w': "w_log w' = w_log w3 @ [Done (CInsertLatestState i (SBob s'))]"
    using rest by (auto simp: Let_def insert_latest_state_def outcome_rules)
  have "bob_publish_refund_btc E st w2 = (Ok u, w3)" using pub u by (simp add: attempt_eq_Ok)
  from bob_publish_refund_how[OF this] obtain tx where tx: "bob_signed_refund_transaction (e_lib E) st = Ok tx"
    and how: "(\<exists>out v v' j hs. index_vec (tx_output tx) 0 = Ok out \<and> e_history E (txo_script out) v = (Ok (j # hs), v')) \<or>
     (\<exists>evs. w_log w3 = w_log w2 @ evs \<and> Done (CBroadcast tx ''refund'') \<in> set evs)" by blast
  have "emits (\<lambda>_. True) (attempt (bob_publish_refund_btc E st))"
    by (intro emits_attempt makes_bob_publish_refund[where Q = "\<lambda>_. True"]) simp_all
  then obtain e3 where e3: "w_log w3 = w_log w2 @ e3" using logsD pub by blast
  let ?evs = "e1 @ Done (CGetState i) # e3"
  have "w_log w' = w_log w @ ?evs @ [Done (CInsertLatestState i (SBob s'))]"
    using w' e3 e1 by (simp add: w2_def)
  moreover have "Done (CBroadcast tx ''refund'') \<in> set ?evs \<or>
     (\<exists>out u u' j hs. index_vec (tx_output tx) 0 = Ok out \<and> e_history E (txo_script out) u = (Ok (j # hs), u'))"
    using how e3 by auto
  ultimately show ?thesis using load st s' tx by blast
qed

text \<open>A swap whose cancel transaction is on the chain, and a refund address without a history.\<close>

definition refundable_env :: "unit env" where
  "refundable_env = dead_env\<lparr>e_get_state := (\<lambda>i v. (Ok (SBob (BBtcCancelled sample_bob6)), v)),
     e_broadcast := (\<lambda>tx v. (Ok (), v))\<rparr>"

lemma refundable_env_simps [simp]:
  "e_lib refundable_env = sample_lib" "e_history refundable_env s v = (Ok [], v)"
  "e_get_state refundable_env i v = (Ok (SBob (BBtcCancelled sample_bob6)), v)"
  "e_insert_latest_state refundable_env i x v = (Ok (), v)" "e_broadcast refundable_env tx v = (Ok (), v)"
  by (simp_all add: refundable_env_def dead_env_def)

lemma refundable_cli_refund:
  "\<exists>w'. cli_refund refundable_env 7 w = (Ok (BBtcRefunded sample_bob6), w')"
proof -
  obtain tx where "bob_signed_refund_transaction sample_lib sample_bob6 = Ok tx"
     "tx_output tx = [\<lparr>txo_value = 4750, txo_script = [13]\<rparr>]"
    using sample_bob6_refund by blast
  thus ?thesis
    by (simp add: cli_refund_def load_bob_def try_into_bob_state_def cli_refund_state_def bindio_def perform_def
        bob_publish_refund_btc_def bob_check_for_tx_refund_def attempt_def index_vec_def script_history_for_def
        broadcast_def subscribe_to_def record_events_def context_io_def insert_latest_state_def Let_def)
qed

lemma refundable_cli_cancel:
  "\<exists>x w'. cli_cancel refundable_env 7 w = (Ok x, w')"
proof -
  obtain tx where tx: "bob_signed_cancel_transaction sample_lib sample_bob6 = Ok tx" "tx_output tx \<noteq> []"
    using sample_bob6_signed_cancel by blast
  thus ?thesis
    by (cases "tx_output tx") (simp_all add: cli_cancel_def load_bob_def try_into_bob_state_def cli_cancel_state_def
        bindio_def perform_def bob_submit_tx_cancel_def attempt_def index_vec_def broadcast_def
        subscribe_to_def record_events_def context_io_def insert_latest_state_def Let_def)
qed

theorem cli_cancel_and_refund_outcome_witness:
  "\<exists>w' tx evs. cli_cancel_and_refund refundable_env 7 start_world = (Ok (BBtcRefunded sample_bob6), w') \<and>
    w_log w' = w_log start_world @ evs @ [Done (CInsertLatestState 7 (SBob (BBtcRefunded sample_bob6)))] \<and>
    Done (CBroadcast tx ''refund'') \<in> set evs"
proof -
  obtain x w1 where "cli_cancel refundable_env 7 start_world = (Ok x, w1)"
    using refundable_cli_cancel by blast
  then obtain w' where w': "cli_cancel_and_refund refundable_env 7 start_world = (Ok (BBtcRefunded sample_bob6), w')"
    using refundable_cli_refund[of w1] by (auto simp: cli_cancel_and_refund_def bindio_def attempt_def)
  from cli_cancel_and_refund_outcome[OF w'] w' show ?thesis by auto
qed

end
