(* ===== verification/Beldex_Rpc.thy ===== *)
theory Beldex_Rpc
  imports Beldex_Types
begin

text \<open>
  The client of the Beldex wallet's RPC server, \<open>beldex-rpc/src/wallet.rs\<close>. The trait
  \<open>BeldexWalletRpc\<close> is the record \<open>wallet_rpc\<close>, a method for each field; \<open>client\<close> is its
  implementation by \<open>Client\<close>, over a connection \<open>http\<close> that posts a JSON body and returns the text
  of the response, and over the parsers that \<open>serde_json\<close> derives for the result types. The server
  and these parsers are outside the repository.
\<close>

section \<open>Errors and results\<close>

text \<open>\<open>jsonrpc_client::Error\<close> with the two variants that occur; the \<open>data\<close> of an error is only logged.\<close>

datatype rpc_error = ClientError nat | JsonRpc int string

type_synonym ('w, 'a) rpc = "('w, rpc_error + 'a) io"

text \<open>\<open>call().await?\<close> in a function that returns \<open>anyhow::Result\<close>.\<close>

primrec anyhow_of_rpc :: "rpc_error \<Rightarrow> error" where
  "anyhow_of_rpc (ClientError n) = External n"
| "anyhow_of_rpc (JsonRpc code message) = JsonRpcError code message"

definition try_rpc :: "('w, 'a) rpc \<Rightarrow> ('w, 'a) io" where
  "try_rpc m = bindio m (\<lambda>r. case r of Inl e \<Rightarrow> lift (Err (anyhow_of_rpc e)) | Inr x \<Rightarrow> ret x)"

record get_address =
  ga_address :: string

record get_balance =
  gb_balance :: u64
  gb_unlocked_balance :: u64
  gb_multisig_import_needed :: bool
  gb_blocks_to_unlock :: u32
  gb_time_to_unlock :: u32

record create_account =
  cra_account_index :: u32
  cra_address :: string

record sub_address_account =
  saa_account_index :: u32
  saa_balance :: u32
  saa_base_address :: string
  saa_label :: string
  saa_tag :: string
  saa_unlocked_balance :: u64

record get_accounts =
  gac_subaddress_accounts :: "sub_address_account list"
  gac_total_balance :: u64
  gac_total_unlocked_balance :: u64

record destination =
  de_amount :: u64
  de_address :: string

text \<open>\<open>Transfer\<close>; \<open>'k\<close> is the type of \<open>tx_key\<close>, which is a string in the response.\<close>

record 'k rpc_transfer =
  rt_amount :: u64
  rt_fee :: u64
  rt_multisig_txset :: string
  rt_tx_blob :: string
  rt_tx_hash :: string
  rt_tx_key :: 'k
  rt_tx_metadata :: string
  rt_unsigned_txset :: string

record check_tx_key_response =
  ctr_confirmations :: u64
  ctr_received :: u64
  ctr_in_pool :: bool

record check_tx_key =
  ctk_confirmations :: u64
  ctk_received :: u64
  ctk_in_pool :: bool

text \<open>A server bug makes the confirmations of a fresh transaction wrap below zero.\<close>

definition check_tx_key_from :: "check_tx_key_response \<Rightarrow> check_tx_key" where
  "check_tx_key_from response =
     (let confirmations = (if ctr_confirmations response > - 1 - 1000 then 0 else ctr_confirmations response) in
      \<lparr>ctk_confirmations = confirmations, ctk_received = ctr_received response, ctk_in_pool = ctr_in_pool response\<rparr>)"

record generate_from_keys =
  gfk_address :: string
  gfk_info :: string

record refreshed =
  rf_blocks_fetched :: u32
  rf_received_money :: bool

record rpc_sweep_all =
  rsa_tx_hash_list :: "string list"

record transfer_entry =
  te_amount :: u64
  te_confirmations :: u64
  te_fee :: u64
  te_txid :: string
  te_type :: string

record get_transfer_by_txid =
  gtt_transfer :: transfer_entry

text \<open>\<open>opt_key_from_blank\<close>, the parser of \<open>tx_key\<close>.\<close>

definition opt_key_from_blank :: "(string \<Rightarrow> string + private_key) \<Rightarrow> string \<Rightarrow> string + private_key option" where
  "opt_key_from_blank parse s =
     (if s = [] then Inr None else case parse s of Inl e \<Rightarrow> Inl e | Inr k \<Rightarrow> Inr (Some k))"

section \<open>The trait\<close>

record 'w wallet_rpc =
  rpc_get_address :: "u32 \<Rightarrow> ('w, get_address) rpc"
  rpc_get_balance :: "u32 \<Rightarrow> ('w, get_balance) rpc"
  rpc_create_account :: "string \<Rightarrow> ('w, create_account) rpc"
  rpc_get_accounts :: "string \<Rightarrow> ('w, get_accounts) rpc"
  rpc_open_wallet :: "string \<Rightarrow> ('w, unit) rpc"
  rpc_close_wallet :: "('w, unit) rpc"
  rpc_create_wallet :: "string \<Rightarrow> string \<Rightarrow> ('w, unit) rpc"
  rpc_transfer :: "u32 \<Rightarrow> destination list \<Rightarrow> bool \<Rightarrow> ('w, private_key option rpc_transfer) rpc"
  rpc_get_height :: "('w, bdx_height) rpc"
  rpc_check_tx_key :: "string \<Rightarrow> string \<Rightarrow> string \<Rightarrow> ('w, check_tx_key) rpc"
  rpc_generate_from_keys ::
    "string \<Rightarrow> string \<Rightarrow> string \<Rightarrow> string \<Rightarrow> u32 \<Rightarrow> string \<Rightarrow> bool \<Rightarrow> ('w, generate_from_keys) rpc"
  rpc_refresh :: "('w, refreshed) rpc"
  rpc_sweep_all :: "string \<Rightarrow> ('w, rpc_sweep_all) rpc"
  rpc_get_version :: "('w, u32) rpc"
  rpc_get_transfer_by_txid :: "string \<Rightarrow> ('w, get_transfer_by_txid) rpc"

section \<open>The client\<close>

record rpc_response_error =
  rre_code :: int
  rre_message :: string

record 'r rpc_response =
  rr_result :: "'r option"
  rr_error :: "rpc_response_error option"

definition into_result :: "'r rpc_response \<Rightarrow> rpc_response_error + 'r" where
  "into_result response = (case (rr_result response, rr_error response) of
     (Some result, None) \<Rightarrow> Inr result
   | (None, Some e) \<Rightarrow> Inl e
   | (Some _, Some e) \<Rightarrow> Inl e
   | (None, None) \<Rightarrow>
       Inl \<lparr>rre_code = -32603,
            rre_message = ''Internal JSON-RPC error: response has neither result nor error''\<rparr>)"

text \<open>
  The connection posts a body and answers with the text of the response or an error of \<open>reqwest\<close>.
  The parsers read the text of a response with the given type of result, or say why they cannot.
\<close>

type_synonym 'r response_parser = "string \<Rightarrow> string + 'r rpc_response"

record 'w http =
  ht_post :: "json \<Rightarrow> ('w, nat + string) io"
  ht_private_key :: "string \<Rightarrow> string + private_key"
  pr_get_address :: "get_address response_parser"
  pr_get_balance :: "get_balance response_parser"
  pr_create_account :: "create_account response_parser"
  pr_get_accounts :: "get_accounts response_parser"
  pr_empty :: "unit response_parser"
  pr_transfer :: "string rpc_transfer response_parser"
  pr_get_height :: "bdx_height response_parser"
  pr_check_tx_key :: "check_tx_key_response response_parser"
  pr_generate_from_keys :: "generate_from_keys response_parser"
  pr_refresh :: "refreshed response_parser"
  pr_sweep_all :: "rpc_sweep_all response_parser"
  pr_get_version :: "u32 response_parser"
  pr_get_transfer_by_txid :: "get_transfer_by_txid response_parser"

definition send_request :: "'w http \<Rightarrow> string \<Rightarrow> json \<Rightarrow> ('w, nat + string) io" where
  "send_request H method params =
     ht_post H (JObject
       [(''jsonrpc'', JString ''2.0''), (''id'', JString ''1''), (''method'', JString method), (''params'', params)])"

definition rpc_call :: "'w http \<Rightarrow> 'r response_parser \<Rightarrow> string \<Rightarrow> json \<Rightarrow> ('w, 'r) rpc" where
  "rpc_call H parse method params =
     bindio (send_request H method params) (\<lambda>sent.
     ret (case sent of
       Inl e \<Rightarrow> Inl (ClientError e)
     | Inr text \<Rightarrow>
         (case parse text of
            Inl e \<Rightarrow> Inl (JsonRpc (-32700) (''Parse error: '' @ e))
          | Inr response \<Rightarrow>
              (case into_result response of
                 Inl e \<Rightarrow> Inl (JsonRpc (rre_code e) (rre_message e))
               | Inr result \<Rightarrow> Inr result))))"

text \<open>
  Two result types have a parser of their own: the confirmations of \<open>CheckTxKey\<close> are corrected, a
  blank \<open>tx_key\<close> of \<open>Transfer\<close> is none.
\<close>

definition map_result :: "('r \<Rightarrow> string + 's) \<Rightarrow> 'r response_parser \<Rightarrow> 's response_parser" where
  "map_result f parse = (\<lambda>text.
     case parse text of
       Inl e \<Rightarrow> Inl e
     | Inr response \<Rightarrow>
         (case rr_result response of
            None \<Rightarrow> Inr \<lparr>rr_result = None, rr_error = rr_error response\<rparr>
          | Some r \<Rightarrow>
              (case f r of
                 Inl e \<Rightarrow> Inl e
               | Inr s \<Rightarrow> Inr \<lparr>rr_result = Some s, rr_error = rr_error response\<rparr>)))"

definition transfer_with_key ::
  "(string \<Rightarrow> string + private_key) \<Rightarrow> string rpc_transfer \<Rightarrow> string + private_key option rpc_transfer" where
  "transfer_with_key parse t = (case opt_key_from_blank parse (rt_tx_key t) of
     Inl e \<Rightarrow> Inl e
   | Inr k \<Rightarrow> Inr
       \<lparr>rt_amount = rt_amount t, rt_fee = rt_fee t, rt_multisig_txset = rt_multisig_txset t,
        rt_tx_blob = rt_tx_blob t, rt_tx_hash = rt_tx_hash t, rt_tx_key = k,
        rt_tx_metadata = rt_tx_metadata t, rt_unsigned_txset = rt_unsigned_txset t\<rparr>)"

definition destination_json :: "destination \<Rightarrow> json" where
  "destination_json d = JObject [(''amount'', JInt (uint (de_amount d))), (''address'', JString (de_address d))]"

definition client :: "'w http \<Rightarrow> 'w wallet_rpc" where
  "client H =
     \<lparr>rpc_get_address = (\<lambda>account_index.
        rpc_call H (pr_get_address H) ''get_address'' (JObject [(''account_index'', JInt (uint account_index))])),
      rpc_get_balance = (\<lambda>account_index.
        rpc_call H (pr_get_balance H) ''get_balance'' (JObject [(''account_index'', JInt (uint account_index))])),
      rpc_create_account = (\<lambda>label.
        rpc_call H (pr_create_account H) ''create_account'' (JObject [(''label'', JString label)])),
      rpc_get_accounts = (\<lambda>tag.
        rpc_call H (pr_get_accounts H) ''get_accounts'' (JObject [(''tag'', JString tag)])),
      rpc_open_wallet = (\<lambda>filename.
        rpc_call H (pr_empty H) ''open_wallet'' (JObject [(''filename'', JString filename)])),
      rpc_close_wallet = rpc_call H (pr_empty H) ''close_wallet'' (JObject []),
      rpc_create_wallet = (\<lambda>filename language.
        rpc_call H (pr_empty H) ''create_wallet''
          (JObject [(''filename'', JString filename), (''language'', JString language)])),
      rpc_transfer = (\<lambda>account_index destinations get_tx_key.
        rpc_call H (map_result (transfer_with_key (ht_private_key H)) (pr_transfer H)) ''transfer''
          (JObject [(''account_index'', JInt (uint account_index)),
                    (''destinations'', JArray (map destination_json destinations)),
                    (''get_tx_key'', JBool get_tx_key)])),
      rpc_get_height = rpc_call H (pr_get_height H) ''get_height'' (JObject []),
      rpc_check_tx_key = (\<lambda>txid tx_key address.
        rpc_call H (map_result (Inr \<circ> check_tx_key_from) (pr_check_tx_key H)) ''check_tx_key''
          (JObject [(''txid'', JString txid), (''tx_key'', JString tx_key), (''address'', JString address)])),
      rpc_generate_from_keys =
        (\<lambda>filename address spendkey viewkey restore_height password autosave_current.
        rpc_call H (pr_generate_from_keys H) ''generate_from_keys''
          (JObject [(''filename'', JString filename), (''address'', JString address),
                    (''spendkey'', JString spendkey), (''viewkey'', JString viewkey),
                    (''restore_height'', JInt (uint restore_height)), (''password'', JString password),
                    (''autosave_current'', JBool autosave_current)])),
      rpc_refresh = rpc_call H (pr_refresh H) ''refresh'' (JObject []),
      rpc_sweep_all = (\<lambda>address.
        rpc_call H (pr_sweep_all H) ''sweep_all'' (JObject [(''address'', JString address)])),
      rpc_get_version = rpc_call H (pr_get_version H) ''get_version'' (JObject []),
      rpc_get_transfer_by_txid = (\<lambda>txid.
        rpc_call H (pr_get_transfer_by_txid H) ''get_transfer_by_txid'' (JObject [(''txid'', JString txid)]))\<rparr>"

definition transfer_single ::
  "'w wallet_rpc \<Rightarrow> u32 \<Rightarrow> u64 \<Rightarrow> string \<Rightarrow> ('w, private_key option rpc_transfer) io" where
  "transfer_single R account_index amount address =
     try_rpc (rpc_transfer R account_index [\<lparr>de_amount = amount, de_address = address\<rparr>] True)"

lemma try_rpc_eq_Ok [outcome_rules]: "try_rpc m w = (Ok x, w') \<longleftrightarrow> m w = (Ok (Inr x), w')"
proof
  assume "try_rpc m w = (Ok x, w')"
  then obtain r w1 where "m w = (Ok r, w1)" "(case r of Inl e \<Rightarrow> lift (Err (anyhow_of_rpc e)) | Inr x \<Rightarrow> ret x) w1 = (Ok x, w')"
    unfolding try_rpc_def bindio_eq_Ok by blast
  thus "m w = (Ok (Inr x), w')" by (cases r) auto
qed (simp add: try_rpc_def bindio_def)

lemma into_result_eq_Inr [outcome_rules]:
  "into_result r = Inr x \<longleftrightarrow> rr_result r = Some x \<and> rr_error r = None"
  by (simp add: into_result_def split: option.split)

lemma map_result_eq_Inr [outcome_rules]:
  "map_result f parse body = Inr r \<and> rr_result r = Some s \<longleftrightarrow>
     (\<exists>q x. parse body = Inr q \<and> rr_result q = Some x \<and> f x = Inr s \<and>
        r = \<lparr>rr_result = Some s, rr_error = rr_error q\<rparr>)"
  by (auto simp: map_result_def split: sum.split option.split)

lemma rpc_call_OkD:
  assumes "rpc_call H parse method params w = (Ok (Inr x), w')"
  obtains body response where "send_request H method params w = (Ok (Inr body), w')"
    "parse body = Inr response" "rr_result response = Some x" "rr_error response = None"
proof -
  obtain sent w1 where sent: "send_request H method params w = (Ok sent, w1)"
    and r: "(case sent of Inl e \<Rightarrow> Inl (ClientError e) | Inr text \<Rightarrow> (case parse text of
         Inl e \<Rightarrow> Inl (JsonRpc (-32700) (''Parse error: '' @ e))
       | Inr response \<Rightarrow> (case into_result response of
             Inl e \<Rightarrow> Inl (JsonRpc (rre_code e) (rre_message e)) | Inr result \<Rightarrow> Inr result))) = Inr x" "w1 = w'"
    using assms unfolding rpc_call_def bindio_eq_Ok ret_apply by blast
  obtain body where body: "sent = Inr body" using r(1) by (cases sent) auto
  obtain response where response: "parse body = Inr response" using r(1) body by (cases "parse body") auto
  have "into_result response = Inr x" using r(1) body response by (cases "into_result response") auto
  hence "rr_result response = Some x" "rr_error response = None" by (simp_all add: into_result_eq_Inr)
  thus thesis using that[of body response] sent r(2) body response by simp
qed

end
