(* ===== verification/Beldex_Wallet.thy ===== *)
theory Beldex_Wallet
  imports Beldex_Rpc
begin

text \<open>
  The Beldex wallet, \<open>beldex/wallet.rs\<close>: every method of \<open>Wallet\<close> and the loop
  \<open>wait_for_confirmations\<close>. The server it talks to is the argument \<open>R\<close>, an implementation of the
  trait \<open>BeldexWalletRpc\<close> over a state \<open>'w\<close>; the text forms of addresses and keys are the argument \<open>X\<close>.
  The lock around the client is not modelled: a method has the server for itself. A wait for time to
  pass (\<open>sleep\<close>, \<open>tick\<close>) has no effect.
\<close>

record bdx_text =
  bx_address_to_string :: "bdx_address \<Rightarrow> string"
  bx_address_from_str :: "string \<Rightarrow> bdx_address outcome"
  bx_private_key_to_string :: "private_key \<Rightarrow> string"

record bdx_wallet =
  bw_network :: bdx_network
  bw_name :: string
  bw_main_address :: bdx_address
  bw_sync_interval :: nat

section \<open>Opening the wallet\<close>

definition wallet_connect ::
  "bdx_text \<Rightarrow> 'w wallet_rpc \<Rightarrow> string \<Rightarrow> config \<Rightarrow> ('w, bdx_wallet) io" where
  "wallet_connect X R name env_config =
     bindio (try_rpc (rpc_get_address R 0)) (\<lambda>a.
     bindio (lift (bx_address_from_str X (ga_address a))) (\<lambda>main_address.
     ret \<lparr>bw_network = beldex_network env_config, bw_name = name, bw_main_address = main_address,
          bw_sync_interval = beldex_sync_interval env_config\<rparr>))"

definition wallet_open_or_create ::
  "bdx_text \<Rightarrow> 'w wallet_rpc \<Rightarrow> string \<Rightarrow> config \<Rightarrow> ('w, bdx_wallet) io" where
  "wallet_open_or_create X R name env_config =
     bindio (rpc_open_wallet R name) (\<lambda>opened.
     bindio (case opened of
               Inl e \<Rightarrow>
                 context_io
                   ''Unable to create Beldex wallet, please ensure that the beldex-wallet-rpc is available''
                   (try_rpc (rpc_create_wallet R name ''English''))
             | Inr _ \<Rightarrow> ret ()) (\<lambda>_.
     wallet_connect X R name env_config))"

definition wallet_re_open :: "bdx_wallet \<Rightarrow> 'w wallet_rpc \<Rightarrow> ('w, unit) io" where
  "wallet_re_open W R = try_rpc (rpc_open_wallet R (bw_name W))"

definition wallet_open :: "'w wallet_rpc \<Rightarrow> string \<Rightarrow> ('w, unit) io" where
  "wallet_open R filename = try_rpc (rpc_open_wallet R filename)"

section \<open>Synchronisation\<close>

text \<open>
  The body of \<open>for i in 1..=max_attempts\<close>, over the attempts that are left; the height is asked for
  only to be logged.
\<close>

primrec refresh_attempts :: "'w wallet_rpc \<Rightarrow> nat \<Rightarrow> nat list \<Rightarrow> ('w, refreshed) io" where
  "refresh_attempts R max_attempts [] =
     lift (Panic ''internal error: entered unreachable code: Loop should have returned by now'')"
| "refresh_attempts R max_attempts (i # is) =
     bindio (rpc_refresh R) (\<lambda>result.
     case result of
       Inr refreshed \<Rightarrow> ret refreshed
     | Inl e \<Rightarrow>
         let attempts_left = max_attempts - i in
         bindio (rpc_get_height R) (\<lambda>_.
         if attempts_left = 0 then lift (Err (anyhow_of_rpc e))
         else refresh_attempts R max_attempts is))"

definition wallet_refresh :: "'w wallet_rpc \<Rightarrow> nat \<Rightarrow> ('w, refreshed) io" where
  "wallet_refresh R max_attempts = refresh_attempts R max_attempts [1..<Suc max_attempts]"

section \<open>Wallets generated from keys\<close>

definition temp_wallet_address :: "lib \<Rightarrow> bdx_wallet \<Rightarrow> private_key \<Rightarrow> private_view_key \<Rightarrow> bdx_address" where
  "temp_wallet_address L W private_spend_key private_view_key =
     bdx_address_standard (bw_network W) (bdx_public_from_private L private_spend_key)
       (bdx_public_from_private L (pvk_key private_view_key))"

definition generate_wallet ::
  "lib \<Rightarrow> bdx_text \<Rightarrow> bdx_wallet \<Rightarrow> 'w wallet_rpc \<Rightarrow> string \<Rightarrow> private_key \<Rightarrow> private_view_key \<Rightarrow> bdx_height \<Rightarrow>
   ('w, generate_from_keys) io" where
  "generate_wallet L X W R file_name private_spend_key private_view_key restore_height =
     try_rpc (rpc_generate_from_keys R file_name
       (bx_address_to_string X (temp_wallet_address L W private_spend_key private_view_key))
       (bx_private_key_to_string X private_spend_key)
       (bx_private_key_to_string X (pvk_key private_view_key)) restore_height '''' True)"

definition create_from_and_load ::
  "lib \<Rightarrow> bdx_text \<Rightarrow> bdx_wallet \<Rightarrow> 'w wallet_rpc \<Rightarrow> string \<Rightarrow> private_key \<Rightarrow> private_view_key \<Rightarrow> bdx_height \<Rightarrow>
   ('w, unit) io" where
  "create_from_and_load L X W R file_name private_spend_key private_view_key restore_height =
     bindio (context_io ''Failed to close wallet'' (try_rpc (rpc_close_wallet R))) (\<lambda>_.
     bindio (context_io ''Failed to generate new wallet from keys''
               (generate_wallet L X W R file_name private_spend_key private_view_key restore_height)) (\<lambda>_.
     ret ()))"

text \<open>
  The transfer from the generated wallet to the wallet's own address: what goes wrong is logged.
\<close>

definition sweep_generated :: "bdx_text \<Rightarrow> bdx_wallet \<Rightarrow> 'w wallet_rpc \<Rightarrow> ('w, unit) io" where
  "sweep_generated X W R =
     bindio (attempt (wallet_refresh R 3)) (\<lambda>refreshed.
     case refreshed of
       Inr _ \<Rightarrow>
         bindio (rpc_sweep_all R (bx_address_to_string X (bw_main_address W))) (\<lambda>swept.
         case swept of Inr _ \<Rightarrow> ret () | Inl _ \<Rightarrow> ret ())
     | Inl _ \<Rightarrow> ret ())"

definition create_from ::
  "lib \<Rightarrow> bdx_text \<Rightarrow> bdx_wallet \<Rightarrow> 'w wallet_rpc \<Rightarrow> string \<Rightarrow> private_key \<Rightarrow> private_view_key \<Rightarrow> bdx_height \<Rightarrow>
   ('w, unit) io" where
  "create_from L X W R file_name private_spend_key private_view_key restore_height =
     bindio (try_rpc (rpc_close_wallet R)) (\<lambda>_.
     bindio (generate_wallet L X W R file_name private_spend_key private_view_key restore_height) (\<lambda>_.
     bindio (sweep_generated X W R) (\<lambda>_.
     try_rpc (rpc_open_wallet R (bw_name W)))))"

section \<open>Transfers\<close>

definition wallet_transfer ::
  "bdx_text \<Rightarrow> bdx_wallet \<Rightarrow> 'w wallet_rpc \<Rightarrow> transfer_request \<Rightarrow> ('w, transfer_proof) io" where
  "wallet_transfer X W R request =
     (let destination_address =
        bdx_address_standard (bw_network W) (trq_public_spend_key request)
          (pubvk_key (trq_public_view_key request)) in
      bindio (transfer_single R 0 (as_atomic (trq_amount request)) (bx_address_to_string X destination_address)) (\<lambda>res.
      bindio (lift (of_option (Msg ''Missing tx_key in `transfer` response'') (rt_tx_key res))) (\<lambda>tx_key.
      ret (transfer_proof_new (TxHash (rt_tx_hash res)) tx_key))))"

definition wallet_sweep_all :: "bdx_text \<Rightarrow> 'w wallet_rpc \<Rightarrow> bdx_address \<Rightarrow> ('w, tx_hash list) io" where
  "wallet_sweep_all X R address =
     bindio (try_rpc (rpc_sweep_all R (bx_address_to_string X address))) (\<lambda>sweep_all.
     ret (map TxHash (rsa_tx_hash_list sweep_all)))"

definition wallet_get_balance :: "'w wallet_rpc \<Rightarrow> ('w, get_balance) io" where
  "wallet_get_balance R = try_rpc (rpc_get_balance R 0)"

definition wallet_block_height :: "'w wallet_rpc \<Rightarrow> ('w, bdx_height) io" where
  "wallet_block_height R = try_rpc (rpc_get_height R)"

definition get_main_address :: "bdx_wallet \<Rightarrow> bdx_address" where
  "get_main_address W = bw_main_address W"

section \<open>Watching for a transfer\<close>

text \<open>
  One turn of the loop of \<open>wait_for_confirmations\<close> up to the answer on the transaction; \<open>None\<close> is
  \<open>continue\<close>. A transaction the wallet itself knows is not checked with its key.
\<close>

definition wait_round ::
  "bdx_text \<Rightarrow> 'w wallet_rpc \<Rightarrow> transfer_proof \<Rightarrow> bdx_address \<Rightarrow> bdx_amount \<Rightarrow> string \<Rightarrow>
   ('w, check_tx_key option) io" where
  "wait_round X R transfer_proof to_address expected wallet_name =
     (let txid = hash_string (tpf_hash transfer_proof);
          key = bx_private_key_to_string X (tpf_key transfer_proof) in
      bindio (rpc_refresh R) (\<lambda>_.
      bindio (rpc_get_transfer_by_txid R txid) (\<lambda>own.
      case own of
        Inr tx \<Rightarrow>
          ret (Some \<lparr>ctk_confirmations = te_confirmations (gtt_transfer tx),
                     ctk_received = as_atomic expected,
                     ctk_in_pool = (te_confirmations (gtt_transfer tx) = 0)\<rparr>)
      | Inl _ \<Rightarrow>
          bindio (rpc_check_tx_key R txid key (bx_address_to_string X to_address)) (\<lambda>checked.
          case checked of
            Inr proof \<Rightarrow> ret (Some proof)
          | Inl (JsonRpc code message) \<Rightarrow>
              if code = - 1 then ret None
              else if code = - 13 then bindio (rpc_open_wallet R wallet_name) (\<lambda>_. ret None)
              else ret None
          | Inl other \<Rightarrow> ret None))))"

partial_function (option) wait_for_confirmations ::
  "bdx_text \<Rightarrow> 'w wallet_rpc \<Rightarrow> transfer_proof \<Rightarrow> bdx_address \<Rightarrow> bdx_amount \<Rightarrow> u64 \<Rightarrow> string \<Rightarrow> u64 \<Rightarrow> 'w \<Rightarrow>
   (unit outcome \<times> 'w) option" where
  "wait_for_confirmations X R transfer_proof to_address expected conf_target wallet_name seen_confirmations w =
     (if seen_confirmations < conf_target
      then (case wait_round X R transfer_proof to_address expected wallet_name w of
          (Ok None, w') \<Rightarrow>
            wait_for_confirmations X R transfer_proof to_address expected conf_target wallet_name
              seen_confirmations w'
        | (Ok (Some tx), w') \<Rightarrow>
            let received = from_atomic (ctk_received tx) in
            if received \<noteq> expected
            then Some (Err (InsufficientFunds (unat (as_atomic expected)) (unat (as_atomic received))), w')
            else if seen_confirmations < ctk_confirmations tx
            then wait_for_confirmations X R transfer_proof to_address expected conf_target wallet_name
                   (ctk_confirmations tx) w'
            else wait_for_confirmations X R transfer_proof to_address expected conf_target wallet_name
                   seen_confirmations w'
        | (Err e, w') \<Rightarrow> Some (Err e, w')
        | (Panic p, w') \<Rightarrow> Some (Panic p, w')
        | (Pending, w') \<Rightarrow> Some (Pending, w'))
      else Some (Ok (), w))"

text \<open>\<open>None\<close>: the transfer is watched for ever.\<close>

definition wallet_watch_for_transfer ::
  "bdx_text \<Rightarrow> bdx_wallet \<Rightarrow> 'w wallet_rpc \<Rightarrow> watch_request \<Rightarrow> 'w \<Rightarrow> (unit outcome \<times> 'w) option" where
  "wallet_watch_for_transfer X W R request =
     (let address = bdx_address_standard (bw_network W) (wrq_public_spend_key request)
            (pubvk_key (wrq_public_view_key request)) in
      wait_for_confirmations X R (wrq_transfer_proof request) address (wrq_expected request)
        (wrq_conf_target request) (bw_name W) 0)"

end
