(* ===== verification/Polling.thy ===== *)
theory Polling
  imports Prelude
begin

text \<open>
  Loops that poll something outside the program until it answers: the contract between such a loop
  and its body, and when a loop of this kind returns.
\<close>

primrec iterate :: "('s \<Rightarrow> 's + 'r) \<Rightarrow> nat \<Rightarrow> 's \<Rightarrow> 's + 'r" where
  "iterate step 0 s = Inl s"
| "iterate step (Suc n) s = (case step s of Inl s' \<Rightarrow> iterate step n s' | Inr r \<Rightarrow> Inr r)"

lemma iterate_Suc_end: "iterate step n s = Inl s' \<Longrightarrow> iterate step (Suc n) s = step s'"
proof (induction n arbitrary: s)
  case (Suc n)
  then obtain s1 where "step s = Inl s1" "iterate step n s1 = Inl s'" by (auto split: sum.splits)
  thus ?case using Suc.IH[of s1] by simp
qed (simp split: sum.splits)

lemma iterate_stays: "iterate step n s = Inr r \<Longrightarrow> n \<le> m \<Longrightarrow> iterate step m s = Inr r"
proof (induction n arbitrary: s m)
  case (Suc n)
  then obtain k where "m = Suc k" "n \<le> k" by (cases m) auto
  thus ?case using Suc by (auto split: sum.splits)
qed simp

text \<open>
  \<open>run\<close> is the least function with the loop's equation: what holds of the last turn and is passed
  back by every other turn holds of each run that returns.
\<close>

locale polling =
  fixes step :: "'s \<Rightarrow> 's + 'r" and run :: "'s \<Rightarrow> 'r option"
  assumes unfold: "run s = (case step s of Inl s' \<Rightarrow> run s' | Inr r \<Rightarrow> Some r)"
    and run_induct: "(\<And>s s' r. step s = Inl s' \<Longrightarrow> Q s' r \<Longrightarrow> Q s r) \<Longrightarrow>
      (\<And>s r. step s = Inr r \<Longrightarrow> Q s r) \<Longrightarrow> run s = Some r \<Longrightarrow> Q s r"
begin

lemma run_iterate: "iterate step n s = Inr r \<Longrightarrow> run s = Some r"
proof (induction n arbitrary: s)
  case (Suc n)
  thus ?case using unfold[of s] by (cases "step s") auto
qed simp

lemma run_returns: "run s = Some r \<longleftrightarrow> (\<exists>n. iterate step n s = Inr r)"
proof
  show "run s = Some r \<Longrightarrow> \<exists>n. iterate step n s = Inr r"
  proof (rule run_induct[where Q = "\<lambda>s r. \<exists>n. iterate step n s = Inr r"])
    fix s s' r assume "step s = Inl s'" "\<exists>n. iterate step n s' = Inr r"
    then obtain n where "iterate step (Suc n) s = Inr r" by auto
    thus "\<exists>n. iterate step n s = Inr r" ..
  next
    fix s r assume "step s = Inr r"
    hence "iterate step 1 s = Inr r" by simp
    thus "\<exists>n. iterate step n s = Inr r" ..
  qed
qed (auto intro: run_iterate)

lemma run_diverges: "run s = None \<longleftrightarrow> (\<forall>n. \<exists>s'. iterate step n s = Inl s')"
proof (cases "run s")
  case None
  have "iterate step n s \<noteq> Inr r" for n r using run_iterate[of n s r] None by auto
  hence "\<exists>s'. iterate step n s = Inl s'" for n by (cases "iterate step n s") auto
  thus ?thesis using None by simp
next
  case (Some r)
  then obtain n where "iterate step n s = Inr r" using run_returns by blast
  hence "\<not> (\<forall>n. \<exists>s'. iterate step n s = Inl s')" by (metis Inl_Inr_False)
  thus ?thesis using Some by simp
qed

end

end
