(* ===== verification/Beldex_Wallet_Properties.thy ===== *)
theory Beldex_Wallet_Properties
  imports Beldex_Wallet Polling Alice_Swap Sample_World
begin

text \<open>
  What the Beldex wallet promises: when watching for a transfer ends and how, what it does not check,
  the attempts of a synchronisation, and what a swap may conclude from the wallet's \<open>Ok\<close>. The loop of
  \<open>wait_for_confirmations\<close> is an instance of the locale \<open>polling\<close>.
\<close>

section \<open>Watching as polling\<close>

definition wait_step ::
  "bdx_text \<Rightarrow> 'w wallet_rpc \<Rightarrow> transfer_proof \<Rightarrow> bdx_address \<Rightarrow> bdx_amount \<Rightarrow> u64 \<Rightarrow> string \<Rightarrow>
   u64 \<times> 'w \<Rightarrow> u64 \<times> 'w + unit outcome \<times> 'w" where
  "wait_step X R p a e c name = (\<lambda>(seen, w).
     if seen < c
     then (case wait_round X R p a e name w of
         (Ok None, w') \<Rightarrow> Inl (seen, w')
       | (Ok (Some tx), w') \<Rightarrow>
           if from_atomic (ctk_received tx) \<noteq> e
           then Inr (Err (InsufficientFunds (unat (as_atomic e)) (unat (ctk_received tx))), w')
           else Inl (if seen < ctk_confirmations tx then ctk_confirmations tx else seen, w')
       | (Err x, w') \<Rightarrow> Inr (Err x, w')
       | (Panic x, w') \<Rightarrow> Inr (Panic x, w')
       | (Pending, w') \<Rightarrow> Inr (Pending, w'))
     else Inr (Ok (), w))"

lemma wait_for_confirmations_step:
  "wait_for_confirmations X R p a e c name seen w =
     (case wait_step X R p a e c name (seen, w) of
        Inl s \<Rightarrow> wait_for_confirmations X R p a e c name (fst s) (snd s) | Inr r \<Rightarrow> Some r)"
  by (subst wait_for_confirmations.simps)
    (simp add: wait_step_def Let_def from_atomic_def split: prod.split outcome.split option.split)

interpretation watching: polling "wait_step X R p a e c name"
    "\<lambda>s. wait_for_confirmations X R p a e c name (fst s) (snd s)" for X R p a e c name
proof (unfold_locales, goal_cases)
  case (1 s)
  show ?case
    using wait_for_confirmations_step[of X R p a e c name "fst s" "snd s"] by (simp add: split_def)
next
  case (2 Q s r)
  have ends: "wait_for_confirmations X R p a e c name (fst s) (snd s) = Some r" by (rule 2(3))
  have "X = X \<and> R = R \<and> p = p \<and> a = a \<and> e = e \<and> c = c \<and> name = name \<longrightarrow> Q (fst s, snd s) r"
  proof (rule wait_for_confirmations.raw_induct[where
        P = "\<lambda>X' R' p' a' e' c' name' seen w r.
          X' = X \<and> R' = R \<and> p' = p \<and> a' = a \<and> e' = e \<and> c' = c \<and> name' = name \<longrightarrow> Q (seen, w) r", OF _ ends], goal_cases)
    case (1 run X' R' p' a' e' c' name' seen w r)
    show ?case
    proof
      assume eq: "X' = X \<and> R' = R \<and> p' = p \<and> a' = a \<and> e' = e \<and> c' = c \<and> name' = name"
      show "Q (seen, w) r"
      proof (cases "wait_step X R p a e c name (seen, w)")
        case (Inr x)
        hence "r = x" using 1(2) eq
          by (auto simp: wait_step_def Let_def from_atomic_def split: prod.splits outcome.splits option.splits if_splits)
        thus ?thesis using 2(2)[of "(seen, w)" r] Inr by simp
      next
        case (Inl s')
        hence "run X R p a e c name (fst s') (snd s') = Some r" using 1(2) eq
          by (auto simp: wait_step_def Let_def from_atomic_def
              split: prod.splits outcome.splits option.splits if_splits)
        hence "Q s' r" using 1(1)[of X R p a e c name "fst s'" "snd s'" r] by simp
        thus ?thesis using 2(1)[OF Inl] by blast
      qed
    qed
  qed
  thus ?case by simp
qed

section \<open>When watching ends\<close>

text \<open>The server's answers to the turns of the loop, as long as it goes on, and the state after them.\<close>

definition watch_round ::
  "bdx_text \<Rightarrow> bdx_wallet \<Rightarrow> 'w wallet_rpc \<Rightarrow> watch_request \<Rightarrow> ('w, check_tx_key option) io" where
  "watch_round X W R rq = wait_round X R (wrq_transfer_proof rq)
     (bdx_address_standard (bw_network W) (wrq_public_spend_key rq) (pubvk_key (wrq_public_view_key rq)))
     (wrq_expected rq) (bw_name W)"

definition watch_state ::
  "bdx_text \<Rightarrow> bdx_wallet \<Rightarrow> 'w wallet_rpc \<Rightarrow> watch_request \<Rightarrow> nat \<Rightarrow> 'w \<Rightarrow> 'w" where
  "watch_state X W R rq n = (\<lambda>w. snd (watch_round X W R rq w)) ^^ n"

definition watch_answer ::
  "bdx_text \<Rightarrow> bdx_wallet \<Rightarrow> 'w wallet_rpc \<Rightarrow> watch_request \<Rightarrow> 'w \<Rightarrow> nat \<Rightarrow> check_tx_key option outcome" where
  "watch_answer X W R rq w n = fst (watch_round X W R rq (watch_state X W R rq n w))"

text \<open>An answer after which the loop goes on, and what it returns after any other.\<close>

definition undecided :: "watch_request \<Rightarrow> check_tx_key option outcome \<Rightarrow> bool" where
  "undecided rq r = (case r of
     Ok None \<Rightarrow> True
   | Ok (Some tx) \<Rightarrow> from_atomic (ctk_received tx) = wrq_expected rq \<and> ctk_confirmations tx < wrq_conf_target rq
   | _ \<Rightarrow> False)"

definition verdict :: "watch_request \<Rightarrow> check_tx_key option outcome \<Rightarrow> unit outcome" where
  "verdict rq r = obind r (\<lambda>tx. case tx of
     None \<Rightarrow> Ok ()
   | Some tx \<Rightarrow> ensure (from_atomic (ctk_received tx) = wrq_expected rq)
       (InsufficientFunds (unat (as_atomic (wrq_expected rq))) (unat (ctk_received tx))))"

abbreviation watch_step ::
  "bdx_text \<Rightarrow> bdx_wallet \<Rightarrow> 'w wallet_rpc \<Rightarrow> watch_request \<Rightarrow> u64 \<times> 'w \<Rightarrow> u64 \<times> 'w + unit outcome \<times> 'w" where
  "watch_step X W R rq \<equiv> wait_step X R (wrq_transfer_proof rq)
     (bdx_address_standard (bw_network W) (wrq_public_spend_key rq) (pubvk_key (wrq_public_view_key rq)))
     (wrq_expected rq) (wrq_conf_target rq) (bw_name W)"

lemma watch_state_Suc:
  "watch_round X W R rq (watch_state X W R rq n w) = (watch_answer X W R rq w n, watch_state X W R rq (Suc n) w)"
  by (simp add: watch_answer_def watch_state_def)

lemma undecided_step:
  assumes "undecided rq r" "watch_round X W R rq w = (r, w')" "seen < wrq_conf_target rq"
  shows "\<exists>s. watch_step X W R rq (seen, w) = Inl (s, w') \<and> s < wrq_conf_target rq"
  using assms by (auto simp: wait_step_def watch_round_def undecided_def split: outcome.splits option.splits)

lemma decided_step:
  assumes "\<not> undecided rq r" "watch_round X W R rq w = (r, w')" "seen < wrq_conf_target rq"
  shows "watch_step X W R rq (seen, w) = Inr (verdict rq r, w') \<or>
    (\<exists>s. watch_step X W R rq (seen, w) = Inl (s, w') \<and> wrq_conf_target rq \<le> s \<and> verdict rq r = Ok ())"
  using assms by (auto simp: wait_step_def watch_round_def undecided_def verdict_def not_less
      split: outcome.splits option.splits)

lemma finished_step: "wrq_conf_target rq \<le> s \<Longrightarrow> watch_step X W R rq (s, w) = Inr (Ok (), w)"
  by (drule leD) (simp add: wait_step_def)

lemma undecided_rounds:
  assumes "\<forall>m<n. undecided rq (watch_answer X W R rq w m)" "0 < wrq_conf_target rq"
  shows "\<exists>s. iterate (watch_step X W R rq) n (0, w) = Inl (s, watch_state X W R rq n w) \<and> s < wrq_conf_target rq"
  using assms(1)
proof (induction n)
  case 0
  thus ?case using assms(2) by (simp add: watch_state_def)
next
  case (Suc n)
  then obtain s where s: "iterate (watch_step X W R rq) n (0, w) = Inl (s, watch_state X W R rq n w)"
    "s < wrq_conf_target rq" by auto
  have "undecided rq (watch_answer X W R rq w n)" using Suc.prems by simp
  from undecided_step[OF this watch_state_Suc s(2)] show ?case
    using iterate_Suc_end[OF s(1)] by simp
qed

lemma watch_verdict:
  assumes "\<forall>m<n. undecided rq (watch_answer X W R rq w m)" "\<not> undecided rq (watch_answer X W R rq w n)"
    "0 < wrq_conf_target rq"
  shows "wallet_watch_for_transfer X W R rq w =
    Some (verdict rq (watch_answer X W R rq w n), watch_state X W R rq (Suc n) w)"
proof -
  let ?r = "(verdict rq (watch_answer X W R rq w n), watch_state X W R rq (Suc n) w)"
  obtain s where s: "iterate (watch_step X W R rq) n (0, w) = Inl (s, watch_state X W R rq n w)"
    "s < wrq_conf_target rq" using undecided_rounds[OF assms(1,3)] by blast
  from decided_step[OF assms(2) watch_state_Suc s(2)]
  have "\<exists>k. iterate (watch_step X W R rq) k (0, w) = Inr ?r"
  proof
    assume "watch_step X W R rq (s, watch_state X W R rq n w) = Inr ?r"
    hence "iterate (watch_step X W R rq) (Suc n) (0, w) = Inr ?r" using iterate_Suc_end[OF s(1)] by simp
    thus ?thesis ..
  next
    assume "\<exists>s'. watch_step X W R rq (s, watch_state X W R rq n w) = Inl (s', watch_state X W R rq (Suc n) w) \<and>
      wrq_conf_target rq \<le> s' \<and> verdict rq (watch_answer X W R rq w n) = Ok ()"
    then obtain s' where s': "iterate (watch_step X W R rq) (Suc n) (0, w) = Inl (s', watch_state X W R rq (Suc n) w)"
      "wrq_conf_target rq \<le> s'" "verdict rq (watch_answer X W R rq w n) = Ok ()"
      using iterate_Suc_end[OF s(1)] by auto
    hence "iterate (watch_step X W R rq) (Suc (Suc n)) (0, w) = Inr ?r"
      using iterate_Suc_end[OF s'(1)] finished_step[OF s'(2)] by (simp del: iterate.simps)
    thus ?thesis ..
  qed
  thus ?thesis
    unfolding wallet_watch_for_transfer_def Let_def
    using watching.run_returns[of X R _ _ _ _ _ "(0, w)" ?r] by simp
qed

lemma watch_for_ever:
  assumes "\<forall>n. undecided rq (watch_answer X W R rq w n)" "0 < wrq_conf_target rq"
  shows "wallet_watch_for_transfer X W R rq w = None"
proof -
  have "\<exists>s'. iterate (watch_step X W R rq) n (0, w) = Inl s'" for n
    using undecided_rounds[OF _ assms(2), of n X W R w] assms(1) by blast
  thus ?thesis unfolding wallet_watch_for_transfer_def Let_def
    using watching.run_diverges[of X R _ _ _ _ _ "(0, w)"] by simp
qed

text \<open>
  C26: a call of \<open>watch_for_transfer\<close> returns at the first turn of its loop whose answer is a transfer
  of another amount, one with enough confirmations, or no answer at all, and says so; as long as the
  server reports an error, or the expected amount with too few confirmations, it goes on, if need be
  for ever. With a target of no confirmations it returns at once.
\<close>

theorem watch_for_transfer_returns:
  "wallet_watch_for_transfer X W R rq w =
     (if wrq_conf_target rq = 0 then Some (Ok (), w)
      else if \<forall>n. undecided rq (watch_answer X W R rq w n) then None
      else let n = (LEAST n. \<not> undecided rq (watch_answer X W R rq w n)) in
        Some (verdict rq (watch_answer X W R rq w n), watch_state X W R rq (Suc n) w))"
proof (cases "wrq_conf_target rq = 0 \<or> (\<forall>n. undecided rq (watch_answer X W R rq w n))")
  case True
  show ?thesis
  proof (cases "wrq_conf_target rq = 0")
    case False
    hence "0 < wrq_conf_target rq" by (simp add: word_neq_0_conv)
    thus ?thesis using True False watch_for_ever by auto
  qed (simp add: wallet_watch_for_transfer_def wait_for_confirmations.simps)
next
  case False
  let ?n = "LEAST n. \<not> undecided rq (watch_answer X W R rq w n)"
  from False obtain k where "\<not> undecided rq (watch_answer X W R rq w k)" by blast
  hence "\<not> undecided rq (watch_answer X W R rq w ?n)" by (rule LeastI)
  moreover have "\<forall>m<?n. undecided rq (watch_answer X W R rq w m)" using not_less_Least by blast
  moreover have "0 < wrq_conf_target rq" using False by (simp add: word_neq_0_conv)
  ultimately have "wallet_watch_for_transfer X W R rq w =
    Some (verdict rq (watch_answer X W R rq w ?n), watch_state X W R rq (Suc ?n) w)"
    by (intro watch_verdict)
  thus ?thesis using False unfolding Let_def by simp
qed

section \<open>What is not checked\<close>

text \<open>A server for the witnesses: every call fails, except those the witnesses replace.\<close>

definition refusing_rpc :: "'w wallet_rpc" where
  "refusing_rpc =
     (\<lparr>rpc_get_address = (\<lambda>i. ret (Inl (ClientError 1))), rpc_get_balance = (\<lambda>i. ret (Inl (ClientError 1))),
       rpc_create_account = (\<lambda>l. ret (Inl (ClientError 1))), rpc_get_accounts = (\<lambda>t. ret (Inl (ClientError 1))),
       rpc_open_wallet = (\<lambda>f. ret (Inr ())), rpc_close_wallet = ret (Inr ()),
       rpc_create_wallet = (\<lambda>f l. ret (Inr ())), rpc_transfer = (\<lambda>i d k. ret (Inl (ClientError 1))),
       rpc_get_height = ret (Inl (ClientError 1)),
       rpc_check_tx_key = (\<lambda>t k a. ret (Inr \<lparr>ctk_confirmations = 20, ctk_received = 0, ctk_in_pool = False\<rparr>)),
       rpc_generate_from_keys = (\<lambda>f a s v h p b. ret (Inr \<lparr>gfk_address = a, gfk_info = []\<rparr>)),
       rpc_refresh = ret (Inl (ClientError 1)), rpc_sweep_all = (\<lambda>a. ret (Inl (ClientError 1))),
       rpc_get_version = ret (Inl (ClientError 1)),
       rpc_get_transfer_by_txid = (\<lambda>t. ret (Inl (JsonRpc (-8) ''not found'')))\<rparr>)"

definition sample_text :: bdx_text where
  "sample_text = \<lparr>bx_address_to_string = (\<lambda>a. []), bx_address_from_str = (\<lambda>s. Err (External 2)),
     bx_private_key_to_string = (\<lambda>k. [])\<rparr>"

definition sample_wallet :: bdx_wallet where
  "sample_wallet = \<lparr>bw_network = BdxMainnet, bw_name = ''w'',
     bw_main_address = bdx_address_standard BdxMainnet (BdxPublicKey 1) (BdxPublicKey 2), bw_sync_interval = 1\<rparr>"

text \<open>
  C27: a transaction the wallet already lists among its own transfers counts as the watched transfer:
  with enough confirmations \<open>watch_for_transfer\<close> returns \<open>Ok\<close>, whatever amount it moved, and whatever
  \<open>check_tx_key\<close> (the arbitrary \<open>check\<close>) would say of it, the key and the shared address.
\<close>

theorem watch_trusts_own_transfer:
  assumes "rpc_refresh R w = (Ok refreshed, w1)"
    and "rpc_get_transfer_by_txid R (hash_string (tpf_hash (wrq_transfer_proof rq))) w1 = (Ok (Inr t), w2)"
    and "0 < wrq_conf_target rq" and "wrq_conf_target rq \<le> te_confirmations (gtt_transfer t)"
  shows "wallet_watch_for_transfer X W (R\<lparr>rpc_check_tx_key := check\<rparr>) rq w = Some (Ok (), w2)"
proof -
  let ?R = "R\<lparr>rpc_check_tx_key := check\<rparr>"
  let ?tx = "\<lparr>ctk_confirmations = te_confirmations (gtt_transfer t), ctk_received = as_atomic (wrq_expected rq),
    ctk_in_pool = (te_confirmations (gtt_transfer t) = 0)\<rparr>"
  have round: "watch_round X W ?R rq w = (Ok (Some ?tx), w2)"
    using assms(1,2) by (simp add: watch_round_def wait_round_def bindio_def Let_def)
  hence answer: "watch_answer X W ?R rq w 0 = Ok (Some ?tx)" and after: "watch_state X W ?R rq 1 w = w2"
    by (simp_all add: watch_answer_def watch_state_def)
  have "\<not> undecided rq (Ok (Some ?tx))" using assms(4) by (simp add: undecided_def leD)
  moreover have "verdict rq (Ok (Some ?tx)) = Ok ()" by (simp add: verdict_def from_atomic_def)
  ultimately show ?thesis using watch_verdict[of 0 rq X W ?R w] assms(3) answer after by simp
qed

text \<open>A server that lists a transfer of one atomic unit, and knows that nothing came to the shared address.\<close>

definition dust_rpc :: "unit wallet_rpc" where
  "dust_rpc = refusing_rpc\<lparr>rpc_get_transfer_by_txid := (\<lambda>t. ret (Inr \<lparr>gtt_transfer =
     \<lparr>te_amount = 1, te_confirmations = 30, te_fee = 0, te_txid = t, te_type = ''in''\<rparr>\<rparr>))\<rparr>"

definition sample_watch :: watch_request where
  "sample_watch = \<lparr>wrq_public_spend_key = BdxPublicKey 7, wrq_public_view_key = PublicViewKey (BdxPublicKey 11),
     wrq_transfer_proof = transfer_proof_new (TxHash ''t'') (PrivateKey 9), wrq_conf_target = 10,
     wrq_expected = BdxAmount 70000\<rparr>"

theorem watch_trusts_own_transfer_witness:
  "wallet_watch_for_transfer sample_text sample_wallet
     (dust_rpc\<lparr>rpc_check_tx_key := (\<lambda>t k a. ret (Inr \<lparr>ctk_confirmations = 30, ctk_received = 0, ctk_in_pool = False\<rparr>))\<rparr>)
     sample_watch () = Some (Ok (), ())"
  by (rule watch_trusts_own_transfer)
    (simp add: dust_rpc_def refusing_rpc_def sample_watch_def Let_def)+

text \<open>
  of the server's \<open>check_tx_key\<close> the client never reports more than \<open>u64::MAX - 1000\<close>
  confirmations, and passes on smaller numbers and the amount unchanged: a count that wrapped below
  zero is no confirmation.
\<close>

theorem client_confirmations_bounded:
  assumes "rpc_check_tx_key (client H) txid key address w = (Ok (Inr p), w')"
  shows "unat (ctk_confirmations p) \<le> 2 ^ 64 - 1 - 1000 \<and>
    (\<exists>body r. pr_check_tx_key H body = Inr \<lparr>rr_result = Some r, rr_error = None\<rparr> \<and>
       ctk_received p = ctr_received r \<and>
       (unat (ctr_confirmations r) \<le> 2 ^ 64 - 1 - 1000 \<longrightarrow> ctk_confirmations p = ctr_confirmations r) \<and>
       (2 ^ 64 - 1 - 1000 < unat (ctr_confirmations r) \<longrightarrow> ctk_confirmations p = 0))"
proof -
  have "rpc_call H (map_result (Inr \<circ> check_tx_key_from) (pr_check_tx_key H)) ''check_tx_key''
      (JObject [(''txid'', JString txid), (''tx_key'', JString key), (''address'', JString address)]) w = (Ok (Inr p), w')"
    using assms by (simp add: client_def)
  then obtain body response' where "map_result (Inr \<circ> check_tx_key_from) (pr_check_tx_key H) body = Inr response'"
    "rr_result response' = Some p" "rr_error response' = None" by (rule rpc_call_OkD)
  then obtain response r where r: "pr_check_tx_key H body = Inr response" "rr_result response = Some r"
    "rr_error response = None" "p = check_tx_key_from r"
    using map_result_eq_Inr[of "Inr \<circ> check_tx_key_from" "pr_check_tx_key H" body response' p] by auto
  have bound: "(ctr_confirmations r > - 1 - 1000) \<longleftrightarrow> 2 ^ 64 - 1 - 1000 < unat (ctr_confirmations r)"
    by (simp add: word_less_nat_alt)
  have "response = \<lparr>rr_result = Some r, rr_error = None\<rparr>" using r(2,3) by (cases response) simp
  hence body: "pr_check_tx_key H body = Inr \<lparr>rr_result = Some r, rr_error = None\<rparr>" using r(1) by simp
  have "ctk_received p = ctr_received r \<and>
      (unat (ctr_confirmations r) \<le> 2 ^ 64 - 1 - 1000 \<longrightarrow> ctk_confirmations p = ctr_confirmations r) \<and>
      (2 ^ 64 - 1 - 1000 < unat (ctr_confirmations r) \<longrightarrow> ctk_confirmations p = 0)"
    using r(4) bound by (auto simp: check_tx_key_from_def Let_def)
  moreover from this have "unat (ctk_confirmations p) \<le> 2 ^ 64 - 1 - 1000"
    by (cases "unat (ctr_confirmations r) \<le> 2 ^ 64 - 1 - 1000") auto
  ultimately show ?thesis using body by blast
qed

text \<open>A server that answers \<open>check_tx_key\<close> with the number of confirmations -1.\<close>

definition wrapping_http :: "unit http" where
  "wrapping_http =
     (\<lparr>ht_post = (\<lambda>j. ret (Inr [])), ht_private_key = (\<lambda>s. Inl []), pr_get_address = (\<lambda>s. Inl []),
       pr_get_balance = (\<lambda>s. Inl []), pr_create_account = (\<lambda>s. Inl []), pr_get_accounts = (\<lambda>s. Inl []),
       pr_empty = (\<lambda>s. Inl []), pr_transfer = (\<lambda>s. Inl []), pr_get_height = (\<lambda>s. Inl []),
       pr_check_tx_key = (\<lambda>s. Inr \<lparr>rr_result = Some
          \<lparr>ctr_confirmations = - 1, ctr_received = 5, ctr_in_pool = True\<rparr>, rr_error = None\<rparr>),
       pr_generate_from_keys = (\<lambda>s. Inl []), pr_refresh = (\<lambda>s. Inl []), pr_sweep_all = (\<lambda>s. Inl []),
       pr_get_version = (\<lambda>s. Inl []), pr_get_transfer_by_txid = (\<lambda>s. Inl [])\<rparr>)"

theorem client_confirmations_bounded_witness:
  "unat (ctk_confirmations \<lparr>ctk_confirmations = 0, ctk_received = 5, ctk_in_pool = True\<rparr>) \<le> 2 ^ 64 - 1 - 1000 \<and>
    (\<exists>body r. pr_check_tx_key wrapping_http body = Inr \<lparr>rr_result = Some r, rr_error = None\<rparr> \<and>
       (5::u64) = ctr_received r \<and> 2 ^ 64 - 1 - 1000 < unat (ctr_confirmations r))"
proof -
  have "rpc_check_tx_key (client wrapping_http) [] [] [] () =
    (Ok (Inr \<lparr>ctk_confirmations = 0, ctk_received = 5, ctk_in_pool = True\<rparr>), ())"
    by (simp add: client_def wrapping_http_def Let_def rpc_call_def send_request_def bindio_def map_result_def
        into_result_def check_tx_key_from_def)
  from client_confirmations_bounded[OF this] show ?thesis
    by (simp add: wrapping_http_def Let_def)
qed

section \<open>The wallet under a swap\<close>

text \<open>
  An environment of a swap whose calls to the Beldex wallet run the model of the wallet. The swap
  watches for transfers through futures, whose polls stay with the environment.
\<close>

definition with_wallet :: "bdx_text \<Rightarrow> bdx_wallet \<Rightarrow> 'v wallet_rpc \<Rightarrow> 'v env \<Rightarrow> 'v env" where
  "with_wallet X W R E = E
     \<lparr>e_block_height := wallet_block_height R,
      e_transfer := wallet_transfer X W R,
      e_create_from := create_from (e_lib E) X W R,
      e_create_from_and_load := create_from_and_load (e_lib E) X W R,
      e_open_wallet := wallet_open R,
      e_refresh := (\<lambda>n. bindio (wallet_refresh R n) (\<lambda>_. ret ())),
      e_sweep_all := wallet_sweep_all X R\<rparr>"

lemma refresh_attempts_fail:
  assumes "\<And>v. \<exists>e v'. rpc_refresh R v = (Ok (Inl e), v')" "\<And>v. \<exists>h v'. rpc_get_height R v = (Ok h, v')"
  shows "is \<noteq> [] \<Longrightarrow> last is = n \<Longrightarrow> \<exists>e w'. refresh_attempts R n is w = (Err e, w')"
proof (induction "is" arbitrary: w)
  case (Cons i "is")
  obtain e v where e: "rpc_refresh R w = (Ok (Inl e), v)" using assms(1) by blast
  obtain h v' where h: "rpc_get_height R v = (Ok h, v')" using assms(2) by blast
  show ?case
  proof (cases "n - i = 0")
    case True
    thus ?thesis using e h by (simp add: bindio_def Let_def)
  next
    case False
    hence "is \<noteq> []" "last is = n" using Cons.prems by (auto split: if_splits)
    from Cons.IH[OF this, of v'] show ?thesis using e h False by (simp add: bindio_def Let_def)
  qed
qed simp

lemma wallet_refresh_fails:
  assumes "\<And>v. \<exists>e v'. rpc_refresh R v = (Ok (Inl e), v')" "\<And>v. \<exists>h v'. rpc_get_height R v = (Ok h, v')"
  shows "0 < n \<Longrightarrow> \<exists>e w'. wallet_refresh R n w = (Err e, w')"
  unfolding wallet_refresh_def using refresh_attempts_fail[OF assms, of "[1..<Suc n]" n w] by simp

lemma create_from_unsynced:
  assumes "rpc_close_wallet R w = (Ok (Inr ()), w1)" "generate_wallet L X W R f k v h w1 = (Ok g, w2)"
    "\<And>v. \<exists>e v'. rpc_refresh R v = (Ok (Inl e), v')" "\<And>v. \<exists>h v'. rpc_get_height R v = (Ok h, v')"
    "\<And>v. \<exists>v'. rpc_open_wallet R (bw_name W) v = (Ok (Inr ()), v')"
  shows "\<exists>w'. create_from L X W R f k v h w = (Ok (), w')"
proof -
  obtain e w3 where "wallet_refresh R 3 w2 = (Err e, w3)" using wallet_refresh_fails[OF assms(3,4), of 3 w2] by auto
  moreover obtain w4 where "rpc_open_wallet R (bw_name W) w3 = (Ok (Inr ()), w4)" using assms(5) by blast
  ultimately show ?thesis using assms(1,2)
    by (simp add: create_from_def sweep_generated_def try_rpc_def bindio_def attempt_def)
qed

lemma sweep_unused [simp]:
  "wallet_refresh (R\<lparr>rpc_sweep_all := sweep\<rparr>) n = wallet_refresh R n"
  "generate_wallet L X W (R\<lparr>rpc_sweep_all := sweep\<rparr>) f k v h = generate_wallet L X W R f k v h"
proof -
  have "refresh_attempts (R\<lparr>rpc_sweep_all := sweep\<rparr>) n is = refresh_attempts R n is" for "is"
    by (induction "is") (simp_all add: Let_def cong: sum.case_cong if_cong)
  thus "wallet_refresh (R\<lparr>rpc_sweep_all := sweep\<rparr>) n = wallet_refresh R n" by (simp add: wallet_refresh_def)
qed (simp add: generate_wallet_def)

text \<open>
  Alice's swap ends in \<open>BeldexRefunded\<close> although nothing came back to her wallet: when the wallet
  generated from the keys cannot be synchronised, \<open>create_from\<close> skips the transfer to her own address,
  whatever it would do (the arbitrary \<open>sweep\<close>), and returns \<open>Ok\<close>.
\<close>

theorem alice_refunded_without_sweep:
  assumes "alice_lock_bdx_watch_request (e_lib E) st proof 10 = Ok req"
    and "await_io (with_wallet X W (R\<lparr>rpc_sweep_all := sweep\<rparr>) E) [CWatchForTransfer req]
           (watch_for_transfer req) w = (Ok u, w1)"
    and "rpc_close_wallet R (w_ext w1) = (Ok (Inr ()), v1)"
    and "generate_wallet (e_lib E) X W R (e_uuid_to_string E i) k (a3_v st) h v1 = (Ok g, v2)"
    and "\<And>v. \<exists>e v'. rpc_refresh R v = (Ok (Inl e), v')" and "\<And>v. \<exists>r v'. rpc_get_height R v = (Ok r, v')"
    and "\<And>v. \<exists>v'. rpc_open_wallet R (bw_name W) v = (Ok (Inr ()), v')"
  shows "\<exists>w'. alice_next_state (with_wallet X W (R\<lparr>rpc_sweep_all := sweep\<rparr>) E) i (ABtcRefunded h proof k st) w =
    (Ok ABeldexRefunded, w')"
proof -
  let ?R = "R\<lparr>rpc_sweep_all := sweep\<rparr>"
  have "\<exists>v'. create_from (e_lib E) X W ?R (e_uuid_to_string E i) k (a3_v st) h (w_ext w1) = (Ok (), v')"
    by (rule create_from_unsynced[where R = "?R", simplified, OF assms(3,4,5,6,7)])
  then obtain v3 where "create_from (e_lib E) X W ?R (e_uuid_to_string E i) k (a3_v st) h (w_ext w1) = (Ok (), v3)" ..
  thus ?thesis using assms(1,2)
    by (simp add: alice_next_state_def alice_btc_refunded_def alice_refund_bdx_def bindio_def perform_def with_wallet_def)
qed

text \<open>Over the refusing server, with the lock transaction confirmed: Alice's sample swap ends as refunded.\<close>

theorem alice_refunded_without_sweep_witness:
  "\<exists>w'. alice_next_state (with_wallet sample_text sample_wallet
      (refusing_rpc\<lparr>rpc_sweep_all := (\<lambda>a. ret (Inl (ClientError 2)))\<rparr>) live_env) 7
      (ABtcRefunded 40 (transfer_proof_new (TxHash ''t'') (PrivateKey 9)) (PrivateKey 3) sample_alice3) start_world =
    (Ok ABeldexRefunded, w')"
proof -
  let ?proof = "transfer_proof_new (TxHash ''t'') (PrivateKey 9)"
  have lib: "e_lib live_env = sample_lib" by simp
  obtain req where req: "alice_lock_bdx_watch_request (e_lib live_env) sample_alice3 ?proof 10 = Ok req"
    by (auto simp: alice_lock_bdx_watch_request_def alice_public_spend_key_def bdx_public_key_add_def
        bdx_public_from_private_def bdx_point_of_def)
  obtain w1 where await: "await_io (with_wallet sample_text sample_wallet
      (refusing_rpc\<lparr>rpc_sweep_all := (\<lambda>a. ret (Inl (ClientError 2)))\<rparr>) live_env) [CWatchForTransfer req]
      (watch_for_transfer req) start_world = (Ok (), w1)"
    by (simp add: await_io_eq_Ok with_wallet_def watch_for_transfer_def call_fut_def)
  show ?thesis
    by (rule alice_refunded_without_sweep[OF req await]) (simp_all add: refusing_rpc_def generate_wallet_def try_rpc_def)
qed

end
