(* ===== verification/Rates.thy ===== *)
theory Rates
  imports Beldex_Rpc Complex_Main
begin

text \<open>
  The prices of the maker: \<open>asb/rate.rs\<close>, the rates and \<open>make_quote\<close> of \<open>asb/event_loop.rs\<close>,
  \<open>network/quote.rs\<close> and the values of \<open>coingecko.rs\<close>. The arithmetic of \<open>rust_decimal\<close> is the argument
  \<open>D\<close>; what its documentation promises is \<open>decimal_laws\<close>.
\<close>

section \<open>Rates\<close>

record 'd rate =
  ra_ask :: btc_amount
  ra_ask_spread :: 'd

text \<open>\<open>Amount + Amount\<close> of the crate \<open>bitcoin\<close> panics on overflow.\<close>

definition btc_add :: "btc_amount \<Rightarrow> btc_amount \<Rightarrow> btc_amount outcome" where
  "btc_add a b = (if unat a + unat b < 2 ^ 64 then Ok (a + b) else Panic ''Amount addition error'')"

definition rate_new :: "btc_amount \<Rightarrow> 'd \<Rightarrow> 'd rate" where
  "rate_new ask ask_spread = \<lparr>ra_ask = ask, ra_ask_spread = ask_spread\<rparr>"

definition zero_spread :: "'d decimal \<Rightarrow> 'd" where
  "zero_spread D = dec_from_u64 D 0"

definition rate_zero :: "'d decimal \<Rightarrow> 'd rate" where
  "rate_zero D = \<lparr>ra_ask = 0, ra_ask_spread = zero_spread D\<rparr>"

definition rate_ask :: "'d decimal \<Rightarrow> 'd rate \<Rightarrow> btc_amount outcome" where
  "rate_ask D r =
     (let sats = dec_from_u64 D (ra_ask r) in
      obind (dec_mul D sats (ra_ask_spread r)) (\<lambda>additional_sats.
      obind (of_option (Msg ''Failed to fit spread into u64'') (dec_to_u64 D additional_sats)) (\<lambda>additional_sats.
      btc_add (ra_ask r) additional_sats)))"

definition ONE_BTC :: btc_amount where "ONE_BTC = 100000000"

definition rate_quote :: "'d decimal \<Rightarrow> btc_amount \<Rightarrow> btc_amount \<Rightarrow> bdx_amount outcome" where
  "rate_quote D rate quote =
     obind (of_option (Msg ''Division overflow'')
              (dec_checked_div D (dec_from_u64 D quote) (dec_from_u64 D ONE_BTC))) (\<lambda>quote_in_btc.
     obind (of_option (Msg ''Division overflow'')
              (dec_checked_div D (dec_from_u64 D rate) (dec_from_u64 D ONE_BTC))) (\<lambda>rate_in_btc.
     obind (of_option (Msg ''Division overflow'') (dec_checked_div D quote_in_btc rate_in_btc)) (\<lambda>base_in_bdx.
     obind (dec_mul D base_in_bdx (dec_from_u64 D (as_atomic ONE_BDX))) (\<lambda>base_in_atomic.
     obind (of_option (Msg ''Failed to fit atomic amount into a u64'') (dec_to_u64 D base_in_atomic)) (\<lambda>base_in_atomic.
     Ok (from_atomic base_in_atomic))))))"

definition sell_quote :: "'d decimal \<Rightarrow> 'd rate \<Rightarrow> btc_amount \<Rightarrow> bdx_amount outcome" where
  "sell_quote D r quote = obind (rate_ask D r) (\<lambda>ask. rate_quote D ask quote)"

section \<open>The latest rate\<close>

text \<open>\<open>FixedRate::RATE\<close> is 0.01 bitcoin.\<close>

definition fixed_rate_default :: "'d decimal \<Rightarrow> 'd rate" where
  "fixed_rate_default D = rate_new 1000000 (dec_from_u64 D 0)"

datatype price_error = NotYetAvailable | PermanentFailure

definition price_error_display :: "price_error \<Rightarrow> string" where
  "price_error_display e = (case e of
     NotYetAvailable \<Rightarrow> ''BDX/BTC rate is not yet available''
   | PermanentFailure \<Rightarrow> ''Permanently failed to retrieve BDX/BTC rate from CoinGecko'')"

record price_update =
  pu_ask :: btc_amount

text \<open>\<open>CoinGeckoRate::latest_rate\<close>, of the last value of the watch channel.\<close>

definition coingecko_latest_rate :: "'d \<Rightarrow> price_error + price_update \<Rightarrow> price_error + 'd rate" where
  "coingecko_latest_rate ask_spread latest_update = (case latest_update of
     Inl e \<Rightarrow> Inl e
   | Inr update \<Rightarrow> Inr (rate_new (pu_ask update) ask_spread))"

text \<open>\<open>DynamicRate\<close>: the error becomes its text.\<close>

definition dynamic_latest_rate :: "'d \<Rightarrow> price_error + price_update \<Rightarrow> 'd rate outcome" where
  "dynamic_latest_rate ask_spread latest_update =
     (case coingecko_latest_rate ask_spread latest_update of
        Inl e \<Rightarrow> Err (Msg (''CoinGecko error: '' @ price_error_display e))
      | Inr r \<Rightarrow> Ok r)"

text \<open>One turn of the loop in \<open>coingecko::connect\<close>: a fetched price is sent to the channel.\<close>

definition price_fetched :: "btc_amount outcome \<Rightarrow> price_error + price_update \<Rightarrow> price_error + price_update" where
  "price_fetched fetched latest = (case fetched of Ok ask \<Rightarrow> Inr \<lparr>pu_ask = ask\<rparr> | _ \<Rightarrow> latest)"

section \<open>Quotes\<close>

record bid_quote =
  bq_price :: btc_amount
  bq_min_quantity :: btc_amount
  bq_max_quantity :: btc_amount

text \<open>\<open>EventLoop::make_quote\<close>, of the latest rate and the call to the wallet.\<close>

definition make_quote ::
  "'d decimal \<Rightarrow> 'd rate outcome \<Rightarrow> ('w, get_balance) io \<Rightarrow> btc_amount \<Rightarrow> btc_amount \<Rightarrow> ('w, bid_quote) io" where
  "make_quote D latest_rate get_balance min_buy max_buy =
     bindio (lift (with_context ''Failed to get latest rate'' latest_rate)) (\<lambda>r.
     bindio (lift (with_context ''Failed to compute asking price'' (rate_ask D r))) (\<lambda>ask_price.
     bindio get_balance (\<lambda>balance.
     let bdx = from_atomic (saturating_sub (gb_unlocked_balance balance) 1000000000) in
     bindio (lift (of_option (Msg ''Bitcoin price x Beldex overflow'') (max_bitcoin_for_price D bdx ask_price)))
       (\<lambda>max_bitcoin_for_beldex.
     if max_bitcoin_for_beldex < min_buy then
       ret \<lparr>bq_price = ask_price, bq_min_quantity = 0, bq_max_quantity = 0\<rparr>
     else if max_bitcoin_for_beldex < max_buy then
       ret \<lparr>bq_price = ask_price, bq_min_quantity = min_buy, bq_max_quantity = max_bitcoin_for_beldex\<rparr>
     else
       ret \<lparr>bq_price = ask_price, bq_min_quantity = min_buy, bq_max_quantity = max_buy\<rparr>))))"

section \<open>What the arithmetic promises\<close>

text \<open>
  \<open>rust_decimal\<close> computes with a 96-bit mantissa and at most 28 decimals: a result that has at most
  28 digits is exact, any other is rounded to at least 28 significant digits or to 28 decimals;
  \<open>to_u64\<close> drops the decimals and fails outside the range. \<open>v\<close> is the value of a decimal. Only what
  the prices need is stated: numbers that are not negative, a division of a 64-bit number by a power
  of ten that is exact, and the rounding.
\<close>

definition rounded :: "rat \<Rightarrow> rat \<Rightarrow> bool" where
  "rounded exact x \<longleftrightarrow> \<bar>x - exact\<bar> \<le> exact / 10 ^ 27 + 1 / 10 ^ 28"

definition decimal_laws :: "'d decimal \<Rightarrow> ('d \<Rightarrow> rat) \<Rightarrow> bool" where
  "decimal_laws D v \<longleftrightarrow>
     (\<forall>n. v (dec_from_u64 D n) = of_nat (unat n)) \<and>
     (\<forall>n k q. k \<le> 9 \<longrightarrow> dec_checked_div D (dec_from_u64 D n) (dec_from_u64 D (10 ^ k)) = Some q \<longrightarrow>
        v q = of_nat (unat n) / 10 ^ k) \<and>
     (\<forall>n k. k \<le> 9 \<longrightarrow> v (dec_div D (dec_from_u64 D n) (dec_from_u64 D (10 ^ k))) = of_nat (unat n) / 10 ^ k) \<and>
     (\<forall>a b q. 0 \<le> v a \<longrightarrow> 0 \<le> v b \<longrightarrow> dec_checked_div D a b = Some q \<longrightarrow>
        v b \<noteq> 0 \<and> 0 \<le> v q \<and> rounded (v a / v b) (v q)) \<and>
     (\<forall>a b p. 0 \<le> v a \<longrightarrow> 0 \<le> v b \<longrightarrow> dec_mul D a b = Ok p \<longrightarrow> 0 \<le> v p \<and> rounded (v a * v b) (v p)) \<and>
     (\<forall>a b p. 0 \<le> v a \<longrightarrow> 0 \<le> v b \<longrightarrow> dec_checked_mul D a b = Some p \<longrightarrow> 0 \<le> v p \<and> rounded (v a * v b) (v p)) \<and>
     (\<forall>a n. 0 \<le> v a \<longrightarrow> dec_to_u64 D a = Some n \<longrightarrow> of_nat (unat n) \<le> v a \<and> v a < of_nat (unat n) + 1)"

end
