(* ===== verification/Swap_Setup.thy ===== *)
theory Swap_Setup
  imports Rates Setup Swap_Env
begin

text \<open>
  The setup of a swap over a substream: \<open>network/swap_setup.rs\<close>, the handlers of
  \<open>network/swap_setup/alice.rs\<close> and \<open>network/swap_setup/bob.rs\<close>. A substream is the record \<open>substream\<close>
  of its operations on a state \<open>'w\<close>, CBOR is the record \<open>cbor\<close>; both are libraries. The futures are
  given as the code runs them, without the timer of 120 seconds around them; the timer and the queues in
  which the libp2p behaviours pass them on are in \<open>Setup_Queues\<close>.
\<close>

section \<open>Messages\<close>

record blockchain_network =
  bn_bitcoin :: network
  bn_beldex :: bdx_network

record spot_price_request =
  spr_btc :: btc_amount
  spr_blockchain_network :: blockchain_network

datatype spot_price_error =
    NoSwapsAccepted
  | AmountBelowMinimum (below_min: btc_amount) (below_buy: btc_amount)
  | AmountAboveMaximum (above_max: btc_amount) (above_buy: btc_amount)
  | BalanceTooLow btc_amount
  | BlockchainNetworkMismatch (mismatch_cli: blockchain_network) (mismatch_asb: blockchain_network)
  | OtherError

datatype spot_price_response = PriceBeldex bdx_amount | PriceError spot_price_error

type_synonym bytes = "nat list"

record 'w substream =
  ss_read_length_prefixed :: "nat \<Rightarrow> ('w, bytes) io"
  ss_write_length_prefixed :: "bytes \<Rightarrow> ('w, unit) io"
  ss_flush :: "('w, unit) io"
  ss_close :: "('w, unit) io"

record 'a codec_of =
  co_to_vec :: "'a \<Rightarrow> bytes outcome"
  co_deserialize :: "bytes \<Rightarrow> 'a outcome"

record cbor =
  cb_request :: "spot_price_request codec_of"
  cb_response :: "spot_price_response codec_of"
  cb_message0 :: "message0 codec_of"
  cb_message1 :: "message1 codec_of"
  cb_message2 :: "message2 codec_of"
  cb_message3 :: "message3 codec_of"
  cb_message4 :: "message4 codec_of"

definition BUF_SIZE :: nat where "BUF_SIZE = 1024 * 1024"

definition read_cbor_message :: "'w substream \<Rightarrow> 'a codec_of \<Rightarrow> ('w, 'a) io" where
  "read_cbor_message S C =
     bindio (context_io ''Failed to read length-prefixed message from stream''
               (ss_read_length_prefixed S BUF_SIZE)) (\<lambda>bytes.
     lift (with_context ''Failed to deserialize bytes into message using CBOR'' (co_deserialize C bytes)))"

definition write_cbor_message :: "'w substream \<Rightarrow> 'a codec_of \<Rightarrow> 'a \<Rightarrow> ('w, unit) io" where
  "write_cbor_message S C message =
     bindio (lift (with_context ''Failed to serialize message as bytes using CBOR'' (co_to_vec C message))) (\<lambda>bytes.
     context_io ''Failed to write bytes as length-prefixed message'' (ss_write_length_prefixed S bytes))"

section \<open>Alice\<close>

record wallet_snapshot =
  ws_balance :: get_balance
  ws_lock_fee :: bdx_amount
  ws_redeem_address :: address
  ws_punish_address :: address
  ws_redeem_fee :: btc_amount
  ws_punish_fee :: btc_amount

text \<open>
  \<open>WalletSnapshot::capture\<close>. The argument of \<open>unwrap_or\<close> is evaluated first: two addresses are drawn
  from the wallet even when an external address is configured.
\<close>

definition wallet_snapshot_capture ::
  "('w, get_balance) io \<Rightarrow> ('w, address) io \<Rightarrow> (nat \<Rightarrow> btc_amount \<Rightarrow> ('w, btc_amount) io) \<Rightarrow>
   address option \<Rightarrow> btc_amount \<Rightarrow> ('w, wallet_snapshot) io" where
  "wallet_snapshot_capture get_balance new_address estimate_fee external_redeem_address transfer_amount =
     bindio get_balance (\<lambda>balance.
     bindio new_address (\<lambda>own1.
     let redeem_address = (case external_redeem_address of Some a \<Rightarrow> a | None \<Rightarrow> own1) in
     bindio new_address (\<lambda>own2.
     let punish_address = (case external_redeem_address of Some a \<Rightarrow> a | None \<Rightarrow> own2) in
     bindio (estimate_fee tx_redeem_weight transfer_amount) (\<lambda>redeem_fee.
     bindio (estimate_fee tx_punish_weight transfer_amount) (\<lambda>punish_fee.
     ret \<lparr>ws_balance = balance, ws_lock_fee = BELDEX_FEE, ws_redeem_address = redeem_address,
          ws_punish_address = punish_address, ws_redeem_fee = redeem_fee, ws_punish_fee = punish_fee\<rparr>)))))"

datatype setup_error =
    ResumeOnlyMode
  | SeAmountBelowMinimum btc_amount btc_amount
  | SeAmountAboveMaximum btc_amount btc_amount
  | SeBalanceTooLow get_balance btc_amount
  | LatestRateFetchFailed error
  | SellQuoteCalculationFailed error
  | SeBlockchainNetworkMismatch blockchain_network blockchain_network

definition to_error_response :: "setup_error \<Rightarrow> spot_price_error" where
  "to_error_response e = (case e of
     ResumeOnlyMode \<Rightarrow> NoSwapsAccepted
   | SeAmountBelowMinimum mn buy \<Rightarrow> AmountBelowMinimum mn buy
   | SeAmountAboveMaximum mx buy \<Rightarrow> AmountAboveMaximum mx buy
   | SeBalanceTooLow _ buy \<Rightarrow> BalanceTooLow buy
   | SeBlockchainNetworkMismatch cli asb \<Rightarrow> BlockchainNetworkMismatch cli asb
   | LatestRateFetchFailed _ \<Rightarrow> OtherError
   | SellQuoteCalculationFailed _ \<Rightarrow> OtherError)"

definition from_result_ref :: "setup_error + bdx_amount \<Rightarrow> spot_price_response" where
  "from_result_ref result = (case result of
     Inr amount \<Rightarrow> PriceBeldex amount
   | Inl e \<Rightarrow> PriceError (to_error_response e))"

text \<open>
  The messages of the error enums. How an amount, a pair of networks and a balance are printed is the
  argument \<open>T\<close>.
\<close>

record setup_texts =
  tt_amount :: "btc_amount \<Rightarrow> string"
  tt_networks :: "blockchain_network \<Rightarrow> string"
  tt_balance :: "get_balance \<Rightarrow> string"

definition setup_error_to_anyhow :: "setup_texts \<Rightarrow> setup_error \<Rightarrow> error" where
  "setup_error_to_anyhow T e = (case e of
     ResumeOnlyMode \<Rightarrow> Msg ''ASB is running in resume-only mode''
   | SeAmountBelowMinimum mn buy \<Rightarrow> Msg (''Amount '' @ tt_amount T buy @ '' below minimum '' @ tt_amount T mn)
   | SeAmountAboveMaximum mx buy \<Rightarrow> Msg (''Amount '' @ tt_amount T buy @ '' above maximum '' @ tt_amount T mx)
   | SeBalanceTooLow balance buy \<Rightarrow>
       Msg (''Unlocked balance ('' @ tt_balance T balance @ '') too low to fulfill swapping '' @ tt_amount T buy)
   | LatestRateFetchFailed s \<Rightarrow> Context ''Failed to fetch latest rate'' s
   | SellQuoteCalculationFailed s \<Rightarrow> Context ''Failed to calculate quote'' s
   | SeBlockchainNetworkMismatch cli asb \<Rightarrow>
       Msg (''Blockchain networks did not match, we are on '' @ tt_networks T asb @ '', but request from '' @
         tt_networks T cli))"

record 'd maker =
  mk_min_buy :: btc_amount
  mk_max_buy :: btc_amount
  mk_env_config :: config
  mk_latest_rate :: "'d rate outcome"
  mk_resume_only :: bool

text \<open>
  The block \<open>validate\<close>. A panic in the arithmetic of the quote goes through, so the result is an
  \<open>outcome\<close> of the result of the block.
\<close>

definition validate_spot_price ::
  "'d decimal \<Rightarrow> 'd maker \<Rightarrow> spot_price_request \<Rightarrow> wallet_snapshot \<Rightarrow> (setup_error + bdx_amount) outcome" where
  "validate_spot_price D M request snapshot =
     (let blockchain_network =
            \<lparr>bn_bitcoin = bitcoin_network (mk_env_config M), bn_beldex = beldex_network (mk_env_config M)\<rparr>;
          btc = spr_btc request in
      if mk_resume_only M then Ok (Inl ResumeOnlyMode)
      else if spr_blockchain_network request \<noteq> blockchain_network
      then Ok (Inl (SeBlockchainNetworkMismatch (spr_blockchain_network request) blockchain_network))
      else if btc < mk_min_buy M then Ok (Inl (SeAmountBelowMinimum (mk_min_buy M) btc))
      else if mk_max_buy M < btc then Ok (Inl (SeAmountAboveMaximum (mk_max_buy M) btc))
      else case mk_latest_rate M of
        Ok rate \<Rightarrow>
          (case sell_quote D rate btc of
             Ok bdx \<Rightarrow>
               if from_atomic (gb_unlocked_balance (ws_balance snapshot)) < bdx_add bdx (ws_lock_fee snapshot)
               then Ok (Inl (SeBalanceTooLow (ws_balance snapshot) btc))
               else Ok (Inr bdx)
           | Err e \<Rightarrow> Ok (Inl (SellQuoteCalculationFailed e))
           | Panic p \<Rightarrow> Panic p
           | Pending \<Rightarrow> Pending)
      | Err e \<Rightarrow> Ok (Inl (LatestRateFetchFailed e))
      | Panic p \<Rightarrow> Panic p
      | Pending \<Rightarrow> Pending)"

text \<open>What a party draws from its random number generator for its first state.\<close>

record setup_random =
  sr_key :: scalar
  sr_view :: bdx_scalar
  sr_secret :: bdx_scalar
  sr_proof :: nat

definition alice_setup_protocol ::
  "setup_texts \<Rightarrow> lib \<Rightarrow> 'd decimal \<Rightarrow> cbor \<Rightarrow> 'w substream \<Rightarrow> (btc_amount \<Rightarrow> ('w, wallet_snapshot) io) \<Rightarrow> 'd maker \<Rightarrow>
   setup_random \<Rightarrow> ('w, uuid \<times> alice_state3) io" where
  "alice_setup_protocol T L D C S wallet_snapshot M rand =
     bindio (context_io ''Failed to read spot price request'' (read_cbor_message S (cb_request C))) (\<lambda>request.
     bindio (context_io ''Failed to receive wallet snapshot'' (wallet_snapshot (spr_btc request))) (\<lambda>snapshot.
     bindio (lift (validate_spot_price D M request snapshot)) (\<lambda>result.
     bindio (context_io ''Failed to write spot price response''
               (write_cbor_message S (cb_response C) (from_result_ref result))) (\<lambda>_.
     bindio (lift (case result of Inr bdx \<Rightarrow> Ok bdx | Inl e \<Rightarrow> Err (setup_error_to_anyhow T e))) (\<lambda>bdx.
     let state0 = alice_state0_new L (spr_btc request) bdx (mk_env_config M) (ws_redeem_address snapshot)
           (ws_punish_address snapshot) (ws_redeem_fee snapshot) (ws_punish_fee snapshot)
           (sr_key rand) (sr_view rand) (sr_secret rand) (sr_proof rand) in
     bindio (context_io ''Failed to read message0'' (read_cbor_message S (cb_message0 C))) (\<lambda>message0.
     bindio (lift (with_context ''Failed to transition state0 -> state1 using message0''
                     (alice_state0_receive L state0 message0))) (\<lambda>(swap_id, state1).
     bindio (context_io ''Failed to send message1''
               (write_cbor_message S (cb_message1 C) (alice_state1_next_message state1))) (\<lambda>_.
     bindio (context_io ''Failed to read message2'' (read_cbor_message S (cb_message2 C))) (\<lambda>message2.
     bindio (lift (with_context ''Failed to transition state1 -> state2 using message2''
                     (alice_state1_receive L state1 message2))) (\<lambda>state2.
     bindio (lift (alice_state2_next_message L state2)) (\<lambda>message3.
     bindio (context_io ''Failed to send message3'' (write_cbor_message S (cb_message3 C) message3)) (\<lambda>_.
     bindio (context_io ''Failed to read message4'' (read_cbor_message S (cb_message4 C))) (\<lambda>message4.
     bindio (lift (with_context ''Failed to transition state2 -> state3 using message4''
                     (alice_state2_receive L state2 message4))) (\<lambda>state3.
     bindio (context_io ''Failed to flush substream after all messages were sent'' (ss_flush S)) (\<lambda>_.
     bindio (context_io ''Failed to close substream after all messages were sent'' (ss_close S)) (\<lambda>_.
     ret (swap_id, state3)))))))))))))))))"

section \<open>Bob\<close>

text \<open>The error enum of the CLI and its conversions.\<close>

definition bob_setup_error_display :: "setup_texts \<Rightarrow> spot_price_error \<Rightarrow> string" where
  "bob_setup_error_display T e = (case e of
     NoSwapsAccepted \<Rightarrow> ''Seller currently does not accept incoming swap requests, please try again later''
   | AmountBelowMinimum mn buy \<Rightarrow>
       ''Seller refused to buy '' @ tt_amount T buy @ '' because the minimum configured buy limit is '' @ tt_amount T mn
   | AmountAboveMaximum mx buy \<Rightarrow>
       ''Seller refused to buy '' @ tt_amount T buy @ '' because the maximum configured buy limit is '' @ tt_amount T mx
   | BalanceTooLow buy \<Rightarrow>
       ''Seller's BDX balance is currently too low to fulfill the swap request to buy '' @ tt_amount T buy @
       '', please try again later''
   | BlockchainNetworkMismatch cli asb \<Rightarrow>
       ''Seller blockchain network '' @ tt_networks T asb @ '' setup did not match your blockchain network setup '' @
       tt_networks T cli
   | OtherError \<Rightarrow> ''Seller encountered a problem, please try again later.'')"

definition result_from_response :: "setup_texts \<Rightarrow> spot_price_response \<Rightarrow> bdx_amount outcome" where
  "result_from_response T response = (case response of
     PriceBeldex amount \<Rightarrow> Ok amount
   | PriceError e \<Rightarrow> Err (Msg (bob_setup_error_display T e)))"

definition bob_setup_protocol ::
  "setup_texts \<Rightarrow> lib \<Rightarrow> cbor \<Rightarrow> 'w substream \<Rightarrow> network \<Rightarrow> (address \<Rightarrow> u64 \<Rightarrow> address option \<Rightarrow> ('w, psbt) io) \<Rightarrow>
   config \<Rightarrow> new_swap \<Rightarrow> setup_random \<Rightarrow> ('w, bob_state2) io" where
  "bob_setup_protocol T L C S wallet_network send_to_address env_config info rand =
     bindio (write_cbor_message S (cb_request C)
       \<lparr>spr_btc = ns_btc info,
        spr_blockchain_network =
          \<lparr>bn_bitcoin = bitcoin_network env_config, bn_beldex = beldex_network env_config\<rparr>\<rparr>) (\<lambda>_.
     bindio (read_cbor_message S (cb_response C)) (\<lambda>response.
     bindio (lift (result_from_response T response)) (\<lambda>bdx.
     let state0 = bob_state0_new L (ns_swap_id info) (ns_btc info) bdx (bitcoin_cancel_timelock env_config)
           (bitcoin_punish_timelock env_config) (ns_bitcoin_refund_address info)
           (beldex_finality_confirmations env_config) (ns_tx_refund_fee info) (ns_tx_cancel_fee info)
           (sr_key rand) (sr_secret rand) (sr_view rand) (sr_proof rand) in
     bindio (write_cbor_message S (cb_message0 C) (bob_state0_next_message state0)) (\<lambda>_.
     bindio (read_cbor_message S (cb_message1 C)) (\<lambda>message1.
     bindio (bob_state0_receive L wallet_network send_to_address state0 message1) (\<lambda>state1.
     bindio (write_cbor_message S (cb_message2 C) (bob_state1_next_message state1)) (\<lambda>_.
     bindio (read_cbor_message S (cb_message3 C)) (\<lambda>message3.
     bindio (lift (bob_state1_receive L state1 message3)) (\<lambda>state2.
     bindio (lift (bob_state2_next_message L state2)) (\<lambda>message4.
     bindio (write_cbor_message S (cb_message4 C) message4) (\<lambda>_.
     bindio (ss_flush S) (\<lambda>_.
     bindio (ss_close S) (\<lambda>_.
     ret state2)))))))))))))"

end
