(* ===== verification/Quote_Properties.thy ===== *)
theory Quote_Properties
  imports Swap_Setup Setup_Properties
begin

text \<open>
  What the maker's quote promises and what the setup accepts: the limits of a quote, that an amount
  within the quote passes the checks of the setup, and the inversion of Alice's handler.
\<close>

section \<open>Exact arithmetic\<close>

text \<open>The rationals satisfy the laws; the witnesses compute with them.\<close>

definition exact_decimal :: "rat decimal" where
  "exact_decimal =
     \<lparr>dec_from_u64 = (\<lambda>n. of_nat (unat n)),
      dec_div = (\<lambda>a b. a / b),
      dec_checked_div = (\<lambda>a b. if b = 0 then None else Some (a / b)),
      dec_checked_mul = (\<lambda>a b. Some (a * b)),
      dec_mul = (\<lambda>a b. Ok (a * b)),
      dec_to_u64 = (\<lambda>a. if 0 \<le> a \<and> a < 2 ^ 64 then Some (of_nat (nat \<lfloor>a\<rfloor>)) else None)\<rparr>"

lemma exact_decimal_laws: "decimal_laws exact_decimal id"
proof -
  have "of_nat (unat n) \<le> a \<and> a < of_nat (unat n) + 1" if "0 \<le> a" "a < 2 ^ 64" "n = of_nat (nat \<lfloor>a\<rfloor>)"
    for a :: rat and n :: u64
  proof -
    have "nat \<lfloor>a\<rfloor> < 2 ^ LENGTH(64)" using that(1,2) by (simp add: nat_less_iff floor_less_iff)
    hence "unat n = nat \<lfloor>a\<rfloor>" unfolding that(3) unat_of_nat by (rule mod_less)
    hence "(of_nat (unat n) :: rat) = of_int \<lfloor>a\<rfloor>" using that(1) by (simp del: of_nat_unat)
    thus ?thesis by linarith
  qed
  moreover have "unat (10 ^ k :: u64) = 10 ^ k" if "k \<le> 9" for k
  proof -
    have "(10::nat) ^ k \<le> 10 ^ 9" by (rule power_increasing[OF that]) simp
    hence "10 ^ k < (2::nat) ^ LENGTH(64)" by simp
    thus ?thesis using unat_of_nat[of "10 ^ k", where 'a = 64] by simp
  qed
  ultimately show ?thesis
    by (auto simp: decimal_laws_def exact_decimal_def rounded_def simp del: of_nat_unat split: if_splits)
qed

section \<open>Quotes\<close>

lemma make_quote_OkD:
  assumes "make_quote D r get_balance min_buy max_buy w = (Ok q, w')"
  obtains rate price b mx where "r = Ok rate" "rate_ask D rate = Ok price" "get_balance w = (Ok b, w')"
    "max_bitcoin_for_price D (from_atomic (saturating_sub (gb_unlocked_balance b) 1000000000)) price = Some mx"
    "q = (if mx < min_buy then \<lparr>bq_price = price, bq_min_quantity = 0, bq_max_quantity = 0\<rparr>
      else if mx < max_buy then \<lparr>bq_price = price, bq_min_quantity = min_buy, bq_max_quantity = mx\<rparr>
      else \<lparr>bq_price = price, bq_min_quantity = min_buy, bq_max_quantity = max_buy\<rparr>)"
proof -
  obtain rate price b w1 mx where *: "with_context ''Failed to get latest rate'' r = Ok rate"
    "with_context ''Failed to compute asking price'' (rate_ask D rate) = Ok price" "get_balance w = (Ok b, w1)"
    "of_option (Msg ''Bitcoin price x Beldex overflow'') (max_bitcoin_for_price D
       (from_atomic (saturating_sub (gb_unlocked_balance b) 1000000000)) price) = Ok mx"
    and q: "(if mx < min_buy then ret \<lparr>bq_price = price, bq_min_quantity = 0, bq_max_quantity = 0\<rparr>
      else if mx < max_buy then ret \<lparr>bq_price = price, bq_min_quantity = min_buy, bq_max_quantity = mx\<rparr>
      else ret \<lparr>bq_price = price, bq_min_quantity = min_buy, bq_max_quantity = max_buy\<rparr>) w1 = (Ok q, w')"
    using assms unfolding make_quote_def bindio_eq_Ok Let_def lift_apply by blast
  have "w1 = w'" using q by (auto split: if_splits)
  moreover have "q = (if mx < min_buy then \<lparr>bq_price = price, bq_min_quantity = 0, bq_max_quantity = 0\<rparr>
      else if mx < max_buy then \<lparr>bq_price = price, bq_min_quantity = min_buy, bq_max_quantity = mx\<rparr>
      else \<lparr>bq_price = price, bq_min_quantity = min_buy, bq_max_quantity = max_buy\<rparr>)"
    using q by (auto split: if_splits)
  ultimately show thesis using that * by (simp add: with_context_eq_Ok of_option_eq_Ok)
qed

text \<open>
  a quote asks for at least the configured minimum and offers at most the configured maximum and
  at most what the unlocked balance, less the reserve of one Beldex and the fee, is worth at the quoted
  price; when that is below the minimum it offers nothing.
\<close>

theorem make_quote_within_limits:
  assumes "make_quote D r get_balance min_buy max_buy w = (Ok q, w')" and "min_buy \<le> max_buy"
  shows "\<exists>b mx. get_balance w = (Ok b, w') \<and>
    max_bitcoin_for_price D (from_atomic (saturating_sub (gb_unlocked_balance b) 1000000000)) (bq_price q) = Some mx \<and>
    bq_min_quantity q \<le> bq_max_quantity q \<and> bq_max_quantity q \<le> max_buy \<and> bq_max_quantity q \<le> mx \<and>
    (bq_min_quantity q = min_buy \<or> bq_max_quantity q = 0) \<and> (bq_max_quantity q = 0 \<or> min_buy \<le> mx)"
proof -
  obtain rate price b mx where q: "get_balance w = (Ok b, w')"
    "max_bitcoin_for_price D (from_atomic (saturating_sub (gb_unlocked_balance b) 1000000000)) price = Some mx"
    "q = (if mx < min_buy then \<lparr>bq_price = price, bq_min_quantity = 0, bq_max_quantity = 0\<rparr>
      else if mx < max_buy then \<lparr>bq_price = price, bq_min_quantity = min_buy, bq_max_quantity = mx\<rparr>
      else \<lparr>bq_price = price, bq_min_quantity = min_buy, bq_max_quantity = max_buy\<rparr>)"
    by (rule make_quote_OkD[OF assms(1)])
  thus ?thesis using assms(2) by (auto simp: not_less)
qed

text \<open>The configured 0.01 bitcoin per Beldex with a spread of 2 percent, and a wallet with 51.05 Beldex.\<close>

definition sample_rate :: "rat rate" where
  "sample_rate = rate_new 1000000 (2 / 100)"

definition sample_balance :: get_balance where
  "sample_balance = \<lparr>gb_balance = 60000000000, gb_unlocked_balance = 51050000000, gb_multisig_import_needed = False,
     gb_blocks_to_unlock = 0, gb_time_to_unlock = 0\<rparr>"

lemma sample_quote:
  "make_quote exact_decimal (Ok sample_rate) (ret sample_balance) 200000 100000000 () =
     (Ok \<lparr>bq_price = 1020000, bq_min_quantity = 200000, bq_max_quantity = 51030600\<rparr>, ())"
  by (simp add: make_quote_def rate_ask_def sample_rate_def sample_balance_def exact_decimal_def rate_new_def
      max_bitcoin_for_price_def Let_def btc_add_def saturating_sub_def BELDEX_FEE_def BDX_OFFSET_def from_atomic_def)

theorem make_quote_within_limits_witness:
  "\<exists>b mx. ret sample_balance () = (Ok b, ()) \<and>
    max_bitcoin_for_price exact_decimal (from_atomic (saturating_sub (gb_unlocked_balance b) 1000000000)) 1020000 = Some mx \<and>
    (200000 :: btc_amount) \<le> 51030600 \<and> (51030600 :: btc_amount) \<le> 100000000 \<and> 51030600 \<le> mx \<and> 200000 \<le> mx"
  using make_quote_within_limits[OF sample_quote] by simp

section \<open>A quoted amount is accepted\<close>

lemma decimal_lawsD:
  assumes "decimal_laws D v"
  shows "v (dec_from_u64 D n) = of_nat (unat n)"
    "k \<le> 9 \<Longrightarrow> dec_checked_div D (dec_from_u64 D n) (dec_from_u64 D (10 ^ k)) = Some q \<Longrightarrow> v q = of_nat (unat n) / 10 ^ k"
    "k \<le> 9 \<Longrightarrow> v (dec_div D (dec_from_u64 D n) (dec_from_u64 D (10 ^ k))) = of_nat (unat n) / 10 ^ k"
    "0 \<le> v a \<Longrightarrow> 0 \<le> v b \<Longrightarrow> dec_checked_div D a b = Some q \<Longrightarrow> v b \<noteq> 0 \<and> 0 \<le> v q \<and> rounded (v a / v b) (v q)"
    "0 \<le> v a \<Longrightarrow> 0 \<le> v b \<Longrightarrow> dec_mul D a b = Ok p \<Longrightarrow> 0 \<le> v p \<and> rounded (v a * v b) (v p)"
    "0 \<le> v a \<Longrightarrow> 0 \<le> v b \<Longrightarrow> dec_checked_mul D a b = Some p \<Longrightarrow> 0 \<le> v p \<and> rounded (v a * v b) (v p)"
    "0 \<le> v a \<Longrightarrow> dec_to_u64 D a = Some n \<Longrightarrow> of_nat (unat n) \<le> v a \<and> v a < of_nat (unat n) + 1"
  using assms unfolding decimal_laws_def by blast+

lemma rounded_le: "rounded e x \<Longrightarrow> x \<le> e + e / 10 ^ 27 + 1 / 10 ^ 28"
  by (simp add: rounded_def abs_le_iff)

text \<open>The price of a Beldex amount, from above.\<close>

lemma max_bitcoin_for_price_le:
  assumes "decimal_laws D v" "max_bitcoin_for_price D amount price = Some mx"
  shows "of_nat (unat mx) \<le>
    of_nat (unat (saturating_sub (as_atomic amount) (as_atomic BELDEX_FEE))) * of_nat (unat price) / 10 ^ 9 *
      (1 + 1 / 10 ^ 27) + (1 / 10 ^ 28 :: rat)"
proof (cases "saturating_sub (as_atomic amount) (as_atomic BELDEX_FEE) = 0")
  case True
  thus ?thesis using assms(2) by (simp add: max_bitcoin_for_price_def)
next
  case False
  let ?a = "saturating_sub (as_atomic amount) (as_atomic BELDEX_FEE)"
  let ?r = "dec_div D (dec_from_u64 D price) (dec_from_u64 D (10 ^ 9))"
  obtain sats where s: "dec_checked_mul D (dec_from_u64 D ?a) ?r = Some sats" "dec_to_u64 D sats = Some mx"
    using assms(2) False by (auto simp: max_bitcoin_for_price_def Let_def BDX_OFFSET_def split: option.splits)
  have va: "v (dec_from_u64 D ?a) = of_nat (unat ?a)" by (rule decimal_lawsD(1)[OF assms(1)])
  have vr: "v ?r = of_nat (unat price) / 10 ^ 9" by (rule decimal_lawsD(3)[OF assms(1)]) simp
  have "0 \<le> v (dec_from_u64 D ?a)" "0 \<le> v ?r"
    unfolding va vr by (rule of_nat_0_le_iff, rule divide_nonneg_nonneg[OF of_nat_0_le_iff]) simp
  from decimal_lawsD(6)[OF assms(1) this s(1)]
  have m: "0 \<le> v sats \<and> rounded (v (dec_from_u64 D ?a) * v ?r) (v sats)" .
  hence "v sats \<le> of_nat (unat ?a) * (of_nat (unat price) / 10 ^ 9) * (1 + 1 / 10 ^ 27) + 1 / 10 ^ 28"
    using rounded_le[of "v (dec_from_u64 D ?a) * v ?r" "v sats"] unfolding va vr by (simp add: algebra_simps)
  moreover have "of_nat (unat mx) \<le> v sats" using decimal_lawsD(7)[OF assms(1) _ s(2)] m by blast
  ultimately show ?thesis by simp
qed

text \<open>The Beldex a bitcoin amount buys, from above; a price of nothing has no quote.\<close>

lemma rate_quote_le:
  assumes "decimal_laws D v" "rate_quote D price btc = Ok bdx"
  shows "0 < unat price \<and> of_nat (unat (as_atomic bdx)) \<le>
    ((of_nat (unat btc) / of_nat (unat price)) * (1 + 1 / 10 ^ 27) + 1 / 10 ^ 28) * 10 ^ 9 * (1 + 1 / 10 ^ 27) +
      (1 / 10 ^ 28 :: rat)"
proof -
  obtain q r base atomics n where s: "dec_checked_div D (dec_from_u64 D btc) (dec_from_u64 D ONE_BTC) = Some q"
    "dec_checked_div D (dec_from_u64 D price) (dec_from_u64 D ONE_BTC) = Some r"
    "dec_checked_div D q r = Some base" "dec_mul D base (dec_from_u64 D (as_atomic ONE_BDX)) = Ok atomics"
    "dec_to_u64 D atomics = Some n" "bdx = from_atomic n"
    using assms(2) by (auto simp: rate_quote_def outcome_rules)
  have one: "ONE_BTC = 10 ^ 8" by (simp add: ONE_BTC_def)
  have vq: "v q = of_nat (unat btc) / 10 ^ 8" and vr: "v r = of_nat (unat price) / 10 ^ 8"
    using decimal_lawsD(2)[OF assms(1), of 8 btc q] decimal_lawsD(2)[OF assms(1), of 8 price r] s(1,2)
    unfolding one by simp_all
  have vo: "v (dec_from_u64 D (as_atomic ONE_BDX)) = 10 ^ 9"
    using decimal_lawsD(1)[OF assms(1), of "as_atomic ONE_BDX"] by (simp add: ONE_BDX_def BDX_OFFSET_def)
  have "0 \<le> v q" "0 \<le> v r"
    unfolding vq vr by (rule divide_nonneg_nonneg[OF of_nat_0_le_iff], simp)+
  from decimal_lawsD(4)[OF assms(1) this s(3)]
  have base: "v r \<noteq> 0 \<and> 0 \<le> v base \<and> rounded (v q / v r) (v base)" .
  have atomics: "0 \<le> v atomics \<and> rounded (v base * 10 ^ 9) (v atomics)"
    using decimal_lawsD(5)[OF assms(1) _ _ s(4)] base unfolding vo by simp
  have "v q / v r = of_nat (unat btc) / of_nat (unat price)" using base by (simp add: vq vr)
  hence b1: "v base \<le> (of_nat (unat btc) / of_nat (unat price)) * (1 + 1 / 10 ^ 27) + 1 / 10 ^ 28"
    using rounded_le[of "v q / v r" "v base"] base by (simp add: algebra_simps)
  have b2: "v atomics \<le> v base * (10 ^ 9 * (1 + 1 / 10 ^ 27)) + 1 / 10 ^ 28"
    using rounded_le[of "v base * 10 ^ 9" "v atomics"] atomics by (simp add: algebra_simps)
  have b3: "of_nat (unat n) \<le> v atomics" using decimal_lawsD(7)[OF assms(1) _ s(5)] atomics by blast
  have "0 \<le> (10 ^ 9 * (1 + 1 / 10 ^ 27) :: rat)" by simp
  from mult_right_mono[OF b1 this] b2 b3 have "of_nat (unat n) \<le>
    ((of_nat (unat btc) / of_nat (unat price)) * (1 + 1 / 10 ^ 27) + 1 / 10 ^ 28) * 10 ^ 9 * (1 + 1 / 10 ^ 27) +
      (1 / 10 ^ 28 :: rat)"
    by (simp only: mult.assoc)
  moreover have "0 < unat price"
  proof (rule gr0I)
    assume "unat price = 0"
    hence "v r = 0" unfolding vr by simp
    thus False using base by simp
  qed
  ultimately show ?thesis by (simp add: s(6) from_atomic_def)
qed

text \<open>The roundings of three operations stay below one atomic unit of Beldex.\<close>

lemma rounding_margin:
  assumes "n \<le> (z * (1 + 1 / 10 ^ 27) + 1 / 10 ^ 28) * 10 ^ 9 * (1 + 1 / 10 ^ 27) + (1 / 10 ^ 28 :: rat)"
    "z \<le> a / 10 ^ 9 * (1 + 1 / 10 ^ 27) + 1 / 10 ^ 28" "0 \<le> a" "a \<le> 2 ^ 64"
  shows "n \<le> a + 1"
proof -
  have z: "z \<le> a / 10 ^ 9 + 1 / 10 ^ 15" using assms(2-4) by (simp add: field_simps)
  have "z * (1 + 1 / 10 ^ 27) + 1 / 10 ^ 28 \<le> a / 10 ^ 9 + 1 / 10 ^ 14" using z assms(3,4) by (simp add: field_simps)
  hence "(z * (1 + 1 / 10 ^ 27) + 1 / 10 ^ 28) * 10 ^ 9 * (1 + 1 / 10 ^ 27) + 1 / 10 ^ 28
    \<le> (a / 10 ^ 9 + 1 / 10 ^ 14) * 10 ^ 9 * (1 + 1 / 10 ^ 27) + 1 / 10 ^ 28"
    unfolding mult.assoc by (intro add_right_mono mult_right_mono) simp_all
  from order_trans[OF assms(1) this]
  have "n \<le> (a / 10 ^ 9 + 1 / 10 ^ 14) * 10 ^ 9 * (1 + 1 / 10 ^ 27) + 1 / 10 ^ 28" .
  thus ?thesis using assms(3,4) by (simp add: field_simps)
qed

lemma quote_leaves_fee:
  assumes "decimal_laws D v"
    and "max_bitcoin_for_price D (from_atomic (saturating_sub unlocked 1000000000)) price = Some mx"
    and "btc \<le> mx" "0 < btc" "rate_quote D price btc = Ok bdx"
  shows "unat (as_atomic bdx) + unat (as_atomic BELDEX_FEE) \<le> unat unlocked"
proof -
  let ?m = "saturating_sub (saturating_sub unlocked 1000000000) (as_atomic BELDEX_FEE)"
  have "?m \<noteq> 0" using assms(2-4)
    by (auto simp: max_bitcoin_for_price_def from_atomic_def word_le_nat_alt word_less_nat_alt)
  hence m: "0 < unat ?m" by (simp add: unat_gt_0)
  have sum: "unat ?m + 1020000000 = unat unlocked"
    using m by (simp add: unat_saturating_sub BELDEX_FEE_def from_atomic_def)
  define a :: rat where "a = of_nat (unat ?m)"
  define p :: rat where "p = of_nat (unat price)"
  define t :: rat where "t = of_nat (unat btc)"
  define n :: rat where "n = of_nat (unat (as_atomic bdx))"
  note q = rate_quote_le[OF assms(1,5), folded n_def p_def t_def]
  have "of_nat 1 \<le> p" using q unfolding p_def of_nat_le_iff by simp
  hence p: "1 \<le> p" by simp
  have "a \<le> of_nat (2 ^ 64)" using less_imp_le[OF unsigned_less[of ?m]] unfolding a_def of_nat_le_iff by simp
  hence a: "0 \<le> a" "a \<le> 2 ^ 64" using of_nat_0_le_iff[of "unat ?m"] by (simp_all only: a_def) simp
  have "t \<le> of_nat (unat mx)" using assms(3) unfolding t_def of_nat_le_iff by (simp add: word_le_nat_alt)
  hence t: "t \<le> a * p / 10 ^ 9 * (1 + 1 / 10 ^ 27) + 1 / 10 ^ 28"
    using max_bitcoin_for_price_le[OF assms(1,2)] by (simp add: a_def p_def from_atomic_def del: of_nat_unat)
  have "t / p \<le> (a * p / 10 ^ 9 * (1 + 1 / 10 ^ 27) + 1 / 10 ^ 28) / p"
    using divide_right_mono[OF t] p by simp
  also have "\<dots> = a / 10 ^ 9 * (1 + 1 / 10 ^ 27) + 1 / 10 ^ 28 / p" using p by (simp add: field_simps)
  also have "\<dots> \<le> a / 10 ^ 9 * (1 + 1 / 10 ^ 27) + 1 / 10 ^ 28" using p by (simp add: divide_le_eq)
  finally have z: "t / p \<le> a / 10 ^ 9 * (1 + 1 / 10 ^ 27) + 1 / 10 ^ 28" .
  define z where "z = t / p"
  have "n \<le> (z * (1 + 1 / 10 ^ 27) + 1 / 10 ^ 28) * 10 ^ 9 * (1 + 1 / 10 ^ 27) + 1 / 10 ^ 28"
    using q unfolding z_def by blast
  hence "n \<le> a + 1" by (rule rounding_margin[OF _ z[folded z_def] a])
  hence "of_nat (unat (as_atomic bdx)) \<le> (of_nat (unat ?m + 1) :: rat)" by (simp add: n_def a_def del: of_nat_unat)
  hence "unat (as_atomic bdx) \<le> unat ?m + 1" by (simp only: of_nat_le_iff)
  thus ?thesis using sum by (simp add: BELDEX_FEE_def from_atomic_def)
qed


text \<open>
  the quote is honest: an amount of bitcoin between the limits of a quote passes every check of the
  setup, at the same rate, limits and balance, once the networks match, the maker is not in resume-only
  mode and the price can be computed. In particular, the reserve of one Beldex in the quote covers the
  lock fee and whatever the roundings of the decimal arithmetic add.
\<close>

theorem quoted_amount_is_accepted:
  assumes "decimal_laws D v"
    and "make_quote D (mk_latest_rate M) get_balance (mk_min_buy M) (mk_max_buy M) w = (Ok q, w')"
    and "mk_min_buy M \<le> mk_max_buy M" "\<not> mk_resume_only M" "mk_latest_rate M = Ok rate"
    and "get_balance w = (Ok (ws_balance snapshot), w')" "ws_lock_fee snapshot = BELDEX_FEE"
    and "0 < spr_btc request" "bq_min_quantity q \<le> spr_btc request" "spr_btc request \<le> bq_max_quantity q"
    and "spr_blockchain_network request =
      \<lparr>bn_bitcoin = bitcoin_network (mk_env_config M), bn_beldex = beldex_network (mk_env_config M)\<rparr>"
    and "sell_quote D rate (spr_btc request) = Ok bdx"
  shows "validate_spot_price D M request snapshot = Ok (Inr bdx)"
proof -
  let ?btc = "spr_btc request" and ?b = "ws_balance snapshot"
  obtain rate' price b mx where m: "mk_latest_rate M = Ok rate'" "rate_ask D rate' = Ok price"
    "get_balance w = (Ok b, w')"
    "max_bitcoin_for_price D (from_atomic (saturating_sub (gb_unlocked_balance b) 1000000000)) price = Some mx"
    "q = (if mx < mk_min_buy M then \<lparr>bq_price = price, bq_min_quantity = 0, bq_max_quantity = 0\<rparr>
      else if mx < mk_max_buy M then \<lparr>bq_price = price, bq_min_quantity = mk_min_buy M, bq_max_quantity = mx\<rparr>
      else \<lparr>bq_price = price, bq_min_quantity = mk_min_buy M, bq_max_quantity = mk_max_buy M\<rparr>)"
    by (rule make_quote_OkD[OF assms(2)])
  have eq: "rate' = rate" "b = ?b" using m(1,3) assms(5,6) by simp_all
  note q = m(2,4,5)[unfolded eq]
  have lim: "mk_min_buy M \<le> ?btc" "?btc \<le> mk_max_buy M" "?btc \<le> mx"
    using q(3) assms(8-10) by (auto split: if_splits)
  have "rate_quote D price ?btc = Ok bdx" using assms(12) q(1) by (simp add: sell_quote_def)
  note fee = quote_leaves_fee[OF assms(1) q(2) lim(3) assms(8) this]
  hence "unat (as_atomic bdx + as_atomic BELDEX_FEE) = unat (as_atomic bdx) + unat (as_atomic BELDEX_FEE)"
    using le_less_trans[OF _ unsigned_less[of "gb_unlocked_balance ?b"]] by (intro unat_plus_no_wrap) simp
  hence "\<not> from_atomic (gb_unlocked_balance ?b) < bdx_add bdx BELDEX_FEE"
    using fee by (simp add: bdx_add_def from_atomic_def less_bdx_amount_def word_less_nat_alt)
  thus ?thesis using assms(4,5,7,11,12) lim by (simp add: validate_spot_price_def Let_def not_less)
qed


definition sample_maker :: "rat maker" where
  "sample_maker = \<lparr>mk_min_buy = 200000, mk_max_buy = 100000000, mk_env_config = testnet_config,
     mk_latest_rate = Ok sample_rate, mk_resume_only = False\<rparr>"

definition sample_request :: spot_price_request where
  "sample_request = \<lparr>spr_btc = 51030600, spr_blockchain_network =
     \<lparr>bn_bitcoin = bitcoin_network testnet_config, bn_beldex = beldex_network testnet_config\<rparr>\<rparr>"

definition sample_snapshot :: wallet_snapshot where
  "sample_snapshot = \<lparr>ws_balance = sample_balance, ws_lock_fee = BELDEX_FEE,
     ws_redeem_address = \<lparr>addr_network = Testnet, addr_payload = 1\<rparr>,
     ws_punish_address = \<lparr>addr_network = Testnet, addr_payload = 2\<rparr>, ws_redeem_fee = 1000, ws_punish_fee = 1000\<rparr>"

text \<open>The largest quoted amount buys 50.03 Beldex, all but the reserve and the fee of the 51.05.\<close>

theorem quoted_amount_is_accepted_witness:
  "validate_spot_price exact_decimal sample_maker sample_request sample_snapshot = Ok (Inr (from_atomic 50030000000))"
proof (rule quoted_amount_is_accepted[OF exact_decimal_laws])
  show "make_quote exact_decimal (mk_latest_rate sample_maker) (ret sample_balance) (mk_min_buy sample_maker)
      (mk_max_buy sample_maker) () = (Ok \<lparr>bq_price = 1020000, bq_min_quantity = 200000, bq_max_quantity = 51030600\<rparr>, ())"
    using sample_quote by (simp add: sample_maker_def)
  show "sell_quote exact_decimal sample_rate (spr_btc sample_request) = Ok (from_atomic 50030000000)"
    by (simp add: sell_quote_def rate_ask_def rate_quote_def sample_rate_def sample_request_def exact_decimal_def
        rate_new_def Let_def btc_add_def ONE_BTC_def ONE_BDX_def BDX_OFFSET_def from_atomic_def)
qed (simp_all add: sample_maker_def sample_request_def sample_snapshot_def)

section \<open>What the setup lets through\<close>

lemma validate_spot_price_OkD:
  assumes "validate_spot_price D M request snapshot = Ok (Inr bdx)"
  shows "\<not> mk_resume_only M" "mk_min_buy M \<le> spr_btc request" "spr_btc request \<le> mk_max_buy M"
    "spr_blockchain_network request =
      \<lparr>bn_bitcoin = bitcoin_network (mk_env_config M), bn_beldex = beldex_network (mk_env_config M)\<rparr>"
    "\<exists>rate. mk_latest_rate M = Ok rate \<and> sell_quote D rate (spr_btc request) = Ok bdx"
    "bdx_add bdx (ws_lock_fee snapshot) \<le> from_atomic (gb_unlocked_balance (ws_balance snapshot))"
  using assms
  by (auto simp: validate_spot_price_def Let_def not_less split: if_splits outcome.splits)

lemma result_eq_Ok: "(case r of Inl e \<Rightarrow> Err (f e) | Inr x \<Rightarrow> Ok x) = Ok y \<longleftrightarrow> r = Inr y"
  by (auto split: sum.splits)

lemma alice_setup_protocol_OkD:
  assumes "alice_setup_protocol T L D C S snap M rand w = (Ok (sid, a), w')"
  obtains request w1 snapshot w2 bdx w4 m0 w5 a1 w6 m2 w7 a2 m3 w8 m4 w9 w10 where
    "read_cbor_message S (cb_request C) w = (Ok request, w1)"
    "snap (spr_btc request) w1 = (Ok snapshot, w2)"
    "validate_spot_price D M request snapshot = Ok (Inr bdx)"
    "write_cbor_message S (cb_response C) (PriceBeldex bdx) w2 = (Ok (), w4)"
    "read_cbor_message S (cb_message0 C) w4 = (Ok m0, w5)"
    "alice_state0_receive L (alice_state0_new L (spr_btc request) bdx (mk_env_config M) (ws_redeem_address snapshot)
           (ws_punish_address snapshot) (ws_redeem_fee snapshot) (ws_punish_fee snapshot)
           (sr_key rand) (sr_view rand) (sr_secret rand) (sr_proof rand)) m0 = Ok (sid, a1)"
    "write_cbor_message S (cb_message1 C) (alice_state1_next_message a1) w5 = (Ok (), w6)"
    "read_cbor_message S (cb_message2 C) w6 = (Ok m2, w7)"
    "alice_state1_receive L a1 m2 = Ok a2" "alice_state2_next_message L a2 = Ok m3"
    "write_cbor_message S (cb_message3 C) m3 w7 = (Ok (), w8)"
    "read_cbor_message S (cb_message4 C) w8 = (Ok m4, w9)" "alice_state2_receive L a2 m4 = Ok a"
    "ss_flush S w9 = (Ok (), w10)" "ss_close S w10 = (Ok (), w')"
  using assms
  by (clarsimp simp: alice_setup_protocol_def outcome_rules Let_def result_eq_Ok from_result_ref_def)

end
