(* ===== verification/Setup_Wire.thy ===== *)
theory Setup_Wire
  imports Quote_Properties
begin

text \<open>
  The two setup handlers, connected. A wire is what a substream is to one party: the frames still to
  be read, the frames written, and the rest of its world. Each handler is deterministic in what it
  reads, so two handlers whose transcripts match, each having read exactly what the other wrote, stand
  for every run over a connection that delivers frames in order, however the two are scheduled.
\<close>

section \<open>A substream as a list of frames\<close>

record 'w wire =
  wi_in :: "bytes list"
  wi_out :: "bytes list"
  wi_rest :: 'w

definition wire_read :: "nat \<Rightarrow> ('w wire, bytes) io" where
  "wire_read max_len w = (case wi_in w of
     [] \<Rightarrow> (Err (Msg ''unexpected end of file''), w)
   | b # bs \<Rightarrow> if length b \<le> max_len then (Ok b, w\<lparr>wi_in := bs\<rparr>) else (Err (Msg ''frame too long''), w))"

definition wire_write :: "bytes \<Rightarrow> ('w wire, unit) io" where
  "wire_write b w = (Ok (), w\<lparr>wi_out := wi_out w @ [b]\<rparr>)"

definition wire_stream :: "'w wire substream" where
  "wire_stream = \<lparr>ss_read_length_prefixed = wire_read, ss_write_length_prefixed = wire_write,
     ss_flush = ret (), ss_close = ret ()\<rparr>"

text \<open>The other effects of a handler do not touch the wire.\<close>

definition on_rest :: "('w, 'a) io \<Rightarrow> ('w wire, 'a) io" where
  "on_rest m w = (case m (wi_rest w) of (r, x) \<Rightarrow> (r, w\<lparr>wi_rest := x\<rparr>))"

lemma read_wire_OkD:
  "read_cbor_message wire_stream C w = (Ok m, w') \<Longrightarrow>
   \<exists>b. wi_in w = b # wi_in w' \<and> wi_out w' = wi_out w \<and> co_deserialize C b = Ok m"
  by (auto simp: read_cbor_message_def wire_stream_def wire_read_def outcome_rules split: list.splits if_splits)

lemma write_wire_OkD:
  "write_cbor_message wire_stream C m w = (Ok u, w') \<Longrightarrow>
   \<exists>b. co_to_vec C m = Ok b \<and> wi_in w' = wi_in w \<and> wi_out w' = wi_out w @ [b]"
  by (auto simp: write_cbor_message_def wire_stream_def wire_write_def outcome_rules)

lemma on_rest_OkD: "on_rest m w = (Ok x, w') \<Longrightarrow> wi_in w' = wi_in w \<and> wi_out w' = wi_out w"
  by (auto simp: on_rest_def split: prod.splits)

lemma end_wire_OkD:
  "ss_flush wire_stream w = (Ok u, w') \<Longrightarrow> w' = w"
  "ss_close wire_stream w = (Ok u, w') \<Longrightarrow> w' = w"
  by (simp_all add: wire_stream_def)

section \<open>The exchange of messages\<close>

text \<open>The first states of the two handlers, and the exchange of messages that matching transcripts stand for.\<close>

definition alice_first_state ::
  "lib \<Rightarrow> config \<Rightarrow> spot_price_request \<Rightarrow> bdx_amount \<Rightarrow> wallet_snapshot \<Rightarrow> setup_random \<Rightarrow> alice_state0" where
  "alice_first_state L env request bdx snapshot rand =
     alice_state0_new L (spr_btc request) bdx env (ws_redeem_address snapshot)
       (ws_punish_address snapshot) (ws_redeem_fee snapshot) (ws_punish_fee snapshot)
       (sr_key rand) (sr_view rand) (sr_secret rand) (sr_proof rand)"

definition bob_first_state :: "lib \<Rightarrow> config \<Rightarrow> new_swap \<Rightarrow> bdx_amount \<Rightarrow> setup_random \<Rightarrow> bob_state0" where
  "bob_first_state L env info bdx rand =
     bob_state0_new L (ns_swap_id info) (ns_btc info) bdx (bitcoin_cancel_timelock env)
       (bitcoin_punish_timelock env) (ns_bitcoin_refund_address info) (beldex_finality_confirmations env)
       (ns_tx_refund_fee info) (ns_tx_cancel_fee info) (sr_key rand) (sr_secret rand) (sr_view rand) (sr_proof rand)"

definition bob_request :: "config \<Rightarrow> new_swap \<Rightarrow> spot_price_request" where
  "bob_request env info = \<lparr>spr_btc = ns_btc info, spr_blockchain_network =
     \<lparr>bn_bitcoin = bitcoin_network env, bn_beldex = beldex_network env\<rparr>\<rparr>"

lemma first_state_simps [simp]:
  "a0_btc (alice_first_state L env request bdx snapshot rand) = spr_btc request"
  "a0_bdx (alice_first_state L env request bdx snapshot rand) = bdx"
  "a0_cancel_timelock (alice_first_state L env request bdx snapshot rand) = bitcoin_cancel_timelock env"
  "a0_punish_timelock (alice_first_state L env request bdx snapshot rand) = bitcoin_punish_timelock env"
  "b0_swap_id (bob_first_state L env info bdx rand') = ns_swap_id info"
  "b0_bdx (bob_first_state L env info bdx rand') = bdx"
  "b0_cancel_timelock (bob_first_state L env info bdx rand') = bitcoin_cancel_timelock env"
  "b0_punish_timelock (bob_first_state L env info bdx rand') = bitcoin_punish_timelock env"
  by (simp_all add: alice_first_state_def bob_first_state_def alice_state0_new_def bob_state0_new_def Let_def
      split: prod.splits)

section \<open>Transcripts\<close>

lemma alice_transcript:
  assumes "alice_setup_protocol T L D C wire_stream (\<lambda>btc. on_rest (snap btc)) M rand w = (Ok (sid, a), w')"
    and "wi_out w = []" "wi_in w' = []"
  obtains b1 b2 b3 b4 b5 b6 b7 request snapshot bdx m0 a1 m2 a2 m3 m4 where
    "wi_in w = [b1, b3, b5, b7]" "wi_out w' = [b2, b4, b6]"
    "co_deserialize (cb_request C) b1 = Ok request" "co_to_vec (cb_response C) (PriceBeldex bdx) = Ok b2"
    "co_deserialize (cb_message0 C) b3 = Ok m0" "co_to_vec (cb_message1 C) (alice_state1_next_message a1) = Ok b4"
    "co_deserialize (cb_message2 C) b5 = Ok m2" "co_to_vec (cb_message3 C) m3 = Ok b6"
    "co_deserialize (cb_message4 C) b7 = Ok m4"
    "validate_spot_price D M request snapshot = Ok (Inr bdx)"
    "alice_state0_receive L (alice_first_state L (mk_env_config M) request bdx snapshot rand) m0 = Ok (sid, a1)"
    "alice_state1_receive L a1 m2 = Ok a2" "alice_state2_next_message L a2 = Ok m3"
    "alice_state2_receive L a2 m4 = Ok a"
  using assms(1)
proof (rule alice_setup_protocol_OkD, goal_cases)
  case (1 request w1 snapshot w2 bdx w4 m0 w5 a1 w6 m2 w7 a2 m3 w8 m4 w9 w10)
  obtain b1 b2 b3 b4 b5 b6 b7 where
    "wi_in w = [b1, b3, b5, b7]" "wi_out w' = [b2, b4, b6]"
    "co_deserialize (cb_request C) b1 = Ok request" "co_to_vec (cb_response C) (PriceBeldex bdx) = Ok b2"
    "co_deserialize (cb_message0 C) b3 = Ok m0" "co_to_vec (cb_message1 C) (alice_state1_next_message a1) = Ok b4"
    "co_deserialize (cb_message2 C) b5 = Ok m2" "co_to_vec (cb_message3 C) m3 = Ok b6"
    "co_deserialize (cb_message4 C) b7 = Ok m4"
    using assms(2,3) 1(2,6,9,13)[THEN read_wire_OkD] 1(3)[THEN on_rest_OkD] 1(5,8,12)[THEN write_wire_OkD]
      end_wire_OkD(1)[OF 1(15)] end_wire_OkD(2)[OF 1(16)] by fastforce
  thus ?case using 1(1) 1(4,7,10,11,14)[folded alice_first_state_def] by blast
qed


lemma on_rest_rules:
  "on_rest (ret x) = ret x" "on_rest (lift r) = lift r"
  "on_rest (bindio m f) = bindio (on_rest m) (\<lambda>x. on_rest (f x))"
  by (auto simp: fun_eq_iff on_rest_def bindio_def split: prod.splits outcome.splits)

lemma bob_state0_receive_on_rest:
  "bob_state0_receive L net (\<lambda>a n c. on_rest (send a n c)) st msg = on_rest (bob_state0_receive L net send st msg)"
  by (simp add: bob_state0_receive_def tx_lock_new_def Let_def on_rest_rules if_distrib[of on_rest] cong: if_cong)

lemma bob_transcript:
  assumes "bob_setup_protocol T L C wire_stream net (\<lambda>a n c. on_rest (send a n c)) env info rand w = (Ok b, w')"
    and "wi_out w = []" "wi_in w' = []"
  obtains b1 b2 b3 b4 b5 b6 b7 bdx b0 m1 w1 s1 w2 m3 m4 where
    "wi_in w = [b2, b4, b6]" "wi_out w' = [b1, b3, b5, b7]"
    "co_to_vec (cb_request C) (bob_request env info) = Ok b1"
    "co_deserialize (cb_response C) b2 = Ok (PriceBeldex bdx)"
    "co_to_vec (cb_message0 C) (bob_state0_next_message b0) = Ok b3" "co_deserialize (cb_message1 C) b4 = Ok m1"
    "co_to_vec (cb_message2 C) (bob_state1_next_message s1) = Ok b5" "co_deserialize (cb_message3 C) b6 = Ok m3"
    "co_to_vec (cb_message4 C) m4 = Ok b7"
    "b0 = bob_first_state L env info bdx rand"
    "bob_state0_receive L net (\<lambda>a n c. on_rest (send a n c)) b0 m1 w1 = (Ok s1, w2)"
    "bob_state1_receive L s1 m3 = Ok b" "bob_state2_next_message L b = Ok m4"
proof -
  obtain w1 r w2 bdx b0 w3 m1 w4 s1 w5 w6 m3 w7 m4 w8 w9 where s:
    "write_cbor_message wire_stream (cb_request C) (bob_request env info) w = (Ok (), w1)"
    "read_cbor_message wire_stream (cb_response C) w1 = (Ok r, w2)" "result_from_response T r = Ok bdx"
    "b0 = bob_first_state L env info bdx rand"
    "write_cbor_message wire_stream (cb_message0 C) (bob_state0_next_message b0) w2 = (Ok (), w3)"
    "read_cbor_message wire_stream (cb_message1 C) w3 = (Ok m1, w4)"
    "bob_state0_receive L net (\<lambda>a n c. on_rest (send a n c)) b0 m1 w4 = (Ok s1, w5)"
    "write_cbor_message wire_stream (cb_message2 C) (bob_state1_next_message s1) w5 = (Ok (), w6)"
    "read_cbor_message wire_stream (cb_message3 C) w6 = (Ok m3, w7)"
    "bob_state1_receive L s1 m3 = Ok b" "bob_state2_next_message L b = Ok m4"
    "write_cbor_message wire_stream (cb_message4 C) m4 w7 = (Ok (), w8)"
    "ss_flush wire_stream w8 = (Ok (), w9)" "ss_close wire_stream w9 = (Ok (), w')"
    using assms(1) by (clarsimp simp: bob_setup_protocol_def outcome_rules Let_def bob_first_state_def bob_request_def)
  have r: "r = PriceBeldex bdx" using s(3) by (simp add: result_from_response_def split: spot_price_response.splits)
  obtain b1 b2 b3 b4 b5 b6 b7 where
    "wi_in w = [b2, b4, b6]" "wi_out w' = [b1, b3, b5, b7]"
    "co_to_vec (cb_request C) (bob_request env info) = Ok b1"
    "co_deserialize (cb_response C) b2 = Ok (PriceBeldex bdx)"
    "co_to_vec (cb_message0 C) (bob_state0_next_message b0) = Ok b3" "co_deserialize (cb_message1 C) b4 = Ok m1"
    "co_to_vec (cb_message2 C) (bob_state1_next_message s1) = Ok b5" "co_deserialize (cb_message3 C) b6 = Ok m3"
    "co_to_vec (cb_message4 C) m4 = Ok b7"
    using assms(2,3) s(2,6,9)[THEN read_wire_OkD] s(1,5,8,12)[THEN write_wire_OkD] s(7)[unfolded bob_state0_receive_on_rest, THEN on_rest_OkD]
      end_wire_OkD(1)[OF s(13)] end_wire_OkD(2)[OF s(14)] unfolding r by fastforce
  thus thesis using that s(4,7,10,11) by blast
qed


section \<open>Agreement over a connection\<close>

text \<open>What the code relies on of the crate \<open>serde_cbor\<close>: what was serialized can be read back.\<close>

definition codec_laws :: "'a codec_of \<Rightarrow> bool" where
  "codec_laws C \<longleftrightarrow> (\<forall>m b. co_to_vec C m = Ok b \<longrightarrow> co_deserialize C b = Ok m)"

definition cbor_laws :: "cbor \<Rightarrow> bool" where
  "cbor_laws C \<longleftrightarrow> codec_laws (cb_request C) \<and> codec_laws (cb_response C) \<and> codec_laws (cb_message0 C) \<and>
     codec_laws (cb_message1 C) \<and> codec_laws (cb_message2 C) \<and> codec_laws (cb_message3 C) \<and>
     codec_laws (cb_message4 C)"

lemma codec_lawsD: "codec_laws C \<Longrightarrow> co_to_vec C m = Ok b \<Longrightarrow> co_deserialize C b = Ok m' \<Longrightarrow> m' = m"
  by (simp add: codec_laws_def)

lemma connected_setup_run:
  assumes "cbor_laws C"
    and alice: "alice_setup_protocol T L D C wire_stream (\<lambda>btc. on_rest (snap btc)) M rand_a
        \<lparr>wi_in = from_bob, wi_out = [], wi_rest = u\<rparr> = (Ok (sid, a), \<lparr>wi_in = [], wi_out = from_alice, wi_rest = u'\<rparr>)"
    and bob: "bob_setup_protocol T L C wire_stream net (\<lambda>x n c. on_rest (send x n c)) env info rand_b
        \<lparr>wi_in = from_alice, wi_out = [], wi_rest = x\<rparr> = (Ok b, \<lparr>wi_in = [], wi_out = from_bob, wi_rest = x'\<rparr>)"
  obtains snapshot bdx w1 w2 where "validate_spot_price D M (bob_request env info) snapshot = Ok (Inr bdx)"
    "setup_run L net (\<lambda>x n c. on_rest (send x n c))
       (alice_first_state L (mk_env_config M) (bob_request env info) bdx snapshot rand_a)
       (bob_first_state L env info bdx rand_b) w1 = (Ok (a, b), w2)" "sid = ns_swap_id info"
proof -
  obtain r1 r2 r3 r4 r5 r6 r7 request snapshot bdx m0 a1 m2 a2 m3 m4 where A:
    "from_bob = [r1, r3, r5, r7]" "from_alice = [r2, r4, r6]"
    "co_deserialize (cb_request C) r1 = Ok request" "co_to_vec (cb_response C) (PriceBeldex bdx) = Ok r2"
    "co_deserialize (cb_message0 C) r3 = Ok m0" "co_to_vec (cb_message1 C) (alice_state1_next_message a1) = Ok r4"
    "co_deserialize (cb_message2 C) r5 = Ok m2" "co_to_vec (cb_message3 C) m3 = Ok r6"
    "co_deserialize (cb_message4 C) r7 = Ok m4" "validate_spot_price D M request snapshot = Ok (Inr bdx)"
    "alice_state0_receive L (alice_first_state L (mk_env_config M) request bdx snapshot rand_a) m0 = Ok (sid, a1)"
    "alice_state1_receive L a1 m2 = Ok a2" "alice_state2_next_message L a2 = Ok m3"
    "alice_state2_receive L a2 m4 = Ok a"
    by (rule alice_transcript[OF alice]) auto
  obtain q1 q2 q3 q4 q5 q6 q7 bdx' b0 m1 w1 s1 w2 m3' m4' where B:
    "from_alice = [q2, q4, q6]" "from_bob = [q1, q3, q5, q7]"
    "co_to_vec (cb_request C) (bob_request env info) = Ok q1"
    "co_deserialize (cb_response C) q2 = Ok (PriceBeldex bdx')"
    "co_to_vec (cb_message0 C) (bob_state0_next_message b0) = Ok q3" "co_deserialize (cb_message1 C) q4 = Ok m1"
    "co_to_vec (cb_message2 C) (bob_state1_next_message s1) = Ok q5" "co_deserialize (cb_message3 C) q6 = Ok m3'"
    "co_to_vec (cb_message4 C) m4' = Ok q7" "b0 = bob_first_state L env info bdx' rand_b"
    "bob_state0_receive L net (\<lambda>x n c. on_rest (send x n c)) b0 m1 w1 = (Ok s1, w2)"
    "bob_state1_receive L s1 m3' = Ok b" "bob_state2_next_message L b = Ok m4'"
    by (rule bob_transcript[OF bob]) auto
  have frames: "q1 = r1" "q2 = r2" "q3 = r3" "q4 = r4" "q5 = r5" "q6 = r6" "q7 = r7"
    using A(1,2) B(1,2) by simp_all
  have msgs: "request = bob_request env info" "bdx' = bdx" "m0 = bob_state0_next_message b0"
    "m1 = alice_state1_next_message a1" "m2 = bob_state1_next_message s1" "m3' = m3" "m4 = m4'"
    using assms(1)[unfolded cbor_laws_def] A(3-9) B(3-9) unfolding frames by (auto dest: codec_lawsD)
  have "sid = ns_swap_id info"
    using alice_state0_receive_OkD(1)[OF A(11)] by (simp add: msgs bob_state0_next_message_def B(10))
  thus thesis using that A(10-14) B(11-13) unfolding msgs B(10) by (fastforce simp: setup_run_def bindio_eq_Ok)
qed

text \<open>
  The first states hold the public halves of their secret scalar, by \<open>dleq_laws\<close>; \<open>env_new\<close> gives two
  configurations of the same Bitcoin network the same timelocks.
\<close>

lemma first_states_cross_keys:
  assumes "dleq_laws L"
  shows "a0_S_a_bitcoin (alice_first_state L env request bdx snapshot rand)
      = public_key_from_scalar L (a0_s_a (alice_first_state L env request bdx snapshot rand))"
    "a0_S_a_beldex (alice_first_state L env request bdx snapshot rand)
      = bdx_public_from_private L (PrivateKey (a0_s_a (alice_first_state L env request bdx snapshot rand)))"
    "b0_S_b_bitcoin (bob_first_state L env info bdx rand)
      = public_key_from_scalar L (b0_s_b (bob_first_state L env info bdx rand))"
    "b0_S_b_beldex (bob_first_state L env info bdx rand)
      = bdx_public_from_private L (PrivateKey (b0_s_b (bob_first_state L env info bdx rand)))"
  using assms
  by (auto simp: alice_first_state_def bob_first_state_def alice_state0_new_def bob_state0_new_def dleq_laws_def Let_def
      public_key_from_scalar_def bdx_public_from_private_def split: prod.splits)

lemma counterpart_keys_public:
  assumes "dleq_laws L"
    and "counterpart_keys L (alice_first_state L env_a request bdx snapshot rand_a) (bob_first_state L env_b info bdx' rand_b) a b"
  shows "holds_public_keys L a b"
  using assms(2) first_states_cross_keys[OF assms(1)] by (simp add: counterpart_keys_def holds_public_keys_def)

lemma env_new_network:
  assumes "bitcoin_network (env_new ta fa ga) = bitcoin_network (env_new tb fb gb)"
  shows "ta = tb" "bitcoin_cancel_timelock (env_new ta fa ga) = bitcoin_cancel_timelock (env_new tb fb gb)"
    "bitcoin_punish_timelock (env_new ta fa ga) = bitcoin_punish_timelock (env_new tb fb gb)"
  using assms
  by (simp_all add: env_new_def mainnet_config_def testnet_config_def Let_def split: if_splits option.splits)

text \<open>
  C6: two setup handlers that complete over a connection, each having read exactly the frames the other
  wrote, and each with a configuration that \<open>env_new\<close> makes, agree: they are on the same network (so
  their timelocks are equal, which no message carries), Alice's identifier of the swap is Bob's, her
  bitcoin amount is the one he asked for and his Beldex amount the one she answered; each holds the
  other's signing key and both public halves of the other's secret scalar, and both the same view key
  (\<open>holds_public_keys\<close>); lock transaction, timelocks, addresses and fees are the same (\<open>same_swap\<close>), and both
  build the same cancel, refund, punish and redeem transactions (\<open>same_transactions\<close>). Assumed of the
  crates: CBOR reads back what it wrote (\<open>cbor_laws\<close>), and the cross-curve proof comes with the public
  keys of its scalar (\<open>dleq_laws\<close>).
\<close>

theorem connected_setup_agrees:
  assumes "cbor_laws C"
    and alice: "alice_setup_protocol T L D C wire_stream (\<lambda>btc. on_rest (snap btc)) M rand_a
        \<lparr>wi_in = from_bob, wi_out = [], wi_rest = u\<rparr> = (Ok (sid, a), \<lparr>wi_in = [], wi_out = from_alice, wi_rest = u'\<rparr>)"
    and bob: "bob_setup_protocol T L C wire_stream net (\<lambda>x n c. on_rest (send x n c)) (env_new tb fb gb) info rand_b
        \<lparr>wi_in = from_alice, wi_out = [], wi_rest = x\<rparr> = (Ok b, \<lparr>wi_in = [], wi_out = from_bob, wi_rest = x'\<rparr>)"
    and env: "mk_env_config M = env_new ta fa ga" and dleq: "dleq_laws L"
  shows "sid = ns_swap_id info \<and> ta = tb \<and> a3_btc a = ns_btc info \<and> a3_bdx a = b2_bdx b \<and>
    holds_public_keys L a b \<and> same_swap a b \<and> same_transactions L a b"
  using assms(1-3)
proof (rule connected_setup_run, goal_cases)
  case (1 snapshot bdx w1 w2)
  have "bitcoin_network (env_new ta fa ga) = bitcoin_network (env_new tb fb gb)"
    using validate_spot_price_OkD(4)[OF 1(1)] by (simp add: bob_request_def env)
  note net = env_new_network[OF this]
  note keys = setup_counterpart_keys[OF 1(2)] and agreed = setup_agreed_terms[OF 1(2)]
  have "same_swap a b" using agreed_terms_same_swap[OF keys agreed] net(2,3) by (simp add: env)
  moreover have "same_transactions L a b" using setup_same_transactions[OF 1(2)] net(2,3) by (simp add: env)
  moreover have "a3_btc a = ns_btc info" "a3_bdx a = b2_bdx b"
    using agreed by (simp_all add: agreed_terms_def bob_request_def)
  ultimately show ?case
    using 1(3) net(1) counterpart_keys_public[OF dleq keys] by blast
qed


section \<open>A connected run\<close>

text \<open>The sample parties of \<open>Sample_Library\<close>, with a CBOR that knows the seven messages of their run.\<close>

definition only :: "'a \<Rightarrow> 'a codec_of" where
  "only m = \<lparr>co_to_vec = (\<lambda>x. if x = m then Ok [1] else Err (External 7)),
     co_deserialize = (\<lambda>b. if b = [1] then Ok m else Err (External 8))\<rparr>"

lemma codec_laws_only [simp]: "codec_laws (only m)"
  by (simp add: codec_laws_def only_def)

definition sample_texts :: setup_texts where
  "sample_texts = \<lparr>tt_amount = (\<lambda>_. []), tt_networks = (\<lambda>_. []), tt_balance = (\<lambda>_. [])\<rparr>"

definition wire_maker :: "rat maker" where
  "wire_maker = \<lparr>mk_min_buy = 1000, mk_max_buy = 10000, mk_env_config = testnet_config,
     mk_latest_rate = Ok (rate_new 71428571 0), mk_resume_only = False\<rparr>"

definition wire_info :: new_swap where
  "wire_info = \<lparr>ns_swap_id = 77, ns_btc = 5000, ns_tx_refund_fee = 120, ns_tx_cancel_fee = 130,
     ns_bitcoin_refund_address = sample_address 13\<rparr>"

definition wire_snapshot :: wallet_snapshot where
  "wire_snapshot = \<lparr>ws_balance = sample_balance, ws_lock_fee = BELDEX_FEE, ws_redeem_address = sample_address 11,
     ws_punish_address = sample_address 12, ws_redeem_fee = 100, ws_punish_fee = 110\<rparr>"

definition alice_random :: setup_random where
  "alice_random = \<lparr>sr_key = 1, sr_view = 5, sr_secret = 3, sr_proof = 0\<rparr>"

definition bob_random :: setup_random where
  "bob_random = \<lparr>sr_key = 2, sr_view = 6, sr_secret = 4, sr_proof = 0\<rparr>"

definition frames :: "nat \<Rightarrow> bytes list" where
  "frames n = replicate n [1]"

lemma wire_first_states:
  "alice_first_state sample_lib testnet_config (bob_request testnet_config wire_info) (BdxAmount 70000)
     wire_snapshot alice_random = sample_alice0"
  "bob_first_state sample_lib testnet_config wire_info (BdxAmount 70000) bob_random = sample_bob0"
  by (simp_all add: alice_first_state_def bob_first_state_def bob_request_def wire_info_def wire_snapshot_def
      alice_random_def bob_random_def sample_alice0_def sample_bob0_def testnet_config_def)

lemma wire_price:
  "validate_spot_price exact_decimal wire_maker (bob_request testnet_config wire_info) wire_snapshot
     = Ok (Inr (BdxAmount 70000))"
proof -
  have "\<lfloor>5000000000000 / 71428571 :: rat\<rfloor> = 70000" by (simp add: floor_eq_iff)
  thus ?thesis by (simp add: validate_spot_price_def wire_maker_def wire_snapshot_def wire_info_def bob_request_def sample_balance_def
      sell_quote_def rate_ask_def rate_quote_def exact_decimal_def rate_new_def Let_def btc_add_def ONE_BTC_def
      ONE_BDX_def BDX_OFFSET_def from_atomic_def bdx_add_def BELDEX_FEE_def less_bdx_amount_def)
qed

lemma wire_steps [simp]:
  "wi_in w = [1] # rest \<Longrightarrow> read_cbor_message wire_stream (only m) w = (Ok m, w\<lparr>wi_in := rest\<rparr>)"
  "write_cbor_message wire_stream (only m) m w = (Ok (), w\<lparr>wi_out := wi_out w @ [[1]]\<rparr>)"
  "ss_flush wire_stream = ret ()" "ss_close wire_stream = ret ()"
  by (simp_all add: read_cbor_message_def write_cbor_message_def wire_stream_def wire_read_def wire_write_def
      only_def BUF_SIZE_def bindio_def context_io_def)


lemma wire_handlers:
  obtains C where "cbor_laws C"
    "alice_setup_protocol sample_texts sample_lib exact_decimal C wire_stream (\<lambda>btc. on_rest (ret wire_snapshot)) wire_maker
       alice_random \<lparr>wi_in = frames 4, wi_out = [], wi_rest = ()\<rparr>
     = (Ok (77, sample_alice3), \<lparr>wi_in = [], wi_out = frames 3, wi_rest = ()\<rparr>)"
    "bob_setup_protocol sample_texts sample_lib C wire_stream Testnet (\<lambda>a n c. on_rest (sample_send a n c)) testnet_config
       wire_info bob_random \<lparr>wi_in = frames 3, wi_out = [], wi_rest = ()\<rparr>
     = (Ok sample_bob2, \<lparr>wi_in = [], wi_out = frames 4, wi_rest = ()\<rparr>)"
proof -
  obtain sid a1 b1 a2 m3 m4 where run:
    "alice_state0_receive sample_lib sample_alice0 (bob_state0_next_message sample_bob0) = Ok (sid, a1)"
    "bob_state0_receive sample_lib Testnet sample_send sample_bob0 (alice_state1_next_message a1) () = (Ok b1, ())"
    "alice_state1_receive sample_lib a1 (bob_state1_next_message b1) = Ok a2"
    "alice_state2_next_message sample_lib a2 = Ok m3" "bob_state1_receive sample_lib b1 m3 = Ok sample_bob2"
    "bob_state2_next_message sample_lib sample_bob2 = Ok m4" "alice_state2_receive sample_lib a2 m4 = Ok sample_alice3"
    using sample_setup_ok by (elim setup_run_OkD)
  have sid: "sid = 77"
    using alice_state0_receive_OkD(1)[OF run(1)]
    by (simp add: bob_state0_next_message_def sample_bob0_def bob_state0_new_def)
  define C where "C = \<lparr>cb_request = only (bob_request testnet_config wire_info),
    cb_response = only (PriceBeldex (BdxAmount 70000)), cb_message0 = only (bob_state0_next_message sample_bob0),
    cb_message1 = only (alice_state1_next_message a1), cb_message2 = only (bob_state1_next_message b1),
    cb_message3 = only m3, cb_message4 = only m4\<rparr>"
  have "cbor_laws C" by (simp add: cbor_laws_def C_def)
  moreover have "alice_setup_protocol sample_texts sample_lib exact_decimal C wire_stream (\<lambda>btc. on_rest (ret wire_snapshot))
       wire_maker alice_random \<lparr>wi_in = frames 4, wi_out = [], wi_rest = ()\<rparr>
     = (Ok (77, sample_alice3), \<lparr>wi_in = [], wi_out = frames 3, wi_rest = ()\<rparr>)"
    using run wire_price wire_first_states(1)
    by (simp add: alice_setup_protocol_def bindio_def context_io_def C_def frames_def numeral_eq_Suc on_rest_rules
        from_result_ref_def alice_first_state_def wire_maker_def sid)
  moreover have "bob_setup_protocol sample_texts sample_lib C wire_stream Testnet (\<lambda>a n c. on_rest (sample_send a n c))
       testnet_config wire_info bob_random \<lparr>wi_in = frames 3, wi_out = [], wi_rest = ()\<rparr>
     = (Ok sample_bob2, \<lparr>wi_in = [], wi_out = frames 4, wi_rest = ()\<rparr>)"
    using run wire_first_states(2)
    by (simp add: bob_setup_protocol_def bindio_def C_def frames_def numeral_eq_Suc bob_state0_receive_on_rest
        on_rest_def result_from_response_def bob_first_state_def bob_request_def)
  ultimately show thesis by (rule that)
qed

theorem connected_setup_agrees_witness:
  "77 = ns_swap_id wire_info \<and> a3_btc sample_alice3 = ns_btc wire_info \<and> a3_bdx sample_alice3 = b2_bdx sample_bob2 \<and>
    holds_public_keys sample_lib sample_alice3 sample_bob2 \<and> same_swap sample_alice3 sample_bob2 \<and>
    same_transactions sample_lib sample_alice3 sample_bob2"
proof -
  have env: "testnet_config = env_new True None None" by (simp add: env_new_def)
  obtain C where C: "cbor_laws C"
    "alice_setup_protocol sample_texts sample_lib exact_decimal C wire_stream (\<lambda>btc. on_rest (ret wire_snapshot)) wire_maker
       alice_random \<lparr>wi_in = frames 4, wi_out = [], wi_rest = ()\<rparr>
     = (Ok (77, sample_alice3), \<lparr>wi_in = [], wi_out = frames 3, wi_rest = ()\<rparr>)"
    "bob_setup_protocol sample_texts sample_lib C wire_stream Testnet (\<lambda>a n c. on_rest (sample_send a n c))
       (env_new True None None) wire_info bob_random \<lparr>wi_in = frames 3, wi_out = [], wi_rest = ()\<rparr>
     = (Ok sample_bob2, \<lparr>wi_in = [], wi_out = frames 4, wi_rest = ()\<rparr>)"
    using wire_handlers unfolding env by metis
  have "mk_env_config wire_maker = env_new True None None" by (simp add: wire_maker_def env)
  from connected_setup_agrees[OF C this sample_dleq_laws] show ?thesis by blast
qed


section \<open>What the setup lets through\<close>

text \<open>
  C40: when Alice's handler completes, she is not in resume-only mode, the request she read named her own
  networks and the bitcoin amount of the swap, that amount is within her configured limits, the Beldex
  amount is the sell quote of her current rate for it, and the unlocked balance of the snapshot she took for
  the request covers that amount and the lock fee; she redeems and punishes to the addresses of that
  snapshot, with the timelocks of her own configuration. Whatever Bob sends, she never agrees to a swap
  outside her own terms.
\<close>

theorem alice_setup_within_limits:
  assumes "alice_setup_protocol T L D C S snap M rand w = (Ok (sid, a), w')"
  shows "\<not> mk_resume_only M \<and> mk_min_buy M \<le> a3_btc a \<and> a3_btc a \<le> mk_max_buy M \<and>
    (\<exists>rate. mk_latest_rate M = Ok rate \<and> sell_quote D rate (a3_btc a) = Ok (a3_bdx a)) \<and>
    (\<exists>request w1 snapshot w2. read_cbor_message S (cb_request C) w = (Ok request, w1) \<and>
       spr_btc request = a3_btc a \<and>
       spr_blockchain_network request =
         \<lparr>bn_bitcoin = bitcoin_network (mk_env_config M), bn_beldex = beldex_network (mk_env_config M)\<rparr> \<and>
       snap (a3_btc a) w1 = (Ok snapshot, w2) \<and>
       bdx_add (a3_bdx a) (ws_lock_fee snapshot) \<le> from_atomic (gb_unlocked_balance (ws_balance snapshot)) \<and>
       a3_redeem_address a = ws_redeem_address snapshot \<and> a3_punish_address a = ws_punish_address snapshot) \<and>
    a3_cancel_timelock a = bitcoin_cancel_timelock (mk_env_config M) \<and>
    a3_punish_timelock a = bitcoin_punish_timelock (mk_env_config M)"
  using assms
proof (rule alice_setup_protocol_OkD, goal_cases)
  case (1 request w1 snapshot w2 bdx w4 m0 w5 a1 w6 m2 w7 a2 m3 w8 m4 w9 w10)
  note f = alice_state0_receive_OkD[OF 1(6)] alice_state1_receive_OkD[OF 1(9)] alice_state2_receive_OkD[OF 1(13)]
  have a: "a3_btc a = spr_btc request" "a3_bdx a = bdx" "a3_redeem_address a = ws_redeem_address snapshot"
    "a3_punish_address a = ws_punish_address snapshot"
    "a3_cancel_timelock a = bitcoin_cancel_timelock (mk_env_config M)"
    "a3_punish_timelock a = bitcoin_punish_timelock (mk_env_config M)"
    by (simp_all add: f alice_state0_new_def Let_def split: prod.splits)
  show ?case using validate_spot_price_OkD[OF 1(3)] 1(1,2) unfolding a by blast
qed

text \<open>The same run, for what Alice's handler lets through.\<close>

theorem alice_setup_within_limits_witness:
  "\<not> mk_resume_only wire_maker \<and> mk_min_buy wire_maker \<le> a3_btc sample_alice3 \<and>
    a3_btc sample_alice3 \<le> mk_max_buy wire_maker \<and>
    (\<exists>rate. mk_latest_rate wire_maker = Ok rate \<and>
       sell_quote exact_decimal rate (a3_btc sample_alice3) = Ok (a3_bdx sample_alice3)) \<and>
    a3_cancel_timelock sample_alice3 = bitcoin_cancel_timelock testnet_config"
proof -
  obtain C where C: "alice_setup_protocol sample_texts sample_lib exact_decimal C wire_stream (\<lambda>btc. on_rest (ret wire_snapshot))
       wire_maker alice_random \<lparr>wi_in = frames 4, wi_out = [], wi_rest = ()\<rparr>
     = (Ok (77, sample_alice3), \<lparr>wi_in = [], wi_out = frames 3, wi_rest = ()\<rparr>)"
    by (rule wire_handlers)
  show ?thesis using alice_setup_within_limits[OF C] by (simp add: wire_maker_def)
qed

end
