(* ===== verification/Event_Log.thy ===== *)
theory Event_Log
  imports Prelude "HOL-Library.Sublist"
begin

text \<open>
  Event loops. The world of a loop is what the parties around it keep, of any type, and the log of
  what happened: the events the loop was given and every call and reply. \<open>machine_steps\<close> closes an
  abstract machine whose steps are labelled with pieces of the log; \<open>follows_by\<close> says that the code
  appends the log of such a run, \<open>quiet_io\<close> that it appends only entries the machine does not speak
  of. The locale \<open>event_machine\<close> is what a machine must allow for this: quiet entries are a step.
\<close>

section \<open>The world of an event loop\<close>

record ('e, 'v) event_world =
  aw_log :: "'e list"
  aw_ext :: 'v

definition act :: "('a outcome \<Rightarrow> 'e) \<Rightarrow> ('v \<Rightarrow> 'a outcome \<times> 'v) \<Rightarrow> (('e, 'v) event_world, 'a) io" where
  "act mk f = (\<lambda>w. case f (aw_ext w) of (r, v) \<Rightarrow> (r, w\<lparr>aw_log := aw_log w @ [mk r], aw_ext := v\<rparr>))"

text \<open>A call that cannot fail, and one whose failure is only logged.\<close>

definition act_sure :: "('a \<Rightarrow> 'e) \<Rightarrow> ('v \<Rightarrow> 'a \<times> 'v) \<Rightarrow> (('e, 'v) event_world, 'a) io" where
  "act_sure mk f = (\<lambda>w. case f (aw_ext w) of (x, v) \<Rightarrow> (Ok x, w\<lparr>aw_log := aw_log w @ [mk x], aw_ext := v\<rparr>))"

definition note_act :: "'e \<Rightarrow> (('e, 'v) event_world, unit) io" where
  "note_act a = (\<lambda>w. (Ok (), w\<lparr>aw_log := aw_log w @ [a]\<rparr>))"

lemma attempt_act_OkD:
  assumes "attempt (act mk f) w = (Ok r, w')"
  shows "\<exists>v. aw_log w' = aw_log w @ [mk (case r of Inl e \<Rightarrow> Err e | Inr x \<Rightarrow> Ok x)] \<and> aw_ext w' = v"
  using assms by (auto simp: attempt_def act_def split: prod.splits outcome.splits)

lemma note_act_eq: "note_act a w = (Ok (), w\<lparr>aw_log := aw_log w @ [a]\<rparr>)"
  by (simp add: note_act_def)

lemma act_sure_OkD: "act_sure mk f w = (Ok x, w') \<Longrightarrow> aw_log w' = aw_log w @ [mk x]"
  by (auto simp: act_sure_def split: prod.splits)

lemma case_sum_eq_Ok: "(case x of Inl e \<Rightarrow> f e | Inr y \<Rightarrow> g y) w = r \<longleftrightarrow>
    (\<exists>e. x = Inl e \<and> f e w = r) \<or> (\<exists>y. x = Inr y \<and> g y w = r)"
  by (cases x) auto

lemma case_option_eq_Ok: "(case x of None \<Rightarrow> f | Some y \<Rightarrow> g y) w = r \<longleftrightarrow>
    (x = None \<and> f w = r) \<or> (\<exists>y. x = Some y \<and> g y w = r)"
  by (cases x) auto

lemma sublist_extend: "sublist xs ys \<Longrightarrow> sublist xs (ys @ zs)" "sublist xs zs \<Longrightarrow> sublist xs (ys @ zs)"
  by (simp_all add: sublist_append)

section \<open>Machines on logs\<close>

inductive machine_steps :: "('s \<Rightarrow> 'e list \<Rightarrow> 's \<Rightarrow> bool) \<Rightarrow> 's \<Rightarrow> 'e list \<Rightarrow> 's \<Rightarrow> bool"
  for step where
  stop: "machine_steps step st [] st"
| more: "step st evs st1 \<Longrightarrow> machine_steps step st1 evs' st2 \<Longrightarrow> machine_steps step st (evs @ evs') st2"

lemma machine_steps_one: "step st evs st' \<Longrightarrow> machine_steps step st evs st'"
  using machine_steps.more[OF _ machine_steps.stop] by simp

lemma machine_steps_trans:
  "machine_steps step st evs st1 \<Longrightarrow> machine_steps step st1 evs' st2 \<Longrightarrow> machine_steps step st (evs @ evs') st2"
  by (induction rule: machine_steps.induct) (auto intro: machine_steps.more)

text \<open>An invariant of every step is one of every run.\<close>

lemma machine_steps_invariant:
  assumes "machine_steps step st evs st'" "I st past"
    and "\<And>st evs st' past. step st evs st' \<Longrightarrow> I st past \<Longrightarrow> I st' (past @ evs)"
  shows "I st' (past @ evs)"
  using assms(1,2)
proof (induction arbitrary: past rule: machine_steps.induct)
  case (more st evs st1 evs' st2)
  show ?case using more.IH[OF assms(3)[OF more.hyps(1) more.prems]] by simp
qed simp

definition follows_by :: "('s \<Rightarrow> 'e list \<Rightarrow> 's \<Rightarrow> bool) \<Rightarrow> 's \<Rightarrow> (('e, 'v) event_world, 's) io \<Rightarrow> bool" where
  "follows_by step st m \<longleftrightarrow> (\<forall>w st' w'. m w = (Ok st', w') \<longrightarrow>
     (\<exists>evs. aw_log w' = aw_log w @ evs \<and> machine_steps step st evs st'))"

text \<open>
  Code that keeps \<open>P\<close> of what the parties keep and appends only entries with \<open>Q\<close>; \<open>quiet_io\<close> without the
  first.
\<close>

definition sustains :: "('v \<Rightarrow> bool) \<Rightarrow> ('e \<Rightarrow> bool) \<Rightarrow> (('e, 'v) event_world, 'a) io \<Rightarrow> bool" where
  "sustains P Q m \<longleftrightarrow> (\<forall>w. P (aw_ext w) \<longrightarrow> P (aw_ext (snd (m w))) \<and>
     (\<exists>evs. aw_log (snd (m w)) = aw_log w @ evs \<and> list_all Q evs))"

abbreviation quiet_io :: "('e \<Rightarrow> bool) \<Rightarrow> (('e, 'v) event_world, 'a) io \<Rightarrow> bool" where
  "quiet_io quiet \<equiv> sustains (\<lambda>_. True) quiet"

lemma followsD: "follows_by step st m \<Longrightarrow> m w = (Ok st', w') \<Longrightarrow>
    \<exists>evs. aw_log w' = aw_log w @ evs \<and> machine_steps step st evs st'"
  by (simp add: follows_by_def)

lemma sustainsD: "sustains P Q m \<Longrightarrow> m w = (r, w') \<Longrightarrow> P (aw_ext w) \<Longrightarrow>
    P (aw_ext w') \<and> (\<exists>evs. aw_log w' = aw_log w @ evs \<and> list_all Q evs)"
  unfolding sustains_def by (metis snd_conv)

lemma quiet_ioD: "quiet_io quiet m \<Longrightarrow> m w = (r, w') \<Longrightarrow> \<exists>evs. aw_log w' = aw_log w @ evs \<and> list_all quiet evs"
  using sustainsD by blast

named_theorems quiet_rules \<open>introduction rules for \<open>sustains\<close>\<close>

lemma sustains_ret [quiet_rules]: "sustains P Q (ret x)"
  by (simp add: sustains_def)

lemma sustains_lift [quiet_rules]: "sustains P Q (lift x)"
  by (simp add: sustains_def)

lemma sustains_act: "(\<And>v. P v \<Longrightarrow> P (snd (f v)) \<and> Q (mk (fst (f v)))) \<Longrightarrow> sustains P Q (act mk f)"
  by (force simp: sustains_def act_def split: prod.splits)

lemma sustains_act_sure: "(\<And>v. P v \<Longrightarrow> P (snd (f v)) \<and> Q (mk (fst (f v)))) \<Longrightarrow> sustains P Q (act_sure mk f)"
  by (force simp: sustains_def act_sure_def split: prod.splits)

lemma quiet_act_io [quiet_rules]: "(\<And>r. quiet (mk r)) \<Longrightarrow> quiet_io quiet (act mk f)"
  by (simp add: sustains_act)

lemma sustains_note [quiet_rules]: "Q a \<Longrightarrow> sustains P Q (note_act a)"
  by (simp add: sustains_def note_act_def)

lemma sustains_attempt [quiet_rules]: "sustains P Q m \<Longrightarrow> sustains P Q (attempt m)"
proof -
  have "snd (attempt m w) = snd (m w)" for w by (simp add: attempt_def split: prod.splits outcome.splits)
  thus "sustains P Q m \<Longrightarrow> sustains P Q (attempt m)" by (simp add: sustains_def)
qed

lemma sustains_bindio [quiet_rules]:
  fixes m :: "(('e, 'v) event_world, 'a) io"
  assumes m: "sustains P Q m" and f: "\<And>x. sustains P Q (f x)"
  shows "sustains P Q (bindio m f)"
  unfolding sustains_def
proof (intro allI impI)
  fix w :: "('e, 'v) event_world" assume P: "P (aw_ext w)"
  obtain r w1 where mw: "m w = (r, w1)" by fastforce
  obtain evs where evs: "aw_log w1 = aw_log w @ evs" "list_all Q evs" "P (aw_ext w1)" using sustainsD[OF m mw P] by blast
  show "P (aw_ext (snd (bindio m f w))) \<and> (\<exists>evs. aw_log (snd (bindio m f w)) = aw_log w @ evs \<and> list_all Q evs)"
  proof (cases r)
    case (Ok x)
    obtain r' w2 where fw: "f x w1 = (r', w2)" by fastforce
    obtain evs' where "aw_log w2 = aw_log w1 @ evs'" "list_all Q evs'" "P (aw_ext w2)"
      using sustainsD[OF f fw evs(3)] by blast
    thus ?thesis using evs by (auto simp: bindio_def mw Ok fw intro!: exI[of _ "evs @ evs'"])
  qed (use evs in \<open>auto simp: bindio_def mw\<close>)
qed

lemma sustains_cases [quiet_rules]:
  "(\<And>x. sustains P Q (f1 x)) \<Longrightarrow> (\<And>y. sustains P Q (g1 y)) \<Longrightarrow>
     sustains P Q (case r of Inl x \<Rightarrow> f1 x | Inr y \<Rightarrow> g1 y)"
  "sustains P Q f3 \<Longrightarrow> (\<And>y. sustains P Q (g3 y)) \<Longrightarrow> sustains P Q (case z of None \<Rightarrow> f3 | Some y \<Rightarrow> g3 y)"
  "(\<And>x y. sustains P Q (f2 x y)) \<Longrightarrow> sustains P Q (case p of (x, y) \<Rightarrow> f2 x y)"
  "b \<Longrightarrow> sustains P Q m1 \<Longrightarrow> sustains P Q (if b then m1 else m2)"
  "sustains P Q m1 \<Longrightarrow> sustains P Q m2 \<Longrightarrow> sustains P Q (if b' then m1 else m2)"
  by (simp_all split: sum.splits prod.splits option.splits)

lemma follows_ret [simp]: "follows_by step st (ret st)"
  by (auto simp: follows_by_def intro: machine_steps.stop)

lemma follows_by_bindio:
  assumes "follows_by step st m" "\<And>st1. follows_by step st1 (f st1)"
  shows "follows_by step st (bindio m f)"
  unfolding follows_by_def
proof safe
  fix w st' w'
  assume "bindio m f w = (Ok st', w')"
  then obtain st1 w1 where *: "m w = (Ok st1, w1)" "f st1 w1 = (Ok st', w')" by (auto simp: bindio_eq_Ok)
  obtain e1 where e1: "aw_log w1 = aw_log w @ e1" "machine_steps step st e1 st1" using followsD[OF assms(1) *(1)] by blast
  obtain e2 where e2: "aw_log w' = aw_log w1 @ e2" "machine_steps step st1 e2 st'" using followsD[OF assms(2) *(2)] by blast
  show "\<exists>evs. aw_log w' = aw_log w @ evs \<and> machine_steps step st evs st'"
    using e1 e2 machine_steps_trans[OF e1(2) e2(2)] by (intro exI[of _ "e1 @ e2"]) simp
qed

lemma follows_case_sum:
  "(\<And>x. follows_by step st (f x)) \<Longrightarrow> (\<And>y. follows_by step st (g y)) \<Longrightarrow>
   follows_by step st (case r of Inl x \<Rightarrow> f x | Inr y \<Rightarrow> g y)"
  by (simp split: sum.splits)

lemma follows_by_prefix:
  assumes "\<And>w st' w'. m w = (Ok st', w') \<Longrightarrow> \<exists>evs. aw_log w' = aw_log w @ evs \<and> machine_steps step st (e # evs) st'"
  shows "follows_by step st (bindio (note_act e) (\<lambda>_. m))"
  unfolding follows_by_def
proof safe
  fix w st' w'
  assume "bindio (note_act e) (\<lambda>_. m) w = (Ok st', w')"
  hence "m (w\<lparr>aw_log := aw_log w @ [e]\<rparr>) = (Ok st', w')" by (simp add: bindio_def note_act_eq)
  from assms[OF this] show "\<exists>evs. aw_log w' = aw_log w @ evs \<and> machine_steps step st evs st'" by auto
qed

text \<open>
  The contract of a machine: \<open>same\<close> is what it does not see of the state, and entries it does not
  speak of change nothing it sees.
\<close>

locale event_machine =
  fixes step :: "'s \<Rightarrow> 'e list \<Rightarrow> 's \<Rightarrow> bool" and quiet :: "'e \<Rightarrow> bool" and same :: "'s \<Rightarrow> 's \<Rightarrow> bool"
  assumes quiet_step: "list_all quiet evs \<Longrightarrow> same st st' \<Longrightarrow> step st evs st'"
    and same_refl: "same st st"
begin

lemma follows_quiet_then:
  assumes "quiet_io quiet m" "\<And>x. follows_by step st (f x)"
  shows "follows_by step st (bindio m f)"
  unfolding follows_by_def
proof safe
  fix w st' w'
  assume "bindio m f w = (Ok st', w')"
  then obtain x w1 where *: "m w = (Ok x, w1)" "f x w1 = (Ok st', w')" by (auto simp: bindio_eq_Ok)
  obtain e1 where e1: "aw_log w1 = aw_log w @ e1" "list_all quiet e1" using quiet_ioD[OF assms(1) *(1)] by blast
  obtain e2 where e2: "aw_log w' = aw_log w1 @ e2" "machine_steps step st e2 st'" using followsD[OF assms(2) *(2)] by blast
  have "machine_steps step st (e1 @ e2) st'"
    using e1(2) e2(2) by (intro machine_steps.more[where step = step, OF quiet_step]) (simp_all add: same_refl)
  thus "\<exists>evs. aw_log w' = aw_log w @ evs \<and> machine_steps step st evs st'" using e1 e2 by auto
qed

lemma follows_same: "same st st' \<Longrightarrow> follows_by step st (ret st')"
  using machine_steps_one[where step = step, OF quiet_step[of "[]"]] by (simp add: follows_by_def)

end

end
