(* ===== verification/Asb_Loop.thy ===== *)
theory Asb_Loop
  imports Swap_Setup Event_Log
begin

text \<open>
  The event loop of the ASB: \<open>EventLoop\<close> of \<open>asb/event_loop.rs\<close>, with \<open>run\<close>, \<open>new_handle\<close> and
  \<open>handle_execution_setup_done\<close>. The parties the loop talks to (the libp2p swarm, the wallets, the
  database, the queues to the running swaps) are the record \<open>asb_env\<close>, a function per call on an
  external state \<open>'v\<close>. The world records what happened: the events that \<open>select!\<close> delivered and
  every answer, reply and message, in order. Channels, responders and request ids are numbers; a
  handle of a swap is the number of its \<open>new_handle\<close>.
\<close>

section \<open>Events and the log\<close>

type_synonym channel = nat
type_synonym responder = nat
type_synonym request_id = nat
type_synonym handle = nat

record proof_request =
  tpr_swap_id :: uuid
  tpr_tx_lock_proof :: transfer_proof

text \<open>
  The events of the swarm. The variants on which the loop only logs are \<open>SwapDeclined\<close>, \<open>NetFailure\<close>
  and \<open>OtherSwarmEvent\<close> (rendezvous, connection errors, closed connections, new addresses).
  \<open>SwapSetupInitiated\<close> carries what \<open>recv\<close> on its request gives.
\<close>

datatype swarm_event =
    SwapSetupInitiated "(btc_amount \<times> responder) outcome"
  | SwapSetupCompleted peer_id uuid alice_state3
  | SwapDeclined peer_id setup_error
  | QuoteRequested channel peer_id
  | TransferProofAcknowledged peer_id request_id
  | EncryptedSignatureReceived uuid encsig channel peer_id
  | CooperativeBeldexRedeemRequested channel uuid peer_id
  | NetFailure peer_id error
  | ConnectionEstablished peer_id
  | OtherSwarmEvent

text \<open>
  What \<open>select!\<close> delivers: an event of the swarm; the result of the \<open>k\<close>-th future in \<open>send_transfer_proof\<close>;
  the completion of the \<open>k\<close>-th future in \<open>inflight_encrypted_signatures\<close>. The two futures that are
  never ready, and keep the streams from ending, have no number.
\<close>

datatype asb_event =
    SwarmEvent swarm_event
  | NextTransferProof nat "(transfer_proof \<times> responder) outcome"
  | NextEncryptedSignature nat

datatype asb_act =
    Happened asb_event
  | GotAll "(uuid \<times> swap_state) list outcome"
  | GotPeer uuid "peer_id outcome"
  | GotState uuid "swap_state outcome"
  | PutPeer uuid peer_id "unit outcome"
  | OpenedHandle handle peer_id uuid
  | SentSwap uuid handle alice_state "unit outcome"
  | GotLatestRate
  | GotBalance
  | GotAddress
  | GotFee nat
  | RepliedSnapshot responder wallet_snapshot
  | RepliedQuote channel bid_quote
  | RelayedEncsig handle encsig "responder outcome"
  | RepliedEncsig channel
  | RepliedCoop channel coop_response
  | ProofReady peer_id proof_request responder
  | AskedConnected peer_id bool
  | SentProof peer_id proof_request request_id
  | RespondedProof responder

type_synonym 'v asb_world = "(asb_act, 'v) event_world"

record ('d, 'v) asb_env =
  ae_decimal :: "'d decimal"
  ae_min_buy :: btc_amount
  ae_max_buy :: btc_amount
  ae_external_redeem_address :: "address option"
  ae_all :: "'v \<Rightarrow> (uuid \<times> swap_state) list outcome \<times> 'v"
  ae_get_peer_id :: "uuid \<Rightarrow> 'v \<Rightarrow> peer_id outcome \<times> 'v"
  ae_get_state :: "uuid \<Rightarrow> 'v \<Rightarrow> swap_state outcome \<times> 'v"
  ae_insert_peer_id :: "uuid \<Rightarrow> peer_id \<Rightarrow> 'v \<Rightarrow> unit outcome \<times> 'v"
  ae_send_swap :: "uuid \<Rightarrow> handle \<Rightarrow> alice_state \<Rightarrow> 'v \<Rightarrow> unit outcome \<times> 'v"
  ae_latest_rate :: "'v \<Rightarrow> 'd rate outcome \<times> 'v"
  ae_get_balance :: "'v \<Rightarrow> get_balance outcome \<times> 'v"
  ae_new_address :: "'v \<Rightarrow> address outcome \<times> 'v"
  ae_estimate_fee :: "nat \<Rightarrow> btc_amount \<Rightarrow> 'v \<Rightarrow> btc_amount outcome \<times> 'v"
  ae_respond_snapshot :: "responder \<Rightarrow> wallet_snapshot \<Rightarrow> 'v \<Rightarrow> unit outcome \<times> 'v"
  ae_respond_quote :: "channel \<Rightarrow> bid_quote \<Rightarrow> 'v \<Rightarrow> unit outcome \<times> 'v"
  ae_send_encsig :: "handle \<Rightarrow> encsig \<Rightarrow> 'v \<Rightarrow> responder outcome \<times> 'v"
  ae_respond_encsig :: "channel \<Rightarrow> 'v \<Rightarrow> unit outcome \<times> 'v"
  ae_respond_coop :: "channel \<Rightarrow> coop_response \<Rightarrow> 'v \<Rightarrow> unit outcome \<times> 'v"
  ae_is_connected :: "peer_id \<Rightarrow> 'v \<Rightarrow> bool \<times> 'v"
  ae_send_proof :: "peer_id \<Rightarrow> proof_request \<Rightarrow> 'v \<Rightarrow> request_id \<times> 'v"
  ae_respond_proof :: "responder \<Rightarrow> 'v \<Rightarrow> unit outcome \<times> 'v"

section \<open>The state of the loop\<close>

text \<open>
  The maps and sets of futures of \<open>EventLoop\<close>. A future in \<open>send_transfer_proof\<close> is the handle it
  receives from with the peer and the swap it captured; one in \<open>inflight_encrypted_signatures\<close> is the
  responder it waits for and the channel it gives back. \<open>al_next_handle\<close> numbers the handles.
\<close>

record asb_loop =
  al_recv_encrypted_signature :: "uuid \<rightharpoonup> handle"
  al_inflight_encrypted_signatures :: "(responder \<times> channel) list"
  al_send_transfer_proof :: "(handle \<times> peer_id \<times> uuid) list"
  al_buffered_transfer_proofs :: "peer_id \<rightharpoonup> (proof_request \<times> responder) list"
  al_inflight_transfer_proofs :: "request_id \<rightharpoonup> responder"
  al_next_handle :: handle

definition asb_loop_new :: asb_loop where
  "asb_loop_new = \<lparr>al_recv_encrypted_signature = Map.empty, al_inflight_encrypted_signatures = [],
     al_send_transfer_proof = [], al_buffered_transfer_proofs = Map.empty,
     al_inflight_transfer_proofs = Map.empty, al_next_handle = 0\<rparr>"

definition remove_nth :: "nat \<Rightarrow> 'a list \<Rightarrow> 'a list" where
  "remove_nth k xs = take k xs @ drop (Suc k) xs"

section \<open>Handles and swaps\<close>

definition asb_new_handle :: "peer_id \<Rightarrow> uuid \<Rightarrow> asb_loop \<Rightarrow> ('v asb_world, handle \<times> asb_loop) io" where
  "asb_new_handle peer swap_id st =
     (let h = al_next_handle st in
      bindio (note_act (OpenedHandle h peer swap_id)) (\<lambda>_.
      ret (h, st\<lparr>al_recv_encrypted_signature := (al_recv_encrypted_signature st)(swap_id \<mapsto> h),
                 al_send_transfer_proof := al_send_transfer_proof st @ [(h, peer, swap_id)],
                 al_next_handle := Suc h\<rparr>)))"

definition handle_execution_setup_done ::
  "('d, 'v) asb_env \<Rightarrow> peer_id \<Rightarrow> uuid \<Rightarrow> alice_state3 \<Rightarrow> asb_loop \<Rightarrow> ('v asb_world, asb_loop) io" where
  "handle_execution_setup_done E bob_peer_id swap_id state3 st =
     bindio (asb_new_handle bob_peer_id swap_id st) (\<lambda>(h, st).
     bindio (attempt (act (PutPeer swap_id bob_peer_id) (ae_insert_peer_id E swap_id bob_peer_id))) (\<lambda>r.
     case r of
       Inl error \<Rightarrow> ret st
     | Inr _ \<Rightarrow>
         bindio (attempt (act (SentSwap swap_id h (AStarted state3)) (ae_send_swap E swap_id h (AStarted state3)))) (\<lambda>_.
         ret st)))"

definition resume_swap ::
  "('d, 'v) asb_env \<Rightarrow> uuid \<times> swap_state \<Rightarrow> asb_loop \<Rightarrow> ('v asb_world, asb_loop) io" where
  "resume_swap E = (\<lambda>(swap_id, state) st.
     bindio (attempt (act (GotPeer swap_id) (ae_get_peer_id E swap_id))) (\<lambda>r.
     case r of
       Inl _ \<Rightarrow> ret st
     | Inr peer_id \<Rightarrow>
         bindio (asb_new_handle peer_id swap_id st) (\<lambda>(h, st).
         bindio (lift (case state of SAlice a \<Rightarrow> Ok a | SBob _ \<Rightarrow> Panic ''Alice state loaded from db'')) (\<lambda>a.
         bindio (attempt (act (SentSwap swap_id h a) (ae_send_swap E swap_id h a))) (\<lambda>_.
         ret st)))))"

primrec resume_swaps ::
  "('d, 'v) asb_env \<Rightarrow> (uuid \<times> swap_state) list \<Rightarrow> asb_loop \<Rightarrow> ('v asb_world, asb_loop) io" where
  "resume_swaps E [] st = ret st"
| "resume_swaps E (s # ss) st = bindio (resume_swap E s st) (resume_swaps E ss)"

text \<open>\<open>run\<close> before its loop; \<open>None\<close> when it returns because the swaps could not be loaded.\<close>

definition asb_startup :: "('d, 'v) asb_env \<Rightarrow> asb_loop \<Rightarrow> ('v asb_world, asb_loop option) io" where
  "asb_startup E st =
     bindio (attempt (act GotAll (ae_all E))) (\<lambda>r.
     case r of
       Inl e \<Rightarrow> ret None
     | Inr swaps \<Rightarrow>
         bindio (resume_swaps E (filter (\<lambda>(_, state). \<not> swap_finished state) swaps) st) (\<lambda>st. ret (Some st)))"

section \<open>The arms of the swarm's events\<close>

definition asb_setup_initiated ::
  "('d, 'v) asb_env \<Rightarrow> (btc_amount \<times> responder) outcome \<Rightarrow> ('v asb_world, unit) io" where
  "asb_setup_initiated E received =
     bindio (attempt (lift received)) (\<lambda>r.
     case r of
       Inl error \<Rightarrow> ret ()
     | Inr (btc, responder) \<Rightarrow>
         bindio (attempt (wallet_snapshot_capture (act (\<lambda>_. GotBalance) (ae_get_balance E))
             (act (\<lambda>_. GotAddress) (ae_new_address E))
             (\<lambda>weight amount. act (\<lambda>_. GotFee weight) (ae_estimate_fee E weight amount))
             (ae_external_redeem_address E) btc)) (\<lambda>r.
         case r of
           Inl error \<Rightarrow> ret ()
         | Inr snapshot \<Rightarrow>
             bindio (attempt (act (\<lambda>_. RepliedSnapshot responder snapshot)
                (ae_respond_snapshot E responder snapshot))) (\<lambda>_. ret ())))"

definition asb_quote_requested :: "('d, 'v) asb_env \<Rightarrow> channel \<Rightarrow> ('v asb_world, unit) io" where
  "asb_quote_requested E ch =
     bindio (attempt (bindio (attempt (act (\<lambda>_. GotLatestRate) (ae_latest_rate E))) (\<lambda>latest.
        make_quote (ae_decimal E) (case latest of Inl e \<Rightarrow> Err e | Inr r \<Rightarrow> Ok r)
          (act (\<lambda>_. GotBalance) (ae_get_balance E)) (ae_min_buy E) (ae_max_buy E)))) (\<lambda>r.
     case r of
       Inl error \<Rightarrow> ret ()
     | Inr quote \<Rightarrow> bindio (attempt (act (\<lambda>_. RepliedQuote ch quote) (ae_respond_quote E ch quote))) (\<lambda>_. ret ()))"

definition asb_proof_acknowledged :: "('d, 'v) asb_env \<Rightarrow> request_id \<Rightarrow> asb_loop \<Rightarrow> ('v asb_world, asb_loop) io" where
  "asb_proof_acknowledged E i st = (case al_inflight_transfer_proofs st i of
     Some responder \<Rightarrow>
       bindio (attempt (act (\<lambda>_. RespondedProof responder) (ae_respond_proof E responder))) (\<lambda>_.
       ret (st\<lparr>al_inflight_transfer_proofs := (al_inflight_transfer_proofs st)(i := None)\<rparr>))
   | None \<Rightarrow> ret st)"

definition asb_encsig_received ::
  "('d, 'v) asb_env \<Rightarrow> uuid \<Rightarrow> encsig \<Rightarrow> channel \<Rightarrow> peer_id \<Rightarrow> asb_loop \<Rightarrow> ('v asb_world, asb_loop) io" where
  "asb_encsig_received E swap_id tx_redeem_encsig ch peer st =
     bindio (attempt (act (GotPeer swap_id) (ae_get_peer_id E swap_id))) (\<lambda>r.
     case r of
       Inl _ \<Rightarrow> ret st
     | Inr swap_peer \<Rightarrow>
         if swap_peer \<noteq> peer then ret st
         else (case al_recv_encrypted_signature st swap_id of
             None \<Rightarrow> ret st
           | Some sender \<Rightarrow>
               let st = st\<lparr>al_recv_encrypted_signature := (al_recv_encrypted_signature st)(swap_id := None)\<rparr> in
               bindio (attempt (act (RelayedEncsig sender tx_redeem_encsig)
                 (ae_send_encsig E sender tx_redeem_encsig))) (\<lambda>r.
               case r of
                 Inl _ \<Rightarrow> ret st
               | Inr responder \<Rightarrow>
                   ret (st\<lparr>al_inflight_encrypted_signatures :=
                     al_inflight_encrypted_signatures st @ [(responder, ch)]\<rparr>))))"

definition asb_respond_coop :: "('d, 'v) asb_env \<Rightarrow> channel \<Rightarrow> coop_response \<Rightarrow> ('v asb_world, unit) io" where
  "asb_respond_coop E ch response =
     bindio (attempt (act (\<lambda>_. RepliedCoop ch response) (ae_respond_coop E ch response))) (\<lambda>_. ret ())"

definition asb_coop_requested ::
  "('d, 'v) asb_env \<Rightarrow> channel \<Rightarrow> uuid \<Rightarrow> peer_id \<Rightarrow> ('v asb_world, unit) io" where
  "asb_coop_requested E ch swap_id peer =
     bindio (attempt (act (GotPeer swap_id) (ae_get_peer_id E swap_id))) (\<lambda>swap_peer.
     bindio (attempt (act (GotState swap_id) (ae_get_state E swap_id))) (\<lambda>swap_state.
     case (swap_peer, swap_state) of
       (Inr swap_peer, Inr swap_state) \<Rightarrow>
         if swap_peer \<noteq> peer then asb_respond_coop E ch (Rejected swap_id MaliciousRequest)
         else (case swap_state of
             SAlice (ABtcPunished state3) \<Rightarrow> asb_respond_coop E ch (Fullfilled swap_id (a3_s_a state3))
           | _ \<Rightarrow> asb_respond_coop E ch (Rejected swap_id SwapInvalidState))
     | _ \<Rightarrow> asb_respond_coop E ch (Rejected swap_id UnknownSwap)))"

definition asb_send_proof ::
  "('d, 'v) asb_env \<Rightarrow> peer_id \<Rightarrow> proof_request \<Rightarrow> responder \<Rightarrow> asb_loop \<Rightarrow> ('v asb_world, asb_loop) io" where
  "asb_send_proof E peer transfer_proof responder st =
     bindio (act_sure (SentProof peer transfer_proof) (ae_send_proof E peer transfer_proof)) (\<lambda>i.
     ret (st\<lparr>al_inflight_transfer_proofs := (al_inflight_transfer_proofs st)(i \<mapsto> responder)\<rparr>))"

primrec asb_send_buffered ::
  "('d, 'v) asb_env \<Rightarrow> peer_id \<Rightarrow> (proof_request \<times> responder) list \<Rightarrow> asb_loop \<Rightarrow> ('v asb_world, asb_loop) io" where
  "asb_send_buffered E peer [] st = ret st"
| "asb_send_buffered E peer (p # ps) st =
     bindio (asb_send_proof E peer (fst p) (snd p) st) (asb_send_buffered E peer ps)"

definition asb_connected :: "('d, 'v) asb_env \<Rightarrow> peer_id \<Rightarrow> asb_loop \<Rightarrow> ('v asb_world, asb_loop) io" where
  "asb_connected E peer st = (case al_buffered_transfer_proofs st peer of
     Some transfer_proofs \<Rightarrow> asb_send_buffered E peer transfer_proofs
       (st\<lparr>al_buffered_transfer_proofs := (al_buffered_transfer_proofs st)(peer := None)\<rparr>)
   | None \<Rightarrow> ret st)"

definition asb_swarm_event ::
  "('d, 'v) asb_env \<Rightarrow> swarm_event \<Rightarrow> asb_loop \<Rightarrow> ('v asb_world, asb_loop) io" where
  "asb_swarm_event E e st = (case e of
     SwapSetupInitiated received \<Rightarrow> bindio (asb_setup_initiated E received) (\<lambda>_. ret st)
   | SwapSetupCompleted peer swap_id state3 \<Rightarrow> handle_execution_setup_done E peer swap_id state3 st
   | SwapDeclined peer error \<Rightarrow> ret st
   | QuoteRequested ch peer \<Rightarrow> bindio (asb_quote_requested E ch) (\<lambda>_. ret st)
   | TransferProofAcknowledged peer i \<Rightarrow> asb_proof_acknowledged E i st
   | EncryptedSignatureReceived swap_id sig ch peer \<Rightarrow> asb_encsig_received E swap_id sig ch peer st
   | CooperativeBeldexRedeemRequested ch swap_id peer \<Rightarrow> bindio (asb_coop_requested E ch swap_id peer) (\<lambda>_. ret st)
   | NetFailure peer error \<Rightarrow> ret st
   | ConnectionEstablished peer \<Rightarrow> asb_connected E peer st
   | OtherSwarmEvent \<Rightarrow> ret st)"

section \<open>The other branches, and the loop\<close>

definition buffer_proof :: "peer_id \<Rightarrow> proof_request \<times> responder \<Rightarrow> asb_loop \<Rightarrow> asb_loop" where
  "buffer_proof peer p st =
     st\<lparr>al_buffered_transfer_proofs := (al_buffered_transfer_proofs st)
       (peer \<mapsto> (case al_buffered_transfer_proofs st peer of None \<Rightarrow> [] | Some ps \<Rightarrow> ps) @ [p])\<rparr>"

definition asb_next_proof ::
  "('d, 'v) asb_env \<Rightarrow> nat \<Rightarrow> (transfer_proof \<times> responder) outcome \<Rightarrow> asb_loop \<Rightarrow> ('v asb_world, asb_loop) io" where
  "asb_next_proof E k received st =
     (if length (al_send_transfer_proof st) \<le> k then lift Pending
      else
        let (h, peer, swap_id) = al_send_transfer_proof st ! k;
            st = st\<lparr>al_send_transfer_proof := remove_nth k (al_send_transfer_proof st)\<rparr> in
        bindio (attempt (lift received)) (\<lambda>r.
        case r of
          Inl error \<Rightarrow> ret st
        | Inr (proof, responder) \<Rightarrow>
            let request = \<lparr>tpr_swap_id = swap_id, tpr_tx_lock_proof = proof\<rparr> in
            bindio (note_act (ProofReady peer request responder)) (\<lambda>_.
            bindio (act_sure (AskedConnected peer) (ae_is_connected E peer)) (\<lambda>connected.
            if \<not> connected then ret (buffer_proof peer (request, responder) st)
            else asb_send_proof E peer request responder st))))"

definition asb_next_response :: "('d, 'v) asb_env \<Rightarrow> nat \<Rightarrow> asb_loop \<Rightarrow> ('v asb_world, asb_loop) io" where
  "asb_next_response E k st =
     (if length (al_inflight_encrypted_signatures st) \<le> k then lift Pending
      else
        let ch = snd (al_inflight_encrypted_signatures st ! k) in
        bindio (attempt (act (\<lambda>_. RepliedEncsig ch) (ae_respond_encsig E ch))) (\<lambda>_.
        ret (st\<lparr>al_inflight_encrypted_signatures := remove_nth k (al_inflight_encrypted_signatures st)\<rparr>)))"

definition asb_select :: "('d, 'v) asb_env \<Rightarrow> asb_event \<Rightarrow> asb_loop \<Rightarrow> ('v asb_world, asb_loop) io" where
  "asb_select E e st =
     bindio (note_act (Happened e)) (\<lambda>_.
     case e of
       SwarmEvent e \<Rightarrow> asb_swarm_event E e st
     | NextTransferProof k received \<Rightarrow> asb_next_proof E k received st
     | NextEncryptedSignature k \<Rightarrow> asb_next_response E k st)"

text \<open>The loop on the events that the world delivers; the loop itself has no end.\<close>

primrec asb_events :: "('d, 'v) asb_env \<Rightarrow> asb_event list \<Rightarrow> asb_loop \<Rightarrow> ('v asb_world, asb_loop) io" where
  "asb_events E [] st = ret st"
| "asb_events E (e # es) st = bindio (asb_select E e st) (asb_events E es)"

definition asb_run :: "('d, 'v) asb_env \<Rightarrow> asb_event list \<Rightarrow> ('v asb_world, asb_loop option) io" where
  "asb_run E es =
     bindio (asb_startup E asb_loop_new) (\<lambda>r.
     case r of
       None \<Rightarrow> ret None
     | Some st \<Rightarrow> bindio (asb_events E es st) (\<lambda>st. ret (Some st)))"

end
