(* ===== verification/Asb_Loop_Properties.thy ===== *)
theory Asb_Loop_Properties
  imports Asb_Loop Quote_Properties "HOL-Library.Multiset"
begin

text \<open>
  What the event loop of the ASB guarantees. \<open>loop_step\<close> is its abstract machine: which handles,
  buffered transfer proofs and messages belong together, without the calls around them; every run of
  the loop follows it. The properties are invariants of that machine: Alice's secret leaves the loop
  only for a punished swap and its own peer, an encrypted signature reaches one swap once, no transfer
  proof is lost or goes to another peer. And one flaw: a setup with the id of a running swap cuts
  that swap off from its encrypted signature.
\<close>

section \<open>The abstract machine\<close>

text \<open>The acts the machine speaks of; all others are quiet.\<close>

definition quiet_act :: "asb_act \<Rightarrow> bool" where
  "quiet_act a = (case a of OpenedHandle _ _ _ \<Rightarrow> False | RelayedEncsig _ _ _ \<Rightarrow> False | RepliedCoop _ _ \<Rightarrow> False
     | ProofReady _ _ _ \<Rightarrow> False | SentProof _ _ _ \<Rightarrow> False | _ \<Rightarrow> True)"

text \<open>The same handles, futures and buffers; the requests in flight may differ.\<close>

definition same_maps :: "asb_loop \<Rightarrow> asb_loop \<Rightarrow> bool" where
  "same_maps st st' \<longleftrightarrow> al_recv_encrypted_signature st' = al_recv_encrypted_signature st \<and>
     al_send_transfer_proof st' = al_send_transfer_proof st \<and>
     al_buffered_transfer_proofs st' = al_buffered_transfer_proofs st \<and> al_next_handle st' = al_next_handle st"

text \<open>What a request for a cooperative redeem deserves.\<close>

definition coop_answer :: "uuid \<Rightarrow> peer_id \<Rightarrow> peer_id outcome \<Rightarrow> swap_state outcome \<Rightarrow> coop_response" where
  "coop_answer swap_id peer known state = (case (known, state) of
     (Ok p, Ok s) \<Rightarrow>
       if p \<noteq> peer then Rejected swap_id MaliciousRequest
       else (case s of SAlice (ABtcPunished st) \<Rightarrow> Fullfilled swap_id (a3_s_a st)
             | _ \<Rightarrow> Rejected swap_id SwapInvalidState)
   | _ \<Rightarrow> Rejected swap_id UnknownSwap)"

inductive loop_step :: "asb_loop \<Rightarrow> asb_act list \<Rightarrow> asb_loop \<Rightarrow> bool" where
  quiet: "list_all quiet_act evs \<Longrightarrow> same_maps st st' \<Longrightarrow> loop_step st evs st'"
| opened: "loop_step st [OpenedHandle (al_next_handle st) peer swap_id]
    (st\<lparr>al_recv_encrypted_signature := (al_recv_encrypted_signature st)(swap_id \<mapsto> al_next_handle st),
        al_send_transfer_proof := al_send_transfer_proof st @ [(al_next_handle st, peer, swap_id)],
        al_next_handle := Suc (al_next_handle st)\<rparr>)"
| relayed: "al_recv_encrypted_signature st swap_id = Some h \<Longrightarrow>
    same_maps (st\<lparr>al_recv_encrypted_signature := (al_recv_encrypted_signature st)(swap_id := None)\<rparr>) st' \<Longrightarrow>
    loop_step st [Happened (SwarmEvent (EncryptedSignatureReceived swap_id sig ch peer)), GotPeer swap_id (Ok peer),
      RelayedEncsig h sig r] st'"
| cooperated: "same_maps st st' \<Longrightarrow>
    loop_step st [Happened (SwarmEvent (CooperativeBeldexRedeemRequested ch swap_id peer)), GotPeer swap_id known,
      GotState swap_id state, RepliedCoop ch (coop_answer swap_id peer known state)] st'"
| dropped: "k < length (al_send_transfer_proof st) \<Longrightarrow>
    loop_step st [] (st\<lparr>al_send_transfer_proof := remove_nth k (al_send_transfer_proof st)\<rparr>)"
| buffered: "k < length (al_send_transfer_proof st) \<Longrightarrow> al_send_transfer_proof st ! k = (h, peer, tpr_swap_id req) \<Longrightarrow>
    loop_step st [ProofReady peer req r, AskedConnected peer False]
      (buffer_proof peer (req, r) (st\<lparr>al_send_transfer_proof := remove_nth k (al_send_transfer_proof st)\<rparr>))"
| sent: "k < length (al_send_transfer_proof st) \<Longrightarrow> al_send_transfer_proof st ! k = (h, peer, tpr_swap_id req) \<Longrightarrow>
    same_maps (st\<lparr>al_send_transfer_proof := remove_nth k (al_send_transfer_proof st)\<rparr>) st' \<Longrightarrow>
    loop_step st [ProofReady peer req r, AskedConnected peer True, SentProof peer req i] st'"
| flushed: "al_buffered_transfer_proofs st peer = Some ps \<Longrightarrow> length ids = length ps \<Longrightarrow>
    same_maps (st\<lparr>al_buffered_transfer_proofs := (al_buffered_transfer_proofs st)(peer := None)\<rparr>) st' \<Longrightarrow>
    loop_step st (map (\<lambda>(p, i). SentProof peer (fst p) i) (zip ps ids)) st'"

abbreviation loop_steps :: "asb_loop \<Rightarrow> asb_act list \<Rightarrow> asb_loop \<Rightarrow> bool" where
  "loop_steps \<equiv> machine_steps loop_step"

inductive_cases loop_stepE: "loop_step st evs st'"

lemma same_maps_refl [simp]: "same_maps st st"
  by (simp add: same_maps_def)

lemmas loop_steps_one = machine_steps_one[where step = loop_step]
lemmas loop_steps_more = machine_steps.more[where step = loop_step]

interpretation asb_machine: event_machine loop_step quiet_act same_maps
  by unfold_locales (auto intro: loop_step.quiet)

section \<open>The loop follows the machine\<close>

abbreviation follows :: "asb_loop \<Rightarrow> ('v asb_world, asb_loop) io \<Rightarrow> bool" where
  "follows \<equiv> follows_by loop_step"

abbreviation stays_quiet :: "('v asb_world, 'a) io \<Rightarrow> bool" where
  "stays_quiet \<equiv> quiet_io quiet_act"

lemma quiet_act_simps [simp]:
  "quiet_act (Happened e)" "quiet_act (GotAll r1)" "quiet_act (GotPeer i r2)" "quiet_act (GotState i r3)"
  "quiet_act (PutPeer i p r4)" "quiet_act (SentSwap i h a r4)" "quiet_act GotLatestRate" "quiet_act GotBalance"
  "quiet_act GotAddress" "quiet_act (GotFee n)" "quiet_act (RepliedSnapshot r s)" "quiet_act (RepliedQuote c q)"
  "quiet_act (RepliedEncsig c)" "quiet_act (AskedConnected p b)" "quiet_act (RespondedProof r)"
  "\<not> quiet_act (OpenedHandle h p i)" "\<not> quiet_act (RelayedEncsig h sig r5)" "\<not> quiet_act (RepliedCoop c resp)"
  "\<not> quiet_act (ProofReady p req r)" "\<not> quiet_act (SentProof p req n)"
  by (simp_all add: quiet_act_def)

lemma new_handle_OkD:
  assumes "asb_new_handle peer swap_id st w = (Ok (h, st'), w')"
  shows "h = al_next_handle st" "aw_log w' = aw_log w @ [OpenedHandle h peer swap_id]" "aw_ext w' = aw_ext w"
    "loop_step st [OpenedHandle h peer swap_id] st'"
    "al_recv_encrypted_signature st' = (al_recv_encrypted_signature st)(swap_id \<mapsto> h)"
    "al_next_handle st' = Suc h"
  using assms loop_step.opened[of st peer swap_id] by (auto simp: asb_new_handle_def note_act_eq bindio_def Let_def)

lemma follows_new_handle:
  assumes "\<And>h st1. follows st1 (f (h, st1))"
  shows "follows st (bindio (asb_new_handle peer swap_id st) f)"
  unfolding follows_by_def
proof safe
  fix w st' w'
  assume "bindio (asb_new_handle peer swap_id st) f w = (Ok st', w')"
  then obtain h st1 w1 where *: "asb_new_handle peer swap_id st w = (Ok (h, st1), w1)" "f (h, st1) w1 = (Ok st', w')"
    by (auto simp: bindio_eq_Ok)
  obtain e2 where e2: "aw_log w' = aw_log w1 @ e2" "loop_steps st1 e2 st'" using followsD[OF assms *(2)] by blast
  thus "\<exists>evs. aw_log w' = aw_log w @ evs \<and> loop_steps st evs st'"
    using new_handle_OkD[OF *(1)] loop_steps_more[OF new_handle_OkD(4)[OF *(1)] e2(2)] by auto
qed

text \<open>The handlers that only log, reply and open handles.\<close>

lemma quiet_setup_initiated [quiet_rules]: "stays_quiet (asb_setup_initiated E received)"
  unfolding asb_setup_initiated_def wallet_snapshot_capture_def Let_def
  by (intro quiet_rules quiet_act_simps)

lemma quiet_quote_requested [quiet_rules]: "stays_quiet (asb_quote_requested E ch)"
  unfolding asb_quote_requested_def make_quote_def Let_def
  by (intro quiet_rules quiet_act_simps)

lemma follows_setup_done: "follows st (handle_execution_setup_done E peer swap_id state3 st)"
  unfolding handle_execution_setup_done_def
  by (rule follows_new_handle) (auto intro!: asb_machine.follows_quiet_then follows_case_sum quiet_rules)

lemma follows_resume: "follows st (resume_swap E s st)"
  unfolding resume_swap_def
  by (cases s)
    (auto intro!: asb_machine.follows_quiet_then[of "attempt _"] asb_machine.follows_quiet_then[of "lift _"] follows_case_sum follows_new_handle quiet_rules)

lemma follows_resume_swaps: "follows st (resume_swaps E ss st)"
  by (induction ss arbitrary: st) (auto intro: follows_by_bindio follows_resume)

lemma follows_proof_acknowledged: "follows st (asb_proof_acknowledged E i st)"
  unfolding asb_proof_acknowledged_def
  by (auto intro!: asb_machine.follows_quiet_then asb_machine.follows_same quiet_rules simp: same_maps_def split: option.splits)

text \<open>The handlers that make the steps of the machine.\<close>

lemma respond_coop_OkD:
  "asb_respond_coop E ch resp w = (Ok u, w') \<Longrightarrow> aw_log w' = aw_log w @ [RepliedCoop ch resp]"
  by (auto simp: asb_respond_coop_def bindio_eq_Ok dest!: attempt_act_OkD)

lemma coop_requested_OkD:
  assumes "asb_coop_requested E ch swap_id peer w = (Ok u, w')"
  shows "\<exists>known state. aw_log w' = aw_log w @ [GotPeer swap_id known, GotState swap_id state,
    RepliedCoop ch (coop_answer swap_id peer known state)]"
proof -
  obtain r1 w1 r2 w2 where s: "attempt (act (GotPeer swap_id) (ae_get_peer_id E swap_id)) w = (Ok r1, w1)"
    "attempt (act (GotState swap_id) (ae_get_state E swap_id)) w1 = (Ok r2, w2)"
    "(case (r1, r2) of (Inr swap_peer, Inr swap_state) \<Rightarrow>
         if swap_peer \<noteq> peer then asb_respond_coop E ch (Rejected swap_id MaliciousRequest)
         else (case swap_state of
             SAlice (ABtcPunished state3) \<Rightarrow> asb_respond_coop E ch (Fullfilled swap_id (a3_s_a state3))
           | _ \<Rightarrow> asb_respond_coop E ch (Rejected swap_id SwapInvalidState))
     | _ \<Rightarrow> asb_respond_coop E ch (Rejected swap_id UnknownSwap)) w2 = (Ok u, w')"
    using assms unfolding asb_coop_requested_def bindio_eq_Ok by blast
  let ?o = "\<lambda>r. case r of Inl e \<Rightarrow> Err e | Inr x \<Rightarrow> Ok x"
  have "aw_log w' = aw_log w2 @ [RepliedCoop ch (coop_answer swap_id peer (?o r1) (?o r2))]"
    using s(3) by (auto simp: coop_answer_def split: sum.splits if_splits swap_state.splits alice_state.splits
        dest!: respond_coop_OkD)
  thus ?thesis using attempt_act_OkD[OF s(1)] attempt_act_OkD[OF s(2)] by auto
qed

lemma send_proof_OkD:
  assumes "asb_send_proof E peer req r st w = (Ok st', w')"
  shows "\<exists>i. aw_log w' = aw_log w @ [SentProof peer req i] \<and> same_maps st st'"
  using assms by (auto simp: asb_send_proof_def bindio_eq_Ok same_maps_def dest!: act_sure_OkD)

lemma same_maps_trans: "same_maps st st1 \<Longrightarrow> same_maps st1 st2 \<Longrightarrow> same_maps st st2"
  by (simp add: same_maps_def)

lemma send_buffered_OkD:
  "asb_send_buffered E peer ps st w = (Ok st', w') \<Longrightarrow>
   \<exists>ids. length ids = length ps \<and> aw_log w' = aw_log w @ map (\<lambda>(p, i). SentProof peer (fst p) i) (zip ps ids) \<and>
     same_maps st st'"
proof (induction ps arbitrary: st w)
  case (Cons p ps)
  then obtain st1 w1 where *: "asb_send_proof E peer (fst p) (snd p) st w = (Ok st1, w1)"
    "asb_send_buffered E peer ps st1 w1 = (Ok st', w')" by (auto simp: bindio_eq_Ok)
  obtain i where i: "aw_log w1 = aw_log w @ [SentProof peer (fst p) i]" "same_maps st st1"
    using send_proof_OkD[OF *(1)] by blast
  obtain ids where "length ids = length ps" "same_maps st1 st'"
    "aw_log w' = aw_log w1 @ map (\<lambda>(p, i). SentProof peer (fst p) i) (zip ps ids)" using Cons.IH[OF *(2)] by blast
  thus ?case using i same_maps_trans by (intro exI[of _ "i # ids"]) auto
qed simp

lemma follows_connected: "follows st (asb_connected E peer st)"
  unfolding follows_by_def
proof safe
  fix w st' w'
  assume *: "asb_connected E peer st w = (Ok st', w')"
  show "\<exists>evs. aw_log w' = aw_log w @ evs \<and> loop_steps st evs st'"
  proof (cases "al_buffered_transfer_proofs st peer")
    case None
    thus ?thesis using * machine_steps.stop by (auto simp: asb_connected_def)
  next
    case (Some ps)
    then obtain ids where "length ids = length ps"
      "aw_log w' = aw_log w @ map (\<lambda>(p, i). SentProof peer (fst p) i) (zip ps ids)"
      "same_maps (st\<lparr>al_buffered_transfer_proofs := (al_buffered_transfer_proofs st)(peer := None)\<rparr>) st'"
      using * by (auto simp: asb_connected_def dest!: send_buffered_OkD)
    thus ?thesis using loop_steps_one[OF loop_step.flushed[OF Some]] by blast
  qed
qed


lemma follows_encsig_received:
  assumes "asb_encsig_received E swap_id sig ch peer st w = (Ok st', w')"
  shows "\<exists>evs. aw_log w' = aw_log w @ evs \<and>
    loop_steps st (Happened (SwarmEvent (EncryptedSignatureReceived swap_id sig ch peer)) # evs) st'"
proof -
  obtain r w1 where r: "attempt (act (GotPeer swap_id) (ae_get_peer_id E swap_id)) w = (Ok r, w1)"
    and rest: "(case r of Inl _ \<Rightarrow> ret st
     | Inr swap_peer \<Rightarrow>
         if swap_peer \<noteq> peer then ret st
         else (case al_recv_encrypted_signature st swap_id of
             None \<Rightarrow> ret st
           | Some sender \<Rightarrow>
               let st = st\<lparr>al_recv_encrypted_signature := (al_recv_encrypted_signature st)(swap_id := None)\<rparr> in
               bindio (attempt (act (RelayedEncsig sender sig) (ae_send_encsig E sender sig))) (\<lambda>r.
               case r of
                 Inl _ \<Rightarrow> ret st
               | Inr responder \<Rightarrow>
                   ret (st\<lparr>al_inflight_encrypted_signatures :=
                     al_inflight_encrypted_signatures st @ [(responder, ch)]\<rparr>)))) w1 = (Ok st', w')"
    using assms unfolding asb_encsig_received_def bindio_eq_Ok by blast
  let ?o = "\<lambda>r. case r of Inl e \<Rightarrow> Err e | Inr x \<Rightarrow> Ok x"
  have w1: "aw_log w1 = aw_log w @ [GotPeer swap_id (?o r)]" using attempt_act_OkD[OF r] by blast
  show ?thesis
  proof (cases "r = Inr peer \<and> (\<exists>h. al_recv_encrypted_signature st swap_id = Some h)")
    case True
    then obtain h where h: "r = Inr peer" "al_recv_encrypted_signature st swap_id = Some h" by blast
    let ?st = "st\<lparr>al_recv_encrypted_signature := (al_recv_encrypted_signature st)(swap_id := None)\<rparr>"
    obtain x w2 where x: "attempt (act (RelayedEncsig h sig) (ae_send_encsig E h sig)) w1 = (Ok x, w2)"
      "(case x of Inl _ \<Rightarrow> ret ?st | Inr responder \<Rightarrow> ret (?st\<lparr>al_inflight_encrypted_signatures :=
          al_inflight_encrypted_signatures st @ [(responder, ch)]\<rparr>)) w2 = (Ok st', w')"
      using rest unfolding h(1) by (simp add: h(2) Let_def bindio_eq_Ok) blast
    obtain res where "aw_log w' = aw_log w1 @ [RelayedEncsig h sig res]" "same_maps ?st st'"
      using attempt_act_OkD[OF x(1)] x(2) by (cases x) (auto simp: same_maps_def)
    thus ?thesis using w1 h loop_steps_one[OF loop_step.relayed[OF h(2)]] by auto
  next
    case False
    hence "st' = st" "w' = w1" using rest by (auto split: sum.splits if_splits option.splits)
    thus ?thesis using w1 by (auto intro!: loop_steps_one loop_step.quiet)
  qed
qed

lemma next_response_OkD:
  assumes "asb_next_response E k st w = (Ok st', w')"
  shows "\<exists>evs. aw_log w' = aw_log w @ evs \<and> list_all quiet_act evs \<and> same_maps st st'"
  using assms by (auto simp: asb_next_response_def bindio_eq_Ok same_maps_def Let_def dest!: attempt_act_OkD split: if_splits)

lemma follows_next_proof: "follows st (asb_next_proof E k received st)"
  unfolding follows_by_def
proof safe
  fix w st' w'
  assume *: "asb_next_proof E k received st w = (Ok st', w')"
  obtain h peer swap_id where k: "k < length (al_send_transfer_proof st)"
    "al_send_transfer_proof st ! k = (h, peer, swap_id)"
    using * by (cases "al_send_transfer_proof st ! k") (auto simp: asb_next_proof_def split: if_splits)
  let ?st = "st\<lparr>al_send_transfer_proof := remove_nth k (al_send_transfer_proof st)\<rparr>"
  consider e where "received = Err e" | p r where "received = Ok (p, r)"
    using * k by (cases received) (auto simp: asb_next_proof_def bindio_eq_Ok attempt_eq_Ok Let_def)
  thus "\<exists>evs. aw_log w' = aw_log w @ evs \<and> loop_steps st evs st'"
  proof cases
    case 1
    hence "st' = ?st" "w' = w" using * k by (auto simp: asb_next_proof_def bindio_eq_Ok attempt_eq_Ok Let_def)
    thus ?thesis using loop_steps_one[OF loop_step.dropped[OF k(1)]] by auto
  next
    case 2
    let ?req = "\<lparr>tpr_swap_id = swap_id, tpr_tx_lock_proof = p\<rparr>"
    have k2: "al_send_transfer_proof st ! k = (h, peer, tpr_swap_id ?req)" using k(2) by simp
    obtain b w1 where w1: "act_sure (AskedConnected peer) (ae_is_connected E peer)
        (w\<lparr>aw_log := aw_log w @ [ProofReady peer ?req r]\<rparr>) = (Ok b, w1)"
      "(if \<not> b then ret (buffer_proof peer (?req, r) ?st) else asb_send_proof E peer ?req r ?st) w1 = (Ok st', w')"
      using * k 2 by (auto simp: asb_next_proof_def bindio_eq_Ok attempt_eq_Ok Let_def note_act_eq)
    have l1: "aw_log w1 = aw_log w @ [ProofReady peer ?req r, AskedConnected peer b]"
      using act_sure_OkD[OF w1(1)] by simp
    show ?thesis
    proof (cases b)
      case False
      thus ?thesis using w1(2) l1 loop_steps_one[OF loop_step.buffered[OF k(1) k2]] by auto
    next
      case True
      then obtain i where "aw_log w' = aw_log w1 @ [SentProof peer ?req i]" "same_maps ?st st'"
        using w1(2) by (auto dest!: send_proof_OkD)
      thus ?thesis using l1 True loop_steps_one[OF loop_step.sent[OF k(1) k2]] by auto
    qed
  qed
qed

lemma follows_select: "follows st (asb_select E e st)"
proof (cases "\<exists>swap_id sig ch peer. e = SwarmEvent (EncryptedSignatureReceived swap_id sig ch peer)")
  case True
  thus ?thesis by (auto simp: asb_select_def asb_swarm_event_def intro!: follows_by_prefix follows_encsig_received)
next
  case no_sig: False
  show ?thesis
  proof (cases "\<exists>ch swap_id peer. e = SwarmEvent (CooperativeBeldexRedeemRequested ch swap_id peer)")
    case True
    then obtain ch swap_id peer where e: "e = SwarmEvent (CooperativeBeldexRedeemRequested ch swap_id peer)" by blast
    show ?thesis unfolding asb_select_def e
      by (rule follows_by_prefix)
        (auto simp: asb_swarm_event_def bindio_eq_Ok dest!: coop_requested_OkD
          intro!: loop_steps_one[OF loop_step.cooperated[OF same_maps_refl]])
  next
    case False
    have "follows st (case e of SwarmEvent e \<Rightarrow> asb_swarm_event E e st | NextTransferProof k received \<Rightarrow>
        asb_next_proof E k received st | NextEncryptedSignature k \<Rightarrow> asb_next_response E k st)"
    proof (cases e)
      case (SwarmEvent s)
      thus ?thesis using no_sig False
        by (cases s) (auto simp: asb_swarm_event_def follows_setup_done follows_proof_acknowledged follows_connected
            intro!: asb_machine.follows_quiet_then quiet_rules)
    next
      case (NextTransferProof k received)
      thus ?thesis by (simp add: follows_next_proof)
    next
      case (NextEncryptedSignature k)
      thus ?thesis using next_response_OkD by (fastforce simp: follows_by_def intro: loop_steps_one loop_step.quiet)
    qed
    thus ?thesis unfolding asb_select_def by (intro asb_machine.follows_quiet_then) (auto intro: quiet_rules)
  qed
qed

lemma follows_events: "follows st (asb_events E es st)"
  by (induction es arbitrary: st) (auto intro: follows_by_bindio follows_select)

lemma run_follows:
  assumes "asb_run E es w = (Ok (Some st), w')"
  shows "\<exists>evs. aw_log w' = aw_log w @ evs \<and> loop_steps asb_loop_new evs st"
proof -
  obtain r w1 w2 swaps st1 where s: "attempt (act GotAll (ae_all E)) w = (Ok (Inr swaps), w1)"
    "resume_swaps E (filter (\<lambda>(_, state). \<not> swap_finished state) swaps) asb_loop_new w1 = (Ok st1, w2)"
    "asb_events E es st1 w2 = (Ok st, w')"
    using assms by (auto simp: asb_run_def asb_startup_def bindio_eq_Ok case_sum_eq_Ok case_option_eq_Ok)
  obtain e0 where e0: "aw_log w1 = aw_log w @ e0" "list_all quiet_act e0" using attempt_act_OkD[OF s(1)] by auto
  obtain e1 where e1: "aw_log w2 = aw_log w1 @ e1" "loop_steps asb_loop_new e1 st1"
    using followsD[OF follows_resume_swaps s(2)] by blast
  obtain e2 where e2: "aw_log w' = aw_log w2 @ e2" "loop_steps st1 e2 st" using followsD[OF follows_events s(3)] by blast
  have "loop_steps asb_loop_new (e0 @ e1 @ e2) st"
    by (rule loop_steps_more[OF loop_step.quiet[OF e0(2) same_maps_refl] machine_steps_trans[OF e1(2) e2(2)]])
  thus ?thesis using e0 e1 e2 by auto
qed


section \<open>Alice's secret\<close>

text \<open>
  A request that is answered with the secret of a punished swap, as it appears in a log; every
  fulfilled request of a log shall be part of one.
\<close>

definition punished_exchange :: "channel \<Rightarrow> uuid \<Rightarrow> peer_id \<Rightarrow> alice_state3 \<Rightarrow> asb_act list" where
  "punished_exchange ch swap_id peer state3 =
     [Happened (SwarmEvent (CooperativeBeldexRedeemRequested ch swap_id peer)), GotPeer swap_id (Ok peer),
      GotState swap_id (Ok (SAlice (ABtcPunished state3))), RepliedCoop ch (Fullfilled swap_id (a3_s_a state3))]"

definition justified :: "asb_act list \<Rightarrow> bool" where
  "justified evs \<longleftrightarrow> (\<forall>ch swap_id s_a. RepliedCoop ch (Fullfilled swap_id s_a) \<in> set evs \<longrightarrow>
     (\<exists>peer st. sublist (punished_exchange ch swap_id peer st) evs \<and> s_a = a3_s_a st))"

lemma justified_append: "justified a \<Longrightarrow> justified b \<Longrightarrow> justified (a @ b)"
  unfolding justified_def by (metis Un_iff set_append sublist_extend)

lemma justified_none: "(\<And>ch r. RepliedCoop ch r \<notin> set evs) \<Longrightarrow> justified evs"
  by (simp add: justified_def)

lemma coop_answer_Fullfilled: "coop_answer swap_id peer known state = Fullfilled i s_a \<longleftrightarrow>
    i = swap_id \<and> known = Ok peer \<and> (\<exists>st. state = Ok (SAlice (ABtcPunished st)) \<and> s_a = a3_s_a st)"
  by (auto simp: coop_answer_def split: outcome.splits swap_state.splits alice_state.splits)

lemma step_justified:
  assumes "loop_step st evs st'"
  shows "justified evs"
  using assms
proof cases
  case quiet
  thus ?thesis by (intro justified_none) (auto simp: list_all_iff)
next
  case (cooperated ch swap_id peer known state)
  show ?thesis unfolding justified_def
  proof (intro allI impI)
    fix ch' i s_a
    assume "RepliedCoop ch' (Fullfilled i s_a) \<in> set evs"
    hence "coop_answer swap_id peer known state = Fullfilled i s_a" "ch' = ch" using cooperated(1) by auto
    then obtain st where "evs = punished_exchange ch' i peer st" "s_a = a3_s_a st"
      using cooperated(1) by (auto simp: coop_answer_Fullfilled punished_exchange_def)
    thus "\<exists>peer st. sublist (punished_exchange ch' i peer st) evs \<and> s_a = a3_s_a st" by auto
  qed
next
  case (flushed peer ps ids)
  thus ?thesis by (intro justified_none) (auto simp: in_set_zip)
qed (auto intro!: justified_none)

lemma steps_justified: "loop_steps st evs st' \<Longrightarrow> justified evs"
  by (induction rule: machine_steps.induct) (auto intro: justified_append step_justified justified_none)

text \<open>
  C21: over a whole run of the ASB's event loop, Alice's secret \<open>s_a\<close> leaves her only in the reply to a
  request for a cooperative redeem that came from the very peer the database has for that swap, right
  after the database gave the swap's state as \<open>BtcPunished\<close>, and it is the secret of that state.
\<close>

theorem secret_only_to_punished_peer:
  assumes "asb_run E es \<lparr>aw_log = [], aw_ext = v\<rparr> = (Ok (Some st), w')"
    and "RepliedCoop ch (Fullfilled swap_id s_a) \<in> set (aw_log w')"
  shows "\<exists>peer state3. sublist (punished_exchange ch swap_id peer state3) (aw_log w') \<and> s_a = a3_s_a state3"
proof -
  obtain evs where "aw_log w' = evs" "loop_steps asb_loop_new evs st" using run_follows[OF assms(1)] by auto
  thus ?thesis using steps_justified assms(2) unfolding justified_def by blast
qed


section \<open>Encrypted signatures\<close>

fun relayed_to :: "asb_act list \<Rightarrow> handle list" where
  "relayed_to [] = []"
| "relayed_to (RelayedEncsig h sig r # evs) = h # relayed_to evs"
| "relayed_to (_ # evs) = relayed_to evs"

lemma relayed_to_append [simp]: "relayed_to (a @ b) = relayed_to a @ relayed_to b"
  by (induction a rule: relayed_to.induct) simp_all

lemma in_relayed_to: "h \<in> set (relayed_to evs) \<longleftrightarrow> (\<exists>sig r. RelayedEncsig h sig r \<in> set evs)"
  by (induction evs rule: relayed_to.induct) auto

lemma relayed_to_none: "(\<And>h sig r. RelayedEncsig h sig r \<notin> set evs) \<Longrightarrow> relayed_to evs = []"
  by (induction evs rule: relayed_to.induct) auto

lemma step_handle_cases:
  assumes "loop_step st evs st'"
  obtains (same) "relayed_to evs = []" "al_recv_encrypted_signature st' = al_recv_encrypted_signature st"
      "al_next_handle st' = al_next_handle st"
  | (opened) peer sid where "evs = [OpenedHandle (al_next_handle st) peer sid]"
      "al_recv_encrypted_signature st' = (al_recv_encrypted_signature st)(sid \<mapsto> al_next_handle st)"
      "al_next_handle st' = Suc (al_next_handle st)"
  | (relayed) sid h sig ch peer r where
      "evs = [Happened (SwarmEvent (EncryptedSignatureReceived sid sig ch peer)), GotPeer sid (Ok peer), RelayedEncsig h sig r]"
      "al_recv_encrypted_signature st sid = Some h"
      "al_recv_encrypted_signature st' = (al_recv_encrypted_signature st)(sid := None)"
      "al_next_handle st' = al_next_handle st"
  using assms
proof (cases rule: loop_step.cases)
  case quiet
  have "relayed_to evs = []" using quiet(1) by (intro relayed_to_none) (auto simp: list_all_iff)
  thus ?thesis using quiet(2) same by (simp add: same_maps_def)
next
  case (flushed peer ps ids)
  have "relayed_to evs = []" unfolding flushed(1) by (intro relayed_to_none) auto
  thus ?thesis using flushed(4) same by (simp add: same_maps_def)
qed (use same opened relayed in \<open>auto simp: same_maps_def buffer_proof_def\<close>)

text \<open>Handles in the map are open, unused and belong to their swap; no handle was used twice.\<close>

definition handles_ok :: "asb_loop \<Rightarrow> asb_act list \<Rightarrow> bool" where
  "handles_ok st past \<longleftrightarrow>
     (\<forall>sid h. al_recv_encrypted_signature st sid = Some h \<longrightarrow>
        h < al_next_handle st \<and> h \<notin> set (relayed_to past) \<and> (\<exists>peer. OpenedHandle h peer sid \<in> set past)) \<and>
     (\<forall>sid sid' h. al_recv_encrypted_signature st sid = Some h \<longrightarrow> al_recv_encrypted_signature st sid' = Some h
        \<longrightarrow> sid = sid') \<and>
     (\<forall>h\<in>set (relayed_to past). h < al_next_handle st) \<and> distinct (relayed_to past)"

lemma step_handles_ok:
  assumes "loop_step st evs st'" "handles_ok st past"
  shows "handles_ok st' (past @ evs)"
  using assms(1)
proof (cases rule: step_handle_cases)
  case same
  thus ?thesis using assms(2) unfolding handles_ok_def by (simp add: disj_imp) blast
next
  case (opened peer sid)
  thus ?thesis using assms(2) by (fastforce simp: handles_ok_def split: if_splits)
next
  case (relayed sid h sig ch peer r)
  thus ?thesis using assms(2) by (auto simp: handles_ok_def split: if_splits)
qed

text \<open>Every signature was relayed on request of the swap's peer, to a handle that was opened for that swap.\<close>

definition relay_exchange :: "uuid \<Rightarrow> encsig \<Rightarrow> channel \<Rightarrow> peer_id \<Rightarrow> handle \<Rightarrow> responder outcome \<Rightarrow> asb_act list" where
  "relay_exchange sid sig ch peer h r =
     [Happened (SwarmEvent (EncryptedSignatureReceived sid sig ch peer)), GotPeer sid (Ok peer), RelayedEncsig h sig r]"

definition relays_justified :: "asb_act list \<Rightarrow> bool" where
  "relays_justified evs \<longleftrightarrow> (\<forall>h sig r. RelayedEncsig h sig r \<in> set evs \<longrightarrow>
     (\<exists>sid ch peer opener. sublist (relay_exchange sid sig ch peer h r) evs \<and> OpenedHandle h opener sid \<in> set evs))"

lemma step_relays_justified:
  assumes "loop_step st evs st'" "handles_ok st past \<and> relays_justified past"
  shows "handles_ok st' (past @ evs) \<and> relays_justified (past @ evs)"
proof -
  have old: "\<exists>sid ch peer opener. sublist (relay_exchange sid sig ch peer h r) (past @ evs) \<and>
      OpenedHandle h opener sid \<in> set (past @ evs)" if "RelayedEncsig h sig r \<in> set past" for h sig r
    using that assms(2) unfolding relays_justified_def set_append Un_iff sublist_append by blast
  from assms(1) have "relays_justified (past @ evs)"
  proof (cases rule: step_handle_cases)
    case (relayed sid h sig ch peer r)
    obtain opener where "OpenedHandle h opener sid \<in> set past" using relayed(2) assms(2) unfolding handles_ok_def by blast
    hence "sublist (relay_exchange sid sig ch peer h r) (past @ evs) \<and> OpenedHandle h opener sid \<in> set (past @ evs)"
      using relayed(1) by (auto simp: relay_exchange_def intro: sublist_append_leftI)
    thus ?thesis using old relayed(1) unfolding relays_justified_def by auto
  next
    case same
    hence "RelayedEncsig h sig r \<notin> set evs" for h sig r using in_relayed_to[of h evs] by auto
    thus ?thesis using old unfolding relays_justified_def by auto
  next
    case (opened peer sid)
    thus ?thesis using old unfolding relays_justified_def by auto
  qed
  thus ?thesis using step_handles_ok assms by blast
qed

text \<open>
  C23: over a whole run of the ASB's event loop, each handle of a swap is given at most one encrypted
  signature, and each signature was received in a request that names that handle's swap from the very
  peer the database has for it.
\<close>

theorem encsig_relayed_once_from_peer:
  assumes "asb_run E es \<lparr>aw_log = [], aw_ext = v\<rparr> = (Ok (Some st), w')"
  shows "distinct (relayed_to (aw_log w')) \<and>
    (\<forall>h sig r. RelayedEncsig h sig r \<in> set (aw_log w') \<longrightarrow>
      (\<exists>sid ch peer opener. sublist (relay_exchange sid sig ch peer h r) (aw_log w') \<and>
         OpenedHandle h opener sid \<in> set (aw_log w')))"
proof -
  obtain evs where evs: "aw_log w' = evs" "loop_steps asb_loop_new evs st" using run_follows[OF assms] by auto
  have "handles_ok st ([] @ evs) \<and> relays_justified ([] @ evs)"
    by (rule machine_steps_invariant[OF evs(2)])
      (simp_all add: step_relays_justified, simp add: handles_ok_def relays_justified_def asb_loop_new_def)
  thus ?thesis unfolding evs(1) handles_ok_def relays_justified_def by simp
qed


section \<open>Transfer proofs\<close>

text \<open>The transfer proofs for a peer that became ready, that were sent, and that wait for a connection.\<close>

fun ready_for :: "peer_id \<Rightarrow> asb_act list \<Rightarrow> proof_request list" where
  "ready_for p [] = []"
| "ready_for p (ProofReady q req r # evs) = (if q = p then [req] else []) @ ready_for p evs"
| "ready_for p (_ # evs) = ready_for p evs"

fun sent_to :: "peer_id \<Rightarrow> asb_act list \<Rightarrow> proof_request list" where
  "sent_to p [] = []"
| "sent_to p (SentProof q req i # evs) = (if q = p then [req] else []) @ sent_to p evs"
| "sent_to p (_ # evs) = sent_to p evs"

definition waiting_for :: "peer_id \<Rightarrow> asb_loop \<Rightarrow> proof_request list" where
  "waiting_for p st = (case al_buffered_transfer_proofs st p of None \<Rightarrow> [] | Some ps \<Rightarrow> map fst ps)"

lemma ready_for_append [simp]: "ready_for p (a @ b) = ready_for p a @ ready_for p b"
  by (induction p a rule: ready_for.induct) simp_all

lemma sent_to_append [simp]: "sent_to p (a @ b) = sent_to p a @ sent_to p b"
  by (induction p a rule: sent_to.induct) simp_all

lemma ready_for_quiet: "list_all quiet_act evs \<Longrightarrow> ready_for p evs = []"
  by (induction p evs rule: ready_for.induct) auto

lemma sent_to_quiet: "list_all quiet_act evs \<Longrightarrow> sent_to p evs = []"
  by (induction p evs rule: sent_to.induct) auto

lemma in_sent_to: "SentProof p req i \<in> set evs \<Longrightarrow> req \<in> set (sent_to p evs)"
  by (induction p evs rule: sent_to.induct) auto

lemma in_ready_for: "req \<in> set (ready_for p evs) \<Longrightarrow> \<exists>r. ProofReady p req r \<in> set evs"
  by (induction p evs rule: ready_for.induct) (auto split: if_splits)

lemma flushed_sent:
  "length ids = length ps \<Longrightarrow>
   sent_to p (map (\<lambda>(x, i). SentProof q (fst x) i) (zip ps ids)) = (if q = p then map fst ps else [])"
  by (induction ids ps rule: list_induct2) auto

lemma flushed_ready: "ready_for p (map (\<lambda>(x, i). SentProof q (fst x) i) zs) = []"
  by (induction zs) auto

lemma waiting_buffer:
  "waiting_for p (buffer_proof q (req, r) st) = waiting_for p st @ (if q = p then [req] else [])"
  by (auto simp: waiting_for_def buffer_proof_def split: option.splits)

definition proofs_ok :: "asb_loop \<Rightarrow> asb_act list \<Rightarrow> bool" where
  "proofs_ok st past \<longleftrightarrow>
     (\<forall>p. mset (ready_for p past) = mset (sent_to p past) + mset (waiting_for p st)) \<and>
     (\<forall>(h, p, sid)\<in>set (al_send_transfer_proof st). OpenedHandle h p sid \<in> set past) \<and>
     (\<forall>p req r. ProofReady p req r \<in> set past \<longrightarrow> (\<exists>h. OpenedHandle h p (tpr_swap_id req) \<in> set past))"

lemma set_remove_nth: "set (remove_nth k xs) \<subseteq> set xs"
  unfolding remove_nth_def using set_take_subset[of k xs] set_drop_subset[of "Suc k" xs] by auto

lemma waiting_for_cong: "al_buffered_transfer_proofs st' = al_buffered_transfer_proofs st \<Longrightarrow> waiting_for p st' = waiting_for p st"
  by (simp add: waiting_for_def)

lemma quiet_not_in: "list_all quiet_act evs \<Longrightarrow> \<not> quiet_act a \<Longrightarrow> a \<notin> set evs"
  by (auto simp: list_all_iff)


text \<open>A proof that becomes ready is sent or buffered.\<close>

lemma step_ready:
  assumes "proofs_ok st past" "(h, peer, tpr_swap_id req) \<in> set (al_send_transfer_proof st)"
    and "\<And>p. waiting_for p st' = waiting_for p st @ waits p"
    and "set (al_send_transfer_proof st') \<subseteq> set (al_send_transfer_proof st)"
    and "\<And>p. mset (ready_for p evs) = mset (sent_to p evs) + mset (waits p)"
    and "\<And>p q x. ProofReady p q x \<in> set evs \<Longrightarrow> p = peer \<and> q = req"
  shows "proofs_ok st' (past @ evs)"
  unfolding proofs_ok_def
proof (intro conjI allI impI)
  show "mset (ready_for p (past @ evs)) = mset (sent_to p (past @ evs)) + mset (waiting_for p st')" for p
    using assms(1) by (simp add: proofs_ok_def assms(3,5))
  show "\<forall>(h, p, sid)\<in>set (al_send_transfer_proof st'). OpenedHandle h p sid \<in> set (past @ evs)"
    using assms(1,4) by (auto simp: proofs_ok_def)
  show "\<exists>h. OpenedHandle h p (tpr_swap_id q) \<in> set (past @ evs)" if "ProofReady p q x \<in> set (past @ evs)" for p q x
    using that assms(1,2,6) by (fastforce simp: proofs_ok_def)
qed

lemma step_proofs_ok:
  assumes "loop_step st evs st'" "proofs_ok st past"
  shows "proofs_ok st' (past @ evs)"
  using assms(1)
proof (cases rule: loop_step.cases)
  case quiet
  have "OpenedHandle h p i \<notin> set evs" "ProofReady p req r \<notin> set evs" for h p i req r
    using quiet(1) by (simp_all add: quiet_not_in)
  moreover have "ready_for p evs = []" "sent_to p evs = []" "waiting_for p st' = waiting_for p st" for p
    using quiet by (simp_all add: ready_for_quiet sent_to_quiet same_maps_def waiting_for_def)
  moreover have "al_send_transfer_proof st' = al_send_transfer_proof st" using quiet(2) by (simp add: same_maps_def)
  ultimately show ?thesis using assms(2) by (simp add: proofs_ok_def)
next
  case (opened peer swap_id)
  have owner: "\<exists>h. OpenedHandle h p (tpr_swap_id req) \<in> set past" if "ProofReady p req r \<in> set past" for p req r
    using that assms(2) unfolding proofs_ok_def by blast
  show ?thesis unfolding proofs_ok_def
  proof (intro conjI allI impI)
    show "mset (ready_for p (past @ evs)) = mset (sent_to p (past @ evs)) + mset (waiting_for p st')" for p
      using assms(2) by (simp add: proofs_ok_def opened waiting_for_def)
    show "\<forall>(h, p, sid)\<in>set (al_send_transfer_proof st'). OpenedHandle h p sid \<in> set (past @ evs)"
      using assms(2) by (auto simp: proofs_ok_def opened)
    fix p req r
    assume "ProofReady p req r \<in> set (past @ evs)"
    hence "ProofReady p req r \<in> set past" by (simp add: opened)
    from owner[OF this] show "\<exists>h. OpenedHandle h p (tpr_swap_id req) \<in> set (past @ evs)" by auto
  qed
next
  case (relayed swap_id h sig ch peer r)
  thus ?thesis using assms(2) by (auto simp: proofs_ok_def waiting_for_def same_maps_def)
next
  case (cooperated ch swap_id peer known state)
  thus ?thesis using assms(2) by (auto simp: proofs_ok_def waiting_for_def same_maps_def)
next
  case (dropped k)
  thus ?thesis using assms(2) set_remove_nth[of k "al_send_transfer_proof st"] by (auto simp: proofs_ok_def waiting_for_def)
next
  case (buffered k h peer req r)
  have mem: "(h, peer, tpr_swap_id req) \<in> set (al_send_transfer_proof st)" using buffered(3,4) nth_mem by metis
  have "waiting_for p st' = waiting_for p st @ (if peer = p then [req] else [])" for p
    unfolding buffered(2) waiting_buffer by (simp add: waiting_for_def)
  moreover have "set (al_send_transfer_proof st') \<subseteq> set (al_send_transfer_proof st)"
    unfolding buffered(2) using set_remove_nth by (simp add: buffer_proof_def)
  ultimately show ?thesis by (rule step_ready[OF assms(2) mem]) (simp_all add: buffered(1))
next
  case (sent k h peer req r i)
  have mem: "(h, peer, tpr_swap_id req) \<in> set (al_send_transfer_proof st)" using sent(2,3) nth_mem by metis
  have "waiting_for p st' = waiting_for p st @ []" for p using sent(4) by (simp add: same_maps_def waiting_for_def)
  moreover have "set (al_send_transfer_proof st') \<subseteq> set (al_send_transfer_proof st)"
    using sent(4) set_remove_nth by (simp add: same_maps_def)
  ultimately show ?thesis by (rule step_ready[OF assms(2) mem, where waits = "\<lambda>_. []"]) (simp_all add: sent(1))
next
  case (flushed peer ps ids)
  have "waiting_for p st' = (if p = peer then [] else waiting_for p st)" "waiting_for peer st = map fst ps" for p
    using flushed by (auto simp: same_maps_def waiting_for_def)
  thus ?thesis using assms(2) flushed by (auto simp: proofs_ok_def same_maps_def flushed_sent flushed_ready) blast
qed

text \<open>
  C22: over a whole run of the ASB's event loop no transfer proof is lost, duplicated or misdirected: the
  proofs that the swaps of a peer handed over are exactly, as a multiset, those sent to that peer and
  those that wait until it connects; and each proof sent to a peer is for a swap that the loop opened a
  handle for with that peer.
\<close>

theorem transfer_proofs_conserved:
  assumes "asb_run E es \<lparr>aw_log = [], aw_ext = v\<rparr> = (Ok (Some st), w')"
  shows "mset (ready_for p (aw_log w')) = mset (sent_to p (aw_log w')) + mset (waiting_for p st) \<and>
    (\<forall>req i. SentProof p req i \<in> set (aw_log w') \<longrightarrow> (\<exists>h. OpenedHandle h p (tpr_swap_id req) \<in> set (aw_log w')))"
proof -
  obtain evs where evs: "aw_log w' = evs" "loop_steps asb_loop_new evs st" using run_follows[OF assms] by auto
  have "proofs_ok st ([] @ evs)"
    by (rule machine_steps_invariant[where I = proofs_ok, OF evs(2)], simp add: proofs_ok_def asb_loop_new_def waiting_for_def)
      (rule step_proofs_ok)
  hence ok: "proofs_ok st evs" by simp
  have "\<exists>h. OpenedHandle h p (tpr_swap_id req) \<in> set evs" if "SentProof p req i \<in> set evs" for req i
  proof -
    have "req \<in># mset (sent_to p evs)" using in_sent_to[OF that] by simp
    hence "req \<in># mset (ready_for p evs)" using ok unfolding proofs_ok_def by (metis union_iff)
    hence "\<exists>r. ProofReady p req r \<in> set evs" using in_ready_for by simp
    thus ?thesis using ok unfolding proofs_ok_def by blast
  qed
  thus ?thesis using ok unfolding evs(1) proofs_ok_def by blast
qed


section \<open>Resuming\<close>

fun resumed :: "asb_act list \<Rightarrow> (uuid \<times> alice_state) list" where
  "resumed [] = []"
| "resumed (SentSwap sid h a r # evs) = (sid, a) # resumed evs"
| "resumed (_ # evs) = resumed evs"

lemma resumed_append [simp]: "resumed (a @ b) = resumed a @ resumed b"
  by (induction a rule: resumed.induct) simp_all

text \<open>The database answers by a function of the swap; a queue to the main loop accepts or refuses.\<close>

definition answers :: "('d, 'v) asb_env \<Rightarrow> (uuid \<times> swap_state) list \<Rightarrow> (uuid \<Rightarrow> peer_id option) \<Rightarrow> bool" where
  "answers E swaps peer_of \<longleftrightarrow>
     (\<forall>v. fst (ae_all E v) = Ok swaps) \<and>
     (\<forall>i v. case peer_of i of Some p \<Rightarrow> fst (ae_get_peer_id E i v) = Ok p
        | None \<Rightarrow> \<exists>e. fst (ae_get_peer_id E i v) = Err e) \<and>
     (\<forall>i h a v. fst (ae_send_swap E i h a v) = Ok () \<or> (\<exists>e. fst (ae_send_swap E i h a v) = Err e))"

definition to_resume :: "(uuid \<Rightarrow> peer_id option) \<Rightarrow> (uuid \<times> swap_state) list \<Rightarrow> (uuid \<times> alice_state) list" where
  "to_resume peer_of swaps =
     List.map_filter (\<lambda>(i, s). case s of SAlice a \<Rightarrow>
        if \<not> swap_finished s \<and> peer_of i \<noteq> None then Some (i, a) else None | SBob _ \<Rightarrow> None) swaps"

lemma answersD:
  assumes "answers E swaps peer_of"
  shows "fst (ae_all E v) = Ok swaps"
    "peer_of i = Some p \<Longrightarrow> fst (ae_get_peer_id E i v) = Ok p"
    "peer_of i = None \<Longrightarrow> \<exists>e. fst (ae_get_peer_id E i v) = Err e"
    "fst (ae_send_swap E i h a v) = Ok () \<or> (\<exists>e. fst (ae_send_swap E i h a v) = Err e)"
proof -
  have peers: "case peer_of i of Some p \<Rightarrow> fst (ae_get_peer_id E i v) = Ok p
        | None \<Rightarrow> \<exists>e. fst (ae_get_peer_id E i v) = Err e" using assms unfolding answers_def by blast
  show "fst (ae_all E v) = Ok swaps" using assms unfolding answers_def by blast
  show "peer_of i = Some p \<Longrightarrow> fst (ae_get_peer_id E i v) = Ok p" using peers by simp
  show "peer_of i = None \<Longrightarrow> \<exists>e. fst (ae_get_peer_id E i v) = Err e" using peers by simp
  show "fst (ae_send_swap E i h a v) = Ok () \<or> (\<exists>e. fst (ae_send_swap E i h a v) = Err e)"
    using assms unfolding answers_def by blast
qed

lemma attempt_act_Ok: "fst (f (aw_ext w)) = Ok x \<Longrightarrow>
  \<exists>v. attempt (act mk f) w = (Ok (Inr x), w\<lparr>aw_log := aw_log w @ [mk (Ok x)], aw_ext := v\<rparr>)"
  by (cases "f (aw_ext w)") (auto simp: act_def attempt_def)

lemma attempt_act_Err: "fst (f (aw_ext w)) = Err e \<Longrightarrow>
  \<exists>v. attempt (act mk f) w = (Ok (Inl e), w\<lparr>aw_log := aw_log w @ [mk (Err e)], aw_ext := v\<rparr>)"
  by (cases "f (aw_ext w)") (auto simp: act_def attempt_def)

lemma resume_swap_does:
  assumes "answers E swaps peer_of"
  shows "\<exists>st' w'. resume_swap E (i, SAlice a) st w = (Ok st', w') \<and>
    resumed (aw_log w') = resumed (aw_log w) @ (if peer_of i = None then [] else [(i, a)])"
proof (cases "peer_of i")
  case None
  then obtain e where "fst (ae_get_peer_id E i (aw_ext w)) = Err e" using answersD(3)[OF assms] by blast
  from attempt_act_Err[where f = "ae_get_peer_id E i" and w = w and mk = "GotPeer i", OF this] obtain v where "attempt (act (GotPeer i) (ae_get_peer_id E i)) w
      = (Ok (Inl e), w\<lparr>aw_log := aw_log w @ [GotPeer i (Err e)], aw_ext := v\<rparr>)" by blast
  thus ?thesis using None by (simp add: resume_swap_def bindio_def)
next
  case (Some p)
  hence "fst (ae_get_peer_id E i (aw_ext w)) = Ok p" using answersD(2)[OF assms] by blast
  from attempt_act_Ok[where f = "ae_get_peer_id E i" and w = w and mk = "GotPeer i", OF this] obtain v where g: "attempt (act (GotPeer i) (ae_get_peer_id E i)) w
      = (Ok (Inr p), w\<lparr>aw_log := aw_log w @ [GotPeer i (Ok p)], aw_ext := v\<rparr>)" by blast
  let ?h = "al_next_handle st"
  let ?w = "w\<lparr>aw_ext := v, aw_log := (aw_log w @ [GotPeer i (Ok p)]) @ [OpenedHandle ?h p i]\<rparr>"
  have "\<exists>r v'. attempt (act (SentSwap i ?h a) (ae_send_swap E i ?h a)) ?w =
      (Ok r, ?w\<lparr>aw_log := aw_log ?w @ [SentSwap i ?h a (case r of Inl e \<Rightarrow> Err e | Inr x \<Rightarrow> Ok x)], aw_ext := v'\<rparr>)"
  proof (cases "fst (ae_send_swap E i ?h a (aw_ext ?w)) = Ok ()")
    case True
    from attempt_act_Ok[where f = "ae_send_swap E i ?h a" and w = ?w and mk = "SentSwap i ?h a", OF this]
    obtain v' where "attempt (act (SentSwap i ?h a) (ae_send_swap E i ?h a)) ?w =
      (Ok (Inr ()), ?w\<lparr>aw_log := aw_log ?w @ [SentSwap i ?h a (Ok ())], aw_ext := v'\<rparr>)" by blast
    thus ?thesis by (intro exI[of _ "Inr ()"] exI[of _ v']) simp
  next
    case False
    then obtain e where "fst (ae_send_swap E i ?h a (aw_ext ?w)) = Err e" using answersD(4)[OF assms] by blast
    from attempt_act_Err[where f = "ae_send_swap E i ?h a" and w = ?w and mk = "SentSwap i ?h a", OF this]
    obtain v' where "attempt (act (SentSwap i ?h a) (ae_send_swap E i ?h a)) ?w =
      (Ok (Inl e), ?w\<lparr>aw_log := aw_log ?w @ [SentSwap i ?h a (Err e)], aw_ext := v'\<rparr>)" by blast
    thus ?thesis by (intro exI[of _ "Inl e"] exI[of _ v']) simp
  qed
  then obtain r v' where "attempt (act (SentSwap i ?h a) (ae_send_swap E i ?h a)) ?w =
      (Ok r, ?w\<lparr>aw_log := aw_log ?w @ [SentSwap i ?h a (case r of Inl e \<Rightarrow> Err e | Inr x \<Rightarrow> Ok x)], aw_ext := v'\<rparr>)" by blast
  thus ?thesis using Some g by (simp add: resume_swap_def bindio_def asb_new_handle_def Let_def note_act_eq)
qed

lemma resume_swaps_does:
  assumes "answers E swaps peer_of" "\<forall>(i, s)\<in>set ss. \<not> swap_finished s \<and> (\<exists>a. s = SAlice a)"
  shows "\<exists>st' w'. resume_swaps E ss st w = (Ok st', w') \<and>
    resumed (aw_log w') = resumed (aw_log w) @ to_resume peer_of ss"
  using assms(2)
proof (induction ss arbitrary: st w)
  case (Cons s ss)
  obtain i a where s: "s = (i, SAlice a)" "\<not> swap_finished (SAlice a)" using Cons.prems by (cases s) auto
  obtain st1 w1 where 1: "resume_swap E s st w = (Ok st1, w1)"
    "resumed (aw_log w1) = resumed (aw_log w) @ (if peer_of i = None then [] else [(i, a)])"
    using resume_swap_does[OF assms(1)] unfolding s by blast
  obtain st2 w2 where 2: "resume_swaps E ss st1 w1 = (Ok st2, w2)"
    "resumed (aw_log w2) = resumed (aw_log w1) @ to_resume peer_of ss" using Cons by fastforce
  have "to_resume peer_of (s # ss) = (if peer_of i = None then [] else [(i, a)]) @ to_resume peer_of ss"
    using s by (simp add: to_resume_def List.map_filter_def)
  thus ?case using 1 2 by (simp add: bindio_def)
qed (simp add: to_resume_def List.map_filter_def)

text \<open>
  when the ASB starts with a database that answers, and whose unfinished swaps are all Alice's, it
  hands exactly the unfinished swaps with a known peer, in the order of the database and each in its
  stored state, to the loop that runs swaps, and goes on to its own loop.
\<close>

theorem asb_resumes_unfinished:
  assumes "answers E swaps peer_of" "\<forall>(i, s)\<in>set swaps. swap_finished s \<or> (\<exists>a. s = SAlice a)"
  shows "\<exists>st w'. asb_startup E asb_loop_new \<lparr>aw_log = [], aw_ext = v\<rparr> = (Ok (Some st), w') \<and>
    resumed (aw_log w') = to_resume peer_of swaps"
proof -
  let ?w = "\<lparr>aw_log = [], aw_ext = v\<rparr>"
  let ?ss = "filter (\<lambda>(_, s). \<not> swap_finished s) swaps"
  have "fst (ae_all E (aw_ext ?w)) = Ok swaps" using answersD(1)[OF assms(1)] .
  from attempt_act_Ok[where f = "ae_all E" and w = ?w and mk = GotAll, OF this] obtain v' where a: "attempt (act GotAll (ae_all E)) ?w
      = (Ok (Inr swaps), ?w\<lparr>aw_log := aw_log ?w @ [GotAll (Ok swaps)], aw_ext := v'\<rparr>)" by blast
  have "\<forall>(i, s)\<in>set ?ss. \<not> swap_finished s \<and> (\<exists>a. s = SAlice a)" using assms(2) by auto
  from resume_swaps_does[OF assms(1) this, of asb_loop_new "?w\<lparr>aw_log := aw_log ?w @ [GotAll (Ok swaps)], aw_ext := v'\<rparr>"]
  obtain st w' where r: "resume_swaps E ?ss asb_loop_new (?w\<lparr>aw_log := aw_log ?w @ [GotAll (Ok swaps)], aw_ext := v'\<rparr>)
      = (Ok st, w')" "resumed (aw_log w') = to_resume peer_of ?ss" by auto
  have "to_resume peer_of ?ss = to_resume peer_of swaps"
    by (induction swaps) (auto simp: to_resume_def List.map_filter_def split: swap_state.splits)
  thus ?thesis using a r by (simp add: asb_startup_def bindio_def)
qed


section \<open>A setup with the id of a running swap\<close>

text \<open>A handle that is not in the map any more is never used again.\<close>

lemma step_dead_handle:
  assumes "loop_step st evs st'" "h < al_next_handle st \<and> h \<notin> ran (al_recv_encrypted_signature st) \<and> h \<notin> set (relayed_to past)"
  shows "h < al_next_handle st' \<and> h \<notin> ran (al_recv_encrypted_signature st') \<and> h \<notin> set (relayed_to (past @ evs))"
  using assms(1)
proof (cases rule: step_handle_cases)
  case same
  thus ?thesis using assms(2) by simp
next
  case (opened peer sid)
  thus ?thesis using assms(2) by (auto simp: ran_def)
next
  case (relayed sid h' sig ch peer r)
  thus ?thesis using assms(2) by (auto simp: ran_def)
qed

text \<open>
  a peer that completes a setup with the id of a swap that is already running cuts that swap off from
  its encrypted signature: the swap's entry in the loop is overwritten before the database refuses the
  second peer for the id, no swap is started, and whatever happens afterwards the handle of the running
  swap is never given a signature.
\<close>

theorem setup_with_known_id_cuts_swap:
  assumes "al_recv_encrypted_signature st swap_id = Some h" "handles_ok st (aw_log w)"
    and "ae_insert_peer_id E swap_id other (aw_ext w) = (Err e, v)"
    and "asb_events E (SwarmEvent (SwapSetupCompleted other swap_id state3) # es) st w = (Ok st', w')"
  shows "\<exists>w1. asb_select E (SwarmEvent (SwapSetupCompleted other swap_id state3)) st w =
      (Ok (st\<lparr>al_recv_encrypted_signature := (al_recv_encrypted_signature st)(swap_id \<mapsto> al_next_handle st),
              al_send_transfer_proof := al_send_transfer_proof st @ [(al_next_handle st, other, swap_id)],
              al_next_handle := Suc (al_next_handle st)\<rparr>), w1) \<and>
    aw_log w1 = aw_log w @ [Happened (SwarmEvent (SwapSetupCompleted other swap_id state3)),
      OpenedHandle (al_next_handle st) other swap_id, PutPeer swap_id other (Err e)] \<and>
    al_next_handle st \<noteq> h \<and> (\<forall>sig r. RelayedEncsig h sig r \<notin> set (aw_log w'))"
proof -
  let ?e = "SwarmEvent (SwapSetupCompleted other swap_id state3)"
  let ?st1 = "st\<lparr>al_recv_encrypted_signature := (al_recv_encrypted_signature st)(swap_id \<mapsto> al_next_handle st),
              al_send_transfer_proof := al_send_transfer_proof st @ [(al_next_handle st, other, swap_id)],
              al_next_handle := Suc (al_next_handle st)\<rparr>"
  obtain w1 where w1: "asb_select E ?e st w = (Ok ?st1, w1)"
    "aw_log w1 = aw_log w @ [Happened ?e, OpenedHandle (al_next_handle st) other swap_id, PutPeer swap_id other (Err e)]"
    using assms(3) by (simp add: asb_select_def asb_swarm_event_def handle_execution_setup_done_def asb_new_handle_def
        note_act_eq bindio_def Let_def attempt_def act_def)
  have h: "h < al_next_handle st" "h \<notin> set (relayed_to (aw_log w))"
    and inj: "al_recv_encrypted_signature st i = Some h \<Longrightarrow> i = swap_id" for i
    using assms(1,2) unfolding handles_ok_def by blast+
  have dead: "h < al_next_handle ?st1 \<and> h \<notin> ran (al_recv_encrypted_signature ?st1) \<and> h \<notin> set (relayed_to (aw_log w1))"
    using h inj by (auto simp: w1(2) ran_def)
  have "asb_events E es ?st1 w1 = (Ok st', w')" using assms(4) w1(1) by (simp add: bindio_def)
  from followsD[OF follows_events this] obtain evs where evs: "aw_log w' = aw_log w1 @ evs" "loop_steps ?st1 evs st'" by blast
  have "h < al_next_handle st' \<and> h \<notin> ran (al_recv_encrypted_signature st') \<and> h \<notin> set (relayed_to (aw_log w1 @ evs))"
    by (rule machine_steps_invariant[where I = "\<lambda>st past. h < al_next_handle st \<and>
          h \<notin> ran (al_recv_encrypted_signature st) \<and> h \<notin> set (relayed_to past)", OF evs(2) dead])
      (rule step_dead_handle)
  hence "\<forall>sig r. RelayedEncsig h sig r \<notin> set (aw_log w')" unfolding evs(1) in_relayed_to by blast
  thus ?thesis using w1 h(1) by blast
qed

section \<open>A concrete ASB\<close>

text \<open>
  One punished swap 77 and one unfinished swap 78 of peer 9; a database that already has the ids, a
  connected peer, and parties that accept everything.
\<close>

definition sample_asb :: "(rat, unit) asb_env" where
  "sample_asb =
     \<lparr>ae_decimal = exact_decimal, ae_min_buy = 1000, ae_max_buy = 10000, ae_external_redeem_address = None,
      ae_all = (\<lambda>v. (Ok [(77, SAlice (ABtcPunished sample_alice3)), (78, SAlice (AStarted sample_alice3))], v)),
      ae_get_peer_id = (\<lambda>i v. (if i \<in> {77, 78} then Ok 9 else Err (Msg ''no rows''), v)),
      ae_get_state = (\<lambda>i v. (if i = 77 then Ok (SAlice (ABtcPunished sample_alice3))
         else if i = 78 then Ok (SAlice (AStarted sample_alice3)) else Err (Msg ''no rows''), v)),
      ae_insert_peer_id = (\<lambda>i p v. (if i \<in> {77, 78} then Err (Msg ''UNIQUE constraint failed'') else Ok (), v)),
      ae_send_swap = (\<lambda>i h a v. (Ok (), v)),
      ae_latest_rate = (\<lambda>v. (Ok (rate_new 71428571 0), v)),
      ae_get_balance = (\<lambda>v. (Err (External 1), v)),
      ae_new_address = (\<lambda>v. (Err (External 2), v)),
      ae_estimate_fee = (\<lambda>n a v. (Err (External 3), v)),
      ae_respond_snapshot = (\<lambda>r s v. (Ok (), v)),
      ae_respond_quote = (\<lambda>c q v. (Ok (), v)),
      ae_send_encsig = (\<lambda>h s v. (Ok 5, v)),
      ae_respond_encsig = (\<lambda>c v. (Ok (), v)),
      ae_respond_coop = (\<lambda>c r v. (Ok (), v)),
      ae_is_connected = (\<lambda>p v. (False, v)),
      ae_send_proof = (\<lambda>p r v. (3, v)),
      ae_respond_proof = (\<lambda>r v. (Ok (), v))\<rparr>"


text \<open>
  The proof of swap 78 waits for peer 9 and is sent when it connects; its encrypted signature arrives;
  then peer 9 asks for the secret of swap 77.
\<close>

definition sample_request_78 :: proof_request where
  "sample_request_78 = \<lparr>tpr_swap_id = 78, tpr_tx_lock_proof = transfer_proof_new (TxHash ''ab'') (PrivateKey 7)\<rparr>"

definition sample_events :: "asb_event list" where
  "sample_events =
     [NextTransferProof 0 (Ok (transfer_proof_new (TxHash ''ab'') (PrivateKey 7), 4)), SwarmEvent (ConnectionEstablished 9),
      SwarmEvent (EncryptedSignatureReceived 78 55 6 9), SwarmEvent (CooperativeBeldexRedeemRequested 8 77 9)]"

definition sample_log :: "asb_act list" where
  "sample_log =
     [GotAll (Ok [(77, SAlice (ABtcPunished sample_alice3)), (78, SAlice (AStarted sample_alice3))]),
      GotPeer 78 (Ok 9), OpenedHandle 0 9 78, SentSwap 78 0 (AStarted sample_alice3) (Ok ()),
      Happened (NextTransferProof 0 (Ok (transfer_proof_new (TxHash ''ab'') (PrivateKey 7), 4))),
      ProofReady 9 sample_request_78 4, AskedConnected 9 False,
      Happened (SwarmEvent (ConnectionEstablished 9)), SentProof 9 sample_request_78 3,
      Happened (SwarmEvent (EncryptedSignatureReceived 78 55 6 9)), GotPeer 78 (Ok 9), RelayedEncsig 0 55 (Ok 5),
      Happened (SwarmEvent (CooperativeBeldexRedeemRequested 8 77 9)), GotPeer 77 (Ok 9),
      GotState 77 (Ok (SAlice (ABtcPunished sample_alice3))), RepliedCoop 8 (Fullfilled 77 3)]"

definition sample_final :: asb_loop where
  "sample_final = \<lparr>al_recv_encrypted_signature = Map.empty, al_inflight_encrypted_signatures = [(5, 6)],
     al_send_transfer_proof = [], al_buffered_transfer_proofs = Map.empty,
     al_inflight_transfer_proofs = [3 \<mapsto> 4], al_next_handle = 1\<rparr>"

lemma sample_asb_run:
  "asb_run sample_asb sample_events \<lparr>aw_log = [], aw_ext = ()\<rparr> =
     (Ok (Some sample_final), \<lparr>aw_log = sample_log, aw_ext = ()\<rparr>)"
  by (simp add: asb_run_def asb_startup_def sample_asb_def asb_loop_new_def act_def attempt_def bindio_def
      swap_finished_def alice_is_complete_def resume_swap_def asb_new_handle_def note_act_eq Let_def
      sample_events_def asb_select_def asb_next_proof_def act_sure_def buffer_proof_def remove_nth_def
      asb_swarm_event_def asb_connected_def asb_send_proof_def asb_encsig_received_def asb_coop_requested_def
      asb_respond_coop_def sample_log_def sample_final_def sample_request_78_def sample_alice3_def)

theorem secret_only_to_punished_peer_witness:
  "\<exists>peer state3. sublist (punished_exchange 8 77 peer state3) sample_log \<and> 3 = a3_s_a state3"
  using secret_only_to_punished_peer[OF sample_asb_run, of 8 77 3] by (simp add: sample_log_def)

theorem encsig_relayed_once_from_peer_witness:
  "distinct (relayed_to sample_log) \<and>
    (\<exists>sid ch peer opener. sublist (relay_exchange sid 55 ch peer 0 (Ok 5)) sample_log \<and>
       OpenedHandle 0 opener sid \<in> set sample_log)"
proof -
  have "RelayedEncsig 0 55 (Ok 5) \<in> set sample_log" by (simp add: sample_log_def)
  thus ?thesis using encsig_relayed_once_from_peer[OF sample_asb_run] by auto
qed

theorem transfer_proofs_conserved_witness:
  "mset (ready_for 9 sample_log) = mset (sent_to 9 sample_log) + mset (waiting_for 9 sample_final) \<and>
    (\<exists>h. OpenedHandle h 9 (tpr_swap_id sample_request_78) \<in> set sample_log)"
proof -
  have "SentProof 9 sample_request_78 3 \<in> set sample_log" by (simp add: sample_log_def)
  thus ?thesis using transfer_proofs_conserved[OF sample_asb_run, of 9] by auto
qed

theorem asb_resumes_unfinished_witness:
  "\<exists>st w'. asb_startup sample_asb asb_loop_new \<lparr>aw_log = [], aw_ext = ()\<rparr> = (Ok (Some st), w') \<and>
    resumed (aw_log w') = [(78, AStarted sample_alice3)]"
proof -
  let ?swaps = "[(77, SAlice (ABtcPunished sample_alice3)), (78, SAlice (AStarted sample_alice3))]"
  let ?peer = "\<lambda>i. if i \<in> {77, 78} then Some 9 else None"
  have "answers sample_asb ?swaps ?peer" by (simp add: answers_def sample_asb_def)
  moreover have "to_resume ?peer ?swaps = [(78, AStarted sample_alice3)]"
    by (simp add: to_resume_def List.map_filter_def swap_finished_def alice_is_complete_def)
  ultimately show ?thesis
    using asb_resumes_unfinished[of sample_asb ?swaps ?peer "()"] by simp
qed

text \<open>Swap 78 runs with handle 0; a stranger, peer 10, completes a setup with its id; the signature comes.\<close>

theorem setup_with_known_id_cuts_swap_witness:
  "\<exists>st w st' w'. asb_startup sample_asb asb_loop_new \<lparr>aw_log = [], aw_ext = ()\<rparr> = (Ok (Some st), w) \<and>
    al_recv_encrypted_signature st 78 = Some 0 \<and>
    asb_events sample_asb [SwarmEvent (SwapSetupCompleted 10 78 sample_alice3),
      SwarmEvent (EncryptedSignatureReceived 78 55 6 9)] st w = (Ok st', w') \<and>
    (\<forall>sig r. RelayedEncsig 0 sig r \<notin> set (aw_log w'))"
proof -
  let ?w = "\<lparr>aw_log = [GotAll (Ok [(77, SAlice (ABtcPunished sample_alice3)), (78, SAlice (AStarted sample_alice3))]),
      GotPeer 78 (Ok 9), OpenedHandle 0 9 78, SentSwap 78 0 (AStarted sample_alice3) (Ok ())], aw_ext = ()\<rparr>"
  let ?st = "asb_loop_new\<lparr>al_recv_encrypted_signature := [78 \<mapsto> 0], al_send_transfer_proof := [(0, 9, 78)],
      al_next_handle := 1\<rparr>"
  have start: "asb_startup sample_asb asb_loop_new \<lparr>aw_log = [], aw_ext = ()\<rparr> = (Ok (Some ?st), ?w)"
    by (simp add: asb_startup_def sample_asb_def asb_loop_new_def act_def attempt_def bindio_def
      swap_finished_def alice_is_complete_def resume_swap_def asb_new_handle_def note_act_eq Let_def)
  have ok: "handles_ok ?st (aw_log ?w)" by (simp add: handles_ok_def asb_loop_new_def)
  have ins: "ae_insert_peer_id sample_asb 78 10 (aw_ext ?w) = (Err (Msg ''UNIQUE constraint failed''), ())"
    by (simp add: sample_asb_def)
  have "\<exists>st' w'. asb_events sample_asb [SwarmEvent (SwapSetupCompleted 10 78 sample_alice3),
      SwarmEvent (EncryptedSignatureReceived 78 55 6 9)] ?st ?w = (Ok st', w')"
    by (simp add: asb_loop_new_def sample_asb_def act_def attempt_def bindio_def asb_new_handle_def note_act_eq Let_def
        asb_select_def asb_swarm_event_def handle_execution_setup_done_def asb_encsig_received_def)
  then obtain st' w' where run: "asb_events sample_asb [SwarmEvent (SwapSetupCompleted 10 78 sample_alice3),
      SwarmEvent (EncryptedSignatureReceived 78 55 6 9)] ?st ?w = (Ok st', w')" by blast
  have st: "al_recv_encrypted_signature ?st 78 = Some 0" by simp
  show ?thesis using setup_with_known_id_cuts_swap[OF st ok ins run] start st run by blast
qed

end
