(* ===== verification/Cli_Loop.thy ===== *)
theory Cli_Loop
  imports Asb_Loop
begin

text \<open>
  The event loop of the CLI: \<open>EventLoop\<close> of \<open>cli/event_loop.rs\<close>. The swarm, the database and the
  running swap are the record \<open>cli_env\<close>, a function per call on an external state \<open>'v\<close>; the world
  logs the events of the loop and every call and reply. The streams of requests that the handle of
  the swap writes to are lists in the state of the loop; a poll of a stream that is empty, or whose
  guard \<open>is_connected_to_alice\<close> fails, is a branch that \<open>select!\<close> does not take.
\<close>

section \<open>Events and the log\<close>

text \<open>
  \<open>OutEvent\<close> of \<open>cli/behaviour.rs\<close> and the variants of libp2p's \<open>SwarmEvent\<close> that the loop tells apart;
  \<open>CliOther\<close> is every other.
\<close>

datatype cli_swarm_event =
    QuoteReceived request_id bid_quote
  | CliSetupCompleted "bob_state2 outcome"
  | TransferProofReceived proof_request channel peer_id
  | EncryptedSignatureAcknowledged request_id
  | CooperativeBeldexRedeemFulfilled request_id bdx_scalar uuid
  | CooperativeBeldexRedeemRejected request_id reject_reason uuid
  | AllRedialAttemptsExhausted peer_id
  | CliFailure peer_id error
  | CliConnectionEstablished peer_id
  | Dialing peer_id
  | ConnectionClosed peer_id nat "error option"
  | OutgoingConnectionError "peer_id option" error
  | CliOther

text \<open>
  What wakes the loop: an event of the swarm, a stream of requests with something in it, or the future
  that waits for the swap's answer to a transfer proof, with that answer. \<open>HandleAsks..\<close> is the other end of a stream: the
  handle of the swap puts a request into it.
\<close>

datatype cli_event =
    CliSwarmEvent cli_swarm_event
  | NextQuoteRequest
  | NextSetupRequest
  | NextEncsig
  | PendingProof "unit outcome"
  | NextCoopRequest
  | HandleAsksQuote responder
  | HandleAsksSetup new_swap responder
  | HandleAsksEncsig encsig responder
  | HandleAsksCoop uuid responder

datatype cli_act =
    CliHappened cli_event
  | Dialed peer_id "unit outcome"
  | IsConnected peer_id bool
  | SentQuoteRequest peer_id request_id responder
  | StartedSetup peer_id new_swap responder
  | SentEncsig peer_id uuid encsig request_id responder
  | SentCoopRequest peer_id uuid request_id responder
  | AnsweredQuote responder bid_quote
  | AnsweredSetup responder "bob_state2 outcome"
  | AnsweredEncsig responder
  | AnsweredCoop responder coop_response
  | PassedProof transfer_proof "responder outcome"
  | AckedProof channel
  | KnownPeer uuid "peer_id outcome"
  | BufferedProof uuid transfer_proof "unit outcome"

type_synonym 'v cli_world = "(cli_act, 'v) event_world"

record 'v cli_env =
  ce_dial :: "peer_id \<Rightarrow> 'v \<Rightarrow> unit outcome \<times> 'v"
  ce_is_connected :: "peer_id \<Rightarrow> 'v \<Rightarrow> bool"
  ce_send_quote :: "peer_id \<Rightarrow> 'v \<Rightarrow> request_id \<times> 'v"
  ce_start_setup :: "peer_id \<Rightarrow> new_swap \<Rightarrow> 'v \<Rightarrow> 'v"
  ce_send_encsig :: "peer_id \<Rightarrow> uuid \<Rightarrow> encsig \<Rightarrow> 'v \<Rightarrow> request_id \<times> 'v"
  ce_send_coop :: "peer_id \<Rightarrow> uuid \<Rightarrow> 'v \<Rightarrow> request_id \<times> 'v"
  ce_answer_quote :: "responder \<Rightarrow> bid_quote \<Rightarrow> 'v \<Rightarrow> unit outcome \<times> 'v"
  ce_answer_setup :: "responder \<Rightarrow> bob_state2 outcome \<Rightarrow> 'v \<Rightarrow> unit outcome \<times> 'v"
  ce_answer_encsig :: "responder \<Rightarrow> 'v \<Rightarrow> unit outcome \<times> 'v"
  ce_answer_coop :: "responder \<Rightarrow> coop_response \<Rightarrow> 'v \<Rightarrow> unit outcome \<times> 'v"
  ce_pass_proof :: "transfer_proof \<Rightarrow> 'v \<Rightarrow> responder outcome \<times> 'v"
  ce_ack_proof :: "channel \<Rightarrow> 'v \<Rightarrow> unit outcome \<times> 'v"
  ce_get_peer_id :: "uuid \<Rightarrow> 'v \<Rightarrow> peer_id outcome \<times> 'v"
  ce_insert_buffered_transfer_proof :: "uuid \<Rightarrow> transfer_proof \<Rightarrow> 'v \<Rightarrow> unit outcome \<times> 'v"

section \<open>The state of the loop\<close>

record cli_loop =
  cl_swap_id :: uuid
  cl_alice_peer_id :: peer_id
  cl_quote_requests :: "responder list"
  cl_cooperative_bdx_redeem_requests :: "(uuid \<times> responder) list"
  cl_encrypted_signatures :: "(encsig \<times> responder) list"
  cl_swap_setup_requests :: "(new_swap \<times> responder) list"
  cl_inflight_quote_requests :: "request_id \<rightharpoonup> responder"
  cl_inflight_encrypted_signature_requests :: "request_id \<rightharpoonup> responder"
  cl_inflight_swap_setup :: "responder option"
  cl_inflight_cooperative_bdx_redeem_requests :: "request_id \<rightharpoonup> responder"
  cl_pending_transfer_proof :: "(responder \<times> channel) option"

definition cli_loop_new :: "uuid \<Rightarrow> peer_id \<Rightarrow> cli_loop" where
  "cli_loop_new swap_id alice_peer_id = \<lparr>cl_swap_id = swap_id, cl_alice_peer_id = alice_peer_id,
     cl_quote_requests = [], cl_cooperative_bdx_redeem_requests = [], cl_encrypted_signatures = [],
     cl_swap_setup_requests = [], cl_inflight_quote_requests = Map.empty,
     cl_inflight_encrypted_signature_requests = Map.empty, cl_inflight_swap_setup = None,
     cl_inflight_cooperative_bdx_redeem_requests = Map.empty, cl_pending_transfer_proof = None\<rparr>"

definition cli_is_connected :: "'v cli_env \<Rightarrow> cli_loop \<Rightarrow> ('v cli_world, bool) io" where
  "cli_is_connected E st =
     act_sure (IsConnected (cl_alice_peer_id st)) (\<lambda>v. (ce_is_connected E (cl_alice_peer_id st) v, v))"

section \<open>Responses to the requests in flight\<close>

definition cli_quote_received :: "'v cli_env \<Rightarrow> request_id \<Rightarrow> bid_quote \<Rightarrow> cli_loop \<Rightarrow> ('v cli_world, cli_loop) io" where
  "cli_quote_received E i response st = (case cl_inflight_quote_requests st i of
     Some responder \<Rightarrow>
       bindio (attempt (act (\<lambda>_. AnsweredQuote responder response) (ce_answer_quote E responder response))) (\<lambda>_.
       ret (st\<lparr>cl_inflight_quote_requests := (cl_inflight_quote_requests st)(i := None)\<rparr>))
   | None \<Rightarrow> ret st)"

definition cli_setup_completed :: "'v cli_env \<Rightarrow> bob_state2 outcome \<Rightarrow> cli_loop \<Rightarrow> ('v cli_world, cli_loop) io" where
  "cli_setup_completed E response st = (case cl_inflight_swap_setup st of
     Some responder \<Rightarrow>
       bindio (attempt (act (\<lambda>_. AnsweredSetup responder response) (ce_answer_setup E responder response))) (\<lambda>_.
       ret (st\<lparr>cl_inflight_swap_setup := None\<rparr>))
   | None \<Rightarrow> ret st)"

definition cli_encsig_acknowledged :: "'v cli_env \<Rightarrow> request_id \<Rightarrow> cli_loop \<Rightarrow> ('v cli_world, cli_loop) io" where
  "cli_encsig_acknowledged E i st = (case cl_inflight_encrypted_signature_requests st i of
     Some responder \<Rightarrow>
       bindio (attempt (act (\<lambda>_. AnsweredEncsig responder) (ce_answer_encsig E responder))) (\<lambda>_.
       ret (st\<lparr>cl_inflight_encrypted_signature_requests :=
         (cl_inflight_encrypted_signature_requests st)(i := None)\<rparr>))
   | None \<Rightarrow> ret st)"

definition cli_coop_answered :: "'v cli_env \<Rightarrow> request_id \<Rightarrow> coop_response \<Rightarrow> cli_loop \<Rightarrow> ('v cli_world, cli_loop) io" where
  "cli_coop_answered E i response st = (case cl_inflight_cooperative_bdx_redeem_requests st i of
     Some responder \<Rightarrow>
       bindio (attempt (act (\<lambda>_. AnsweredCoop responder response) (ce_answer_coop E responder response))) (\<lambda>_.
       ret (st\<lparr>cl_inflight_cooperative_bdx_redeem_requests :=
         (cl_inflight_cooperative_bdx_redeem_requests st)(i := None)\<rparr>))
   | None \<Rightarrow> ret st)"

section \<open>Transfer proofs\<close>

text \<open>For the running swap: passed on, and acknowledged once the swap has taken it.\<close>

definition cli_own_proof ::
  "'v cli_env \<Rightarrow> transfer_proof \<Rightarrow> channel \<Rightarrow> peer_id \<Rightarrow> cli_loop \<Rightarrow> ('v cli_world, cli_loop) io" where
  "cli_own_proof E proof ch peer st =
     (if peer \<noteq> cl_alice_peer_id st then ret st
      else
        bindio (attempt (act (PassedProof proof) (ce_pass_proof E proof))) (\<lambda>r.
        case r of
          Inl e \<Rightarrow> ret st
        | Inr responder \<Rightarrow> ret (st\<lparr>cl_pending_transfer_proof := Some (responder, ch)\<rparr>)))"

text \<open>For another swap: stored in the database.\<close>

definition cli_foreign_proof ::
  "'v cli_env \<Rightarrow> uuid \<Rightarrow> transfer_proof \<Rightarrow> channel \<Rightarrow> cli_loop \<Rightarrow> ('v cli_world, unit) io" where
  "cli_foreign_proof E swap_id proof ch st =
     bindio (attempt (act (KnownPeer swap_id) (ce_get_peer_id E swap_id))) (\<lambda>r.
     case r of
       Inl e \<Rightarrow> ret ()
     | Inr buffer_swap_alice_peer_id \<Rightarrow>
         if buffer_swap_alice_peer_id = cl_alice_peer_id st then
           bindio (attempt (act (BufferedProof swap_id proof) (ce_insert_buffered_transfer_proof E swap_id proof))) (\<lambda>r.
           case r of
             Inl e \<Rightarrow> ret ()
           | Inr _ \<Rightarrow> bindio (attempt (act (\<lambda>_. AckedProof ch) (ce_ack_proof E ch))) (\<lambda>_. ret ()))
         else ret ())"

definition cli_proof_received ::
  "'v cli_env \<Rightarrow> proof_request \<Rightarrow> channel \<Rightarrow> peer_id \<Rightarrow> cli_loop \<Rightarrow> ('v cli_world, cli_loop) io" where
  "cli_proof_received E msg ch peer st =
     (let swap_id = tpr_swap_id msg in
      if swap_id = cl_swap_id st then cli_own_proof E (tpr_tx_lock_proof msg) ch peer st
      else bindio (cli_foreign_proof E swap_id (tpr_tx_lock_proof msg) ch st) (\<lambda>_. ret st))"

section \<open>The branches\<close>

text \<open>\<open>None\<close> when the loop returns.\<close>

definition go_on :: "('w, 'a) io \<Rightarrow> ('w, 'a option) io" where
  "go_on m = bindio m (\<lambda>x. ret (Some x))"

definition cli_on_swarm_event ::
  "'v cli_env \<Rightarrow> cli_swarm_event \<Rightarrow> cli_loop \<Rightarrow> ('v cli_world, cli_loop option) io" where
  "cli_on_swarm_event E e st = (case e of
     QuoteReceived i response \<Rightarrow> go_on (cli_quote_received E i response st)
   | CliSetupCompleted response \<Rightarrow> go_on (cli_setup_completed E response st)
   | TransferProofReceived msg ch peer \<Rightarrow> go_on (cli_proof_received E msg ch peer st)
   | EncryptedSignatureAcknowledged i \<Rightarrow> go_on (cli_encsig_acknowledged E i st)
   | CooperativeBeldexRedeemFulfilled i s_a swap_id \<Rightarrow> go_on (cli_coop_answered E i (Fullfilled swap_id s_a) st)
   | CooperativeBeldexRedeemRejected i reason swap_id \<Rightarrow> go_on (cli_coop_answered E i (Rejected swap_id reason) st)
   | AllRedialAttemptsExhausted peer \<Rightarrow> ret (if peer = cl_alice_peer_id st then None else Some st)
   | CliFailure peer error \<Rightarrow> ret None
   | ConnectionClosed peer num_established cause \<Rightarrow>
       ret (if cause = None \<and> peer = cl_alice_peer_id st \<and> num_established = 0 then None else Some st)
   | _ \<Rightarrow> ret (Some st))"

definition cli_next_quote :: "'v cli_env \<Rightarrow> cli_loop \<Rightarrow> ('v cli_world, cli_loop) io" where
  "cli_next_quote E st =
     bindio (cli_is_connected E st) (\<lambda>connected.
     case cl_quote_requests st of
       [] \<Rightarrow> ret st
     | responder # rest \<Rightarrow>
         if \<not> connected then ret st
         else
           bindio (act_sure (\<lambda>i. SentQuoteRequest (cl_alice_peer_id st) i responder)
              (ce_send_quote E (cl_alice_peer_id st))) (\<lambda>i.
           ret (st\<lparr>cl_quote_requests := rest,
                   cl_inflight_quote_requests := (cl_inflight_quote_requests st)(i \<mapsto> responder)\<rparr>)))"

definition cli_next_setup :: "'v cli_env \<Rightarrow> cli_loop \<Rightarrow> ('v cli_world, cli_loop) io" where
  "cli_next_setup E st =
     bindio (cli_is_connected E st) (\<lambda>connected.
     case cl_swap_setup_requests st of
       [] \<Rightarrow> ret st
     | (swap, responder) # rest \<Rightarrow>
         if \<not> connected then ret st
         else
           bindio (act_sure (\<lambda>_. StartedSetup (cl_alice_peer_id st) swap responder)
              (\<lambda>v. ((), ce_start_setup E (cl_alice_peer_id st) swap v))) (\<lambda>_.
           ret (st\<lparr>cl_swap_setup_requests := rest, cl_inflight_swap_setup := Some responder\<rparr>)))"

definition cli_next_encsig :: "'v cli_env \<Rightarrow> cli_loop \<Rightarrow> ('v cli_world, cli_loop) io" where
  "cli_next_encsig E st =
     bindio (cli_is_connected E st) (\<lambda>connected.
     case cl_encrypted_signatures st of
       [] \<Rightarrow> ret st
     | (tx_redeem_encsig, responder) # rest \<Rightarrow>
         if \<not> connected then ret st
         else
           bindio (act_sure (\<lambda>i. SentEncsig (cl_alice_peer_id st) (cl_swap_id st) tx_redeem_encsig i responder)
              (ce_send_encsig E (cl_alice_peer_id st) (cl_swap_id st) tx_redeem_encsig)) (\<lambda>i.
           ret (st\<lparr>cl_encrypted_signatures := rest, cl_inflight_encrypted_signature_requests :=
             (cl_inflight_encrypted_signature_requests st)(i \<mapsto> responder)\<rparr>)))"

definition cli_next_coop :: "'v cli_env \<Rightarrow> cli_loop \<Rightarrow> ('v cli_world, cli_loop) io" where
  "cli_next_coop E st =
     bindio (cli_is_connected E st) (\<lambda>connected.
     case cl_cooperative_bdx_redeem_requests st of
       [] \<Rightarrow> ret st
     | (swap_id, responder) # rest \<Rightarrow>
         if \<not> connected then ret st
         else
           bindio (act_sure (\<lambda>i. SentCoopRequest (cl_alice_peer_id st) swap_id i responder)
              (ce_send_coop E (cl_alice_peer_id st) swap_id)) (\<lambda>i.
           ret (st\<lparr>cl_cooperative_bdx_redeem_requests := rest, cl_inflight_cooperative_bdx_redeem_requests :=
             (cl_inflight_cooperative_bdx_redeem_requests st)(i \<mapsto> responder)\<rparr>)))"

definition cli_pending_proof :: "'v cli_env \<Rightarrow> unit outcome \<Rightarrow> cli_loop \<Rightarrow> ('v cli_world, cli_loop) io" where
  "cli_pending_proof E received st = (case cl_pending_transfer_proof st of
     Some (_, ch) \<Rightarrow>
       bindio (attempt (lift received)) (\<lambda>_.
       bindio (attempt (act (\<lambda>_. AckedProof ch) (ce_ack_proof E ch))) (\<lambda>_.
       ret (st\<lparr>cl_pending_transfer_proof := None\<rparr>)))
   | None \<Rightarrow> ret st)"

text \<open>The other end of the streams: \<open>EventLoopHandle\<close>.\<close>

definition cli_handle_asks :: "cli_event \<Rightarrow> cli_loop \<Rightarrow> cli_loop" where
  "cli_handle_asks e st = (case e of
     HandleAsksQuote r \<Rightarrow> st\<lparr>cl_quote_requests := cl_quote_requests st @ [r]\<rparr>
   | HandleAsksSetup swap r \<Rightarrow> st\<lparr>cl_swap_setup_requests := cl_swap_setup_requests st @ [(swap, r)]\<rparr>
   | HandleAsksEncsig sig r \<Rightarrow> st\<lparr>cl_encrypted_signatures := cl_encrypted_signatures st @ [(sig, r)]\<rparr>
   | HandleAsksCoop i r \<Rightarrow>
       st\<lparr>cl_cooperative_bdx_redeem_requests := cl_cooperative_bdx_redeem_requests st @ [(i, r)]\<rparr>
   | _ \<Rightarrow> st)"

definition cli_select :: "'v cli_env \<Rightarrow> cli_event \<Rightarrow> cli_loop \<Rightarrow> ('v cli_world, cli_loop option) io" where
  "cli_select E e st =
     bindio (note_act (CliHappened e)) (\<lambda>_.
     case e of
       CliSwarmEvent s \<Rightarrow> cli_on_swarm_event E s st
     | NextQuoteRequest \<Rightarrow> go_on (cli_next_quote E st)
     | NextSetupRequest \<Rightarrow> go_on (cli_next_setup E st)
     | NextEncsig \<Rightarrow> go_on (cli_next_encsig E st)
     | PendingProof received \<Rightarrow> go_on (cli_pending_proof E received st)
     | NextCoopRequest \<Rightarrow> go_on (cli_next_coop E st)
     | _ \<Rightarrow> ret (Some (cli_handle_asks e st)))"

text \<open>
  The loop on the events that the world delivers, with the state in which it stopped and whether it
  has returned.
\<close>

primrec cli_events :: "'v cli_env \<Rightarrow> cli_event list \<Rightarrow> cli_loop \<Rightarrow> ('v cli_world, cli_loop \<times> bool) io" where
  "cli_events E [] st = ret (st, False)"
| "cli_events E (e # es) st =
     bindio (cli_select E e st) (\<lambda>r.
     case r of None \<Rightarrow> ret (st, True) | Some st' \<Rightarrow> cli_events E es st')"

definition cli_run :: "'v cli_env \<Rightarrow> uuid \<Rightarrow> peer_id \<Rightarrow> cli_event list \<Rightarrow> ('v cli_world, cli_loop \<times> bool) io" where
  "cli_run E swap_id alice_peer_id es =
     (let st = cli_loop_new swap_id alice_peer_id in
      bindio (attempt (act (Dialed alice_peer_id) (ce_dial E alice_peer_id))) (\<lambda>r.
      case r of
        Inl e \<Rightarrow> ret (st, True)
      | Inr _ \<Rightarrow> cli_events E es st))"

end
