(* ===== verification/Cli_Loop_Properties.thy ===== *)
theory Cli_Loop_Properties
  imports Cli_Loop Database_Properties "HOL-Library.Multiset"
begin

text \<open>
  What the event loop of the CLI guarantees. \<open>cli_step\<close> is its abstract machine, one step for each
  select with the piece of the log it writes; every run of the loop is a run of the machine.
\<close>

section \<open>The abstract machine\<close>

text \<open>The entries of a select that leaves the state of the loop alone.\<close>

definition cli_quiet :: "cli_act \<Rightarrow> bool" where
  "cli_quiet a = (case a of CliHappened (HandleAsksQuote _) \<Rightarrow> False | CliHappened (HandleAsksSetup _ _) \<Rightarrow> False
     | CliHappened (HandleAsksEncsig _ _) \<Rightarrow> False | CliHappened (HandleAsksCoop _ _) \<Rightarrow> False
     | CliHappened _ \<Rightarrow> True | IsConnected _ _ \<Rightarrow> True | Dialed _ _ \<Rightarrow> True | KnownPeer _ _ \<Rightarrow> True | _ \<Rightarrow> False)"

inductive cli_step :: "cli_loop \<Rightarrow> cli_act list \<Rightarrow> cli_loop \<Rightarrow> bool" where
  quiet: "list_all cli_quiet evs \<Longrightarrow> cli_step st evs st"
| asked: "cli_step st [CliHappened e] (cli_handle_asks e st)"
| sent_quote: "cl_quote_requests st = r # rest \<Longrightarrow> a = cl_alice_peer_id st \<Longrightarrow>
    cli_step st [CliHappened NextQuoteRequest, IsConnected a True, SentQuoteRequest a i r]
      (st\<lparr>cl_quote_requests := rest, cl_inflight_quote_requests := (cl_inflight_quote_requests st)(i \<mapsto> r)\<rparr>)"
| started_setup: "cl_swap_setup_requests st = (swap, r) # rest \<Longrightarrow> a = cl_alice_peer_id st \<Longrightarrow>
    cli_step st [CliHappened NextSetupRequest, IsConnected a True, StartedSetup a swap r]
      (st\<lparr>cl_swap_setup_requests := rest, cl_inflight_swap_setup := Some r\<rparr>)"
| sent_encsig: "cl_encrypted_signatures st = (sig, r) # rest \<Longrightarrow> a = cl_alice_peer_id st \<Longrightarrow>
    cli_step st [CliHappened NextEncsig, IsConnected a True, SentEncsig a (cl_swap_id st) sig i r]
      (st\<lparr>cl_encrypted_signatures := rest, cl_inflight_encrypted_signature_requests :=
        (cl_inflight_encrypted_signature_requests st)(i \<mapsto> r)\<rparr>)"
| sent_coop: "cl_cooperative_bdx_redeem_requests st = (swap_id, r) # rest \<Longrightarrow> a = cl_alice_peer_id st \<Longrightarrow>
    cli_step st [CliHappened NextCoopRequest, IsConnected a True, SentCoopRequest a swap_id i r]
      (st\<lparr>cl_cooperative_bdx_redeem_requests := rest, cl_inflight_cooperative_bdx_redeem_requests :=
        (cl_inflight_cooperative_bdx_redeem_requests st)(i \<mapsto> r)\<rparr>)"
| answered_quote: "cl_inflight_quote_requests st i = Some r \<Longrightarrow>
    cli_step st [CliHappened (CliSwarmEvent (QuoteReceived i q)), AnsweredQuote r q]
      (st\<lparr>cl_inflight_quote_requests := (cl_inflight_quote_requests st)(i := None)\<rparr>)"
| answered_setup: "cl_inflight_swap_setup st = Some r \<Longrightarrow>
    cli_step st [CliHappened (CliSwarmEvent (CliSetupCompleted s2)), AnsweredSetup r s2]
      (st\<lparr>cl_inflight_swap_setup := None\<rparr>)"
| answered_encsig: "cl_inflight_encrypted_signature_requests st i = Some r \<Longrightarrow>
    cli_step st [CliHappened (CliSwarmEvent (EncryptedSignatureAcknowledged i)), AnsweredEncsig r]
      (st\<lparr>cl_inflight_encrypted_signature_requests := (cl_inflight_encrypted_signature_requests st)(i := None)\<rparr>)"
| answered_coop: "cl_inflight_cooperative_bdx_redeem_requests st i = Some r \<Longrightarrow>
    (e = CooperativeBeldexRedeemFulfilled i s_a swap_id \<and> resp = Fullfilled swap_id s_a \<or>
     e = CooperativeBeldexRedeemRejected i reason swap_id \<and> resp = Rejected swap_id reason) \<Longrightarrow>
    cli_step st [CliHappened (CliSwarmEvent e), AnsweredCoop r resp]
      (st\<lparr>cl_inflight_cooperative_bdx_redeem_requests := (cl_inflight_cooperative_bdx_redeem_requests st)(i := None)\<rparr>)"
| passed: "tpr_swap_id req = cl_swap_id st \<Longrightarrow> a = cl_alice_peer_id st \<Longrightarrow>
    cli_step st [CliHappened (CliSwarmEvent (TransferProofReceived req ch a)), PassedProof (tpr_tx_lock_proof req) res]
      (case res of Ok r \<Rightarrow> st\<lparr>cl_pending_transfer_proof := Some (r, ch)\<rparr> | _ \<Rightarrow> st)"
| buffered: "tpr_swap_id req \<noteq> cl_swap_id st \<Longrightarrow> acks = (if res = Ok () then [AckedProof ch] else []) \<Longrightarrow>
    cli_step st ([CliHappened (CliSwarmEvent (TransferProofReceived req ch p)),
      KnownPeer (tpr_swap_id req) (Ok (cl_alice_peer_id st)),
      BufferedProof (tpr_swap_id req) (tpr_tx_lock_proof req) res] @ acks) st"
| taken: "cl_pending_transfer_proof st = Some (r, ch) \<Longrightarrow>
    cli_step st [CliHappened (PendingProof res), AckedProof ch] (st\<lparr>cl_pending_transfer_proof := None\<rparr>)"

abbreviation cli_steps :: "cli_loop \<Rightarrow> cli_act list \<Rightarrow> cli_loop \<Rightarrow> bool" where
  "cli_steps \<equiv> machine_steps cli_step"

lemmas cli_steps_more = machine_steps.more[where step = cli_step]

lemma cli_quiet_simps [simp]:
  "cli_quiet (CliHappened (CliSwarmEvent e))" "cli_quiet (CliHappened NextQuoteRequest)"
  "cli_quiet (CliHappened NextSetupRequest)" "cli_quiet (CliHappened NextEncsig)" "cli_quiet (CliHappened (PendingProof r))"
  "cli_quiet (CliHappened NextCoopRequest)" "cli_quiet (IsConnected p b)" "cli_quiet (Dialed p d)" "cli_quiet (KnownPeer i k)"
  "\<not> cli_quiet (CliHappened (HandleAsksQuote r1))" "\<not> cli_quiet (CliHappened (HandleAsksSetup n r1))"
  "\<not> cli_quiet (CliHappened (HandleAsksEncsig sig r1))" "\<not> cli_quiet (CliHappened (HandleAsksCoop i r1))"
  "\<not> cli_quiet (SentQuoteRequest p n1 r1)" "\<not> cli_quiet (StartedSetup p n2 r1)" "\<not> cli_quiet (SentEncsig p i sig n1 r1)"
  "\<not> cli_quiet (SentCoopRequest p i n1 r1)" "\<not> cli_quiet (AnsweredQuote r1 q)" "\<not> cli_quiet (AnsweredSetup r1 s2)"
  "\<not> cli_quiet (AnsweredEncsig r1)" "\<not> cli_quiet (AnsweredCoop r1 c)" "\<not> cli_quiet (PassedProof t r2)"
  "\<not> cli_quiet (AckedProof n1)" "\<not> cli_quiet (BufferedProof i t r3)"
  by (simp_all add: cli_quiet_def)

section \<open>The loop follows the machine\<close>

lemma go_on_eq_Ok: "go_on m w = (Ok r, w') \<longleftrightarrow> (\<exists>x. r = Some x \<and> m w = (Ok x, w'))"
  by (auto simp: go_on_def bindio_eq_Ok)

lemma attempt_act_const_OkD: "attempt (act (\<lambda>_. a) f) w = (Ok r, w') \<Longrightarrow> aw_log w' = aw_log w @ [a]"
  using attempt_act_OkD[where mk = "\<lambda>_. a"] by fastforce

text \<open>What one select does, told from the entry of its event on.\<close>

definition cli_does :: "cli_event \<Rightarrow> cli_loop \<Rightarrow> ('v cli_world, cli_loop) io \<Rightarrow> bool" where
  "cli_does e st m \<longleftrightarrow> (\<forall>w st' w'. m w = (Ok st', w') \<longrightarrow>
     (\<exists>evs. aw_log w' = aw_log w @ evs \<and> cli_step st (CliHappened e # evs) st'))"

lemma cli_doesI:
  "(\<And>w st' w'. m w = (Ok st', w') \<Longrightarrow> \<exists>evs. aw_log w' = aw_log w @ evs \<and> cli_step st (CliHappened e # evs) st') \<Longrightarrow>
   cli_does e st m"
  by (simp add: cli_does_def)

lemma does_quote_received: "cli_does (CliSwarmEvent (QuoteReceived i q)) st (cli_quote_received E i q st)"
  by (rule cli_doesI) (auto simp: cli_quote_received_def bindio_eq_Ok dest!: attempt_act_const_OkD
      intro!: cli_step.quiet intro: cli_step.answered_quote split: option.splits)

lemma does_setup_completed: "cli_does (CliSwarmEvent (CliSetupCompleted s2)) st (cli_setup_completed E s2 st)"
  by (rule cli_doesI) (auto simp: cli_setup_completed_def bindio_eq_Ok dest!: attempt_act_const_OkD
      intro!: cli_step.quiet intro: cli_step.answered_setup split: option.splits)

lemma does_encsig_acknowledged: "cli_does (CliSwarmEvent (EncryptedSignatureAcknowledged i)) st (cli_encsig_acknowledged E i st)"
  by (rule cli_doesI) (auto simp: cli_encsig_acknowledged_def bindio_eq_Ok dest!: attempt_act_const_OkD
      intro!: cli_step.quiet intro: cli_step.answered_encsig split: option.splits)

lemma does_coop_answered:
  assumes "e = CooperativeBeldexRedeemFulfilled i s_a swap_id \<and> resp = Fullfilled swap_id s_a \<or>
     e = CooperativeBeldexRedeemRejected i reason swap_id \<and> resp = Rejected swap_id reason"
  shows "cli_does (CliSwarmEvent e) st (cli_coop_answered E i resp st)"
  using assms by (intro cli_doesI) (auto simp: cli_coop_answered_def bindio_eq_Ok dest!: attempt_act_const_OkD
      intro!: cli_step.quiet intro: cli_step.answered_coop split: option.splits)

lemma is_connected_OkD:
  "cli_is_connected E st w = (Ok b, w') \<Longrightarrow> aw_log w' = aw_log w @ [IsConnected (cl_alice_peer_id st) b]"
  by (auto simp: cli_is_connected_def dest!: act_sure_OkD)

lemma does_next_quote: "cli_does NextQuoteRequest st (cli_next_quote E st)"
  by (rule cli_doesI, cases "cl_quote_requests st") (auto simp: cli_next_quote_def bindio_eq_Ok dest!: is_connected_OkD act_sure_OkD
      intro!: cli_step.quiet intro: cli_step.sent_quote split: list.splits if_splits)

lemma does_next_setup: "cli_does NextSetupRequest st (cli_next_setup E st)"
  by (rule cli_doesI, cases "cl_swap_setup_requests st",
      auto simp: cli_next_setup_def bindio_eq_Ok dest!: is_connected_OkD act_sure_OkD
      intro!: cli_step.quiet split: list.splits if_splits,
      (rule cli_step.started_setup, assumption, simp)+)

lemma does_next_encsig: "cli_does NextEncsig st (cli_next_encsig E st)"
  by (rule cli_doesI, cases "cl_encrypted_signatures st",
      auto simp: cli_next_encsig_def bindio_eq_Ok dest!: is_connected_OkD act_sure_OkD
      intro!: cli_step.quiet split: list.splits if_splits,
      (rule cli_step.sent_encsig, assumption, simp)+)

lemma does_next_coop: "cli_does NextCoopRequest st (cli_next_coop E st)"
  by (rule cli_doesI, cases "cl_cooperative_bdx_redeem_requests st",
      auto simp: cli_next_coop_def bindio_eq_Ok dest!: is_connected_OkD act_sure_OkD
      intro!: cli_step.quiet split: list.splits if_splits,
      (rule cli_step.sent_coop, assumption, simp)+)

lemma attempt_lift_OkD: "attempt (lift x) w = (Ok r, w') \<Longrightarrow> w' = w"
  by (auto simp: attempt_def lift_def split: outcome.splits)

lemma does_pending_proof: "cli_does (PendingProof res) st (cli_pending_proof E res st)"
  by (rule cli_doesI, auto simp: cli_pending_proof_def bindio_eq_Ok dest!: attempt_lift_OkD attempt_act_const_OkD
      intro!: cli_step.quiet split: option.splits, (rule cli_step.taken, assumption)+)

lemma does_proof_received:
  "cli_does (CliSwarmEvent (TransferProofReceived req ch peer)) st (cli_proof_received E req ch peer st)"
proof (rule cli_doesI)
  fix w st' w'
  assume *: "cli_proof_received E req ch peer st w = (Ok st', w')"
  let ?e = "CliHappened (CliSwarmEvent (TransferProofReceived req ch peer))" and ?i = "tpr_swap_id req"
  let ?o = "\<lambda>r. case r of Inl e \<Rightarrow> Err e | Inr x \<Rightarrow> Ok x"
  show "\<exists>evs. aw_log w' = aw_log w @ evs \<and> cli_step st (?e # evs) st'"
  proof (cases "?i = cl_swap_id st")
    case own: True
    show ?thesis
    proof (cases "peer = cl_alice_peer_id st")
      case False
      thus ?thesis using * own by (auto simp: cli_proof_received_def cli_own_proof_def intro!: cli_step.quiet)
    next
      case True
      then obtain r where r: "attempt (act (PassedProof (tpr_tx_lock_proof req)) (ce_pass_proof E (tpr_tx_lock_proof req))) w
          = (Ok r, w')" "st' = (case r of Inl e \<Rightarrow> st | Inr responder \<Rightarrow> st\<lparr>cl_pending_transfer_proof := Some (responder, ch)\<rparr>)"
        using * own by (auto simp: cli_proof_received_def cli_own_proof_def bindio_eq_Ok case_sum_eq_Ok)
      have "st' = (case ?o r of Ok r \<Rightarrow> st\<lparr>cl_pending_transfer_proof := Some (r, ch)\<rparr> | _ \<Rightarrow> st)"
        using r(2) by (cases r) auto
      hence "cli_step st [?e, PassedProof (tpr_tx_lock_proof req) (?o r)] st'"
        using cli_step.passed[OF own True, of ch "?o r"] by (simp only:)
      thus ?thesis using attempt_act_OkD[OF r(1)] by auto
    qed
  next
    case foreign: False
    have "bindio (cli_foreign_proof E ?i (tpr_tx_lock_proof req) ch st) (\<lambda>_. ret st) w = (Ok st', w')"
      using * foreign by (simp add: cli_proof_received_def)
    then obtain u where u: "cli_foreign_proof E ?i (tpr_tx_lock_proof req) ch st w = (Ok u, w')" "st' = st"
      unfolding bindio_eq_Ok ret_apply prod.inject outcome.inject by blast
    obtain r w2 where r: "attempt (act (KnownPeer ?i) (ce_get_peer_id E ?i)) w = (Ok r, w2)"
      "(case r of Inl e \<Rightarrow> ret () | Inr known \<Rightarrow>
         if known = cl_alice_peer_id st then
           bindio (attempt (act (BufferedProof ?i (tpr_tx_lock_proof req))
             (ce_insert_buffered_transfer_proof E ?i (tpr_tx_lock_proof req)))) (\<lambda>r.
           case r of Inl e \<Rightarrow> ret ()
           | Inr _ \<Rightarrow> bindio (attempt (act (\<lambda>_. AckedProof ch) (ce_ack_proof E ch))) (\<lambda>_. ret ()))
         else ret ()) w2 = (Ok u, w')"
      using u unfolding cli_foreign_proof_def bindio_eq_Ok by blast
    have w2: "aw_log w2 = aw_log w @ [KnownPeer ?i (?o r)]" using attempt_act_OkD[OF r(1)] by blast
    show ?thesis
    proof (cases "r = Inr (cl_alice_peer_id st)")
      case False
      hence "w' = w2" using r(2) by (auto split: sum.splits if_splits)
      thus ?thesis using w2 u(2) by (auto intro!: cli_step.quiet)
    next
      case True
      then obtain b w3 where b: "attempt (act (BufferedProof ?i (tpr_tx_lock_proof req))
             (ce_insert_buffered_transfer_proof E ?i (tpr_tx_lock_proof req))) w2 = (Ok b, w3)"
        "(case b of Inl e \<Rightarrow> ret ()
           | Inr _ \<Rightarrow> bindio (attempt (act (\<lambda>_. AckedProof ch) (ce_ack_proof E ch))) (\<lambda>_. ret ())) w3 = (Ok u, w')"
        using r(2) by (auto simp: bindio_eq_Ok)
      have w3: "aw_log w3 = aw_log w2 @ [BufferedProof ?i (tpr_tx_lock_proof req) (?o b)]"
        using attempt_act_OkD[OF b(1)] by blast
      have "aw_log w' = aw_log w3 @ (if ?o b = Ok () then [AckedProof ch] else [])"
        using b(2) by (cases b) (auto simp: bindio_eq_Ok dest!: attempt_act_const_OkD)
      hence "aw_log w' = aw_log w @ [KnownPeer ?i (Ok (cl_alice_peer_id st)), BufferedProof ?i (tpr_tx_lock_proof req) (?o b)]
          @ (if ?o b = Ok () then [AckedProof ch] else [])" using w2 w3 True by simp
      moreover have "cli_step st (?e # [KnownPeer ?i (Ok (cl_alice_peer_id st)), BufferedProof ?i (tpr_tx_lock_proof req) (?o b)]
          @ (if ?o b = Ok () then [AckedProof ch] else [])) st'"
        using cli_step.buffered[OF foreign refl, where res = "?o b" and ch = ch and p = peer] u(2) by simp
      ultimately show ?thesis by blast
    qed
  qed
qed

lemma doesD:
  assumes "cli_does e st m" "go_on m (w\<lparr>aw_log := aw_log w @ [CliHappened e]\<rparr>) = (Ok r, w')"
  shows "\<exists>evs st'. r = Some st' \<and> aw_log w' = aw_log w @ evs \<and> cli_step st evs st'"
proof -
  obtain st' where st': "r = Some st'" "m (w\<lparr>aw_log := aw_log w @ [CliHappened e]\<rparr>) = (Ok st', w')"
    using assms(2) by (auto simp: go_on_eq_Ok)
  thus ?thesis using assms(1) unfolding cli_does_def by fastforce
qed

text \<open>One select is one step; a select after which the loop returns changes nothing.\<close>

lemma select_step:
  assumes "cli_select E e st w = (Ok r, w')"
  shows "\<exists>evs. aw_log w' = aw_log w @ evs \<and> cli_step st evs (case r of None \<Rightarrow> st | Some st' \<Rightarrow> st')"
proof -
  let ?w = "w\<lparr>aw_log := aw_log w @ [CliHappened e]\<rparr>"
  show ?thesis
  proof (cases e)
    case (CliSwarmEvent s)
    hence *: "cli_on_swarm_event E s st ?w = (Ok r, w')" using assms by (simp add: cli_select_def bindio_def note_act_eq)
    have does: "\<exists>evs. aw_log w' = aw_log w @ evs \<and> cli_step st evs (case r of None \<Rightarrow> st | Some st' \<Rightarrow> st')"
      if "cli_does (CliSwarmEvent s) st m" "cli_on_swarm_event E s st = go_on m" for m
      using doesD[OF that(1), of w r w'] * that(2) CliSwarmEvent by fastforce
    have stays: "\<exists>evs. aw_log w' = aw_log w @ evs \<and> cli_step st evs (case r of None \<Rightarrow> st | Some st' \<Rightarrow> st')"
      if "cli_on_swarm_event E s st = ret x" "x = None \<or> x = Some st" for x
      using that * CliSwarmEvent by (auto intro!: cli_step.quiet)
    show ?thesis
    proof (cases s)
      case (CooperativeBeldexRedeemFulfilled i s_a swap_id)
      show ?thesis
        by (rule does[OF does_coop_answered[of s i s_a swap_id "Fullfilled swap_id s_a"]])
          (simp_all add: CooperativeBeldexRedeemFulfilled cli_on_swarm_event_def)
    next
      case (CooperativeBeldexRedeemRejected i reason swap_id)
      show ?thesis
        by (rule does[OF does_coop_answered[of s i _ swap_id "Rejected swap_id reason" reason]])
          (simp_all add: CooperativeBeldexRedeemRejected cli_on_swarm_event_def)
    next
      case (QuoteReceived i q)
      show ?thesis by (rule does[of "cli_quote_received E i q st"]) (simp_all add: QuoteReceived cli_on_swarm_event_def does_quote_received)
    next
      case (CliSetupCompleted s2)
      show ?thesis by (rule does[of "cli_setup_completed E s2 st"]) (simp_all add: CliSetupCompleted cli_on_swarm_event_def does_setup_completed)
    next
      case (TransferProofReceived req ch peer)
      show ?thesis by (rule does[of "cli_proof_received E req ch peer st"]) (simp_all add: TransferProofReceived cli_on_swarm_event_def does_proof_received)
    next
      case (EncryptedSignatureAcknowledged i)
      show ?thesis by (rule does[of "cli_encsig_acknowledged E i st"]) (simp_all add: EncryptedSignatureAcknowledged cli_on_swarm_event_def does_encsig_acknowledged)
    qed (use stays in \<open>force simp: cli_on_swarm_event_def split: if_splits\<close>)+
  next
    case NextQuoteRequest
    thus ?thesis using assms doesD[OF does_next_quote, where w = w] by (fastforce simp: cli_select_def bindio_def note_act_eq)
  next
    case NextSetupRequest
    thus ?thesis using assms doesD[OF does_next_setup, where w = w] by (fastforce simp: cli_select_def bindio_def note_act_eq)
  next
    case NextEncsig
    thus ?thesis using assms doesD[OF does_next_encsig, where w = w] by (fastforce simp: cli_select_def bindio_def note_act_eq)
  next
    case NextCoopRequest
    thus ?thesis using assms doesD[OF does_next_coop, where w = w] by (fastforce simp: cli_select_def bindio_def note_act_eq)
  next
    case (PendingProof res)
    thus ?thesis using assms doesD[OF does_pending_proof, where w = w] by (fastforce simp: cli_select_def bindio_def note_act_eq)
  qed (use assms in \<open>auto simp: cli_select_def bindio_def note_act_eq intro: cli_step.asked\<close>)
qed

lemma events_steps:
  "cli_events E es st w = (Ok (st', b), w') \<Longrightarrow> \<exists>evs. aw_log w' = aw_log w @ evs \<and> cli_steps st evs st'"
proof (induction es arbitrary: st w)
  case Nil
  thus ?case by (auto intro: machine_steps.stop)
next
  case (Cons e es)
  then obtain r w1 where r: "cli_select E e st w = (Ok r, w1)"
    "(case r of None \<Rightarrow> ret (st, True) | Some st1 \<Rightarrow> cli_events E es st1) w1 = (Ok (st', b), w')"
    by (auto simp: bindio_eq_Ok)
  obtain e1 where e1: "aw_log w1 = aw_log w @ e1" "cli_step st e1 (case r of None \<Rightarrow> st | Some st' \<Rightarrow> st')"
    using select_step[OF r(1)] by blast
  show ?case
  proof (cases r)
    case None
    thus ?thesis using r(2) e1 machine_steps_one[where step = cli_step, OF e1(2)] by auto
  next
    case (Some st1)
    hence "cli_events E es st1 w1 = (Ok (st', b), w')" using r(2) by simp
    from Cons.IH[OF this] obtain e2 where "aw_log w' = aw_log w1 @ e2" "cli_steps st1 e2 st'" by blast
    thus ?thesis using e1 Some cli_steps_more[where evs = e1 and evs' = e2] by auto
  qed
qed

lemma cli_run_steps:
  assumes "cli_run E swap_id a es w = (Ok (st, b), w')"
  shows "\<exists>evs. aw_log w' = aw_log w @ evs \<and> cli_steps (cli_loop_new swap_id a) evs st"
proof -
  obtain r w1 where r: "attempt (act (Dialed a) (ce_dial E a)) w = (Ok r, w1)"
    "(case r of Inl e \<Rightarrow> ret (cli_loop_new swap_id a, True) | Inr _ \<Rightarrow> cli_events E es (cli_loop_new swap_id a)) w1
      = (Ok (st, b), w')"
    using assms by (auto simp: cli_run_def bindio_eq_Ok Let_def)
  obtain d where d: "aw_log w1 = aw_log w @ [Dialed a d]" using attempt_act_OkD[OF r(1)] by blast
  have "\<exists>e1. aw_log w' = aw_log w1 @ e1 \<and> cli_steps (cli_loop_new swap_id a) e1 st"
    using r(2) events_steps by (cases r) (auto intro: machine_steps.stop)
  then obtain e1 where "aw_log w' = aw_log w1 @ e1" "cli_steps (cli_loop_new swap_id a) e1 st" by blast
  moreover have "cli_step (cli_loop_new swap_id a) [Dialed a d] (cli_loop_new swap_id a)" by (rule cli_step.quiet) simp
  ultimately show ?thesis using d cli_steps_more by fastforce
qed

end
