(* ===== verification/Request_Broker.thy ===== *)
theory Request_Broker
  imports Cli_Loop_Properties
begin

text \<open>
  The event loop of the CLI as a broker of requests: the abstract specification of its four streams of
  requests, the refinement, and what follows for every request: it is sent at most once, to Alice,
  while she is connected, and answered at most once with the response to it.
\<close>

section \<open>The specification\<close>

datatype stream = Quotes | Setups | Encsigs | Coops

datatype request =
    QuoteFor responder
  | SetupFor responder new_swap
  | EncsigFor responder encsig
  | CoopFor responder uuid

primrec stream_of :: "request \<Rightarrow> stream" where
  "stream_of (QuoteFor r) = Quotes"
| "stream_of (SetupFor r n) = Setups"
| "stream_of (EncsigFor r sig) = Encsigs"
| "stream_of (CoopFor r i) = Coops"

primrec responder_of :: "request \<Rightarrow> responder" where
  "responder_of (QuoteFor r) = r"
| "responder_of (SetupFor r n) = r"
| "responder_of (EncsigFor r sig) = r"
| "responder_of (CoopFor r i) = r"

record broker =
  queue :: "stream \<Rightarrow> request list"
  inflight :: "stream \<Rightarrow> request_id \<rightharpoonup> responder"

datatype label = Ask request | Send request request_id | Answer stream responder

inductive broker_step :: "broker \<Rightarrow> label list \<Rightarrow> broker \<Rightarrow> bool" where
  ask: "broker_step b [Ask q] (b\<lparr>queue := (queue b)(stream_of q := queue b (stream_of q) @ [q])\<rparr>)"
| send: "queue b (stream_of q) = q # rest \<Longrightarrow>
    broker_step b [Send q i] (b\<lparr>queue := (queue b)(stream_of q := rest),
      inflight := (inflight b)(stream_of q := (inflight b (stream_of q))(i \<mapsto> responder_of q))\<rparr>)"
| answer: "inflight b s i = Some r \<Longrightarrow>
    broker_step b [Answer s r] (b\<lparr>inflight := (inflight b)(s := (inflight b s)(i := None))\<rparr>)"

definition new_broker :: broker where
  "new_broker = \<lparr>queue = (\<lambda>_. []), inflight = (\<lambda>_. Map.empty)\<rparr>"

section \<open>The refinement\<close>

text \<open>A setup has no request id; the loop keeps one responder for it.\<close>

definition broker_of :: "cli_loop \<Rightarrow> broker" where
  "broker_of st = \<lparr>
     queue = (\<lambda>s. case s of
         Quotes \<Rightarrow> map QuoteFor (cl_quote_requests st)
       | Setups \<Rightarrow> map (\<lambda>(n, r). SetupFor r n) (cl_swap_setup_requests st)
       | Encsigs \<Rightarrow> map (\<lambda>(sig, r). EncsigFor r sig) (cl_encrypted_signatures st)
       | Coops \<Rightarrow> map (\<lambda>(i, r). CoopFor r i) (cl_cooperative_bdx_redeem_requests st)),
     inflight = (\<lambda>s. case s of
         Quotes \<Rightarrow> cl_inflight_quote_requests st
       | Setups \<Rightarrow> (case cl_inflight_swap_setup st of None \<Rightarrow> Map.empty | Some r \<Rightarrow> [0 \<mapsto> r])
       | Encsigs \<Rightarrow> cl_inflight_encrypted_signature_requests st
       | Coops \<Rightarrow> cl_inflight_cooperative_bdx_redeem_requests st)\<rparr>"

definition label_of :: "cli_act \<Rightarrow> label list" where
  "label_of a = (case a of
     CliHappened (HandleAsksQuote r) \<Rightarrow> [Ask (QuoteFor r)]
   | CliHappened (HandleAsksSetup n r) \<Rightarrow> [Ask (SetupFor r n)]
   | CliHappened (HandleAsksEncsig sig r) \<Rightarrow> [Ask (EncsigFor r sig)]
   | CliHappened (HandleAsksCoop i r) \<Rightarrow> [Ask (CoopFor r i)]
   | SentQuoteRequest _ i r \<Rightarrow> [Send (QuoteFor r) i]
   | StartedSetup _ n r \<Rightarrow> [Send (SetupFor r n) 0]
   | SentEncsig _ _ sig i r \<Rightarrow> [Send (EncsigFor r sig) i]
   | SentCoopRequest _ swap_id i r \<Rightarrow> [Send (CoopFor r swap_id) i]
   | AnsweredQuote r _ \<Rightarrow> [Answer Quotes r]
   | AnsweredSetup r _ \<Rightarrow> [Answer Setups r]
   | AnsweredEncsig r \<Rightarrow> [Answer Encsigs r]
   | AnsweredCoop r _ \<Rightarrow> [Answer Coops r]
   | _ \<Rightarrow> [])"

definition labels :: "cli_act list \<Rightarrow> label list" where
  "labels evs = concat (map label_of evs)"

lemma labels_simps [simp]:
  "labels [] = []" "labels (a # evs) = label_of a @ labels evs" "labels (evs @ evs') = labels evs @ labels evs'"
  by (simp_all add: labels_def)

lemma label_of_simps [simp]:
  "label_of (CliHappened (HandleAsksQuote r)) = [Ask (QuoteFor r)]"
  "label_of (CliHappened (HandleAsksSetup n r)) = [Ask (SetupFor r n)]"
  "label_of (CliHappened (HandleAsksEncsig sig r)) = [Ask (EncsigFor r sig)]"
  "label_of (CliHappened (HandleAsksCoop j r)) = [Ask (CoopFor r j)]"
  "label_of (CliHappened (CliSwarmEvent e)) = []" "label_of (CliHappened NextQuoteRequest) = []"
  "label_of (CliHappened NextSetupRequest) = []" "label_of (CliHappened NextEncsig) = []"
  "label_of (CliHappened NextCoopRequest) = []" "label_of (CliHappened (PendingProof u)) = []"
  "label_of (IsConnected p b) = []" "label_of (Dialed p u) = []" "label_of (KnownPeer j k) = []"
  "label_of (SentQuoteRequest p i r) = [Send (QuoteFor r) i]" "label_of (StartedSetup p n r) = [Send (SetupFor r n) 0]"
  "label_of (SentEncsig p j sig i r) = [Send (EncsigFor r sig) i]"
  "label_of (SentCoopRequest p j i r) = [Send (CoopFor r j) i]"
  "label_of (AnsweredQuote r q) = [Answer Quotes r]" "label_of (AnsweredSetup r s2) = [Answer Setups r]"
  "label_of (AnsweredEncsig r) = [Answer Encsigs r]" "label_of (AnsweredCoop r c) = [Answer Coops r]"
  "label_of (PassedProof t res) = []" "label_of (AckedProof ch) = []" "label_of (BufferedProof j t u) = []"
  by (simp_all add: label_of_def)

lemma label_no_answer: "label_of (CliHappened e) \<noteq> [Answer s r]"
  by (simp add: label_of_def split: cli_event.splits)

lemma split_short:
  "pre @ x # later = [a1] \<longleftrightarrow> pre = [] \<and> x = a1 \<and> later = []"
  "pre @ x # later = [a1, a2] \<longleftrightarrow> pre = [] \<and> x = a1 \<and> later = [a2] \<or> pre = [a1] \<and> x = a2 \<and> later = []"
  "pre @ x # later = [a1, a2, a3] \<longleftrightarrow> pre = [] \<and> x = a1 \<and> later = [a2, a3] \<or>
     pre = [a1] \<and> x = a2 \<and> later = [a3] \<or> pre = [a1, a2] \<and> x = a3 \<and> later = []"
  by (auto simp: append_eq_Cons_conv)

lemma labels_quiet [simp]: "list_all cli_quiet evs \<Longrightarrow> labels evs = []"
  by (induction evs) (auto simp: cli_quiet_def label_of_def split: cli_act.splits cli_event.splits)

lemma broker_of_new [simp]: "broker_of (cli_loop_new i a) = new_broker"
  by (auto simp: broker_of_def cli_loop_new_def new_broker_def fun_eq_iff split: stream.splits)

lemma broker_eqI: "(\<And>s. queue b s = queue b' s) \<Longrightarrow> (\<And>s. inflight b s = inflight b' s) \<Longrightarrow> (b :: broker) = b'"
  by (cases b, cases b') (auto simp: fun_eq_iff)

lemma broker_sends:
  assumes "b' = b\<lparr>queue := (queue b)(stream_of q := rest),
      inflight := (inflight b)(stream_of q := (inflight b (stream_of q))(i \<mapsto> responder_of q))\<rparr>"
    and "queue b (stream_of q) = q # rest" "ls = [Send q i]"
  shows "broker_step b ls b'"
  using broker_step.send[OF assms(2)] assms(1,3) by simp

lemma broker_answers:
  assumes "b' = b\<lparr>inflight := (inflight b)(s := (inflight b s)(i := None))\<rparr>" "inflight b s i = Some r" "ls = [Answer s r]"
  shows "broker_step b ls b'"
  using broker_step.answer[OF assms(2)] assms(1,3) by simp

text \<open>One step of the loop is one step of the broker, or none.\<close>

lemma step_refines:
  assumes "cli_step st evs st'"
  shows "labels evs = [] \<and> broker_of st' = broker_of st \<or> broker_step (broker_of st) (labels evs) (broker_of st')"
  using assms
proof cases
  case (asked e)
  show ?thesis
  proof (cases "\<exists>q. label_of (CliHappened e) = [Ask q]")
    case True
    then obtain q where q: "label_of (CliHappened e) = [Ask q]" by blast
    hence "broker_of st' = (broker_of st)\<lparr>queue := (queue (broker_of st))(stream_of q := queue (broker_of st) (stream_of q) @ [q])\<rparr>"
      unfolding asked by (intro broker_eqI)
        (auto simp: label_of_def broker_of_def cli_handle_asks_def split: cli_event.splits stream.splits)
    thus ?thesis using q broker_step.ask[of "broker_of st" q] by (simp add: asked)
  next
    case False
    thus ?thesis by (auto simp: asked label_of_def cli_handle_asks_def split: cli_event.splits)
  qed
next
  case (sent_quote r rest a i)
  have eq: "broker_of st' = (broker_of st)\<lparr>queue := (queue (broker_of st))(stream_of (QuoteFor r) := map QuoteFor rest),
      inflight := (inflight (broker_of st))(stream_of (QuoteFor r) :=
        (inflight (broker_of st) (stream_of (QuoteFor r)))(i \<mapsto> responder_of (QuoteFor r)))\<rparr>"
    unfolding sent_quote by (intro broker_eqI) (auto simp: broker_of_def split: stream.splits)
  show ?thesis using sent_quote
    by (intro disjI2 broker_sends[OF eq]) (simp_all add: broker_of_def label_of_def)
next
  case (started_setup swap r rest a)
  let ?rest = "map (\<lambda>(n, r). SetupFor r n) rest"
  have eq: "broker_of st' = (broker_of st)\<lparr>queue := (queue (broker_of st))(stream_of (SetupFor r swap) := ?rest),
      inflight := (inflight (broker_of st))(stream_of (SetupFor r swap) :=
        (inflight (broker_of st) (stream_of (SetupFor r swap)))(0 \<mapsto> responder_of (SetupFor r swap)))\<rparr>"
    unfolding started_setup by (intro broker_eqI) (auto simp: broker_of_def split: stream.splits option.splits)
  show ?thesis using started_setup
    by (intro disjI2 broker_sends[OF eq]) (simp_all add: broker_of_def label_of_def)
next
  case (sent_encsig sig r rest a i)
  let ?rest = "map (\<lambda>(sig, r). EncsigFor r sig) rest"
  have eq: "broker_of st' = (broker_of st)\<lparr>queue := (queue (broker_of st))(stream_of (EncsigFor r sig) := ?rest),
      inflight := (inflight (broker_of st))(stream_of (EncsigFor r sig) :=
        (inflight (broker_of st) (stream_of (EncsigFor r sig)))(i \<mapsto> responder_of (EncsigFor r sig)))\<rparr>"
    unfolding sent_encsig by (intro broker_eqI) (auto simp: broker_of_def split: stream.splits)
  show ?thesis using sent_encsig
    by (intro disjI2 broker_sends[OF eq]) (simp_all add: broker_of_def label_of_def)
next
  case (sent_coop swap_id r rest a i)
  let ?rest = "map (\<lambda>(i, r). CoopFor r i) rest"
  have eq: "broker_of st' = (broker_of st)\<lparr>queue := (queue (broker_of st))(stream_of (CoopFor r swap_id) := ?rest),
      inflight := (inflight (broker_of st))(stream_of (CoopFor r swap_id) :=
        (inflight (broker_of st) (stream_of (CoopFor r swap_id)))(i \<mapsto> responder_of (CoopFor r swap_id)))\<rparr>"
    unfolding sent_coop by (intro broker_eqI) (auto simp: broker_of_def split: stream.splits)
  show ?thesis using sent_coop
    by (intro disjI2 broker_sends[OF eq]) (simp_all add: broker_of_def label_of_def)
next
  case (answered_quote i r q)
  have eq: "broker_of st' = (broker_of st)\<lparr>inflight := (inflight (broker_of st))(Quotes := (inflight (broker_of st) Quotes)(i := None))\<rparr>"
    unfolding answered_quote by (intro broker_eqI) (auto simp: broker_of_def split: stream.splits)
  show ?thesis using answered_quote
    by (intro disjI2 broker_answers[OF eq]) (simp_all add: broker_of_def label_of_def)
next
  case (answered_setup r s2)
  have eq: "broker_of st' = (broker_of st)\<lparr>inflight := (inflight (broker_of st))(Setups := (inflight (broker_of st) Setups)(0 := None))\<rparr>"
    using answered_setup by (intro broker_eqI) (auto simp: broker_of_def split: stream.splits)
  show ?thesis using answered_setup
    by (intro disjI2 broker_answers[OF eq]) (simp_all add: broker_of_def label_of_def)
next
  case (answered_encsig i r)
  have eq: "broker_of st' = (broker_of st)\<lparr>inflight := (inflight (broker_of st))(Encsigs := (inflight (broker_of st) Encsigs)(i := None))\<rparr>"
    unfolding answered_encsig by (intro broker_eqI) (auto simp: broker_of_def split: stream.splits)
  show ?thesis using answered_encsig
    by (intro disjI2 broker_answers[OF eq]) (simp_all add: broker_of_def label_of_def)
next
  case (answered_coop i r e s_a swap_id resp reason)
  have eq: "broker_of st' = (broker_of st)\<lparr>inflight := (inflight (broker_of st))(Coops := (inflight (broker_of st) Coops)(i := None))\<rparr>"
    unfolding answered_coop by (intro broker_eqI) (auto simp: broker_of_def split: stream.splits)
  show ?thesis using answered_coop
    by (intro disjI2 broker_answers[OF eq]) (simp_all add: broker_of_def label_of_def)
qed (auto simp: label_of_def broker_of_def split: outcome.splits)

lemma steps_refine:
  "cli_steps st evs st' \<Longrightarrow> machine_steps broker_step (broker_of st) (labels evs) (broker_of st')"
proof (induction rule: machine_steps.induct)
  case (more st evs st1 evs' st2)
  from step_refines[OF more.hyps(1)] show ?case
    using more.IH machine_steps.more[where step = broker_step] by fastforce
qed (simp add: machine_steps.stop)

section \<open>What the broker promises\<close>

definition asked_on :: "stream \<Rightarrow> label list \<Rightarrow> request list" where
  "asked_on s ls = concat (map (\<lambda>l. case l of Ask q \<Rightarrow> if stream_of q = s then [q] else [] | _ \<Rightarrow> []) ls)"

definition sent_on :: "stream \<Rightarrow> label list \<Rightarrow> request list" where
  "sent_on s ls = concat (map (\<lambda>l. case l of Send q _ \<Rightarrow> if stream_of q = s then [q] else [] | _ \<Rightarrow> []) ls)"

definition answered_on :: "stream \<Rightarrow> label list \<Rightarrow> responder list" where
  "answered_on s ls = concat (map (\<lambda>l. case l of Answer s' r \<Rightarrow> if s' = s then [r] else [] | _ \<Rightarrow> []) ls)"

lemma on_simps [simp]:
  "asked_on s [] = []" "sent_on s [] = []" "answered_on s [] = []"
  "asked_on s (ls @ ls') = asked_on s ls @ asked_on s ls'" "sent_on s (ls @ ls') = sent_on s ls @ sent_on s ls'"
  "answered_on s (ls @ ls') = answered_on s ls @ answered_on s ls'"
  "asked_on s [Ask q] = (if stream_of q = s then [q] else [])" "asked_on s [Send q i] = []" "asked_on s [Answer s' r] = []"
  "sent_on s [Ask q] = []" "sent_on s [Send q i] = (if stream_of q = s then [q] else [])" "sent_on s [Answer s' r] = []"
  "answered_on s [Ask q] = []" "answered_on s [Send q i] = []" "answered_on s [Answer s' r] = (if s' = s then [r] else [])"
  by (simp_all add: asked_on_def sent_on_def answered_on_def)

text \<open>Requests leave a queue in their order; what is in flight was sent with its id.\<close>

definition broker_ok :: "broker \<Rightarrow> label list \<Rightarrow> bool" where
  "broker_ok b ls \<longleftrightarrow>
     (\<forall>s. asked_on s ls = sent_on s ls @ queue b s) \<and>
     (\<forall>s i r. inflight b s i = Some r \<longrightarrow> (\<exists>q. Send q i \<in> set ls \<and> stream_of q = s \<and> responder_of q = r))"

lemma step_broker_ok:
  assumes "broker_step b evs b'" "broker_ok b ls"
  shows "broker_ok b' (ls @ evs)"
  using assms by cases (fastforce simp: broker_ok_def split: if_splits)+

text \<open>No responder is used twice, as long as no two requests of a stream share one.\<close>

definition once_ok :: "broker \<Rightarrow> label list \<Rightarrow> bool" where
  "once_ok b ls \<longleftrightarrow> (\<forall>s. distinct (map responder_of (asked_on s ls)) \<longrightarrow>
     distinct (answered_on s ls) \<and> set (answered_on s ls) \<inter> ran (inflight b s) = {} \<and>
     set (answered_on s ls) \<union> ran (inflight b s) \<subseteq> responder_of ` set (sent_on s ls) \<and>
     inj_on (inflight b s) (dom (inflight b s)))"

lemma ran_upd_subset: "ran (m(i \<mapsto> r)) \<subseteq> insert r (ran m)"
  by (auto simp: ran_def)

lemma inj_on_upd: "inj_on m (dom m) \<Longrightarrow> r \<notin> ran m \<Longrightarrow> inj_on (m(i \<mapsto> r)) (dom (m(i \<mapsto> r)))"
  by (auto simp: inj_on_def ran_def dom_def)

lemma inj_on_del: "inj_on m (dom m) \<Longrightarrow> inj_on (m(i := None)) (dom (m(i := None)))"
  by (auto simp: inj_on_def dom_def)

lemma ran_del: "inj_on m (dom m) \<Longrightarrow> m i = Some r \<Longrightarrow> ran (m(i := None)) = ran m - {r}"
  unfolding ran_def inj_on_def dom_def by (auto, metis option.inject)

lemma step_once_ok:
  assumes "broker_step b evs b'" "broker_ok b ls" "once_ok b ls"
  shows "once_ok b' (ls @ evs)"
  using assms(1)
proof cases
  case (ask q)
  thus ?thesis using assms(3) by (auto simp: once_ok_def)
next
  case (send q rest i)
  show ?thesis unfolding once_ok_def
  proof (intro allI impI)
    fix s assume d: "distinct (map responder_of (asked_on s (ls @ evs)))"
    hence d': "distinct (map responder_of (asked_on s ls))" using send by simp
    note ok = assms(3)[unfolded once_ok_def, rule_format, OF d']
    have asked: "asked_on s ls = sent_on s ls @ queue b s" using assms(2) by (simp add: broker_ok_def)
    show "distinct (answered_on s (ls @ evs)) \<and> set (answered_on s (ls @ evs)) \<inter> ran (inflight b' s) = {} \<and>
       set (answered_on s (ls @ evs)) \<union> ran (inflight b' s) \<subseteq> responder_of ` set (sent_on s (ls @ evs)) \<and>
       inj_on (inflight b' s) (dom (inflight b' s))"
    proof (cases "s = stream_of q")
      case True
      hence new: "responder_of q \<notin> responder_of ` set (sent_on s ls)" using d' asked send by auto
      hence "responder_of q \<notin> set (answered_on s ls)" "responder_of q \<notin> ran (inflight b s)" using ok by blast+
      moreover have "inflight b' s = (inflight b s)(i \<mapsto> responder_of q)" "answered_on s (ls @ evs) = answered_on s ls"
        "sent_on s (ls @ evs) = sent_on s ls @ [q]" using send True by simp_all
      ultimately show ?thesis using ok ran_upd_subset[of "inflight b s" i "responder_of q"]
          inj_on_upd[of "inflight b s" "responder_of q" i] by (simp only:) (intro conjI; force)
    qed (use ok send in auto)
  qed
next
  case (answer s' i r)
  show ?thesis unfolding once_ok_def
  proof (intro allI impI)
    fix s assume "distinct (map responder_of (asked_on s (ls @ evs)))"
    hence d': "distinct (map responder_of (asked_on s ls))" using answer by simp
    note ok = assms(3)[unfolded once_ok_def, rule_format, OF d']
    show "distinct (answered_on s (ls @ evs)) \<and> set (answered_on s (ls @ evs)) \<inter> ran (inflight b' s) = {} \<and>
       set (answered_on s (ls @ evs)) \<union> ran (inflight b' s) \<subseteq> responder_of ` set (sent_on s (ls @ evs)) \<and>
       inj_on (inflight b' s) (dom (inflight b' s))"
    proof (cases "s = s'")
      case True
      have "r \<in> ran (inflight b s)" using answer True by (auto simp: ran_def)
      thus ?thesis using ok answer True ran_del[of "inflight b s" i r] inj_on_del[of "inflight b s" i] by auto
    qed (use ok answer in auto)
  qed
qed

section \<open>Requests and answers of the loop\<close>

definition addressee :: "cli_act \<Rightarrow> peer_id option" where
  "addressee x = (case x of SentQuoteRequest p _ _ \<Rightarrow> Some p | StartedSetup p _ _ \<Rightarrow> Some p
     | SentEncsig p _ _ _ _ \<Rightarrow> Some p | SentCoopRequest p _ _ _ \<Rightarrow> Some p | _ \<Rightarrow> None)"

text \<open>Every request goes to Alice while she is connected, a signature with the id of the swap.\<close>

definition guarded :: "peer_id \<Rightarrow> uuid \<Rightarrow> cli_act list \<Rightarrow> bool" where
  "guarded a swap_id evs \<longleftrightarrow> (\<forall>pre x later p. evs = pre @ x # later \<longrightarrow> addressee x = Some p \<longrightarrow>
     p = a \<and> (\<exists>pre'. pre = pre' @ [IsConnected a True]) \<and> (\<forall>i sig n r. x = SentEncsig p i sig n r \<longrightarrow> i = swap_id))"

text \<open>The answer to a request is the response that the swarm gave with the id of that request.\<close>

definition matching :: "cli_event \<Rightarrow> request_id \<Rightarrow> cli_act \<Rightarrow> bool" where
  "matching e i x = (case x of
     AnsweredQuote _ q \<Rightarrow> e = CliSwarmEvent (QuoteReceived i q)
   | AnsweredSetup _ s2 \<Rightarrow> e = CliSwarmEvent (CliSetupCompleted s2)
   | AnsweredEncsig _ \<Rightarrow> e = CliSwarmEvent (EncryptedSignatureAcknowledged i)
   | AnsweredCoop _ (Fullfilled swap_id s_a) \<Rightarrow> e = CliSwarmEvent (CooperativeBeldexRedeemFulfilled i s_a swap_id)
   | AnsweredCoop _ (Rejected swap_id reason) \<Rightarrow> e = CliSwarmEvent (CooperativeBeldexRedeemRejected i reason swap_id)
   | _ \<Rightarrow> False)"

definition matched :: "cli_act list \<Rightarrow> bool" where
  "matched evs \<longleftrightarrow> (\<forall>pre x later s r. evs = pre @ x # later \<longrightarrow> label_of x = [Answer s r] \<longrightarrow>
     (\<exists>pre' e i q. pre = pre' @ [CliHappened e] \<and> matching e i x \<and> Send q i \<in> set (labels pre') \<and>
       stream_of q = s \<and> responder_of q = r))"

lemma split_append:
  assumes "past @ evs = pre @ x # later"
  obtains (old) later' where "past = pre @ x # later'" | (new) pre' where "pre = past @ pre'" "evs = pre' @ x # later"
  using assms by (auto simp: append_eq_append_conv2 append_eq_Cons_conv Cons_eq_append_conv)

lemma guarded_append:
  assumes "guarded a swap_id past" "guarded a swap_id evs"
  shows "guarded a swap_id (past @ evs)"
  unfolding guarded_def
proof (intro allI impI)
  fix pre x later p
  assume eq: "past @ evs = pre @ x # later" and x: "addressee x = Some p"
  from eq show "p = a \<and> (\<exists>pre'. pre = pre' @ [IsConnected a True]) \<and>
      (\<forall>i sig n r. x = SentEncsig p i sig n r \<longrightarrow> i = swap_id)"
  proof (cases rule: split_append)
    case (old later')
    thus ?thesis using assms(1) x unfolding guarded_def by blast
  next
    case (new pre')
    obtain pre2 where "pre' = pre2 @ [IsConnected a True]" "p = a" "\<forall>i sig n r. x = SentEncsig p i sig n r \<longrightarrow> i = swap_id"
      using assms(2) new(2) x unfolding guarded_def by blast
    thus ?thesis using new(1) by auto
  qed
qed

lemma guarded_none: "(\<And>x. x \<in> set evs \<Longrightarrow> addressee x = None) \<Longrightarrow> guarded a swap_id evs"
  by (auto simp: guarded_def)

lemma quiet_addressee: "cli_quiet x \<Longrightarrow> addressee x = None"
  by (auto simp: cli_quiet_def addressee_def split: cli_act.splits)

lemma guarded_sent:
  assumes "addressee x = Some a" "\<And>p i sig n r. x = SentEncsig p i sig n r \<Longrightarrow> i = swap_id"
  shows "guarded a swap_id [CliHappened e, IsConnected a True, x]"
  using assms by (auto simp: guarded_def Cons_eq_append_conv addressee_def)

lemma step_guarded:
  assumes "cli_step st evs st'"
  shows "guarded (cl_alice_peer_id st) (cl_swap_id st) evs"
  using assms
proof cases
  case quiet
  thus ?thesis by (auto intro!: guarded_none quiet_addressee simp: list_all_iff)
next
  case (passed req a ch res)
  thus ?thesis by (auto intro!: guarded_none simp: addressee_def)
next
  case (buffered req acks res ch p)
  thus ?thesis by (auto intro!: guarded_none simp: addressee_def)
qed (simp_all, ((rule guarded_sent; auto simp: addressee_def) | (rule guarded_none; auto simp: addressee_def))+)

lemma step_keeps_swap: "cli_step st evs st' \<Longrightarrow> cl_alice_peer_id st' = cl_alice_peer_id st \<and> cl_swap_id st' = cl_swap_id st"
  by (erule cli_step.cases) (auto simp: cli_handle_asks_def split: cli_event.splits outcome.splits)

lemma label_in: "evs = pre @ x # later \<Longrightarrow> label_of x = [l] \<Longrightarrow> l \<in> set (labels evs)"
  by simp

text \<open>A step that answers is an event and its answer.\<close>

lemma step_answer:
  assumes "cli_step st evs st'" "evs = pre @ x # later" "label_of x = [Answer s r]"
  shows "\<exists>e i. pre = [CliHappened e] \<and> matching e i x \<and> inflight (broker_of st) s i = Some r"
  using assms
proof cases
  case quiet
  hence "labels [x] = []" using assms(2) by (intro labels_quiet) auto
  thus ?thesis using assms(3) by simp
next
  case (answered_coop i r' e s_a swap_id resp reason)
  thus ?thesis using assms(2,3) by (auto simp: split_short matching_def broker_of_def)
next
  case (sent_quote r' rest a i)
  thus ?thesis using label_in[OF assms(2,3)] by simp
next
  case (started_setup swap r' rest a)
  thus ?thesis using label_in[OF assms(2,3)] by simp
next
  case (sent_encsig sig r' rest a i)
  thus ?thesis using label_in[OF assms(2,3)] by simp
next
  case (sent_coop swap_id r' rest a i)
  thus ?thesis using label_in[OF assms(2,3)] by simp
next
  case (buffered req acks res ch p)
  have "labels evs = []" unfolding buffered by simp
  thus ?thesis using assms(2,3) by simp
next
  case (asked e)
  hence "pre @ x # later = [CliHappened e]" using assms(2) by simp
  thus ?thesis using assms(3) by (simp add: split_short label_no_answer)
next
  case (passed req a ch res)
  thus ?thesis using label_in[OF assms(2,3)] by simp
next
  case (taken r' ch res)
  thus ?thesis using label_in[OF assms(2,3)] by simp
next
  case (answered_quote i r' q)
  hence "pre @ x # later = [CliHappened (CliSwarmEvent (QuoteReceived i q)), AnsweredQuote r' q]" using assms(2) by simp
  thus ?thesis using assms(3) answered_quote(3) by (auto simp: split_short matching_def broker_of_def)
next
  case (answered_setup r' s2)
  hence "pre @ x # later = [CliHappened (CliSwarmEvent (CliSetupCompleted s2)), AnsweredSetup r' s2]" using assms(2) by simp
  thus ?thesis using assms(3) answered_setup(3) by (auto simp: split_short matching_def broker_of_def)
next
  case (answered_encsig i r')
  hence "pre @ x # later = [CliHappened (CliSwarmEvent (EncryptedSignatureAcknowledged i)), AnsweredEncsig r']"
    using assms(2) by simp
  thus ?thesis using assms(3) answered_encsig(3) by (auto simp: split_short matching_def broker_of_def)
qed

lemma step_matched:
  assumes "cli_step st evs st'" "broker_ok (broker_of st) (labels past)" "matched past"
  shows "matched (past @ evs)"
  unfolding matched_def
proof (intro allI impI)
  fix pre x later s r
  assume eq: "past @ evs = pre @ x # later" and x: "label_of x = [Answer s r]"
  from eq show "\<exists>pre' e i q. pre = pre' @ [CliHappened e] \<and> matching e i x \<and> Send q i \<in> set (labels pre') \<and>
       stream_of q = s \<and> responder_of q = r"
  proof (cases rule: split_append)
    case (old later')
    thus ?thesis using assms(3) x unfolding matched_def by blast
  next
    case (new pre')
    from step_answer[OF assms(1) new(2) x] obtain e i where
      "pre' = [CliHappened e]" "matching e i x" "inflight (broker_of st) s i = Some r" by blast
    thus ?thesis using assms(2) new(1) unfolding broker_ok_def by blast
  qed
qed

definition cli_ok :: "peer_id \<Rightarrow> uuid \<Rightarrow> cli_loop \<Rightarrow> cli_act list \<Rightarrow> bool" where
  "cli_ok a swap_id st past \<longleftrightarrow> cl_alice_peer_id st = a \<and> cl_swap_id st = swap_id \<and>
     broker_ok (broker_of st) (labels past) \<and> once_ok (broker_of st) (labels past) \<and> guarded a swap_id past \<and> matched past"

lemma step_cli_ok:
  assumes "cli_step st evs st'" "cli_ok a swap_id st past"
  shows "cli_ok a swap_id st' (past @ evs)"
proof -
  note ok = assms(2)[unfolded cli_ok_def]
  have "broker_ok (broker_of st') (labels past @ labels evs)" "once_ok (broker_of st') (labels past @ labels evs)"
    using step_refines[OF assms(1)] step_broker_ok step_once_ok ok by (metis append_Nil2)+
  thus ?thesis using ok step_keeps_swap[OF assms(1)] step_guarded[OF assms(1)] guarded_append
      step_matched[OF assms(1)] unfolding cli_ok_def by auto
qed

lemma run_cli_ok:
  assumes "cli_run E swap_id a es \<lparr>aw_log = [], aw_ext = v\<rparr> = (Ok (st, stopped), w')"
  shows "cli_ok a swap_id st (aw_log w')"
proof -
  obtain evs where evs: "aw_log w' = evs" "cli_steps (cli_loop_new swap_id a) evs st"
    using cli_run_steps[OF assms] by auto
  have "cli_ok a swap_id (cli_loop_new swap_id a) []"
    unfolding cli_ok_def broker_of_new
    by (simp add: broker_ok_def once_ok_def new_broker_def guarded_def matched_def) (simp add: cli_loop_new_def)
  from machine_steps_invariant[where I = "cli_ok a swap_id", OF evs(2) this step_cli_ok]
  show ?thesis using evs(1) by simp
qed

text \<open>
  the event loop of the CLI, whatever the swarm, the handle of the swap and the database do, behaves
  as the broker of requests: every run of it, seen through the requests asked for, sent and answered,
  is a run of the specification that ends in the broker of the loop's state.
\<close>

theorem cli_loop_refines_broker:
  assumes "cli_run E swap_id a es \<lparr>aw_log = [], aw_ext = v\<rparr> = (Ok (st, stopped), w')"
  shows "machine_steps broker_step new_broker (labels (aw_log w')) (broker_of st)"
proof -
  obtain evs where "aw_log w' = evs" "cli_steps (cli_loop_new swap_id a) evs st" using cli_run_steps[OF assms] by auto
  thus ?thesis using steps_refine[of "cli_loop_new swap_id a" evs st] by simp
qed

text \<open>
  C24: in a run of the CLI's event loop no request of the swap is lost, repeated or reordered: on each
  stream the requests asked for are those sent, followed by those that wait. Each is sent to Alice, right
  after the swarm said that she is connected, and a signature with the id of the running swap.
\<close>

theorem cli_requests_conserved:
  assumes "cli_run E swap_id a es \<lparr>aw_log = [], aw_ext = v\<rparr> = (Ok (st, stopped), w')"
  shows "asked_on s (labels (aw_log w')) = sent_on s (labels (aw_log w')) @ queue (broker_of st) s \<and>
    (\<forall>pre x rest p. aw_log w' = pre @ x # rest \<longrightarrow> addressee x = Some p \<longrightarrow>
       p = a \<and> (\<exists>pre'. pre = pre' @ [IsConnected a True]) \<and> (\<forall>i sig n r. x = SentEncsig p i sig n r \<longrightarrow> i = swap_id))"
  using run_cli_ok[OF assms] unfolding cli_ok_def broker_ok_def guarded_def by blast

text \<open>
  in a run of the CLI's event loop each answer to the swap is the response that the swarm delivered
  with the id under which that request was sent, of the same kind and to the responder of that request; and
  if the requests of a stream have different responders, each responder is used at most once.
\<close>

theorem cli_answers_once_and_matched:
  assumes "cli_run E swap_id a es \<lparr>aw_log = [], aw_ext = v\<rparr> = (Ok (st, stopped), w')"
  shows "(\<forall>pre x rest r. aw_log w' = pre @ x # rest \<longrightarrow> label_of x = [Answer s r] \<longrightarrow>
      (\<exists>pre' e i q. pre = pre' @ [CliHappened e] \<and> matching e i x \<and> Send q i \<in> set (labels pre') \<and>
        stream_of q = s \<and> responder_of q = r)) \<and>
    (distinct (map responder_of (asked_on s (labels (aw_log w')))) \<longrightarrow> distinct (answered_on s (labels (aw_log w'))))"
  using run_cli_ok[OF assms] unfolding cli_ok_def once_ok_def matched_def by blast

section \<open>A concrete run\<close>

text \<open>The swap 5 with Alice 9 sends its signature once she is connected, and is told that she has it.\<close>

definition sample_cli :: "nat cli_env" where
  "sample_cli = \<lparr>ce_dial = (\<lambda>p v. (Ok (), v)), ce_is_connected = (\<lambda>p v. 0 < v),
     ce_send_quote = (\<lambda>p v. (v, Suc v)), ce_start_setup = (\<lambda>p n v. v), ce_send_encsig = (\<lambda>p i sig v. (v, Suc v)),
     ce_send_coop = (\<lambda>p i v. (v, Suc v)), ce_answer_quote = (\<lambda>r q v. (Ok (), v)), ce_answer_setup = (\<lambda>r s v. (Ok (), v)),
     ce_answer_encsig = (\<lambda>r v. (Ok (), v)), ce_answer_coop = (\<lambda>r c v. (Ok (), v)), ce_pass_proof = (\<lambda>t v. (Ok 3, v)),
     ce_ack_proof = (\<lambda>c v. (Ok (), v)), ce_get_peer_id = (\<lambda>i v. (if i = 6 then Ok 9 else Err (Msg ''no rows''), v)),
     ce_insert_buffered_transfer_proof = (\<lambda>i t v. (Ok (), v))\<rparr>"

definition sample_cli_events :: "cli_event list" where
  "sample_cli_events = [HandleAsksEncsig 55 1, NextEncsig, CliSwarmEvent (EncryptedSignatureAcknowledged 4)]"

definition sample_cli_log :: "cli_act list" where
  "sample_cli_log = [Dialed 9 (Ok ()), CliHappened (HandleAsksEncsig 55 1), CliHappened NextEncsig, IsConnected 9 True,
     SentEncsig 9 5 55 4 1, CliHappened (CliSwarmEvent (EncryptedSignatureAcknowledged 4)), AnsweredEncsig 1]"

lemma sample_cli_run:
  "cli_run sample_cli 5 9 sample_cli_events \<lparr>aw_log = [], aw_ext = 4\<rparr>
     = (Ok (cli_loop_new 5 9, False), \<lparr>aw_log = sample_cli_log, aw_ext = 5\<rparr>)"
  by (simp add: cli_run_def cli_loop_new_def sample_cli_events_def sample_cli_log_def sample_cli_def Let_def bindio_def
      attempt_def act_def act_sure_def note_act_def cli_select_def cli_handle_asks_def go_on_def cli_next_encsig_def
      cli_is_connected_def cli_on_swarm_event_def cli_encsig_acknowledged_def)

theorem cli_loop_refines_broker_witness:
  "machine_steps broker_step new_broker [Ask (EncsigFor 1 55), Send (EncsigFor 1 55) 4, Answer Encsigs 1] new_broker"
  using cli_loop_refines_broker[OF sample_cli_run] by (simp add: sample_cli_log_def)

theorem cli_requests_conserved_witness:
  "asked_on Encsigs (labels sample_cli_log) = sent_on Encsigs (labels sample_cli_log) \<and>
   sent_on Encsigs (labels sample_cli_log) = [EncsigFor 1 55]"
  using cli_requests_conserved[OF sample_cli_run, of Encsigs]
  by (simp add: new_broker_def) (simp add: sample_cli_log_def sent_on_def)

theorem cli_answers_once_and_matched_witness:
  "distinct (answered_on Encsigs (labels sample_cli_log)) \<and> answered_on Encsigs (labels sample_cli_log) = [1]"
proof -
  have "distinct (map responder_of (asked_on Encsigs (labels sample_cli_log)))"
    by (simp add: sample_cli_log_def asked_on_def)
  thus ?thesis using cli_answers_once_and_matched[OF sample_cli_run, of Encsigs]
    by (simp add: sample_cli_log_def answered_on_def)
qed

end
