(* ===== verification/Cli_Proofs.thy ===== *)
theory Cli_Proofs
  imports Request_Broker
begin

text \<open>
  Transfer proofs in the event loop of the CLI: which proofs reach the running swap, when Alice is told
  that a proof arrived, and how a proof for another swap is stored. On the database of \<open>Sqlite\<close>: anybody
  who is connected can take the place of the proof of another swap.
\<close>

section \<open>Proofs for the running swap\<close>

definition received_from :: "peer_id \<Rightarrow> proof_request \<Rightarrow> channel \<Rightarrow> cli_act" where
  "received_from p req ch = CliHappened (CliSwarmEvent (TransferProofReceived req ch p))"

text \<open>A proof of the running swap that came from Alice and was passed on.\<close>

definition passed_on :: "peer_id \<Rightarrow> uuid \<Rightarrow> channel \<Rightarrow> transfer_proof \<Rightarrow> responder outcome \<Rightarrow> cli_act list \<Rightarrow> bool" where
  "passed_on a swap_id ch t res hist \<longleftrightarrow> (\<exists>req. tpr_swap_id req = swap_id \<and> tpr_tx_lock_proof req = t \<and>
     sublist [received_from a req ch, PassedProof t res] hist)"

text \<open>A proof of another swap, known to be with Alice, that was stored.\<close>

definition stored_for :: "peer_id \<Rightarrow> uuid \<Rightarrow> channel \<Rightarrow> cli_act list \<Rightarrow> bool" where
  "stored_for a swap_id ch hist \<longleftrightarrow> (\<exists>req p. tpr_swap_id req \<noteq> swap_id \<and>
     suffix [received_from p req ch, KnownPeer (tpr_swap_id req) (Ok a),
       BufferedProof (tpr_swap_id req) (tpr_tx_lock_proof req) (Ok ())] hist)"

definition proofs_justified :: "peer_id \<Rightarrow> uuid \<Rightarrow> cli_act list \<Rightarrow> bool" where
  "proofs_justified a swap_id hist \<longleftrightarrow>
     (\<forall>t res. PassedProof t res \<in> set hist \<longrightarrow> (\<exists>ch. passed_on a swap_id ch t res hist)) \<and>
     (\<forall>pre ch rest. hist = pre @ AckedProof ch # rest \<longrightarrow>
        stored_for a swap_id ch pre \<or>
        (\<exists>pre' u t r. pre = pre' @ [CliHappened (PendingProof u)] \<and> passed_on a swap_id ch t (Ok r) pre'))"

definition proof_ok :: "peer_id \<Rightarrow> uuid \<Rightarrow> cli_loop \<Rightarrow> cli_act list \<Rightarrow> bool" where
  "proof_ok a swap_id st past \<longleftrightarrow> cl_alice_peer_id st = a \<and> cl_swap_id st = swap_id \<and> proofs_justified a swap_id past \<and>
     (\<forall>r ch. cl_pending_transfer_proof st = Some (r, ch) \<longrightarrow> (\<exists>t. passed_on a swap_id ch t (Ok r) past))"

lemma passed_on_mono: "passed_on a i ch t res hist \<Longrightarrow> passed_on a i ch t res (hist @ later)"
  unfolding passed_on_def by (blast intro: sublist_extend)

lemma passed_on_end:
  "tpr_swap_id req = i \<Longrightarrow> passed_on a i ch (tpr_tx_lock_proof req) res (hist @ [received_from a req ch, PassedProof (tpr_tx_lock_proof req) res])"
  by (auto simp: passed_on_def intro: suffix_imp_sublist)

lemma justified_passes:
  assumes "proofs_justified a i past" "\<And>ch. AckedProof ch \<notin> set evs"
    and "\<And>t res. PassedProof t res \<in> set evs \<Longrightarrow> \<exists>ch. passed_on a i ch t res (past @ evs)"
  shows "proofs_justified a i (past @ evs)"
  unfolding proofs_justified_def
proof (intro conjI allI impI)
  fix t res assume "PassedProof t res \<in> set (past @ evs)"
  thus "\<exists>ch. passed_on a i ch t res (past @ evs)"
    using assms(1,3) passed_on_mono unfolding proofs_justified_def by (metis Un_iff set_append)
next
  fix pre ch rest assume eq: "past @ evs = pre @ AckedProof ch # rest"
  from eq show "stored_for a i ch pre \<or>
        (\<exists>pre' u t r. pre = pre' @ [CliHappened (PendingProof u)] \<and> passed_on a i ch t (Ok r) pre')"
  proof (cases rule: split_append)
    case (old later)
    thus ?thesis using assms(1) unfolding proofs_justified_def by blast
  next
    case (new pre')
    thus ?thesis using assms(2)[of ch] by simp
  qed
qed

lemma justified_acks:
  assumes "proofs_justified a i past" "\<And>t res. PassedProof t res \<notin> set evs"
    and "\<And>pre ch rest. evs = pre @ AckedProof ch # rest \<Longrightarrow> stored_for a i ch (past @ pre) \<or>
        (\<exists>pre' u t r. past @ pre = pre' @ [CliHappened (PendingProof u)] \<and> passed_on a i ch t (Ok r) pre')"
  shows "proofs_justified a i (past @ evs)"
  unfolding proofs_justified_def
proof (intro conjI allI impI)
  fix t res assume "PassedProof t res \<in> set (past @ evs)"
  thus "\<exists>ch. passed_on a i ch t res (past @ evs)"
    using assms(1,2) passed_on_mono unfolding proofs_justified_def by (metis Un_iff set_append)
next
  fix pre ch rest assume eq: "past @ evs = pre @ AckedProof ch # rest"
  from eq show "stored_for a i ch pre \<or>
        (\<exists>pre' u t r. pre = pre' @ [CliHappened (PendingProof u)] \<and> passed_on a i ch t (Ok r) pre')"
  proof (cases rule: split_append)
    case (old later)
    thus ?thesis using assms(1) unfolding proofs_justified_def by blast
  next
    case (new pre')
    thus ?thesis using assms(3)[OF new(2)] by blast
  qed
qed

lemma justified_calm:
  assumes "proofs_justified a i past" "\<And>ch. AckedProof ch \<notin> set evs" "\<And>t res. PassedProof t res \<notin> set evs"
  shows "proofs_justified a i (past @ evs)"
  using justified_passes[OF assms(1,2)] assms(3) by blast

lemma step_proof_ok:
  assumes "cli_step st evs st'" "proof_ok a i st past"
  shows "proof_ok a i st' (past @ evs)"
proof -
  note ok = assms(2)[unfolded proof_ok_def]
  have swap: "cl_alice_peer_id st' = a" "cl_swap_id st' = i" using step_keeps_swap[OF assms(1)] ok by auto
  have pending: "\<exists>t. passed_on a i ch t (Ok r) (past @ evs)" if "cl_pending_transfer_proof st = Some (r, ch)" for r ch
    using ok that passed_on_mono by blast
  have calm: "proof_ok a i st' (past @ evs)"
    if "\<forall>ch. AckedProof ch \<notin> set evs" "\<forall>t res. PassedProof t res \<notin> set evs"
      "cl_pending_transfer_proof st' = cl_pending_transfer_proof st"
  proof -
    have "proofs_justified a i (past @ evs)" using justified_calm[of a i past evs] ok that by blast
    thus ?thesis using swap pending unfolding proof_ok_def that(3) by blast
  qed
  show ?thesis using assms(1)
  proof cases
    case quiet
    thus ?thesis by (intro calm) (auto simp: list_all_iff)
  next
    case (asked e)
    thus ?thesis by (intro calm) (auto simp: cli_handle_asks_def split: cli_event.splits)
  next
    case (passed req a' ch res)
    hence a: "tpr_swap_id req = i" "a' = a" using ok by auto
    have on: "passed_on a i ch (tpr_tx_lock_proof req) res (past @ evs)"
      using passed_on_end[OF a(1), of a ch res past] ok unfolding passed received_from_def by (simp only:)
    hence "proofs_justified a i (past @ evs)" using ok passed by (intro justified_passes) auto
    moreover have "\<exists>t. passed_on a i ch' t (Ok r) (past @ evs)"
      if "cl_pending_transfer_proof st' = Some (r, ch')" for r ch'
      using that on pending passed(2) by (cases res) auto
    ultimately show ?thesis using swap unfolding proof_ok_def by blast
  next
    case (buffered req acks res ch p)
    have "proofs_justified a i (past @ evs)"
    proof (rule justified_acks)
      fix pre ch' rest assume eq: "evs = pre @ AckedProof ch' # rest"
      hence "res = Ok () \<and> ch' = ch \<and> pre = [received_from p req ch, KnownPeer (tpr_swap_id req) (Ok a),
          BufferedProof (tpr_swap_id req) (tpr_tx_lock_proof req) res]"
        using buffered ok by (auto simp: received_from_def Cons_eq_append_conv append_eq_Cons_conv split: if_splits)
      hence "stored_for a i ch' (past @ pre)" using buffered ok unfolding stored_for_def by (metis suffixI)
      thus "stored_for a i ch' (past @ pre) \<or> (\<exists>pre' u t r. past @ pre = pre' @ [CliHappened (PendingProof u)] \<and>
          passed_on a i ch' t (Ok r) pre')" by blast
    qed (use ok buffered in \<open>auto split: if_splits\<close>)
    thus ?thesis using swap pending buffered unfolding proof_ok_def by blast
  next
    case (taken r ch u)
    have "proofs_justified a i (past @ evs)"
    proof (rule justified_acks)
      fix pre ch' rest assume eq: "evs = pre @ AckedProof ch' # rest"
      hence "ch' = ch" "pre = [CliHappened (PendingProof u)]" using taken by (auto simp: Cons_eq_append_conv)
      thus "stored_for a i ch' (past @ pre) \<or> (\<exists>pre' u t r. past @ pre = pre' @ [CliHappened (PendingProof u)] \<and>
          passed_on a i ch' t (Ok r) pre')" using ok taken by blast
    qed (use ok taken in auto)
    thus ?thesis using swap taken unfolding proof_ok_def by simp
  qed (rule calm; simp)+
qed

text \<open>
  C25: in a run of the CLI's event loop a transfer proof reaches the running swap only if Alice sent it
  for that swap; and the loop acknowledges a proof only once it was stored for another swap of the same
  Alice, or was passed to the running swap and the swap's side of the channel has answered.
\<close>

theorem cli_proofs_justified:
  assumes "cli_run E swap_id a es \<lparr>aw_log = [], aw_ext = v\<rparr> = (Ok (st, stopped), w')"
  shows "(\<forall>t res. PassedProof t res \<in> set (aw_log w') \<longrightarrow> (\<exists>ch. passed_on a swap_id ch t res (aw_log w'))) \<and>
    (\<forall>pre ch rest. aw_log w' = pre @ AckedProof ch # rest \<longrightarrow> stored_for a swap_id ch pre \<or>
       (\<exists>pre' u t r. pre = pre' @ [CliHappened (PendingProof u)] \<and> passed_on a swap_id ch t (Ok r) pre'))"
proof -
  obtain evs where evs: "aw_log w' = evs" "cli_steps (cli_loop_new swap_id a) evs st" using cli_run_steps[OF assms] by auto
  have "proof_ok a swap_id (cli_loop_new swap_id a) []"
    unfolding proof_ok_def by (simp add: proofs_justified_def) (simp add: cli_loop_new_def)
  hence "proof_ok a swap_id st ([] @ evs)"
    by (rule machine_steps_invariant[where I = "proof_ok a swap_id", OF evs(2)]) (rule step_proof_ok)
  hence "proofs_justified a swap_id (aw_log w')" unfolding evs(1) proof_ok_def append_Nil by blast
  thus ?thesis unfolding proofs_justified_def .
qed

section \<open>Proofs for another swap, on the database\<close>

text \<open>The event loop on the model of the database; everything else is as in \<open>E\<close>.\<close>

definition beside :: "('v \<Rightarrow> 'a \<times> 'v) \<Rightarrow> 't \<times> 'v \<Rightarrow> 'a \<times> 't \<times> 'v" where
  "beside f = (\<lambda>(t, v). case f v of (r, v) \<Rightarrow> (r, t, v))"

definition on_table :: "('t \<Rightarrow> 'a \<times> 't) \<Rightarrow> 't \<times> 'v \<Rightarrow> 'a \<times> 't \<times> 'v" where
  "on_table f = (\<lambda>(t, v). case f t of (r, t) \<Rightarrow> (r, t, v))"

definition cli_on_sqlite :: "db_lib \<Rightarrow> 'v cli_env \<Rightarrow> (sqlite \<times> 'v) cli_env" where
  "cli_on_sqlite D E = \<lparr>ce_dial = (\<lambda>p. beside (ce_dial E p)), ce_is_connected = (\<lambda>p (t, v). ce_is_connected E p v),
     ce_send_quote = (\<lambda>p. beside (ce_send_quote E p)), ce_start_setup = (\<lambda>p n (t, v). (t, ce_start_setup E p n v)),
     ce_send_encsig = (\<lambda>p i sig. beside (ce_send_encsig E p i sig)), ce_send_coop = (\<lambda>p i. beside (ce_send_coop E p i)),
     ce_answer_quote = (\<lambda>r q. beside (ce_answer_quote E r q)), ce_answer_setup = (\<lambda>r s. beside (ce_answer_setup E r s)),
     ce_answer_encsig = (\<lambda>r. beside (ce_answer_encsig E r)), ce_answer_coop = (\<lambda>r c. beside (ce_answer_coop E r c)),
     ce_pass_proof = (\<lambda>p. beside (ce_pass_proof E p)), ce_ack_proof = (\<lambda>c. beside (ce_ack_proof E c)),
     ce_get_peer_id = (\<lambda>i. on_table (get_peer_id D i)),
     ce_insert_buffered_transfer_proof = (\<lambda>i p. on_table (insert_buffered_transfer_proof D i p))\<rparr>"

lemma fst_beside [simp]: "fst (snd (beside f tv)) = fst tv"
  by (simp add: beside_def split: prod.splits)

lemma on_table_simps [simp]: "fst (on_table f (t, v)) = fst (f t)" "snd (on_table f (t, v)) = (snd (f t), v)"
  by (simp_all add: on_table_def split: prod.splits)

text \<open>Once a proof is stored for a swap, no select changes it, and every attempt to store another one fails.\<close>

definition holds_proof :: "db_lib \<Rightarrow> uuid \<Rightarrow> transfer_proof \<Rightarrow> sqlite \<times> 'v \<Rightarrow> bool" where
  "holds_proof D i p = (\<lambda>(t, v). sqlite_ok D t \<and> proof_of D i t = Some p)"

definition refuses_proof :: "uuid \<Rightarrow> cli_act \<Rightarrow> bool" where
  "refuses_proof i a = (\<forall>p. a \<noteq> BufferedProof i p (Ok ()))"

lemma refuses_simps [simp]:
  "refuses_proof i (CliHappened e)" "refuses_proof i (IsConnected p b)" "refuses_proof i (SentQuoteRequest p n r)"
  "refuses_proof i (StartedSetup p ns r)" "refuses_proof i (SentEncsig p j sig n r)" "refuses_proof i (SentCoopRequest p j n r)"
  "refuses_proof i (AnsweredQuote r q)" "refuses_proof i (AnsweredSetup r s2)" "refuses_proof i (AnsweredEncsig r)"
  "refuses_proof i (AnsweredCoop r c)" "refuses_proof i (PassedProof t res)" "refuses_proof i (AckedProof ch)"
  "refuses_proof i (KnownPeer j k)" "refuses_proof i (BufferedProof j t x) \<longleftrightarrow> j \<noteq> i \<or> x \<noteq> Ok ()"
  by (auto simp: refuses_proof_def)

lemma holds_beside [simp]: "holds_proof D i p (snd (beside f tv)) = holds_proof D i p tv"
  by (simp add: holds_proof_def beside_def split: prod.splits)

lemma get_peer_keeps [simp]: "snd (get_peer_id D j t) = t"
  by (simp add: get_peer_id_def acquire_def bindio_def lift_def split: outcome.splits)

lemma insert_holds:
  assumes "db_laws D" "holds_proof D i p tv"
  shows "holds_proof D i p (snd (on_table (insert_buffered_transfer_proof D j q) tv)) \<and>
    refuses_proof i (BufferedProof j q (fst (on_table (insert_buffered_transfer_proof D j q) tv)))"
proof -
  obtain t v where tv: "tv = (t, v)" by (cases tv)
  have ok: "db_laws D \<and> sqlite_ok D t" and i: "proof_of D i t = Some p" using assms by (auto simp: tv holds_proof_def)
  show ?thesis
  proof (cases "proof_of D j t")
    case None
    obtain t' where t': "insert_buffered_transfer_proof D j q t = (Ok (), t')" "db_laws D \<and> sqlite_ok D t'"
      "\<forall>k. proof_of D k t' = (if k = j then Some q else proof_of D k t)"
      using proofs.insert_fresh[OF ok None] by blast
    thus ?thesis using i None by (auto simp: tv holds_proof_def)
  next
    case (Some u)
    obtain e where "insert_buffered_transfer_proof D j q t = (Err e, t)" using proofs.insert_taken[OF ok Some] by blast
    thus ?thesis using ok i by (simp add: tv holds_proof_def)
  qed
qed

named_theorems on_sqlite_rules \<open>introduction rules for the loop on a database that has a proof\<close>

lemma sustains_beside [on_sqlite_rules]: "(\<And>r. refuses_proof i (mk r)) \<Longrightarrow>
    sustains (holds_proof D i p) (refuses_proof i) (act mk (beside f))"
  "(\<And>r. refuses_proof i (mk' r)) \<Longrightarrow> sustains (holds_proof D i p) (refuses_proof i) (act_sure mk' (beside f'))"
  by (auto intro: sustains_act sustains_act_sure)

lemma sustains_list: "sustains P Q f \<Longrightarrow> (\<And>x xs. sustains P Q (g x xs)) \<Longrightarrow>
    sustains P Q (case l of [] \<Rightarrow> f | x # xs \<Rightarrow> g x xs)"
  by (cases l) auto

lemma select_sustains:
  assumes "db_laws D"
  shows "sustains (holds_proof D i p) (refuses_proof i) (cli_select (cli_on_sqlite D E) e st)"
proof -
  have peer: "sustains (holds_proof D i p) (refuses_proof i) (act (KnownPeer j) (on_table (get_peer_id D j)))" for j
    by (rule sustains_act) (auto simp: holds_proof_def)
  have insert: "sustains (holds_proof D i p) (refuses_proof i)
      (act (BufferedProof j q) (on_table (insert_buffered_transfer_proof D j q)))" for j q
    using insert_holds[OF assms] by (intro sustains_act) blast
  have connected: "sustains (holds_proof D i p) (refuses_proof i) (cli_is_connected (cli_on_sqlite D E) st')" for st'
    unfolding cli_is_connected_def by (rule sustains_act_sure) simp
  have starts: "sustains (holds_proof D i p) (refuses_proof i)
      (act_sure (\<lambda>_. StartedSetup a n r) (\<lambda>v. ((), (case v of (t, v) \<Rightarrow> (t, ce_start_setup E a n v)))))" for a n r
    by (rule sustains_act_sure) (auto simp: holds_proof_def)
  note rules = quiet_rules on_sqlite_rules peer insert connected starts sustains_list
  have simps: "ce_answer_quote (cli_on_sqlite D E) = (\<lambda>r q. beside (ce_answer_quote E r q))"
    "ce_answer_setup (cli_on_sqlite D E) = (\<lambda>r s. beside (ce_answer_setup E r s))"
    "ce_answer_encsig (cli_on_sqlite D E) = (\<lambda>r. beside (ce_answer_encsig E r))"
    "ce_answer_coop (cli_on_sqlite D E) = (\<lambda>r c. beside (ce_answer_coop E r c))"
    "ce_pass_proof (cli_on_sqlite D E) = (\<lambda>p. beside (ce_pass_proof E p))"
    "ce_ack_proof (cli_on_sqlite D E) = (\<lambda>c. beside (ce_ack_proof E c))"
    "ce_send_quote (cli_on_sqlite D E) = (\<lambda>p. beside (ce_send_quote E p))"
    "ce_send_encsig (cli_on_sqlite D E) = (\<lambda>p i sig. beside (ce_send_encsig E p i sig))"
    "ce_send_coop (cli_on_sqlite D E) = (\<lambda>p i. beside (ce_send_coop E p i))"
    "ce_start_setup (cli_on_sqlite D E) = (\<lambda>p n (t, v). (t, ce_start_setup E p n v))"
    "ce_get_peer_id (cli_on_sqlite D E) = (\<lambda>i. on_table (get_peer_id D i))"
    "ce_insert_buffered_transfer_proof (cli_on_sqlite D E) = (\<lambda>i p. on_table (insert_buffered_transfer_proof D i p))"
    by (simp_all add: cli_on_sqlite_def)
  note defs = cli_select_def cli_on_swarm_event_def go_on_def cli_quote_received_def cli_setup_completed_def
    cli_encsig_acknowledged_def cli_coop_answered_def cli_proof_received_def cli_own_proof_def cli_foreign_proof_def
    cli_next_quote_def cli_next_setup_def cli_next_encsig_def cli_next_coop_def cli_pending_proof_def Let_def
  have swarm: "sustains (holds_proof D i p) (refuses_proof i) (cli_on_swarm_event (cli_on_sqlite D E) s st)" for s
    by (cases s) (simp_all only: defs simps cli_swarm_event.case, (intro rules; simp)+)
  have "sustains (holds_proof D i p) (refuses_proof i) (cli_next_quote (cli_on_sqlite D E) st)"
    "sustains (holds_proof D i p) (refuses_proof i) (cli_next_setup (cli_on_sqlite D E) st)"
    "sustains (holds_proof D i p) (refuses_proof i) (cli_next_encsig (cli_on_sqlite D E) st)"
    "sustains (holds_proof D i p) (refuses_proof i) (cli_next_coop (cli_on_sqlite D E) st)"
    "sustains (holds_proof D i p) (refuses_proof i) (cli_pending_proof (cli_on_sqlite D E) u st)" for u
    by (simp_all only: defs simps) (intro rules; simp)+
  thus ?thesis unfolding cli_select_def go_on_def using swarm
    by (intro sustains_bindio sustains_note) (auto split: cli_event.split intro!: sustains_bindio sustains_ret)
qed

lemma events_sustain:
  "db_laws D \<Longrightarrow> sustains (holds_proof D i p) (refuses_proof i) (cli_events (cli_on_sqlite D E) es st)"
  by (induction es arbitrary: st) (auto intro!: quiet_rules select_sustains)

lemma ok_value_SomeD: "ok_value x = Some y \<Longrightarrow> x = Ok y"
  by (cases x) auto

text \<open>
  while the CLI runs a swap, a transfer proof for another swap of the same Alice is stored and
  acknowledged whoever sends it, and from then on it stays: every later proof for that swap, Alice's own
  included, is refused, and the sender's is the one that the other swap will find.
\<close>

theorem stranger_proof_takes_the_place:
  assumes "db_laws D" "sqlite_ok D t" "other \<noteq> cl_swap_id st"
    and "fst (get_peer_id D other t) = Ok (cl_alice_peer_id st)" "fst (get_buffered_transfer_proof D other t) = Ok None"
    and "cli_events (cli_on_sqlite D E)
       (CliSwarmEvent (TransferProofReceived \<lparr>tpr_swap_id = other, tpr_tx_lock_proof = q\<rparr> ch stranger) # es) st
       \<lparr>aw_log = hist, aw_ext = (t, v)\<rparr> = (Ok (st', stopped), w')"
  shows "\<exists>rest. aw_log w' = hist @ [received_from stranger \<lparr>tpr_swap_id = other, tpr_tx_lock_proof = q\<rparr> ch,
        KnownPeer other (Ok (cl_alice_peer_id st)), BufferedProof other q (Ok ()), AckedProof ch] @ rest \<and>
      (\<forall>p. BufferedProof other p (Ok ()) \<notin> set rest) \<and>
      fst (get_buffered_transfer_proof D other (fst (aw_ext w'))) = Ok (Some q)"
proof -
  let ?req = "\<lparr>tpr_swap_id = other, tpr_tx_lock_proof = q\<rparr>"
  have "proof_of D other t = None" using assms(5) by simp
  then obtain t1 where t1: "insert_buffered_transfer_proof D other q t = (Ok (), t1)"
    "sqlite_ok D t1" "proof_of D other t1 = Some q"
    using proofs.insert_fresh[of D t other q] assms(1,2) by auto
  have peer: "get_peer_id D other t = (Ok (cl_alice_peer_id st), t)" using assms(4) by (simp add: prod_eq_iff)
  obtain r v1 where ack: "ce_ack_proof E ch v = (r, v1)" by fastforce
  let ?w1 = "\<lparr>aw_log = hist @ [received_from stranger ?req ch, KnownPeer other (Ok (cl_alice_peer_id st)),
     BufferedProof other q (Ok ()), AckedProof ch], aw_ext = (t1, v1)\<rparr>"
  have "cli_events (cli_on_sqlite D E) es st ?w1 = (Ok (st', stopped), w')"
    using assms(3,6) t1(1) peer ack
    by (cases r) (simp_all add: cli_select_def cli_on_swarm_event_def go_on_def cli_proof_received_def cli_foreign_proof_def
        cli_on_sqlite_def on_table_def beside_def note_act_def act_def attempt_def bindio_def received_from_def Let_def)
  from sustainsD[OF events_sustain[OF assms(1)] this, of other q]
  obtain rest where "aw_log w' = aw_log ?w1 @ rest" "list_all (refuses_proof other) rest" "holds_proof D other q (aw_ext w')"
    using t1 by (auto simp: holds_proof_def)
  thus ?thesis using ok_value_SomeD
    by (auto simp: holds_proof_def list_all_iff refuses_proof_def bind_eq_Some_conv split: prod.splits)
qed

section \<open>Concrete runs\<close>

definition sample_proof :: transfer_proof where
  "sample_proof = transfer_proof_new (TxHash ''ab'') (PrivateKey 7)"

definition own_request :: proof_request where
  "own_request = \<lparr>tpr_swap_id = 5, tpr_tx_lock_proof = sample_proof\<rparr>"

definition sample_proof_log :: "cli_act list" where
  "sample_proof_log = [Dialed 9 (Ok ()), received_from 9 own_request 7, PassedProof sample_proof (Ok 3),
     CliHappened (PendingProof (Ok ())), AckedProof 7]"

lemma sample_proof_run:
  "cli_run sample_cli 5 9 [CliSwarmEvent (TransferProofReceived own_request 7 9), PendingProof (Ok ())]
     \<lparr>aw_log = [], aw_ext = 4\<rparr> = (Ok (cli_loop_new 5 9, False), \<lparr>aw_log = sample_proof_log, aw_ext = 4\<rparr>)"
  by (simp add: cli_run_def cli_loop_new_def sample_proof_log_def sample_cli_def Let_def bindio_def attempt_def act_def
      note_act_def cli_select_def go_on_def cli_on_swarm_event_def cli_proof_received_def cli_own_proof_def own_request_def
      cli_pending_proof_def received_from_def)

theorem cli_proofs_justified_witness:
  "PassedProof sample_proof (Ok 3) \<in> set sample_proof_log \<and> (\<exists>ch. passed_on 9 5 ch sample_proof (Ok 3) sample_proof_log)"
  using cli_proofs_justified[OF sample_proof_run] by (simp add: sample_proof_log_def)

text \<open>
  The CLI runs swap 5 with Alice 9 and knows swap 6 with the same Alice; peer 66 sends a proof for
  swap 6 before Alice does.
\<close>

theorem stranger_proof_takes_the_place_witness:
  "\<exists>t w'. cli_events (cli_on_sqlite sample_db sample_cli)
      [CliSwarmEvent (TransferProofReceived \<lparr>tpr_swap_id = 6, tpr_tx_lock_proof = transfer_proof_new (TxHash ''cd'') (PrivateKey 1)\<rparr> 8 66),
       CliSwarmEvent (TransferProofReceived \<lparr>tpr_swap_id = 6, tpr_tx_lock_proof = sample_proof\<rparr> 7 9)]
      (cli_loop_new 5 9) \<lparr>aw_log = [], aw_ext = (t, 0)\<rparr> = (Ok (cli_loop_new 5 9, False), w') \<and>
    fst (get_buffered_transfer_proof sample_db 6 (fst (aw_ext w'))) = Ok (Some (transfer_proof_new (TxHash ''cd'') (PrivateKey 1)))"
proof -
  let ?fake = "transfer_proof_new (TxHash ''cd'') (PrivateKey 1)"
  have ok0: "db_laws sample_db \<and> sqlite_ok sample_db empty_sqlite" using sample_db_laws sqlite_ok_empty by blast
  have "peer_of sample_db 6 empty_sqlite = None"
    by (simp add: keyed_values[OF sample_db_laws] keyed_value_def empty_sqlite_def select_keyed_def)
  from peers.insert_fresh[OF ok0 this, of 9] obtain t where t: "insert_peer_id sample_db 6 9 empty_sqlite = (Ok (), t)"
    "db_laws sample_db \<and> sqlite_ok sample_db t" "peer_of sample_db 6 t = Some 9" by auto
  have proofs_t: "t_proofs t = []"
    using t(1) by (auto simp: insert_peer_id_def bindio_def acquire_def empty_sqlite_def sample_db_def
        split: outcome.splits prod.splits)
  have none: "fst (get_buffered_transfer_proof sample_db 6 t) = Ok None"
    using sample_db_laws by (simp add: get_buffered_transfer_proof_def bindio_def proofs_t select_keyed_def)
  hence "proof_of sample_db 6 t = None" by simp
  from proofs.insert_fresh[OF t(2) this, of ?fake] obtain t1 where
    t1: "insert_buffered_transfer_proof sample_db 6 ?fake t = (Ok (), t1)" "db_laws sample_db \<and> sqlite_ok sample_db t1"
    "proof_of sample_db 6 t1 = Some ?fake" by auto
  obtain e where e: "insert_buffered_transfer_proof sample_db 6 sample_proof t1 = (Err e, t1)"
    using proofs.insert_taken[OF t1(2,3)] by blast
  have peer: "get_peer_id sample_db 6 t = (Ok 9, t)" using t(3) ok_value_SomeD by (metis get_peer_keeps prod.collapse)
  have "t_peers t1 = t_peers t" using t1(1)
    by (auto simp: insert_buffered_transfer_proof_def bindio_def acquire_def split: outcome.splits)
  hence peer1: "get_peer_id sample_db 6 t1 = (Ok 9, t1)"
    using peer sample_db_laws by (simp add: get_peer_id_def bindio_def)
  obtain w' where run: "cli_events (cli_on_sqlite sample_db sample_cli)
      [CliSwarmEvent (TransferProofReceived \<lparr>tpr_swap_id = 6, tpr_tx_lock_proof = ?fake\<rparr> 8 66),
       CliSwarmEvent (TransferProofReceived \<lparr>tpr_swap_id = 6, tpr_tx_lock_proof = sample_proof\<rparr> 7 9)]
      (cli_loop_new 5 9) \<lparr>aw_log = [], aw_ext = (t, 0)\<rparr> = (Ok (cli_loop_new 5 9, False), w')"
    using t1(1) e peer peer1 by (simp add: cli_select_def cli_on_swarm_event_def go_on_def cli_proof_received_def
        cli_foreign_proof_def cli_on_sqlite_def on_table_def beside_def note_act_def act_def attempt_def bindio_def
        Let_def cli_loop_new_def sample_cli_def)
  have "fst (get_buffered_transfer_proof sample_db 6 (fst (aw_ext w'))) = Ok (Some ?fake)"
    using stranger_proof_takes_the_place[OF sample_db_laws conjunct2[OF t(2)] _ _ none run] peer
    by (auto simp: cli_loop_new_def)
  thus ?thesis using run by blast
qed

end
