(* ===== verification/Electrum.thy ===== *)
theory Electrum
  imports Swap_Env "HOL-Library.RBT" "HOL-Library.List_Lexorder"
begin

text \<open>
  \<open>Client\<close> of \<open>bitcoin/wallet.rs\<close>: what the Bitcoin wallet remembers of the chain. It keeps the height of the
  latest block, the history of every script that was asked for, and the time of its last
  synchronisation with the Electrum server, which it does at most once per interval unless forced.
  The server and the clock are the record \<open>electrum\<close>, a function per call on an external state \<open>'v\<close>.
  \<open>BTreeMap<Script, _>\<close> is the library's ordered tree \<open>rbt\<close> on the bytes of the scripts; an \<open>Instant\<close> is a
  natural number.
\<close>

section \<open>The client and the server\<close>

text \<open>An entry of a history; the height is an \<open>i32\<close>, read with \<open>sint\<close>.\<close>

record get_history_res =
  gh_height :: "32 word"
  gh_tx_hash :: txid

record electrum_client =
  ec_latest_block_height :: block_height
  ec_last_sync :: nat
  ec_sync_interval :: nat
  ec_script_history :: "(script, get_history_res list) rbt"
  ec_subscriptions :: "(txid \<times> script) \<rightharpoonup> subscription"

record 'v electrum =
  el_now :: "'v \<Rightarrow> nat \<times> 'v"
  el_connect :: "'v \<Rightarrow> unit outcome \<times> 'v"
  el_block_headers_subscribe :: "'v \<Rightarrow> u64 outcome \<times> 'v"
  el_batch_script_get_history :: "script list \<Rightarrow> 'v \<Rightarrow> get_history_res list list outcome \<times> 'v"

record 'v electrum_world =
  ew_client :: electrum_client
  ew_ext :: 'v

definition ext_call :: "('v \<Rightarrow> 'a outcome \<times> 'v) \<Rightarrow> ('v electrum_world, 'a) io" where
  "ext_call f = (\<lambda>w. case f (ew_ext w) of (r, v) \<Rightarrow> (r, w\<lparr>ew_ext := v\<rparr>))"

definition read_clock :: "'v electrum \<Rightarrow> ('v electrum_world, nat) io" where
  "read_clock E = (\<lambda>w. case el_now E (ew_ext w) of (n, v) \<Rightarrow> (Ok n, w\<lparr>ew_ext := v\<rparr>))"

definition the_client :: "('v electrum_world, electrum_client) io" where
  "the_client = (\<lambda>w. (Ok (ew_client w), w))"

definition set_client :: "(electrum_client \<Rightarrow> electrum_client) \<Rightarrow> ('v electrum_world, unit) io" where
  "set_client f = (\<lambda>w. (Ok (), w\<lparr>ew_client := f (ew_client w)\<rparr>))"

definition electrum_client_new :: "'v electrum \<Rightarrow> nat \<Rightarrow> ('v, electrum_client) io" where
  "electrum_client_new E interval =
     bindio (context_io ''Failed to initialize Electrum RPC client'' (el_connect E)) (\<lambda>_.
     bindio (context_io ''Failed to subscribe to header notifications'' (el_block_headers_subscribe E)) (\<lambda>latest_block.
     bindio (context_io ''Failed to initialize Electrum RPC client'' (el_connect E)) (\<lambda>_.
     bindio (\<lambda>v. case el_now E v of (n, v) \<Rightarrow> (Ok n, v)) (\<lambda>now.
     bindio (lift (if now < interval then Panic ''no underflow since block time is only 600 secs''
                   else Ok (now - interval))) (\<lambda>last_sync.
     bindio (lift (block_height_try_from latest_block)) (\<lambda>h.
     ret \<lparr>ec_latest_block_height = h, ec_last_sync = last_sync, ec_sync_interval = interval,
          ec_script_history = RBT.empty, ec_subscriptions = Map.empty\<rparr>))))))"

section \<open>Synchronising\<close>

definition update_latest_block :: "'v electrum \<Rightarrow> ('v electrum_world, unit) io" where
  "update_latest_block E =
     bindio (context_io ''Failed to subscribe to header notifications'' (ext_call (el_block_headers_subscribe E)))
       (\<lambda>latest_block.
     bindio (lift (block_height_try_from latest_block)) (\<lambda>latest_block_height.
     bindio the_client (\<lambda>c.
     if ec_latest_block_height c < latest_block_height
     then set_client (ec_latest_block_height_update (\<lambda>_. latest_block_height))
     else ret ())))"

definition update_script_histories :: "'v electrum \<Rightarrow> ('v electrum_world, unit) io" where
  "update_script_histories E =
     bindio the_client (\<lambda>c.
     let scripts = RBT.keys (ec_script_history c) in
     bindio (context_io ''Failed to get script histories'' (ext_call (el_batch_script_get_history E scripts)))
       (\<lambda>histories.
     if length histories \<noteq> length scripts
     then lift (Err (Msg ''Unexpected number of history entries''))
     else set_client (ec_script_history_update (\<lambda>_. RBT.bulkload (zip scripts histories)))))"

definition update_state :: "'v electrum \<Rightarrow> bool \<Rightarrow> ('v electrum_world, unit) io" where
  "update_state E force_sync =
     bindio (read_clock E) (\<lambda>now.
     bindio the_client (\<lambda>c.
     if \<not> force_sync \<and> now < ec_last_sync c + ec_sync_interval c then ret ()
     else
       bindio (set_client (ec_last_sync_update (\<lambda>_. now))) (\<lambda>_.
       bindio (update_latest_block E) (\<lambda>_.
       update_script_histories E))))"

text \<open>The first time a script is asked for, its entry is made and the client synchronises at once.\<close>

definition watch_script :: "'v electrum \<Rightarrow> script \<Rightarrow> ('v electrum_world, unit) io" where
  "watch_script E script =
     bindio the_client (\<lambda>c.
     if RBT.lookup (ec_script_history c) script = None
     then bindio (set_client (ec_script_history_update (RBT.insert script []))) (\<lambda>_. update_state E True)
     else update_state E False)"

definition status_from_history :: "get_history_res list \<Rightarrow> txid \<Rightarrow> block_height \<Rightarrow> script_status outcome" where
  "status_from_history history txid latest =
     (case rev (filter (\<lambda>entry. gh_tx_hash entry = txid) history) of
        [] \<Rightarrow> Ok Unseen
      | newest # remaining \<Rightarrow>
          if sint (gh_height newest) \<le> 0 then Ok InMempool
          else Ok (Confirmed (from_inclusion_and_latest_block (gh_height newest) (height_u32 latest))))"

definition client_status_of_script :: "'v electrum \<Rightarrow> txid \<Rightarrow> script \<Rightarrow> ('v electrum_world, script_status) io" where
  "client_status_of_script E txid script =
     bindio (watch_script E script) (\<lambda>_.
     bindio (set_client (ec_script_history_update (\<lambda>t.
       case RBT.lookup t script of None \<Rightarrow> RBT.insert script [] t | Some _ \<Rightarrow> t))) (\<lambda>_.
     bindio the_client (\<lambda>c.
     let history = (case RBT.lookup (ec_script_history c) script of None \<Rightarrow> [] | Some h \<Rightarrow> h) in
     lift (status_from_history history txid (ec_latest_block_height c)))))"

definition client_script_history_for :: "'v electrum \<Rightarrow> script \<Rightarrow> ('v electrum_world, txid list) io" where
  "client_script_history_for E script =
     bindio (watch_script E script) (\<lambda>_.
     bindio the_client (\<lambda>c.
     ret (case RBT.lookup (ec_script_history c) script of None \<Rightarrow> [] | Some h \<Rightarrow> map gh_tx_hash h)))"

section \<open>Subscriptions\<close>

text \<open>
  \<open>subscribe_to\<close>: a subscription that exists is shared; a new one starts a task, and its channel holds
  \<open>Unseen\<close>. The result tells whether a task was started.
\<close>

definition client_subscribe_to :: "u32 \<Rightarrow> txid \<Rightarrow> script \<Rightarrow> ('v electrum_world, subscription \<times> bool) io" where
  "client_subscribe_to finality txid script =
     bindio the_client (\<lambda>c.
     case ec_subscriptions c (txid, script) of
       Some sub \<Rightarrow> ret (sub, False)
     | None \<Rightarrow>
         let sub = \<lparr>sub_txid = txid, sub_script = script, sub_finality = finality\<rparr> in
         bindio (set_client (ec_subscriptions_update (\<lambda>m. m((txid, script) \<mapsto> sub)))) (\<lambda>_.
         ret (sub, True)))"

text \<open>
  One turn of the task: the status it sends on the channel, if any, and whether the task goes on;
  \<open>alive\<close> tells whether the channel has receivers.
\<close>

definition subscription_turn ::
  "'v electrum \<Rightarrow> txid \<Rightarrow> script \<Rightarrow> bool \<Rightarrow> ('v electrum_world, script_status option \<times> bool) io" where
  "subscription_turn E txid script alive =
     bindio (attempt (client_status_of_script E txid script)) (\<lambda>r.
     let new_status = (case r of Inl error \<Rightarrow> Retrying | Inr s \<Rightarrow> s) in
     if new_status = Retrying then ret (None, True)
     else if alive then ret (Some new_status, True)
     else bindio (set_client (ec_subscriptions_update (\<lambda>m. m((txid, script) := None)))) (\<lambda>_. ret (None, False)))"

end
