(* ===== verification/Electrum_Properties.thy ===== *)
theory Electrum_Properties
  imports Electrum
begin

text \<open>
  What the Electrum client makes of a server. \<open>evolves\<close> relates the client before and after a call: the
  height of the chain and the set of watched scripts only grow, and a history is kept or replaced by one
  that the server had in between; every operation evolves, also one that fails. From it: what a
  synchronisation reads, that confirmations never decrease on a chain without reorganisations, and what
  a failed first synchronisation leaves behind.
\<close>

section \<open>Histories\<close>

definition included :: "get_history_res list \<Rightarrow> txid \<Rightarrow> u32 option" where
  "included history i = (case rev (filter (\<lambda>e. gh_tx_hash e = i) history) of
     [] \<Rightarrow> None | e # _ \<Rightarrow> if sint (gh_height e) \<le> 0 then None else Some (gh_height e))"

lemma status_confs:
  assumes "status_from_history history i tip = Ok st"
  shows "confs st = (case included history i of None \<Rightarrow> 0 | Some h \<Rightarrow> unat (height_u32 tip) - unat h + 1)"
  using assms by (auto simp: status_from_history_def included_def confs_def from_inclusion_and_latest_block_def
      unat_saturating_sub split: list.splits if_splits)

section \<open>How the client evolves\<close>

definition hist_at :: "'v electrum_world \<Rightarrow> script \<Rightarrow> get_history_res list option" where
  "hist_at w = RBT.lookup (ec_script_history (ew_client w))"

definition tip_of :: "'v electrum_world \<Rightarrow> block_height" where
  "tip_of w = ec_latest_block_height (ew_client w)"

text \<open>
  A server whose answers are those of a chain that only grows: \<open>chain v\<close> are the histories in the state
  \<open>v\<close> of the outside, \<open>later\<close> orders these states.
\<close>

definition honest :: "'v electrum \<Rightarrow> ('v \<Rightarrow> script \<Rightarrow> get_history_res list) \<Rightarrow> ('v \<Rightarrow> 'v \<Rightarrow> bool) \<Rightarrow> bool" where
  "honest E chain later \<longleftrightarrow> reflp later \<and> transp later \<and>
     (\<forall>v. later v (snd (el_now E v))) \<and> (\<forall>v. later v (snd (el_block_headers_subscribe E v))) \<and>
     (\<forall>scripts v. later v (snd (el_batch_script_get_history E scripts v))) \<and>
     (\<forall>scripts v hs. fst (el_batch_script_get_history E scripts v) = Ok hs \<longrightarrow>
        hs = map (chain (snd (el_batch_script_get_history E scripts v))) scripts) \<and>
     (\<forall>v v' s i h. later v v' \<longrightarrow> included (chain v s) i = Some h \<longrightarrow> included (chain v' s) i = Some h)"

text \<open>A history that the server had at some moment in between.\<close>

definition between :: "('v \<Rightarrow> script \<Rightarrow> get_history_res list) \<Rightarrow> ('v \<Rightarrow> 'v \<Rightarrow> bool) \<Rightarrow> 'v \<Rightarrow> 'v \<Rightarrow> script \<Rightarrow>
    get_history_res list \<Rightarrow> bool" where
  "between chain later v v' s h \<longleftrightarrow> (\<exists>u. later v u \<and> later u v' \<and> h = chain u s)"

definition evolves :: "('v \<Rightarrow> script \<Rightarrow> get_history_res list) \<Rightarrow> ('v \<Rightarrow> 'v \<Rightarrow> bool) \<Rightarrow>
    'v electrum_world \<Rightarrow> 'v electrum_world \<Rightarrow> bool" where
  "evolves chain later w w' \<longleftrightarrow> later (ew_ext w) (ew_ext w') \<and> tip_of w \<le> tip_of w' \<and>
     ec_sync_interval (ew_client w') = ec_sync_interval (ew_client w) \<and>
     (\<forall>s h. hist_at w s = Some h \<longrightarrow> (\<exists>h'. hist_at w' s = Some h' \<and>
        (h' = h \<or> between chain later (ew_ext w) (ew_ext w') s h'))) \<and>
     (\<forall>s h'. hist_at w s = None \<longrightarrow> hist_at w' s = Some h' \<longrightarrow>
        h' = [] \<or> between chain later (ew_ext w) (ew_ext w') s h')"

lemma honestD:
  assumes "honest E chain later"
  shows "later v v" "later v1 v2 \<Longrightarrow> later v2 v3 \<Longrightarrow> later v1 v3"
    "later v (snd (el_now E v))" "later v (snd (el_block_headers_subscribe E v))"
    "later v (snd (el_batch_script_get_history E scripts v))"
    "fst (el_batch_script_get_history E scripts v) = Ok hs \<Longrightarrow>
       hs = map (chain (snd (el_batch_script_get_history E scripts v))) scripts"
    "later v1 v2 \<Longrightarrow> included (chain v1 s) i = Some h \<Longrightarrow> included (chain v2 s) i = Some h"
  using assms unfolding honest_def reflp_def transp_def by blast+

lemma evolvesD:
  assumes "evolves chain later w w'"
  shows "later (ew_ext w) (ew_ext w')" "tip_of w \<le> tip_of w'"
    "ec_sync_interval (ew_client w') = ec_sync_interval (ew_client w)"
    "hist_at w s = Some h \<Longrightarrow> \<exists>h'. hist_at w' s = Some h' \<and> (h' = h \<or> between chain later (ew_ext w) (ew_ext w') s h')"
    "hist_at w s = None \<Longrightarrow> hist_at w' s = Some h' \<Longrightarrow> h' = [] \<or> between chain later (ew_ext w) (ew_ext w') s h'"
  using assms unfolding evolves_def by simp_all

lemma evolves_refl: "honest E chain later \<Longrightarrow> evolves chain later w w"
  by (auto simp: evolves_def honestD(1))

lemma evolves_trans:
  assumes "honest E chain later" "evolves chain later w w1" "evolves chain later w1 w2"
  shows "evolves chain later w w2"
proof -
  note t = honestD(2)[OF assms(1)]
  note l = evolvesD(1)[OF assms(2)] evolvesD(1)[OF assms(3)]
  have wider1: "between chain later (ew_ext w) (ew_ext w2) s h" if "between chain later (ew_ext w) (ew_ext w1) s h" for h s
    using that t[OF _ l(2)] unfolding between_def by blast
  have wider2: "between chain later (ew_ext w) (ew_ext w2) s h" if "between chain later (ew_ext w1) (ew_ext w2) s h" for h s
    using that t[OF l(1)] unfolding between_def by blast
  show ?thesis unfolding evolves_def
  proof (intro conjI allI impI)
    show "later (ew_ext w) (ew_ext w2)" by (rule t[OF l])
    show "tip_of w \<le> tip_of w2" using evolvesD(2)[OF assms(2)] evolvesD(2)[OF assms(3)] by (rule order_trans)
    show "ec_sync_interval (ew_client w2) = ec_sync_interval (ew_client w)"
      using evolvesD(3)[OF assms(2)] evolvesD(3)[OF assms(3)] by simp
  next
    fix s h assume "hist_at w s = Some h"
    from evolvesD(4)[OF assms(2) this] obtain h1 where h1: "hist_at w1 s = Some h1"
      "h1 = h \<or> between chain later (ew_ext w) (ew_ext w1) s h1" by blast
    from evolvesD(4)[OF assms(3) h1(1)] obtain h2 where h2: "hist_at w2 s = Some h2"
      "h2 = h1 \<or> between chain later (ew_ext w1) (ew_ext w2) s h2" by blast
    thus "\<exists>h'. hist_at w2 s = Some h' \<and> (h' = h \<or> between chain later (ew_ext w) (ew_ext w2) s h')"
      using h1(2) wider1 wider2 by (elim disjE) simp_all
  next
    fix s h' assume s: "hist_at w s = None" "hist_at w2 s = Some h'"
    show "h' = [] \<or> between chain later (ew_ext w) (ew_ext w2) s h'"
    proof (cases "hist_at w1 s")
      case None
      thus ?thesis using evolvesD(5)[OF assms(3) _ s(2)] wider2 by blast
    next
      case (Some h1)
      from evolvesD(4)[OF assms(3) this] s(2) have "h' = h1 \<or> between chain later (ew_ext w1) (ew_ext w2) s h'" by simp
      thus ?thesis using evolvesD(5)[OF assms(2) s(1) Some] wider1 wider2 by (elim disjE) simp_all
    qed
  qed
qed

definition evolving :: "('v \<Rightarrow> script \<Rightarrow> get_history_res list) \<Rightarrow> ('v \<Rightarrow> 'v \<Rightarrow> bool) \<Rightarrow> ('v electrum_world, 'a) io \<Rightarrow> bool" where
  "evolving chain later m \<longleftrightarrow> (\<forall>w. evolves chain later w (snd (m w)))"

lemma evolving_bindio:
  assumes "honest E chain later" "evolving chain later m" "\<And>x. evolving chain later (f x)"
  shows "evolving chain later (bindio m f)"
  unfolding evolving_def
proof
  fix w
  obtain r w1 where m: "m w = (r, w1)" by fastforce
  have e1: "evolves chain later w w1" using assms(2) m unfolding evolving_def by (metis snd_conv)
  show "evolves chain later w (snd (bindio m f w))"
  proof (cases r)
    case (Ok x)
    have "evolves chain later w1 (snd (f x w1))" using assms(3) by (simp add: evolving_def)
    thus ?thesis using evolves_trans[OF assms(1) e1] by (simp add: bindio_def m Ok)
  qed (use e1 in \<open>simp_all add: bindio_def m\<close>)
qed

lemma evolving_simple:
  assumes "honest E chain later"
  shows "evolving chain later (ret x)" "evolving chain later (lift y)" "evolving chain later the_client"
    "evolving chain later (set_client (ec_last_sync_update f))"
    "evolving chain later (set_client (ec_subscriptions_update g))"
    "evolving chain later (read_clock E)" "evolving chain later (ext_call (el_block_headers_subscribe E))"
    "evolving chain later (ext_call (el_batch_script_get_history E scripts))"
  using evolves_refl[OF assms] honestD(1)[OF assms] honestD(3-5)[OF assms]
  by (auto simp: evolving_def the_client_def set_client_def read_clock_def ext_call_def evolves_def hist_at_def
      tip_of_def split: prod.splits) (metis snd_conv)+

lemma evolving_context: "evolving chain later m \<Longrightarrow> evolving chain later (context_io c m)"
  by (simp add: evolving_def context_io_def split: prod.splits) (metis snd_conv)

lemma evolving_attempt: "evolving chain later m \<Longrightarrow> evolving chain later (attempt m)"
proof -
  have "snd (attempt m w) = snd (m w)" for w by (simp add: attempt_def split: prod.splits outcome.splits)
  thus "evolving chain later m \<Longrightarrow> evolving chain later (attempt m)" by (simp add: evolving_def)
qed

lemma evolving_latest_block:
  assumes "honest E chain later"
  shows "evolving chain later (update_latest_block E)"
proof -
  have "evolving chain later (bindio the_client (\<lambda>c. if ec_latest_block_height c < h
      then set_client (ec_latest_block_height_update (\<lambda>_. h)) else ret ()))" for h
    using honestD(1)[OF assms]
    by (auto simp: evolving_def bindio_def the_client_def set_client_def evolves_def hist_at_def tip_of_def less_imp_le)
  thus ?thesis unfolding update_latest_block_def
    by (intro evolving_bindio[OF assms, of "lift _"] evolving_bindio[OF assms, of "context_io _ _"] evolving_context
        evolving_simple[OF assms])
qed

lemma map_of_keys: "map_of (zip (RBT.keys t) (map f (RBT.keys t))) s = (if RBT.lookup t s = None then None else Some (f s))"
proof -
  have "map_of (zip (RBT.keys t) (map f (RBT.keys t))) = (\<lambda>s. if s \<in> set (RBT.keys t) then Some (f s) else None)"
    by (simp add: map_of_zip_map fun_eq_iff)
  moreover have "s \<in> set (RBT.keys t) \<longleftrightarrow> RBT.lookup t s \<noteq> None"
    using RBT.lookup_keys[of t] by blast
  ultimately show ?thesis by simp
qed

lemma evolving_histories:
  fixes E :: "'v electrum"
  assumes "honest E chain later"
  shows "evolving chain later (update_script_histories E)"
  unfolding evolving_def
proof
  fix w :: "'v electrum_world"
  let ?t = "ec_script_history (ew_client w)"
  obtain r v where r: "el_batch_script_get_history E (RBT.keys ?t) (ew_ext w) = (r, v)" by fastforce
  have l: "later (ew_ext w) v" using honestD(5)[OF assms, of "ew_ext w" "RBT.keys ?t"] by (simp add: r)
  show "evolves chain later w (snd (update_script_histories E w))"
  proof (cases r)
    case (Ok hs)
    hence hs: "hs = map (chain v) (RBT.keys ?t)" using honestD(6)[OF assms, of "RBT.keys ?t" "ew_ext w"] by (simp add: r)
    have "snd (update_script_histories E w) = \<lparr>ew_client = (ew_client w)\<lparr>ec_script_history :=
        RBT.bulkload (zip (RBT.keys ?t) (map (chain v) (RBT.keys ?t)))\<rparr>, ew_ext = v\<rparr>"
      by (simp add: update_script_histories_def bindio_def the_client_def ext_call_def context_io_def r Ok hs set_client_def Let_def)
    thus ?thesis using l honestD(1)[OF assms]
      by (auto simp: evolves_def hist_at_def tip_of_def map_of_keys between_def)
  qed (use l in \<open>auto simp: update_script_histories_def bindio_def the_client_def ext_call_def context_io_def r
      evolves_def hist_at_def tip_of_def Let_def\<close>)
qed

lemma evolving_update_state:
  fixes E :: "'v electrum"
  assumes "honest E chain later"
  shows "evolving chain later (update_state E b)"
proof -
  have *: "evolving chain later (if q then m1 else m2)" if "evolving chain later m1" "evolving chain later m2"
    for q and m1 m2 :: "('v electrum_world, unit) io"
    using that by simp
  show ?thesis unfolding update_state_def
    by (intro evolving_bindio[OF assms] * evolving_simple[OF assms] evolving_latest_block[OF assms] evolving_histories[OF assms])
qed

text \<open>The empty history of a script that was not watched before.\<close>

lemma evolves_insert:
  assumes "honest E chain later" "hist_at w s = None"
  shows "evolves chain later w (w\<lparr>ew_client := ec_script_history_update (RBT.insert s []) (ew_client w)\<rparr>)"
  using assms honestD(1)[OF assms(1)] by (auto simp: evolves_def hist_at_def tip_of_def)

lemma evolving_watch:
  fixes E :: "'v electrum"
  assumes "honest E chain later"
  shows "evolving chain later (watch_script E s)"
  unfolding evolving_def
proof
  fix w :: "'v electrum_world"
  let ?w = "w\<lparr>ew_client := ec_script_history_update (RBT.insert s []) (ew_client w)\<rparr>"
  show "evolves chain later w (snd (watch_script E s w))"
  proof (cases "hist_at w s")
    case None
    hence "snd (watch_script E s w) = snd (update_state E True ?w)"
      by (simp add: watch_script_def bindio_def the_client_def set_client_def hist_at_def)
    thus ?thesis using evolves_trans[OF assms evolves_insert[OF assms None]] evolving_update_state[OF assms]
      unfolding evolving_def by metis
  next
    case (Some h)
    hence "watch_script E s w = update_state E False w"
      by (simp add: watch_script_def bindio_def the_client_def hist_at_def)
    thus ?thesis using evolving_update_state[OF assms] unfolding evolving_def by metis
  qed
qed

lemma evolving_entry:
  assumes "honest E chain later"
  shows "evolving chain later (set_client (ec_script_history_update (\<lambda>t.
       case RBT.lookup t s of None \<Rightarrow> RBT.insert s [] t | Some _ \<Rightarrow> t)))"
  using honestD(1)[OF assms]
  by (auto simp: evolving_def set_client_def evolves_def hist_at_def tip_of_def split: option.splits)

lemma evolving_status:
  assumes "honest E chain later"
  shows "evolving chain later (client_status_of_script E i s)" "evolving chain later (client_script_history_for E s)"
  unfolding client_status_of_script_def client_script_history_for_def Let_def
  by (intro evolving_bindio[OF assms] evolving_watch[OF assms] evolving_entry[OF assms] evolving_simple[OF assms])+

section \<open>Sequences of calls\<close>

datatype client_call =
    StatusOf txid script
  | HistoryOf script
  | SubscribeTo u32 txid script
  | Turn txid script bool

definition client_op :: "'v electrum \<Rightarrow> client_call \<Rightarrow> ('v electrum_world, unit) io" where
  "client_op E op = (case op of
     StatusOf i s \<Rightarrow> bindio (attempt (client_status_of_script E i s)) (\<lambda>_. ret ())
   | HistoryOf s \<Rightarrow> bindio (attempt (client_script_history_for E s)) (\<lambda>_. ret ())
   | SubscribeTo n i s \<Rightarrow> bindio (client_subscribe_to n i s) (\<lambda>_. ret ())
   | Turn i s alive \<Rightarrow> bindio (subscription_turn E i s alive) (\<lambda>_. ret ()))"

lemma evolving_op:
  assumes "honest E chain later"
  shows "evolving chain later (client_op E op)"
proof -
  have sub: "evolving chain later (client_subscribe_to n i s)" for n i s
    using evolves_refl[OF assms] honestD(1)[OF assms]
    by (auto simp: evolving_def client_subscribe_to_def bindio_def the_client_def set_client_def evolves_def hist_at_def
        tip_of_def Let_def split: option.splits)
  have turn: "evolving chain later (subscription_turn E i s alive)" for i s alive
    unfolding subscription_turn_def Let_def
    by (rule evolving_bindio[OF assms]) (auto intro!: evolving_bindio[OF assms] evolving_attempt evolving_status[OF assms]
        evolving_simple[OF assms])
  show ?thesis unfolding client_op_def
    by (cases op) (auto intro!: evolving_bindio[OF assms] evolving_attempt evolving_status[OF assms] sub turn
        evolving_simple[OF assms])
qed

primrec client_run :: "'v electrum \<Rightarrow> client_call list \<Rightarrow> ('v electrum_world, unit) io" where
  "client_run E [] = ret ()"
| "client_run E (op # ops) = bindio (client_op E op) (\<lambda>_. client_run E ops)"

lemma evolving_run:
  assumes "honest E chain later"
  shows "evolving chain later (client_run E ops)"
  by (induction ops; simp only: client_run.simps; intro evolving_bindio[OF assms] evolving_op[OF assms] evolving_simple[OF assms])

section \<open>What the wallet sees\<close>

text \<open>A client that has only ever asked this server.\<close>

definition client_ok :: "('v \<Rightarrow> script \<Rightarrow> get_history_res list) \<Rightarrow> ('v \<Rightarrow> 'v \<Rightarrow> bool) \<Rightarrow> 'v electrum_world \<Rightarrow> bool" where
  "client_ok chain later w \<longleftrightarrow> (\<forall>s h. hist_at w s = Some h \<longrightarrow> h = [] \<or> (\<exists>u. later u (ew_ext w) \<and> h = chain u s))"

lemma evolves_ok:
  assumes "honest E chain later" "client_ok chain later w" "evolves chain later w w'"
  shows "client_ok chain later w'"
  unfolding client_ok_def
proof (intro allI impI)
  fix s h assume h: "hist_at w' s = Some h"
  show "h = [] \<or> (\<exists>u. later u (ew_ext w') \<and> h = chain u s)"
  proof (cases "hist_at w s")
    case None
    thus ?thesis using evolvesD(5)[OF assms(3) _ h] unfolding between_def by blast
  next
    case (Some h0)
    hence "h = h0 \<or> between chain later (ew_ext w) (ew_ext w') s h" using evolvesD(4)[OF assms(3) Some] h by simp
    moreover have "h0 = [] \<or> (\<exists>u. later u (ew_ext w) \<and> h0 = chain u s)" using assms(2) Some unfolding client_ok_def by blast
    ultimately show ?thesis using honestD(2)[OF assms(1) _ evolvesD(1)[OF assms(3)]] unfolding between_def by blast
  qed
qed

lemma status_OkD:
  assumes "client_status_of_script E i s w = (Ok st, w')"
  obtains h where "hist_at w' s = Some h" "status_from_history h i (tip_of w') = Ok st"
  using assms that
  by (auto simp: client_status_of_script_def bindio_eq_Ok set_client_def the_client_def hist_at_def tip_of_def Let_def
      split: option.splits)

text \<open>A confirmation that the client has seen stays in every history it reads afterwards.\<close>

lemma included_stays:
  assumes "honest E chain later" "client_ok chain later w" "evolves chain later w w'"
    and "hist_at w s = Some h" "included h i = Some n" "hist_at w' s = Some h'"
  shows "included h' i = Some n"
proof -
  have "h' = h \<or> between chain later (ew_ext w) (ew_ext w') s h'" using evolvesD(4)[OF assms(3,4)] assms(6) by simp
  thus ?thesis
  proof
    assume "between chain later (ew_ext w) (ew_ext w') s h'"
    then obtain u where u: "later (ew_ext w) u" "h' = chain u s" unfolding between_def by blast
    have "h \<noteq> []" using assms(5) by (auto simp: included_def)
    then obtain u0 where "later u0 (ew_ext w)" "h = chain u0 s" using assms(2,4) unfolding client_ok_def by blast
    thus ?thesis using honestD(7)[OF assms(1) honestD(2)[OF assms(1) _ u(1)]] assms(5) u(2) by blast
  qed (use assms(5) in simp)
qed

text \<open>
  C31: on a chain without reorganisations the number of confirmations that the wallet reports for a
  transaction never decreases, whatever else is asked of the client in between and whichever of those
  calls fail.
\<close>

theorem confirmations_never_decrease:
  assumes "honest E chain later" "client_ok chain later w"
    and "client_status_of_script E i s w = (Ok st1, w1)" "client_run E ops w1 = (r, w2)"
    and "client_status_of_script E i s w2 = (Ok st2, w3)"
  shows "confs st1 \<le> confs st2"
proof -
  obtain h1 where h1: "hist_at w1 s = Some h1" "status_from_history h1 i (tip_of w1) = Ok st1" by (rule status_OkD[OF assms(3)])
  obtain h2 where h2: "hist_at w3 s = Some h2" "status_from_history h2 i (tip_of w3) = Ok st2" by (rule status_OkD[OF assms(5)])
  have "evolves chain later w w1" using evolving_status(1)[OF assms(1)] assms(3) unfolding evolving_def by (metis snd_conv)
  hence ok: "client_ok chain later w1" by (rule evolves_ok[OF assms(1,2)])
  have "evolves chain later w1 w2" using evolving_run[OF assms(1)] assms(4) unfolding evolving_def by (metis snd_conv)
  moreover have "evolves chain later w2 w3" using evolving_status(1)[OF assms(1)] assms(5) unfolding evolving_def by (metis snd_conv)
  ultimately have e: "evolves chain later w1 w3" by (rule evolves_trans[OF assms(1)])
  show ?thesis
  proof (cases "included h1 i")
    case (Some n)
    have "included h2 i = Some n" by (rule included_stays[OF assms(1) ok e h1(1) Some h2(1)])
    moreover have "unat (height_u32 (tip_of w1)) \<le> unat (height_u32 (tip_of w3))"
      using evolvesD(2)[OF e] by (simp add: less_eq_block_height_def word_le_nat_alt)
    ultimately show ?thesis using status_confs[OF h1(2)] status_confs[OF h2(2)] Some by simp
  qed (use status_confs[OF h1(2)] in simp)
qed

text \<open>
  when the client synchronises, for a script that is asked for the first time or once the interval is
  over, the status it reports is the one read off the server's history of that script and the higher of
  the two chain heights, and every watched script has its own history afterwards.
\<close>

theorem synced_status_is_the_servers:
  assumes "hist_at \<lparr>ew_client = c, ew_ext = v\<rparr> s = None \<or> ec_last_sync c + ec_sync_interval c \<le> n"
    and "el_now E v = (n, v1)" "el_block_headers_subscribe E v1 = (Ok height, v2)" "unat height < 2 ^ 32"
    and "\<forall>scripts. el_batch_script_get_history E scripts v2 = (Ok (map f scripts), v3)"
  shows "\<exists>w'. client_status_of_script E i s \<lparr>ew_client = c, ew_ext = v\<rparr> =
      (status_from_history (f s) i (max (ec_latest_block_height c) (BlockHeight (ucast height))), w') \<and>
    (\<forall>s'. hist_at w' s' = (if s' = s \<or> hist_at \<lparr>ew_client = c, ew_ext = v\<rparr> s' \<noteq> None then Some (f s') else None))"
proof -
  let ?t = "case RBT.lookup (ec_script_history c) s of None \<Rightarrow> RBT.insert s [] (ec_script_history c) | Some _ \<Rightarrow> ec_script_history c"
  let ?c = "c\<lparr>ec_script_history := RBT.bulkload (zip (RBT.keys ?t) (map f (RBT.keys ?t))), ec_last_sync := n,
     ec_latest_block_height := max (ec_latest_block_height c) (BlockHeight (ucast height))\<rparr>"
  have h: "block_height_try_from height = Ok (BlockHeight (ucast height))" using assms(4) by (simp add: block_height_try_from_def)
  have known: "RBT.lookup ?t s \<noteq> None" "RBT.lookup ?t s' \<noteq> None \<longleftrightarrow> s' = s \<or> RBT.lookup (ec_script_history c) s' \<noteq> None" for s'
    by (auto split: option.splits)
  have "watch_script E s \<lparr>ew_client = c, ew_ext = v\<rparr> = (Ok (), \<lparr>ew_client = ?c, ew_ext = v3\<rparr>)"
    using assms h
    by (cases "RBT.lookup (ec_script_history c) s")
      (auto simp: watch_script_def bindio_def the_client_def set_client_def update_state_def read_clock_def hist_at_def
        update_latest_block_def context_io_def ext_call_def update_script_histories_def Let_def max_def not_less
        split: option.splits)
  moreover have "RBT.lookup (ec_script_history ?c) s = Some (f s)" using known(1) by (simp add: map_of_keys)
  ultimately have "client_status_of_script E i s \<lparr>ew_client = c, ew_ext = v\<rparr> =
      (status_from_history (f s) i (max (ec_latest_block_height c) (BlockHeight (ucast height))), \<lparr>ew_client = ?c, ew_ext = v3\<rparr>)"
    by (simp add: client_status_of_script_def bindio_def the_client_def set_client_def Let_def)
  moreover have "hist_at \<lparr>ew_client = ?c, ew_ext = v3\<rparr> s' =
      (if s' = s \<or> hist_at \<lparr>ew_client = c, ew_ext = v\<rparr> s' \<noteq> None then Some (f s') else None)" for s'
    using known(1) known(2)[of s'] by (cases "s' = s") (auto simp: hist_at_def map_of_keys simp del: not_None_eq)
  ultimately show ?thesis by blast
qed

text \<open>
  if the synchronisation fails when a script is asked for the first time, the next call within the
  interval answers \<open>Unseen\<close>, or an empty history, without asking the server, whatever the chain has; with
  that status of the lock transaction the swap is taken to have all blocks left before it can be
  cancelled.
\<close>

theorem failed_first_sync_reads_unseen:
  assumes "hist_at \<lparr>ew_client = c, ew_ext = v\<rparr> s = None"
    and "el_now E v = (n, v1)" "el_block_headers_subscribe E v1 = (Err e, v2)"
    and "el_now E v2 = (n', v3)" "n' < n + ec_sync_interval c"
  shows "\<exists>e' c'. client_status_of_script E i s \<lparr>ew_client = c, ew_ext = v\<rparr> = (Err e', \<lparr>ew_client = c', ew_ext = v2\<rparr>) \<and>
    client_status_of_script E i s \<lparr>ew_client = c', ew_ext = v2\<rparr> = (Ok Unseen, \<lparr>ew_client = c', ew_ext = v3\<rparr>) \<and>
    client_script_history_for E s \<lparr>ew_client = c', ew_ext = v2\<rparr> = (Ok [], \<lparr>ew_client = c', ew_ext = v3\<rparr>) \<and>
    current_epoch ct pt Unseen Unseen = NoneExpired (cancel_u32 ct)"
proof -
  let ?c = "c\<lparr>ec_script_history := RBT.insert s [] (ec_script_history c), ec_last_sync := n\<rparr>"
  have "client_status_of_script E i s \<lparr>ew_client = c, ew_ext = v\<rparr> =
      (Err (Context ''Failed to subscribe to header notifications'' e), \<lparr>ew_client = ?c, ew_ext = v2\<rparr>)"
    using assms(1-3) by (simp add: client_status_of_script_def watch_script_def bindio_def the_client_def set_client_def
        hist_at_def update_state_def read_clock_def update_latest_block_def context_io_def ext_call_def)
  moreover have "watch_script E s \<lparr>ew_client = ?c, ew_ext = v2\<rparr> = (Ok (), \<lparr>ew_client = ?c, ew_ext = v3\<rparr>)"
    using assms(4,5) by (simp add: watch_script_def bindio_def the_client_def update_state_def read_clock_def)
  ultimately show ?thesis
    by (intro exI[of _ "Context ''Failed to subscribe to header notifications'' e"] exI[of _ ?c])
      (simp add: client_status_of_script_def client_script_history_for_def bindio_def the_client_def set_client_def Let_def
        status_from_history_def current_epoch_def is_confirmed_with_def blocks_left_until_def)
qed

section \<open>A concrete server\<close>

text \<open>
  Transaction 7 of script \<open>[1]\<close> is included at height 100; the clock counts the calls, and each call to the
  server in the first state fails.
\<close>

definition sample_history :: "script \<Rightarrow> get_history_res list" where
  "sample_history s = (if s = [1] then [\<lparr>gh_height = 100, gh_tx_hash = 7\<rparr>] else [])"

definition sample_electrum :: "nat electrum" where
  "sample_electrum = \<lparr>el_now = (\<lambda>v. (v, Suc v)), el_connect = (\<lambda>v. (Ok (), v)),
     el_block_headers_subscribe = (\<lambda>v. (if v = 1 then Err (External 1) else Ok (100 + of_nat v), v)),
     el_batch_script_get_history = (\<lambda>scripts v. (Ok (map sample_history scripts), v))\<rparr>"

definition sample_client :: electrum_client where
  "sample_client = \<lparr>ec_latest_block_height = BlockHeight 100, ec_last_sync = 0, ec_sync_interval = 60,
     ec_script_history = RBT.empty, ec_subscriptions = Map.empty\<rparr>"

lemma sample_honest: "honest sample_electrum (\<lambda>_. sample_history) (\<lambda>_ _. True)"
  by (simp add: honest_def reflp_def transp_def sample_electrum_def)

lemma sample_status: "hist_at w [1] = None \<Longrightarrow> ew_ext w = 5 \<Longrightarrow> tip_of w = BlockHeight 100 \<Longrightarrow>
    \<exists>w'. client_status_of_script sample_electrum 7 [1] w = (Ok (Confirmed \<lparr>depth = 6\<rparr>), w')"
  by (cases w) (auto simp: client_status_of_script_def watch_script_def bindio_def the_client_def set_client_def hist_at_def
      tip_of_def update_state_def read_clock_def update_latest_block_def context_io_def ext_call_def sample_electrum_def
      block_height_try_from_def update_script_histories_def Let_def map_of_keys status_from_history_def sample_history_def
      from_inclusion_and_latest_block_def saturating_sub_def less_block_height_def)

theorem synced_status_is_the_servers_witness:
  "\<exists>w'. client_status_of_script sample_electrum 7 [1] \<lparr>ew_client = sample_client, ew_ext = 5\<rparr>
     = (Ok (Confirmed \<lparr>depth = 6\<rparr>), w')"
proof -
  have "hist_at \<lparr>ew_client = sample_client, ew_ext = 5\<rparr> [1] = None \<or> ec_last_sync sample_client + ec_sync_interval sample_client \<le> 5"
    by (simp add: hist_at_def sample_client_def)
  from synced_status_is_the_servers[OF this, of sample_electrum 6 106 6 sample_history 6 7]
  show ?thesis
    by (auto simp: sample_electrum_def sample_history_def status_from_history_def sample_client_def max_def
        less_eq_block_height_def from_inclusion_and_latest_block_def saturating_sub_def)
qed

theorem failed_first_sync_reads_unseen_witness:
  "\<exists>e' c'. client_status_of_script sample_electrum 7 [1] \<lparr>ew_client = sample_client, ew_ext = 0\<rparr> = (Err e', \<lparr>ew_client = c', ew_ext = 1\<rparr>) \<and>
    client_status_of_script sample_electrum 7 [1] \<lparr>ew_client = c', ew_ext = 1\<rparr> = (Ok Unseen, \<lparr>ew_client = c', ew_ext = 2\<rparr>)"
proof -
  have 1: "hist_at \<lparr>ew_client = sample_client, ew_ext = 0\<rparr> [1] = None" by (simp add: hist_at_def sample_client_def)
  have 2: "el_now sample_electrum 0 = (0, 1)" by (simp add: sample_electrum_def)
  have 3: "el_block_headers_subscribe sample_electrum 1 = (Err (External 1), 1)" by (simp add: sample_electrum_def)
  have 4: "el_now sample_electrum 1 = (1, 2)" by (simp add: sample_electrum_def)
  have 5: "(1::nat) < 0 + ec_sync_interval sample_client" by (simp add: sample_client_def)
  show ?thesis using failed_first_sync_reads_unseen[OF 1 2 3 4 5, of 7] by blast
qed

theorem confirmations_never_decrease_witness:
  "\<exists>st1 w1 st2 w3. client_status_of_script sample_electrum 7 [1] \<lparr>ew_client = sample_client, ew_ext = 5\<rparr> = (Ok st1, w1) \<and>
     client_status_of_script sample_electrum 7 [1] w1 = (Ok st2, w3) \<and> confs st1 = 7 \<and> 7 \<le> confs st2"
proof -
  let ?w = "\<lparr>ew_client = sample_client, ew_ext = 5\<rparr>"
  have ok: "client_ok (\<lambda>_. sample_history) (\<lambda>_ _. True) ?w" by (simp add: client_ok_def hist_at_def sample_client_def)
  obtain w1 where w1: "client_status_of_script sample_electrum 7 [1] ?w = (Ok (Confirmed \<lparr>depth = 6\<rparr>), w1)"
    using sample_status[of ?w] by (auto simp: hist_at_def tip_of_def sample_client_def)
  have run: "client_run sample_electrum [] w1 = (Ok (), w1)" by simp
  obtain st2 w3 where w3: "client_status_of_script sample_electrum 7 [1] w1 = (Ok st2, w3)"
  proof -
    obtain h where h: "hist_at w1 [1] = Some h" by (rule status_OkD[OF w1])
    have "ew_ext w1 = 6 \<and> ec_last_sync (ew_client w1) = 5 \<and> ec_sync_interval (ew_client w1) = 60"
      using w1 by (auto simp: client_status_of_script_def watch_script_def bindio_def the_client_def set_client_def hist_at_def
        update_state_def read_clock_def update_latest_block_def context_io_def ext_call_def sample_electrum_def sample_client_def
        block_height_try_from_def update_script_histories_def Let_def split: if_splits)
    hence "\<exists>st2 w3. client_status_of_script sample_electrum 7 [1] w1 = (Ok st2, w3)"
      using h by (auto simp: client_status_of_script_def watch_script_def bindio_def the_client_def set_client_def hist_at_def
        update_state_def read_clock_def sample_electrum_def Let_def status_from_history_def split: list.splits)
    thus thesis using that by blast
  qed
  have "confs (Confirmed \<lparr>depth = 6\<rparr>) = 7" by (simp add: confs_def)
  thus ?thesis using confirmations_never_decrease[OF sample_honest ok w1 run w3] w1 w3 by fastforce
qed

end
