(* ===== verification/Bitcoin_Wallet.thy ===== *)
theory Bitcoin_Wallet
  imports Rates Bitcoin_Tx Swap_Env "HOL-Library.Sublist"
begin

text \<open>
  The operations of the Bitcoin wallet on its own funds, \<open>bitcoin/wallet.rs\<close>: fees, balances, payments
  and signatures. The trait \<open>EstimateFeeRate\<close> is the record \<open>fee_source\<close>, implemented for the Electrum
  client by \<open>client_fee_source\<close>; what \<open>bdk\<close> does with the wallet's database is the record \<open>bdk_wallet\<close>, one
  function per call on an external state \<open>'v\<close>.
\<close>

section \<open>Floating point numbers\<close>

text \<open>
  A \<open>f32\<close> or \<open>f64\<close>; a finite one is the rational number it stands for. \<open>as_f32\<close> is the cast from \<open>f64\<close>: the
  nearest number with 24 significant bits, ties to the even mantissa, and infinity beyond the range.
  The cast is only used on numbers above \<open>2\<^sup>-\<^sup>1\<^sup>2\<^sup>6\<close>, where no precision is lost to a small exponent.
\<close>

datatype float_value = Fin rat | PosInf | NegInf | NaN

fun float_le :: "float_value \<Rightarrow> float_value \<Rightarrow> bool" where
  "float_le (Fin x) (Fin y) = (x \<le> y)"
| "float_le NaN y = False"
| "float_le x NaN = False"
| "float_le NegInf y = True"
| "float_le x PosInf = True"
| "float_le x y = False"

fun float_less :: "float_value \<Rightarrow> float_value \<Rightarrow> bool" where
  "float_less (Fin x) (Fin y) = (x < y)"
| "float_less NaN y = False"
| "float_less x NaN = False"
| "float_less NegInf y = (y \<noteq> NegInf)"
| "float_less x PosInf = (x \<noteq> PosInf)"
| "float_less x y = False"

definition round_half_even :: "rat \<Rightarrow> int" where
  "round_half_even x = (let n = \<lfloor>x\<rfloor>; r = x - of_int n in
     if r < 1 / 2 \<or> (r = 1 / 2 \<and> even n) then n else n + 1)"

text \<open>\<open>\<lfloor>log\<^sub>2 x\<rfloor>\<close>, of an integer and of a positive rational number.\<close>

function int_log2 :: "int \<Rightarrow> nat" where
  "int_log2 n = (if n \<le> 1 then 0 else Suc (int_log2 (n div 2)))"
  by auto
termination by (relation "measure nat") auto

declare int_log2.simps [simp del]

definition binary_exponent :: "rat \<Rightarrow> int" where
  "binary_exponent x = (if 1 \<le> x then int (int_log2 \<lfloor>x\<rfloor>) else - int (Suc (int_log2 (\<lceil>1 / x\<rceil> - 1))))"

definition f32_ulp :: "rat \<Rightarrow> rat" where
  "f32_ulp x = (let e = binary_exponent x in if 23 \<le> e then 2 ^ nat (e - 23) else 1 / 2 ^ nat (23 - e))"

definition as_f32 :: "float_value \<Rightarrow> float_value" where
  "as_f32 f = (case f of Fin x \<Rightarrow>
       if x = 0 then Fin 0 else
       (let ulp = f32_ulp \<bar>x\<bar>;
            y = of_int (round_half_even (\<bar>x\<bar> / ulp)) * ulp in
        if 2 ^ 128 \<le> y then (if 0 < x then PosInf else NegInf) else Fin (sgn x * y))
     | _ \<Rightarrow> f)"

text \<open>The literals of the code, rounded to \<open>f64\<close> by the compiler.\<close>

definition F64_0_00001 :: float_value where "F64_0_00001 = Fin (5902958103587057 / 2 ^ 69)"
definition F64_0_000015 :: float_value where "F64_0_000015 = Fin (8854437155380585 / 2 ^ 69)"

section \<open>Decimals\<close>

text \<open>\<open>fd_lit m s\<close> is a literal of the macro \<open>dec!\<close> with \<open>s\<close> decimals.\<close>

record 'd fee_decimal = "'d decimal" +
  fd_lit :: "int \<Rightarrow> nat \<Rightarrow> 'd"
  fd_from_f32 :: "float_value \<Rightarrow> 'd option"
  fd_less :: "'d \<Rightarrow> 'd \<Rightarrow> bool"

definition MAX_RELATIVE_TX_FEE :: "'d fee_decimal \<Rightarrow> 'd" where "MAX_RELATIVE_TX_FEE F = fd_lit F 3 2"
definition MAX_ABSOLUTE_TX_FEE :: "'d fee_decimal \<Rightarrow> 'd" where "MAX_ABSOLUTE_TX_FEE F = fd_lit F 100000 0"
definition DUST_AMOUNT :: u64 where "DUST_AMOUNT = 546"

abbreviation fee_arith :: "'d fee_decimal \<Rightarrow> 'd decimal" where
  "fee_arith F \<equiv> decimal.truncate F"

section \<open>Fee rates\<close>

text \<open>\<open>FeeRate\<close> of \<open>bdk\<close>: how it is made and read is the record \<open>fee_rates\<close>.\<close>

typedecl fee_rate

record fee_rates =
  from_btc_per_kvb :: "float_value \<Rightarrow> fee_rate outcome"
  as_sat_per_vb :: "fee_rate \<Rightarrow> float_value"

text \<open>What the Electrum server says about fees; \<open>fe_display\<close> is the text of its errors.\<close>

record 'v fee_server =
  fe_estimate_fee :: "nat \<Rightarrow> 'v \<Rightarrow> float_value outcome \<times> 'v"
  fe_relay_fee :: "'v \<Rightarrow> float_value outcome \<times> 'v"
  fe_display :: "error \<Rightarrow> string"
  fe_amount_from_btc :: "float_value \<Rightarrow> btc_amount outcome"

record 'v fee_source =
  fs_estimate_feerate :: "nat \<Rightarrow> ('v, fee_rate) io"
  fs_min_relay_fee :: "('v, btc_amount) io"

definition client_estimate_feerate :: "fee_rates \<Rightarrow> 'v fee_server \<Rightarrow> nat \<Rightarrow> ('v, fee_rate) io" where
  "client_estimate_feerate R S target_block =
     bindio (bindio (attempt (fe_estimate_fee S target_block)) (\<lambda>r. case r of
       Inr fee \<Rightarrow> ret fee
     | Inl e \<Rightarrow>
         let error_msg = fe_display S e in
         if sublist ''cannot estimate fee'' error_msg \<or> sublist ''not enough data'' error_msg
         then bindio (attempt (fe_estimate_fee S 10)) (\<lambda>r. case r of
             Inr fee \<Rightarrow> ret fee
           | Inl _ \<Rightarrow> bindio (attempt (fe_relay_fee S)) (\<lambda>r. case r of Inr fee \<Rightarrow> ret fee | Inl _ \<Rightarrow> ret F64_0_00001))
         else lift (Err e))) (\<lambda>fee_per_byte.
     let fee_per_byte = (if float_le fee_per_byte F64_0_000015 then F64_0_000015 else fee_per_byte) in
     lift (from_btc_per_kvb R (as_f32 fee_per_byte)))"

definition client_min_relay_fee :: "'v fee_server \<Rightarrow> ('v, btc_amount) io" where
  "client_min_relay_fee S = bindio (fe_relay_fee S) (\<lambda>fee. lift (fe_amount_from_btc S fee))"

definition client_fee_source :: "fee_rates \<Rightarrow> 'v fee_server \<Rightarrow> 'v fee_source" where
  "client_fee_source R S = \<lparr>fs_estimate_feerate = client_estimate_feerate R S, fs_min_relay_fee = client_min_relay_fee S\<rparr>"

definition estimate_fee :: "'d fee_decimal \<Rightarrow> fee_rates \<Rightarrow> nat \<Rightarrow> btc_amount \<Rightarrow> fee_rate \<Rightarrow> btc_amount \<Rightarrow> btc_amount outcome" where
  "estimate_fee F R weight transfer_amount fee_rate min_relay_fee =
     (if transfer_amount \<le> 546 then Err (Msg ''Amounts needs to be greater than Bitcoin dust amount.'')
      else
      let fee_rate_svb = as_sat_per_vb R fee_rate in
      if float_le fee_rate_svb (Fin 0) then Err (Msg ''Fee rate needs to be > 0'')
      else if float_less (Fin 100000000) fee_rate_svb \<or> 100000000 < min_relay_fee
      then Err (Msg ''A fee_rate or min_relay_fee of > 1BTC does not make sense'')
      else
      let min_relay_fee = (if min_relay_fee = 0 then 1 else min_relay_fee);
          D = fee_arith F;
          weight = dec_from_u64 D (of_nat weight);
          weight_factor = fd_lit F 40 1 in
      obind (of_option (Msg ''Failed to parse fee rate'') (fd_from_f32 F fee_rate_svb)) (\<lambda>fee_rate.
      obind (dec_mul D (dec_div D weight weight_factor) fee_rate) (\<lambda>sats_per_vbyte.
      obind (dec_mul D (dec_from_u64 D transfer_amount) (MAX_RELATIVE_TX_FEE F)) (\<lambda>max_allowed_fee.
      let min_relay_fee = dec_from_u64 D min_relay_fee;
          recommended_fee =
            (if fd_less F sats_per_vbyte min_relay_fee then dec_to_u64 D min_relay_fee
             else if fd_less F max_allowed_fee sats_per_vbyte \<and> fd_less F (MAX_ABSOLUTE_TX_FEE F) sats_per_vbyte
             then dec_to_u64 D (MAX_ABSOLUTE_TX_FEE F)
             else if fd_less F max_allowed_fee sats_per_vbyte then dec_to_u64 D max_allowed_fee
             else dec_to_u64 D sats_per_vbyte) in
      of_option (Msg ''Could not estimate tranasction fee.'') recommended_fee))))"

section \<open>The wallet\<close>

record psbt_output =
  po_bip32_derivation :: "(bitcoin_pubkey \<times> nat) list"
  po_rest :: nat

record wallet_psbt = psbt +
  psbt_outputs :: "psbt_output list"

datatype build_error = NotEnoughFunds | OtherBuildError error

text \<open>
  \<open>build_tx\<close> with a recipient, or draining the whole wallet to one script, up to \<open>finish\<close>: the PSBT,
  respectively what is sent and the fee. \<open>bd_sign\<close> returns the PSBT it has signed and whether it is final.
\<close>

record 'v bdk_wallet =
  bd_sign :: "wallet_psbt \<Rightarrow> 'v \<Rightarrow> (wallet_psbt \<times> bool) outcome \<times> 'v"
  bd_balance_total :: "'v \<Rightarrow> u64 outcome \<times> 'v"
  bd_new_address :: "'v \<Rightarrow> address outcome \<times> 'v"
  bd_list_transactions :: "'v \<Rightarrow> (txid \<times> u64 option) list outcome \<times> 'v"
  bd_pay :: "script \<Rightarrow> u64 \<Rightarrow> fee_rate \<Rightarrow> 'v \<Rightarrow> wallet_psbt outcome \<times> 'v"
  bd_drain :: "script \<Rightarrow> fee_rate \<Rightarrow> 'v \<Rightarrow> (build_error + (u64 \<times> u64 option)) \<times> 'v"
  bd_sync :: "'v \<Rightarrow> unit outcome \<times> 'v"

record btc_wallet =
  wl_finality_confirmations :: u32
  wl_network :: network
  wl_target_block :: nat

definition sign_and_finalize :: "lib \<Rightarrow> 'v bdk_wallet \<Rightarrow> wallet_psbt \<Rightarrow> ('v, transaction) io" where
  "sign_and_finalize L W p =
     bindio (bd_sign W p) (\<lambda>(p, finalized).
     if \<not> finalized then lift (Err (Msg ''PSBT is not finalized''))
     else ret (psbt_extract_tx L (psbt.truncate p)))"

definition wallet_balance :: "'v bdk_wallet \<Rightarrow> ('v, btc_amount) io" where
  "wallet_balance W = context_io ''Failed to calculate Bitcoin balance'' (bd_balance_total W)"

definition wallet_new_address :: "'v bdk_wallet \<Rightarrow> ('v, address) io" where
  "wallet_new_address W = context_io ''Failed to get new Bitcoin address'' (bd_new_address W)"

definition transaction_fee :: "'v bdk_wallet \<Rightarrow> txid \<Rightarrow> ('v, btc_amount) io" where
  "transaction_fee W txid =
     bindio (bd_list_transactions W) (\<lambda>txs.
     bindio (lift (of_option (Msg ''Could not find tx in bdk wallet when trying to determine fees'')
       (find (\<lambda>tx. fst tx = txid) txs))) (\<lambda>tx.
     lift (expect_some ''fees are always present with Electrum backend'' (snd tx))))"

text \<open>The recipient's output goes first; \<open>reverse\<close> is applied to both vectors.\<close>

definition order_outputs :: "script \<Rightarrow> wallet_psbt \<Rightarrow> wallet_psbt outcome" where
  "order_outputs script p =
     (case tx_output (unsigned_tx p) of
        [first_txout, second_txout] \<Rightarrow>
          if txo_script second_txout = script
          then Ok (p\<lparr>psbt_outputs := rev (psbt_outputs p),
                     unsigned_tx := (unsigned_tx p)\<lparr>tx_output := [second_txout, first_txout]\<rparr>\<rparr>)
          else if txo_script first_txout = script then Ok p
          else Err (Msg ''Unexpected transaction layout'')
      | [_] \<Rightarrow> Ok p
      | _ \<Rightarrow> Err (Msg ''Unexpected transaction layout''))"

definition override_change :: "lib \<Rightarrow> address option \<Rightarrow> wallet_psbt \<Rightarrow> wallet_psbt" where
  "override_change L change_override p =
     (case (tx_output (unsigned_tx p), psbt_outputs p, change_override) of
        ([o1, change], [q1, psbt_output], Some change_override) \<Rightarrow>
          p\<lparr>unsigned_tx := (unsigned_tx p)\<lparr>tx_output := [o1, change\<lparr>txo_script := address_script L change_override\<rparr>]\<rparr>,
            psbt_outputs := [q1, psbt_output\<lparr>po_bip32_derivation := []\<rparr>]\<rparr>
      | _ \<Rightarrow> p)"

definition send_to_address ::
  "lib \<Rightarrow> btc_wallet \<Rightarrow> 'v bdk_wallet \<Rightarrow> 'v fee_source \<Rightarrow> address \<Rightarrow> u64 \<Rightarrow> address option \<Rightarrow> ('v, wallet_psbt) io" where
  "send_to_address L w W C address amount change_override =
     (if wl_network w \<noteq> addr_network address then
        lift (Err (Msg ''Cannot build PSBT because network of given address differs from the wallet's''))
      else if (case change_override of Some change \<Rightarrow> wl_network w \<noteq> addr_network change | None \<Rightarrow> False) then
        lift (Err (Msg ''Cannot build PSBT because network of given address differs from the wallet's''))
      else
        bindio (fs_estimate_feerate C (wl_target_block w)) (\<lambda>fee_rate.
        let script = address_script L address in
        bindio (bd_pay W script amount fee_rate) (\<lambda>p.
        bindio (lift (order_outputs script p)) (\<lambda>p.
        ret (override_change L change_override p)))))"

text \<open>As \<open>TxLock::new\<close> calls it; the protocol does not read the fields of \<open>psbt_outputs\<close>.\<close>

definition wallet_send ::
  "lib \<Rightarrow> btc_wallet \<Rightarrow> 'v bdk_wallet \<Rightarrow> 'v fee_source \<Rightarrow> address \<Rightarrow> u64 \<Rightarrow> address option \<Rightarrow> ('v, psbt) io" where
  "wallet_send L w W C address amount change_override =
     bindio (send_to_address L w W C address amount change_override) (\<lambda>p. ret (psbt.truncate p))"

definition max_giveable :: "btc_wallet \<Rightarrow> 'v bdk_wallet \<Rightarrow> 'v fee_source \<Rightarrow> nat \<Rightarrow> ('v, btc_amount) io" where
  "max_giveable w W C locking_script_size =
     bindio (bd_balance_total W) (\<lambda>total.
     if total < DUST_AMOUNT then ret 0
     else
       bindio (fs_min_relay_fee C) (\<lambda>min_relay_fee.
       if total < min_relay_fee then ret 0
       else
         bindio (fs_estimate_feerate C (wl_target_block w)) (\<lambda>fee_rate.
         let dummy_script = replicate locking_script_size 0 in
         bindio (\<lambda>v. case bd_drain W dummy_script fee_rate v of (r, v) \<Rightarrow> (Ok r, v)) (\<lambda>response.
         case response of
           Inr (sent, fee) \<Rightarrow>
             bindio (lift (expect_some ''fees are always present with Electrum backend'' fee)) (\<lambda>fee. ret (sent - fee))
         | Inl NotEnoughFunds \<Rightarrow> ret 0
         | Inl (OtherBuildError e) \<Rightarrow> lift (Err (Context ''Failed to build transaction.'' e))))))"

definition wallet_estimate_fee ::
  "'d fee_decimal \<Rightarrow> fee_rates \<Rightarrow> btc_wallet \<Rightarrow> 'v fee_source \<Rightarrow> nat \<Rightarrow> btc_amount \<Rightarrow> ('v, btc_amount) io" where
  "wallet_estimate_fee F R w C weight transfer_amount =
     bindio (fs_estimate_feerate C (wl_target_block w)) (\<lambda>fee_rate.
     bindio (fs_min_relay_fee C) (\<lambda>min_relay_fee.
     lift (estimate_fee F R weight transfer_amount fee_rate min_relay_fee)))"

definition wallet_sync :: "'v bdk_wallet \<Rightarrow> ('v, unit) io" where
  "wallet_sync W = context_io ''Failed to sync balance of Bitcoin wallet'' (bd_sync W)"

end
