(* ===== verification/Bitcoin_Wallet_Properties.thy ===== *)
theory Bitcoin_Wallet_Properties
  imports Bitcoin_Wallet Quote_Properties Setup Sample_Library "HOL-Library.Countable"
begin

text \<open>
  Fees and payments of the Bitcoin wallet: the accuracy of the cast to \<open>f32\<close>, the bounds of an estimated
  fee and where the relative bound does not hold, and that the PSBT of Bob's wallet is the lock
  transaction that Alice accepts.
\<close>

section \<open>The cast to single precision\<close>

lemma int_log2_bounds: "1 \<le> n \<Longrightarrow> 2 ^ int_log2 n \<le> n \<and> n < 2 ^ Suc (int_log2 n)"
proof (induction n rule: int_log2.induct)
  case (1 n)
  show ?case
  proof (cases "n \<le> 1")
    case False
    hence "2 ^ int_log2 (n div 2) \<le> n div 2 \<and> n div 2 < 2 ^ Suc (int_log2 (n div 2))" using "1.IH" by simp
    moreover have "int_log2 n = Suc (int_log2 (n div 2))" using False by (subst int_log2.simps) simp
    ultimately show ?thesis by (simp add: pos_zmod_mult_2) linarith
  next
    case True
    hence "n = 1" using "1.prems" by simp
    thus ?thesis by (simp add: int_log2.simps[of 1])
  qed
qed

lemma binary_exponent_bounds:
  assumes "0 < x"
  shows "2 powi binary_exponent x \<le> x" "x < 2 powi (binary_exponent x + 1)"
proof -
  have "2 powi binary_exponent x \<le> x \<and> x < 2 powi (binary_exponent x + 1)"
  proof (cases "1 \<le> x")
    case True
    let ?k = "int_log2 \<lfloor>x\<rfloor>"
    have b: "2 ^ ?k \<le> \<lfloor>x\<rfloor>" "\<lfloor>x\<rfloor> < 2 ^ Suc ?k" using int_log2_bounds[of "\<lfloor>x\<rfloor>"] True by simp_all
    have "(of_int (2 ^ ?k) :: rat) \<le> x" using b(1) by (simp only: le_floor_iff)
    moreover have "x < of_int (2 ^ Suc ?k)" using b(2) by (simp only: floor_less_iff)
    ultimately show ?thesis using True
      by (simp add: binary_exponent_def power_int_add)
  next
    case False
    let ?y = "1 / x" and ?k = "int_log2 (\<lceil>1 / x\<rceil> - 1)"
    have y: "1 < ?y" using False assms by simp
    have c: "1 \<le> \<lceil>?y\<rceil> - 1" using y by (simp add: le_ceiling_iff)
    have b: "2 ^ ?k \<le> \<lceil>?y\<rceil> - 1" "\<lceil>?y\<rceil> - 1 < 2 ^ Suc ?k" using int_log2_bounds[OF c] by simp_all
    have "(of_int (2 ^ ?k) :: rat) < ?y" 
    proof -
      have "2 ^ ?k < \<lceil>?y\<rceil>" using b(1) by simp
      thus ?thesis by (simp only: less_ceiling_iff)
    qed
    moreover have "?y \<le> of_int (2 ^ Suc ?k)"
    proof -
      have "\<lceil>?y\<rceil> \<le> 2 ^ Suc ?k" using b(2) by linarith
      thus ?thesis by (simp only: ceiling_le_iff)
    qed
    ultimately have "x < 1 / 2 ^ ?k" "1 / 2 ^ Suc ?k \<le> x" using assms by (simp_all add: field_simps)
    moreover have "binary_exponent x = - int (Suc ?k)" "binary_exponent x + 1 = - int ?k"
      using False by (simp_all add: binary_exponent_def)
    ultimately show ?thesis by (simp only: power_int_minus power_int_of_nat inverse_eq_divide)
  qed
  thus "2 powi binary_exponent x \<le> x" "x < 2 powi (binary_exponent x + 1)" by simp_all
qed

lemma round_half_even_close: "\<bar>of_int (round_half_even x) - x\<bar> \<le> 1 / 2"
proof -
  have "of_int \<lfloor>x\<rfloor> \<le> x" "x < of_int \<lfloor>x\<rfloor> + 1" by linarith+
  thus ?thesis unfolding round_half_even_def Let_def by (cases "even \<lfloor>x\<rfloor>") (auto simp: abs_le_iff)
qed

text \<open>The cast is exact up to a relative error of \<open>2\<^sup>-\<^sup>2\<^sup>4\<close>.\<close>

lemma as_f32_close:
  assumes "0 < x" "as_f32 (Fin x) = Fin y"
  shows "\<bar>y - x\<bar> \<le> x / 2 ^ 24"
proof -
  let ?e = "binary_exponent x"
  define ulp where "ulp = f32_ulp x"
  have ulp: "ulp = 2 powi (?e - 23)" by (simp add: ulp_def f32_ulp_def Let_def power_int_def inverse_eq_divide power_one_over)
  have pos: "0 < ulp" by (simp add: ulp)
  have "as_f32 (Fin x) = (if 2 ^ 128 \<le> of_int (round_half_even (x / ulp)) * ulp then PosInf
      else Fin (of_int (round_half_even (x / ulp)) * ulp))"
    using assms(1) by (simp add: as_f32_def Let_def ulp_def)
  hence y: "y = of_int (round_half_even (x / ulp)) * ulp" using assms(2) by (simp split: if_splits)
  have "\<bar>y - x\<bar> = \<bar>of_int (round_half_even (x / ulp)) - x / ulp\<bar> * ulp"
  proof -
    have "of_int (round_half_even (x / ulp)) * ulp - x = (of_int (round_half_even (x / ulp)) - x / ulp) * ulp"
      using pos by (simp add: left_diff_distrib)
    thus ?thesis using pos by (simp add: y abs_mult)
  qed
  also have "\<dots> \<le> 1 / 2 * ulp" using round_half_even_close[of "x / ulp"] pos by (intro mult_right_mono) simp_all
  also have "\<dots> = 2 powi ?e / 2 ^ 24" by (simp add: ulp power_int_diff)
  also have "\<dots> \<le> x / 2 ^ 24" using binary_exponent_bounds(1)[OF assms(1)] by (simp add: divide_right_mono)
  finally show ?thesis .
qed

section \<open>Fees\<close>

text \<open>
  The decimals of the fee estimation: literals and comparisons are those of the values, the products and
  quotients that fit into 28 digits are exact, \<open>from_f32\<close> keeps the sign and fails outside the finite numbers.
\<close>

definition fee_laws :: "'d fee_decimal \<Rightarrow> ('d \<Rightarrow> rat) \<Rightarrow> bool" where
  "fee_laws F v \<longleftrightarrow> decimal_laws (fee_arith F) v \<and>
     (\<forall>m s. v (fd_lit F m s) = of_int m / 10 ^ s) \<and>
     (\<forall>a b. fd_less F a b \<longleftrightarrow> v a < v b) \<and>
     (\<forall>n. v (dec_div (fee_arith F) (dec_from_u64 (fee_arith F) n) (fd_lit F 40 1)) = of_nat (unat n) / 4) \<and>
     (\<forall>n p. dec_mul (fee_arith F) (dec_from_u64 (fee_arith F) n) (fd_lit F 3 2) = Ok p \<longrightarrow> v p = 3 * of_nat (unat n) / 100) \<and>
     (\<forall>x d. fd_from_f32 F x = Some d \<longrightarrow> (\<exists>r. x = Fin r \<and> (0 \<le> r \<longrightarrow> 0 \<le> v d)))"

lemma fee_lawsD:
  assumes "fee_laws F v"
  shows "v (dec_from_u64 (fee_arith F) n) = of_nat (unat n)"
    "v (fd_lit F m s) = of_int m / 10 ^ s" "fd_less F a b \<longleftrightarrow> v a < v b"
    "v (dec_div (fee_arith F) (dec_from_u64 (fee_arith F) n) (fd_lit F 40 1)) = of_nat (unat n) / 4"
    "dec_mul (fee_arith F) (dec_from_u64 (fee_arith F) n) (fd_lit F 3 2) = Ok p \<Longrightarrow> v p = 3 * of_nat (unat n) / 100"
    "fd_from_f32 F x = Some d \<Longrightarrow> \<exists>r. x = Fin r \<and> (0 \<le> r \<longrightarrow> 0 \<le> v d)"
    "0 \<le> v a \<Longrightarrow> 0 \<le> v b \<Longrightarrow> dec_mul (fee_arith F) a b = Ok p \<Longrightarrow> 0 \<le> v p \<and> rounded (v a * v b) (v p)"
    "0 \<le> v a \<Longrightarrow> dec_to_u64 (fee_arith F) a = Some k \<Longrightarrow> of_nat (unat k) \<le> v a \<and> v a < of_nat (unat k) + 1"
proof -
  note l = assms[unfolded fee_laws_def]
  note dl = l[THEN conjunct1, unfolded decimal_laws_def]
  show "v (dec_from_u64 (fee_arith F) n) = of_nat (unat n)" by (rule dl[THEN conjunct1, rule_format])
  show "v (fd_lit F m s) = of_int m / 10 ^ s" by (rule l[THEN conjunct2, THEN conjunct1, rule_format])
  show "fd_less F a b \<longleftrightarrow> v a < v b" by (rule l[THEN conjunct2, THEN conjunct2, THEN conjunct1, rule_format])
  note l2 = l[THEN conjunct2, THEN conjunct2, THEN conjunct2]
  show "v (dec_div (fee_arith F) (dec_from_u64 (fee_arith F) n) (fd_lit F 40 1)) = of_nat (unat n) / 4"
    by (rule l2[THEN conjunct1, rule_format])
  show "dec_mul (fee_arith F) (dec_from_u64 (fee_arith F) n) (fd_lit F 3 2) = Ok p \<Longrightarrow> v p = 3 * of_nat (unat n) / 100"
    by (rule l2[THEN conjunct2, THEN conjunct1, rule_format])
  show "fd_from_f32 F x = Some d \<Longrightarrow> \<exists>r. x = Fin r \<and> (0 \<le> r \<longrightarrow> 0 \<le> v d)"
    by (rule l2[THEN conjunct2, THEN conjunct2, THEN spec, THEN spec, THEN mp])
  note dl2 = dl[THEN conjunct2, THEN conjunct2, THEN conjunct2, THEN conjunct2]
  show "0 \<le> v a \<Longrightarrow> 0 \<le> v b \<Longrightarrow> dec_mul (fee_arith F) a b = Ok p \<Longrightarrow> 0 \<le> v p \<and> rounded (v a * v b) (v p)"
    by (rule dl2[THEN conjunct1, rule_format])
  show "0 \<le> v a \<Longrightarrow> dec_to_u64 (fee_arith F) a = Some k \<Longrightarrow> of_nat (unat k) \<le> v a \<and> v a < of_nat (unat k) + 1"
    by (rule dl2[THEN conjunct2, THEN conjunct2, rule_format])
qed

lemma fee_to_u64:
  assumes "fee_laws F v" "0 \<le> v a" "dec_to_u64 (fee_arith F) a = Some k"
  shows "unat k = nat \<lfloor>v a\<rfloor>"
proof -
  have "\<lfloor>v a\<rfloor> = int (unat k)" using fee_lawsD(8)[OF assms] by (intro floor_unique) (simp_all del: of_nat_unat)
  thus ?thesis by simp
qed

text \<open>The fee is a function of the rounded product \<open>s\<close> of the size in virtual bytes and the rate.\<close>

definition bounded_fee :: "rat \<Rightarrow> nat \<Rightarrow> nat \<Rightarrow> nat" where
  "bounded_fee s amount relay =
     (if s < of_nat relay then relay
      else if 3 * of_nat amount / 100 < s then (if 100000 < s then 100000 else 3 * amount div 100)
      else nat \<lfloor>s\<rfloor>)"

lemma estimate_fee_value:
  assumes F: "fee_laws F v" and ok: "estimate_fee F R weight amount rate relay = Ok fee"
  obtains d s where "fd_from_f32 F (as_sat_per_vb R rate) = Some d" "0 \<le> v d" "546 < amount"
    "rounded (of_nat (unat (of_nat weight :: u64)) / 4 * v d) s" "0 \<le> s"
    "unat fee = bounded_fee s (unat amount) (unat (max 1 relay))"
proof -
  let ?D = "fee_arith F"
  let ?vb = "dec_div ?D (dec_from_u64 ?D (of_nat weight)) (fd_lit F 40 1)"
  let ?relay = "dec_from_u64 ?D (if relay = 0 then 1 else relay)"
  have not_zero: "\<not> float_le (as_sat_per_vb R rate) (Fin 0)"
    using ok by (auto simp: estimate_fee_def Let_def split: if_splits)
  obtain d s m where d: "fd_from_f32 F (as_sat_per_vb R rate) = Some d" and s: "dec_mul ?D ?vb d = Ok s"
    and m: "dec_mul ?D (dec_from_u64 ?D amount) (fd_lit F 3 2) = Ok m"
    and fee: "(if fd_less F s ?relay then dec_to_u64 ?D ?relay
       else if fd_less F m s \<and> fd_less F (fd_lit F 100000 0) s then dec_to_u64 ?D (fd_lit F 100000 0)
       else if fd_less F m s then dec_to_u64 ?D m else dec_to_u64 ?D s) = Some fee" and big: "546 < amount"
    using ok by (auto simp: estimate_fee_def Let_def outcome_rules MAX_RELATIVE_TX_FEE_def MAX_ABSOLUTE_TX_FEE_def
        not_le split: if_splits)
  have vd: "0 \<le> v d" using fee_lawsD(6)[OF F d] not_zero by (auto simp: not_le)
  have vb: "v ?vb = of_nat (unat (of_nat weight :: u64)) / 4" by (rule fee_lawsD(4)[OF F])
  hence "0 \<le> v ?vb" by (simp del: of_nat_unat)
  from fee_lawsD(7)[OF F this vd s]
  have vs: "0 \<le> v s" "rounded (of_nat (unat (of_nat weight :: u64)) / 4 * v d) (v s)" unfolding vb by blast+
  have vm: "v m = 3 * of_nat (unat amount) / 100" by (rule fee_lawsD(5)[OF F m])
  have rel: "v ?relay = of_nat (unat (max 1 relay))"
  proof -
    have "(if relay = 0 then 1 else relay) = max 1 relay" by (cases "relay = 0") (auto simp: max_def word_le_nat_alt not_le unat_eq_zero)
    thus ?thesis by (simp only: fee_lawsD(1)[OF F])
  qed
  have abs: "v (fd_lit F 100000 0) = 100000" using fee_lawsD(2)[OF F] by simp
  note u = fee_to_u64[OF F]
  have "unat fee = bounded_fee (v s) (unat amount) (unat (max 1 relay))"
  proof -
    have fl: "nat \<lfloor>3 * (of_nat (unat amount) :: rat) / 100\<rfloor> = 3 * unat amount div 100"
      using floor_divide_of_nat_eq[of "3 * unat amount" 100, where ?'a = rat] by (simp del: of_nat_unat)
    show ?thesis
      using fee fee_lawsD(3)[OF F] u[of ?relay fee] u[of m fee] u[of s fee] u[of "fd_lit F 100000 0" fee] vs(1)
      by (simp add: bounded_fee_def rel vm abs fl del: of_nat_unat split: if_splits)
  qed
  thus thesis using that[OF d vd big vs(2,1)] by blast
qed

lemma rounded_above: "rounded e x \<Longrightarrow> 0 \<le> e \<Longrightarrow> e - e / 10 ^ 27 - 1 / 10 ^ 28 \<le> x"
  unfolding rounded_def by linarith

text \<open>
  C33: an estimated fee is at least one satoshi; it exceeds both 100000 satoshi and three percent of the
  amount only when it is the relay fee, and is below the relay fee only when one of these bounds cut it.
\<close>

theorem estimated_fee_bounds:
  assumes "fee_laws F v" "estimate_fee F R weight amount rate relay = Ok fee"
  shows "1 \<le> fee \<and> (fee = max 1 relay \<or> unat fee \<le> max 100000 (3 * unat amount div 100)) \<and>
    (max 1 relay \<le> fee \<or> fee = 100000 \<or> unat fee = 3 * unat amount div 100)"
proof -
  obtain d s where big: "546 < amount" and s: "0 \<le> s"
    and fee: "unat fee = bounded_fee s (unat amount) (unat (max 1 relay))"
    by (rule estimate_fee_value[OF assms])
  have amount: "547 \<le> unat amount" using big by (simp add: word_less_nat_alt)
  have relay: "1 \<le> unat (max 1 relay)" by (auto simp: max_def word_le_nat_alt)
  have floor: "unat (max 1 relay) \<le> nat \<lfloor>s\<rfloor>" if "\<not> s < of_nat (unat (max 1 relay))"
    using that s by (simp add: le_nat_iff le_floor_iff del: of_nat_unat)
  have small: "nat \<lfloor>s\<rfloor> \<le> 3 * unat amount div 100" if "\<not> 3 * of_nat (unat amount) / 100 < s"
  proof -
    have "\<lfloor>s\<rfloor> \<le> \<lfloor>of_nat (3 * unat amount) / (of_nat 100 :: rat)\<rfloor>" using that by (intro floor_mono) (simp del: of_nat_unat)
    thus ?thesis unfolding floor_divide_of_nat_eq by simp
  qed
  consider "unat fee = unat (max 1 relay)" | "unat fee = 100000" | "unat fee = 3 * unat amount div 100"
    | "unat fee = nat \<lfloor>s\<rfloor>" "unat (max 1 relay) \<le> nat \<lfloor>s\<rfloor>" "nat \<lfloor>s\<rfloor> \<le> 3 * unat amount div 100"
    using fee floor small unfolding bounded_fee_def by (auto split: if_splits)
  thus ?thesis
  proof cases
    case 1
    hence "fee = max 1 relay" by (rule word_unat_eq_iff[THEN iffD2])
    thus ?thesis using relay by (simp add: word_le_nat_alt)
  next
    case 2
    hence "fee = 100000" by (intro word_unat_eq_iff[THEN iffD2]) simp
    thus ?thesis by (simp add: word_le_nat_alt)
  qed (use amount relay in \<open>auto simp: word_le_nat_alt\<close>)
qed

text \<open>
  when the fee at the rate comes out above 100000 satoshi and the relay fee is below that, the fee is
  100000 satoshi for every amount up to 0.03 bitcoin, which is more than three percent of it.
\<close>

theorem fee_above_relative_bound:
  assumes "fee_laws F v" "estimate_fee F R weight amount rate relay = Ok fee"
    and "fd_from_f32 F (as_sat_per_vb R rate) = Some d" "weight < 2 ^ 64" "400004 < of_nat weight * v d"
    and "relay \<le> 100000" "amount \<le> 3333333"
  shows "fee = 100000 \<and> 3 * unat amount < 100 * unat fee"
proof -
  obtain d' s where d': "fd_from_f32 F (as_sat_per_vb R rate) = Some d'"
    and s: "rounded (of_nat (unat (of_nat weight :: u64)) / 4 * v d') s"
    and fee: "unat fee = bounded_fee s (unat amount) (unat (max 1 relay))"
    by (rule estimate_fee_value[OF assms(1,2)])
  have "unat (of_nat weight :: u64) = weight" using assms(4) by (simp add: unat_of_nat)
  hence r: "rounded (of_nat weight / 4 * v d) s" using s d' assms(3) by (simp del: of_nat_unat)
  have "100000 < s" using rounded_above[OF r] assms(5) by simp
  moreover have "(of_nat (unat (max 1 relay)) :: rat) \<le> 100000"
  proof -
    have "unat (max 1 relay) \<le> 100000" using assms(6) by (auto simp: max_def word_le_nat_alt)
    thus ?thesis by (simp del: of_nat_unat)
  qed
  moreover have a: "unat amount \<le> 3333333" using assms(7) by (simp add: word_le_nat_alt)
  moreover have "(of_nat (unat amount) :: rat) \<le> 3333333" using a by (simp del: of_nat_unat)
  ultimately have "unat fee = 100000" unfolding fee bounded_fee_def by (simp del: of_nat_unat)
  moreover from this have "fee = 100000" by (intro word_unat_eq_iff[THEN iffD2]) simp
  ultimately show ?thesis using a by simp
qed

section \<open>The lock transaction of Bob's wallet\<close>

text \<open>
  What the transaction builder of \<open>bdk\<close> promises: the recipient's output and at most one output for the
  change, in either order, the change going to a script of its own.
\<close>

definition pays_recipient :: "'v bdk_wallet \<Rightarrow> bool" where
  "pays_recipient W \<longleftrightarrow> (\<forall>script amount rate v p v'. bd_pay W script amount rate v = (Ok p, v') \<longrightarrow>
     (\<exists>c. txo_script c \<noteq> script \<and>
       tx_output (unsigned_tx p) \<in> {[\<lparr>txo_value = amount, txo_script = script\<rparr>],
         [\<lparr>txo_value = amount, txo_script = script\<rparr>, c], [c, \<lparr>txo_value = amount, txo_script = script\<rparr>]} \<and>
       length (psbt_outputs p) = length (tx_output (unsigned_tx p))))"

text \<open>The address of a descriptor pays to its script, on the network it was made for.\<close>

definition address_law :: "lib \<Rightarrow> bool" where
  "address_law L \<longleftrightarrow> (\<forall>d n a. desc_address L d n = Ok a \<longrightarrow> address_script L a = desc_script_pubkey L d \<and> addr_network a = n)"

lemma order_outputs_first:
  assumes "txo_script c \<noteq> txo_script r" "tx_output (unsigned_tx p) \<in> {[r], [r, c], [c, r]}"
    and "length (psbt_outputs p) = length (tx_output (unsigned_tx p))" "order_outputs (txo_script r) p = Ok q"
  shows "tx_output (unsigned_tx q) \<in> {[r], [r, c]} \<and> length (psbt_outputs q) = length (tx_output (unsigned_tx q))"
  using assms by (auto simp: order_outputs_def)

lemma override_change_outputs:
  assumes "tx_output (unsigned_tx q) \<in> {[r], [r, c]}" "length (psbt_outputs q) = length (tx_output (unsigned_tx q))"
  shows "\<exists>change. tx_output (unsigned_tx (override_change L (Some a) q)) = r # change \<and> length change \<le> 1 \<and>
    (\<forall>out\<in>set change. txo_script out = address_script L a)"
proof (cases "tx_output (unsigned_tx q) = [r]")
  case False
  hence q: "tx_output (unsigned_tx q) = [r, c]" using assms(1) by simp
  then obtain x y where "psbt_outputs q = [x, y]" using assms(2) by (auto simp: length_Suc_conv)
  thus ?thesis using q by (simp add: override_change_def)
qed (simp add: override_change_def)

lemma send_to_address_outputs:
  assumes "pays_recipient W" "send_to_address L w W C a amount (Some change) v = (Ok p, v')"
  shows "\<exists>rest. tx_output (unsigned_tx p) = \<lparr>txo_value = amount, txo_script = address_script L a\<rparr> # rest \<and>
    length rest \<le> 1 \<and> (\<forall>out\<in>set rest. txo_script out = address_script L change)"
proof -
  let ?r = "\<lparr>txo_value = amount, txo_script = address_script L a\<rparr>"
  obtain rate v1 p1 q where p1: "bd_pay W (address_script L a) amount rate v1 = (Ok p1, v')"
    and q: "order_outputs (address_script L a) p1 = Ok q" and p: "p = override_change L (Some change) q"
    using assms(2) by (auto simp: send_to_address_def Let_def bindio_eq_Ok split: if_splits)
  obtain c where c: "txo_script c \<noteq> address_script L a" "tx_output (unsigned_tx p1) \<in> {[?r], [?r, c], [c, ?r]}"
    "length (psbt_outputs p1) = length (tx_output (unsigned_tx p1))"
    using assms(1) p1 unfolding pays_recipient_def by blast
  have "tx_output (unsigned_tx q) \<in> {[?r], [?r, c]}" "length (psbt_outputs q) = length (tx_output (unsigned_tx q))"
    using order_outputs_first[of c ?r p1 q] c q by simp_all
  from override_change_outputs[OF this] show ?thesis unfolding p .
qed

text \<open>
  C32: the PSBT that Bob's wallet builds for the lock has the agreed amount on the shared output at index 0
  and at most one other output, to his change address, and Alice's check accepts it as the same lock.
\<close>

theorem wallet_lock_is_accepted:
  assumes "pays_recipient W" "address_law L" "psbt_laws L"
    and "tx_lock_new L (wl_network w) (wallet_send L w W C) amount A B change v = (Ok lock, v')"
  shows "tx_lock_from_psbt L (tl_inner lock) A B amount = Ok lock \<and> tx_lock_output_vout L lock = Ok 0 \<and>
    tx_lock_amount L lock = Ok amount \<and>
    (\<exists>rest. tx_output (unsigned_tx (tl_inner lock)) = \<lparr>txo_value = amount, txo_script = tx_lock_script_pubkey L lock\<rparr> # rest \<and>
       length rest \<le> 1 \<and> (\<forall>out\<in>set rest. txo_script out = address_script L change))"
proof -
  obtain d a p where d: "build_shared_output_descriptor L (pk_point A) (pk_point B) = Ok d"
    and a: "desc_address L d (wl_network w) = Ok a" and lock: "lock = \<lparr>tl_inner = psbt.truncate p, tl_descriptor = d\<rparr>"
    and p: "\<exists>v1 v2. send_to_address L w W C a amount (Some change) v1 = (Ok p, v2)"
    using assms(4) by (auto simp: tx_lock_new_def wallet_send_def bindio_eq_Ok expect_ok_eq_Ok) blast
  have script: "address_script L a = desc_script_pubkey L d" using assms(2) a unfolding address_law_def by blast
  obtain rest where rest: "tx_output (unsigned_tx p) = \<lparr>txo_value = amount, txo_script = desc_script_pubkey L d\<rparr> # rest"
    "length rest \<le> 1" "\<forall>out\<in>set rest. txo_script out = address_script L change"
  proof -
    from p obtain v1 v2 where "send_to_address L w W C a amount (Some change) v1 = (Ok p, v2)" by blast
    from send_to_address_outputs[OF assms(1) this] show thesis using that unfolding script by blast
  qed
  have out: "tx_output (unsigned_tx (psbt.truncate p)) = tx_output (unsigned_tx p)" by (simp add: psbt.truncate_def)
  have ext: "tx_output (psbt_extract_tx L (psbt.truncate p)) = tx_output (unsigned_tx p)"
    using assms(3) out by (simp add: psbt_laws_def)
  have "shared_output_candidate (psbt.truncate p) amount = Ok \<lparr>txo_value = amount, txo_script = desc_script_pubkey L d\<rparr>"
    using rest(1,2) out by (cases rest) (auto simp: shared_output_candidate_def)
  hence "tx_lock_from_psbt L (tl_inner lock) A B amount = Ok lock" by (simp add: tx_lock_from_psbt_def d lock)
  moreover have vout: "tx_lock_output_vout L lock = Ok 0" by (simp add: tx_lock_output_vout_def lock ext rest(1))
  moreover have "tx_lock_amount L lock = Ok amount" using vout
    by (simp add: tx_lock_amount_def index_vec_def) (simp add: lock ext rest(1))
  ultimately show ?thesis using rest out by (simp add: lock tx_lock_script_pubkey_def)
qed

section \<open>Concrete fees and wallets\<close>

definition exact_fees :: "rat fee_decimal" where
  "exact_fees = decimal.extend exact_decimal
     \<lparr>fd_lit = (\<lambda>m s. of_int m / 10 ^ s), fd_from_f32 = (\<lambda>x. case x of Fin r \<Rightarrow> Some r | _ \<Rightarrow> None), fd_less = (<)\<rparr>"

definition rate_of :: "rat \<Rightarrow> fee_rates" where
  "rate_of r = \<lparr>from_btc_per_kvb = (\<lambda>_. Err (External 1)), as_sat_per_vb = (\<lambda>_. Fin r)\<rparr>"

lemma exact_fees_simps [simp]:
  "fee_arith exact_fees = exact_decimal" "fd_lit exact_fees m s = of_int m / 10 ^ s"
  "fd_from_f32 exact_fees x = (case x of Fin r \<Rightarrow> Some r | _ \<Rightarrow> None)" "fd_less exact_fees a b \<longleftrightarrow> a < b"
  by (simp_all add: exact_fees_def decimal.truncate_def decimal.extend_def)

lemma exact_fee_laws: "fee_laws exact_fees id"
  using exact_decimal_laws unfolding fee_laws_def
  by (auto simp: exact_decimal_def simp del: of_nat_unat split: float_value.splits)

lemma sample_fees:
  "estimate_fee exact_fees (rate_of 100) 400 1000000 rate 1 = Ok 10000"
  "estimate_fee exact_fees (rate_of 1001) 400 1000000 rate 1 = Ok 100000"
  by (simp_all add: estimate_fee_def Let_def rate_of_def exact_decimal_def MAX_RELATIVE_TX_FEE_def MAX_ABSOLUTE_TX_FEE_def)

theorem estimated_fee_bounds_witness:
  "\<forall>rate0. estimate_fee exact_fees (rate_of 100) 400 1000000 rate0 1 = Ok 10000 \<and> (1::u64) \<le> 10000"
  using estimated_fee_bounds[OF exact_fee_laws sample_fees(1)] sample_fees(1) by simp

theorem fee_above_relative_bound_witness:
  "\<forall>rate0. estimate_fee exact_fees (rate_of 1001) 400 1000000 rate0 1 = Ok 100000 \<and> 3 * unat (1000000::u64) < 100 * unat (100000::u64)"
proof
  fix rate0
  have d: "fd_from_f32 exact_fees (as_sat_per_vb (rate_of 1001) rate0) = Some 1001" by (simp add: rate_of_def)
  have w: "(400::nat) < 2 ^ 64" "400004 < of_nat 400 * id (1001::rat)" "(1::u64) \<le> 100000" "(1000000::u64) \<le> 3333333"
    by simp_all
  show "estimate_fee exact_fees (rate_of 1001) 400 1000000 rate0 1 = Ok 100000 \<and> 3 * unat (1000000::u64) < 100 * unat (100000::u64)"
    using fee_above_relative_bound[OF exact_fee_laws sample_fees(2) d w] sample_fees(2) by blast
qed

text \<open>A wallet that puts the change first, and a library whose addresses are the scripts themselves.\<close>

definition sample_addresses :: lib where
  "sample_addresses = sample_lib
     \<lparr>desc_address := (\<lambda>d n. Ok \<lparr>addr_network = n, addr_payload = to_nat (desc_script_pubkey sample_lib d)\<rparr>),
      address_script := (\<lambda>a. from_nat (addr_payload a))\<rparr>"

definition sample_wallet :: "unit bdk_wallet" where
  "sample_wallet =
     \<lparr>bd_sign = (\<lambda>p v. (Ok (p, True), v)), bd_balance_total = (\<lambda>v. (Ok 50000, v)),
      bd_new_address = (\<lambda>v. (Err (External 1), v)), bd_list_transactions = (\<lambda>v. (Ok [], v)),
      bd_pay = (\<lambda>script amount rate v. (Ok \<lparr>unsigned_tx = \<lparr>tx_version = 1, tx_lock_time = 0, tx_input = [],
          tx_output = [\<lparr>txo_value = 7, txo_script = 99 # script\<rparr>, \<lparr>txo_value = amount, txo_script = script\<rparr>]\<rparr>,
        psbt_inputs = [], psbt_outputs = [\<lparr>po_bip32_derivation = [], po_rest = 0\<rparr>, \<lparr>po_bip32_derivation = [], po_rest = 1\<rparr>]\<rparr>, v)),
      bd_drain = (\<lambda>script rate v. (Inl NotEnoughFunds, v)), bd_sync = (\<lambda>v. (Ok (), v))\<rparr>"

definition sample_source :: "fee_rate \<Rightarrow> unit fee_source" where
  "sample_source r = \<lparr>fs_estimate_feerate = (\<lambda>_. ret r), fs_min_relay_fee = ret 1000\<rparr>"

lemma sample_pays: "pays_recipient sample_wallet"
  unfolding pays_recipient_def
proof (intro allI impI)
  fix script amount rate v p v' assume "bd_pay sample_wallet script amount rate v = (Ok p, v')"
  thus "\<exists>c. txo_script c \<noteq> script \<and>
       tx_output (unsigned_tx p) \<in> {[\<lparr>txo_value = amount, txo_script = script\<rparr>],
         [\<lparr>txo_value = amount, txo_script = script\<rparr>, c], [c, \<lparr>txo_value = amount, txo_script = script\<rparr>]} \<and>
       length (psbt_outputs p) = length (tx_output (unsigned_tx p))"
    by (intro exI[of _ "\<lparr>txo_value = 7, txo_script = 99 # script\<rparr>"]) (auto simp: sample_wallet_def)
qed

lemma sample_address_law: "address_law sample_addresses" "psbt_laws sample_addresses"
  using sample_psbt_laws by (auto simp: address_law_def sample_addresses_def psbt_laws_def)

lemma sample_shared_descriptor: "build_shared_output_descriptor sample_addresses p q = build_shared_output_descriptor sample_lib p q"
  by (simp add: build_shared_output_descriptor_def sample_addresses_def)

lemma sample_addresses_simps [simp]:
  "desc_address sample_addresses d n = Ok \<lparr>addr_network = n, addr_payload = to_nat (desc_script_pubkey sample_lib d)\<rparr>"
  "address_script sample_addresses a = from_nat (addr_payload a)"
  by (simp_all add: sample_addresses_def)

theorem wallet_lock_is_accepted_witness:
  "\<forall>r. \<exists>lock. tx_lock_new sample_addresses Regtest (wallet_send sample_addresses
       \<lparr>wl_finality_confirmations = 1, wl_network = Regtest, wl_target_block = 1\<rparr> sample_wallet (sample_source r))
       5000 (PublicKey 1) (PublicKey 2) \<lparr>addr_network = Regtest, addr_payload = 3\<rparr> () = (Ok lock, ()) \<and>
     tx_lock_from_psbt sample_addresses (tl_inner lock) (PublicKey 1) (PublicKey 2) 5000 = Ok lock"
proof
  fix r
  let ?w = "\<lparr>wl_finality_confirmations = 1, wl_network = Regtest, wl_target_block = 1\<rparr>"
  have "\<exists>lock. tx_lock_new sample_addresses (wl_network ?w) (wallet_send sample_addresses ?w sample_wallet (sample_source r))
       5000 (PublicKey 1) (PublicKey 2) \<lparr>addr_network = Regtest, addr_payload = 3\<rparr> () = (Ok lock, ())"
    by (simp add: tx_lock_new_def bindio_def sample_shared_descriptor wallet_send_def send_to_address_def sample_source_def
        sample_wallet_def order_outputs_def override_change_def Let_def)
  then obtain lock where lock: "tx_lock_new sample_addresses (wl_network ?w)
      (wallet_send sample_addresses ?w sample_wallet (sample_source r))
       5000 (PublicKey 1) (PublicKey 2) \<lparr>addr_network = Regtest, addr_payload = 3\<rparr> () = (Ok lock, ())" by blast
  show "\<exists>lock. tx_lock_new sample_addresses Regtest (wallet_send sample_addresses
       \<lparr>wl_finality_confirmations = 1, wl_network = Regtest, wl_target_block = 1\<rparr> sample_wallet (sample_source r))
       5000 (PublicKey 1) (PublicKey 2) \<lparr>addr_network = Regtest, addr_payload = 3\<rparr> () = (Ok lock, ()) \<and>
     tx_lock_from_psbt sample_addresses (tl_inner lock) (PublicKey 1) (PublicKey 2) 5000 = Ok lock"
    using wallet_lock_is_accepted[OF sample_pays sample_address_law lock] lock by auto
qed

end
