(* ===== verification/Database_Calls.thy ===== *)
theory Database_Calls
  imports Database_Properties
begin

text \<open>
  Every query of \<open>database/sqlite.rs\<close> as a value, sequences of them in which any may fail, and the type
  discipline of the tables: what a column holds can be read back as what the column is for, and the
  primary keys are unique, so that no read ever fails on a stored value.
\<close>

datatype db_call =
    InsertPeer uuid peer_id | GetPeer uuid
  | InsertBdxAddress uuid bdx_address | GetBdxAddress uuid
  | InsertPeerAddress peer_id multiaddr | GetPeerAddresses peer_id
  | GetStartDate uuid
  | InsertState string uuid swap_state | GetState uuid | GetAll | GetStates uuid
  | InsertProof uuid transfer_proof | GetProof uuid

definition after_call :: "db_lib \<Rightarrow> db_call \<Rightarrow> sqlite \<Rightarrow> sqlite" where
  "after_call D c = (case c of
     InsertPeer i p \<Rightarrow> snd \<circ> insert_peer_id D i p
   | GetPeer i \<Rightarrow> snd \<circ> get_peer_id D i
   | InsertBdxAddress i a \<Rightarrow> snd \<circ> insert_beldex_address D i a
   | GetBdxAddress i \<Rightarrow> snd \<circ> get_beldex_address D i
   | InsertPeerAddress p a \<Rightarrow> snd \<circ> insert_address D p a
   | GetPeerAddresses p \<Rightarrow> snd \<circ> get_addresses D p
   | GetStartDate i \<Rightarrow> snd \<circ> get_swap_start_date D i
   | InsertState now i s \<Rightarrow> snd \<circ> sql_insert_latest_state D now i s
   | GetState i \<Rightarrow> snd \<circ> sql_get_state D i
   | GetAll \<Rightarrow> snd \<circ> sql_all D
   | GetStates i \<Rightarrow> snd \<circ> sql_get_states D i
   | InsertProof i p \<Rightarrow> snd \<circ> insert_buffered_transfer_proof D i p
   | GetProof i \<Rightarrow> snd \<circ> get_buffered_transfer_proof D i)"

definition db_typed :: "db_lib \<Rightarrow> sqlite \<Rightarrow> bool" where
  "db_typed D t \<longleftrightarrow> sqlite_ok D t \<and>
     (\<forall>r\<in>set (t_peer_addresses t). decodes (dl_multiaddr_from_str D) (snd r)) \<and>
     distinct (map fst (t_peers t)) \<and> distinct (map fst (t_beldex_addresses t)) \<and> distinct (map fst (t_proofs t))"

lemma db_typed_empty [simp]: "db_typed D empty_sqlite"
  by (simp add: db_typed_def) (simp add: empty_sqlite_def)

lemma insert_keyed_elim:
  obtains (fresh) "insert_keyed k v t = Ok (t @ [(k, v)])" "k \<notin> fst ` set t" | (taken) e where "insert_keyed k v t = Err e"
  by (cases "k \<in> fst ` set t") (simp_all add: insert_keyed_def)

text \<open>What an insertion into a table with a key leaves.\<close>

lemma typed_insert_peer:
  assumes "db_laws D" "db_typed D t" "insert_peer_id D i p t = (r, t')"
  shows "db_typed D t'"
proof -
  have "decodes (dl_peer_from_str D) (dl_peer_to_string D p)" using assms(1) by (simp add: db_laws_def decodes_def)
  thus ?thesis using assms
    by (cases rule: insert_keyed_elim[of "dl_uuid_to_string D i" "dl_peer_to_string D p" "t_peers t"])
      (auto simp: insert_peer_id_def bindio_def db_typed_def sqlite_ok_def)
qed

lemma typed_insert_address:
  assumes "db_laws D" "db_typed D t" "insert_beldex_address D i a t = (r, t')"
  shows "db_typed D t'"
proof -
  have "decodes (dl_address_parse D) (dl_address_to_string D a)" using assms(1) by (simp add: db_laws_def decodes_def)
  thus ?thesis using assms
    by (cases rule: insert_keyed_elim[of "dl_uuid_to_string D i" "dl_address_to_string D a" "t_beldex_addresses t"])
      (auto simp: insert_beldex_address_def bindio_def db_typed_def sqlite_ok_def)
qed

lemma typed_insert_proof:
  assumes "db_laws D" "db_typed D t" "insert_buffered_transfer_proof D i p t = (r, t')"
  shows "db_typed D t'"
proof -
  obtain j where j: "dl_proof_to_json D p = Ok j" "dl_proof_from_json D j = Ok p" by (rule proof_json[OF assms(1)])
  hence "decodes (dl_proof_from_json D) j" by (simp add: decodes_def)
  thus ?thesis using assms j(1)
    by (cases rule: insert_keyed_elim[of "dl_uuid_to_string D i" j "t_proofs t"])
      (auto simp: insert_buffered_transfer_proof_def bindio_def db_typed_def sqlite_ok_def)
qed

lemma typed_insert_peer_address:
  assumes "db_laws D" "db_typed D t"
  shows "db_typed D (snd (insert_address D p a t))"
proof -
  have "decodes (dl_multiaddr_from_str D) (dl_multiaddr_to_string D a)" using assms(1) by (simp add: db_laws_def decodes_def)
  thus ?thesis using assms by (auto simp: insert_address_def bindio_def db_typed_def sqlite_ok_def)
qed

lemma typed_insert_state:
  assumes "db_laws D" "db_typed D t" "sql_insert_latest_state D now i s t = (r, t')"
  shows "db_typed D t'"
proof -
  have "sqlite_ok D t'" using sql_insert_ok[OF assms(1) _ assms(3)] assms(2) by (simp add: db_typed_def)
  moreover from assms(1,3) have "t_peers t' = t_peers t" "t_beldex_addresses t' = t_beldex_addresses t"
    "t_proofs t' = t_proofs t" "t_peer_addresses t' = t_peer_addresses t"
    by (auto elim!: sql_insert_cases)
  ultimately show ?thesis using assms(2) by (simp add: db_typed_def)
qed

lemma reads_keep [simp]:
  assumes "db_laws D"
  shows "snd (get_peer_id D i t) = t" "snd (get_beldex_address D i t) = t" "snd (get_addresses D p t) = t"
    "snd (get_swap_start_date D i t) = t" "snd (sql_get_state D i t) = t" "snd (sql_all D t) = t"
    "snd (sql_get_states D i t) = t" "snd (get_buffered_transfer_proof D i t) = t"
  using assms by (simp_all add: get_peer_id_def get_beldex_address_def get_addresses_def get_swap_start_date_def
      sql_get_state_def sql_all_def sql_get_states_def get_buffered_transfer_proof_def bindio_def)

lemma after_call_typed:
  assumes "db_laws D" "db_typed D t"
  shows "db_typed D (after_call D c t)"
  using assms typed_insert_peer[OF assms prod.collapse[symmetric]] typed_insert_address[OF assms prod.collapse[symmetric]]
    typed_insert_proof[OF assms prod.collapse[symmetric]] typed_insert_peer_address[OF assms]
    typed_insert_state[OF assms prod.collapse[symmetric]]
  by (cases c) (simp_all add: after_call_def)

lemma db_calls_typed: "db_laws D \<Longrightarrow> db_typed D t \<Longrightarrow> db_typed D (fold (after_call D) cs t)"
  by (induction cs arbitrary: t) (simp_all add: after_call_typed)

lemma collect_results_ok: "\<forall>x\<in>set xs. \<exists>y. f x = Ok y \<Longrightarrow> \<exists>ys. collect_results f xs = Ok ys \<and> map Ok ys = map f xs"
  by (induction xs) fastforce+

text \<open>
  C30: whatever sequence of queries runs on the database, also with queries that fail, its tables stay well
  typed, so that reading the states, all swaps, the addresses of a peer or a buffered proof never fails on
  what is stored; the state of a swap is the last of its states.
\<close>

theorem database_stays_typed:
  assumes "db_laws D" "db_typed D t" "t' = fold (after_call D) cs t"
  shows "db_typed D t' \<and> (\<exists>xs. sql_all D t' = (Ok xs, t')) \<and>
    (\<exists>ss. sql_get_states D i t' = (Ok ss, t') \<and>
       (ss = [] \<or> sql_get_state D i t' = (Ok (last ss), t'))) \<and>
    (\<exists>addresses. get_addresses D p t' = (Ok addresses, t')) \<and>
    (\<exists>proof. get_buffered_transfer_proof D i t' = (Ok proof, t'))"
proof (intro conjI)
  show typed: "db_typed D t'" using db_calls_typed[OF assms(1,2)] assms(3) by simp
  hence ok: "sqlite_ok D t'" by (simp add: db_typed_def)
  show "\<exists>xs. sql_all D t' = (Ok xs, t')" using all_swaps[OF assms(1) ok] by blast
  let ?rows = "rows_of (dl_uuid_to_string D i) t'"
  let ?f = "\<lambda>row. obind (dl_swap_from_json D (sr_state row)) (\<lambda>a. Ok (state_from_db_swap a))"
  have "\<forall>row\<in>set ?rows. \<exists>y. ?f row = Ok y"
  proof
    fix row assume "row \<in> set ?rows"
    hence "decodes (dl_swap_from_json D) (sr_state row)" using ok by (simp add: sqlite_ok_def rows_of_def)
    thus "\<exists>y. ?f row = Ok y" unfolding decodes_def by (elim exE) simp
  qed
  from collect_results_ok[OF this] obtain ss where ss: "collect_results ?f ?rows = Ok ss" "map Ok ss = map ?f ?rows"
    by (elim exE conjE)
  have "ss = [] \<or> sql_get_state D i t' = (Ok (last ss), t')"
  proof (cases "?rows = []")
    case False
    hence "ss \<noteq> []" using arg_cong[OF ss(2), of length] by auto
    have "Ok (last ss) = ?f (last ?rows)" using arg_cong[OF ss(2), of last] by (simp only: last_map[OF False] last_map[OF \<open>ss \<noteq> []\<close>])
    also have "\<dots> = omap state_from_db_swap (dl_swap_from_json D (sr_state (last ?rows)))"
      by (cases "dl_swap_from_json D (sr_state (last ?rows))") auto
    finally show ?thesis using False by (simp add: sql_get_state_last[OF assms(1) ok] Let_def)
  qed (use ss(2) in simp)
  thus "\<exists>ss. sql_get_states D i t' = (Ok ss, t') \<and> (ss = [] \<or> sql_get_state D i t' = (Ok (last ss), t'))"
    using ss(1) by (auto simp: sql_get_states_def bindio_def assms(1))
  have "\<forall>a\<in>set (remdups (select_keyed (dl_peer_to_string D p) (t_peer_addresses t'))). \<exists>y. dl_multiaddr_from_str D a = Ok y"
    using typed by (fastforce simp: db_typed_def decodes_def select_keyed_def)
  from collect_results_ok[OF this] show "\<exists>addresses. get_addresses D p t' = (Ok addresses, t')"
    by (auto simp: get_addresses_def bindio_def assms(1))
  show "\<exists>proof. get_buffered_transfer_proof D i t' = (Ok proof, t')"
  proof (cases "select_keyed (dl_uuid_to_string D i) (t_proofs t')")
    case (Cons j js)
    hence "j \<in> set (select_keyed (dl_uuid_to_string D i) (t_proofs t'))" by simp
    hence "j \<in> snd ` set (t_proofs t')" unfolding select_keyed_def by auto
    then obtain q where "dl_proof_from_json D j = Ok q" using ok by (fastforce simp: sqlite_ok_def decodes_def)
    thus ?thesis using Cons by (simp add: get_buffered_transfer_proof_def bindio_def assms(1))
  qed (simp add: get_buffered_transfer_proof_def bindio_def assms(1))
qed

theorem database_stays_typed_witness:
  "\<exists>ss. sql_get_states sample_db 7 (fold (after_call sample_db) [InsertState ''a'' 7 (SAlice ASafelyAborted), GetState 8] empty_sqlite) =
     (Ok ss, fold (after_call sample_db) [InsertState ''a'' 7 (SAlice ASafelyAborted), GetState 8] empty_sqlite)"
  using database_stays_typed[OF sample_db_laws db_typed_empty refl] by blast

end
