(* ===== verification/Swap_Amount.thy ===== *)
theory Swap_Amount
  imports Bitcoin_Wallet Polling
begin

text \<open>
  \<open>determine_btc_to_swap\<close> of \<open>cli/api/request.rs\<close>: how much bitcoin Bob swaps, after waiting for deposits
  that cover the minimum of the quote. The wallet is the record \<open>funding\<close>, with the functions that the code
  passes as closures. A loop that does not return is \<open>None\<close>; the sleep of a second has no effect.
\<close>

type_synonym ('w, 'a) loop_io = "'w \<Rightarrow> ('a outcome \<times> 'w) option"

definition once :: "('w, 'a) io \<Rightarrow> ('w, 'a) loop_io" where
  "once m = (\<lambda>w. Some (m w))"

definition bindloop :: "('w, 'a) loop_io \<Rightarrow> ('a \<Rightarrow> ('w, 'b) loop_io) \<Rightarrow> ('w, 'b) loop_io" where
  "bindloop m f = (\<lambda>w. Option.bind (m w) (\<lambda>(r, w'). case r of
     Ok x \<Rightarrow> f x w' | Err e \<Rightarrow> Some (Err e, w') | Panic p \<Rightarrow> Some (Panic p, w') | Pending \<Rightarrow> Some (Pending, w')))"

text \<open>\<open>Amount - Amount\<close> of the crate \<open>bitcoin\<close> panics below zero.\<close>

definition btc_sub :: "btc_amount \<Rightarrow> btc_amount \<Rightarrow> btc_amount outcome" where
  "btc_sub a b = (if b \<le> a then Ok (a - b) else Panic ''Amount subtraction error'')"

record 'w funding =
  fu_new_address :: "('w, address) io"
  fu_balance :: "('w, btc_amount) io"
  fu_max_giveable :: "('w, btc_amount) io"
  fu_sync :: "('w, unit) io"
  fu_estimate_fee :: "btc_amount \<Rightarrow> ('w, btc_amount) io"
  fu_qr_code :: "address \<Rightarrow> unit outcome"

definition funding_of ::
  "'d fee_decimal \<Rightarrow> fee_rates \<Rightarrow> btc_wallet \<Rightarrow> 'v bdk_wallet \<Rightarrow> 'v fee_source \<Rightarrow> (address \<Rightarrow> unit outcome) \<Rightarrow> 'v funding" where
  "funding_of F R w W C qr =
     \<lparr>fu_new_address = wallet_new_address W, fu_balance = wallet_balance W,
      fu_max_giveable = max_giveable w W C SCRIPT_SIZE, fu_sync = wallet_sync W,
      fu_estimate_fee = wallet_estimate_fee F R w C TX_LOCK_WEIGHT, fu_qr_code = qr\<rparr>"

definition deposit_round :: "'w funding \<Rightarrow> btc_amount \<Rightarrow> ('w, btc_amount option) io" where
  "deposit_round W giveable =
     bindio (fu_sync W) (\<lambda>_.
     bindio (fu_max_giveable W) (\<lambda>new_max_giveable.
     ret (if giveable < new_max_giveable then Some new_max_giveable else None)))"

partial_function (option) await_deposit :: "'w funding \<Rightarrow> btc_amount \<Rightarrow> ('w, btc_amount) loop_io" where
  "await_deposit W giveable w =
     (case deposit_round W giveable w of
        (Ok (Some new_max_giveable), w') \<Rightarrow> Some (Ok new_max_giveable, w')
      | (Ok None, w') \<Rightarrow> await_deposit W giveable w'
      | (Err e, w') \<Rightarrow> Some (Err e, w')
      | (Panic p, w') \<Rightarrow> Some (Panic p, w')
      | (Pending, w') \<Rightarrow> Some (Pending, w'))"

text \<open>What the loop computes to tell the user; it may fail.\<close>

definition deposit_request :: "'w funding \<Rightarrow> bid_quote \<Rightarrow> btc_amount \<Rightarrow> ('w, unit) io" where
  "deposit_request W bid_quote giveable =
     bindio (lift (btc_sub (bq_min_quantity bid_quote) giveable)) (\<lambda>min_outstanding.
     bindio (fu_estimate_fee W min_outstanding) (\<lambda>min_bitcoin_lock_tx_fee.
     bindio (lift (btc_add min_outstanding min_bitcoin_lock_tx_fee)) (\<lambda>min_deposit_until_swap_will_start.
     bindio (lift (btc_sub (bq_max_quantity bid_quote) giveable)) (\<lambda>rest.
     bindio (lift (btc_add rest min_bitcoin_lock_tx_fee)) (\<lambda>max_deposit_until_maximum_amount_is_reached.
     ret ())))))"

definition deposit_turn :: "'w funding \<Rightarrow> bid_quote \<Rightarrow> btc_amount \<Rightarrow> ('w, btc_amount) loop_io" where
  "deposit_turn W bid_quote giveable =
     bindloop (once (deposit_request W bid_quote giveable)) (\<lambda>_.
     bindloop (await_deposit W giveable) (\<lambda>giveable.
     bindloop (once (fu_balance W)) (\<lambda>new_balance.
     once (ret giveable))))"

partial_function (option) deposit_loop :: "'w funding \<Rightarrow> bid_quote \<Rightarrow> btc_amount \<Rightarrow> ('w, btc_amount) loop_io" where
  "deposit_loop W bid_quote giveable w =
     Option.bind (deposit_turn W bid_quote giveable w) (\<lambda>r.
     case r of
       (Ok giveable, w') \<Rightarrow>
         if giveable < bq_min_quantity bid_quote then deposit_loop W bid_quote giveable w'
         else Some (Ok giveable, w')
     | _ \<Rightarrow> Some r)"

definition wait_for_deposit :: "'w funding \<Rightarrow> bool \<Rightarrow> bid_quote \<Rightarrow> btc_amount \<Rightarrow> ('w, btc_amount) loop_io" where
  "wait_for_deposit W json bid_quote giveable =
     (if giveable = 0 \<or> giveable < bq_min_quantity bid_quote then
        bindloop (once (fu_new_address W)) (\<lambda>deposit_address.
        bindloop (once (lift (if json then Ok () else fu_qr_code W deposit_address))) (\<lambda>_.
        deposit_loop W bid_quote giveable))
      else once (ret giveable))"

definition ZeroQuoteReceived :: error where
  "ZeroQuoteReceived = Msg ''Received quote of 0''"

definition determine_btc_to_swap ::
  "'w funding \<Rightarrow> bool \<Rightarrow> bid_quote \<Rightarrow> btc_amount option \<Rightarrow> ('w, btc_amount \<times> btc_amount) loop_io" where
  "determine_btc_to_swap W json bid_quote preferred_amount =
     (if bq_max_quantity bid_quote = 0 then once (lift (Err ZeroQuoteReceived))
      else
        bindloop (once (fu_sync W)) (\<lambda>_.
        bindloop (once (fu_max_giveable W)) (\<lambda>giveable.
        bindloop (wait_for_deposit W json bid_quote giveable) (\<lambda>giveable.
        bindloop (once (fu_balance W)) (\<lambda>balance.
        bindloop (once (lift (btc_sub balance giveable))) (\<lambda>fees.
        let max_accepted = bq_max_quantity bid_quote;
            btc_swap_amount = (case preferred_amount of
              Some preferred \<Rightarrow> min giveable (min preferred max_accepted)
            | None \<Rightarrow> min giveable max_accepted) in
        once (ret (btc_swap_amount, fees))))))))"

end
