(* ===== verification/Swap_Amount_Properties.thy ===== *)
theory Swap_Amount_Properties
  imports Swap_Amount Bitcoin_Wallet_Properties
begin

text \<open>
  The amount that Bob determines: where it comes from and its limits, that Alice accepts it with her
  quote, when the wait for a deposit ends, and two amounts with which it goes wrong.
\<close>

section \<open>Sequencing loops\<close>

lemma once_eq [simp]: "once m w = Some r \<longleftrightarrow> m w = r" "once m w \<noteq> None"
  by (auto simp: once_def)

lemma bindloop_eq_Ok:
  "bindloop m f w = Some (Ok y, w'') \<longleftrightarrow> (\<exists>x w'. m w = Some (Ok x, w') \<and> f x w' = Some (Ok y, w''))"
proof (cases "m w")
  case (Some z)
  obtain r v where "z = (r, v)" by fastforce
  thus ?thesis using Some by (cases r) (auto simp: bindloop_def)
qed (simp add: bindloop_def)

lemma bindloop_Ok: "m w = Some (Ok x, w') \<Longrightarrow> bindloop m f w = f x w'"
  by (simp add: bindloop_def)

lemma bindloop_Err: "m w = Some (Err e, w') \<Longrightarrow> bindloop m f w = Some (Err e, w')"
  by (simp add: bindloop_def)

lemma btc_sub_eq_Ok: "btc_sub a b = Ok c \<longleftrightarrow> b \<le> a \<and> c = a - b"
  by (auto simp: btc_sub_def)

lemma btc_sub_value: "btc_sub a b = Ok c \<Longrightarrow> unat a = unat b + unat c"
  by (auto simp: btc_sub_eq_Ok unat_sub word_le_nat_alt)

section \<open>The inner loop\<close>

definition deposit_step :: "'w funding \<Rightarrow> btc_amount \<Rightarrow> 'w \<Rightarrow> 'w + btc_amount outcome \<times> 'w" where
  "deposit_step W giveable w = (case deposit_round W giveable w of
     (Ok None, w') \<Rightarrow> Inl w' | (Ok (Some n), w') \<Rightarrow> Inr (Ok n, w')
   | (Err e, w') \<Rightarrow> Inr (Err e, w') | (Panic p, w') \<Rightarrow> Inr (Panic p, w') | (Pending, w') \<Rightarrow> Inr (Pending, w'))"

lemma await_deposit_step:
  "await_deposit W g w = (case deposit_step W g w of Inl w' \<Rightarrow> await_deposit W g w' | Inr r \<Rightarrow> Some r)"
  by (subst await_deposit.simps) (simp add: deposit_step_def split: prod.split outcome.split option.split)

interpretation deposit: polling "deposit_step W g" "await_deposit W g" for W g
proof (unfold_locales, goal_cases)
  case (1 s)
  show ?case by (rule await_deposit_step)
next
  case (2 Q s r)
  have "W = W \<and> g = g \<longrightarrow> Q s r"
  proof (rule await_deposit.raw_induct[where P = "\<lambda>W' g' w r. W' = W \<and> g' = g \<longrightarrow> Q w r", OF _ 2(3)], goal_cases)
    case (1 run W' g' w r)
    show ?case
    proof
      assume eq: "W' = W \<and> g' = g"
      from 1(2) have "(case deposit_step W g w of Inl w' \<Rightarrow> run W g w' | Inr r \<Rightarrow> Some r) = Some r"
        by (simp add: eq deposit_step_def split: prod.splits outcome.splits option.splits)
      thus "Q w r" using 1(1)[of W g _ r] 2(1,2) by (auto split: sum.splits)
    qed
  qed
  thus ?case by simp
qed

text \<open>What the loop returns is the wallet's answer at some moment.\<close>

definition answered :: "'w funding \<Rightarrow> btc_amount \<Rightarrow> bool" where
  "answered W m \<longleftrightarrow> (\<exists>v v'. fu_max_giveable W v = (Ok m, v'))"

lemma await_deposit_OkD:
  assumes "await_deposit W g w = Some (Ok m, w')"
  shows "g < m \<and> answered W m"
proof -
  have "\<forall>m w'. r = (Ok m, w') \<longrightarrow> g < m \<and> answered W m" if "await_deposit W g w = Some r" for r w
    using that
  proof (rule deposit.run_induct[where Q = "\<lambda>w r. \<forall>m w'. r = (Ok m, w') \<longrightarrow> g < m \<and> answered W m", rotated 2])
    fix s r assume "deposit_step W g s = Inr r"
    thus "\<forall>m w'. r = (Ok m, w') \<longrightarrow> g < m \<and> answered W m"
      by (auto simp: deposit_step_def deposit_round_def bindio_eq_Ok answered_def
          split: prod.splits outcome.splits option.splits if_splits)
  qed blast
  from this[OF assms] show ?thesis by blast
qed

section \<open>The amount\<close>

lemma deposit_turn_OkD:
  assumes "deposit_turn W q g w = Some (Ok m, w')"
  shows "g < m \<and> answered W m"
  using assms await_deposit_OkD by (fastforce simp: deposit_turn_def bindloop_eq_Ok)

lemma deposit_loop_OkD:
  assumes "deposit_loop W q g w = Some (Ok m, w')"
  shows "0 < m \<and> bq_min_quantity q \<le> m \<and> answered W m"
proof -
  have "\<forall>m w'. r = (Ok m, w') \<longrightarrow> 0 < m \<and> bq_min_quantity q \<le> m \<and> answered W m" if "deposit_loop W q g w = Some r" for r
  proof (rule deposit_loop.raw_induct[where P = "\<lambda>W q g w r. \<forall>m w'. r = (Ok m, w') \<longrightarrow>
      0 < m \<and> bq_min_quantity q \<le> m \<and> answered W m", OF _ that], intro allI impI)
    fix run and W :: "'a funding" and q g w r m w'
    assume IH: "\<And>W q g w r. run W q g w = Some r \<Longrightarrow> \<forall>m w'. r = (Ok m, w') \<longrightarrow> 0 < m \<and> bq_min_quantity q \<le> m \<and> answered W m"
      and "Option.bind (deposit_turn W q g w) (\<lambda>r. case r of (Ok g', w') \<Rightarrow>
        if g' < bq_min_quantity q then run W q g' w' else Some (Ok g', w') | _ \<Rightarrow> Some r) = Some r" and r: "r = (Ok m, w')"
    then obtain x w1 where x: "deposit_turn W q g w = Some (x, w1)"
      "(case x of Ok g' \<Rightarrow> if g' < bq_min_quantity q then run W q g' w1 else Some (Ok g', w1) | _ \<Rightarrow> Some (x, w1)) = Some r"
      by (auto simp: bind_eq_Some_conv)
    then obtain g1 where t: "deposit_turn W q g w = Some (Ok g1, w1)"
      and c: "if g1 < bq_min_quantity q then run W q g1 w1 = Some r else r = (Ok g1, w1)"
      using r by (cases x) (auto split: if_splits)
    show "0 < m \<and> bq_min_quantity q \<le> m \<and> answered W m"
      using c r IH[of W q g1 w1 r] deposit_turn_OkD[OF t] by (auto split: if_splits intro: le_less_trans[of 0 g])
  qed
  from this[OF assms] show ?thesis by blast
qed

lemma wait_for_deposit_OkD:
  assumes "wait_for_deposit W json q g w = Some (Ok m, w')" "answered W g"
  shows "0 < m \<and> bq_min_quantity q \<le> m \<and> answered W m"
  using assms by (auto simp: wait_for_deposit_def bindloop_eq_Ok not_less word_gt_0 split: if_splits dest: deposit_loop_OkD)

text \<open>
  an amount that Bob determines is the least of what his wallet said it can give, the maximum of the
  quote and the amount he prefers; what the wallet can give covers the minimum of the quote and is not
  zero, and together with the fees it is the balance.
\<close>

theorem determined_amount:
  assumes "determine_btc_to_swap W json q preferred w = Some (Ok (amount, fees), w')"
  shows "\<exists>m balance v. answered W m \<and> 0 < m \<and> bq_min_quantity q \<le> m \<and>
    amount = min m (case preferred of None \<Rightarrow> bq_max_quantity q | Some p \<Rightarrow> min p (bq_max_quantity q)) \<and>
    fu_balance W v = (Ok balance, w') \<and> unat balance = unat m + unat fees \<and> 0 < bq_max_quantity q"
proof -
  obtain g w1 w2 m w3 b where g: "fu_max_giveable W w1 = (Ok g, w2)"
    and m: "wait_for_deposit W json q g w2 = Some (Ok m, w3)" and b: "fu_balance W w3 = (Ok b, w')" "btc_sub b m = Ok fees"
    and amount: "amount = (case preferred of Some p \<Rightarrow> min m (min p (bq_max_quantity q)) | None \<Rightarrow> min m (bq_max_quantity q))"
    and pos: "bq_max_quantity q \<noteq> 0"
    using assms by (auto simp: determine_btc_to_swap_def bindloop_eq_Ok Let_def split: if_splits)
  have "answered W g" using g unfolding answered_def by blast
  note found = wait_for_deposit_OkD[OF m this]
  have "amount = min m (case preferred of None \<Rightarrow> bq_max_quantity q | Some p \<Rightarrow> min p (bq_max_quantity q))"
    unfolding amount by (cases preferred) simp_all
  thus ?thesis using found b(1) btc_sub_value[OF b(2)] pos by (auto simp: word_gt_0)
qed

lemma make_quote_ordered:
  assumes "make_quote D r get_balance min_buy max_buy w = (Ok q, w')" "min_buy \<le> max_buy"
  shows "bq_min_quantity q \<le> bq_max_quantity q"
  by (rule make_quote_OkD[OF assms(1)]) (use assms(2) in \<open>auto simp: not_less split: if_splits\<close>)

text \<open>
  C35: the amount that Bob determines from Alice's quote, when he states no preference, passes every check
  of her setup at the same rate and balance, if she is not in resume-only mode, her limits are in order, her
  lock fee is the constant one, the networks match, and the sell quote for the amount can be computed.
\<close>

theorem determined_amount_is_accepted:
  assumes "decimal_laws D v"
    and "make_quote D (mk_latest_rate M) get_balance (mk_min_buy M) (mk_max_buy M) u = (Ok q, u')"
    and "determine_btc_to_swap W json q None w = Some (Ok (spr_btc request, fees), w')"
    and "mk_min_buy M \<le> mk_max_buy M" "\<not> mk_resume_only M" "mk_latest_rate M = Ok rate"
    and "get_balance u = (Ok (ws_balance snapshot), u')" "ws_lock_fee snapshot = BELDEX_FEE"
    and "spr_blockchain_network request =
      \<lparr>bn_bitcoin = bitcoin_network (mk_env_config M), bn_beldex = beldex_network (mk_env_config M)\<rparr>"
    and "sell_quote D rate (spr_btc request) = Ok bdx"
  shows "validate_spot_price D M request snapshot = Ok (Inr bdx)"
proof -
  obtain m where m: "0 < m" "bq_min_quantity q \<le> m" "spr_btc request = min m (bq_max_quantity q)" "0 < bq_max_quantity q"
    using determined_amount[OF assms(3)] by auto
  have "bq_min_quantity q \<le> bq_max_quantity q" by (rule make_quote_ordered[OF assms(2,4)])
  hence "0 < spr_btc request" "bq_min_quantity q \<le> spr_btc request" "spr_btc request \<le> bq_max_quantity q"
    using m by simp_all
  from quoted_amount_is_accepted[OF assms(1,2,4-8) this assms(9,10)] show ?thesis .
qed

text \<open>
  an amount that Bob prefers below the minimum of the quote is taken as it is; Alice then refuses the
  setup.
\<close>

theorem preferred_below_minimum_is_refused:
  assumes "determine_btc_to_swap W json q (Some preferred) w = Some (Ok (spr_btc request, fees), w')"
    and "preferred < mk_min_buy M" "bq_min_quantity q = mk_min_buy M" "mk_min_buy M \<le> bq_max_quantity q"
    and "\<not> mk_resume_only M" "spr_blockchain_network request =
      \<lparr>bn_bitcoin = bitcoin_network (mk_env_config M), bn_beldex = beldex_network (mk_env_config M)\<rparr>"
  shows "spr_btc request = preferred \<and>
    validate_spot_price D M request snapshot = Ok (Inl (SeAmountBelowMinimum (mk_min_buy M) preferred))"
proof -
  obtain m where m: "bq_min_quantity q \<le> m" "spr_btc request = min m (min preferred (bq_max_quantity q))"
    using determined_amount[OF assms(1)] by auto
  have "preferred < m" "preferred < bq_max_quantity q" using m(1) assms(2-4) by (simp_all add: less_le_trans)
  hence "spr_btc request = preferred" using m(2) by (simp add: min_absorb1 min_absorb2 less_imp_le)
  thus ?thesis using assms(2,5,6) by (simp add: validate_spot_price_def Let_def)
qed

section \<open>The wait\<close>

text \<open>
  once some round after the request for a deposit reports that the wallet can give the minimum of the
  quote, Bob determines his amount, provided the wallet then answers for its balance.
\<close>

theorem deposit_ends_the_wait:
  assumes "bq_max_quantity q \<noteq> 0" "fu_sync W w0 = (Ok (), w1)" "fu_max_giveable W w1 = (Ok g, w2)"
    and "g = 0 \<or> g < bq_min_quantity q" "fu_new_address W w2 = (Ok a, w3)" "json \<or> fu_qr_code W a = Ok ()"
    and "deposit_request W q g w3 = (Ok (), w4)" "iterate (deposit_step W g) n w4 = Inr (Ok m, w5)"
    and "bq_min_quantity q \<le> m" "fu_balance W w5 = (Ok b, w6)" "fu_balance W w6 = (Ok balance, w7)" "m \<le> balance"
  shows "determine_btc_to_swap W json q preferred w0 = Some (Ok
    (min m (case preferred of None \<Rightarrow> bq_max_quantity q | Some p \<Rightarrow> min p (bq_max_quantity q)), balance - m), w7)"
proof -
  have "await_deposit W g w4 = Some (Ok m, w5)" by (rule deposit.run_iterate[OF assms(8)])
  hence "deposit_turn W q g w3 = Some (Ok m, w6)" using assms(7,10) by (simp add: deposit_turn_def bindloop_Ok once_def)
  hence "deposit_loop W q g w3 = Some (Ok m, w6)" using assms(9) by (subst deposit_loop.simps) (simp add: leD)
  hence "wait_for_deposit W json q g w2 = Some (Ok m, w6)"
    using assms(4-6) by (auto simp: wait_for_deposit_def once_def bindloop_Ok)
  thus ?thesis using assms(1-3,11,12)
    by (simp add: determine_btc_to_swap_def bindloop_Ok once_def btc_sub_def Let_def split: option.split)
qed

text \<open>
  when the wallet can give up to 546 satoshi less than the minimum of the quote, the swap fails with an
  error about dust instead of waiting for a deposit: the fee is estimated for the outstanding amount.
\<close>

theorem small_gap_ends_the_swap:
  assumes "W = funding_of F R wl B C qr" "bq_max_quantity q \<noteq> 0"
    and "wallet_sync B w0 = (Ok (), w1)" "max_giveable wl B C SCRIPT_SIZE w1 = (Ok g, w2)"
    and "g < bq_min_quantity q" "bq_min_quantity q - g \<le> 546"
    and "wallet_new_address B w2 = (Ok a, w3)" "json \<or> qr a = Ok ()"
    and "fs_estimate_feerate C (wl_target_block wl) w3 = (Ok rate, w4)" "fs_min_relay_fee C w4 = (Ok relay, w5)"
  shows "determine_btc_to_swap W json q preferred w0 =
    Some (Err (Msg ''Amounts needs to be greater than Bitcoin dust amount.''), w5)"
proof -
  have "fu_estimate_fee W (bq_min_quantity q - g) w3 = (Err (Msg ''Amounts needs to be greater than Bitcoin dust amount.''), w5)"
    using assms(6,9,10) by (simp add: assms(1) funding_of_def wallet_estimate_fee_def bindio_def estimate_fee_def)
  hence "deposit_request W q g w3 = (Err (Msg ''Amounts needs to be greater than Bitcoin dust amount.''), w5)"
    using assms(5) by (simp add: deposit_request_def btc_sub_def bindio_def)
  hence "deposit_loop W q g w3 = Some (Err (Msg ''Amounts needs to be greater than Bitcoin dust amount.''), w5)"
    by (subst deposit_loop.simps) (simp add: deposit_turn_def bindloop_def once_def)
  hence "wait_for_deposit W json q g w2 = Some (Err (Msg ''Amounts needs to be greater than Bitcoin dust amount.''), w5)"
    using assms(5,7,8) by (auto simp: wait_for_deposit_def once_def bindloop_Ok assms(1) funding_of_def)
  thus ?thesis using assms(2-4)
    by (simp add: determine_btc_to_swap_def bindloop_Ok bindloop_Err once_def assms(1) funding_of_def)
qed

section \<open>Concrete deposits\<close>

text \<open>The clock counts the synchronisations; the wallet can give \<open>given n\<close> after \<open>n\<close> of them.\<close>

definition sample_funding :: "(nat \<Rightarrow> btc_amount) \<Rightarrow> nat funding" where
  "sample_funding given = \<lparr>fu_new_address = ret \<lparr>addr_network = Testnet, addr_payload = 1\<rparr>,
     fu_balance = (\<lambda>n. (Ok (given n + 1000), n)), fu_max_giveable = (\<lambda>n. (Ok (given n), n)),
     fu_sync = (\<lambda>n. (Ok (), Suc n)), fu_estimate_fee = (\<lambda>_. ret 1000), fu_qr_code = (\<lambda>_. Ok ())\<rparr>"

definition sample_bid :: bid_quote where
  "sample_bid = \<lparr>bq_price = 1020000, bq_min_quantity = 200000, bq_max_quantity = 51030600\<rparr>"

lemma sample_determined:
  "determine_btc_to_swap (sample_funding (\<lambda>_. 60000000)) False sample_bid None 0 = Some (Ok (51030600, 1000), 1)"
  "determine_btc_to_swap (sample_funding (\<lambda>_. 60000000)) False sample_bid (Some 100000) 0 = Some (Ok (100000, 1000), 1)"
  by (simp_all add: determine_btc_to_swap_def bindloop_Ok once_def wait_for_deposit_def sample_funding_def sample_bid_def
      btc_sub_def Let_def min_def)

theorem determined_amount_witness:
  "\<exists>m. answered (sample_funding (\<lambda>_. 60000000)) m \<and> 200000 \<le> m \<and> min m 51030600 = 51030600"
  using determined_amount[OF sample_determined(1)] by (auto simp: sample_bid_def)

theorem determined_amount_is_accepted_witness:
  "validate_spot_price exact_decimal sample_maker sample_request sample_snapshot = Ok (Inr (from_atomic 50030000000))"
proof (rule determined_amount_is_accepted[OF exact_decimal_laws])
  show "make_quote exact_decimal (mk_latest_rate sample_maker) (ret sample_balance) (mk_min_buy sample_maker)
      (mk_max_buy sample_maker) () = (Ok sample_bid, ())"
    using sample_quote by (simp add: sample_maker_def sample_bid_def)
  show "determine_btc_to_swap (sample_funding (\<lambda>_. 60000000)) False sample_bid None 0 =
      Some (Ok (spr_btc sample_request, 1000), 1)"
    using sample_determined(1) by (simp add: sample_request_def)
  show "sell_quote exact_decimal sample_rate (spr_btc sample_request) = Ok (from_atomic 50030000000)"
    by (simp add: sell_quote_def rate_ask_def rate_quote_def sample_rate_def sample_request_def exact_decimal_def
        rate_new_def Let_def btc_add_def ONE_BTC_def ONE_BDX_def BDX_OFFSET_def from_atomic_def)
qed (simp_all add: sample_maker_def sample_request_def sample_snapshot_def)

theorem preferred_below_minimum_is_refused_witness:
  "validate_spot_price exact_decimal sample_maker (sample_request\<lparr>spr_btc := 100000\<rparr>) sample_snapshot =
     Ok (Inl (SeAmountBelowMinimum 200000 100000))"
proof -
  have "determine_btc_to_swap (sample_funding (\<lambda>_. 60000000)) False sample_bid (Some 100000) 0 =
      Some (Ok (spr_btc (sample_request\<lparr>spr_btc := 100000\<rparr>), 1000), 1)" using sample_determined(2) by simp
  from preferred_below_minimum_is_refused[OF this, of sample_maker] show ?thesis
    by (simp add: sample_maker_def sample_bid_def sample_request_def)
qed

theorem deposit_ends_the_wait_witness:
  "determine_btc_to_swap (sample_funding (\<lambda>n. if n < 3 then 100 else 300000)) False sample_bid None 0 =
     Some (Ok (300000, 1000), 3)"
proof -
  let ?W = "sample_funding (\<lambda>n. if n < 3 then 100 else 300000)"
  have "iterate (deposit_step ?W 100) (Suc (Suc 0)) 1 = Inr (Ok 300000, 3)"
    by (simp add: deposit_step_def deposit_round_def bindio_def sample_funding_def)
  moreover have "deposit_request ?W sample_bid 100 1 = (Ok (), 1)"
    by (simp add: deposit_request_def btc_sub_def btc_add_def bindio_def sample_funding_def sample_bid_def)
  ultimately show ?thesis
    using deposit_ends_the_wait[of sample_bid ?W 0 1 100 1 "\<lparr>addr_network = Testnet, addr_payload = 1\<rparr>" 1 False 1 "Suc (Suc 0)" 300000 3
        301000 3 301000 3 None]
    by (simp add: sample_funding_def sample_bid_def)
qed

definition short_wallet :: "unit bdk_wallet" where
  "short_wallet = sample_wallet\<lparr>bd_new_address := ret \<lparr>addr_network = Testnet, addr_payload = 1\<rparr>,
     bd_balance_total := ret 199700, bd_drain := (\<lambda>_ _ v. (Inr (199700, Some 200), v))\<rparr>"

theorem small_gap_ends_the_swap_witness:
  "\<forall>r. determine_btc_to_swap (funding_of exact_fees (rate_of 2)
       \<lparr>wl_finality_confirmations = 1, wl_network = Testnet, wl_target_block = 1\<rparr> short_wallet (sample_source r) (\<lambda>_. Ok ()))
      False sample_bid None () = Some (Err (Msg ''Amounts needs to be greater than Bitcoin dust amount.''), ())"
proof
  fix r
  let ?w = "\<lparr>wl_finality_confirmations = 1, wl_network = Testnet, wl_target_block = 1\<rparr>"
  have 1: "max_giveable ?w short_wallet (sample_source r) SCRIPT_SIZE () = (Ok 199500, ())"
    by (simp add: max_giveable_def bindio_def short_wallet_def sample_source_def DUST_AMOUNT_def)
  have 2: "wallet_sync short_wallet () = (Ok (), ())"
    "wallet_new_address short_wallet () = (Ok \<lparr>addr_network = Testnet, addr_payload = 1\<rparr>, ())"
    by (simp_all add: wallet_sync_def wallet_new_address_def context_io_def short_wallet_def sample_wallet_def)
  have 3: "fs_estimate_feerate (sample_source r) (wl_target_block ?w) () = (Ok r, ())"
    "fs_min_relay_fee (sample_source r) () = (Ok 1000, ())" by (simp_all add: sample_source_def)
  have 4: "bq_max_quantity sample_bid \<noteq> 0" "(199500::u64) < bq_min_quantity sample_bid" "bq_min_quantity sample_bid - 199500 \<le> 546"
    by (simp_all add: sample_bid_def)
  show "determine_btc_to_swap (funding_of exact_fees (rate_of 2) ?w short_wallet (sample_source r) (\<lambda>_. Ok ()))
      False sample_bid None () = Some (Err (Msg ''Amounts needs to be greater than Bitcoin dust amount.''), ())"
    by (rule small_gap_ends_the_swap[OF refl 4(1) 2(1) 1 4(2,3) 2(2) _ 3]) simp
qed

end
