(* ===== verification/Swap_Api.thy ===== *)
theory Swap_Api
  imports Swap_Amount Recovery Sqlite
begin

text \<open>
  Starting, resuming and stopping swaps: \<open>SwapLock\<close> of \<open>cli/api.rs\<close> and the requests of
  \<open>cli/api/request.rs\<close> that hold it. Each request is cut where it waits for something that other tasks
  can get in between of; the pieces run on the world \<open>api_context\<close>, in which \<open>cx_current_swap\<close> is the lock.
  \<open>api_step\<close> interleaves them: a state is the world and the list of tasks, each with its swap and
  the piece it has reached. What the other components do is the record \<open>api\<close>.
\<close>

section \<open>The lock\<close>

record 'v api_context =
  cx_current_swap :: "uuid option"
  cx_ext :: 'v

definition acquire_swap_lock :: "uuid \<Rightarrow> ('v api_context, unit) io" where
  "acquire_swap_lock swap_id = (\<lambda>w.
     if cx_current_swap w \<noteq> None then (Err (Msg ''There already exists an active swap lock''), w)
     else (Ok (), w\<lparr>cx_current_swap := Some swap_id\<rparr>))"

definition get_current_swap_id :: "('v api_context, uuid option) io" where
  "get_current_swap_id = (\<lambda>w. (Ok (cx_current_swap w), w))"

definition release_swap_lock :: "('v api_context, uuid) io" where
  "release_swap_lock = (\<lambda>w. case cx_current_swap w of
     Some prev_swap_id \<Rightarrow> (Ok prev_swap_id, w\<lparr>cx_current_swap := None\<rparr>)
   | None \<Rightarrow> (Err (Msg ''There is no current swap lock to release''), w))"

text \<open>
  The signal: \<open>receivers\<close> is the number of tasks that listen, \<open>reads\<close> the values of the lock that the
  polling sees, one per interval. Sending on a broadcast channel without receivers is an error.
\<close>

definition send_suspend_signal :: "nat \<Rightarrow> uuid option list \<Rightarrow> unit outcome" where
  "send_suspend_signal receivers reads =
     (if receivers = 0 then Err (Msg ''channel closed'')
      else if None \<in> set (take (10000 div 50) reads) then Ok ()
      else Err (Msg ''Timed out waiting for swap lock to be released''))"

definition suspend_current_swap :: "nat \<Rightarrow> uuid option list \<Rightarrow> ('v api_context, uuid) io" where
  "suspend_current_swap receivers reads =
     bindio get_current_swap_id (\<lambda>swap_id. case swap_id of
       Some id_value \<Rightarrow> bindio (lift (send_suspend_signal receivers reads)) (\<lambda>_. ret id_value)
     | None \<Rightarrow> lift (Err (Msg ''No swap is currently running'')))"

definition release_or_panic :: "string \<Rightarrow> ('v api_context, unit) io" where
  "release_or_panic message = (\<lambda>w. case release_swap_lock w of (r, w') \<Rightarrow> (omap (\<lambda>_. ()) (expect_ok message r), w'))"

definition shutdown_panic :: string where
  "shutdown_panic = ''Shutdown signal received but failed to release swap lock. The swap process has been terminated but the swap lock is still active.''"

section \<open>Buying\<close>

record buy_args =
  ba_seller :: multiaddr
  ba_bitcoin_change_address :: address
  ba_beldex_receive_address :: bdx_address
  ba_amount :: "btc_amount option"

record 'v api =
  api_has_bitcoin_wallet :: bool
  api_has_beldex_wallet :: bool
  api_has_seed :: bool
  api_extract_peer_id :: "multiaddr \<Rightarrow> peer_id option"
  api_insert_address :: "peer_id \<Rightarrow> multiaddr \<Rightarrow> 'v \<Rightarrow> unit outcome \<times> 'v"
  api_insert_beldex_address :: "uuid \<Rightarrow> bdx_address \<Rightarrow> 'v \<Rightarrow> unit outcome \<times> 'v"
  api_new_swarm :: "'v \<Rightarrow> unit outcome \<times> 'v"
  api_get_peer_id :: "uuid \<Rightarrow> 'v \<Rightarrow> peer_id outcome \<times> 'v"
  api_get_addresses :: "peer_id \<Rightarrow> 'v \<Rightarrow> multiaddr list outcome \<times> 'v"
  api_new_event_loop :: "uuid \<Rightarrow> peer_id \<Rightarrow> 'v \<Rightarrow> unit outcome \<times> 'v"
  api_get_beldex_address :: "uuid \<Rightarrow> 'v \<Rightarrow> bdx_address outcome \<times> 'v"
  api_get_state :: "uuid \<Rightarrow> 'v \<Rightarrow> swap_state outcome \<times> 'v"
  api_cancel_and_refund :: "uuid \<Rightarrow> 'v \<Rightarrow> bob_state outcome \<times> 'v"

definition outside :: "('v \<Rightarrow> 'a outcome \<times> 'v) \<Rightarrow> ('v api_context, 'a) io" where
  "outside f = (\<lambda>w. case f (cx_ext w) of (r, v) \<Rightarrow> (r, w\<lparr>cx_ext := v\<rparr>))"

definition present :: "bool \<Rightarrow> string \<Rightarrow> ('v api_context, unit) io" where
  "present b message = lift (if b then Ok () else Err (Msg message))"

text \<open>\<open>buy_beldex\<close> up to the lock.\<close>

definition buy_beldex_begin :: "'v api \<Rightarrow> buy_args \<Rightarrow> uuid \<Rightarrow> ('v api_context, peer_id) io" where
  "buy_beldex_begin A args swap_id =
     bindio (lift (if api_has_bitcoin_wallet A then Ok () else Panic ''Could not find Bitcoin wallet'')) (\<lambda>_.
     bindio (present (api_has_beldex_wallet A) ''Could not get Beldex wallet'') (\<lambda>_.
     bindio (present (api_has_seed A) ''Could not get seed'') (\<lambda>_.
     bindio (lift (of_option (Msg ''Seller address must contain peer ID'') (api_extract_peer_id A (ba_seller args))))
       (\<lambda>seller_peer_id.
     bindio (outside (api_insert_address A seller_peer_id (ba_seller args))) (\<lambda>_.
     bindio (outside (api_new_swarm A)) (\<lambda>_.
     bindio (outside (api_insert_beldex_address A swap_id (ba_beldex_receive_address args))) (\<lambda>_.
     bindio (acquire_swap_lock swap_id) (\<lambda>_.
     ret seller_peer_id))))))))"

text \<open>The event loop is started and a quote is requested, unless the signal comes first.\<close>

datatype buy_start = Suspended | Initialised "bid_quote outcome"

definition buy_beldex_initialise :: "buy_start \<Rightarrow> ('v api_context, bid_quote) io" where
  "buy_beldex_initialise initialize_swap = (case initialize_swap of
     Suspended \<Rightarrow>
       bindio (release_or_panic shutdown_panic) (\<lambda>_. lift (Err (Msg ''Shutdown signal received'')))
   | Initialised (Ok bid_quote) \<Rightarrow> ret bid_quote
   | Initialised (Err e) \<Rightarrow> bindio (release_or_panic ''Could not release swap lock'') (\<lambda>_. lift (Err e))
   | Initialised (Panic p) \<Rightarrow> lift (Panic p)
   | Initialised Pending \<Rightarrow> lift Pending)"

text \<open>The swap itself, inside the task; \<open>insert_peer\<close> is the call \<open>insert_peer_id\<close> to the database.\<close>

definition buy_beldex_swap ::
  "'v env \<Rightarrow> 'v world funding \<Rightarrow> (uuid \<Rightarrow> peer_id \<Rightarrow> ('v world, unit) io) \<Rightarrow> bool \<Rightarrow> bid_quote \<Rightarrow> uuid \<Rightarrow> peer_id \<Rightarrow>
   buy_args \<Rightarrow> ('v world, bob_state) loop_io" where
  "buy_beldex_swap E W insert_peer json bid_quote swap_id seller_peer_id args =
     bindloop (\<lambda>w. map_option (\<lambda>(r, w'). (case r of
         Err e \<Rightarrow> if e = ZeroQuoteReceived
           then Err (Msg ''Seller's Beldex balance is currently too low to initiate a swap, please try again later'')
           else Err e
       | _ \<Rightarrow> r, w')) (determine_btc_to_swap W json bid_quote (ba_amount args) w)) (\<lambda>(amount, fees).
     bindloop (once (insert_peer swap_id seller_peer_id)) (\<lambda>_.
     bob_run E swap_id (ba_beldex_receive_address args) (BStarted amount (ba_bitcoin_change_address args))))"

text \<open>How the task of a swap ends: by the signal, or by itself.\<close>

datatype task_end = TaskSuspended | TaskEnded

definition swap_task_end :: "task_end \<Rightarrow> ('v api_context, unit) io" where
  "swap_task_end e = (case e of
     TaskSuspended \<Rightarrow> bindio (release_or_panic shutdown_panic) (\<lambda>_. lift (Err (Msg ''Shutdown signal received'')))
   | TaskEnded \<Rightarrow> release_or_panic ''Could not release swap lock'')"

section \<open>Resuming, cancelling\<close>

definition swap_from_db :: "'v api \<Rightarrow> uuid \<Rightarrow> ('v api_context, bob_state) io" where
  "swap_from_db A swap_id = bindio (outside (api_get_state A swap_id)) (\<lambda>s. lift (try_into_bob_state s))"

text \<open>\<open>resume_swap\<close> after it has taken the lock, up to the task.\<close>

definition resume_swap_prepare :: "'v api \<Rightarrow> uuid \<Rightarrow> ('v api_context, bob_state) io" where
  "resume_swap_prepare A swap_id =
     bindio (outside (api_get_peer_id A swap_id)) (\<lambda>seller_peer_id.
     bindio (outside (api_get_addresses A seller_peer_id)) (\<lambda>seller_addresses.
     bindio (present (api_has_seed A) ''Could not get seed'') (\<lambda>_.
     bindio (present (api_has_bitcoin_wallet A) ''Could not get Bitcoin wallet'') (\<lambda>_.
     bindio (outside (api_new_swarm A)) (\<lambda>_.
     bindio (outside (api_new_event_loop A swap_id seller_peer_id)) (\<lambda>_.
     bindio (outside (api_get_beldex_address A swap_id)) (\<lambda>beldex_receive_address.
     bindio (present (api_has_bitcoin_wallet A) ''Could not get Bitcoin wallet'') (\<lambda>_.
     bindio (present (api_has_beldex_wallet A) ''Could not get Beldex wallet'') (\<lambda>_.
     swap_from_db A swap_id)))))))))"

definition cancel_and_refund_begin :: "'v api \<Rightarrow> uuid \<Rightarrow> ('v api_context, unit) io" where
  "cancel_and_refund_begin A swap_id =
     bindio (present (api_has_bitcoin_wallet A) ''Could not get Bitcoin wallet'') (\<lambda>_.
     acquire_swap_lock swap_id)"

definition cancel_and_refund_end :: "'v api \<Rightarrow> uuid \<Rightarrow> ('v api_context, bob_state) io" where
  "cancel_and_refund_end A swap_id =
     bindio (attempt (outside (api_cancel_and_refund A swap_id))) (\<lambda>state.
     bindio (release_or_panic ''Could not release swap lock'') (\<lambda>_.
     lift (case state of Inl e \<Rightarrow> Err e | Inr s \<Rightarrow> Ok s)))"

section \<open>Tasks in turn\<close>

datatype api_phase = Initialising | Preparing | Running | Refunding

type_synonym 'v api_state = "'v api_context \<times> (uuid \<times> api_phase) list"

definition listening :: "(uuid \<times> api_phase) list \<Rightarrow> nat" where
  "listening ts = length (filter (\<lambda>t. snd t \<in> {Initialising, Running}) ts)"

inductive api_step :: "'v api \<Rightarrow> 'v api_state \<Rightarrow> 'v api_state \<Rightarrow> bool" for A where
  buy_begun: "buy_beldex_begin A args i w = (Ok p, w') \<Longrightarrow> api_step A (w, ts) (w', (i, Initialising) # ts)"
| buy_refused: "buy_beldex_begin A args i w = (r, w') \<Longrightarrow> \<forall>p. r \<noteq> Ok p \<Longrightarrow> api_step A (w, ts) (w', ts)"
| initialised: "(i, Initialising) \<in> set ts \<Longrightarrow> buy_beldex_initialise b w = (Ok q, w') \<Longrightarrow>
    api_step A (w, ts) (w', (i, Running) # remove1 (i, Initialising) ts)"
| not_initialised: "(i, Initialising) \<in> set ts \<Longrightarrow> buy_beldex_initialise b w = (Err e, w') \<Longrightarrow>
    api_step A (w, ts) (w', remove1 (i, Initialising) ts)"
| task_ended: "(i, Running) \<in> set ts \<Longrightarrow> swap_task_end e w = (r, w') \<Longrightarrow> api_step A (w, ts) (w', remove1 (i, Running) ts)"
| resume_begun: "acquire_swap_lock i w = (Ok (), w') \<Longrightarrow> api_step A (w, ts) (w', (i, Preparing) # ts)"
| resume_prepared: "(i, Preparing) \<in> set ts \<Longrightarrow> resume_swap_prepare A i w = (Ok s, w') \<Longrightarrow>
    api_step A (w, ts) (w', (i, Running) # remove1 (i, Preparing) ts)"
| resume_failed: "(i, Preparing) \<in> set ts \<Longrightarrow> resume_swap_prepare A i w = (Err e, w') \<Longrightarrow>
    api_step A (w, ts) (w', remove1 (i, Preparing) ts)"
| refund_begun: "cancel_and_refund_begin A i w = (Ok (), w') \<Longrightarrow> api_step A (w, ts) (w', (i, Refunding) # ts)"
| refund_ended: "(i, Refunding) \<in> set ts \<Longrightarrow> cancel_and_refund_end A i w = (r, w') \<Longrightarrow> r \<noteq> Pending \<Longrightarrow>
    api_step A (w, ts) (w', remove1 (i, Refunding) ts)"
| elsewhere: "api_step A (w, ts) (w\<lparr>cx_ext := v\<rparr>, ts)"

end
