(* ===== verification/Swap_Api_Properties.thy ===== *)
theory Swap_Api_Properties
  imports Swap_Api Swap_Amount_Properties
begin

text \<open>
  What the lock around swaps gives: the locale \<open>exclusive_lock\<close> states what its clients rely on,
  interpreted on the operations of \<open>SwapLock\<close>. From it, that no two swaps run at a time and no release
  panics, and that a swap that could not be resumed leaves the lock taken for good.
\<close>

section \<open>A lock with a holder\<close>

locale exclusive_lock =
  fixes holder :: "'w \<Rightarrow> 'k option" and acquire :: "'k \<Rightarrow> ('w, unit) io" and release :: "('w, 'k) io"
  assumes acquire_free: "holder w = None \<Longrightarrow> \<exists>w'. acquire k w = (Ok (), w') \<and> holder w' = Some k"
    and acquire_taken: "holder w \<noteq> None \<Longrightarrow> \<exists>e. acquire k w = (Err e, w)"
    and release_held: "holder w = Some k \<Longrightarrow> \<exists>w'. release w = (Ok k, w') \<and> holder w' = None"
    and release_free: "holder w = None \<Longrightarrow> \<exists>e. release w = (Err e, w)"
begin

lemma acquire_OkD: "acquire k w = (Ok (), w') \<Longrightarrow> holder w = None \<and> holder w' = Some k"
  using acquire_free[of w k] acquire_taken[of w k] by (cases "holder w") auto

lemma acquire_ErrD: "acquire k w = (Err e, w') \<Longrightarrow> w' = w \<and> holder w \<noteq> None"
  using acquire_free[of w k] acquire_taken[of w k] by (cases "holder w") auto

lemma acquire_cases: "(\<exists>w'. acquire k w = (Ok (), w')) \<or> (\<exists>e. acquire k w = (Err e, w))"
  using acquire_free[of w k] acquire_taken[of w k] by (cases "holder w") auto

lemma release_holder: "holder w = Some k \<Longrightarrow> release w = (r, w') \<Longrightarrow> r = Ok k \<and> holder w' = None"
  using release_held[of w k] by auto

end

interpretation swap_lock: exclusive_lock cx_current_swap acquire_swap_lock release_swap_lock
  by unfold_locales (auto simp: acquire_swap_lock_def release_swap_lock_def)

section \<open>What each piece does to the lock\<close>

lemma release_or_panic_held:
  "cx_current_swap w = Some i \<Longrightarrow> release_or_panic m w = (Ok (), w\<lparr>cx_current_swap := None\<rparr>)"
  by (simp add: release_or_panic_def release_swap_lock_def)

definition keeps_lock :: "('v api_context, 'a) io \<Rightarrow> bool" where
  "keeps_lock m \<longleftrightarrow> (\<forall>w. cx_current_swap (snd (m w)) = cx_current_swap w)"

lemma keeps_lock_bindio: "keeps_lock m \<Longrightarrow> (\<And>x. keeps_lock (f x)) \<Longrightarrow> keeps_lock (bindio m f)"
  unfolding keeps_lock_def bindio_def by (auto split: prod.splits outcome.splits) (metis snd_conv)+

lemma keeps_simple: "keeps_lock (ret x)" "keeps_lock (lift y)" "keeps_lock (outside g)" "keeps_lock (present b c)"
  by (simp_all add: keeps_lock_def outside_def present_def split: prod.split)

lemma keeps_prepare: "keeps_lock (resume_swap_prepare A i)"
  unfolding resume_swap_prepare_def swap_from_db_def by (intro keeps_lock_bindio keeps_simple)

lemma keepsD: "keeps_lock m \<Longrightarrow> m w = (r, w') \<Longrightarrow> cx_current_swap w' = cx_current_swap w"
  unfolding keeps_lock_def by (metis snd_conv)

lemma buy_begin_lock:
  assumes "buy_beldex_begin A args i w = (r, w')"
  shows "if \<exists>p. r = Ok p then cx_current_swap w = None \<and> cx_current_swap w' = Some i
    else cx_current_swap w' = cx_current_swap w"
proof -
  define before where "before = bindio (lift (if api_has_bitcoin_wallet A then Ok () else Panic ''Could not find Bitcoin wallet'')) (\<lambda>_.
     bindio (present (api_has_beldex_wallet A) ''Could not get Beldex wallet'') (\<lambda>_.
     bindio (present (api_has_seed A) ''Could not get seed'') (\<lambda>_.
     bindio (lift (of_option (Msg ''Seller address must contain peer ID'') (api_extract_peer_id A (ba_seller args))))
       (\<lambda>seller_peer_id.
     bindio (outside (api_insert_address A seller_peer_id (ba_seller args))) (\<lambda>_.
     bindio (outside (api_new_swarm A)) (\<lambda>_.
     bindio (outside (api_insert_beldex_address A i (ba_beldex_receive_address args))) (\<lambda>_.
     ret seller_peer_id)))))))"
  have "keeps_lock before" unfolding before_def by (intro keeps_lock_bindio keeps_simple)
  have "buy_beldex_begin A args i = bindio before (\<lambda>p. bindio (acquire_swap_lock i) (\<lambda>_. ret p))"
    unfolding before_def buy_beldex_begin_def bindio_def by (auto simp: fun_eq_iff split: prod.splits outcome.splits)
  hence run: "bindio before (\<lambda>p. bindio (acquire_swap_lock i) (\<lambda>_. ret p)) w = (r, w')" using assms by simp
  obtain r1 w1 where b: "before w = (r1, w1)" by fastforce
  note k = keepsD[OF \<open>keeps_lock before\<close> b]
  show ?thesis
  proof (cases r1)
    case (Ok p)
    hence acq: "bindio (acquire_swap_lock i) (\<lambda>_. ret p) w1 = (r, w')" using run b by (simp add: bindio_def)
    consider w2 where "acquire_swap_lock i w1 = (Ok (), w2)" | e where "acquire_swap_lock i w1 = (Err e, w1)"
      using swap_lock.acquire_cases by blast
    thus ?thesis
    proof cases
      case 1
      thus ?thesis using acq k swap_lock.acquire_OkD[OF 1] by (auto simp: bindio_def)
    next
      case 2
      thus ?thesis using acq k by (auto simp: bindio_def)
    qed
  qed (use run b k in \<open>auto simp: bindio_def\<close>)
qed

section \<open>One swap at a time\<close>

definition one_at_a_time :: "'v api_state \<Rightarrow> bool" where
  "one_at_a_time s \<longleftrightarrow> snd s = [] \<or> (\<exists>i phase. snd s = [(i, phase)] \<and> cx_current_swap (fst s) = Some i)"

lemma one_task: "one_at_a_time (w, ts) \<Longrightarrow> (i, ph) \<in> set ts \<Longrightarrow> ts = [(i, ph)] \<and> cx_current_swap w = Some i"
  by (auto simp: one_at_a_time_def)

lemma step_one_at_a_time:
  assumes "api_step A s s'" "one_at_a_time s"
  shows "one_at_a_time s'"
  using assms
proof cases
  case (buy_begun args i w p w' ts)
  thus ?thesis using buy_begin_lock[OF buy_begun(3)] assms(2) by (auto simp: one_at_a_time_def)
next
  case (buy_refused args i w r w' ts)
  thus ?thesis using buy_begin_lock[OF buy_refused(3)] assms(2) by (auto simp: one_at_a_time_def)
next
  case (initialised i ts b w q w')
  hence "ts = [(i, Initialising)] \<and> cx_current_swap w = Some i" using one_task assms(2) by blast
  thus ?thesis using initialised
    by (auto simp: one_at_a_time_def buy_beldex_initialise_def bindio_eq_Ok split: buy_start.splits outcome.splits)
next
  case (resume_prepared i ts w s w')
  hence "ts = [(i, Preparing)] \<and> cx_current_swap w = Some i" using one_task assms(2) by blast
  thus ?thesis using resume_prepared keepsD[OF keeps_prepare resume_prepared(4)] by (simp add: one_at_a_time_def)
qed (use assms(2) swap_lock.acquire_OkD in \<open>auto simp: one_at_a_time_def cancel_and_refund_begin_def bindio_eq_Ok present_def
    split: if_splits\<close>)

lemma steps_one_at_a_time: "(api_step A)\<^sup>*\<^sup>* s s' \<Longrightarrow> one_at_a_time s \<Longrightarrow> one_at_a_time s'"
  by (induction rule: rtranclp_induct) (auto intro: step_one_at_a_time)

text \<open>
  C34: however requests and tasks interleave, at most one task is between taking the lock and releasing it,
  the lock names its swap, no other request can take the lock, and releasing it at the task's end
  does not panic.
\<close>

theorem one_swap_at_a_time:
  assumes "(api_step A)\<^sup>*\<^sup>* (\<lparr>cx_current_swap = None, cx_ext = v\<rparr>, []) (w, ts)"
  shows "length ts \<le> 1 \<and> (\<forall>(i, phase)\<in>set ts. cx_current_swap w = Some i \<and> (\<forall>j. \<exists>e. acquire_swap_lock j w = (Err e, w)) \<and>
    (\<forall>ending. \<exists>r. swap_task_end ending w = (r, w\<lparr>cx_current_swap := None\<rparr>) \<and> (\<forall>p. r \<noteq> Panic p)))"
proof -
  have "one_at_a_time (w, ts)" by (rule steps_one_at_a_time[OF assms]) (simp add: one_at_a_time_def)
  hence ts: "ts = [] \<or> (\<exists>i phase. ts = [(i, phase)] \<and> cx_current_swap w = Some i)" by (simp add: one_at_a_time_def)
  have "\<exists>r. swap_task_end ending w = (r, w\<lparr>cx_current_swap := None\<rparr>) \<and> (\<forall>p. r \<noteq> Panic p)"
    if "cx_current_swap w = Some i" for i ending
    using release_or_panic_held[OF that] by (cases ending) (simp_all add: swap_task_end_def bindio_def)
  thus ?thesis using ts swap_lock.acquire_taken by fastforce
qed

section \<open>A swap that cannot be resumed\<close>

definition stuck :: "uuid \<Rightarrow> 'v api_state \<Rightarrow> bool" where
  "stuck i s \<longleftrightarrow> snd s = [] \<and> cx_current_swap (fst s) = Some i"

lemma step_stuck: "api_step A s s' \<Longrightarrow> stuck i s \<Longrightarrow> stuck i s'"
proof (cases rule: api_step.cases, assumption)
  fix args j w p w' ts
  assume "stuck i s" "s = (w, ts)" "buy_beldex_begin A args j w = (Ok p, w')"
  thus ?thesis using buy_begin_lock by (fastforce simp: stuck_def)
next
  fix args j w r w' ts
  assume "stuck i s" "s = (w, ts)" "s' = (w', ts)" "buy_beldex_begin A args j w = (r, w')" "\<forall>p. r \<noteq> Ok p"
  thus ?thesis using buy_begin_lock[of A args j w r w'] by (auto simp: stuck_def)
qed (auto simp: stuck_def cancel_and_refund_begin_def bindio_eq_Ok present_def dest: swap_lock.acquire_OkD split: if_splits)

lemma steps_stuck: "(api_step A)\<^sup>*\<^sup>* s s' \<Longrightarrow> stuck i s \<Longrightarrow> stuck i s'"
  by (induction rule: rtranclp_induct) (auto intro: step_stuck)

text \<open>
  when \<open>resume_swap\<close> fails after it has taken the lock, for example because the database has no peer for
  the swap, the lock is never released: from then on no swap can be bought, resumed or refunded, and the
  request to suspend fails too.
\<close>

theorem failed_resume_blocks_swaps:
  assumes "acquire_swap_lock i w = (Ok (), w1)" "resume_swap_prepare A i w1 = (Err e, w2)"
    and "(api_step A)\<^sup>*\<^sup>* (w2, []) (w3, ts)"
  shows "ts = [] \<and> cx_current_swap w3 = Some i \<and> (\<forall>j. \<exists>e. acquire_swap_lock j w3 = (Err e, w3)) \<and>
    (\<forall>args j p. fst (buy_beldex_begin A args j w3) \<noteq> Ok p) \<and> (\<forall>j. fst (cancel_and_refund_begin A j w3) \<noteq> Ok ()) \<and>
    (\<forall>reads. suspend_current_swap (listening ts) reads w3 = (Err (Msg ''channel closed''), w3))"
proof -
  have "cx_current_swap w2 = Some i"
    using swap_lock.acquire_OkD[OF assms(1)] keepsD[OF keeps_prepare assms(2)] by simp
  hence "stuck i (w2, [])" by (simp add: stuck_def)
  from steps_stuck[OF assms(3) this] have st: "ts = []" "cx_current_swap w3 = Some i" by (simp_all add: stuck_def)
  have "fst (buy_beldex_begin A args j w3) \<noteq> Ok p" for args j p
    using buy_begin_lock[OF prod.collapse[symmetric], of A args j w3] st(2) by auto
  moreover have "fst (cancel_and_refund_begin A j w3) \<noteq> Ok ()" for j
  proof -
    obtain e where "acquire_swap_lock j w3 = (Err e, w3)" using swap_lock.acquire_taken st(2) by fastforce
    thus ?thesis by (simp add: cancel_and_refund_begin_def present_def bindio_def)
  qed
  moreover have "\<exists>e. acquire_swap_lock j w3 = (Err e, w3)" for j using swap_lock.acquire_taken st(2) by fastforce
  ultimately show ?thesis using st
    by (simp add: suspend_current_swap_def get_current_swap_id_def bindio_def send_suspend_signal_def listening_def)
qed

section \<open>A concrete application\<close>

definition sample_api :: "unit api" where
  "sample_api = \<lparr>api_has_bitcoin_wallet = True, api_has_beldex_wallet = True, api_has_seed = True,
     api_extract_peer_id = Some, api_insert_address = (\<lambda>p a v. (Ok (), v)), api_insert_beldex_address = (\<lambda>i a v. (Ok (), v)),
     api_new_swarm = (\<lambda>v. (Ok (), v)), api_get_peer_id = (\<lambda>i v. (if i = 7 then Ok 9 else Err (Msg ''no rows''), v)),
     api_get_addresses = (\<lambda>p v. (Ok [], v)), api_new_event_loop = (\<lambda>i p v. (Ok (), v)),
     api_get_beldex_address = (\<lambda>i v. (Err (Msg ''no rows''), v)), api_get_state = (\<lambda>i v. (Err (Msg ''no rows''), v)),
     api_cancel_and_refund = (\<lambda>i v. (Err (Msg ''no rows''), v))\<rparr>"

definition free_lock :: "unit api_context" where "free_lock = \<lparr>cx_current_swap = None, cx_ext = ()\<rparr>"

lemma sample_buy: "buy_beldex_begin sample_api \<lparr>ba_seller = 9, ba_bitcoin_change_address = a, ba_beldex_receive_address = b,
    ba_amount = None\<rparr> 5 free_lock = (Ok 9, \<lparr>cx_current_swap = Some 5, cx_ext = ()\<rparr>)"
  by (simp add: buy_beldex_begin_def bindio_def present_def outside_def acquire_swap_lock_def sample_api_def free_lock_def)

theorem one_swap_at_a_time_witness:
  "\<exists>e. acquire_swap_lock 6 \<lparr>cx_current_swap = Some 5, cx_ext = ()\<rparr> = (Err e, \<lparr>cx_current_swap = Some 5, cx_ext = ()\<rparr>)"
proof -
  have "api_step sample_api (free_lock, []) (\<lparr>cx_current_swap = Some 5, cx_ext = ()\<rparr>, [(5, Initialising)])"
    by (rule api_step.buy_begun[OF sample_buy])
  hence "(api_step sample_api)\<^sup>*\<^sup>* (\<lparr>cx_current_swap = None, cx_ext = ()\<rparr>, [])
      (\<lparr>cx_current_swap = Some 5, cx_ext = ()\<rparr>, [(5, Initialising)])" by (simp add: free_lock_def)
  from one_swap_at_a_time[OF this] show ?thesis by simp
qed

theorem failed_resume_blocks_swaps_witness:
  "\<exists>e. acquire_swap_lock 7 \<lparr>cx_current_swap = Some 4, cx_ext = ()\<rparr> = (Err e, \<lparr>cx_current_swap = Some 4, cx_ext = ()\<rparr>)"
proof -
  have 1: "acquire_swap_lock 4 free_lock = (Ok (), \<lparr>cx_current_swap = Some 4, cx_ext = ()\<rparr>)"
    by (simp add: acquire_swap_lock_def free_lock_def)
  have 2: "resume_swap_prepare sample_api 4 \<lparr>cx_current_swap = Some 4, cx_ext = ()\<rparr> =
      (Err (Msg ''no rows''), \<lparr>cx_current_swap = Some 4, cx_ext = ()\<rparr>)"
    by (simp add: resume_swap_prepare_def bindio_def outside_def sample_api_def)
  from failed_resume_blocks_swaps[OF 1 2 rtranclp.rtrancl_refl] show ?thesis by blast
qed

end
