(* ===== verification/Call_Log.thy ===== *)
theory Call_Log
  imports Prelude
begin

text \<open>
  Code whose effects are calls without answers: the world is the list of the calls made so far.
\<close>

definition tell :: "'c \<Rightarrow> ('c list, unit) io" where
  "tell c = (\<lambda>w. (Ok (), w @ [c]))"

lemma tell_bind [simp]: "bindio (tell c) f w = f () (w @ [c])"
  by (simp add: bindio_def tell_def)

lemma tell_apply: "tell c w = (Ok (), w @ [c])"
  by (simp add: tell_def)

text \<open>Code that always succeeds and appends to the log, as a function of what it appends and returns.\<close>

definition yields :: "('c list, 'a) io \<Rightarrow> 'a \<Rightarrow> 'c list \<Rightarrow> bool" where
  "yields m x cs \<longleftrightarrow> (\<forall>w. m w = (Ok x, w @ cs))"

lemma yields_ret: "yields (ret x) x []"
  by (simp add: yields_def ret_def)

lemma yields_tell: "yields (tell c) () [c]"
  by (simp add: yields_def tell_def)

lemma yields_bind: "yields m x cs \<Longrightarrow> yields (f x) y ds \<Longrightarrow> yields (bindio m f) y (cs @ ds)"
  by (simp add: yields_def bindio_def)

lemma yieldsD: "yields m x cs \<Longrightarrow> m w = (r, w') \<Longrightarrow> r = Ok x \<and> w' = w @ cs"
  by (simp add: yields_def)

end
