(* ===== verification/List_Sellers.thy ===== *)
theory List_Sellers
  imports Rates Sqlite Call_Log "HOL-Library.AList"
begin

text \<open>
  \<open>cli/list_sellers.rs\<close>: discovering sellers at a rendezvous node and fetching their quotes. The loop runs
  on the list of events that the swarm delivers; what it tells the swarm is the world, a list of calls.
  A \<open>HashMap\<close> is an association list without repeated keys; the list that is returned is sorted, so that
  the order of iteration does not show. A \<open>Multiaddr\<close> is a number, in the order of its bytes, the
  empty address is 0.
\<close>

section \<open>Sellers and their order\<close>

datatype seller_status = Online bid_quote | Unreachable

datatype seller = Seller (se_status: seller_status) (se_multiaddr: multiaddr)

text \<open>The derived order of \<open>BidQuote\<close>: field by field.\<close>

definition bid_quote_less :: "bid_quote \<Rightarrow> bid_quote \<Rightarrow> bool" where
  "bid_quote_less q r \<longleftrightarrow>
     bq_price q < bq_price r \<or> bq_price q = bq_price r \<and>
     (bq_min_quantity q < bq_min_quantity r \<or> bq_min_quantity q = bq_min_quantity r \<and>
      bq_max_quantity q < bq_max_quantity r)"

lemma bid_quote_less_irrefl: "\<not> bid_quote_less q q"
  by (simp add: bid_quote_less_def)

lemma bid_quote_less_trans: "bid_quote_less p q \<Longrightarrow> bid_quote_less q r \<Longrightarrow> bid_quote_less p r"
  by (auto simp: bid_quote_less_def)

lemma bid_quote_less_linear: "bid_quote_less q r \<or> q = r \<or> bid_quote_less r q"
  by (cases q; cases r) (auto simp: bid_quote_less_def)

text \<open>A strict order and its reflexive closure are what the class \<open>linorder\<close> asks for.\<close>

lemma strict_order_laws:
  assumes "\<And>x. \<not> lt x x" "\<And>x y z. lt x y \<Longrightarrow> lt y z \<Longrightarrow> lt x z" "\<And>x y. lt x y \<or> x = y \<or> lt y x"
    and le: "\<And>x y. le x y \<longleftrightarrow> lt x y \<or> x = y"
  shows "lt x y \<longleftrightarrow> le x y \<and> \<not> le y x" "le x x" "le x y \<Longrightarrow> le y z \<Longrightarrow> le x z"
    "le x y \<Longrightarrow> le y x \<Longrightarrow> x = y" "le x y \<or> le y x"
proof -
  show "lt x y \<longleftrightarrow> le x y \<and> \<not> le y x" "le x x" "le x y \<or> le y x"
    using assms(1-3) unfolding le by blast+
  show "le x y \<Longrightarrow> le y z \<Longrightarrow> le x z" "le x y \<Longrightarrow> le y x \<Longrightarrow> x = y"
    using assms(1,2) unfolding le by blast+
qed

fun seller_status_less :: "seller_status \<Rightarrow> seller_status \<Rightarrow> bool" where
  "seller_status_less (Online q) (Online r) = bid_quote_less q r"
| "seller_status_less (Online q) Unreachable = True"
| "seller_status_less Unreachable s = False"

lemma seller_status_order:
  "\<not> seller_status_less s s"
  "seller_status_less s t \<Longrightarrow> seller_status_less t u \<Longrightarrow> seller_status_less s u"
  "seller_status_less s t \<or> s = t \<or> seller_status_less t s"
proof -
  show "\<not> seller_status_less s s" by (cases s) (simp_all add: bid_quote_less_irrefl)
  show "seller_status_less s t \<Longrightarrow> seller_status_less t u \<Longrightarrow> seller_status_less s u"
    by (cases s; cases t; cases u) (auto intro: bid_quote_less_trans)
  show "seller_status_less s t \<or> s = t \<or> seller_status_less t s"
    using bid_quote_less_linear by (cases s; cases t) auto
qed

instantiation seller_status :: linorder
begin

definition less_seller_status :: "seller_status \<Rightarrow> seller_status \<Rightarrow> bool" where
  "less_seller_status s t = seller_status_less s t"

definition less_eq_seller_status :: "seller_status \<Rightarrow> seller_status \<Rightarrow> bool" where
  "less_eq_seller_status s t \<longleftrightarrow> seller_status_less s t \<or> s = t"

instance
  by standard (unfold less_seller_status_def,
    (rule strict_order_laws[OF seller_status_order less_eq_seller_status_def]; assumption)+)

end

definition seller_less :: "seller \<Rightarrow> seller \<Rightarrow> bool" where
  "seller_less x y \<longleftrightarrow> se_status x < se_status y \<or> se_status x = se_status y \<and> se_multiaddr x < se_multiaddr y"

lemma seller_order:
  "\<not> seller_less x x" "seller_less x y \<Longrightarrow> seller_less y z \<Longrightarrow> seller_less x z"
  "seller_less x y \<or> x = y \<or> seller_less y x"
  by (auto simp: seller_less_def intro: seller.expand)

instantiation seller :: linorder
begin

definition less_seller :: "seller \<Rightarrow> seller \<Rightarrow> bool" where
  "less_seller x y = seller_less x y"

definition less_eq_seller :: "seller \<Rightarrow> seller \<Rightarrow> bool" where
  "less_eq_seller x y \<longleftrightarrow> seller_less x y \<or> x = y"

instance
  by standard (unfold less_seller_def, (rule strict_order_laws[OF seller_order less_eq_seller_def]; assumption)+)

end

section \<open>The event loop\<close>

datatype quote_status = QuotePending | QuoteKnown seller_status

datatype sellers_state = WaitForDiscovery | WaitForQuoteCompletion

record sellers_loop =
  sl_rendezvous_peer_id :: peer_id
  sl_reachable_asb_address :: "(peer_id \<times> multiaddr) list"
  sl_unreachable_asb_address :: "(peer_id \<times> multiaddr) list"
  sl_asb_quote_status :: "(peer_id \<times> quote_status) list"
  sl_state :: sellers_state

definition sellers_loop_new :: "peer_id \<Rightarrow> sellers_loop" where
  "sellers_loop_new rendezvous_peer_id =
     \<lparr>sl_rendezvous_peer_id = rendezvous_peer_id, sl_reachable_asb_address = [], sl_unreachable_asb_address = [],
      sl_asb_quote_status = [], sl_state = WaitForDiscovery\<rparr>"

text \<open>The events of the swarm that the loop tells apart; \<open>SellersOther\<close> is every other.\<close>

datatype sellers_event =
    SellersConnected peer_id multiaddr
  | SellersDialFailed "peer_id option" error
  | SellersDiscovered "(peer_id \<times> multiaddr list) list"
  | QuoteResponse peer_id bid_quote
  | QuoteRequest peer_id
  | QuoteOutboundFailure peer_id error
  | QuoteInboundFailure peer_id error
  | QuoteResponseSent peer_id
  | SellersOther

datatype sellers_call = DialNode peer_id | DiscoverAt peer_id | AddQuoteAddress peer_id multiaddr | SendQuoteRequest peer_id

definition set_quote_status :: "peer_id \<Rightarrow> quote_status \<Rightarrow> sellers_loop \<Rightarrow> sellers_loop" where
  "set_quote_status peer s st = st\<lparr>sl_asb_quote_status := AList.update peer s (sl_asb_quote_status st)\<rparr>"

definition forget_quote_status :: "peer_id \<Rightarrow> sellers_loop \<Rightarrow> sellers_loop" where
  "forget_quote_status peer st = st\<lparr>sl_asb_quote_status := AList.delete peer (sl_asb_quote_status st)\<rparr>"

definition sellers_connected :: "peer_id \<Rightarrow> multiaddr \<Rightarrow> sellers_loop \<Rightarrow> (sellers_call list, sellers_loop) io" where
  "sellers_connected peer address st =
     (let reached = st\<lparr>sl_reachable_asb_address := AList.update peer address (sl_reachable_asb_address st)\<rparr> in
      if peer = sl_rendezvous_peer_id st then
        bindio (tell (DiscoverAt peer)) (\<lambda>_.
        let st = set_quote_status peer QuotePending reached in
        bindio (tell (AddQuoteAddress peer address)) (\<lambda>_.
        bindio (tell (SendQuoteRequest peer)) (\<lambda>_.
        ret st)))
      else ret reached)"

text \<open>\<open>Inr\<close> is the return of the loop.\<close>

definition sellers_dial_failed :: "peer_id option \<Rightarrow> sellers_loop \<Rightarrow> sellers_loop + seller list" where
  "sellers_dial_failed peer st = (case peer of
     Some peer \<Rightarrow>
       if peer = sl_rendezvous_peer_id st then Inr []
       else
         let st = st\<lparr>sl_unreachable_asb_address := AList.update peer 0 (sl_unreachable_asb_address st)\<rparr> in
         Inl (if map_of (sl_asb_quote_status st) peer \<noteq> None
              then set_quote_status peer (QuoteKnown Unreachable) st else st)
   | None \<Rightarrow> Inl st)"

primrec discovered_addresses ::
  "peer_id \<Rightarrow> multiaddr list \<Rightarrow> sellers_loop \<Rightarrow> (sellers_call list, sellers_loop) io" where
  "discovered_addresses peer [] st = ret st"
| "discovered_addresses peer (address # addresses) st =
     bindio (tell (AddQuoteAddress peer address)) (\<lambda>_.
     discovered_addresses peer addresses (set_quote_status peer QuotePending st))"

primrec discovered_registrations ::
  "(peer_id \<times> multiaddr list) list \<Rightarrow> sellers_loop \<Rightarrow> (sellers_call list, sellers_loop) io" where
  "discovered_registrations [] st = ret st"
| "discovered_registrations (registration # registrations) st = (case registration of (peer, addresses) \<Rightarrow>
     bindio (discovered_addresses peer addresses st) (\<lambda>st.
     bindio (tell (SendQuoteRequest peer)) (\<lambda>_.
     discovered_registrations registrations st)))"

definition sellers_response :: "peer_id \<Rightarrow> bid_quote \<Rightarrow> sellers_loop \<Rightarrow> sellers_loop" where
  "sellers_response peer response st =
     (let st' = set_quote_status peer (QuoteKnown (Online response)) st in
      if map_of (sl_asb_quote_status st) peer = None then forget_quote_status peer st' else st')"

definition sellers_failure :: "peer_id \<Rightarrow> sellers_loop \<Rightarrow> sellers_loop" where
  "sellers_failure peer st =
     (if peer = sl_rendezvous_peer_id st then st else forget_quote_status peer st)"

definition sellers_on_event ::
  "sellers_event \<Rightarrow> sellers_loop \<Rightarrow> (sellers_call list, sellers_loop + seller list) io" where
  "sellers_on_event e st = (case e of
     SellersConnected peer address \<Rightarrow> bindio (sellers_connected peer address st) (\<lambda>st. ret (Inl st))
   | SellersDialFailed peer error \<Rightarrow> ret (sellers_dial_failed peer st)
   | SellersDiscovered registrations \<Rightarrow>
       bindio (discovered_registrations registrations (st\<lparr>sl_state := WaitForQuoteCompletion\<rparr>)) (\<lambda>st. ret (Inl st))
   | QuoteResponse peer response \<Rightarrow> ret (Inl (sellers_response peer response st))
   | QuoteRequest peer \<Rightarrow> lift (Panic ''internal error: entered unreachable code'')
   | QuoteOutboundFailure peer error \<Rightarrow> ret (Inl (sellers_failure peer st))
   | QuoteInboundFailure peer error \<Rightarrow> ret (Inl (sellers_failure peer st))
   | QuoteResponseSent peer \<Rightarrow> lift (Panic ''internal error: entered unreachable code'')
   | SellersOther \<Rightarrow> ret (Inl st))"

definition StillPending :: error where "StillPending = Msg ''StillPending''"

definition seller_of :: "sellers_loop \<Rightarrow> peer_id \<times> quote_status \<Rightarrow> seller outcome" where
  "seller_of st entry = (case entry of (peer, s) \<Rightarrow>
     case s of
       QuotePending \<Rightarrow> Err StillPending
     | QuoteKnown status \<Rightarrow>
         omap (Seller status) (expect_some ''if we got a quote we must have stored an address''
           (map_of (case status of Online _ \<Rightarrow> sl_reachable_asb_address st
                    | Unreachable \<Rightarrow> sl_unreachable_asb_address st) peer)))"

definition all_quotes_fetched :: "sellers_loop \<Rightarrow> seller list outcome" where
  "all_quotes_fetched st = collect_results (seller_of st) (sl_asb_quote_status st)"

definition sellers_select ::
  "sellers_event \<Rightarrow> sellers_loop \<Rightarrow> (sellers_call list, sellers_loop + seller list) io" where
  "sellers_select e st =
     bindio (sellers_on_event e st) (\<lambda>r. case r of
       Inr sellers \<Rightarrow> ret (Inr sellers)
     | Inl st \<Rightarrow>
         (case sl_state st of
            WaitForDiscovery \<Rightarrow> ret (Inl st)
          | WaitForQuoteCompletion \<Rightarrow>
              (case all_quotes_fetched st of
                 Ok sellers \<Rightarrow> ret (Inr (sort sellers))
               | Err still_pending \<Rightarrow> ret (Inl st)
               | Panic p \<Rightarrow> lift (Panic p)
               | Pending \<Rightarrow> lift Pending)))"

text \<open>The loop on the events that were delivered; \<open>None\<close> while it waits for more.\<close>

primrec sellers_run :: "sellers_event list \<Rightarrow> sellers_loop \<Rightarrow> (sellers_call list, seller list option) io" where
  "sellers_run [] st = ret None"
| "sellers_run (e # es) st =
     bindio (sellers_select e st) (\<lambda>r. case r of
       Inl st \<Rightarrow> sellers_run es st
     | Inr sellers \<Rightarrow> ret (Some sellers))"

text \<open>\<open>dialled\<close> is the answer of the swarm to the first dial.\<close>

definition list_sellers ::
  "peer_id \<Rightarrow> multiaddr \<Rightarrow> unit outcome \<Rightarrow> sellers_event list \<Rightarrow> (sellers_call list, seller list option) io" where
  "list_sellers rendezvous_node_peer_id rendezvous_node_addr dialled events =
     bindio (tell (AddQuoteAddress rendezvous_node_peer_id rendezvous_node_addr)) (\<lambda>_.
     bindio (tell (DialNode rendezvous_node_peer_id)) (\<lambda>_.
     bindio (lift (with_context ''Failed to dial rendezvous node'' dialled)) (\<lambda>_.
     sellers_run events (sellers_loop_new rendezvous_node_peer_id))))"

end
