(* ===== verification/List_Sellers_Properties.thy ===== *)
theory List_Sellers_Properties
  imports List_Sellers
begin

text \<open>
  What the list of sellers says: which events justify an entry, when the loop cannot panic, and when it
  does not return.
\<close>

section \<open>What the state of the loop records\<close>

definition discovered_in :: "sellers_event list \<Rightarrow> peer_id \<Rightarrow> bool" where
  "discovered_in es p \<longleftrightarrow> (\<exists>regs addresses. SellersDiscovered regs \<in> set es \<and> (p, addresses) \<in> set regs)"

fun justified :: "sellers_event list \<Rightarrow> peer_id \<Rightarrow> quote_status \<Rightarrow> bool" where
  "justified es p QuotePending = True"
| "justified es p (QuoteKnown (Online q)) = (QuoteResponse p q \<in> set es)"
| "justified es p (QuoteKnown Unreachable) = (\<exists>e. SellersDialFailed (Some p) e \<in> set es)"

definition sellers_inv :: "peer_id \<Rightarrow> sellers_event list \<Rightarrow> sellers_loop \<Rightarrow> bool" where
  "sellers_inv r es st \<longleftrightarrow> sl_rendezvous_peer_id st = r \<and> distinct (map fst (sl_asb_quote_status st)) \<and>
     (\<forall>p s. map_of (sl_asb_quote_status st) p = Some s \<longrightarrow> (p = r \<or> discovered_in es p) \<and> justified es p s) \<and>
     (\<forall>p a. map_of (sl_reachable_asb_address st) p = Some a \<longrightarrow> SellersConnected p a \<in> set es) \<and>
     (\<forall>p a. map_of (sl_unreachable_asb_address st) p = Some a \<longrightarrow> a = 0 \<and> p \<noteq> r)"

lemma justified_more: "justified es p s \<Longrightarrow> justified (es @ fs) p s"
  by (induction es p s rule: justified.induct) auto

lemma discovered_more: "discovered_in es p \<Longrightarrow> discovered_in (es @ fs) p"
  unfolding discovered_in_def by auto

lemma sellers_inv_more: "sellers_inv r es st \<Longrightarrow> sellers_inv r (es @ fs) st"
  by (auto simp: sellers_inv_def simp del: map_of_eq_Some_iff intro: justified_more discovered_more dest: discovered_more)

lemma sellers_inv_state [simp]: "sellers_inv r es (st\<lparr>sl_state := s\<rparr>) \<longleftrightarrow> sellers_inv r es st"
  by (simp add: sellers_inv_def)

lemma sellers_inv_set:
  "sellers_inv r es st \<Longrightarrow> p = r \<or> discovered_in es p \<Longrightarrow> justified es p s \<Longrightarrow> sellers_inv r es (set_quote_status p s st)"
  by (simp add: sellers_inv_def set_quote_status_def update_conv distinct_update)

lemma sellers_inv_forget: "sellers_inv r es st \<Longrightarrow> sellers_inv r es (forget_quote_status p st)"
  by (simp add: sellers_inv_def forget_quote_status_def delete_conv distinct_delete)

lemma sellers_inv_known:
  "sellers_inv r es st \<Longrightarrow> map_of (sl_asb_quote_status st) p = Some s \<Longrightarrow> p = r \<or> discovered_in es p"
  by (simp add: sellers_inv_def)

section \<open>Every event keeps the invariant\<close>

lemma sellers_connected_value:
  "sellers_connected p a st w = (Ok (let st' = st\<lparr>sl_reachable_asb_address := AList.update p a (sl_reachable_asb_address st)\<rparr>
     in if p = sl_rendezvous_peer_id st then set_quote_status p QuotePending st' else st'),
   w @ (if p = sl_rendezvous_peer_id st then [DiscoverAt p, AddQuoteAddress p a, SendQuoteRequest p] else []))"
  by (simp add: sellers_connected_def Let_def ret_def)

lemma discovered_addresses_value:
  "discovered_addresses p as st w =
     (Ok (if as = [] then st else set_quote_status p QuotePending st), w @ map (AddQuoteAddress p) as)"
  by (induction as arbitrary: st w) (auto simp: ret_def set_quote_status_def)

lemma discovered_registrations_inv:
  assumes "sellers_inv r es st" "\<forall>(p, addresses)\<in>set regs. discovered_in es p"
  shows "\<exists>st' w'. discovered_registrations regs st w = (Ok st', w') \<and> sellers_inv r es st' \<and> sl_state st' = sl_state st"
  using assms
proof (induction regs arbitrary: st w)
  case (Cons reg regs)
  obtain p as where reg: "reg = (p, as)" by (cases reg)
  let ?st = "if as = [] then st else set_quote_status p QuotePending st"
  have "sellers_inv r es ?st" using Cons.prems reg by (auto intro: sellers_inv_set)
  moreover have "sl_state ?st = sl_state st" by (simp add: set_quote_status_def)
  ultimately show ?case using Cons.IH[of ?st] Cons.prems(2)
    by (simp add: reg bindio_def discovered_addresses_value tell_def del: tell_bind)
qed (simp add: ret_def)

lemma sellers_on_event_inv:
  assumes inv: "sellers_inv r es st" and step: "sellers_on_event e st w = (Ok v, w')"
  shows "case v of Inl st' \<Rightarrow> sellers_inv r (es @ [e]) st'
    | Inr sellers \<Rightarrow> sellers = [] \<and> (\<exists>error. e = SellersDialFailed (Some r) error)"
proof -
  let ?es = "es @ [e]"
  have r: "sl_rendezvous_peer_id st = r" using inv by (simp add: sellers_inv_def)
  have inv': "sellers_inv r ?es st" by (rule sellers_inv_more[OF inv])
  show ?thesis
  proof (cases e)
    case (SellersConnected p a)
    let ?st = "st\<lparr>sl_reachable_asb_address := AList.update p a (sl_reachable_asb_address st)\<rparr>"
    have "sellers_inv r ?es ?st" using inv' by (auto simp: sellers_inv_def update_conv SellersConnected simp del: map_of_eq_Some_iff)
    thus ?thesis using step r
      by (auto simp: sellers_on_event_def SellersConnected bindio_def sellers_connected_value ret_def Let_def intro!: sellers_inv_set)
  next
    case (SellersDialFailed peer error)
    show ?thesis
    proof (cases peer)
      case (Some p)
      let ?st = "st\<lparr>sl_unreachable_asb_address := AList.update p 0 (sl_unreachable_asb_address st)\<rparr>"
      have "sellers_inv r ?es ?st" if "p \<noteq> r" using inv' that by (auto simp: sellers_inv_def update_conv simp del: map_of_eq_Some_iff)
      moreover have "p = r \<or> discovered_in ?es p" if "map_of (sl_asb_quote_status st) p = Some s" for s
        by (rule sellers_inv_known[OF inv' that])
      ultimately show ?thesis using step r
        by (auto simp: sellers_on_event_def SellersDialFailed Some sellers_dial_failed_def ret_def Let_def intro!: sellers_inv_set exI[of _ error]
            split: if_splits)
    next
      case None
      thus ?thesis using step inv' by (auto simp: sellers_on_event_def SellersDialFailed sellers_dial_failed_def ret_def)
    qed
  next
    case (SellersDiscovered regs)
    have "\<forall>(p, addresses)\<in>set regs. discovered_in ?es p" by (auto simp: discovered_in_def SellersDiscovered)
    moreover have "sellers_inv r ?es (st\<lparr>sl_state := WaitForQuoteCompletion\<rparr>)" using inv' by simp
    ultimately obtain st' w1 where "discovered_registrations regs (st\<lparr>sl_state := WaitForQuoteCompletion\<rparr>) w = (Ok st', w1)"
      "sellers_inv r ?es st'" using discovered_registrations_inv by blast
    thus ?thesis using step by (auto simp: sellers_on_event_def SellersDiscovered bindio_def ret_def)
  next
    case (QuoteResponse p q)
    have "p = r \<or> discovered_in ?es p" if "map_of (sl_asb_quote_status st) p = Some s" for s
      by (rule sellers_inv_known[OF inv' that])
    moreover have "sellers_inv r ?es (forget_quote_status p (set_quote_status p s st))" for s
      using sellers_inv_forget[OF inv', of p] by (simp add: forget_quote_status_def set_quote_status_def delete_update_same)
    ultimately show ?thesis using step inv'
      by (auto simp: sellers_on_event_def sellers_response_def QuoteResponse Let_def ret_def intro!: sellers_inv_set)
  qed (use step inv' in \<open>auto simp: sellers_on_event_def ret_def lift_def sellers_failure_def intro: sellers_inv_forget\<close>)
qed

section \<open>The list\<close>

fun seller_justified :: "peer_id \<Rightarrow> sellers_event list \<Rightarrow> peer_id \<Rightarrow> seller \<Rightarrow> bool" where
  "seller_justified r es p (Seller (Online q) a) =
     ((p = r \<or> discovered_in es p) \<and> QuoteResponse p q \<in> set es \<and> SellersConnected p a \<in> set es)"
| "seller_justified r es p (Seller Unreachable a) =
     (p \<noteq> r \<and> discovered_in es p \<and> a = 0 \<and> (\<exists>e. SellersDialFailed (Some p) e \<in> set es))"

lemma seller_of_justified:
  assumes "sellers_inv r es st" "(p, s) \<in> set (sl_asb_quote_status st)" "seller_of st (p, s) = Ok x"
  shows "seller_justified r es p x"
proof -
  have known: "map_of (sl_asb_quote_status st) p = Some s" using assms(1,2) by (simp add: sellers_inv_def)
  obtain status a where x: "s = QuoteKnown status" "x = Seller status a"
    "map_of (case status of Online _ \<Rightarrow> sl_reachable_asb_address st | Unreachable \<Rightarrow> sl_unreachable_asb_address st) p = Some a"
    using assms(3) by (cases s) (auto simp: seller_of_def outcome_rules)
  have "p = r \<or> discovered_in es p" "justified es p s"
    "map_of (sl_reachable_asb_address st) p = Some a \<Longrightarrow> SellersConnected p a \<in> set es"
    "map_of (sl_unreachable_asb_address st) p = Some a \<Longrightarrow> a = 0 \<and> p \<noteq> r"
    using assms(1) known unfolding sellers_inv_def by blast+
  thus ?thesis using x by (cases status) auto
qed

lemma collect_results_zip:
  "collect_results f xs = Ok ys \<Longrightarrow> length ys = length xs \<and> (\<forall>(x, y)\<in>set (zip xs ys). f x = Ok y)"
  by (induction xs arbitrary: ys) (auto simp: outcome_rules)

lemma all_quotes_justified:
  assumes "sellers_inv r es st" "all_quotes_fetched st = Ok sellers"
  shows "\<exists>entries. distinct (map fst entries) \<and> sellers = map snd entries \<and> (\<forall>(p, x)\<in>set entries. seller_justified r es p x)"
proof -
  let ?m = "sl_asb_quote_status st" and ?e = "zip (map fst (sl_asb_quote_status st)) sellers"
  have len: "length sellers = length ?m" and ok: "\<forall>(e, x)\<in>set (zip ?m sellers). seller_of st e = Ok x"
    using collect_results_zip[OF assms(2)[unfolded all_quotes_fetched_def]] by simp_all
  have "seller_justified r es p x" if "(p, x) \<in> set ?e" for p x
  proof -
    from that obtain s where m: "((p, s), x) \<in> set (zip ?m sellers)"
      by (auto simp: zip_map1)
    hence "(p, s) \<in> set ?m" by (rule set_zip_leftD)
    thus ?thesis using seller_of_justified[OF assms(1)] ok m by blast
  qed
  moreover have "map fst ?e = map fst ?m" "map snd ?e = sellers" using len by simp_all
  moreover have "distinct (map fst ?m)" using assms(1) by (simp add: sellers_inv_def)
  ultimately show ?thesis by (intro exI[of _ ?e]) auto
qed

lemma sellers_select_inv:
  assumes "sellers_inv r es st" "sellers_select e st w = (Ok v, w')"
  shows "case v of Inl st' \<Rightarrow> sellers_inv r (es @ [e]) st'
    | Inr sellers \<Rightarrow> sellers = [] \<and> (\<exists>error. e = SellersDialFailed (Some r) error) \<or>
        (\<exists>st'. sellers_inv r (es @ [e]) st' \<and> (\<exists>found. all_quotes_fetched st' = Ok found \<and> sellers = sort found))"
proof -
  obtain u w1 where u: "sellers_on_event e st w = (Ok u, w1)"
    using assms(2) by (auto simp: sellers_select_def outcome_rules)
  note inv = sellers_on_event_inv[OF assms(1) u]
  show ?thesis
  proof (cases u)
    case (Inl st')
    hence "sellers_inv r (es @ [e]) st'" using inv by simp
    thus ?thesis using assms(2) u Inl
      by (auto simp: sellers_select_def bindio_def ret_def lift_def split: sellers_state.splits outcome.splits) blast+
  next
    case (Inr sellers)
    thus ?thesis using assms(2) u inv by (auto simp: sellers_select_def bindio_def ret_def)
  qed
qed

definition listing_justified :: "peer_id \<Rightarrow> sellers_event list \<Rightarrow> seller list \<Rightarrow> bool" where
  "listing_justified r es sellers \<longleftrightarrow>
     sellers = [] \<and> (\<exists>error. SellersDialFailed (Some r) error \<in> set es) \<or>
     (\<exists>entries. distinct (map fst entries) \<and> sellers = sort (map snd entries) \<and>
        (\<forall>(p, x)\<in>set entries. seller_justified r es p x))"

lemma seller_justified_more: "seller_justified r es p x \<Longrightarrow> seller_justified r (es @ fs) p x"
  using discovered_more by (induction r es p x rule: seller_justified.induct) auto

lemma listing_justified_more: "listing_justified r es sellers \<Longrightarrow> listing_justified r (es @ fs) sellers"
  unfolding listing_justified_def using seller_justified_more by fastforce

lemma sellers_run_justified:
  assumes "sellers_inv r past st" "sellers_run es st w = (Ok (Some sellers), w')"
  shows "listing_justified r (past @ es) sellers"
  using assms
proof (induction es arbitrary: past st w)
  case (Cons e es)
  obtain v w1 where v: "sellers_select e st w = (Ok v, w1)"
    using Cons.prems(2) by (auto simp: outcome_rules)
  note inv = sellers_select_inv[OF Cons.prems(1) v]
  show ?case
  proof (cases v)
    case (Inl st')
    thus ?thesis using Cons.IH[of "past @ [e]" st' w1] inv Cons.prems(2) v by (simp add: bindio_def)
  next
    case (Inr found)
    have "found = sellers" using Cons.prems(2) v Inr by (simp add: bindio_def ret_def)
    hence "listing_justified r (past @ [e]) sellers" using inv Inr
      by (auto simp: listing_justified_def dest!: all_quotes_justified)
    thus ?thesis using listing_justified_more[of r "past @ [e]" sellers es] by simp
  qed
qed (simp add: ret_def)

text \<open>
  a list of sellers that is returned is empty because the rendezvous node could not be dialled, or it is
  the sorted list of one entry per peer: an online seller answered with that quote and was connected at
  that address, an unreachable one was discovered and could not be dialled.
\<close>

theorem listed_sellers_are_justified:
  assumes "list_sellers r address dialled es w = (Ok (Some sellers), w')"
  shows "sorted sellers \<and> listing_justified r es sellers"
proof -
  obtain w1 where "sellers_run es (sellers_loop_new r) w1 = (Ok (Some sellers), w')"
    using assms by (auto simp: list_sellers_def bindio_def lift_def tell_def split: outcome.splits)
  moreover have "sellers_inv r [] (sellers_loop_new r)" by (simp add: sellers_inv_def sellers_loop_new_def)
  ultimately have "listing_justified r es sellers" using sellers_run_justified[of r "[]"] by fastforce
  thus ?thesis by (auto simp: listing_justified_def)
qed

section \<open>A node that gives no quote\<close>

definition node_pending :: "peer_id \<Rightarrow> sellers_loop \<Rightarrow> bool" where
  "node_pending r st \<longleftrightarrow> sl_rendezvous_peer_id st = r \<and> map_of (sl_asb_quote_status st) r = Some QuotePending"

lemma node_pending_simps [simp]:
  "node_pending r (st\<lparr>sl_state := phase\<rparr>) = node_pending r st"
  "node_pending r (st\<lparr>sl_reachable_asb_address := m\<rparr>) = node_pending r st"
  "node_pending r (st\<lparr>sl_unreachable_asb_address := n\<rparr>) = node_pending r st"
  "node_pending r (set_quote_status p s st) \<longleftrightarrow>
     sl_rendezvous_peer_id st = r \<and> (if p = r then s = QuotePending else map_of (sl_asb_quote_status st) r = Some QuotePending)"
  "p \<noteq> r \<Longrightarrow> node_pending r (forget_quote_status p st) = node_pending r st"
  by (auto simp: node_pending_def set_quote_status_def forget_quote_status_def update_conv delete_conv)

lemma discovered_registrations_pending:
  assumes "node_pending r st"
  shows "\<exists>st' w'. discovered_registrations regs st w = (Ok st', w') \<and> node_pending r st'"
  using assms
proof (induction regs arbitrary: st w)
  case (Cons reg regs)
  obtain p as where reg: "reg = (p, as)" by (cases reg)
  let ?st = "if as = [] then st else set_quote_status p QuotePending st"
  have "node_pending r ?st" using Cons.prems by (simp, simp add: node_pending_def)
  thus ?case using Cons.IH[of ?st] by (simp add: reg bindio_def discovered_addresses_value tell_def del: tell_bind)
qed (simp add: ret_def)

lemma not_fetched_while_pending: "node_pending r st \<Longrightarrow> all_quotes_fetched st \<noteq> Ok sellers"
proof
  assume st: "node_pending r st" and ok: "all_quotes_fetched st = Ok sellers"
  have "(r, QuotePending) \<in> set (sl_asb_quote_status st)" using st by (simp add: node_pending_def map_of_SomeD)
  then obtain x where "((r, QuotePending), x) \<in> set (zip (sl_asb_quote_status st) sellers)"
    using collect_results_zip[OF ok[unfolded all_quotes_fetched_def]] by (metis in_set_impl_in_set_zip1)
  hence "seller_of st (r, QuotePending) = Ok x"
    using collect_results_zip[OF ok[unfolded all_quotes_fetched_def]] by blast
  thus False by (simp add: seller_of_def)
qed

lemma sellers_on_event_pending:
  assumes "node_pending r st" "\<forall>q. e \<noteq> QuoteResponse r q" "\<forall>error. e \<noteq> SellersDialFailed (Some r) error"
    and "sellers_on_event e st w = (Ok v, w')"
  shows "\<exists>st'. v = Inl st' \<and> node_pending r st'"
proof -
  have r: "sl_rendezvous_peer_id st = r" "map_of (sl_asb_quote_status st) r = Some QuotePending"
    using assms(1) by (simp_all add: node_pending_def)
  show ?thesis
  proof (cases e)
    case (SellersConnected p a)
    thus ?thesis using assms(1,4) r by (auto simp: sellers_on_event_def bindio_def sellers_connected_value ret_def Let_def)
  next
    case (SellersDialFailed peer error)
    thus ?thesis using assms(1,3,4) r
      by (cases peer) (auto simp: sellers_on_event_def sellers_dial_failed_def ret_def Let_def)
  next
    case (SellersDiscovered regs)
    obtain st' w1 where "discovered_registrations regs (st\<lparr>sl_state := WaitForQuoteCompletion\<rparr>) w = (Ok st', w1)" "node_pending r st'"
      using discovered_registrations_pending[of r "st\<lparr>sl_state := WaitForQuoteCompletion\<rparr>" regs w] assms(1) by auto
    thus ?thesis using assms(4) by (auto simp: sellers_on_event_def SellersDiscovered bindio_def ret_def)
  next
    case (QuoteResponse p q)
    thus ?thesis using assms(1,2,4) r
      by (auto simp: sellers_on_event_def sellers_response_def ret_def Let_def forget_quote_status_def set_quote_status_def
        node_pending_def update_conv delete_conv)
  qed (use assms(1,4) r in \<open>auto simp: sellers_on_event_def ret_def lift_def sellers_failure_def\<close>)
qed

lemma sellers_select_pending:
  assumes "node_pending r st" "\<forall>q. e \<noteq> QuoteResponse r q" "\<forall>error. e \<noteq> SellersDialFailed (Some r) error"
    and "sellers_select e st w = (Ok v, w')"
  shows "\<exists>st'. v = Inl st' \<and> node_pending r st'"
proof -
  obtain u w2 where u: "sellers_on_event e st w = (Ok u, w2)"
    using assms(4) by (auto simp: sellers_select_def outcome_rules)
  obtain st' where st': "u = Inl st'" "node_pending r st'"
    using sellers_on_event_pending[OF assms(1-3) u] by auto
  thus ?thesis using assms(4) u not_fetched_while_pending[OF st'(2)]
    by (auto simp: sellers_select_def bindio_def ret_def lift_def split: sellers_state.splits outcome.splits)
qed

lemma sellers_run_pending:
  assumes "node_pending r st" "\<forall>q. QuoteResponse r q \<notin> set es" "\<forall>error. SellersDialFailed (Some r) error \<notin> set es"
  shows "fst (sellers_run es st w) \<noteq> Ok (Some sellers)"
  using assms
proof (induction es arbitrary: st w)
  case (Cons e es)
  have e: "\<forall>q. e \<noteq> QuoteResponse r q" "\<forall>error. e \<noteq> SellersDialFailed (Some r) error" using Cons.prems(2,3) by auto
  show ?case
  proof (cases "sellers_select e st w")
    case (Pair res w1)
    show ?thesis
    proof (cases res)
      case (Ok v)
      then obtain st' where "v = Inl st'" "node_pending r st'" using sellers_select_pending[OF Cons.prems(1) e] Pair by blast
      thus ?thesis using Cons.IH[of st' w1] Cons.prems(2,3) Pair Ok by (simp add: bindio_def)
    qed (simp_all add: Pair bindio_def)
  qed
qed (simp add: ret_def)

text \<open>
  once the rendezvous node is connected, no list is ever returned without a quote from that node, whatever
  quotes other sellers gave: a failed request to the node leaves its entry pending.
\<close>

theorem silent_node_blocks_the_list:
  assumes "\<forall>q. QuoteResponse r q \<notin> set es" "\<forall>error. SellersDialFailed (Some r) error \<notin> set es"
  shows "fst (list_sellers r address dialled (SellersConnected r a # es) w) \<noteq> Ok (Some sellers)"
proof -
  let ?st = "sellers_loop_new r"
  have "node_pending r (set_quote_status r QuotePending (?st\<lparr>sl_reachable_asb_address := [(r, a)]\<rparr>))"
    by (simp add: sellers_loop_new_def)
  moreover have "sellers_select (SellersConnected r a) ?st w1 =
      (Ok (Inl (set_quote_status r QuotePending (?st\<lparr>sl_reachable_asb_address := [(r, a)]\<rparr>))),
       w1 @ [DiscoverAt r, AddQuoteAddress r a, SendQuoteRequest r])" for w1
    by (simp add: sellers_select_def sellers_on_event_def bindio_def sellers_connected_value sellers_loop_new_def ret_def
      set_quote_status_def)
  ultimately have "fst (sellers_run (SellersConnected r a # es) ?st w1) \<noteq> Ok (Some sellers)" for w1
    using sellers_run_pending[OF _ assms] by (simp add: bindio_def)
  thus ?thesis by (auto simp: list_sellers_def bindio_def lift_def tell_def split: outcome.splits)
qed

section \<open>No panic\<close>

text \<open>Quotes come only from peers that were connected before, and this behaviour answers no requests.\<close>

fun orderly :: "peer_id set \<Rightarrow> sellers_event list \<Rightarrow> bool" where
  "orderly C [] = True"
| "orderly C (SellersConnected p a # es) = orderly (insert p C) es"
| "orderly C (QuoteResponse p q # es) = (p \<in> C \<and> orderly C es)"
| "orderly C (QuoteRequest p # es) = False"
| "orderly C (QuoteResponseSent p # es) = False"
| "orderly C (e # es) = orderly C es"

definition addressed :: "peer_id set \<Rightarrow> sellers_loop \<Rightarrow> bool" where
  "addressed C st \<longleftrightarrow> C \<subseteq> dom (map_of (sl_reachable_asb_address st)) \<and> distinct (map fst (sl_asb_quote_status st)) \<and>
     (\<forall>p q. map_of (sl_asb_quote_status st) p = Some (QuoteKnown (Online q)) \<longrightarrow>
        p \<in> dom (map_of (sl_reachable_asb_address st))) \<and>
     (\<forall>p. map_of (sl_asb_quote_status st) p = Some (QuoteKnown Unreachable) \<longrightarrow>
        p \<in> dom (map_of (sl_unreachable_asb_address st)))"

lemma addressed_simps:
  "addressed C (st\<lparr>sl_state := phase\<rparr>) = addressed C st"
  "addressed C st \<Longrightarrow> addressed C (forget_quote_status p st)"
  "addressed C st \<Longrightarrow> addressed (insert p C) (st\<lparr>sl_reachable_asb_address := AList.update p a (sl_reachable_asb_address st)\<rparr>)"
  "addressed C st \<Longrightarrow> addressed C (st\<lparr>sl_unreachable_asb_address := AList.update p a (sl_unreachable_asb_address st)\<rparr>)"
  "addressed C st \<Longrightarrow> addressed C (set_quote_status p QuotePending st)"
  "addressed C st \<Longrightarrow> p \<in> C \<Longrightarrow> addressed C (set_quote_status p (QuoteKnown (Online q)) st)"
  "addressed C st \<Longrightarrow> p \<in> dom (map_of (sl_unreachable_asb_address st)) \<Longrightarrow>
     addressed C (set_quote_status p (QuoteKnown Unreachable) st)"
  by (fastforce simp: addressed_def forget_quote_status_def set_quote_status_def update_conv delete_conv distinct_update
      distinct_delete simp del: map_of_eq_Some_iff split: if_splits)+

lemma discovered_registrations_addressed:
  assumes "addressed C st"
  shows "\<exists>st' w'. discovered_registrations regs st w = (Ok st', w') \<and> addressed C st'"
  using assms
proof (induction regs arbitrary: st w)
  case (Cons reg regs)
  obtain p as where reg: "reg = (p, as)" by (cases reg)
  let ?st = "if as = [] then st else set_quote_status p QuotePending st"
  have "addressed C ?st" using Cons.prems by (simp add: addressed_simps)
  thus ?case using Cons.IH[of ?st] by (simp add: reg bindio_def discovered_addresses_value tell_def del: tell_bind)
qed (simp add: ret_def)

lemma all_quotes_no_panic: "addressed C st \<Longrightarrow> all_quotes_fetched st \<noteq> Panic m"
proof -
  have "collect_results f xs = Panic m \<Longrightarrow> \<exists>x\<in>set xs. f x = Panic m" for f :: "peer_id \<times> quote_status \<Rightarrow> seller outcome" and xs
    by (induction xs) (auto simp: outcome_rules)
  moreover assume st: "addressed C st"
  have "seller_of st (p, s) \<noteq> Panic m" if "(p, s) \<in> set (sl_asb_quote_status st)" for p s
  proof -
    have "map_of (sl_asb_quote_status st) p = Some s" using st that by (simp add: addressed_def)
    thus ?thesis using st unfolding addressed_def
      by (fastforce simp: seller_of_def split: quote_status.splits seller_status.splits)
  qed
  ultimately show "all_quotes_fetched st \<noteq> Panic m" by (force simp: all_quotes_fetched_def)
qed

lemma sellers_on_event_addressed:
  assumes "addressed C st" "orderly C (e # es)"
  shows "\<exists>v w'. sellers_on_event e st w = (Ok v, w') \<and>
    (\<forall>st'. v = Inl st' \<longrightarrow> (\<exists>C'. addressed C' st' \<and> orderly C' es))"
proof (cases e)
  case (SellersConnected p a)
  thus ?thesis using assms addressed_simps(3)[OF assms(1), of p a]
    by (auto simp: sellers_on_event_def bindio_def sellers_connected_value ret_def Let_def intro: addressed_simps)
next
  case (SellersDialFailed peer error)
  show ?thesis
  proof (cases peer)
    case (Some p)
    have "addressed C (st\<lparr>sl_unreachable_asb_address := AList.update p 0 (sl_unreachable_asb_address st)\<rparr>)"
      by (rule addressed_simps(4)[OF assms(1)])
    thus ?thesis using assms SellersDialFailed Some
      by (auto simp: sellers_on_event_def sellers_dial_failed_def ret_def Let_def update_conv intro!: exI[of _ C] addressed_simps(7))
  qed (use assms SellersDialFailed in \<open>auto simp: sellers_on_event_def sellers_dial_failed_def ret_def\<close>)
next
  case (SellersDiscovered regs)
  obtain st' w1 where "discovered_registrations regs (st\<lparr>sl_state := WaitForQuoteCompletion\<rparr>) w = (Ok st', w1)" "addressed C st'"
    using discovered_registrations_addressed assms(1) addressed_simps(1) by blast
  thus ?thesis using assms(2) by (auto simp: sellers_on_event_def SellersDiscovered bindio_def ret_def)
qed (use assms in \<open>auto simp: sellers_on_event_def ret_def sellers_failure_def sellers_response_def Let_def intro: addressed_simps\<close>)

lemma sellers_run_no_panic:
  assumes "addressed C st" "orderly C es"
  shows "fst (sellers_run es st w) \<noteq> Panic m"
  using assms
proof (induction es arbitrary: C st w)
  case (Cons e es)
  obtain v w1 where v: "sellers_on_event e st w = (Ok v, w1)"
    "\<forall>st'. v = Inl st' \<longrightarrow> (\<exists>C'. addressed C' st' \<and> orderly C' es)"
    using sellers_on_event_addressed[OF Cons.prems] by blast
  show ?case
  proof (cases v)
    case (Inl st')
    then obtain C' where C': "addressed C' st'" "orderly C' es" using v(2) by blast
    thus ?thesis using Cons.IH[OF C'] all_quotes_no_panic[OF C'(1)] v(1) Inl
      by (auto simp: sellers_select_def bindio_def ret_def lift_def split: sellers_state.splits outcome.splits)
  next
    case (Inr sellers)
    thus ?thesis using v(1) by (simp add: sellers_select_def bindio_def ret_def)
  qed
qed (simp add: ret_def)

text \<open>
  listing sellers never panics, provided that a quote comes only from a peer that was connected before
  and the swarm delivers no requests.
\<close>

theorem listing_does_not_panic:
  assumes "orderly {} es" "\<forall>m. dialled \<noteq> Panic m"
  shows "fst (list_sellers r address dialled es w) \<noteq> Panic m"
proof -
  have "addressed {} (sellers_loop_new r)" by (simp add: addressed_def sellers_loop_new_def)
  hence "fst (sellers_run es (sellers_loop_new r) w1) \<noteq> Panic m" for w1 by (rule sellers_run_no_panic[OF _ assms(1)])
  moreover have "with_context c dialled \<noteq> Panic m" for c using assms(2) by (cases dialled) simp_all
  ultimately show ?thesis by (auto simp: list_sellers_def bindio_def lift_def tell_def split: outcome.splits)
qed

section \<open>Instances\<close>

definition sample_offer :: bid_quote where
  "sample_offer = \<lparr>bq_price = 3, bq_min_quantity = 1, bq_max_quantity = 9\<rparr>"

definition sample_discovery :: "sellers_event list" where
  "sample_discovery = [SellersConnected 1 10, SellersDiscovered [(2, [20, 21]), (3, [30])], SellersConnected 3 30,
     QuoteResponse 3 sample_offer, SellersDialFailed (Some 2) (Msg ''timeout''), QuoteResponse 1 sample_offer]"

lemma sample_listing:
  "list_sellers 1 10 (Ok ()) sample_discovery [] =
     (Ok (Some [Seller (Online sample_offer) 10, Seller (Online sample_offer) 30, Seller Unreachable 0]),
      [AddQuoteAddress 1 10, DialNode 1, DiscoverAt 1, AddQuoteAddress 1 10, SendQuoteRequest 1,
       AddQuoteAddress 2 20, AddQuoteAddress 2 21, SendQuoteRequest 2, AddQuoteAddress 3 30, SendQuoteRequest 3])"
  by code_simp

theorem listed_sellers_are_justified_witness:
  "listing_justified 1 sample_discovery [Seller (Online sample_offer) 10, Seller (Online sample_offer) 30, Seller Unreachable 0]"
  using listed_sellers_are_justified[OF sample_listing] by simp

theorem silent_node_blocks_the_list_witness:
  "fst (list_sellers 1 10 (Ok ()) (SellersConnected 1 10 # butlast (tl sample_discovery)) []) \<noteq> Ok (Some [])"
  by (rule silent_node_blocks_the_list) (auto simp: sample_discovery_def)

theorem listing_does_not_panic_witness: "fst (list_sellers 1 10 (Ok ()) sample_discovery []) \<noteq> Panic ''x''"
  by (rule listing_does_not_panic) (simp_all add: sample_discovery_def)

end
