(* ===== verification/Rendezvous.thy ===== *)
theory Rendezvous
  imports Call_Log Sqlite
begin

text \<open>
  The module \<open>rendezvous\<close> of \<open>asb/network.rs\<close> and \<open>network/rendezvous.rs\<close>: the behaviour that keeps the ASB
  registered at its rendezvous nodes. The client of libp2p inside it is told what to do and, when it is
  polled, answers with an action; both are entries of the log. Time is a number of nanoseconds, a
  \<open>Sleep\<close> its deadline.
\<close>

section \<open>Namespaces\<close>

datatype beldex_btc_namespace = NsMainnet | NsTestnet

definition namespace_display :: "beldex_btc_namespace \<Rightarrow> string" where
  "namespace_display n = (case n of NsMainnet \<Rightarrow> ''bdx-btc-swap-mainnet'' | NsTestnet \<Rightarrow> ''bdx-btc-swap-testnet'')"

definition namespace_from_is_testnet :: "bool \<Rightarrow> beldex_btc_namespace" where
  "namespace_from_is_testnet testnet = (if testnet then NsTestnet else NsMainnet)"

section \<open>State\<close>

datatype connection_status = Disconnected | Dialling | Connected

datatype registration_status = RegisterOnNextConnection | RegistrationPending | Registered (renewal_at: nat)

record rendezvous_node =
  rn_address :: multiaddr
  rn_connection_status :: connection_status
  rn_peer_id :: peer_id
  rn_registration_status :: registration_status
  rn_registration_ttl :: "u64 option"
  rn_namespace :: beldex_btc_namespace

record rendezvous =
  rz_rendezvous_nodes :: "rendezvous_node list"
  rz_to_dial :: "peer_id list"
  rz_local_peer_id :: peer_id

definition rendezvous_node_new ::
  "multiaddr \<Rightarrow> peer_id \<Rightarrow> beldex_btc_namespace \<Rightarrow> u64 option \<Rightarrow> rendezvous_node" where
  "rendezvous_node_new address peer_id namespace registration_ttl =
     \<lparr>rn_address = address, rn_connection_status = Disconnected, rn_peer_id = peer_id,
      rn_registration_status = RegisterOnNextConnection, rn_registration_ttl = registration_ttl,
      rn_namespace = namespace\<rparr>"

definition rendezvous_new :: "peer_id \<Rightarrow> rendezvous_node list \<Rightarrow> rendezvous" where
  "rendezvous_new local_peer_id rendezvous_nodes =
     \<lparr>rz_rendezvous_nodes = rendezvous_nodes, rz_to_dial = [], rz_local_peer_id = local_peer_id\<rparr>"

definition set_connection :: "connection_status \<Rightarrow> rendezvous_node \<Rightarrow> rendezvous_node" where
  "set_connection status n = n\<lparr>rn_connection_status := status\<rparr>"

definition set_registration :: "registration_status \<Rightarrow> rendezvous_node \<Rightarrow> rendezvous_node" where
  "set_registration status n = n\<lparr>rn_registration_status := status\<rparr>"

section \<open>Operations\<close>

text \<open>What the inner behaviour answers when it is polled.\<close>

datatype inner_action = InnerPending | InnerRegistered peer_id u64 | InnerOther

datatype rendezvous_act =
    RegisterAt beldex_btc_namespace peer_id "u64 option"
  | DialPeer peer_id
  | Emitted inner_action

definition register :: "rendezvous_node \<Rightarrow> (rendezvous_act list, unit) io" where
  "register n = tell (RegisterAt (rn_namespace n) (rn_peer_id n) (rn_registration_ttl n))"

definition rendezvous_addresses_of_peer :: "rendezvous \<Rightarrow> peer_id \<Rightarrow> multiaddr list" where
  "rendezvous_addresses_of_peer st peer_id =
     (case find (\<lambda>n. peer_id = rn_peer_id n) (rz_rendezvous_nodes st) of Some n \<Rightarrow> [rn_address n] | None \<Rightarrow> [])"

text \<open>A loop over the indices of the nodes that changes each node in turn.\<close>

primrec for_nodes :: "('n \<Rightarrow> ('w, 'm) io) \<Rightarrow> 'n list \<Rightarrow> ('w, 'm list) io" where
  "for_nodes f [] = ret []"
| "for_nodes f (n # ns) = bindio (f n) (\<lambda>m. bindio (for_nodes f ns) (\<lambda>ms. ret (m # ms)))"

definition node_connected :: "peer_id \<Rightarrow> rendezvous_node \<Rightarrow> (rendezvous_act list, rendezvous_node) io" where
  "node_connected peer_id n =
     (if peer_id = rn_peer_id n then
        let n = set_connection Connected n in
        case rn_registration_status n of
          RegisterOnNextConnection \<Rightarrow> bindio (register n) (\<lambda>_. ret (set_registration RegistrationPending n))
        | Registered _ \<Rightarrow> ret n
        | RegistrationPending \<Rightarrow> ret n
      else ret n)"

definition rendezvous_inject_connected :: "peer_id \<Rightarrow> rendezvous \<Rightarrow> (rendezvous_act list, rendezvous) io" where
  "rendezvous_inject_connected peer_id st =
     bindio (for_nodes (node_connected peer_id) (rz_rendezvous_nodes st)) (\<lambda>nodes.
     ret (st\<lparr>rz_rendezvous_nodes := nodes\<rparr>))"

definition rendezvous_inject_disconnected :: "peer_id \<Rightarrow> rendezvous \<Rightarrow> rendezvous" where
  "rendezvous_inject_disconnected peer_id st = st\<lparr>rz_rendezvous_nodes :=
     map (\<lambda>n. if peer_id = rn_peer_id n then set_connection Disconnected n else n) (rz_rendezvous_nodes st)\<rparr>"

definition rendezvous_inject_dial_failure :: "peer_id option \<Rightarrow> rendezvous \<Rightarrow> rendezvous" where
  "rendezvous_inject_dial_failure peer_id st = st\<lparr>rz_rendezvous_nodes :=
     map (\<lambda>n. case peer_id of
        Some i \<Rightarrow> if i = rn_peer_id n then set_connection Disconnected n else n
      | None \<Rightarrow> n) (rz_rendezvous_nodes st)\<rparr>"

text \<open>The node after the check of a poll, and the peers it adds to \<open>to_dial\<close>.\<close>

definition node_check :: "nat \<Rightarrow> rendezvous_node \<Rightarrow> (rendezvous_act list, rendezvous_node \<times> peer_id list) io" where
  "node_check now n = (case rn_registration_status n of
     RegisterOnNextConnection \<Rightarrow>
       (case rn_connection_status n of
          Disconnected \<Rightarrow> ret (set_connection Dialling n, [rn_peer_id n])
        | Dialling \<Rightarrow> ret (n, [])
        | Connected \<Rightarrow> bindio (register n) (\<lambda>_. ret (set_registration RegistrationPending n, [])))
   | Registered re_register_in \<Rightarrow>
       if re_register_in \<le> now then
         (case rn_connection_status n of
            Connected \<Rightarrow> bindio (register n) (\<lambda>_. ret (set_registration RegistrationPending n, []))
          | Disconnected \<Rightarrow> ret (set_registration RegisterOnNextConnection n, [rn_peer_id n])
          | Dialling \<Rightarrow> ret (n, []))
       else ret (n, [])
   | RegistrationPending \<Rightarrow> ret (n, []))"

primrec note_registered :: "peer_id \<Rightarrow> registration_status \<Rightarrow> rendezvous_node list \<Rightarrow> rendezvous_node list" where
  "note_registered peer_id status [] = []"
| "note_registered peer_id status (n # ns) =
     (if rn_peer_id n = peer_id then set_registration status n # ns else n # note_registered peer_id status ns)"

text \<open>Half of the time to live, in nanoseconds.\<close>

definition half_of_ttl :: "u64 \<Rightarrow> nat" where
  "half_of_ttl ttl = unat ttl * 1000000000 div 2"

text \<open>\<open>now\<close> is the time of the poll, \<open>inner\<close> what the inner behaviour answers if it is polled.\<close>

definition rendezvous_poll :: "nat \<Rightarrow> inner_action \<Rightarrow> rendezvous \<Rightarrow> (rendezvous_act list, rendezvous) io" where
  "rendezvous_poll now inner st = (case rz_to_dial st of
     peer_id # rest \<Rightarrow>
       let st = st\<lparr>rz_to_dial := rest\<rparr> in
       if peer_id = rz_local_peer_id st then ret st
       else bindio (tell (DialPeer peer_id)) (\<lambda>_. ret st)
   | [] \<Rightarrow>
       bindio (for_nodes (node_check now) (rz_rendezvous_nodes st)) (\<lambda>checked.
       let st = st\<lparr>rz_rendezvous_nodes := map fst checked, rz_to_dial := concat (map snd checked)\<rparr>;
           st = (case inner of
             InnerRegistered rendezvous_node ttl \<Rightarrow> st\<lparr>rz_rendezvous_nodes :=
               note_registered rendezvous_node (Registered (now + half_of_ttl ttl)) (rz_rendezvous_nodes st)\<rparr>
           | _ \<Rightarrow> st) in
       bindio (tell (Emitted inner)) (\<lambda>_. ret st)))"

section \<open>Sequences of calls\<close>

datatype rendezvous_event =
    NodeConnected peer_id
  | NodeDisconnected peer_id
  | NodeDialFailed "peer_id option"
  | NodePolled nat inner_action

definition rendezvous_step :: "rendezvous_event \<Rightarrow> rendezvous \<Rightarrow> (rendezvous_act list, rendezvous) io" where
  "rendezvous_step e st = (case e of
     NodeConnected p \<Rightarrow> rendezvous_inject_connected p st
   | NodeDisconnected p \<Rightarrow> ret (rendezvous_inject_disconnected p st)
   | NodeDialFailed p \<Rightarrow> ret (rendezvous_inject_dial_failure p st)
   | NodePolled now inner \<Rightarrow> rendezvous_poll now inner st)"

primrec rendezvous_run :: "rendezvous_event list \<Rightarrow> rendezvous \<Rightarrow> (rendezvous_act list, rendezvous) io" where
  "rendezvous_run [] st = ret st"
| "rendezvous_run (e # es) st = bindio (rendezvous_step e st) (rendezvous_run es)"

end
