(* ===== verification/Rendezvous_Properties.thy ===== *)
theory Rendezvous_Properties
  imports Rendezvous
begin

text \<open>
  When the ASB registers at a rendezvous node: at most once per answer and only while it is connected;
  and two ways in which it never registers again.
\<close>

section \<open>The operations without their log\<close>

text \<open>What a call makes of a node, and what it tells the inner behaviour or the swarm.\<close>

definition registration_of :: "rendezvous_node \<Rightarrow> rendezvous_act" where
  "registration_of n = RegisterAt (rn_namespace n) (rn_peer_id n) (rn_registration_ttl n)"

definition due :: "nat \<Rightarrow> rendezvous_node \<Rightarrow> bool" where
  "due now n \<longleftrightarrow> (case rn_registration_status n of
     RegisterOnNextConnection \<Rightarrow> True | Registered t \<Rightarrow> t \<le> now | RegistrationPending \<Rightarrow> False)"

definition connected_node :: "peer_id \<Rightarrow> rendezvous_node \<Rightarrow> rendezvous_node" where
  "connected_node p n =
     (if p \<noteq> rn_peer_id n then n
      else if rn_registration_status n = RegisterOnNextConnection
      then set_registration RegistrationPending (set_connection Connected n) else set_connection Connected n)"

definition connected_acts :: "peer_id \<Rightarrow> rendezvous_node \<Rightarrow> rendezvous_act list" where
  "connected_acts p n =
     (if p = rn_peer_id n \<and> rn_registration_status n = RegisterOnNextConnection then [registration_of n] else [])"

definition checked_node :: "nat \<Rightarrow> rendezvous_node \<Rightarrow> rendezvous_node" where
  "checked_node now n =
     (if \<not> due now n then n
      else case rn_connection_status n of
        Connected \<Rightarrow> set_registration RegistrationPending n
      | Dialling \<Rightarrow> n
      | Disconnected \<Rightarrow> if rn_registration_status n = RegisterOnNextConnection then set_connection Dialling n
          else set_registration RegisterOnNextConnection n)"

definition checked_acts :: "nat \<Rightarrow> rendezvous_node \<Rightarrow> rendezvous_act list" where
  "checked_acts now n = (if due now n \<and> rn_connection_status n = Connected then [registration_of n] else [])"

definition checked_dials :: "nat \<Rightarrow> rendezvous_node \<Rightarrow> peer_id list" where
  "checked_dials now n = (if due now n \<and> rn_connection_status n = Disconnected then [rn_peer_id n] else [])"

lemma node_connected_value: "node_connected p n w = (Ok (connected_node p n), w @ connected_acts p n)"
  by (cases "rn_registration_status n")
    (auto simp: node_connected_def connected_node_def connected_acts_def registration_of_def register_def ret_def
      set_connection_def)

lemma node_check_value: "node_check now n w = (Ok (checked_node now n, checked_dials now n), w @ checked_acts now n)"
  by (cases "rn_registration_status n"; cases "rn_connection_status n")
    (auto simp: node_check_def checked_node_def checked_acts_def checked_dials_def due_def registration_of_def
      register_def ret_def)

lemma for_nodes_value:
  assumes "\<And>n w. f n w = (Ok (g n), w @ h n)"
  shows "for_nodes f ns w = (Ok (map g ns), w @ concat (map h ns))"
  by (induction ns arbitrary: w) (simp_all add: ret_def bindio_def assms)

definition after_event :: "rendezvous_event \<Rightarrow> rendezvous \<Rightarrow> rendezvous" where
  "after_event e st = (case e of
     NodeConnected p \<Rightarrow> st\<lparr>rz_rendezvous_nodes := map (connected_node p) (rz_rendezvous_nodes st)\<rparr>
   | NodeDisconnected p \<Rightarrow> rendezvous_inject_disconnected p st
   | NodeDialFailed p \<Rightarrow> rendezvous_inject_dial_failure p st
   | NodePolled now inner \<Rightarrow>
       (case rz_to_dial st of
          p # rest \<Rightarrow> st\<lparr>rz_to_dial := rest\<rparr>
        | [] \<Rightarrow>
            let nodes = map (checked_node now) (rz_rendezvous_nodes st) in
            st\<lparr>rz_rendezvous_nodes := (case inner of
                 InnerRegistered p ttl \<Rightarrow> note_registered p (Registered (now + half_of_ttl ttl)) nodes | _ \<Rightarrow> nodes),
               rz_to_dial := concat (map (checked_dials now) (rz_rendezvous_nodes st))\<rparr>))"

definition acts_of_event :: "rendezvous_event \<Rightarrow> rendezvous \<Rightarrow> rendezvous_act list" where
  "acts_of_event e st = (case e of
     NodeConnected p \<Rightarrow> concat (map (connected_acts p) (rz_rendezvous_nodes st))
   | NodePolled now inner \<Rightarrow>
       (case rz_to_dial st of
          p # rest \<Rightarrow> if p = rz_local_peer_id st then [] else [DialPeer p]
        | [] \<Rightarrow> concat (map (checked_acts now) (rz_rendezvous_nodes st)) @ [Emitted inner])
   | _ \<Rightarrow> [])"

lemma rendezvous_step_value: "rendezvous_step e st w = (Ok (after_event e st), w @ acts_of_event e st)"
proof (cases e)
  case (NodeConnected p)
  thus ?thesis
    by (simp add: rendezvous_step_def after_event_def acts_of_event_def rendezvous_inject_connected_def bindio_def ret_def
      for_nodes_value[OF node_connected_value])
next
  case (NodePolled now inner)
  show ?thesis
  proof (cases "rz_to_dial st")
    case Nil
    thus ?thesis using NodePolled
      by (cases inner) (simp_all add: rendezvous_step_def rendezvous_poll_def after_event_def acts_of_event_def bindio_def
        ret_def Let_def tell_apply comp_def for_nodes_value[OF node_check_value] del: tell_bind)
  qed (simp add: NodePolled rendezvous_step_def rendezvous_poll_def after_event_def acts_of_event_def Let_def ret_def)
qed (simp_all add: rendezvous_step_def after_event_def acts_of_event_def ret_def)

text \<open>A run on its own.\<close>

primrec acts_of_events :: "rendezvous_event list \<Rightarrow> rendezvous \<Rightarrow> rendezvous_act list" where
  "acts_of_events [] st = []"
| "acts_of_events (e # es) st = acts_of_event e st @ acts_of_events es (after_event e st)"

lemma rendezvous_run_value: "rendezvous_run es st w = (Ok (fold after_event es st), w @ acts_of_events es st)"
  by (induction es arbitrary: st w) (simp_all add: ret_def bindio_def rendezvous_step_value)

section \<open>One node at a time\<close>

definition node_after :: "rendezvous_event \<Rightarrow> rendezvous \<Rightarrow> rendezvous_node \<Rightarrow> rendezvous_node" where
  "node_after e st n = (case e of
     NodeConnected p \<Rightarrow> connected_node p n
   | NodeDisconnected p \<Rightarrow> if p = rn_peer_id n then set_connection Disconnected n else n
   | NodeDialFailed p \<Rightarrow> if p = Some (rn_peer_id n) then set_connection Disconnected n else n
   | NodePolled now inner \<Rightarrow>
       if rz_to_dial st \<noteq> [] then n
       else (case inner of
          InnerRegistered p ttl \<Rightarrow>
            if rn_peer_id n = p then set_registration (Registered (now + half_of_ttl ttl)) (checked_node now n)
            else checked_node now n
        | _ \<Rightarrow> checked_node now n))"

definition node_acts :: "rendezvous_event \<Rightarrow> rendezvous \<Rightarrow> rendezvous_node \<Rightarrow> rendezvous_act list" where
  "node_acts e st n = (case e of
     NodeConnected p \<Rightarrow> connected_acts p n
   | NodePolled now inner \<Rightarrow> if rz_to_dial st \<noteq> [] then [] else checked_acts now n
   | _ \<Rightarrow> [])"

fun is_registration :: "peer_id \<Rightarrow> rendezvous_act \<Rightarrow> bool" where
  "is_registration p (RegisterAt ns q ttl) = (q = p)"
| "is_registration p _ = False"

fun is_answer :: "peer_id \<Rightarrow> rendezvous_act \<Rightarrow> bool" where
  "is_answer p (Emitted (InnerRegistered q ttl)) = (q = p)"
| "is_answer p _ = False"

lemma set_node_simps [simp]:
  "rn_peer_id (set_connection c n) = rn_peer_id n" "rn_peer_id (set_registration r n) = rn_peer_id n"
  "rn_registration_status (set_connection c n) = rn_registration_status n"
  "rn_registration_status (set_registration r n) = r"
  "rn_connection_status (set_connection c n) = c" "rn_connection_status (set_registration r n) = rn_connection_status n"
  by (simp_all add: set_connection_def set_registration_def)

lemma node_peer [simp]: "rn_peer_id (connected_node p n) = rn_peer_id n" "rn_peer_id (checked_node now n) = rn_peer_id n"
  "rn_peer_id (node_after e st n) = rn_peer_id n"
  by (auto simp: connected_node_def checked_node_def node_after_def split: connection_status.splits rendezvous_event.splits
      inner_action.splits)

lemma distinct_map_head: "distinct (map f (n # ns)) \<Longrightarrow> k \<in> set ns \<Longrightarrow> f k \<noteq> f n"
  by (metis distinct.simps(2) imageI list.map(2) set_map)

lemma note_registered_distinct:
  "distinct (map rn_peer_id ns) \<Longrightarrow>
   note_registered p s ns = map (\<lambda>n. if rn_peer_id n = p then set_registration s n else n) ns"
proof (induction ns)
  case (Cons n ns)
  have "map (\<lambda>n. if rn_peer_id n = p then set_registration s n else n) ns = ns" if "rn_peer_id n = p"
    using distinct_map_head[OF Cons.prems] that by (intro map_idI) simp
  thus ?case using Cons by simp
qed simp

lemma nodes_after:
  assumes "distinct (map rn_peer_id (rz_rendezvous_nodes st))"
  shows "rz_rendezvous_nodes (after_event e st) = map (node_after e st) (rz_rendezvous_nodes st)"
proof (cases e)
  case (NodeDialFailed p)
  thus ?thesis by (cases p) (auto simp: after_event_def node_after_def rendezvous_inject_dial_failure_def intro!: map_idI[symmetric])
next
  case (NodePolled now inner)
  have "distinct (map rn_peer_id (map (checked_node now) (rz_rendezvous_nodes st)))" using assms by (simp add: comp_def)
  note note_registered_distinct[OF this]
  thus ?thesis by (cases "rz_to_dial st"; cases inner) (auto simp: NodePolled after_event_def node_after_def Let_def intro!: map_idI[symmetric])
qed (auto simp: after_event_def node_after_def rendezvous_inject_disconnected_def)

lemma peers_after: "map rn_peer_id (rz_rendezvous_nodes (after_event e st)) = map rn_peer_id (rz_rendezvous_nodes st)"
  if "distinct (map rn_peer_id (rz_rendezvous_nodes st))"
  by (simp add: nodes_after[OF that] comp_def)

lemma registrations_of_event:
  "filter (is_registration p) (acts_of_event e st) =
   filter (is_registration p) (concat (map (node_acts e st) (rz_rendezvous_nodes st)))"
  by (cases e; cases "rz_to_dial st")
    (auto simp: acts_of_event_def node_acts_def comp_def filter_empty_conv cong: map_cong)

lemma node_acts_own: "a \<in> set (node_acts e st n) \<Longrightarrow> a = registration_of n"
  by (auto simp: node_acts_def connected_acts_def checked_acts_def split: rendezvous_event.splits if_splits)

lemma filter_concat_own:
  assumes "distinct (map rn_peer_id ns)" "n \<in> set ns" "\<And>m a. a \<in> set (h m) \<Longrightarrow> a = registration_of m"
  shows "filter (is_registration (rn_peer_id n)) (concat (map h ns)) = h n"
  using assms(1,2)
proof (induction ns)
  case (Cons m ns)
  have other: "filter (is_registration q) (h k) = (if rn_peer_id k = q then h k else [])" for q k
  proof -
    have "is_registration q a \<longleftrightarrow> rn_peer_id k = q" if "a \<in> set (h k)" for a
      using assms(3)[OF that] by (simp add: registration_of_def)
    thus ?thesis by (auto simp: filter_empty_conv intro!: filter_True)
  qed
  show ?case
  proof (cases "n = m")
    case True
    hence "\<forall>k\<in>set ns. rn_peer_id k \<noteq> rn_peer_id n" using distinct_map_head[OF Cons.prems(1)] by simp
    hence "filter (is_registration (rn_peer_id n)) (concat (map h ns)) = []"
      by (simp add: filter_concat other)
    thus ?thesis using True other by simp
  next
    case False
    hence "rn_peer_id m \<noteq> rn_peer_id n" "n \<in> set ns" using Cons.prems by auto
    thus ?thesis using Cons.IH Cons.prems(1) other by simp
  qed
qed simp

lemma registrations_at:
  assumes "distinct (map rn_peer_id (rz_rendezvous_nodes st))" "n \<in> set (rz_rendezvous_nodes st)"
  shows "filter (is_registration (rn_peer_id n)) (acts_of_event e st) = node_acts e st n"
  by (simp add: registrations_of_event filter_concat_own[OF assms node_acts_own])

lemma answers_at:
  "filter (is_answer p) (acts_of_event e st) =
     (case e of NodePolled now inner \<Rightarrow> if rz_to_dial st \<noteq> [] then [] else filter (is_answer p) [Emitted inner] | _ \<Rightarrow> [])"
proof -
  have "filter (is_answer p) (concat (map (connected_acts q) ns)) = []"
    "filter (is_answer p) (concat (map (checked_acts now) ns)) = []" for q now ns
    by (auto simp: filter_empty_conv connected_acts_def checked_acts_def registration_of_def split: if_splits)
  thus ?thesis by (cases e; cases "rz_to_dial st") (simp_all add: acts_of_event_def)
qed

section \<open>One registration per answer, while connected\<close>

fun connected_to :: "peer_id \<Rightarrow> rendezvous_event list \<Rightarrow> bool" where
  "connected_to p [] = False"
| "connected_to p (NodeConnected q # es) = (q = p \<or> connected_to p es)"
| "connected_to p (NodeDisconnected q # es) = (q \<noteq> p \<and> connected_to p es)"
| "connected_to p (e # es) = connected_to p es"

text \<open>The invariant; \<open>past\<close> are the events so far, the latest first.\<close>

definition node_inv :: "rendezvous_event list \<Rightarrow> rendezvous_act list \<Rightarrow> rendezvous_node \<Rightarrow> bool" where
  "node_inv past log n \<longleftrightarrow>
     (rn_connection_status n = Connected \<longrightarrow> connected_to (rn_peer_id n) past) \<and>
     length (filter (is_registration (rn_peer_id n)) log) \<le> length (filter (is_answer (rn_peer_id n)) log) +
       (if rn_registration_status n = RegistrationPending then 1 else 0)"

lemma node_inv_step:
  assumes st: "distinct (map rn_peer_id (rz_rendezvous_nodes st))" "n \<in> set (rz_rendezvous_nodes st)"
    and inv: "node_inv past log n"
  shows "node_inv (e # past) (log @ acts_of_event e st) (node_after e st n)"
    and "a \<in> set (node_acts e st n) \<Longrightarrow> connected_to (rn_peer_id n) (e # past) \<and>
      length (filter (is_registration (rn_peer_id n)) log) \<le> length (filter (is_answer (rn_peer_id n)) log)"
proof -
  define p R A where "p = rn_peer_id n" and "R = length (filter (is_registration (rn_peer_id n)) log)"
    and "A = length (filter (is_answer (rn_peer_id n)) log)"
  have inv': "rn_connection_status n = Connected \<longrightarrow> connected_to p past"
    "R \<le> A + (if rn_registration_status n = RegistrationPending then 1 else 0)"
    using inv by (simp_all add: node_inv_def p_def R_def A_def)
  have "(rn_connection_status (node_after e st n) = Connected \<longrightarrow> connected_to p (e # past)) \<and>
     R + length (node_acts e st n) \<le> A + length (filter (is_answer p) (acts_of_event e st)) +
       (if rn_registration_status (node_after e st n) = RegistrationPending then 1 else 0)"
  proof (cases e)
    case (NodePolled now inner)
    have checked: "rn_connection_status (checked_node now n) = Connected \<longrightarrow> connected_to p past"
      "R + length (checked_acts now n) \<le> A + (if rn_registration_status (checked_node now n) = RegistrationPending then 1 else 0)"
      "R + length (checked_acts now n) \<le> A + 1"
      using inv' by (cases "rn_connection_status n"; cases "rn_registration_status n";
        simp add: checked_node_def checked_acts_def due_def)+
    show ?thesis
    proof (cases "rz_to_dial st = []")
      case True
      thus ?thesis using checked by (cases inner) (auto simp: NodePolled answers_at node_after_def node_acts_def p_def)
    qed (use inv' in \<open>simp add: NodePolled node_after_def node_acts_def\<close>)
  next
    case (NodeConnected q)
    thus ?thesis using inv' 
      by (cases "q = p"; cases "rn_registration_status n")
        (auto simp: node_after_def node_acts_def connected_node_def connected_acts_def p_def)
  qed (use inv' in \<open>auto simp: node_after_def node_acts_def p_def\<close>)
  thus "node_inv (e # past) (log @ acts_of_event e st) (node_after e st n)"
    by (simp add: node_inv_def registrations_at[OF st] p_def R_def A_def)
  show "connected_to (rn_peer_id n) (e # past) \<and>
      length (filter (is_registration (rn_peer_id n)) log) \<le> length (filter (is_answer (rn_peer_id n)) log)"
    if "a \<in> set (node_acts e st n)"
    using inv that
    by (cases e) (auto simp: node_inv_def node_acts_def connected_acts_def checked_acts_def due_def
      split: registration_status.splits if_splits)
qed

lemma node_inv_run:
  assumes "distinct (map rn_peer_id (rz_rendezvous_nodes st))" "\<forall>n\<in>set (rz_rendezvous_nodes st). node_inv past log n"
  shows "(\<forall>n\<in>set (rz_rendezvous_nodes (fold after_event es st)). node_inv (rev es @ past) (log @ acts_of_events es st) n) \<and>
    distinct (map rn_peer_id (rz_rendezvous_nodes (fold after_event es st)))"
  using assms
proof (induction es arbitrary: st past log)
  case (Cons e es)
  have "\<forall>n\<in>set (rz_rendezvous_nodes (after_event e st)). node_inv (e # past) (log @ acts_of_event e st) n"
    using node_inv_step(1)[OF Cons.prems(1)] Cons.prems(2) by (auto simp: nodes_after[OF Cons.prems(1)])
  thus ?case using Cons.IH[of "after_event e st" "e # past" "log @ acts_of_event e st"] Cons.prems(1)
    by (simp add: peers_after)
qed simp

text \<open>
  the ASB asks a rendezvous node to register it only while it is connected to the node, and only when
  every earlier request to that node has been answered.
\<close>

theorem registers_once_per_answer:
  assumes "distinct (map rn_peer_id nodes)"
    and "\<forall>n\<in>set nodes. rn_connection_status n = Disconnected \<and> rn_registration_status n = RegisterOnNextConnection"
    and "rendezvous_run es (rendezvous_new me nodes) [] = (Ok st, log)"
    and "rendezvous_step e st log = (Ok st', log @ cs)" "RegisterAt ns p ttl \<in> set cs"
  shows "connected_to p (e # rev es) \<and>
    length (filter (is_registration p) log) \<le> length (filter (is_answer p) log)"
proof -
  let ?st0 = "rendezvous_new me nodes"
  have st: "st = fold after_event es ?st0" "log = acts_of_events es ?st0" using assms(3) by (auto simp: rendezvous_run_value)
  have inv: "\<forall>n\<in>set (rz_rendezvous_nodes st). node_inv (rev es) log n" and dist: "distinct (map rn_peer_id (rz_rendezvous_nodes st))"
    using node_inv_run[of ?st0 "[]" "[]" es] assms(1,2) by (auto simp: st rendezvous_new_def node_inv_def)
  have "RegisterAt ns p ttl \<in> set (filter (is_registration p) (acts_of_event e st))"
    using assms(4,5) by (simp add: rendezvous_step_value)
  then obtain n where n: "n \<in> set (rz_rendezvous_nodes st)" "RegisterAt ns p ttl \<in> set (node_acts e st n)"
    by (auto simp: registrations_of_event)
  have "p = rn_peer_id n" using node_acts_own[OF n(2)] by (simp add: registration_of_def)
  thus ?thesis using node_inv_step(2)[OF dist n(1) _ n(2), of "rev es" log] inv n(1) by blast
qed

section \<open>Never again\<close>

lemma stuck_node_run:
  assumes "\<And>e st n. e \<in> set es \<Longrightarrow> P n \<Longrightarrow> rn_peer_id n = p \<Longrightarrow> node_acts e st n = [] \<and> P (node_after e st n)"
    and "distinct (map rn_peer_id (rz_rendezvous_nodes st))" "n \<in> set (rz_rendezvous_nodes st)" "rn_peer_id n = p" "P n"
  shows "filter (is_registration p) (acts_of_events es st) = []"
  using assms
proof (induction es arbitrary: st n)
  case (Cons e es)
  have e: "node_acts e st n = []" "P (node_after e st n)" using Cons.prems(1)[OF _ Cons.prems(5,4)] by simp_all
  have "node_after e st n \<in> set (rz_rendezvous_nodes (after_event e st))"
    using Cons.prems(3) by (simp add: nodes_after[OF Cons.prems(2)])
  hence "filter (is_registration p) (acts_of_events es (after_event e st)) = []"
    using Cons.IH[of "after_event e st" "node_after e st n"] Cons.prems e(2) by (simp add: peers_after)
  moreover have "filter (is_registration p) (acts_of_event e st) = []"
    using registrations_at[OF Cons.prems(2,3), of e] Cons.prems(4) e(1) by simp
  ultimately show ?case by simp
qed simp

text \<open>
  once a registration was asked for, the node is never asked again unless the answer \<open>Registered\<close> arrives:
  a refused registration, or a connection lost before the answer, ends the registration for good, however
  often the node connects again.
\<close>

theorem lost_registration_is_final:
  assumes "distinct (map rn_peer_id (rz_rendezvous_nodes st))" "n \<in> set (rz_rendezvous_nodes st)"
    and "rn_registration_status n = RegistrationPending"
    and "\<forall>now ttl. NodePolled now (InnerRegistered (rn_peer_id n) ttl) \<notin> set es"
    and "rendezvous_run es st w = (Ok st', w @ cs)"
  shows "\<forall>ns ttl. RegisterAt ns (rn_peer_id n) ttl \<notin> set cs"
proof -
  have "filter (is_registration (rn_peer_id n)) (acts_of_events es st) = []"
  proof (rule stuck_node_run[where P = "\<lambda>m. rn_registration_status m = RegistrationPending"])
    fix e st' and m :: rendezvous_node
    assume "e \<in> set es" "rn_registration_status m = RegistrationPending" "rn_peer_id m = rn_peer_id n"
    thus "node_acts e st' m = [] \<and> rn_registration_status (node_after e st' m) = RegistrationPending"
      using assms(4) by (auto simp: node_acts_def node_after_def connected_acts_def connected_node_def checked_acts_def
        checked_node_def due_def split: rendezvous_event.splits inner_action.splits)
  qed (use assms in simp_all)
  moreover have "cs = acts_of_events es st" using assms(5) by (simp add: rendezvous_run_value)
  ultimately show ?thesis by (auto simp: filter_empty_conv)
qed

text \<open>
  a failed dial makes the behaviour take the node for disconnected although a connection to it stands,
  as a dial on the condition that there is none does; until that connection is replaced by a new one the
  node is not asked to register again, whatever time passes.
\<close>

theorem failed_dial_hides_connection:
  assumes "distinct (map rn_peer_id (rz_rendezvous_nodes st))" "n \<in> set (rz_rendezvous_nodes st)"
    and "NodeConnected (rn_peer_id n) \<notin> set es"
    and "rendezvous_run (NodeDialFailed (Some (rn_peer_id n)) # es) st w = (Ok st', w @ cs)"
  shows "\<forall>ns ttl. RegisterAt ns (rn_peer_id n) ttl \<notin> set cs"
proof -
  let ?e = "NodeDialFailed (Some (rn_peer_id n))"
  have "filter (is_registration (rn_peer_id n)) (acts_of_events es (after_event ?e st)) = []"
  proof (rule stuck_node_run[where P = "\<lambda>m. rn_connection_status m \<noteq> Connected" and n = "node_after ?e st n"])
    fix e st' and m :: rendezvous_node
    assume "e \<in> set es" "rn_connection_status m \<noteq> Connected" "rn_peer_id m = rn_peer_id n"
    thus "node_acts e st' m = [] \<and> rn_connection_status (node_after e st' m) \<noteq> Connected"
      using assms(3) by (auto simp: node_acts_def node_after_def connected_acts_def connected_node_def checked_acts_def
        checked_node_def split: rendezvous_event.splits inner_action.splits connection_status.splits)
  next
    show "distinct (map rn_peer_id (rz_rendezvous_nodes (after_event ?e st)))" using assms(1) by (simp only: peers_after)
  qed (use assms(1,2) in \<open>simp_all add: nodes_after node_after_def\<close>)
  moreover have "acts_of_event ?e st = []" by (simp add: acts_of_event_def)
  moreover have "cs = acts_of_events (?e # es) st" using assms(4) by (simp only: rendezvous_run_value) simp
  ultimately show ?thesis by (auto simp: filter_empty_conv)
qed

text \<open>
  a connected node that has answered with a time to live is asked again by the first poll after half of
  that time, and by none before.
\<close>

theorem renews_after_half_of_the_ttl:
  assumes "rz_rendezvous_nodes st = [n]" "rn_connection_status n = Connected" "rz_to_dial st = []"
  shows "\<exists>st1 w1 cs st2. rendezvous_step (NodePolled t (InnerRegistered (rn_peer_id n) ttl)) st w = (Ok st1, w1) \<and>
    rendezvous_step (NodePolled t' inner) st1 w1 = (Ok st2, w1 @ cs) \<and>
    (RegisterAt (rn_namespace n) (rn_peer_id n) (rn_registration_ttl n) \<in> set cs \<longleftrightarrow> t + half_of_ttl ttl \<le> t')"
proof -
  let ?e = "NodePolled t (InnerRegistered (rn_peer_id n) ttl)"
  have dist: "distinct (map rn_peer_id (rz_rendezvous_nodes st))" by (simp add: assms(1))
  have "rz_rendezvous_nodes (after_event ?e st) = [set_registration (Registered (t + half_of_ttl ttl)) (checked_node t n)]"
    by (simp add: nodes_after[OF dist] assms node_after_def)
  moreover have "rz_to_dial (after_event ?e st) = []"
    using assms by (simp add: after_event_def checked_dials_def Let_def)
  moreover have "rn_connection_status (checked_node t n) = Connected" using assms(2) by (simp add: checked_node_def)
  moreover have "registration_of (set_registration r (checked_node t n)) = registration_of n" for r
    by (simp add: checked_node_def registration_of_def set_registration_def set_connection_def split: connection_status.splits)
  ultimately have "RegisterAt (rn_namespace n) (rn_peer_id n) (rn_registration_ttl n) \<in> set (acts_of_event (NodePolled t' inner) (after_event ?e st))
    \<longleftrightarrow> t + half_of_ttl ttl \<le> t'"
    by (simp add: acts_of_event_def checked_acts_def due_def) (simp add: registration_of_def)
  thus ?thesis by (simp add: rendezvous_step_value)
qed

section \<open>Instances\<close>

definition sample_node :: rendezvous_node where
  "sample_node = rendezvous_node_new 50 5 NsTestnet (Some 10)"

definition sample_events :: "rendezvous_event list" where
  "sample_events = [NodePolled 0 InnerPending, NodePolled 0 InnerPending, NodeConnected 5, NodePolled 1 (InnerRegistered 5 10)]"

definition renewal :: rendezvous_event where "renewal = NodePolled 5000000001 InnerPending"

definition registered_node :: rendezvous where
  "registered_node = \<lparr>rz_rendezvous_nodes = [\<lparr>rn_address = 50, rn_connection_status = Connected, rn_peer_id = 5,
     rn_registration_status = Registered 5000000001, rn_registration_ttl = Some 10, rn_namespace = NsTestnet\<rparr>],
     rz_to_dial = [], rz_local_peer_id = 1\<rparr>"

lemma sample_rendezvous_run:
  "rendezvous_run sample_events (rendezvous_new 1 [sample_node]) [] =
     (Ok registered_node, [Emitted InnerPending, DialPeer 5, RegisterAt NsTestnet 5 (Some 10), Emitted (InnerRegistered 5 10)])"
  by (simp add: bindio_def rendezvous_step_value ret_def sample_events_def rendezvous_new_def sample_node_def rendezvous_node_new_def
    after_event_def acts_of_event_def checked_node_def checked_acts_def checked_dials_def connected_node_def connected_acts_def
    due_def registration_of_def set_connection_def set_registration_def half_of_ttl_def registered_node_def)

theorem registers_once_per_answer_witness: "connected_to 5 (renewal # rev sample_events)"
proof -
  let ?log = "[Emitted InnerPending, DialPeer 5, RegisterAt NsTestnet 5 (Some 10), Emitted (InnerRegistered 5 10)]"
  have "rendezvous_step renewal registered_node ?log = (Ok (after_event renewal registered_node),
      ?log @ [RegisterAt NsTestnet 5 (Some 10), Emitted InnerPending])"
    by (simp add: rendezvous_step_value renewal_def registered_node_def acts_of_event_def checked_acts_def due_def registration_of_def)
  from registers_once_per_answer[OF _ _ sample_rendezvous_run this, of NsTestnet 5 "Some 10"]
  show ?thesis by (simp add: sample_node_def rendezvous_node_new_def)
qed

definition pending_node :: rendezvous_node where
  "pending_node = sample_node\<lparr>rn_registration_status := RegistrationPending, rn_connection_status := Connected\<rparr>"

theorem lost_registration_is_final_witness:
  "\<forall>ns ttl. RegisterAt ns 5 ttl \<notin>
     set (acts_of_events [NodePolled 1 InnerOther, NodeDisconnected 5, NodeConnected 5, renewal] (rendezvous_new 1 [pending_node]))"
  using lost_registration_is_final[where n = pending_node and st = "rendezvous_new 1 [pending_node]" and w = "[]" and
      es = "[NodePolled 1 InnerOther, NodeDisconnected 5, NodeConnected 5, renewal]", unfolded rendezvous_run_value]
  by (simp add: rendezvous_new_def pending_node_def sample_node_def rendezvous_node_new_def renewal_def)

theorem failed_dial_hides_connection_witness:
  "\<forall>ns ttl. RegisterAt ns 5 ttl \<notin>
     set (acts_of_events [NodeDialFailed (Some 5), renewal, NodePolled 5000000002 InnerPending] registered_node)"
  using failed_dial_hides_connection[where n = "hd (rz_rendezvous_nodes registered_node)" and st = registered_node and
      w = "[]" and es = "[renewal, NodePolled 5000000002 InnerPending]", unfolded rendezvous_run_value]
  by (simp add: registered_node_def renewal_def)

theorem renews_after_half_of_the_ttl_witness:
  "\<exists>st1 w1 cs st2. rendezvous_step (NodePolled 1 (InnerRegistered 5 10)) registered_node [] = (Ok st1, w1) \<and>
    rendezvous_step renewal st1 w1 = (Ok st2, w1 @ cs) \<and>
    (RegisterAt NsTestnet 5 (Some 10) \<in> set cs \<longleftrightarrow> 1 + half_of_ttl 10 \<le> 5000000001)"
  using renews_after_half_of_the_ttl[of registered_node "hd (rz_rendezvous_nodes registered_node)" 1 10 "[]" 5000000001 InnerPending]
  by (simp add: registered_node_def renewal_def)

end
