(* ===== verification/Redial.thy ===== *)
theory Redial
  imports Call_Log Sqlite
begin

text \<open>
  \<open>network/redial.rs\<close>: the behaviour that dials Alice again when the connection to her is lost. The
  exponential backoff is the crate \<open>backoff\<close>: the record \<open>backoff\<close> of its operations on a state \<open>'b\<close>. Time
  is a number of nanoseconds, a \<open>Sleep\<close> its deadline.
\<close>

record 'b backoff =
  bo_new :: "nat \<Rightarrow> 'b"
  bo_initial_interval :: "'b \<Rightarrow> nat"
  bo_reset :: "nat \<Rightarrow> 'b \<Rightarrow> 'b"
  bo_next_backoff :: "nat \<Rightarrow> 'b \<Rightarrow> nat option \<times> 'b"

record 'b redial =
  rd_peer :: peer_id
  rd_sleep :: "nat option"
  rd_backoff :: 'b

definition redial_new :: "'b backoff \<Rightarrow> peer_id \<Rightarrow> nat \<Rightarrow> 'b redial" where
  "redial_new B peer interval = \<lparr>rd_peer = peer, rd_sleep = None, rd_backoff = bo_new B interval\<rparr>"

definition until_next_redial :: "nat \<Rightarrow> 'b redial \<Rightarrow> nat option" where
  "until_next_redial now st = (case rd_sleep st of
     None \<Rightarrow> None
   | Some deadline \<Rightarrow> if now \<le> deadline then Some (deadline - now) else None)"

definition redial_inject_connected :: "peer_id \<Rightarrow> 'b redial \<Rightarrow> 'b redial" where
  "redial_inject_connected peer_id st = (if peer_id \<noteq> rd_peer st then st else st\<lparr>rd_sleep := None\<rparr>)"

definition redial_inject_disconnected :: "'b backoff \<Rightarrow> nat \<Rightarrow> peer_id \<Rightarrow> 'b redial \<Rightarrow> 'b redial" where
  "redial_inject_disconnected B now peer_id st =
     (if peer_id \<noteq> rd_peer st then st
      else
        let backoff = bo_reset B now (rd_backoff st) in
        st\<lparr>rd_backoff := backoff, rd_sleep := Some (now + bo_initial_interval B backoff)\<rparr>)"

datatype redial_action = RedialPending | RedialDial peer_id | AllAttemptsExhausted peer_id

definition redial_poll :: "'b backoff \<Rightarrow> nat \<Rightarrow> 'b redial \<Rightarrow> redial_action \<times> 'b redial" where
  "redial_poll B now st = (case rd_sleep st of
     None \<Rightarrow> (RedialPending, st)
   | Some deadline \<Rightarrow>
       if now < deadline then (RedialPending, st)
       else (case bo_next_backoff B now (rd_backoff st) of
         (None, b) \<Rightarrow> (AllAttemptsExhausted (rd_peer st), st\<lparr>rd_backoff := b\<rparr>)
       | (Some next_dial_in, b) \<Rightarrow>
           (RedialDial (rd_peer st), st\<lparr>rd_backoff := b, rd_sleep := Some (now + next_dial_in)\<rparr>)))"

text \<open>Sequences of calls with their times; the actions that polls return are collected.\<close>

datatype redial_event = RedialConnected peer_id | RedialDisconnected nat peer_id | RedialPolled nat

definition redial_step :: "'b backoff \<Rightarrow> redial_event \<Rightarrow> 'b redial \<Rightarrow> redial_action list \<times> 'b redial" where
  "redial_step B e st = (case e of
     RedialConnected p \<Rightarrow> ([], redial_inject_connected p st)
   | RedialDisconnected now p \<Rightarrow> ([], redial_inject_disconnected B now p st)
   | RedialPolled now \<Rightarrow> (case redial_poll B now st of (a, st) \<Rightarrow> ([a], st)))"

primrec redial_run :: "'b backoff \<Rightarrow> redial_event list \<Rightarrow> 'b redial \<Rightarrow> redial_action list \<times> 'b redial" where
  "redial_run B [] st = ([], st)"
| "redial_run B (e # es) st =
     (case redial_step B e st of (as, st) \<Rightarrow> (case redial_run B es st of (bs, st) \<Rightarrow> (as @ bs, st)))"

section \<open>When it dials\<close>

text \<open>The connection was lost and has not come back.\<close>

fun lost_since :: "peer_id \<Rightarrow> redial_event list \<Rightarrow> bool" where
  "lost_since p [] = False"
| "lost_since p (RedialConnected q # es) = (q \<noteq> p \<and> lost_since p es)"
| "lost_since p (RedialDisconnected now q # es) = (q = p \<or> lost_since p es)"
| "lost_since p (RedialPolled now # es) = lost_since p es"

lemma redial_sleep_step:
  assumes "(rd_sleep st \<noteq> None) = lost_since (rd_peer st) past"
  shows "(rd_sleep (snd (redial_step B e st)) \<noteq> None) = lost_since (rd_peer st) (e # past)"
    "rd_peer (snd (redial_step B e st)) = rd_peer st"
  using assms
  by (cases e; auto simp: redial_step_def redial_inject_connected_def redial_inject_disconnected_def redial_poll_def Let_def
      split: option.splits prod.splits)+

lemma redial_sleep_run:
  assumes "(rd_sleep st \<noteq> None) = lost_since (rd_peer st) past"
  shows "(rd_sleep (snd (redial_run B es st)) \<noteq> None) = lost_since (rd_peer st) (rev es @ past) \<and>
    rd_peer (snd (redial_run B es st)) = rd_peer st"
  using assms
proof (induction es arbitrary: st past)
  case (Cons e es)
  let ?st = "snd (redial_step B e st)"
  have "(rd_sleep (snd (redial_run B es ?st)) \<noteq> None) = lost_since (rd_peer ?st) (rev es @ e # past) \<and>
      rd_peer (snd (redial_run B es ?st)) = rd_peer ?st"
    by (rule Cons.IH) (use redial_sleep_step[OF Cons.prems] in simp)
  thus ?case using redial_sleep_step(2)[OF Cons.prems, of B e]
    by (cases "redial_step B e st"; cases "redial_run B es ?st") simp
qed simp

text \<open>
  the behaviour sleeps towards a dial exactly while the connection to its peer was lost and has not come
  back; a poll dials, or gives up, only then.
\<close>

theorem redials_only_after_a_loss:
  assumes "redial_run B es (redial_new B p interval) = (as, st)"
  shows "(rd_sleep st \<noteq> None) = lost_since p (rev es) \<and>
    (fst (redial_poll B now st) \<noteq> RedialPending \<longrightarrow> lost_since p (rev es)) \<and>
    (fst (redial_poll B now st) \<in> {RedialPending, RedialDial p, AllAttemptsExhausted p})"
proof -
  have "(rd_sleep st \<noteq> None) = lost_since p (rev es) \<and> rd_peer st = p"
    using redial_sleep_run[of "redial_new B p interval" "[]" B es] assms by (simp add: redial_new_def)
  thus ?thesis by (auto simp: redial_poll_def split: option.splits prod.splits)
qed

lemma redial_quiet_run:
  assumes "rd_sleep st = None" "\<forall>now. RedialDisconnected now (rd_peer st) \<notin> set es"
  shows "set (fst (redial_run B es st)) \<subseteq> {RedialPending}"
  using assms
proof (induction es arbitrary: st)
  case (Cons e es)
  let ?st = "snd (redial_step B e st)"
  have "rd_sleep ?st = None" "rd_peer ?st = rd_peer st" "set (fst (redial_step B e st)) \<subseteq> {RedialPending}"
    using Cons.prems by (cases e; force simp: redial_step_def redial_inject_connected_def redial_inject_disconnected_def
      redial_poll_def)+
  moreover have "set (fst (redial_run B es ?st)) \<subseteq> {RedialPending}" using Cons.IH[of ?st] calculation Cons.prems(2) by simp
  ultimately show ?case by (auto split: prod.splits)
qed simp

text \<open>
  as long as no connection was lost the behaviour does nothing: a first dial that fails, so that there
  never was a connection, is neither repeated nor given up.
\<close>

theorem failed_first_dial_is_not_repeated:
  assumes "\<forall>now. RedialDisconnected now p \<notin> set es"
  shows "set (fst (redial_run B es (redial_new B p interval))) \<subseteq> {RedialPending}"
  by (rule redial_quiet_run) (use assms in \<open>simp_all add: redial_new_def\<close>)

section \<open>Instances\<close>

text \<open>A backoff that doubles its interval and gives up after ten seconds.\<close>

definition doubling :: "(nat \<times> nat \<times> nat) backoff" where
  "doubling = \<lparr>bo_new = (\<lambda>i. (i, i, 0)), bo_initial_interval = fst, bo_reset = (\<lambda>now (i, _, _). (i, i, now)),
     bo_next_backoff = (\<lambda>now (i, c, t). (if now - t \<le> 10 then Some c else None, (i, 2 * c, t)))\<rparr>"

theorem redials_only_after_a_loss_witness:
  "lost_since 7 (rev [RedialConnected 7, RedialDisconnected 3 7, RedialPolled 4])"
proof -
  have "redial_run doubling [RedialConnected 7, RedialDisconnected 3 7, RedialPolled 4] (redial_new doubling 7 2) =
      ([RedialPending], \<lparr>rd_peer = 7, rd_sleep = Some 5, rd_backoff = (2, 2, 3)\<rparr>)" by code_simp
  from redials_only_after_a_loss[OF this, of 5] show ?thesis by (simp add: redial_poll_def doubling_def)
qed

theorem failed_first_dial_is_not_repeated_witness:
  "set (fst (redial_run doubling [RedialPolled 5, RedialPolled 600] (redial_new doubling 7 2))) \<subseteq> {RedialPending}"
  by (rule failed_first_dial_is_not_repeated) simp

end
