(* ===== verification/Setup_Queues.thy ===== *)
theory Setup_Queues
  imports Swap_Setup
begin

text \<open>
  The libp2p behaviours and handlers around the setup protocol: \<open>Behaviour\<close> and \<open>Handler\<close> of
  \<open>network/swap_setup/alice.rs\<close> and \<open>network/swap_setup/bob.rs\<close>, on one connection. The futures of
  \<open>Swap_Setup\<close> are numbers here; a poll is told which of them are ready, and with what result.
\<close>

section \<open>The timer\<close>

text \<open>\<open>elapsed\<close>: the 120 seconds passed before the future was ready.\<close>

definition setup_elapsed :: error where "setup_elapsed = Msg ''deadline has elapsed''"

definition alice_setup_timed :: "bool \<Rightarrow> (uuid \<times> alice_state3) outcome \<Rightarrow> (uuid \<times> alice_state3) outcome" where
  "alice_setup_timed elapsed result =
     (if elapsed then Err (Context ''Failed to complete execution setup within 120s'' setup_elapsed) else result)"

definition bob_setup_timed :: "bool \<Rightarrow> bob_state2 outcome \<Rightarrow> bob_state2 outcome" where
  "bob_setup_timed elapsed result =
     (if elapsed then Err (Msg ''Failed to complete swap setup within 120s'') else result)"

section \<open>Bob\<close>

type_synonym future = nat

record bob_setup_behaviour =
  bsb_new_swaps :: "(peer_id \<times> new_swap) list"
  bsb_completed_swaps :: "(peer_id \<times> bob_state2 outcome) list"

record bob_setup_handler =
  bsh_outbound_stream :: "future option"
  bsh_new_swaps :: "new_swap list"
  bsh_keep_alive :: bool

definition bob_setup_behaviour_new :: bob_setup_behaviour where
  "bob_setup_behaviour_new = \<lparr>bsb_new_swaps = [], bsb_completed_swaps = []\<rparr>"

definition bob_setup_handler_new :: bob_setup_handler where
  "bob_setup_handler_new = \<lparr>bsh_outbound_stream = None, bsh_new_swaps = [], bsh_keep_alive = True\<rparr>"

definition bob_setup_start :: "peer_id \<Rightarrow> new_swap \<Rightarrow> bob_setup_behaviour \<Rightarrow> bob_setup_behaviour" where
  "bob_setup_start alice swap b = b\<lparr>bsb_new_swaps := bsb_new_swaps b @ [(alice, swap)]\<rparr>"

definition bob_setup_behaviour_event :: "peer_id \<Rightarrow> bob_state2 outcome \<Rightarrow> bob_setup_behaviour \<Rightarrow> bob_setup_behaviour" where
  "bob_setup_behaviour_event peer completed b =
     b\<lparr>bsb_completed_swaps := bsb_completed_swaps b @ [(peer, completed)]\<rparr>"

datatype bob_behaviour_action = GenerateCompleted "bob_state2 outcome" | NotifyHandler peer_id new_swap

definition bob_setup_behaviour_poll :: "bob_setup_behaviour \<Rightarrow> bob_behaviour_action option \<times> bob_setup_behaviour" where
  "bob_setup_behaviour_poll b = (case bsb_completed_swaps b of
     (_, event) # rest \<Rightarrow> (Some (GenerateCompleted event), b\<lparr>bsb_completed_swaps := rest\<rparr>)
   | [] \<Rightarrow> (case bsb_new_swaps b of
       (peer, event) # rest \<Rightarrow> (Some (NotifyHandler peer event), b\<lparr>bsb_new_swaps := rest\<rparr>)
     | [] \<Rightarrow> (None, b)))"

definition bob_setup_negotiated :: "future \<Rightarrow> bob_setup_handler \<Rightarrow> bob_setup_handler" where
  "bob_setup_negotiated protocol h = h\<lparr>bsh_outbound_stream := Some protocol\<rparr>"

definition bob_setup_handler_event :: "new_swap \<Rightarrow> bob_setup_handler \<Rightarrow> bob_setup_handler" where
  "bob_setup_handler_event new_swap h = h\<lparr>bsh_new_swaps := bsh_new_swaps h @ [new_swap]\<rparr>"

definition bob_setup_upgrade_error :: "new_swap \<Rightarrow> bob_setup_handler \<Rightarrow> bob_setup_handler" where
  "bob_setup_upgrade_error info h = h"

datatype bob_handler_action = OutboundSubstreamRequest new_swap | CustomCompleted "bob_state2 outcome"

definition bob_setup_handler_poll ::
  "(future \<Rightarrow> bob_state2 outcome option) \<Rightarrow> bob_setup_handler \<Rightarrow> bob_handler_action option \<times> bob_setup_handler" where
  "bob_setup_handler_poll ready h = (case bsh_new_swaps h of
     new_swap # rest \<Rightarrow> (Some (OutboundSubstreamRequest new_swap), h\<lparr>bsh_new_swaps := rest, bsh_keep_alive := True\<rparr>)
   | [] \<Rightarrow> (case Option.bind (bsh_outbound_stream h) ready of
       Some result \<Rightarrow> (Some (CustomCompleted result), h\<lparr>bsh_outbound_stream := None\<rparr>)
     | None \<Rightarrow> (None, h)))"

section \<open>Alice\<close>

datatype alice_setup_event =
    SetupInitiated nat
  | SetupCompleted peer_id uuid alice_state3
  | SetupFailed peer_id error

datatype alice_handler_event = HandlerInitiated nat | HandlerCompleted "(uuid \<times> alice_state3) outcome"

record alice_setup_handler =
  ash_inbound_stream :: "future option"
  ash_events :: "alice_handler_event list"
  ash_keep_alive_forever :: bool

definition alice_setup_handler_new :: alice_setup_handler where
  "alice_setup_handler_new = \<lparr>ash_inbound_stream = None, ash_events = [], ash_keep_alive_forever = False\<rparr>"

text \<open>\<open>receiver\<close> is the end of the channel through which the event loop is asked for a wallet snapshot.\<close>

definition alice_setup_negotiated :: "future \<Rightarrow> nat \<Rightarrow> alice_setup_handler \<Rightarrow> alice_setup_handler" where
  "alice_setup_negotiated protocol receiver h =
     h\<lparr>ash_keep_alive_forever := True, ash_inbound_stream := Some protocol,
       ash_events := ash_events h @ [HandlerInitiated receiver]\<rparr>"

definition alice_setup_handler_poll ::
  "(future \<Rightarrow> (uuid \<times> alice_state3) outcome option) \<Rightarrow> alice_setup_handler \<Rightarrow>
   alice_handler_event option \<times> alice_setup_handler" where
  "alice_setup_handler_poll ready h = (case ash_events h of
     event # rest \<Rightarrow> (Some event, h\<lparr>ash_events := rest\<rparr>)
   | [] \<Rightarrow> (case Option.bind (ash_inbound_stream h) ready of
       Some result \<Rightarrow> (Some (HandlerCompleted result), h\<lparr>ash_inbound_stream := None\<rparr>)
     | None \<Rightarrow> (None, h)))"

text \<open>A panic of a future ends the task that polls it and never reaches the behaviour.\<close>

definition alice_setup_behaviour_event ::
  "peer_id \<Rightarrow> alice_handler_event \<Rightarrow> alice_setup_event list \<Rightarrow> alice_setup_event list" where
  "alice_setup_behaviour_event peer_id event events = (case event of
     HandlerInitiated send_wallet_snapshot \<Rightarrow> events @ [SetupInitiated send_wallet_snapshot]
   | HandlerCompleted (Ok (swap_id, state3)) \<Rightarrow> events @ [SetupCompleted peer_id swap_id state3]
   | HandlerCompleted (Err error) \<Rightarrow> events @ [SetupFailed peer_id error]
   | HandlerCompleted _ \<Rightarrow> events)"

primrec alice_setup_behaviour_poll :: "alice_setup_event list \<Rightarrow> alice_setup_event option \<times> alice_setup_event list" where
  "alice_setup_behaviour_poll [] = (None, [])"
| "alice_setup_behaviour_poll (event # events) = (Some event, events)"

section \<open>Sequences of calls, on a connection to one peer\<close>

text \<open>
  The swarm hands a notification to the handler of the connection at once, and a request for a substream
  is answered later, with the substream or with an error.
\<close>

datatype bob_setup_call =
    StartSetup new_swap
  | PollSetupBehaviour
  | PollSetupHandler "future \<Rightarrow> bob_state2 outcome option"
  | SubstreamNegotiated new_swap future
  | SubstreamFailed new_swap

record bob_setup =
  bse_behaviour :: bob_setup_behaviour
  bse_handler :: bob_setup_handler
  bse_requested :: "new_swap list"
  bse_running :: "(future \<times> new_swap) option"
  bse_generated :: "bob_state2 outcome list"

definition bob_setup_new :: bob_setup where
  "bob_setup_new = \<lparr>bse_behaviour = bob_setup_behaviour_new, bse_handler = bob_setup_handler_new, bse_requested = [],
     bse_running = None, bse_generated = []\<rparr>"

text \<open>\<open>bse_requested\<close> and \<open>bse_running\<close> name the swaps that the handler's requests and its future are for.\<close>

definition bob_setup_call :: "peer_id \<Rightarrow> bob_setup_call \<Rightarrow> bob_setup \<Rightarrow> bob_setup" where
  "bob_setup_call alice c s = (case c of
     StartSetup swap \<Rightarrow> s\<lparr>bse_behaviour := bob_setup_start alice swap (bse_behaviour s)\<rparr>
   | PollSetupBehaviour \<Rightarrow>
       (case bob_setup_behaviour_poll (bse_behaviour s) of
          (None, b) \<Rightarrow> s\<lparr>bse_behaviour := b\<rparr>
        | (Some (GenerateCompleted r), b) \<Rightarrow> s\<lparr>bse_behaviour := b, bse_generated := bse_generated s @ [r]\<rparr>
        | (Some (NotifyHandler peer swap), b) \<Rightarrow>
            s\<lparr>bse_behaviour := b, bse_handler := bob_setup_handler_event swap (bse_handler s)\<rparr>)
   | PollSetupHandler ready \<Rightarrow>
       (case bob_setup_handler_poll ready (bse_handler s) of
          (None, h) \<Rightarrow> s\<lparr>bse_handler := h\<rparr>
        | (Some (OutboundSubstreamRequest swap), h) \<Rightarrow> s\<lparr>bse_handler := h, bse_requested := bse_requested s @ [swap]\<rparr>
        | (Some (CustomCompleted r), h) \<Rightarrow>
            s\<lparr>bse_handler := h, bse_running := None,
              bse_behaviour := bob_setup_behaviour_event alice r (bse_behaviour s)\<rparr>)
   | SubstreamNegotiated swap protocol \<Rightarrow>
       if swap \<in> set (bse_requested s)
       then s\<lparr>bse_handler := bob_setup_negotiated protocol (bse_handler s), bse_requested := remove1 swap (bse_requested s),
              bse_running := Some (protocol, swap)\<rparr>
       else s
   | SubstreamFailed swap \<Rightarrow>
       if swap \<in> set (bse_requested s)
       then s\<lparr>bse_handler := bob_setup_upgrade_error swap (bse_handler s), bse_requested := remove1 swap (bse_requested s)\<rparr>
       else s)"

datatype alice_setup_call =
    InboundNegotiated future nat
  | PollAliceHandler "future \<Rightarrow> (uuid \<times> alice_state3) outcome option"
  | PollAliceBehaviour

record alice_setup =
  ase_handler :: alice_setup_handler
  ase_events :: "alice_setup_event list"
  ase_generated :: "alice_setup_event list"

definition alice_setup_new :: alice_setup where
  "alice_setup_new = \<lparr>ase_handler = alice_setup_handler_new, ase_events = [], ase_generated = []\<rparr>"

definition alice_setup_call :: "peer_id \<Rightarrow> alice_setup_call \<Rightarrow> alice_setup \<Rightarrow> alice_setup" where
  "alice_setup_call bob c s = (case c of
     InboundNegotiated protocol receiver \<Rightarrow> s\<lparr>ase_handler := alice_setup_negotiated protocol receiver (ase_handler s)\<rparr>
   | PollAliceHandler ready \<Rightarrow>
       (case alice_setup_handler_poll ready (ase_handler s) of
          (None, h) \<Rightarrow> s\<lparr>ase_handler := h\<rparr>
        | (Some e, h) \<Rightarrow> s\<lparr>ase_handler := h, ase_events := alice_setup_behaviour_event bob e (ase_events s)\<rparr>)
   | PollAliceBehaviour \<Rightarrow>
       (case alice_setup_behaviour_poll (ase_events s) of
          (None, es) \<Rightarrow> s\<lparr>ase_events := es\<rparr>
        | (Some e, es) \<Rightarrow> s\<lparr>ase_events := es, ase_generated := ase_generated s @ [e]\<rparr>))"

end
