(* ===== verification/Setup_Queues_Properties.thy ===== *)
theory Setup_Queues_Properties
  imports Setup_Queues Sample_World
begin

text \<open>
  What the event loops are told of setups: no completion without a setup that was started, at most one for
  each, and when none comes.
\<close>

section \<open>Bob\<close>

definition started :: "bob_setup_call list \<Rightarrow> nat" where
  "started cs = length (filter (\<lambda>c. \<exists>swap. c = StartSetup swap) cs)"

text \<open>Swaps under way, results on their way to the event loop, and a result that some future gave.\<close>

definition under_way :: "bob_setup \<Rightarrow> nat" where
  "under_way s = length (bsb_new_swaps (bse_behaviour s)) + length (bsh_new_swaps (bse_handler s)) +
     length (bse_requested s) + (if bsh_outbound_stream (bse_handler s) = None then 0 else 1)"

definition reported :: "bob_setup \<Rightarrow> bob_state2 outcome list" where
  "reported s = bse_generated s @ map snd (bsb_completed_swaps (bse_behaviour s))"

definition result_of_future :: "bob_setup_call list \<Rightarrow> bob_state2 outcome \<Rightarrow> bool" where
  "result_of_future cs r \<longleftrightarrow> (\<exists>swap protocol ready. SubstreamNegotiated swap protocol \<in> set cs \<and>
     PollSetupHandler ready \<in> set cs \<and> ready protocol = Some r)"

definition bob_setup_inv :: "bob_setup_call list \<Rightarrow> bob_setup \<Rightarrow> bool" where
  "bob_setup_inv cs s \<longleftrightarrow> length (reported s) + under_way s \<le> started cs \<and>
     (\<forall>r\<in>set (reported s). result_of_future cs r) \<and>
     (\<forall>protocol. bsh_outbound_stream (bse_handler s) = Some protocol \<longrightarrow> (\<exists>swap. SubstreamNegotiated swap protocol \<in> set cs))"

lemma result_of_future_more: "result_of_future cs r \<Longrightarrow> result_of_future (cs @ ds) r"
  unfolding result_of_future_def by auto

lemma started_append: "started (cs @ ds) = started cs + started ds"
  by (simp add: started_def)

lemma started_one: "started [c] = (case c of StartSetup _ \<Rightarrow> 1 | _ \<Rightarrow> 0)"
  by (cases c) (simp_all add: started_def)

lemma bob_setup_inv_call:
  assumes "bob_setup_inv cs s"
  shows "bob_setup_inv (cs @ [c]) (bob_setup_call alice c s)"
proof -
  have n: "length (reported s) + under_way s \<le> started cs" and r: "\<forall>r\<in>set (reported s). result_of_future (cs @ [c]) r"
    and f: "\<forall>protocol. bsh_outbound_stream (bse_handler s) = Some protocol \<longrightarrow>
        (\<exists>swap. SubstreamNegotiated swap protocol \<in> set (cs @ [c]))"
    using assms result_of_future_more by (auto simp: bob_setup_inv_def)
  show ?thesis
  proof (cases c)
    case (StartSetup swap)
    thus ?thesis using n r f
      by (simp add: bob_setup_inv_def bob_setup_call_def bob_setup_start_def started_append started_one reported_def under_way_def)
  next
    case PollSetupBehaviour
    thus ?thesis using n r f
      by (auto simp: bob_setup_inv_def bob_setup_call_def bob_setup_behaviour_poll_def bob_setup_handler_event_def
        started_append started_one reported_def under_way_def split: list.splits)
  next
    case (PollSetupHandler ready)
    show ?thesis
    proof (cases "bsh_new_swaps (bse_handler s)")
      case Nil
      show ?thesis
      proof (cases "Option.bind (bsh_outbound_stream (bse_handler s)) ready")
        case (Some result)
        then obtain protocol where protocol: "bsh_outbound_stream (bse_handler s) = Some protocol" "ready protocol = Some result"
          by (auto simp: bind_eq_Some_conv)
        hence "result_of_future (cs @ [c]) result" using f PollSetupHandler by (fastforce simp: result_of_future_def)
        thus ?thesis using n r Nil Some protocol PollSetupHandler
          by (auto simp: bob_setup_inv_def bob_setup_call_def bob_setup_handler_poll_def bob_setup_behaviour_event_def
            started_append started_one reported_def under_way_def)
      qed (use n r f Nil PollSetupHandler in \<open>simp add: bob_setup_inv_def bob_setup_call_def bob_setup_handler_poll_def
        started_append started_one\<close>)
    qed (use n r f PollSetupHandler in \<open>simp add: bob_setup_inv_def bob_setup_call_def bob_setup_handler_poll_def
      started_append started_one reported_def under_way_def\<close>)
  next
    case (SubstreamNegotiated swap protocol)
    show ?thesis
    proof (cases "swap \<in> set (bse_requested s)")
      case True
      hence "1 \<le> length (bse_requested s)" by (cases "bse_requested s") simp_all
      hence "length (remove1 swap (bse_requested s)) + 1 = length (bse_requested s)" using True by (simp add: length_remove1)
      moreover have "reported (bob_setup_call alice c s) = reported s"
        by (simp add: SubstreamNegotiated bob_setup_call_def reported_def)
      ultimately have "length (reported (bob_setup_call alice c s)) + under_way (bob_setup_call alice c s) \<le> started (cs @ [c])"
        using n True by (simp add: SubstreamNegotiated bob_setup_call_def bob_setup_negotiated_def under_way_def started_append
          started_one split: if_splits)
      thus ?thesis using r f True \<open>reported _ = reported s\<close>
        by (auto simp: bob_setup_inv_def SubstreamNegotiated bob_setup_call_def bob_setup_negotiated_def)
    qed (use n r f in \<open>simp add: SubstreamNegotiated bob_setup_inv_def bob_setup_call_def started_append started_one\<close>)
  next
    case (SubstreamFailed swap)
    thus ?thesis using n r f
      by (cases "swap \<in> set (bse_requested s)")
        (auto simp: bob_setup_inv_def bob_setup_call_def bob_setup_upgrade_error_def started_append started_one reported_def
          under_way_def length_remove1 split: if_splits)
  qed
qed

lemma bob_setup_inv_calls: "bob_setup_inv past s \<Longrightarrow> bob_setup_inv (past @ cs) (fold (bob_setup_call alice) cs s)"
proof (induction cs arbitrary: past s)
  case (Cons c cs)
  show ?case using Cons.IH[OF bob_setup_inv_call[OF Cons.prems, of c alice]] by simp
qed simp

text \<open>
  Bob's event loop is told of at most one result per setup it started, and each result is what the
  future of a negotiated substream gave.
\<close>

theorem setup_results_are_justified:
  assumes "s = fold (bob_setup_call alice) cs bob_setup_new"
  shows "length (bse_generated s) + under_way s \<le> started cs \<and> (\<forall>r\<in>set (bse_generated s). result_of_future cs r)"
proof -
  have "bob_setup_inv [] bob_setup_new"
    by (simp add: bob_setup_inv_def bob_setup_new_def reported_def under_way_def bob_setup_behaviour_new_def
      bob_setup_handler_new_def)
  from bob_setup_inv_calls[OF this, of cs alice] show ?thesis
    by (auto simp: assms bob_setup_inv_def reported_def)
qed

text \<open>Nothing is under way, and nothing more is started.\<close>

lemma idle_setup_call:
  assumes "under_way s = 0" "\<forall>swap. c \<noteq> StartSetup swap"
  shows "under_way (bob_setup_call alice c s) = 0 \<and> reported (bob_setup_call alice c s) = reported s"
  using assms
  by (cases c) (auto simp: bob_setup_call_def bob_setup_behaviour_poll_def bob_setup_handler_poll_def under_way_def reported_def
    split: list.splits option.splits if_splits)

lemma idle_setup_calls:
  assumes "under_way s = 0" "\<forall>swap. StartSetup swap \<notin> set cs"
  shows "reported (fold (bob_setup_call alice) cs s) = reported s"
  using assms
proof (induction cs arbitrary: s)
  case (Cons c cs)
  have "\<forall>swap. c \<noteq> StartSetup swap" using Cons.prems(2) by auto
  thus ?case using Cons.IH[of "bob_setup_call alice c s"] idle_setup_call[OF Cons.prems(1), of c alice] Cons.prems(2) by simp
qed simp

text \<open>
  when the substream of a setup cannot be negotiated, Bob's event loop is never told: no result comes
  until another setup is started.
\<close>

theorem failed_substream_is_not_reported:
  assumes "under_way s = 1" "swap \<in> set (bse_requested s)" "\<forall>swap. StartSetup swap \<notin> set cs"
  shows "length (bse_generated (fold (bob_setup_call alice) (SubstreamFailed swap # cs) s)) \<le>
    length (bse_generated s) + length (bsb_completed_swaps (bse_behaviour s))"
proof -
  let ?s = "bob_setup_call alice (SubstreamFailed swap) s"
  have "length (bse_requested s) = 1" using assms(1,2) by (cases "bse_requested s") (auto simp: under_way_def)
  hence "under_way ?s = 0" "reported ?s = reported s"
    using assms(1,2) by (auto simp: bob_setup_call_def under_way_def reported_def bob_setup_upgrade_error_def length_remove1)
  hence "reported (fold (bob_setup_call alice) cs ?s) = reported s" using idle_setup_calls[OF _ assms(3)] by simp
  hence "length (reported (fold (bob_setup_call alice) cs ?s)) = length (reported s)" by simp
  thus ?thesis by (simp add: reported_def)
qed

section \<open>Alice\<close>

fun is_initiation :: "alice_setup_event \<Rightarrow> bool" where
  "is_initiation (SetupInitiated r) = True"
| "is_initiation _ = False"

definition balanced :: "alice_setup_event list \<Rightarrow> bool" where
  "balanced es \<longleftrightarrow> (\<forall>k. length (filter (\<lambda>e. \<not> is_initiation e) (take k es)) \<le> length (filter is_initiation (take k es)))"

lemma balanced_append_one:
  assumes "balanced es" "is_initiation e \<or> Suc (length (filter (\<lambda>e. \<not> is_initiation e) es)) \<le> length (filter is_initiation es)"
  shows "balanced (es @ [e])"
  unfolding balanced_def
proof
  fix k
  show "length (filter (\<lambda>e. \<not> is_initiation e) (take k (es @ [e]))) \<le> length (filter is_initiation (take k (es @ [e])))"
  proof (cases "k \<le> length es")
    case True
    thus ?thesis using assms(1) by (simp add: balanced_def)
  next
    case False
    hence t: "take k (es @ [e]) = es @ [e]" by simp
    have "length (filter (\<lambda>e. \<not> is_initiation e) es) \<le> length (filter is_initiation es)"
      using assms(1)[unfolded balanced_def, rule_format, of "length es"] by simp
    thus ?thesis using assms(2) unfolding t by auto
  qed
qed

definition alice_history :: "peer_id \<Rightarrow> alice_setup \<Rightarrow> alice_setup_event list" where
  "alice_history bob s = ase_generated s @ ase_events s @
     concat (map (\<lambda>e. alice_setup_behaviour_event bob e []) (ash_events (ase_handler s)))"

definition alice_setup_inv :: "peer_id \<Rightarrow> alice_setup \<Rightarrow> bool" where
  "alice_setup_inv bob s \<longleftrightarrow> balanced (alice_history bob s) \<and> (\<forall>e\<in>set (ash_events (ase_handler s)). \<exists>r. e = HandlerInitiated r) \<and>
     length (filter (\<lambda>e. \<not> is_initiation e) (alice_history bob s)) +
       (if ash_inbound_stream (ase_handler s) = None then 0 else 1) \<le> length (filter is_initiation (alice_history bob s))"

lemma behaviour_event_append:
  "alice_setup_behaviour_event bob e es = es @ alice_setup_behaviour_event bob e []"
  by (auto simp: alice_setup_behaviour_event_def split: alice_handler_event.splits outcome.splits)

lemma behaviour_event_cases:
  "alice_setup_behaviour_event bob (HandlerCompleted r) [] = [] \<or>
   (\<exists>e. alice_setup_behaviour_event bob (HandlerCompleted r) [] = [e] \<and> \<not> is_initiation e)"
  by (cases r) (auto simp: alice_setup_behaviour_event_def)

lemma alice_setup_inv_call:
  assumes "alice_setup_inv bob s"
  shows "alice_setup_inv bob (alice_setup_call bob c s)"
proof (cases c)
  case (InboundNegotiated protocol receiver)
  have "alice_history bob (alice_setup_call bob c s) = alice_history bob s @ [SetupInitiated receiver]"
    by (simp add: InboundNegotiated alice_setup_call_def alice_setup_negotiated_def alice_history_def alice_setup_behaviour_event_def)
  thus ?thesis using assms balanced_append_one[of "alice_history bob s" "SetupInitiated receiver"]
    by (auto simp: alice_setup_inv_def InboundNegotiated alice_setup_call_def alice_setup_negotiated_def split: if_splits)
next
  case (PollAliceHandler ready)
  show ?thesis
  proof (cases "ash_events (ase_handler s)")
    case (Cons e es)
    have "alice_history bob (alice_setup_call bob c s) = alice_history bob s"
      by (simp add: PollAliceHandler alice_setup_call_def alice_setup_handler_poll_def Cons alice_history_def
        behaviour_event_append[of bob e "ase_events s"])
    thus ?thesis using assms
      by (simp add: alice_setup_inv_def PollAliceHandler alice_setup_call_def alice_setup_handler_poll_def Cons)
  next
    case Nil
    show ?thesis
    proof (cases "Option.bind (ash_inbound_stream (ase_handler s)) ready")
      case (Some r)
      let ?new = "alice_setup_behaviour_event bob (HandlerCompleted r) []"
      have call: "alice_setup_call bob c s = s\<lparr>ase_handler := (ase_handler s)\<lparr>ash_inbound_stream := None\<rparr>,
          ase_events := ase_events s @ ?new\<rparr>"
        by (simp add: PollAliceHandler alice_setup_call_def alice_setup_handler_poll_def Nil Some
          behaviour_event_append[of bob _ "ase_events s"])
      have "alice_history bob (alice_setup_call bob c s) = alice_history bob s @ ?new"
        by (simp add: call alice_history_def Nil)
      moreover have "ash_inbound_stream (ase_handler s) \<noteq> None" using Some by (auto simp: bind_eq_Some_conv)
      ultimately show ?thesis using assms behaviour_event_cases[of bob r] balanced_append_one[of "alice_history bob s"]
        by (auto simp: alice_setup_inv_def call Nil)
    qed (use assms in \<open>simp add: alice_setup_inv_def alice_history_def PollAliceHandler alice_setup_call_def
      alice_setup_handler_poll_def Nil\<close>)
  qed
next
  case PollAliceBehaviour
  have "alice_history bob (alice_setup_call bob c s) = alice_history bob s"
    "ase_handler (alice_setup_call bob c s) = ase_handler s"
    by (cases "ase_events s"; simp add: PollAliceBehaviour alice_setup_call_def alice_history_def)+
  thus ?thesis using assms by (simp add: alice_setup_inv_def)
qed

text \<open>
  Alice's event loop is told that a setup with a peer ended only after it was asked for the wallet
  snapshot of that setup, and at most once for each time it was asked.
\<close>

theorem setup_ends_after_it_began:
  assumes "s = fold (alice_setup_call bob) cs alice_setup_new"
  shows "balanced (ase_generated s)"
proof -
  have "alice_setup_inv bob alice_setup_new"
    by (simp add: alice_setup_inv_def alice_setup_new_def alice_history_def alice_setup_handler_new_def balanced_def)
  hence "alice_setup_inv bob s" unfolding assms
    by (induction cs rule: rev_induct) (simp_all add: alice_setup_inv_call)
  hence b: "balanced (alice_history bob s)" by (simp add: alice_setup_inv_def)
  show ?thesis unfolding balanced_def
  proof
    fix k
    have "take (min k (length (ase_generated s))) (alice_history bob s) = take k (ase_generated s)"
      by (cases "k \<le> length (ase_generated s)") (simp_all add: alice_history_def min_def)
    thus "length (filter (\<lambda>e. \<not> is_initiation e) (take k (ase_generated s))) \<le> length (filter is_initiation (take k (ase_generated s)))"
      using b[unfolded balanced_def, rule_format, of "min k (length (ase_generated s))"] by simp
  qed
qed

section \<open>Instances\<close>

definition sample_new_swap :: new_swap where
  "sample_new_swap = \<lparr>ns_swap_id = 1, ns_btc = 5000, ns_tx_refund_fee = 10, ns_tx_cancel_fee = 10,
     ns_bitcoin_refund_address = \<lparr>addr_network = Testnet, addr_payload = 4\<rparr>\<rparr>"

definition sample_setup_calls :: "bob_setup_call list" where
  "sample_setup_calls = [StartSetup sample_new_swap, PollSetupBehaviour, PollSetupHandler (\<lambda>_. None)]"

theorem setup_results_are_justified_witness:
  "\<exists>s :: bob_setup. bse_generated s = [Err (Msg ''closed'')] \<and> length (bse_generated s) + under_way s \<le> 1"
proof -
  let ?cs = "sample_setup_calls @ [SubstreamNegotiated sample_new_swap 0, PollSetupHandler (\<lambda>_. Some (Err (Msg ''closed''))),
    PollSetupBehaviour]"
  have "bse_generated (fold (bob_setup_call 7) ?cs bob_setup_new) = [Err (Msg ''closed'')]"
    by (simp add: sample_setup_calls_def bob_setup_call_def bob_setup_new_def bob_setup_start_def bob_setup_behaviour_new_def
      bob_setup_handler_new_def bob_setup_behaviour_poll_def bob_setup_handler_poll_def bob_setup_handler_event_def
      bob_setup_negotiated_def bob_setup_behaviour_event_def)
  moreover have "started ?cs = 1" by (simp add: sample_setup_calls_def started_def)
  ultimately show ?thesis using setup_results_are_justified[of _ 7 ?cs, OF refl] by auto
qed

theorem failed_substream_is_not_reported_witness:
  "bse_generated (fold (bob_setup_call 7) [SubstreamFailed sample_new_swap, PollSetupHandler (\<lambda>_. None), PollSetupBehaviour]
     (fold (bob_setup_call 7) sample_setup_calls bob_setup_new)) = []"
proof -
  have "fold (bob_setup_call 7) sample_setup_calls bob_setup_new = bob_setup_new\<lparr>bse_requested := [sample_new_swap]\<rparr>"
    by (simp add: sample_setup_calls_def bob_setup_call_def bob_setup_new_def bob_setup_start_def bob_setup_behaviour_new_def
      bob_setup_handler_new_def bob_setup_behaviour_poll_def bob_setup_handler_poll_def bob_setup_handler_event_def)
  thus ?thesis
    using failed_substream_is_not_reported[of "bob_setup_new\<lparr>bse_requested := [sample_new_swap]\<rparr>" sample_new_swap
        "[PollSetupHandler (\<lambda>_. None), PollSetupBehaviour]" 7]
    by (simp add: under_way_def bob_setup_new_def bob_setup_behaviour_new_def bob_setup_handler_new_def)
qed

theorem setup_ends_after_it_began_witness:
  "\<exists>s :: alice_setup. ase_generated s = [SetupInitiated 3, SetupFailed 8 (Msg ''closed'')] \<and> balanced (ase_generated s)"
proof -
  let ?cs = "[InboundNegotiated 0 3, PollAliceHandler (\<lambda>_. None), PollAliceHandler (\<lambda>_. Some (Err (Msg ''closed''))),
    PollAliceBehaviour, PollAliceBehaviour]"
  have "ase_generated (fold (alice_setup_call 8) ?cs alice_setup_new) = [SetupInitiated 3, SetupFailed 8 (Msg ''closed'')]"
    by (simp add: alice_setup_call_def alice_setup_new_def alice_setup_handler_new_def alice_setup_negotiated_def
      alice_setup_handler_poll_def alice_setup_behaviour_event_def)
  thus ?thesis using setup_ends_after_it_began[of _ 8 ?cs, OF refl] by blast
qed

end
