(* ===== verification/Wire_Events.thy ===== *)
theory Wire_Events
  imports Setup_Wire Cli_Loop Setup_Queues Redial
begin

text \<open>
  How messages cross the network: the codecs of \<open>network/cbor_request_response.rs\<close> and
  \<open>network/json_pull_codec.rs\<close> over a substream, and the conversions of libp2p's events into the events of
  the two loops (\<open>impl_from_rr_event.rs\<close>, the \<open>From\<close> instances of \<open>network/*.rs\<close>).
\<close>

section \<open>Codecs\<close>

text \<open>
  What \<open>serde\<close> derives for a type of messages, once per format: \<open>serde_cbor\<close> is used by \<open>CborCodec\<close> and
  \<open>serde_json\<close> by \<open>JsonPullCodec\<close>. The kind of an \<open>io::Error\<close> does not show in its message.
\<close>

record 'a serde =
  sd_cbor :: "'a codec_of"
  sd_json :: "'a codec_of"

definition cbor_read_request :: "'w substream \<Rightarrow> 'a serde \<Rightarrow> ('w, 'a) io" where
  "cbor_read_request S T =
     bindio (ss_read_length_prefixed S BUF_SIZE) (\<lambda>message.
     lift (co_deserialize (sd_cbor T) message))"

definition cbor_read_response :: "'w substream \<Rightarrow> 'a serde \<Rightarrow> ('w, 'a) io" where
  "cbor_read_response S T =
     bindio (ss_read_length_prefixed S BUF_SIZE) (\<lambda>message.
     lift (co_deserialize (sd_cbor T) message))"

definition cbor_write_request :: "'w substream \<Rightarrow> 'a serde \<Rightarrow> 'a \<Rightarrow> ('w, unit) io" where
  "cbor_write_request S T req =
     bindio (lift (co_to_vec (sd_cbor T) req)) (\<lambda>bytes.
     ss_write_length_prefixed S bytes)"

definition cbor_write_response :: "'w substream \<Rightarrow> 'a serde \<Rightarrow> 'a \<Rightarrow> ('w, unit) io" where
  "cbor_write_response S T res =
     bindio (lift (co_to_vec (sd_cbor T) res)) (\<lambda>bytes.
     ss_write_length_prefixed S bytes)"

text \<open>A pull protocol has an empty request.\<close>

definition json_read_request :: "'w substream \<Rightarrow> ('w, unit) io" where
  "json_read_request S = ret ()"

definition json_write_request :: "'w substream \<Rightarrow> unit \<Rightarrow> ('w, unit) io" where
  "json_write_request S u = ret ()"

definition json_read_response :: "'w substream \<Rightarrow> 'a serde \<Rightarrow> ('w, 'a) io" where
  "json_read_response S T =
     bindio (ss_read_length_prefixed S BUF_SIZE) (\<lambda>message.
     lift (co_deserialize (sd_json T) message))"

definition json_write_response :: "'w substream \<Rightarrow> 'a serde \<Rightarrow> 'a \<Rightarrow> ('w, unit) io" where
  "json_write_response S T res =
     bindio (lift (co_to_vec (sd_json T) res)) (\<lambda>bytes.
     ss_write_length_prefixed S bytes)"

section \<open>Events of a request-response behaviour\<close>

datatype inbound_failure = InTimeout | InConnectionClosed | InUnsupportedProtocols | InResponseOmission
datatype outbound_failure = OutTimeout | OutConnectionClosed | OutUnsupportedProtocols | OutDialFailure

datatype ('req, 'res) rr_event =
    RrRequest peer_id 'req channel
  | RrResponse peer_id request_id 'res
  | RrResponseSent peer_id
  | RrInboundFailure peer_id inbound_failure
  | RrOutboundFailure peer_id outbound_failure

text \<open>
  The macro \<open>impl_from_rr_event\<close>, of the conversions of a request and of a response and the variants
  \<open>Failure\<close> and \<open>Other\<close>.
\<close>

definition from_rr_event ::
  "(peer_id \<Rightarrow> 'req \<Rightarrow> channel \<Rightarrow> 'e) \<Rightarrow> (peer_id \<Rightarrow> request_id \<Rightarrow> 'res \<Rightarrow> 'e) \<Rightarrow> (peer_id \<Rightarrow> error \<Rightarrow> 'e) \<Rightarrow> 'e \<Rightarrow>
   string \<Rightarrow> ('req, 'res) rr_event \<Rightarrow> 'e" where
  "from_rr_event request response failure other protocol event = (case event of
     RrRequest peer message ch \<Rightarrow> request peer message ch
   | RrResponse peer i message \<Rightarrow> response peer i message
   | RrResponseSent peer \<Rightarrow> other
   | RrInboundFailure peer error \<Rightarrow> (case error of
       InTimeout \<Rightarrow> failure peer (Msg (protocol @ '' failed because of an inbound timeout''))
     | InConnectionClosed \<Rightarrow>
         failure peer (Msg (protocol @ '' failed because the connection was closed before a response could be sent''))
     | InUnsupportedProtocols \<Rightarrow> other
     | InResponseOmission \<Rightarrow> other)
   | RrOutboundFailure peer error \<Rightarrow> (case error of
       OutTimeout \<Rightarrow>
         failure peer (Msg (protocol @ '' failed because we did not receive a response within the configured timeout''))
     | OutConnectionClosed \<Rightarrow>
         failure peer (Msg (protocol @ '' failed because the connection was closed we received a response''))
     | OutUnsupportedProtocols \<Rightarrow> other
     | OutDialFailure \<Rightarrow> failure peer (Msg (protocol @ '' failed because we failed to dial''))))"

definition asb_unexpected_request :: "peer_id \<Rightarrow> swarm_event" where
  "asb_unexpected_request peer = NetFailure peer (Msg ''Unexpected request received'')"
definition asb_unexpected_response :: "peer_id \<Rightarrow> swarm_event" where
  "asb_unexpected_response peer = NetFailure peer (Msg ''Unexpected response received'')"
definition cli_unexpected_request :: "peer_id \<Rightarrow> cli_swarm_event" where
  "cli_unexpected_request peer = CliFailure peer (Msg ''Unexpected request received'')"
definition cli_unexpected_response :: "peer_id \<Rightarrow> cli_swarm_event" where
  "cli_unexpected_response peer = CliFailure peer (Msg ''Unexpected response received'')"

record encsig_request =
  esr_swap_id :: uuid
  esr_tx_redeem_encsig :: encsig

record coop_request =
  cor_swap_id :: uuid

definition asb_quote_event :: "(unit, bid_quote) rr_event \<Rightarrow> swarm_event" where
  "asb_quote_event = from_rr_event (\<lambda>peer _ ch. QuoteRequested ch peer) (\<lambda>peer _ _. asb_unexpected_response peer)
     NetFailure OtherSwarmEvent ''/comit/bdx/btc/bid-quote/1.0.0''"

definition cli_quote_event :: "(unit, bid_quote) rr_event \<Rightarrow> cli_swarm_event" where
  "cli_quote_event = from_rr_event (\<lambda>peer _ _. cli_unexpected_request peer) (\<lambda>_ i response. QuoteReceived i response)
     CliFailure CliOther ''/comit/bdx/btc/bid-quote/1.0.0''"

definition asb_encsig_event :: "(encsig_request, unit) rr_event \<Rightarrow> swarm_event" where
  "asb_encsig_event = from_rr_event
     (\<lambda>peer msg ch. EncryptedSignatureReceived (esr_swap_id msg) (esr_tx_redeem_encsig msg) ch peer)
     (\<lambda>peer _ _. asb_unexpected_response peer) NetFailure OtherSwarmEvent ''/comit/bdx/btc/encrypted_signature/1.0.0''"

definition cli_encsig_event :: "(encsig_request, unit) rr_event \<Rightarrow> cli_swarm_event" where
  "cli_encsig_event = from_rr_event (\<lambda>peer _ _. cli_unexpected_request peer) (\<lambda>_ i _. EncryptedSignatureAcknowledged i)
     CliFailure CliOther ''/comit/bdx/btc/encrypted_signature/1.0.0''"

definition asb_proof_event :: "(proof_request, unit) rr_event \<Rightarrow> swarm_event" where
  "asb_proof_event = from_rr_event (\<lambda>peer _ _. asb_unexpected_request peer) (\<lambda>peer i _. TransferProofAcknowledged peer i)
     NetFailure OtherSwarmEvent ''/comit/bdx/btc/transfer_proof/1.0.0''"

definition cli_proof_event :: "(proof_request, unit) rr_event \<Rightarrow> cli_swarm_event" where
  "cli_proof_event = from_rr_event (\<lambda>peer msg ch. TransferProofReceived msg ch peer) (\<lambda>peer _ _. cli_unexpected_response peer)
     CliFailure CliOther ''/comit/bdx/btc/transfer_proof/1.0.0''"

definition asb_coop_event :: "(coop_request, coop_response) rr_event \<Rightarrow> swarm_event" where
  "asb_coop_event = from_rr_event (\<lambda>peer msg ch. CooperativeBeldexRedeemRequested ch (cor_swap_id msg) peer)
     (\<lambda>peer _ _. asb_unexpected_response peer) NetFailure OtherSwarmEvent
     ''/comit/bdx/btc/cooperative_bdx_redeem_after_punish/1.0.0''"

definition cli_coop_event :: "(coop_request, coop_response) rr_event \<Rightarrow> cli_swarm_event" where
  "cli_coop_event = from_rr_event (\<lambda>peer _ _. cli_unexpected_request peer)
     (\<lambda>_ i response. case response of
        Fullfilled swap_id s_a \<Rightarrow> CooperativeBeldexRedeemFulfilled i s_a swap_id
      | Rejected swap_id reason \<Rightarrow> CooperativeBeldexRedeemRejected i reason swap_id)
     CliFailure CliOther ''/comit/bdx/btc/cooperative_bdx_redeem_after_punish/1.0.0''"

text \<open>\<open>recv\<close> is what receiving on the channel for the wallet snapshot gives.\<close>

definition asb_setup_event :: "(nat \<Rightarrow> (btc_amount \<times> responder) outcome) \<Rightarrow> alice_setup_event \<Rightarrow> swarm_event" where
  "asb_setup_event recv event = (case event of
     SetupInitiated send_wallet_snapshot \<Rightarrow> SwapSetupInitiated (recv send_wallet_snapshot)
   | SetupCompleted bob_peer_id swap_id state3 \<Rightarrow> SwapSetupCompleted bob_peer_id swap_id state3
   | SetupFailed peer error \<Rightarrow> NetFailure peer error)"

definition cli_setup_event :: "bob_state2 outcome \<Rightarrow> cli_swarm_event" where
  "cli_setup_event completed = CliSetupCompleted completed"

definition cli_redial_event :: "peer_id \<Rightarrow> cli_swarm_event" where
  "cli_redial_event peer = AllRedialAttemptsExhausted peer"

section \<open>What crosses\<close>

text \<open>
  The frames that one side wrote on a fresh substream are what the other side reads. A message that can be
  encoded is read as it was written, unless its frame exceeds the reader's buffer: then reading fails.
\<close>

definition delivered :: "('v wire \<Rightarrow> 'a outcome \<times> 'v wire) \<Rightarrow> ('w wire \<Rightarrow> unit outcome \<times> 'w wire) \<Rightarrow> 'v \<Rightarrow> 'w \<Rightarrow> 'a outcome" where
  "delivered rd wr v w =
     (case wr \<lparr>wi_in = [], wi_out = [], wi_rest = w\<rparr> of
        (Ok u, w') \<Rightarrow> fst (rd \<lparr>wi_in = wi_out w', wi_out = [], wi_rest = v\<rparr>)
      | (Err e, _) \<Rightarrow> Err e | (Panic p, _) \<Rightarrow> Panic p | (Pending, _) \<Rightarrow> Pending)"

lemmas delivery = delivered_def wire_stream_def wire_write_def wire_read_def bindio_def lift_def codec_laws_def

lemma cbor_delivered:
  assumes "codec_laws (sd_cbor T)" "co_to_vec (sd_cbor T) m = Ok b"
  shows "delivered (cbor_read_request wire_stream T) (cbor_write_request wire_stream T m) v w =
      (if length b \<le> BUF_SIZE then Ok m else Err (Msg ''frame too long''))"
    "delivered (cbor_read_response wire_stream T) (cbor_write_response wire_stream T m) v w =
      (if length b \<le> BUF_SIZE then Ok m else Err (Msg ''frame too long''))"
  using assms
  by (simp_all add: delivery cbor_read_request_def cbor_write_request_def cbor_read_response_def cbor_write_response_def)

lemma json_delivered:
  assumes "codec_laws (sd_json T)" "co_to_vec (sd_json T) m = Ok b"
  shows "delivered (json_read_response wire_stream T) (json_write_response wire_stream T m) v w =
      (if length b \<le> BUF_SIZE then Ok m else Err (Msg ''frame too long''))"
  using assms by (simp add: delivery json_read_response_def json_write_response_def)

text \<open>The events that the requests and the answers of one loop become at the other.\<close>

lemma crossing_events:
  "asb_encsig_event (RrRequest peer \<lparr>esr_swap_id = i, esr_tx_redeem_encsig = sig\<rparr> ch) = EncryptedSignatureReceived i sig ch peer"
  "cli_encsig_event (RrResponse peer k ()) = EncryptedSignatureAcknowledged k"
  "cli_proof_event (RrRequest peer request ch) = TransferProofReceived request ch peer"
  "asb_proof_event (RrResponse peer k ()) = TransferProofAcknowledged peer k"
  "asb_coop_event (RrRequest peer \<lparr>cor_swap_id = i\<rparr> ch) = CooperativeBeldexRedeemRequested ch i peer"
  "cli_coop_event (RrResponse peer k (Fullfilled j s_a)) = CooperativeBeldexRedeemFulfilled k s_a j"
  "cli_coop_event (RrResponse peer k (Rejected j reason)) = CooperativeBeldexRedeemRejected k reason j"
  "asb_quote_event (RrRequest peer u ch) = QuoteRequested ch peer"
  "cli_quote_event (RrResponse peer k quote) = QuoteReceived k quote"
  by (simp_all add: asb_encsig_event_def cli_encsig_event_def cli_proof_event_def asb_proof_event_def asb_coop_event_def
    cli_coop_event_def asb_quote_event_def cli_quote_event_def from_rr_event_def)

end
