(* ===== verification/Api_Requests.thy ===== *)
theory Api_Requests
  imports Resume Bitcoin_Wallet Swap_Api
begin

text \<open>
  The requests of \<open>cli/api/request.rs\<close> that report about swaps and move money: \<open>get_swap_info\<close>,
  \<open>get_swap_infos_all\<close>, \<open>get_history\<close>, \<open>beldex_recovery\<close>, \<open>get_balance\<close>, \<open>withdraw_btc\<close> and
  \<open>get_current_swap\<close>. Those that read the database run on the world of \<open>Resume\<close>, in which it is the model of
  \<open>Sqlite\<close>; the others on the wallet of \<open>Bitcoin_Wallet\<close>. A wallet that is not open is \<open>None\<close>. A JSON object is a
  record of its fields, an address in it is the address itself; \<open>Txid\<close> and keys are not printed.
\<close>

section \<open>Queries\<close>

definition query :: "(sqlite, 'a) io \<Rightarrow> (('v \<times> sqlite) world, 'a) io" where
  "query m w = (case on_db m (w_ext w) of (r, v) \<Rightarrow> (r, w\<lparr>w_ext := v\<rparr>))"

definition wallet_or_error :: "'a option \<Rightarrow> 'a outcome" where
  "wallet_or_error wallet = of_option (Msg ''Could not get Bitcoin wallet'') wallet"

text \<open>\<open>find_map\<close> with a closure that may panic.\<close>

primrec find_map :: "('a \<Rightarrow> 'b option outcome) \<Rightarrow> 'a list \<Rightarrow> 'b option outcome" where
  "find_map f [] = Ok None"
| "find_map f (x # xs) = obind (f x) (\<lambda>r. case r of Some y \<Rightarrow> Ok (Some y) | None \<Rightarrow> find_map f xs)"

section \<open>Information about a swap\<close>

record swap_seller =
  ss_peer_id :: peer_id
  ss_addresses :: "string list"

text \<open>What the first \<open>SwapSetupCompleted\<close> of a swap says.\<close>

record setup_info =
  si_bdx_amount :: bdx_amount
  si_btc_amount :: btc_amount
  si_tx_lock_id :: txid
  si_tx_cancel_fee :: btc_amount
  si_tx_refund_fee :: btc_amount
  si_tx_lock_fee :: btc_amount
  si_btc_refund_address :: address
  si_cancel_timelock :: cancel_timelock
  si_punish_timelock :: punish_timelock

record swap_info = setup_info +
  si_swap_id :: uuid
  si_seller :: swap_seller
  si_completed :: bool
  si_start_date :: string
  si_state_name :: string
  si_timelock :: "expired_timelocks option"

definition setup_info_of :: "lib \<Rightarrow> swap_state \<Rightarrow> setup_info option outcome" where
  "setup_info_of L state = (case state of
     SBob (BSwapSetupCompleted state2) \<Rightarrow>
       obind (tx_lock_amount L (b2_tx_lock state2)) (\<lambda>btc_amount.
       Ok (case tx_lock_fee L (b2_tx_lock state2) of
         Ok fee \<Rightarrow> Some
           \<lparr>si_bdx_amount = b2_bdx state2, si_btc_amount = btc_amount, si_tx_lock_id = tx_lock_txid L (b2_tx_lock state2),
            si_tx_cancel_fee = b2_tx_cancel_fee state2, si_tx_refund_fee = b2_tx_refund_fee state2,
            si_tx_lock_fee = fee, si_btc_refund_address = b2_refund_address state2,
            si_cancel_timelock = b2_cancel_timelock state2, si_punish_timelock = b2_punish_timelock state2\<rparr>
       | _ \<Rightarrow> None))
   | _ \<Rightarrow> Ok None)"

definition current_timelock :: "'v env \<Rightarrow> bob_state \<Rightarrow> ('v world, expired_timelocks option) io" where
  "current_timelock E s = (case s of
     BStarted _ _ \<Rightarrow> ret None
   | BSafelyAborted \<Rightarrow> ret None
   | BSwapSetupCompleted _ \<Rightarrow> ret None
   | BBtcLocked st _ \<Rightarrow> bindio (bob3_expired_timelock E st) (\<lambda>e. ret (Some e))
   | BBeldexLockProofReceived st _ _ \<Rightarrow> bindio (bob3_expired_timelock E st) (\<lambda>e. ret (Some e))
   | BBeldexLocked st \<Rightarrow> bindio (bob4_expired_timelock E st) (\<lambda>e. ret (Some e))
   | BEncSigSent st \<Rightarrow> bindio (bob4_expired_timelock E st) (\<lambda>e. ret (Some e))
   | BCancelTimelockExpired st \<Rightarrow> bindio (bob6_expired_timelock E st) (\<lambda>e. ret (Some e))
   | BBtcCancelled st \<Rightarrow> bindio (bob6_expired_timelock E st) (\<lambda>e. ret (Some e))
   | BBtcPunished _ _ \<Rightarrow> ret (Some PunishExpired)
   | BBtcRefunded _ \<Rightarrow> ret None
   | BBtcRedeemed _ \<Rightarrow> ret None
   | BBeldexRedeemed _ _ \<Rightarrow> ret None)"

definition get_swap_info :: "db_lib \<Rightarrow> ('v \<times> sqlite) env option \<Rightarrow> lib \<Rightarrow> uuid \<Rightarrow> (('v \<times> sqlite) world, swap_info) io" where
  "get_swap_info D wallet L swap_id =
     bindio (lift (wallet_or_error wallet)) (\<lambda>bitcoin_wallet.
     bindio (query (sql_get_state D swap_id)) (\<lambda>state.
     bindio (context_io ''Could not get PeerID'' (query (get_peer_id D swap_id))) (\<lambda>peer_id.
     bindio (context_io ''Could not get addressess'' (query (get_addresses D peer_id))) (\<lambda>addresses.
     bindio (query (get_swap_start_date D swap_id)) (\<lambda>start_date.
     bindio (lift (try_into_bob_state state)) (\<lambda>swap_state.
     bindio (query (sql_get_states D swap_id)) (\<lambda>states.
     bindio (lift (obind (find_map (setup_info_of L) states)
       (of_option (Msg ''Did not find SwapSetupCompleted state for swap'')))) (\<lambda>i.
     bindio (current_timelock bitcoin_wallet swap_state) (\<lambda>timelock.
     ret (setup_info.extend i
       \<lparr>si_swap_id = swap_id,
        si_seller = \<lparr>ss_peer_id = peer_id, ss_addresses = map (dl_multiaddr_to_string D) addresses\<rparr>,
        si_completed = swap_finished state, si_start_date = start_date,
        si_state_name = bob_state_display swap_state, si_timelock = timelock\<rparr>))))))))))"

primrec swap_infos_of ::
  "db_lib \<Rightarrow> ('v \<times> sqlite) env option \<Rightarrow> lib \<Rightarrow> (uuid \<times> swap_state) list \<Rightarrow> (('v \<times> sqlite) world, swap_info list) io" where
  "swap_infos_of D wallet L [] = ret []"
| "swap_infos_of D wallet L (swap # swaps) =
     bindio (attempt (get_swap_info D wallet L (fst swap))) (\<lambda>r.
     bindio (swap_infos_of D wallet L swaps) (\<lambda>infos.
     ret (case r of Inr swap_info \<Rightarrow> swap_info # infos | Inl error \<Rightarrow> infos)))"

definition get_swap_infos_all ::
  "db_lib \<Rightarrow> ('v \<times> sqlite) env option \<Rightarrow> lib \<Rightarrow> (('v \<times> sqlite) world, swap_info list) io" where
  "get_swap_infos_all D wallet L = bindio (query (sql_all D)) (swap_infos_of D wallet L)"

definition get_history :: "db_lib \<Rightarrow> (('v \<times> sqlite) world, (uuid \<times> string) list) io" where
  "get_history D =
     bindio (query (sql_all D)) (\<lambda>swaps.
     lift (collect_results (\<lambda>(swap_id, state).
       obind (try_into_bob_state state) (\<lambda>state. Ok (swap_id, bob_state_display state))) swaps))"

section \<open>Recovering the Beldex\<close>

record recovery_info =
  ri_address :: bdx_address
  ri_spend_key :: private_key
  ri_view_key :: private_view_key
  ri_restore_height :: bdx_height

definition recovery_info_of :: "lib \<Rightarrow> config \<Rightarrow> bob_state5 \<Rightarrow> recovery_info" where
  "recovery_info_of L env state5 = (case bob_bdx_keys L state5 of (spend_key, view_key) \<Rightarrow>
     \<lparr>ri_address = bdx_address_standard (beldex_network env) (bdx_public_from_private L spend_key)
        (pubvk_key (private_view_key_public L view_key)),
      ri_spend_key = spend_key, ri_view_key = view_key, ri_restore_height = b5_restore_height state5\<rparr>)"

definition beldex_recovery :: "db_lib \<Rightarrow> lib \<Rightarrow> config \<Rightarrow> uuid \<Rightarrow> (('v \<times> sqlite) world, recovery_info) io" where
  "beldex_recovery D L env swap_id =
     bindio (query (sql_get_state D swap_id)) (\<lambda>state.
     bindio (lift (try_into_bob_state state)) (\<lambda>swap_state.
     case swap_state of
       BBtcRedeemed state5 \<Rightarrow> ret (recovery_info_of L env state5)
     | _ \<Rightarrow> lift (Err (Msg (''Cannot print beldex recovery information in state '' @ bob_state_display swap_state @
         '', only possible for BtcRedeemed'')))))"

section \<open>The Bitcoin wallet\<close>

record 'v open_wallet =
  ow_wallet :: btc_wallet
  ow_bdk :: "'v bdk_wallet"
  ow_fees :: "'v fee_source"
  ow_broadcast :: "transaction \<Rightarrow> string \<Rightarrow> ('v, txid) io"

definition request_balance :: "'v open_wallet option \<Rightarrow> bool \<Rightarrow> ('v, btc_amount) io" where
  "request_balance wallet force_refresh =
     bindio (lift (wallet_or_error wallet)) (\<lambda>bitcoin_wallet.
     bindio (if force_refresh then wallet_sync (ow_bdk bitcoin_wallet) else ret ()) (\<lambda>_.
     wallet_balance (ow_bdk bitcoin_wallet)))"

record withdrawal =
  wd_amount :: btc_amount
  wd_txid :: txid

definition withdraw_btc :: "lib \<Rightarrow> 'v open_wallet option \<Rightarrow> address \<Rightarrow> btc_amount option \<Rightarrow> ('v, withdrawal) io" where
  "withdraw_btc L wallet address amount =
     bindio (lift (wallet_or_error wallet)) (\<lambda>w.
     bindio (case amount of
         Some amount \<Rightarrow> ret amount
       | None \<Rightarrow> max_giveable (ow_wallet w) (ow_bdk w) (ow_fees w) (length (address_script L address))) (\<lambda>amount.
     bindio (send_to_address L (ow_wallet w) (ow_bdk w) (ow_fees w) address amount None) (\<lambda>psbt.
     bindio (sign_and_finalize L (ow_bdk w) psbt) (\<lambda>signed_tx.
     bindio (ow_broadcast w signed_tx ''withdraw'') (\<lambda>_.
     ret \<lparr>wd_amount = amount, wd_txid = compute_txid L signed_tx\<rparr>)))))"

definition get_current_swap :: "('v api_context, uuid option) io" where
  "get_current_swap = get_current_swap_id"

end
