(* ===== verification/Api_Requests_Properties.thy ===== *)
theory Api_Requests_Properties
  imports Api_Requests Database_Calls Bitcoin_Wallet_Properties
begin

text \<open>
  What the requests of \<open>Api_Requests\<close> report, and that asking changes nothing: the database stays as it is and
  only the chain is queried. The keys printed for a recovery open the output Alice locked to; a withdrawal pays
  what it says.
\<close>

section \<open>Asking changes nothing\<close>

lemma snd_queries [simp]:
  "snd (sql_get_state D i t) = t" "snd (sql_all D t) = t" "snd (sql_get_states D i t) = t" "snd (get_peer_id D i t) = t"
  "snd (get_addresses D p t) = t" "snd (get_swap_start_date D i t) = t"
  by (simp_all add: sql_get_state_def sql_all_def sql_get_states_def get_peer_id_def get_addresses_def
    get_swap_start_date_def bindio_def acquire_def split: outcome.split)

lemma snd_query: "(\<And>t. snd (m t) = t) \<Longrightarrow> snd (query m w) = w"
  by (simp add: query_def on_db_def split: prod.split) (metis prod.collapse snd_conv world.surjective world.update_convs(2))

definition only_reads :: "(('v \<times> sqlite) world, 'a) io \<Rightarrow> bool" where
  "only_reads m \<longleftrightarrow> keeps_db m \<and> makes (\<lambda>c. \<exists>i s. c = CStatusOfScript i s) m"

named_theorems only_reads_rules \<open>introduction rules for \<open>only_reads\<close>\<close>

lemma only_reads_query [only_reads_rules]: "(\<And>t. snd (m t) = t) \<Longrightarrow> only_reads (query m)"
  by (simp add: only_reads_def keeps_db_def logs_def snd_query)

lemma only_reads_basic [only_reads_rules]:
  "only_reads (ret x)" "only_reads (lift r)"
  "only_reads m \<Longrightarrow> (\<And>x. only_reads (f x)) \<Longrightarrow> only_reads (bindio m f)"
  "only_reads m \<Longrightarrow> only_reads (context_io c m)" "only_reads m \<Longrightarrow> only_reads (attempt m)"
  unfolding only_reads_def by (blast intro: keeps_rules emits_rules)+

lemma only_reads_timelock [only_reads_rules]:
  "only_reads (bob3_expired_timelock (with_db D now E) st3)" "only_reads (bob4_expired_timelock (with_db D now E) st4)"
  "only_reads (bob6_expired_timelock (with_db D now E) st6)"
  unfolding only_reads_def by (intro conjI keeps_bob_expired_timelock makes_bob_expired_timelock; blast)+

lemma only_reads_current_timelock [only_reads_rules]: "only_reads (current_timelock (with_db D now E) s)"
  by (cases s) (auto simp: current_timelock_def simp del: ret_apply intro!: only_reads_rules)

lemma bindio_lift [simp]: "bindio (lift (Ok x)) f = f x" "bindio (lift (Err e)) g = lift (Err e)"
  by (rule ext, simp add: bindio_def)+

lemma wallet_or_error [simp]: "wallet_or_error (Some W) = Ok W" "wallet_or_error None = Err (Msg ''Could not get Bitcoin wallet'')"
  by (simp_all add: wallet_or_error_def)

lemma only_reads_swap_info [only_reads_rules]: "only_reads (get_swap_info D (map_option (with_db D now) wallet) L i)"
  by (cases wallet) (simp_all add: get_swap_info_def, (intro only_reads_rules; simp)+)

lemma only_reads_swap_infos [only_reads_rules]: "only_reads (swap_infos_of D (map_option (with_db D now) wallet) L swaps)"
  by (induction swaps) (auto simp del: ret_apply intro!: only_reads_rules)

text \<open>
  asking about swaps (one swap, all swaps, the history, the keys for a recovery) changes nothing, whatever
  the answers and however the request ends: the database stays as it is, and all that is asked of the outside
  is the status of scripts.
\<close>

theorem requests_only_read:
  "only_reads (get_swap_info D (map_option (with_db D now) wallet) L i) \<and>
   only_reads (get_swap_infos_all D (map_option (with_db D now) wallet) L) \<and>
   only_reads (get_history D :: (('v \<times> sqlite) world, (uuid \<times> string) list) io) \<and>
   only_reads (beldex_recovery D L env i :: (('v \<times> sqlite) world, recovery_info) io)"
proof -
  have "only_reads (case s of BBtcRedeemed st \<Rightarrow> ret (f st) | _ \<Rightarrow> lift (Err (e s)))" for s e and f :: "bob_state5 \<Rightarrow> 'c"
    by (cases s) (auto simp del: ret_apply lift_apply intro: only_reads_rules)
  thus ?thesis
    unfolding get_swap_infos_all_def get_history_def beldex_recovery_def
    by (intro conjI only_reads_rules; simp)
qed

section \<open>What is reported\<close>

text \<open>The query of a database that answers.\<close>

lemma query_Ok: "fst (m (snd (w_ext w))) = r \<Longrightarrow> (\<And>t. snd (m t) = t) \<Longrightarrow> query m w = (r, w)"
  using snd_query[of m w] by (simp add: query_def on_db_def prod_eq_iff split: prod.splits)

lemma ok_value_Some: "ok_value r = Some x \<Longrightarrow> r = Ok x"
  by (cases r) simp_all

lemma holds_get_state: "holds D i t x w \<Longrightarrow> query (sql_get_state D i) w = (Ok x, w)"
  by (rule query_Ok) (simp_all add: holds_def ok_value_Some)

text \<open>
  C9: the recovery of a swap whose stored state is \<open>BtcRedeemed\<close> prints the keys and the address of the output to
  which Alice's transfer request of that swap pays; in every other state it fails with the name of the state.
\<close>

theorem recovery_opens_the_output:
  assumes "holds D i t (SBob (BBtcRedeemed s5)) w" "honest_pair L a b" "group_laws L" "scalar_laws L"
    and "b5_s_a s5 = PrivateKey (a3_s_a a)" "b5_s_b s5 = b2_s_b b" "b5_v s5 = b2_v b"
  shows "\<exists>info request. beldex_recovery D L env i w = (Ok info, w) \<and>
    alice_lock_bdx_transfer_request L a = Ok request \<and>
    ri_address info = bdx_address_standard (beldex_network env) (trq_public_spend_key request)
      (pubvk_key (trq_public_view_key request)) \<and>
    trq_public_spend_key request = bdx_public_from_private L (ri_spend_key info) \<and>
    trq_public_view_key request = private_view_key_public L (ri_view_key info)"
proof -
  obtain spend_key view_key where keys: "bob_bdx_keys L s5 = (spend_key, view_key)" by fastforce
  note request = transfer_request_keys[OF assms(2-7) keys]
  show ?thesis
    using holds_get_state[OF assms(1)] request keys by (simp add: beldex_recovery_def recovery_info_of_def bindio_def try_into_bob_state_def)
qed

text \<open>Collecting results that can only fail in one way.\<close>

lemma collect_results_one_error:
  "(\<And>x. x \<in> set xs \<Longrightarrow> f x = Ok (g x) \<or> f x = Err e) \<Longrightarrow>
   collect_results f xs = (if \<exists>x\<in>set xs. f x = Err e then Err e else Ok (map g xs))"
proof (induction xs)
  case (Cons x xs)
  have "collect_results f xs = (if \<exists>x\<in>set xs. f x = Err e then Err e else Ok (map g xs))" using Cons by simp
  thus ?case using Cons.prems[of x] by (cases "f x") auto
qed simp

text \<open>
  the history lists every swap of the database exactly once, with the name of the state that \<open>get_state\<close> returns
  for it; one swap of Alice's among them and there is no history.
\<close>

theorem history_lists_latest_states:
  assumes "db_laws D" "sqlite_ok D (snd (w_ext w))"
  defines "state \<equiv> (\<lambda>i. swap_state_of D i (snd (w_ext w)))"
  shows "if \<exists>i a. state i = Some (SAlice a) then get_history D w = (Err (Msg ''Not in the role of Bob''), w)
    else \<exists>swaps. get_history D w = (Ok swaps, w) \<and> distinct (map fst swaps) \<and>
      (\<forall>i name. (i, name) \<in> set swaps \<longleftrightarrow> (\<exists>s. state i = Some (SBob s) \<and> name = bob_state_display s))"
proof -
  obtain xs where xs: "sql_all D (snd (w_ext w)) = (Ok xs, snd (w_ext w))" "distinct (map fst xs)"
    "\<And>i s. (i, s) \<in> set xs \<longleftrightarrow> state i = Some s"
    using all_swaps[OF assms(1,2)] unfolding state_def by blast
  let ?e = "Msg ''Not in the role of Bob''"
  let ?f = "\<lambda>(i :: uuid, s). obind (try_into_bob_state s) (\<lambda>s. Ok (i, bob_state_display s))"
  let ?g = "\<lambda>(i :: uuid, s). (i, case s of SBob s \<Rightarrow> bob_state_display s | SAlice a \<Rightarrow> [])"
  have f: "?f x = Ok (?g x) \<or> ?f x = Err ?e" for x by (auto simp: try_into_bob_state_def split: swap_state.split prod.split)
  have alice: "obind (try_into_bob_state s) (\<lambda>s. Ok (i :: uuid, bob_state_display s)) = Err ?e \<longleftrightarrow> (\<exists>a. s = SAlice a)" for i s
    by (simp add: try_into_bob_state_def split: swap_state.split)
  have "get_history D w = (collect_results ?f xs, w)"
    using query_Ok[of "sql_all D" w "Ok xs"] xs(1) by (simp add: get_history_def bindio_def)
  also have "collect_results ?f xs = (if \<exists>x\<in>set xs. ?f x = Err ?e then Err ?e else Ok (map ?g xs))"
    by (rule collect_results_one_error) (rule f)
  also have "(\<exists>x\<in>set xs. ?f x = Err ?e) \<longleftrightarrow> (\<exists>i a. state i = Some (SAlice a))"
    by (simp only: Bex_def split_paired_Ex prod.case alice xs(3)) blast
  finally have h: "get_history D w = (if \<exists>i a. state i = Some (SAlice a) then Err ?e else Ok (map ?g xs), w)" .
  have "distinct (map fst (map ?g xs))" using xs(2) by (simp add: comp_def case_prod_unfold)
  moreover have "(i, name) \<in> set (map ?g xs) \<longleftrightarrow> (\<exists>s. state i = Some (SBob s) \<and> name = bob_state_display s)"
    if "\<nexists>i a. state i = Some (SAlice a)" for i name
    using that xs(3) by (force split: swap_state.splits)
  ultimately show ?thesis using h by auto
qed

section \<open>The list of swaps\<close>

text \<open>The states in which the bitcoin of Bob may be locked.\<close>

definition bitcoin_at_stake :: "bob_state \<Rightarrow> bool" where
  "bitcoin_at_stake s = (case s of
     BBtcLocked _ _ \<Rightarrow> True | BBeldexLockProofReceived _ _ _ \<Rightarrow> True | BBeldexLocked _ \<Rightarrow> True | BEncSigSent _ \<Rightarrow> True
   | BCancelTimelockExpired _ \<Rightarrow> True | BBtcCancelled _ \<Rightarrow> True | BBtcPunished _ _ \<Rightarrow> True | _ \<Rightarrow> False)"

text \<open>What an entry says is what the database holds of the swap.\<close>

definition info_justified :: "db_lib \<Rightarrow> lib \<Rightarrow> sqlite \<Rightarrow> swap_info \<Rightarrow> bool" where
  "info_justified D L t info \<longleftrightarrow> (\<exists>s states st2 addresses.
     sql_get_state D (si_swap_id info) t = (Ok (SBob s), t) \<and> si_state_name info = bob_state_display s \<and>
     si_completed info = bob_is_complete s \<and> (si_timelock info = None \<longleftrightarrow> \<not> bitcoin_at_stake s) \<and>
     get_peer_id D (si_swap_id info) t = (Ok (ss_peer_id (si_seller info)), t) \<and>
     get_addresses D (ss_peer_id (si_seller info)) t = (Ok addresses, t) \<and>
     ss_addresses (si_seller info) = map (dl_multiaddr_to_string D) addresses \<and>
     get_swap_start_date D (si_swap_id info) t = (Ok (si_start_date info), t) \<and>
     sql_get_states D (si_swap_id info) t = (Ok states, t) \<and> SBob (BSwapSetupCompleted st2) \<in> set states \<and>
     setup_info_of L (SBob (BSwapSetupCompleted st2)) = Ok (Some (setup_info.truncate info)))"

lemma find_map_Some:
  "find_map f xs = Ok (Some y) \<Longrightarrow> \<exists>x\<in>set xs. f x = Ok (Some y)"
  by (induction xs) (auto simp: outcome_rules split: option.splits)

lemma setup_info_of_Some: "setup_info_of L s = Ok (Some i) \<Longrightarrow> \<exists>st2. s = SBob (BSwapSetupCompleted st2)"
  by (auto simp: setup_info_of_def split: swap_state.splits bob_state.splits)

lemma query_OkD:
  assumes "query m w = (Ok x, w')" "\<And>t. snd (m t) = t"
  shows "w' = w \<and> m (snd (w_ext w)) = (Ok x, snd (w_ext w))"
  using snd_query[OF assms(2), of w] assms by (auto simp: query_def on_db_def prod_eq_iff split: prod.splits)

lemma try_into_bob_Ok: "try_into_bob_state s = Ok b \<longleftrightarrow> s = SBob b"
  by (cases s) (auto simp: try_into_bob_state_def)

lemma current_timelock_None:
  "current_timelock E s w = (Ok e, w') \<Longrightarrow> e = None \<longleftrightarrow> \<not> bitcoin_at_stake s"
  by (cases s) (auto simp: current_timelock_def bitcoin_at_stake_def bindio_eq_Ok)

lemma get_swap_info_OkD:
  assumes "get_swap_info D wallet L i w = (Ok info, w')"
  shows "si_swap_id info = i \<and> info_justified D L (snd (w_ext w)) info"
proof -
  obtain E state peer addresses date s states found timelock w1 w2 w3 w4 w5 where
    q: "query (sql_get_state D i) w = (Ok (SBob s), w1)" "query (get_peer_id D i) w1 = (Ok peer, w2)"
    "query (get_addresses D peer) w2 = (Ok addresses, w3)" "query (get_swap_start_date D i) w3 = (Ok date, w4)"
    "query (sql_get_states D i) w4 = (Ok states, w5)"
    and found: "find_map (setup_info_of L) states = Ok (Some found)"
    and timelock: "current_timelock E s w5 = (Ok timelock, w')"
    and info: "info = setup_info.extend found
       \<lparr>si_swap_id = i, si_seller = \<lparr>ss_peer_id = peer, ss_addresses = map (dl_multiaddr_to_string D) addresses\<rparr>,
        si_completed = swap_finished (SBob s), si_start_date = date, si_state_name = bob_state_display s,
        si_timelock = timelock\<rparr>"
    using assms unfolding get_swap_info_def
    by (auto simp: bindio_eq_Ok context_io_eq_Ok outcome_rules try_into_bob_Ok)
  note d = query_OkD[OF q(1) snd_queries(1)] query_OkD[OF q(2) snd_queries(4)] query_OkD[OF q(3) snd_queries(5)]
    query_OkD[OF q(4) snd_queries(6)] query_OkD[OF q(5) snd_queries(3)]
  obtain st2 where "SBob (BSwapSetupCompleted st2) \<in> set states" "setup_info_of L (SBob (BSwapSetupCompleted st2)) = Ok (Some found)"
    using find_map_Some[OF found] setup_info_of_Some by blast
  moreover have "setup_info.truncate info = found" by (simp add: info setup_info.defs)
  ultimately show ?thesis using d current_timelock_None[OF timelock]
    by (auto simp: info_justified_def info setup_info.defs swap_finished_def)
qed

lemma subseq_distinct: "subseq xs ys \<Longrightarrow> distinct ys \<Longrightarrow> distinct xs"
  by (auto simp: subseq_conv_nths)

lemma only_readsD: "only_reads m \<Longrightarrow> m w = (r, w') \<Longrightarrow> snd (w_ext w') = snd (w_ext w)"
  unfolding only_reads_def keeps_db_def by (metis snd_conv)

text \<open>Every world with the same database gives an entry for the swap.\<close>

definition always_known :: "db_lib \<Rightarrow> ('v \<times> sqlite) env option \<Rightarrow> lib \<Rightarrow> sqlite \<Rightarrow> uuid \<Rightarrow> bool" where
  "always_known D wallet L t i \<longleftrightarrow>
     (\<forall>w. snd (w_ext w) = t \<longrightarrow> (\<exists>info w'. get_swap_info D wallet L i w = (Ok info, w')))"

lemma swap_infos_of_listed:
  assumes "swap_infos_of D (map_option (with_db D now) wallet) L swaps w = (Ok infos, w')" "snd (w_ext w) = t"
  shows "subseq (map si_swap_id infos) (map fst swaps) \<and> (\<forall>info\<in>set infos. info_justified D L t info) \<and>
    (\<forall>i\<in>fst ` set swaps. always_known D (map_option (with_db D now) wallet) L t i \<longrightarrow> i \<in> si_swap_id ` set infos)"
  using assms
proof (induction swaps arbitrary: w infos)
  case (Cons swap swaps)
  let ?W = "map_option (with_db D now) wallet"
  obtain r w1 rest where r: "attempt (get_swap_info D ?W L (fst swap)) w = (Ok r, w1)"
    and rest: "swap_infos_of D ?W L swaps w1 = (Ok rest, w')"
    and infos: "infos = (case r of Inr swap_info \<Rightarrow> swap_info # rest | Inl error \<Rightarrow> rest)"
    using Cons.prems(1) by (auto simp: bindio_eq_Ok)
  have "snd (w_ext w1) = t"
    using only_readsD[OF only_reads_basic(5)[OF only_reads_swap_info] r] Cons.prems(2) by simp
  note IH = Cons.IH[OF rest this]
  show ?case
  proof (cases r)
    case (Inl e)
    have "\<not> always_known D ?W L t (fst swap)"
      using r Inl Cons.prems(2) by (auto simp: always_known_def attempt_def split: prod.splits outcome.splits)
    thus ?thesis using IH Inl infos by auto
  next
    case (Inr info)
    have "get_swap_info D ?W L (fst swap) w = (Ok info, w1)"
      using r Inr by (auto simp: attempt_def split: prod.splits outcome.splits)
    from get_swap_info_OkD[OF this] show ?thesis using IH Inr infos Cons.prems(2) by auto
  qed
qed (simp add: ret_def)

text \<open>
  the list of all swaps has at most one entry per swap; each entry says what the database holds of the swap,
  its amounts, fees and addresses from the completed setup and its name from the latest state, and a timelock is
  given exactly while bitcoin may be locked; a swap is left out only if its information cannot be had in some world
  with this database.
\<close>

theorem swap_infos_are_justified:
  assumes "db_laws D" "sqlite_ok D (snd (w_ext w))"
    and "get_swap_infos_all D (map_option (with_db D now) wallet) L w = (Ok infos, w')"
  shows "distinct (map si_swap_id infos) \<and> (\<forall>info\<in>set infos. info_justified D L (snd (w_ext w)) info) \<and>
    (\<forall>i s. swap_state_of D i (snd (w_ext w)) = Some s \<and>
       always_known D (map_option (with_db D now) wallet) L (snd (w_ext w)) i \<longrightarrow> i \<in> si_swap_id ` set infos)"
proof -
  obtain xs where xs: "sql_all D (snd (w_ext w)) = (Ok xs, snd (w_ext w))" "distinct (map fst xs)"
    "\<And>i s. (i, s) \<in> set xs \<longleftrightarrow> swap_state_of D i (snd (w_ext w)) = Some s"
    using all_swaps[OF assms(1,2)] by blast
  have "query (sql_all D) w = (Ok xs, w)" by (rule query_Ok) (simp_all add: xs(1))
  hence "swap_infos_of D (map_option (with_db D now) wallet) L xs w = (Ok infos, w')"
    using assms(3) by (simp add: get_swap_infos_all_def bindio_def)
  note listed = swap_infos_of_listed[OF this refl]
  have in_xs: "i \<in> fst ` set xs" if "swap_state_of D i (snd (w_ext w)) = Some s" for i s
    using that xs(3)[of i s] by (metis fst_conv image_eqI)
  show ?thesis
  proof (intro conjI allI impI)
    show "distinct (map si_swap_id infos)" by (rule subseq_distinct[OF conjunct1[OF listed] xs(2)])
    show "\<forall>info\<in>set infos. info_justified D L (snd (w_ext w)) info" using listed by (elim conjE)
    show "i \<in> si_swap_id ` set infos" if "swap_state_of D i (snd (w_ext w)) = Some s \<and>
        always_known D (map_option (with_db D now) wallet) L (snd (w_ext w)) i" for i s
      by (rule mp[OF bspec[OF conjunct2[OF conjunct2[OF listed]] in_xs[OF conjunct1[OF that]]] conjunct2[OF that]])
  qed
qed

section \<open>Withdrawals\<close>

text \<open>Signing changes no output.\<close>

definition signs_outputs :: "'v bdk_wallet \<Rightarrow> bool" where
  "signs_outputs W \<longleftrightarrow> (\<forall>p v q b v'. bd_sign W p v = (Ok (q, b), v') \<longrightarrow>
     tx_output (unsigned_tx q) = tx_output (unsigned_tx p))"

lemma keeps_change: "override_change L None p = p"
  by (simp add: override_change_def split: list.split)

lemma sent_without_change:
  assumes "pays_recipient W" "send_to_address L w W C a amount None v = (Ok p, v')"
  shows "\<exists>rest. tx_output (unsigned_tx p) = \<lparr>txo_value = amount, txo_script = address_script L a\<rparr> # rest \<and> length rest \<le> 1"
proof -
  let ?r = "\<lparr>txo_value = amount, txo_script = address_script L a\<rparr>"
  obtain rate v1 p1 where p1: "bd_pay W (address_script L a) amount rate v1 = (Ok p1, v')"
    and q: "order_outputs (address_script L a) p1 = Ok p"
    using assms(2) by (auto simp: send_to_address_def Let_def bindio_eq_Ok keeps_change split: if_splits)
  obtain c where c: "txo_script c \<noteq> address_script L a" "tx_output (unsigned_tx p1) \<in> {[?r], [?r, c], [c, ?r]}"
    "length (psbt_outputs p1) = length (tx_output (unsigned_tx p1))"
    using assms(1) p1 unfolding pays_recipient_def by blast
  have "tx_output (unsigned_tx p) \<in> {[?r], [?r, c]}" using order_outputs_first[of c ?r p1 p] c q by simp
  thus ?thesis by auto
qed

text \<open>
  C36: a withdrawal that succeeds has broadcast a transaction with the reported id whose first output pays the reported
  amount to the address, and at most one other output; the amount is the one asked for, or what the wallet
  said it can give.
\<close>

theorem withdrawal_pays_as_reported:
  assumes "pays_recipient (ow_bdk W)" "signs_outputs (ow_bdk W)" "psbt_laws L"
    and "withdraw_btc L (Some W) address amount v = (Ok report, v')"
  shows "(\<exists>tx rest v1 txid. ow_broadcast W tx ''withdraw'' v1 = (Ok txid, v') \<and> compute_txid L tx = wd_txid report \<and>
      tx_output tx = \<lparr>txo_value = wd_amount report, txo_script = address_script L address\<rparr> # rest \<and> length rest \<le> 1) \<and>
    (case amount of Some a \<Rightarrow> wd_amount report = a
     | None \<Rightarrow> fst (max_giveable (ow_wallet W) (ow_bdk W) (ow_fees W) (length (address_script L address)) v) = Ok (wd_amount report))"
proof -
  let ?amount = "case amount of Some a \<Rightarrow> ret a
     | None \<Rightarrow> max_giveable (ow_wallet W) (ow_bdk W) (ow_fees W) (length (address_script L address))"
  obtain a v1 where amount: "?amount v = (Ok a, v1)"
    and r1: "bindio (send_to_address L (ow_wallet W) (ow_bdk W) (ow_fees W) address a None) (\<lambda>psbt.
      bindio (sign_and_finalize L (ow_bdk W) psbt) (\<lambda>signed_tx.
      bindio (ow_broadcast W signed_tx ''withdraw'') (\<lambda>_.
      ret \<lparr>wd_amount = a, wd_txid = compute_txid L signed_tx\<rparr>))) v1 = (Ok report, v')"
    using assms(4) unfolding withdraw_btc_def wallet_or_error bindio_lift(1) bindio_eq_Ok[of ?amount] by blast
  obtain p v2 where p: "send_to_address L (ow_wallet W) (ow_bdk W) (ow_fees W) address a None v1 = (Ok p, v2)"
    and r2: "bindio (sign_and_finalize L (ow_bdk W) p) (\<lambda>signed_tx.
      bindio (ow_broadcast W signed_tx ''withdraw'') (\<lambda>_.
      ret \<lparr>wd_amount = a, wd_txid = compute_txid L signed_tx\<rparr>)) v2 = (Ok report, v')"
    using r1 unfolding bindio_eq_Ok[of "send_to_address _ _ _ _ _ _ _"] by blast
  obtain q v3 txid where q: "bd_sign (ow_bdk W) p v2 = (Ok (q, True), v3)"
    and sent: "ow_broadcast W (psbt_extract_tx L (psbt.truncate q)) ''withdraw'' v3 = (Ok txid, v')"
    and report: "report = \<lparr>wd_amount = a, wd_txid = compute_txid L (psbt_extract_tx L (psbt.truncate q))\<rparr>"
    using r2 by (auto simp: sign_and_finalize_def bindio_eq_Ok ret_def split: if_splits)
  obtain rest where "tx_output (unsigned_tx p) = \<lparr>txo_value = a, txo_script = address_script L address\<rparr> # rest" "length rest \<le> 1"
    using sent_without_change[OF assms(1) p] by blast
  moreover have "tx_output (psbt_extract_tx L (psbt.truncate q)) = tx_output (unsigned_tx p)"
    using assms(2)[unfolded signs_outputs_def, rule_format, OF q] assms(3) by (simp add: psbt_laws_def psbt.defs)
  moreover have "case amount of Some b \<Rightarrow> a = b
     | None \<Rightarrow> fst (max_giveable (ow_wallet W) (ow_bdk W) (ow_fees W) (length (address_script L address)) v) = Ok a"
    using amount by (cases amount) (simp_all add: ret_def)
  ultimately show ?thesis using sent report by (auto split: option.splits)
qed

section \<open>Instances\<close>

definition redeemed_state :: bob_state5 where
  "redeemed_state = \<lparr>b5_s_a = PrivateKey 3, b5_s_b = 4, b5_v = PrivateViewKey (PrivateKey 11), b5_tx_lock = sample_lock,
     b5_restore_height = 40\<rparr>"

definition redeemed_db :: db_lib where
  "redeemed_db = sample_db_for [DbBob (DBBtcRedeemed redeemed_state), DbBob (DBExecutionSetupDone sample_bob2)]"

lemma redeemed_db_laws: "db_laws redeemed_db"
  by (simp add: redeemed_db_def sample_db_for_laws)

lemma redeemed_insert: "\<exists>t. sql_insert_latest_state redeemed_db now 7 (SBob (BBtcRedeemed redeemed_state)) u = (Ok (), t)"
  by (simp add: sql_insert_latest_state_def redeemed_db_def sample_db_for_def bindio_def acquire_def
      db_swap_from_state_def db_bob_from_def)

lemma redeemed_holds:
  "holds redeemed_db 7 empty_sqlite (SBob (BBtcRedeemed redeemed_state)) (db_world redeemed_db (SBob (BBtcRedeemed redeemed_state)))"
  using redeemed_insert holds_db_world[OF redeemed_db_laws] by blast

theorem recovery_opens_the_output_witness:
  "\<exists>info. beldex_recovery redeemed_db sample_lib mainnet_config 7 (db_world redeemed_db (SBob (BBtcRedeemed redeemed_state)))
     = (Ok info, db_world redeemed_db (SBob (BBtcRedeemed redeemed_state))) \<and> ri_spend_key info = PrivateKey 7"
proof -
  have "recovery_info_of sample_lib mainnet_config redeemed_state = info \<Longrightarrow> ri_spend_key info = PrivateKey 7" for info
    by (auto simp: recovery_info_of_def redeemed_state_def bob_bdx_keys_def private_key_add_def ed_l_def)
  moreover obtain info where "beldex_recovery redeemed_db sample_lib mainnet_config 7
      (db_world redeemed_db (SBob (BBtcRedeemed redeemed_state))) = (Ok info, db_world redeemed_db (SBob (BBtcRedeemed redeemed_state)))"
    using recovery_opens_the_output[OF redeemed_holds sample_honest_pair sample_group_laws sample_scalar_laws, of mainnet_config]
    by (auto simp: redeemed_state_def sample_alice3_def sample_bob2_def)
  ultimately show ?thesis
    using holds_get_state[OF redeemed_holds] by (auto simp: beldex_recovery_def bindio_def try_into_bob_state_def)
qed

lemma prod_set_eq: "(\<And>j name. (j, name) \<in> A \<longleftrightarrow> j = i \<and> name = x) \<Longrightarrow> A = {(i, x)}"
  by auto

theorem history_lists_latest_states_witness:
  "\<exists>swaps. get_history redeemed_db (db_world redeemed_db (SBob (BBtcRedeemed redeemed_state))) =
     (Ok swaps, db_world redeemed_db (SBob (BBtcRedeemed redeemed_state))) \<and> set swaps = {(7, ''btc is redeemed'')}"
proof -
  let ?w = "db_world redeemed_db (SBob (BBtcRedeemed redeemed_state))"
  have h: "sqlite_ok redeemed_db (snd (w_ext ?w))"
    "swap_state_of redeemed_db j (snd (w_ext ?w)) = (if j = 7 then Some (SBob (BBtcRedeemed redeemed_state))
       else swap_state_of redeemed_db j empty_sqlite)" for j
    using redeemed_holds by (simp_all add: holds_def)
  have none: "swap_state_of redeemed_db j empty_sqlite = None" for j
    by (simp add: sql_get_state_def bindio_def redeemed_db_def sample_db_for_def acquire_def empty_sqlite_def rows_of_def)
  obtain swaps where swaps: "get_history redeemed_db ?w = (Ok swaps, ?w)"
    "\<And>i name. (i, name) \<in> set swaps \<longleftrightarrow> (\<exists>s. swap_state_of redeemed_db i (snd (w_ext ?w)) = Some (SBob s) \<and> name = bob_state_display s)"
    using history_lists_latest_states[OF redeemed_db_laws h(1)] by (auto simp: h(2) none split: if_splits)
  have "(i, name) \<in> set swaps \<longleftrightarrow> i = 7 \<and> name = ''btc is redeemed''" for i name
    unfolding swaps(2) h(2) none by (auto simp: bob_state_display_def)
  hence "set swaps = {(7, ''btc is redeemed'')}" by (rule prod_set_eq)
  thus ?thesis using swaps(1) by simp
qed

text \<open>A database with one swap whose setup is complete.\<close>

definition one_swap :: sqlite where
  "one_swap = empty_sqlite\<lparr>t_peers := [(unary 7, unary 5)],
     t_swap_states := [\<lparr>sr_id = 1, sr_swap_id = unary 7, sr_entered_at = ''0'', sr_state = unary 1\<rparr>], t_sequence := 1\<rparr>"

lemma read_unary_all [simp]: "read_unary (unary n) = (n, [])"
  using read_unary[of n "[]"] by simp

lemma one_swap_ok: "sqlite_ok redeemed_db one_swap"
  by (auto simp: sqlite_ok_def decodes_def one_swap_def empty_sqlite_def redeemed_db_def sample_db_for_def)

lemma one_swap_queries:
  "sql_all redeemed_db one_swap = (Ok [(7, SBob (BSwapSetupCompleted sample_bob2))], one_swap)"
  "sql_get_state redeemed_db 7 one_swap = (Ok (SBob (BSwapSetupCompleted sample_bob2)), one_swap)"
  "get_peer_id redeemed_db 7 one_swap = (Ok 5, one_swap)" "get_addresses redeemed_db 5 one_swap = (Ok [], one_swap)"
  "get_swap_start_date redeemed_db 7 one_swap = (Ok ''0'', one_swap)"
  "sql_get_states redeemed_db 7 one_swap = (Ok [SBob (BSwapSetupCompleted sample_bob2)], one_swap)"
  by (simp_all add: sql_all_def sql_get_state_def get_peer_id_def get_addresses_def get_swap_start_date_def sql_get_states_def
    one_swap_def empty_sqlite_def redeemed_db_def sample_db_for_def bindio_def acquire_def latest_rows_def latest_row_def
    List.map_filter_simps rows_of_def select_keyed_def fetch_one_def state_from_db_swap_def bob_state_from_db_def)

lemma query_at: "query m \<lparr>w_log = l, w_ext = (v, t)\<rparr> = (fst (m t), \<lparr>w_log = l, w_ext = (v, snd (m t))\<rparr>)"
  by (simp add: query_def on_db_def split: prod.split)

lemma one_swap_infos:
  "\<exists>info. get_swap_infos_all redeemed_db (map_option (with_db redeemed_db (\<lambda>_. ''1'')) (Some dead_env)) sample_lib
     \<lparr>w_log = [], w_ext = ((), one_swap)\<rparr> = (Ok [info], \<lparr>w_log = [], w_ext = ((), one_swap)\<rparr>)"
proof -
  let ?w = "\<lparr>w_log = [], w_ext = ((), one_swap)\<rparr>"
  have lock: "b2_tx_lock sample_bob2 = sample_lock" by (simp add: sample_bob2_def)
  have "tx_lock_fee sample_lib sample_lock = Ok 100" by (simp add: tx_lock_fee_def sample_lib_def)
  then obtain i where i: "setup_info_of sample_lib (SBob (BSwapSetupCompleted sample_bob2)) = Ok (Some i)"
    by (simp add: setup_info_of_def lock)
  have "current_timelock E (BSwapSetupCompleted sample_bob2) = ret None" for E :: "(unit \<times> sqlite) env"
    by (simp add: current_timelock_def)
  hence "\<exists>info. get_swap_info redeemed_db (Some (with_db redeemed_db (\<lambda>_. ''1'') dead_env)) sample_lib 7 ?w = (Ok info, ?w)"
    by (simp add: get_swap_info_def bindio_def query_at one_swap_queries context_io_def try_into_bob_state_def i)
  thus ?thesis
    by (auto simp: get_swap_infos_all_def bindio_def query_at one_swap_queries(1) attempt_def)
qed

theorem swap_infos_are_justified_witness:
  "\<exists>info. get_swap_infos_all redeemed_db (map_option (with_db redeemed_db (\<lambda>_. ''1'')) (Some dead_env)) sample_lib
     \<lparr>w_log = [], w_ext = ((), one_swap)\<rparr> = (Ok [info], \<lparr>w_log = [], w_ext = ((), one_swap)\<rparr>) \<and>
   info_justified redeemed_db sample_lib one_swap info"
proof -
  obtain info where run: "get_swap_infos_all redeemed_db (map_option (with_db redeemed_db (\<lambda>_. ''1'')) (Some dead_env)) sample_lib
     \<lparr>w_log = [], w_ext = ((), one_swap)\<rparr> = (Ok [info], \<lparr>w_log = [], w_ext = ((), one_swap)\<rparr>)"
    using one_swap_infos by blast
  have "info_justified redeemed_db sample_lib one_swap info"
    using swap_infos_are_justified[OF redeemed_db_laws _ run] one_swap_ok by simp
  thus ?thesis using run by blast
qed

definition sample_open_wallet :: "fee_rate \<Rightarrow> unit open_wallet" where
  "sample_open_wallet rate = \<lparr>ow_wallet = \<lparr>wl_finality_confirmations = 1, wl_network = addr_network (sample_address 13), wl_target_block = 1\<rparr>,
     ow_bdk = sample_wallet, ow_fees = sample_source rate, ow_broadcast = (\<lambda>tx kind v. (Ok (compute_txid sample_addresses tx), v))\<rparr>"

theorem withdrawal_pays_as_reported_witness:
  "\<forall>rate. \<exists>report. withdraw_btc sample_addresses (Some (sample_open_wallet rate)) (sample_address 13) (Some 1000) () = (Ok report, ()) \<and>
     wd_amount report = 1000"
proof (intro allI)
  fix rate
  have laws: "pays_recipient (ow_bdk (sample_open_wallet rate))" "signs_outputs (ow_bdk (sample_open_wallet rate))" "psbt_laws sample_addresses"
    using sample_pays sample_address_law(2) by (auto simp: sample_open_wallet_def signs_outputs_def sample_wallet_def)
  obtain report where run: "withdraw_btc sample_addresses (Some (sample_open_wallet rate)) (sample_address 13) (Some 1000) () = (Ok report, ())"
    by (simp add: withdraw_btc_def sample_open_wallet_def bindio_def send_to_address_def sample_source_def sample_wallet_def
      order_outputs_def keeps_change sign_and_finalize_def Let_def)
  thus "\<exists>report. withdraw_btc sample_addresses (Some (sample_open_wallet rate)) (sample_address 13) (Some 1000) () = (Ok report, ()) \<and>
     wd_amount report = 1000" using withdrawal_pays_as_reported[OF laws run] by auto
qed

end
