(* ===== verification/Files.thy ===== *)
theory Files
  imports Bitcoin_Crypto "HOL-Library.Sublist"
begin

text \<open>
  Files and directories: \<open>fs.rs\<close> and the calls of \<open>std::fs\<close> and \<open>tokio::fs\<close> that the program makes. A path is the list
  of its components. The world \<open>files\<close> holds the directories and the contents of the files; what the operating system
  answers to a call is the record \<open>disk\<close>.
\<close>

section \<open>Paths\<close>

type_synonym path = "string list"

definition path_join :: "path \<Rightarrow> string \<Rightarrow> path" where
  "path_join p component = p @ [component]"

definition path_parent :: "path \<Rightarrow> path option" where
  "path_parent p = (if p = [] then None else Some (butlast p))"

definition path_display :: "path \<Rightarrow> string" where
  "path_display p = concat (map (\<lambda>component. ''/'' @ component) p)"

lemma path_join_neq [simp]: "path_join p x \<noteq> p" "p \<noteq> path_join p x" "path_join p x = path_join p y \<longleftrightarrow> x = y"
  by (simp_all add: path_join_def)

lemma path_parent_join [simp]: "path_parent (path_join p x) = Some p"
  by (simp add: path_parent_def path_join_def)

section \<open>The file system\<close>

record files =
  fi_dirs :: "path set"
  fi_content :: "path \<Rightarrow> bytes option"

text \<open>
  \<open>dk_write\<close> is \<open>None\<close> when all bytes are written, else the number of bytes that reach the file before the error.
\<close>

record disk =
  dk_create_dir :: "path \<Rightarrow> unit outcome"
  dk_create :: "path \<Rightarrow> unit outcome"
  dk_read :: "path \<Rightarrow> unit outcome"
  dk_write :: "path \<Rightarrow> bytes \<Rightarrow> (nat \<times> error) option"
  dk_remove :: "path \<Rightarrow> unit outcome"

type_synonym 'a file_io = "(files, 'a) io"

definition path_exists :: "files \<Rightarrow> path \<Rightarrow> bool" where
  "path_exists fs p \<longleftrightarrow> p \<in> fi_dirs fs \<or> fi_content fs p \<noteq> None"

definition syscall :: "unit outcome \<Rightarrow> (files \<Rightarrow> files) \<Rightarrow> unit file_io" where
  "syscall answer f = (\<lambda>fs. (answer, if answer = Ok () then f fs else fs))"

definition create_dir :: "disk \<Rightarrow> path \<Rightarrow> unit file_io" where
  "create_dir D p = syscall (dk_create_dir D p) (\<lambda>fs. fs\<lparr>fi_dirs := insert p (fi_dirs fs)\<rparr>)"

definition create_dir_all :: "disk \<Rightarrow> path \<Rightarrow> unit file_io" where
  "create_dir_all D p = syscall (dk_create_dir D p) (\<lambda>fs. fs\<lparr>fi_dirs := set (prefixes p) \<union> fi_dirs fs\<rparr>)"

text \<open>\<open>File::create\<close> truncates a file that is there.\<close>

definition create_file :: "disk \<Rightarrow> path \<Rightarrow> unit file_io" where
  "create_file D p = syscall (dk_create D p) (\<lambda>fs. fs\<lparr>fi_content := (fi_content fs)(p := Some [])\<rparr>)"

definition create_new_file :: "disk \<Rightarrow> path \<Rightarrow> unit file_io" where
  "create_new_file D p = (\<lambda>fs. if path_exists fs p then (Err (Msg ''File exists''), fs) else create_file D p fs)"

definition append_bytes :: "path \<Rightarrow> bytes \<Rightarrow> files \<Rightarrow> files" where
  "append_bytes p data fs = (case fi_content fs p of
     None \<Rightarrow> fs
   | Some content \<Rightarrow> fs\<lparr>fi_content := (fi_content fs)(p := Some (content @ data))\<rparr>)"

definition write_all :: "disk \<Rightarrow> path \<Rightarrow> bytes \<Rightarrow> unit file_io" where
  "write_all D p data = (\<lambda>fs. case dk_write D p data of
     None \<Rightarrow> (Ok (), append_bytes p data fs)
   | Some (n, e) \<Rightarrow> (Err e, append_bytes p (take n data) fs))"

definition read_file :: "disk \<Rightarrow> path \<Rightarrow> bytes file_io" where
  "read_file D p = (\<lambda>fs. (obind (dk_read D p) (\<lambda>_. of_option (Msg ''No such file or directory'') (fi_content fs p)), fs))"

definition remove_file :: "disk \<Rightarrow> path \<Rightarrow> unit file_io" where
  "remove_file D p = syscall (dk_remove D p) (\<lambda>fs. fs\<lparr>fi_content := (fi_content fs)(p := None)\<rparr>)"

section \<open>fs.rs\<close>

record project_dirs =
  pd_config_dir :: path
  pd_data_dir :: path

text \<open>What \<open>ProjectDirs::from\<close> finds, and the parsers of addresses and URLs.\<close>

record system =
  sy_project_dirs :: "project_dirs option"
  sy_multiaddr :: "string \<Rightarrow> nat outcome"
  sy_url :: "string \<Rightarrow> string outcome"

definition system_config_dir :: "system \<Rightarrow> path outcome" where
  "system_config_dir S = of_option (Msg ''Could not generate default system configuration dir path'')
     (map_option pd_config_dir (sy_project_dirs S))"

definition system_data_dir :: "system \<Rightarrow> path outcome" where
  "system_data_dir S = of_option (Msg ''Could not generate default system data-dir dir path'')
     (map_option pd_data_dir (sy_project_dirs S))"

definition ensure_directory_exists :: "disk \<Rightarrow> path \<Rightarrow> unit file_io" where
  "ensure_directory_exists D file = (\<lambda>fs. case path_parent file of
     None \<Rightarrow> (Ok (), fs)
   | Some parent \<Rightarrow> if path_exists fs parent then (Ok (), fs) else create_dir_all D parent fs)"

section \<open>What the calls change\<close>

lemma syscall_effects:
  "syscall answer f fs = (Ok (), fs') \<longleftrightarrow> answer = Ok () \<and> fs' = f fs"
  by (auto simp: syscall_def)

lemma bindio_OkE:
  assumes "bindio m f w = (Ok x, w')"
  obtains y w1 where "m w = (Ok y, w1)" "f y w1 = (Ok x, w')"
  using assms by (auto simp: bindio_eq_Ok)

lemma bindio_keeps:
  assumes "\<And>w. h (snd (m w)) = h w" "\<And>x w. h (snd (f x w)) = h w"
  shows "h (snd (bindio m f w)) = h w"
  using assms by (auto simp: bindio_def split: prod.splits outcome.splits) (metis snd_conv)+

lemma fi_content_append [simp]:
  "fi_content (append_bytes p data fs) = (fi_content fs)(p := map_option (\<lambda>content. content @ data) (fi_content fs p))"
  "fi_dirs (append_bytes p data fs) = fi_dirs fs"
  by (auto simp: append_bytes_def split: option.splits)

lemma directory_calls_keep_files [simp]:
  "fi_content (snd (create_dir D p fs)) = fi_content fs" "fi_content (snd (create_dir_all D p fs)) = fi_content fs"
  "fi_content (snd (ensure_directory_exists D q fs)) = fi_content fs"
  by (auto simp: create_dir_def create_dir_all_def syscall_def ensure_directory_exists_def split: option.splits)

lemma file_calls_keep_other_files:
  assumes "q \<noteq> p"
  shows "fi_content (snd (create_file D p fs)) q = fi_content fs q" "fi_content (snd (create_new_file D p fs)) q = fi_content fs q"
    "fi_content (snd (write_all D p data fs)) q = fi_content fs q" "fi_content (snd (remove_file D p fs)) q = fi_content fs q"
  using assms by (auto simp: create_file_def create_new_file_def syscall_def write_all_def remove_file_def split: option.splits)

lemma read_file_same [simp]: "snd (read_file D p fs) = fs"
  by (simp add: read_file_def)

text \<open>A disk on which every call succeeds, and an empty one, for the examples.\<close>

definition good_disk :: disk where
  "good_disk = \<lparr>dk_create_dir = (\<lambda>_. Ok ()), dk_create = (\<lambda>_. Ok ()), dk_read = (\<lambda>_. Ok ()), dk_write = (\<lambda>_ _. None),
     dk_remove = (\<lambda>_. Ok ())\<rparr>"

definition no_files :: files where
  "no_files = \<lparr>fi_dirs = {}, fi_content = (\<lambda>_. None)\<rparr>"

end
