(* ===== verification/Seed.thy ===== *)
theory Seed
  imports Files Alice_State
begin

text \<open>
  The seed, \<open>seed.rs\<close>: the root secret of a wallet, kept in the file \<open>seed.pem\<close> of the data directory, from which the
  Bitcoin wallet's key, the identity in the network and the key of the Tor service are derived. Hashing, the curves, the
  random generator and the PEM format are the record \<open>seed_lib\<close>; an error of theirs is an \<open>External\<close>.
\<close>

type_synonym seed = bytes

record seed_lib =
  sl_random :: bytes
  sl_valid_secret_key :: "bytes \<Rightarrow> unit outcome"
  sl_sha256 :: "bytes \<Rightarrow> bytes"
  sl_new_master :: "network \<Rightarrow> bytes \<Rightarrow> nat outcome"
  sl_ed25519_keypair :: "bytes \<Rightarrow> peer_id outcome"
  sl_tor_secret_key :: "bytes \<Rightarrow> bytes outcome"
  sl_pem_encode :: "string \<Rightarrow> bytes \<Rightarrow> bytes"
  sl_pem_parse :: "bytes \<Rightarrow> (string \<times> bytes) outcome"

definition seed_random :: "seed_lib \<Rightarrow> seed outcome" where
  "seed_random S = (let bytes = sl_random S in obind (sl_valid_secret_key S bytes) (\<lambda>_. Ok bytes))"

definition derive_scope :: "seed_lib \<Rightarrow> string \<Rightarrow> seed \<Rightarrow> seed" where
  "derive_scope S scope seed = sl_sha256 S (seed @ map of_char scope)"

definition derive_extended_private_key :: "seed_lib \<Rightarrow> seed \<Rightarrow> network \<Rightarrow> nat outcome" where
  "derive_extended_private_key S seed n = with_context ''Failed to create new master extended private key''
     (sl_new_master S n (derive_scope S ''BITCOIN_EXTENDED_PRIVATE_KEY'' seed))"

definition derive_libp2p_identity :: "seed_lib \<Rightarrow> seed \<Rightarrow> peer_id outcome" where
  "derive_libp2p_identity S seed = expect_ok ''we always pass 32 bytes''
     (sl_ed25519_keypair S (derive_scope S ''LIBP2P_IDENTITY'' (derive_scope S ''NETWORK'' seed)))"

definition derive_torv3_key :: "seed_lib \<Rightarrow> seed \<Rightarrow> bytes outcome" where
  "derive_torv3_key S seed = expect_ok ''Failed to create a new extended secret key for Tor.''
     (sl_tor_secret_key S (derive_scope S ''TOR'' seed))"

definition incorrect_length :: "nat \<Rightarrow> error" where
  "incorrect_length n = Context ''expected 32 bytes of base64 encode, got'' (External n)"

definition seed_from_pem :: "string \<times> bytes \<Rightarrow> seed outcome" where
  "seed_from_pem pem = (let contents = snd pem in
     if length contents \<noteq> 32 then Err (incorrect_length (length contents)) else Ok contents)"

definition seed_from_file :: "disk \<Rightarrow> seed_lib \<Rightarrow> path \<Rightarrow> seed file_io" where
  "seed_from_file D S seed_file =
     bindio (read_file D seed_file) (\<lambda>contents.
     bindio (lift (sl_pem_parse S contents)) (\<lambda>pem.
     lift (seed_from_pem pem)))"

definition seed_write_to :: "disk \<Rightarrow> seed_lib \<Rightarrow> seed \<Rightarrow> path \<Rightarrow> unit file_io" where
  "seed_write_to D S seed seed_file =
     bindio (ensure_directory_exists D seed_file) (\<lambda>_.
     let pem_string = sl_pem_encode S ''SEED'' seed in
     bindio (create_file D seed_file) (\<lambda>_.
     write_all D seed_file pem_string))"

definition from_file_or_generate :: "disk \<Rightarrow> seed_lib \<Rightarrow> path \<Rightarrow> seed file_io" where
  "from_file_or_generate D S data_dir = (let file_path = path_join data_dir ''seed.pem'' in (\<lambda>fs.
     if path_exists fs file_path then seed_from_file D S file_path fs
     else bindio (lift (seed_random S)) (\<lambda>random_seed.
          bindio (seed_write_to D S random_seed file_path) (\<lambda>_.
          ret random_seed)) fs))"

section \<open>Properties\<close>

text \<open>What is assumed of PEM: a block that is encoded parses to its tag and contents.\<close>

definition pem_law :: "seed_lib \<Rightarrow> bool" where
  "pem_law S \<longleftrightarrow> (\<forall>tag data. sl_pem_parse S (sl_pem_encode S tag data) = Ok (tag, data))"

lemma seed_from_file_same [simp]: "snd (seed_from_file D S p fs) = fs"
  by (auto simp: seed_from_file_def bindio_def read_file_def split: outcome.splits)

lemma seed_write_to_effects:
  "fi_content (snd (seed_write_to D S seed p fs)) q = fi_content fs q \<or> q = p"
proof (cases "q = p")
  case False
  show ?thesis unfolding seed_write_to_def Let_def
    by (rule disjI1, intro bindio_keeps[where h = "\<lambda>fs. fi_content fs q"])
      (simp_all add: file_calls_keep_other_files[OF False])
qed simp

lemma seed_start_effects:
  "fi_content (snd (from_file_or_generate D S data_dir fs)) p = fi_content fs p \<or>
    p = path_join data_dir ''seed.pem'' \<and> \<not> path_exists fs p"
proof -
  have "fi_content (snd (from_file_or_generate D S data_dir fs)) p =
      (case seed_random S of Ok seed \<Rightarrow> fi_content (snd (seed_write_to D S seed (path_join data_dir ''seed.pem'') fs)) p | _ \<Rightarrow> fi_content fs p)"
    if "\<not> path_exists fs (path_join data_dir ''seed.pem'')"
    using that by (auto simp: from_file_or_generate_def Let_def bindio_def ret_def lift_def split: prod.splits outcome.splits)
  thus ?thesis using seed_write_to_effects[of D S _ "path_join data_dir ''seed.pem''" fs p]
    by (cases "path_exists fs (path_join data_dir ''seed.pem'')")
      (auto simp: from_file_or_generate_def Let_def split: outcome.splits)
qed

text \<open>
  a seed file that is there is never touched, whatever becomes of reading it, and no other file is: the funds of
  a wallet cannot be lost to a new seed.
\<close>

theorem seed_file_is_never_overwritten:
  "fi_content (snd (from_file_or_generate D S data_dir fs)) p = fi_content fs p \<or>
    p = path_join data_dir ''seed.pem'' \<and> \<not> path_exists fs p"
  by (rule seed_start_effects)

lemma stored_seed:
  assumes "pem_law S" "length (sl_random S) = 32" "from_file_or_generate D S data_dir fs = (Ok seed, fs')"
  shows "\<exists>c pem. fi_content fs' (path_join data_dir ''seed.pem'') = Some c \<and> sl_pem_parse S c = Ok pem \<and> seed_from_pem pem = Ok seed"
proof (cases "path_exists fs (path_join data_dir ''seed.pem'')")
  case True
  thus ?thesis using assms(3)
    by (cases "fi_content fs (path_join data_dir ''seed.pem'')") (auto simp: from_file_or_generate_def Let_def seed_from_file_def read_file_def outcome_rules)
next
  case False
  hence new: "seed = sl_random S" and "seed_write_to D S seed (path_join data_dir ''seed.pem'') fs = (Ok (), fs')"
    using assms(3) by (auto simp: from_file_or_generate_def seed_random_def Let_def outcome_rules)
  hence "fi_content fs' (path_join data_dir ''seed.pem'') = Some (sl_pem_encode S ''SEED'' seed)"
    by (auto simp: seed_write_to_def bindio_eq_Ok Let_def create_file_def syscall_effects write_all_def split: option.splits prod.splits)
  thus ?thesis using assms(1,2) new by (auto simp: pem_law_def seed_from_pem_def Let_def)
qed

lemma start_is_repeated:
  assumes "pem_law S" "length (sl_random S) = 32"
    and "from_file_or_generate D S data_dir fs = (Ok seed, fs')"
    and "dk_read D' (path_join data_dir ''seed.pem'') = Ok ()" "sl_pem_parse S' = sl_pem_parse S"
  shows "from_file_or_generate D' S' data_dir fs' = (Ok seed, fs')"
proof -
  let ?p = "path_join data_dir ''seed.pem''"
  obtain c pem where stored: "fi_content fs' ?p = Some c" "sl_pem_parse S c = Ok pem" "seed_from_pem pem = Ok seed" using stored_seed[OF assms(1-3)] by blast
  hence "path_exists fs' ?p" using stored(1) by (simp add: path_exists_def)
  thus ?thesis using stored assms(4,5) by (simp add: from_file_or_generate_def seed_from_file_def read_file_def bindio_def Let_def)
qed

text \<open>
  the seed that a start returns is the seed of every later start on the same files that can read the file, and
  a later start changes nothing.
\<close>

theorem seed_is_kept:
  assumes "pem_law S" "length (sl_random S) = 32"
    and "from_file_or_generate D S data_dir fs = (Ok seed, fs')"
    and "dk_read D' (path_join data_dir ''seed.pem'') = Ok ()" "sl_pem_parse S' = sl_pem_parse S"
  shows "from_file_or_generate D' S' data_dir fs' = (Ok seed, fs')"
  using assms by (rule start_is_repeated)

definition sample_seeds :: seed_lib where
  "sample_seeds = \<lparr>sl_random = replicate 32 7, sl_valid_secret_key = (\<lambda>_. Ok ()), sl_sha256 = take 32,
     sl_new_master = (\<lambda>_ bs. Ok (sum_list bs)), sl_ed25519_keypair = (\<lambda>bs. Ok (sum_list bs)), sl_tor_secret_key = Ok,
     sl_pem_encode = (\<lambda>tag data. length tag # map of_char tag @ data),
     sl_pem_parse = (\<lambda>c. Ok (map char_of (take (hd c) (tl c)), drop (hd c) (tl c)))\<rparr>"

theorem seed_is_kept_witness:
  "\<exists>fs'. from_file_or_generate good_disk sample_seeds [''d''] no_files = (Ok (replicate 32 7), fs') \<and>
    from_file_or_generate good_disk sample_seeds [''d''] fs' = (Ok (replicate 32 7), fs')"
proof -
  obtain fs' where run: "from_file_or_generate good_disk sample_seeds [''d''] no_files = (Ok (replicate 32 7), fs')"
    by (simp add: from_file_or_generate_def seed_random_def seed_write_to_def bindio_def ensure_directory_exists_def
      create_dir_all_def create_file_def syscall_def write_all_def path_exists_def good_disk_def no_files_def sample_seeds_def Let_def)
  have "pem_law sample_seeds" by (simp add: pem_law_def sample_seeds_def comp_def)
  thus ?thesis using seed_is_kept[OF _ _ run, of good_disk sample_seeds] run by (simp add: good_disk_def sample_seeds_def)
qed

theorem seed_file_is_never_overwritten_witness:
  "fi_content (snd (from_file_or_generate good_disk sample_seeds [''d'']
      (no_files\<lparr>fi_content := (fi_content no_files)([''d'', ''seed.pem''] := Some [1, 2])\<rparr>))) [''d'', ''seed.pem''] = Some [1, 2]"
  using seed_file_is_never_overwritten[of good_disk sample_seeds "[''d'']"
      "no_files\<lparr>fi_content := (fi_content no_files)([''d'', ''seed.pem''] := Some [1, 2])\<rparr>" "[''d'', ''seed.pem'']"]
  by (auto simp: path_exists_def)

end
