(* ===== verification/Asb_Main.thy ===== *)
theory Asb_Main
  imports Api_Requests Rendezvous Beldex_Wallet Seed
begin

text \<open>
  Starting the ASB: \<open>asb/command.rs\<close>, the configuration file of \<open>asb/config.rs\<close>, \<open>main\<close> of \<open>bin/asb.rs\<close> and
  \<open>asb\<close> of \<open>network/swarm.rs\<close>. The command line that \<open>clap\<close> has parsed is an argument; files, prompts, wallets and
  the network are the record \<open>asb_host\<close> of the calls \<open>main\<close> makes on a world \<open>'w\<close>.
\<close>

section \<open>Defaults\<close>

record asb_defaults =
  ad_config_path :: path
  ad_data_dir :: path
  ad_listen_address_tcp :: multiaddr
  ad_listen_address_ws :: multiaddr
  ad_electrum_rpc_url :: string
  ad_beldex_wallet_rpc_url :: string
  ad_price_ticker_ws_url :: string
  ad_bitcoin_confirmation_target :: nat

definition default_asb_config_dir :: "system \<Rightarrow> path outcome" where
  "default_asb_config_dir S = with_context ''Could not generate default config file path''
     (omap (\<lambda>dir. path_join dir ''asb'') (system_config_dir S))"

definition default_asb_data_dir :: "system \<Rightarrow> path outcome" where
  "default_asb_data_dir S = with_context ''Could not generate default config file path''
     (omap (\<lambda>dir. path_join dir ''asb'') (system_data_dir S))"

definition testnet_defaults :: "system \<Rightarrow> asb_defaults outcome" where
  "testnet_defaults S =
     obind (default_asb_config_dir S) (\<lambda>config_dir.
     obind (default_asb_data_dir S) (\<lambda>data_dir.
     obind (sy_multiaddr S ''/ip4/0.0.0.0/tcp/9939'') (\<lambda>tcp.
     obind (sy_multiaddr S ''/ip4/0.0.0.0/tcp/9940/ws'') (\<lambda>ws.
     obind (sy_url S ''ssl://electrum.blockstream.info:60002'') (\<lambda>electrum.
     obind (sy_url S ''http://127.0.0.1:38083/json_rpc'') (\<lambda>wallet.
     obind (sy_url S ''wss://ws.kraken.com'') (\<lambda>ticker.
     Ok \<lparr>ad_config_path = path_join (path_join config_dir ''testnet'') ''config.toml'',
         ad_data_dir = path_join data_dir ''testnet'', ad_listen_address_tcp = tcp, ad_listen_address_ws = ws,
         ad_electrum_rpc_url = electrum, ad_beldex_wallet_rpc_url = wallet, ad_price_ticker_ws_url = ticker,
         ad_bitcoin_confirmation_target = 1\<rparr>)))))))"

definition mainnet_defaults :: "system \<Rightarrow> asb_defaults outcome" where
  "mainnet_defaults S =
     obind (default_asb_config_dir S) (\<lambda>config_dir.
     obind (default_asb_data_dir S) (\<lambda>data_dir.
     obind (sy_multiaddr S ''/ip4/0.0.0.0/tcp/9939'') (\<lambda>tcp.
     obind (sy_multiaddr S ''/ip4/0.0.0.0/tcp/9940/ws'') (\<lambda>ws.
     obind (sy_url S ''ssl://blockstream.info:700'') (\<lambda>electrum.
     obind (sy_url S ''http://127.0.0.1:18083/json_rpc'') (\<lambda>wallet.
     obind (sy_url S ''wss://ws.kraken.com'') (\<lambda>ticker.
     Ok \<lparr>ad_config_path = path_join (path_join config_dir ''mainnet'') ''config.toml'',
         ad_data_dir = path_join data_dir ''mainnet'', ad_listen_address_tcp = tcp, ad_listen_address_ws = ws,
         ad_electrum_rpc_url = electrum, ad_beldex_wallet_rpc_url = wallet, ad_price_ticker_ws_url = ticker,
         ad_bitcoin_confirmation_target = 3\<rparr>)))))))"

section \<open>The command line\<close>

datatype manual_recovery =
    MrRedeem uuid bool
  | MrCancel uuid
  | MrRefund uuid
  | MrPunish uuid
  | MrSafelyAbort uuid

datatype asb_raw_command =
    RawStart bool
  | RawLogs "path option" bool "uuid option"
  | RawHistory
  | RawConfig
  | RawWithdrawBtc "btc_amount option" address
  | RawBalance
  | RawExportBitcoinWallet
  | RawManualRecovery manual_recovery

record asb_raw_arguments =
  ra_testnet :: bool
  ra_json :: bool
  ra_disable_timestamp :: bool
  ra_config :: "path option"
  ra_cmd :: asb_raw_command

datatype asb_cmd =
    CmdStart bool
  | CmdHistory
  | CmdConfig
  | CmdLogs "path option" "uuid option" bool
  | CmdWithdrawBtc "btc_amount option" address
  | CmdBalance
  | CmdRedeem uuid bool
  | CmdCancel uuid
  | CmdRefund uuid
  | CmdPunish uuid
  | CmdSafelyAbort uuid
  | CmdExportBitcoinWallet

record asb_arguments =
  aa_testnet :: bool
  aa_json :: bool
  aa_config_path :: path
  aa_env_config :: config
  aa_cmd :: asb_cmd

definition asb_bitcoin_address :: "address \<Rightarrow> bool \<Rightarrow> address outcome" where
  "asb_bitcoin_address address is_testnet =
     (let network = if is_testnet then Testnet else Bitcoin in
      if addr_network address \<noteq> network
      then Err (BitcoinAddressNetworkMismatch (network_code network) (network_code (addr_network address)))
      else Ok address)"

definition asb_config_path :: "system \<Rightarrow> path option \<Rightarrow> bool \<Rightarrow> path outcome" where
  "asb_config_path S config is_testnet = (case config of
     Some config_path \<Rightarrow> Ok config_path
   | None \<Rightarrow> if is_testnet then omap ad_config_path (testnet_defaults S) else omap ad_config_path (mainnet_defaults S))"

definition asb_env_config :: "bool \<Rightarrow> config" where
  "asb_env_config is_testnet = (if is_testnet then testnet_config else mainnet_config)"

definition asb_command_of :: "bool \<Rightarrow> asb_raw_command \<Rightarrow> asb_cmd outcome" where
  "asb_command_of testnet c = (case c of
     RawStart resume_only \<Rightarrow> Ok (CmdStart resume_only)
   | RawHistory \<Rightarrow> Ok CmdHistory
   | RawLogs logs_dir redact swap_id \<Rightarrow> Ok (CmdLogs logs_dir swap_id redact)
   | RawWithdrawBtc amount address \<Rightarrow> omap (CmdWithdrawBtc amount) (asb_bitcoin_address address testnet)
   | RawBalance \<Rightarrow> Ok CmdBalance
   | RawConfig \<Rightarrow> Ok CmdConfig
   | RawExportBitcoinWallet \<Rightarrow> Ok CmdExportBitcoinWallet
   | RawManualRecovery (MrRedeem swap_id do_not_await_finality) \<Rightarrow> Ok (CmdRedeem swap_id do_not_await_finality)
   | RawManualRecovery (MrCancel swap_id) \<Rightarrow> Ok (CmdCancel swap_id)
   | RawManualRecovery (MrRefund swap_id) \<Rightarrow> Ok (CmdRefund swap_id)
   | RawManualRecovery (MrPunish swap_id) \<Rightarrow> Ok (CmdPunish swap_id)
   | RawManualRecovery (MrSafelyAbort swap_id) \<Rightarrow> Ok (CmdSafelyAbort swap_id))"

text \<open>\<open>raw\<close> is what \<open>clap\<close> makes of the command line; a request for the help is an error of it.\<close>

definition parse_asb_args :: "system \<Rightarrow> asb_raw_arguments outcome \<Rightarrow> asb_arguments outcome" where
  "parse_asb_args S raw =
     obind raw (\<lambda>args.
     obind (asb_config_path S (ra_config args) (ra_testnet args)) (\<lambda>config_path.
     obind (asb_command_of (ra_testnet args) (ra_cmd args)) (\<lambda>cmd.
     Ok \<lparr>aa_testnet = ra_testnet args, aa_json = ra_json args, aa_config_path = config_path,
         aa_env_config = asb_env_config (ra_testnet args), aa_cmd = cmd\<rparr>)))"


section \<open>The configuration file\<close>

datatype price_source = Coingecko

record 'd asb_config =
  ac_data_dir :: path
  ac_listen :: "multiaddr list"
  ac_rendezvous_point :: "multiaddr list"
  ac_external_addresses :: "multiaddr list"
  ac_rendezvous_server :: bool
  ac_electrum_rpc_url :: string
  ac_target_block :: nat
  ac_bitcoin_finality_confirmations :: "u32 option"
  ac_bitcoin_network :: network
  ac_wallet_rpc_url :: string
  ac_beldex_finality_confirmations :: "u64 option"
  ac_beldex_network :: bdx_network
  ac_control_port :: nat
  ac_socks5_port :: nat
  ac_min_buy_btc :: btc_amount
  ac_max_buy_btc :: btc_amount
  ac_ask_spread :: 'd
  ac_price_ticker_source :: price_source
  ac_price_ticker_ws_url :: string
  ac_external_bitcoin_redeem_address :: "address option"

text \<open>
  The prompts of the initial setup, each given its default, and the conversions of what was typed; the comma
  separated text of the listen addresses is the list of its entries.
  \<open>DEFAULT_MIN_BUY_AMOUNT\<close>, \<open>DEFAULT_MAX_BUY_AMOUNT\<close> and \<open>DEFAULT_SPREAD\<close> are rational numbers here.
\<close>

record ('w, 'd) setup_prompts =
  sp_data_dir :: "path \<Rightarrow> ('w, path) io"
  sp_target_block :: "nat \<Rightarrow> ('w, nat) io"
  sp_listen :: "multiaddr list \<Rightarrow> ('w, string list) io"
  sp_electrum_rpc_url :: "string \<Rightarrow> ('w, string) io"
  sp_wallet_rpc_url :: "string \<Rightarrow> ('w, string) io"
  sp_control_port :: "nat \<Rightarrow> ('w, nat) io"
  sp_socks5_port :: "nat \<Rightarrow> ('w, nat) io"
  sp_min_buy :: "rat \<Rightarrow> ('w, float_value) io"
  sp_max_buy :: "rat \<Rightarrow> ('w, float_value) io"
  sp_ask_spread :: "rat \<Rightarrow> ('w, float_value) io"
  sp_rendezvous :: "'w \<Rightarrow> multiaddr option outcome list \<times> 'w"
  sp_amount_from_btc :: "float_value \<Rightarrow> btc_amount outcome"
  sp_decimal_from_f64 :: "float_value \<Rightarrow> 'd option"

text \<open>The loop over the rendezvous points, on what the user enters; an empty entry ends it.\<close>

primrec query_rendezvous_points :: "multiaddr list \<Rightarrow> multiaddr option outcome list \<Rightarrow> multiaddr list outcome" where
  "query_rendezvous_points points [] = Pending"
| "query_rendezvous_points points (entry # entries) = obind entry (\<lambda>rendezvous_addr. case rendezvous_addr of
     None \<Rightarrow> Ok points
   | Some address \<Rightarrow>
       if address \<in> set points then query_rendezvous_points points entries
       else query_rendezvous_points (points @ [address]) entries)"

definition query_user_for_initial_config ::
  "system \<Rightarrow> ('w, 'd) setup_prompts \<Rightarrow> bool \<Rightarrow> ('w, 'd asb_config) io" where
  "query_user_for_initial_config S P testnet =
     (let bitcoin_network = (if testnet then Testnet else Bitcoin);
          beldex_network = (if testnet then BdxTestnet else BdxMainnet) in
      bindio (lift (if testnet then testnet_defaults S else mainnet_defaults S)) (\<lambda>defaults.
      bindio (sp_data_dir P (ad_data_dir defaults)) (\<lambda>data_dir.
      bindio (sp_target_block P (ad_bitcoin_confirmation_target defaults)) (\<lambda>target_block.
      bindio (sp_listen P [ad_listen_address_tcp defaults, ad_listen_address_ws defaults]) (\<lambda>entries.
      bindio (lift (collect_results (sy_multiaddr S) entries)) (\<lambda>listen_addresses.
      bindio (sp_electrum_rpc_url P (ad_electrum_rpc_url defaults)) (\<lambda>electrum_rpc_url.
      bindio (sp_wallet_rpc_url P (ad_beldex_wallet_rpc_url defaults)) (\<lambda>beldex_wallet_rpc_url.
      bindio (sp_control_port P 9051) (\<lambda>tor_control_port.
      bindio (sp_socks5_port P 9050) (\<lambda>tor_socks5_port.
      bindio (sp_min_buy P (2 / 1000)) (\<lambda>min_buy.
      bindio (lift (sp_amount_from_btc P min_buy)) (\<lambda>min_buy.
      bindio (sp_max_buy P (2 / 100)) (\<lambda>max_buy.
      bindio (lift (sp_amount_from_btc P max_buy)) (\<lambda>max_buy.
      bindio (sp_ask_spread P (2 / 100)) (\<lambda>ask_spread.
      if \<not> (float_le (Fin 0) ask_spread \<and> float_le ask_spread (Fin 1))
      then lift (Err (Msg ''Invalid spread. For the spread value floating point number in interval [0..1] are allowed.''))
      else
      bindio (lift (of_option (Msg ''Unable to parse spread'') (sp_decimal_from_f64 P ask_spread))) (\<lambda>ask_spread.
      bindio (\<lambda>w. case sp_rendezvous P w of (entries, w) \<Rightarrow> (query_rendezvous_points [] entries, w)) (\<lambda>rendezvous_points.
      ret \<lparr>ac_data_dir = data_dir, ac_listen = listen_addresses, ac_rendezvous_point = rendezvous_points,
           ac_external_addresses = [], ac_rendezvous_server = False, ac_electrum_rpc_url = electrum_rpc_url,
           ac_target_block = target_block, ac_bitcoin_finality_confirmations = None,
           ac_bitcoin_network = bitcoin_network, ac_wallet_rpc_url = beldex_wallet_rpc_url,
           ac_beldex_finality_confirmations = None, ac_beldex_network = beldex_network,
           ac_control_port = tor_control_port, ac_socks5_port = tor_socks5_port, ac_min_buy_btc = min_buy,
           ac_max_buy_btc = max_buy, ac_ask_spread = ask_spread, ac_price_ticker_source = Coingecko,
           ac_price_ticker_ws_url = ad_price_ticker_ws_url defaults,
           ac_external_bitcoin_redeem_address = None\<rparr>)))))))))))))))))"

section \<open>The swarm\<close>

text \<open>The parameters of the behaviours; the others have none.\<close>

record asb_behaviour =
  bh_rendezvous :: "rendezvous option"
  bh_rendezvous_server :: bool
  bh_agent_namespace :: beldex_btc_namespace
  bh_min_buy :: btc_amount
  bh_max_buy :: btc_amount
  bh_env_config :: config
  bh_resume_only :: bool

definition asb_behaviour_new ::
  "btc_amount \<Rightarrow> btc_amount \<Rightarrow> bool \<Rightarrow> config \<Rightarrow> peer_id \<times> beldex_btc_namespace \<Rightarrow> rendezvous_node list \<Rightarrow> bool \<Rightarrow> asb_behaviour" where
  "asb_behaviour_new min_buy max_buy resume_only env_config identify_params rendezvous_nodes rendezvous_server_enabled =
     (case identify_params of (identity, namespace) \<Rightarrow>
        \<lparr>bh_rendezvous = (if rendezvous_nodes = [] then None else Some (rendezvous_new identity rendezvous_nodes)),
         bh_rendezvous_server = rendezvous_server_enabled, bh_agent_namespace = namespace, bh_min_buy = min_buy,
         bh_max_buy = max_buy, bh_env_config = env_config, bh_resume_only = resume_only\<rparr>)"

text \<open>\<open>keypair\<close> is the identity derived from the seed, \<open>transport\<close> what building the transport gives.\<close>

definition swarm_asb ::
  "(multiaddr \<Rightarrow> peer_id option) \<Rightarrow> unit outcome \<Rightarrow> peer_id outcome \<Rightarrow> btc_amount \<Rightarrow> btc_amount \<Rightarrow> bool \<Rightarrow> config \<Rightarrow>
   beldex_btc_namespace \<Rightarrow> multiaddr list \<Rightarrow> bool \<Rightarrow> asb_behaviour outcome" where
  "swarm_asb extract_peer_id transport keypair min_buy max_buy resume_only env_config namespace rendezvous_addrs server_enabled =
     obind keypair (\<lambda>identity.
     obind (collect_results (\<lambda>addr.
       obind (expect_some ''Rendezvous node address must contain peer ID'' (extract_peer_id addr)) (\<lambda>peer_id.
       Ok (rendezvous_node_new addr peer_id namespace None))) rendezvous_addrs) (\<lambda>rendezvous_nodes.
     let behaviour = asb_behaviour_new min_buy max_buy resume_only env_config (identity, namespace) rendezvous_nodes server_enabled in
     obind transport (\<lambda>_. Ok behaviour)))"

section \<open>main\<close>

text \<open>
  What \<open>main\<close> asks of its surroundings. The wallets take the parts of the configuration that the code gives
  them; \<open>ah_manual\<close> is the manual command on the wallets and the database, \<open>asb_manual\<close> of \<open>Recovery\<close>.
\<close>

record ('w, 'd) asb_host =
  ah_exists :: "path \<Rightarrow> 'w \<Rightarrow> bool"
  ah_read :: "path \<Rightarrow> ('w, 'd asb_config) io"
  ah_write :: "path \<Rightarrow> 'd asb_config \<Rightarrow> ('w, unit) io"
  ah_tracing :: "path \<Rightarrow> bool \<Rightarrow> ('w, unit) io"
  ah_open_db :: "path \<Rightarrow> ('w, unit) io"
  ah_seed :: "path \<Rightarrow> ('w, seed) io"
  ah_seed_lib :: seed_lib
  ah_open_bitcoin :: "string \<Rightarrow> path \<Rightarrow> nat \<Rightarrow> config \<Rightarrow> nat \<Rightarrow> ('w, 'w open_wallet) io"
  ah_client :: "string \<Rightarrow> 'w wallet_rpc outcome"
  ah_text :: bdx_text
  ah_price_updates :: "('w, unit) io"
  ah_tor_running :: "nat \<Rightarrow> nat \<Rightarrow> ('w, unit) io"
  ah_register_tor :: "multiaddr list \<Rightarrow> seed \<Rightarrow> ('w, unit) io"
  ah_peer_of :: "multiaddr \<Rightarrow> peer_id option"
  ah_transport :: "unit outcome"
  ah_listen :: "multiaddr \<Rightarrow> ('w, unit) io"
  ah_add_external :: "multiaddr \<Rightarrow> 'w \<Rightarrow> 'w"
  ah_run :: "asb_behaviour \<Rightarrow> 'd \<Rightarrow> address option \<Rightarrow> ('w, unit) io"
  ah_all :: "('w, (uuid \<times> swap_state) list) io"
  ah_logs :: "path \<Rightarrow> uuid option \<Rightarrow> bool \<Rightarrow> ('w, string list) io"
  ah_export :: "string \<Rightarrow> ('w, string) io"
  ah_manual :: "config \<Rightarrow> uuid \<Rightarrow> asb_command \<Rightarrow> ('w, unit) io"

definition read_config :: "('w, 'd) asb_host \<Rightarrow> path \<Rightarrow> ('w, 'd asb_config option) io" where
  "read_config H config_path = (\<lambda>w.
     if \<not> ah_exists H config_path w then (Ok None, w)
     else bindio (context_io (''Failed to read config file at '' @ path_display config_path) (ah_read H config_path)) (\<lambda>file. ret (Some file)) w)"

definition initial_setup :: "('w, 'd) asb_host \<Rightarrow> path \<Rightarrow> 'd asb_config \<Rightarrow> ('w, unit) io" where
  "initial_setup H config_path config = ah_write H config_path config"

definition init_bitcoin_wallet :: "('w, 'd) asb_host \<Rightarrow> 'd asb_config \<Rightarrow> seed \<Rightarrow> config \<Rightarrow> ('w, 'w open_wallet) io" where
  "init_bitcoin_wallet H config seed env_config =
     bindio (lift (derive_extended_private_key (ah_seed_lib H) seed (bitcoin_network env_config))) (\<lambda>key.
     bindio (context_io ''Failed to initialize Bitcoin wallet''
       (ah_open_bitcoin H (ac_electrum_rpc_url config) (ac_data_dir config) key env_config (ac_target_block config))) (\<lambda>wallet.
     bindio (wallet_sync (ow_bdk wallet)) (\<lambda>_.
     ret wallet)))"

definition init_beldex_wallet :: "('w, 'd) asb_host \<Rightarrow> 'd asb_config \<Rightarrow> config \<Rightarrow> ('w, 'w wallet_rpc \<times> bdx_wallet) io" where
  "init_beldex_wallet H config env_config =
     bindio (lift (ah_client H (ac_wallet_rpc_url config))) (\<lambda>client.
     bindio (wallet_open_or_create (ah_text H) client ''asb-wallet'' env_config) (\<lambda>wallet.
     ret (client, wallet)))"

primrec each :: "('a \<Rightarrow> ('w, unit) io) \<Rightarrow> 'a list \<Rightarrow> ('w, unit) io" where
  "each f [] = ret ()"
| "each f (x # xs) = bindio (f x) (\<lambda>_. each f xs)"

text \<open>\<open>sort\<close> and \<open>dedup\<close> of the rendezvous points.\<close>

definition rendezvous_addrs_of :: "'d asb_config \<Rightarrow> multiaddr list" where
  "rendezvous_addrs_of config = remdups_adj (sort (ac_rendezvous_point config))"

definition asb_start :: "('w, 'd) asb_host \<Rightarrow> bool \<Rightarrow> 'd asb_config \<Rightarrow> config \<Rightarrow> seed \<Rightarrow> bool \<Rightarrow> ('w, unit) io" where
  "asb_start H testnet config env_config seed resume_only =
     bindio (init_beldex_wallet H config env_config) (\<lambda>beldex_wallet.
     bindio (wallet_get_balance (fst beldex_wallet)) (\<lambda>beldex.
     bindio (init_bitcoin_wallet H config seed env_config) (\<lambda>bitcoin_wallet.
     bindio (wallet_balance (ow_bdk bitcoin_wallet)) (\<lambda>bitcoin_balance.
     bindio (ah_price_updates H) (\<lambda>_.
     bindio (attempt (ah_tor_running H (ac_socks5_port config) (ac_control_port config))) (\<lambda>tor.
     bindio (case tor of Inr _ \<Rightarrow> ah_register_tor H (ac_listen config) seed | Inl _ \<Rightarrow> ret ()) (\<lambda>_.
     bindio (lift (swarm_asb (ah_peer_of H) (ah_transport H) (derive_libp2p_identity (ah_seed_lib H) seed) (ac_min_buy_btc config) (ac_max_buy_btc config) resume_only
       env_config (namespace_from_is_testnet testnet) (rendezvous_addrs_of config) (ac_rendezvous_server config))) (\<lambda>swarm.
     bindio (each (\<lambda>address. context_io ''Failed to listen on network interface'' (ah_listen H address)) (ac_listen config)) (\<lambda>_.
     bindio (each (\<lambda>address w. (Ok (), ah_add_external H address w)) (ac_external_addresses config)) (\<lambda>_.
     ah_run H swarm (ac_ask_spread config) (ac_external_bitcoin_redeem_address config)))))))))))"

definition asb_history :: "('w, 'd) asb_host \<Rightarrow> ('w, (uuid \<times> string) list) io" where
  "asb_history H =
     bindio (ah_all H) (\<lambda>swaps.
     lift (collect_results (\<lambda>(swap_id, state).
       obind (try_into_alice_state state) (\<lambda>state. Ok (swap_id, alice_state_display state))) swaps))"

datatype 'd asb_output =
    Silent
  | HistoryTable "(uuid \<times> string) list"
  | ConfigJson "'d asb_config"
  | LogLines "string list"
  | WalletExport string

definition quietly :: "('w, 'a) io \<Rightarrow> ('w, 'd asb_output) io" where
  "quietly m = bindio m (\<lambda>_. ret Silent)"

definition asb_dispatch ::
  "lib \<Rightarrow> ('w, 'd) asb_host \<Rightarrow> bool \<Rightarrow> 'd asb_config \<Rightarrow> config \<Rightarrow> seed \<Rightarrow> asb_cmd \<Rightarrow> ('w, 'd asb_output) io" where
  "asb_dispatch L H testnet config env_config seed cmd = (case cmd of
     CmdStart resume_only \<Rightarrow> quietly (asb_start H testnet config env_config seed resume_only)
   | CmdHistory \<Rightarrow> bindio (asb_history H) (\<lambda>rows. ret (HistoryTable rows))
   | CmdConfig \<Rightarrow> ret (ConfigJson config)
   | CmdLogs logs_dir swap_id redact \<Rightarrow>
       bindio (ah_logs H (case logs_dir of Some dir \<Rightarrow> dir | None \<Rightarrow> path_join (ac_data_dir config) ''logs'') swap_id redact)
         (\<lambda>lines. ret (LogLines lines))
   | CmdWithdrawBtc amount address \<Rightarrow>
       quietly (bindio (init_bitcoin_wallet H config seed env_config) (\<lambda>w. withdraw_btc L (Some w) address amount))
   | CmdBalance \<Rightarrow>
       quietly (bindio (init_beldex_wallet H config env_config) (\<lambda>beldex_wallet.
         bindio (wallet_get_balance (fst beldex_wallet)) (\<lambda>_.
         bindio (init_bitcoin_wallet H config seed env_config) (\<lambda>w. wallet_balance (ow_bdk w)))))
   | CmdCancel swap_id \<Rightarrow>
       quietly (bindio (init_bitcoin_wallet H config seed env_config) (\<lambda>_. ah_manual H env_config swap_id Cancel))
   | CmdRefund swap_id \<Rightarrow>
       quietly (bindio (init_bitcoin_wallet H config seed env_config) (\<lambda>_.
         bindio (init_beldex_wallet H config env_config) (\<lambda>_. ah_manual H env_config swap_id Refund)))
   | CmdPunish swap_id \<Rightarrow>
       quietly (bindio (init_bitcoin_wallet H config seed env_config) (\<lambda>_. ah_manual H env_config swap_id Punish))
   | CmdSafelyAbort swap_id \<Rightarrow> quietly (ah_manual H env_config swap_id SafelyAbort)
   | CmdRedeem swap_id do_not_await_finality \<Rightarrow>
       quietly (bindio (init_bitcoin_wallet H config seed env_config) (\<lambda>_.
         ah_manual H env_config swap_id (Redeem do_not_await_finality)))
   | CmdExportBitcoinWallet \<Rightarrow>
       bindio (init_bitcoin_wallet H config seed env_config) (\<lambda>_.
       bindio (ah_export H ''asb'') (\<lambda>descriptor. ret (WalletExport descriptor))))"

text \<open>How \<open>{:?}\<close> prints the networks.\<close>

primrec network_debug :: "network \<Rightarrow> string" where
  "network_debug Bitcoin = ''Bitcoin''"
| "network_debug Testnet = ''Testnet''"
| "network_debug Signet = ''Signet''"
| "network_debug Regtest = ''Regtest''"

primrec bdx_network_debug :: "bdx_network \<Rightarrow> string" where
  "bdx_network_debug BdxMainnet = ''Mainnet''"
| "bdx_network_debug BdxStagenet = ''Stagenet''"
| "bdx_network_debug BdxTestnet = ''Testnet''"

text \<open>The checks of \<open>main\<close> and what follows them.\<close>

definition asb_with_config ::
  "lib \<Rightarrow> ('w, 'd) asb_host \<Rightarrow> asb_arguments \<Rightarrow> 'd asb_config \<Rightarrow> ('w, 'd asb_output) io" where
  "asb_with_config L H args config =
     bindio (\<lambda>w. case ah_tracing H (path_join (ac_data_dir config) ''logs'') (aa_json args) w of
       (r, w) \<Rightarrow> (expect_ok ''initialize tracing'' r, w)) (\<lambda>_.
     if ac_beldex_network config \<noteq> beldex_network (aa_env_config args) then
       lift (Err (Msg (''Expected beldex network in config file to be '' @ bdx_network_debug (beldex_network (aa_env_config args)) @
         '' but was '' @ bdx_network_debug (ac_beldex_network config))))
     else if ac_bitcoin_network config \<noteq> bitcoin_network (aa_env_config args) then
       lift (Err (Msg (''Expected bitcoin network in config file to be '' @ network_debug (bitcoin_network (aa_env_config args)) @
         '' but was '' @ network_debug (ac_bitcoin_network config))))
     else
       bindio (ah_open_db H (path_join (ac_data_dir config) ''sqlite'')) (\<lambda>_.
       bindio (\<lambda>w. case ah_seed H (ac_data_dir config) w of
         (r, w) \<Rightarrow> (expect_ok ''Could not retrieve/initialize seed'' r, w)) (\<lambda>seed.
       asb_dispatch L H (aa_testnet args) config (aa_env_config args) seed (aa_cmd args))))"

definition asb_main ::
  "lib \<Rightarrow> system \<Rightarrow> ('w, 'd) setup_prompts \<Rightarrow> ('w, 'd) asb_host \<Rightarrow> asb_raw_arguments outcome \<Rightarrow> ('w, 'd asb_output) io" where
  "asb_main L S P H raw =
     bindio (lift (parse_asb_args S raw)) (\<lambda>args.
     bindio (read_config H (aa_config_path args)) (\<lambda>found.
     bindio (case found of
         Some config \<Rightarrow> ret config
       | None \<Rightarrow>
           bindio (query_user_for_initial_config S P (aa_testnet args)) (\<lambda>config.
           bindio (initial_setup H (aa_config_path args) config) (\<lambda>_.
           bindio (read_config H (aa_config_path args)) (\<lambda>again.
           lift (expect_some ''after initial setup config can be read'' again))))) (\<lambda>config.
     asb_with_config L H args config)))"

end
