(* ===== verification/Asb_Main_Properties.thy ===== *)
theory Asb_Main_Properties
  imports Asb_Main
begin

text \<open>
  What starting the ASB guarantees: one network for command line, configuration file and environment; a first start
  whose configuration passes the checks; the initial state of the rendezvous behaviour. And what of the
  configuration file never takes effect.
\<close>

section \<open>Networks\<close>

lemma asb_env_networks:
  "bitcoin_network (asb_env_config testnet) = (if testnet then Testnet else Bitcoin)"
  "beldex_network (asb_env_config testnet) = (if testnet then BdxTestnet else BdxMainnet)"
  by (simp_all add: asb_env_config_def mainnet_config_def testnet_config_def)

lemma parse_asb_args_OkD:
  assumes "parse_asb_args S raw = Ok args"
  shows "aa_env_config args = asb_env_config (aa_testnet args) \<and>
    (\<forall>amount address. aa_cmd args = CmdWithdrawBtc amount address \<longrightarrow> addr_network address = bitcoin_network (aa_env_config args))"
proof -
  obtain ra :: asb_raw_arguments and path cmd where args: "args = \<lparr>aa_testnet = ra_testnet ra, aa_json = ra_json ra, aa_config_path = path,
      aa_env_config = asb_env_config (ra_testnet ra), aa_cmd = cmd\<rparr>"
    and cmd: "asb_command_of (ra_testnet ra) (ra_cmd ra) = Ok cmd"
    using assms unfolding parse_asb_args_def obind_eq_Ok by auto
  have "addr_network address = (if ra_testnet ra then Testnet else Bitcoin)" if "cmd = CmdWithdrawBtc amount address" for amount address
    using cmd unfolding that by (cases "ra_cmd ra")
      (auto simp: asb_command_of_def outcome_rules asb_bitcoin_address_def Let_def split: manual_recovery.splits if_splits)
  thus ?thesis by (simp add: args asb_env_networks)
qed

text \<open>A system and a host on which everything succeeds and nothing happens, for the examples.\<close>

definition sample_system :: system where
  "sample_system = \<lparr>sy_project_dirs = Some \<lparr>pd_config_dir = [''c''], pd_data_dir = [''d'']\<rparr>, sy_multiaddr = (\<lambda>s. Ok (length s)), sy_url = Ok\<rparr>"

definition sample_asb_config :: "unit asb_config" where
  "sample_asb_config = \<lparr>ac_data_dir = [''d''], ac_listen = [], ac_rendezvous_point = [9, 5, 9], ac_external_addresses = [],
     ac_rendezvous_server = False, ac_electrum_rpc_url = ''e'', ac_target_block = 1, ac_bitcoin_finality_confirmations = None,
     ac_bitcoin_network = Testnet, ac_wallet_rpc_url = ''w'', ac_beldex_finality_confirmations = None,
     ac_beldex_network = BdxTestnet, ac_control_port = 9051, ac_socks5_port = 9050, ac_min_buy_btc = 200000,
     ac_max_buy_btc = 2000000, ac_ask_spread = (), ac_price_ticker_source = Coingecko, ac_price_ticker_ws_url = ''t'',
     ac_external_bitcoin_redeem_address = None\<rparr>"

definition sample_asb_host :: "(unit, unit) asb_host" where
  "sample_asb_host = \<lparr>ah_exists = (\<lambda>_ _. True), ah_read = (\<lambda>_. ret sample_asb_config), ah_write = (\<lambda>_ _. ret ()),
     ah_tracing = (\<lambda>_ _. ret ()), ah_open_db = (\<lambda>_. ret ()), ah_seed = (\<lambda>_. ret (replicate 32 7)), ah_seed_lib = sample_seeds,
     ah_open_bitcoin = (\<lambda>_ _ _ _ _. lift (Err (Msg ''offline''))), ah_client = (\<lambda>_. Err (Msg ''offline'')),
     ah_text = \<lparr>bx_address_to_string = (\<lambda>_. ''a''), bx_address_from_str = (\<lambda>_. Err (Msg ''no address'')), bx_private_key_to_string = (\<lambda>_. ''k'')\<rparr>,
     ah_price_updates = ret (), ah_tor_running = (\<lambda>_ _. ret ()), ah_register_tor = (\<lambda>_ _. ret ()), ah_peer_of = Some,
     ah_transport = Ok (), ah_listen = (\<lambda>_. ret ()), ah_add_external = (\<lambda>_ w. w), ah_run = (\<lambda>_ _ _. ret ()),
     ah_all = ret [(7, SAlice ASafelyAborted)], ah_logs = (\<lambda>_ _ _. ret []), ah_export = (\<lambda>_. ret []), ah_manual = (\<lambda>_ _ _. ret ())\<rparr>"

definition sample_asb_args :: asb_raw_arguments where
  "sample_asb_args = \<lparr>ra_testnet = True, ra_json = False, ra_disable_timestamp = True, ra_config = Some [''c'', ''config.toml''],
     ra_cmd = RawConfig\<rparr>"

definition sample_prompts :: "(unit, unit) setup_prompts" where
  "sample_prompts = \<lparr>sp_data_dir = ret, sp_target_block = ret, sp_listen = (\<lambda>_. ret [''a'', ''bb'']), sp_electrum_rpc_url = ret,
     sp_wallet_rpc_url = ret, sp_control_port = ret, sp_socks5_port = ret, sp_min_buy = (\<lambda>x. ret (Fin x)),
     sp_max_buy = (\<lambda>x. ret (Fin x)), sp_ask_spread = (\<lambda>x. ret (Fin x)),
     sp_rendezvous = (\<lambda>w. ([Ok (Some 5), Ok (Some 9), Ok (Some 5), Ok None], w)), sp_amount_from_btc = (\<lambda>_. Ok 200000),
     sp_decimal_from_f64 = (\<lambda>_. Some ())\<rparr>"

lemmas sample_asb_rules = sample_system_def sample_asb_host_def sample_asb_args_def sample_asb_config_def sample_prompts_def
  bindio_def ret_def lift_def

text \<open>
  a run of the ASB that ends well used one network throughout: that of the flag on the command line is the one of
  its environment, of the configuration file and of the address of a withdrawal.
\<close>

theorem asb_uses_one_network:
  assumes "asb_main L S P H raw w = (Ok out, w')"
  shows "\<exists>args config w1 w2. parse_asb_args S raw = Ok args \<and> aa_env_config args = asb_env_config (aa_testnet args) \<and>
    asb_with_config L H args config w1 = (Ok out, w2) \<and>
    ac_bitcoin_network config = (if aa_testnet args then Testnet else Bitcoin) \<and>
    ac_beldex_network config = (if aa_testnet args then BdxTestnet else BdxMainnet) \<and>
    (\<forall>amount address. aa_cmd args = CmdWithdrawBtc amount address \<longrightarrow> addr_network address = ac_bitcoin_network config)"
proof -
  obtain args config w1 where parse: "parse_asb_args S raw = Ok args"
    and run: "asb_with_config L H args config w1 = (Ok out, w')"
    using assms unfolding asb_main_def by (fastforce simp: bindio_eq_Ok)
  note env = parse_asb_args_OkD[OF parse]
  have "ac_beldex_network config = beldex_network (aa_env_config args)"
    "ac_bitcoin_network config = bitcoin_network (aa_env_config args)"
    using run by (auto simp: asb_with_config_def bindio_eq_Ok split: if_splits)
  thus ?thesis using parse run env by (metis asb_env_networks)
qed

theorem asb_uses_one_network_witness:
  "asb_main sample_lib sample_system sample_prompts sample_asb_host (Ok sample_asb_args) () = (Ok (ConfigJson sample_asb_config), ()) \<and>
    ac_bitcoin_network sample_asb_config = Testnet"
proof -
  have run: "asb_main sample_lib sample_system sample_prompts sample_asb_host (Ok sample_asb_args) () = (Ok (ConfigJson sample_asb_config), ())"
    by (simp add: asb_main_def parse_asb_args_def asb_config_path_def asb_command_of_def read_config_def asb_with_config_def
      asb_dispatch_def asb_env_networks sample_asb_rules context_io_def expect_ok_def)
  obtain args config w1 w2 where "parse_asb_args sample_system (Ok sample_asb_args) = Ok args"
    "asb_with_config sample_lib sample_asb_host args config w1 = (Ok (ConfigJson sample_asb_config), w2)"
    "ac_bitcoin_network config = (if aa_testnet args then Testnet else Bitcoin)"
    using asb_uses_one_network[OF run] by blast
  hence "ac_bitcoin_network sample_asb_config = Testnet"
    by (auto simp: asb_with_config_def parse_asb_args_def outcome_rules asb_config_path_def asb_command_of_def
      asb_dispatch_def sample_asb_rules expect_ok_def split: if_splits)
  thus ?thesis using run by blast
qed

lemma query_rendezvous_points_distinct:
  "query_rendezvous_points points entries = Ok found \<Longrightarrow> distinct points \<Longrightarrow> distinct found"
  by (induction entries arbitrary: points) (auto simp: outcome_rules split: option.splits if_splits)

lemma case_prod_eq_Ok: "(case p of (e, w) \<Rightarrow> (f e, w)) = (Ok x, w') \<longleftrightarrow> f (fst p) = Ok x \<and> w' = snd p"
  by (auto split: prod.splits)

text \<open>
  the configuration that the initial setup writes passes the checks of \<open>main\<close>: it is on the network of the flag;
  it names no rendezvous point twice and overrides no number of confirmations.
\<close>

theorem initial_config_is_accepted:
  assumes "query_user_for_initial_config S P testnet w = (Ok config, w')"
  shows "ac_bitcoin_network config = bitcoin_network (asb_env_config testnet) \<and>
    ac_beldex_network config = beldex_network (asb_env_config testnet) \<and> distinct (ac_rendezvous_point config) \<and>
    ac_bitcoin_finality_confirmations config = None \<and> ac_beldex_finality_confirmations config = None"
proof -
  obtain entries where "query_rendezvous_points [] entries = Ok (ac_rendezvous_point config)"
    and "ac_bitcoin_network config = (if testnet then Testnet else Bitcoin)"
    "ac_beldex_network config = (if testnet then BdxTestnet else BdxMainnet)"
    "ac_bitcoin_finality_confirmations config = None" "ac_beldex_finality_confirmations config = None"
    using assms unfolding query_user_for_initial_config_def Let_def
    by (elim bindio_OkE) (auto simp: case_prod_eq_Ok bindio_eq_Ok split: if_splits)
  thus ?thesis using query_rendezvous_points_distinct[of "[]"] by (simp add: asb_env_networks)
qed

theorem initial_config_is_accepted_witness:
  "\<exists>config. query_user_for_initial_config sample_system sample_prompts True () = (Ok config, ()) \<and>
    ac_rendezvous_point config = [5, 9] \<and> ac_bitcoin_network config = Testnet"
proof -
  obtain config where run: "query_user_for_initial_config sample_system sample_prompts True () = (Ok config, ())"
    "ac_rendezvous_point config = [5, 9]"
    by (simp add: query_user_for_initial_config_def testnet_defaults_def default_asb_config_dir_def default_asb_data_dir_def system_config_dir_def system_data_dir_def of_option_def
      sample_asb_rules with_context_def omap_def)
  thus ?thesis using initial_config_is_accepted[OF run(1)] by (simp add: asb_env_networks)
qed

section \<open>Finality\<close>

text \<open>
  C39: the numbers of confirmations in the configuration file never take effect: every command but the one that
  prints the file does the same whatever they are, although \<open>env::new\<close> would apply them.
\<close>

theorem configured_finality_is_ignored:
  assumes "aa_cmd args \<noteq> CmdConfig"
  shows "asb_with_config L H args
      (config\<lparr>ac_bitcoin_finality_confirmations := Some x, ac_beldex_finality_confirmations := Some y\<rparr>)
    = asb_with_config L H args config \<and>
    bitcoin_finality_confirmations (env_new testnet (Some x) (Some y)) = x \<and>
    beldex_finality_confirmations (env_new testnet (Some x) (Some y)) = y"
  using assms
  by (cases "aa_cmd args") (simp_all add: asb_with_config_def asb_dispatch_def asb_start_def init_bitcoin_wallet_def
    init_beldex_wallet_def rendezvous_addrs_of_def env_new_def Let_def cong: if_cong sum.case_cong option.case_cong)

definition history_args :: asb_arguments where
  "history_args = \<lparr>aa_testnet = True, aa_json = False, aa_config_path = [''c'', ''config.toml''], aa_env_config = testnet_config,
     aa_cmd = CmdHistory\<rparr>"

theorem configured_finality_is_ignored_witness:
  "asb_with_config sample_lib sample_asb_host history_args
      (sample_asb_config\<lparr>ac_bitcoin_finality_confirmations := Some 6, ac_beldex_finality_confirmations := Some 20\<rparr>) ()
    = (Ok (HistoryTable [(7, ''safely aborted'')]), ()) \<and>
    asb_with_config sample_lib sample_asb_host history_args sample_asb_config ()
    = (Ok (HistoryTable [(7, ''safely aborted'')]), ())"
proof -
  have "asb_with_config sample_lib sample_asb_host history_args sample_asb_config () = (Ok (HistoryTable [(7, ''safely aborted'')]), ())"
    by (simp add: asb_with_config_def history_args_def asb_dispatch_def asb_history_def sample_asb_rules expect_ok_def
      testnet_config_def try_into_alice_state_def alice_state_display_def)
  moreover have "aa_cmd history_args \<noteq> CmdConfig" by (simp add: history_args_def)
  ultimately show ?thesis
    using configured_finality_is_ignored[where args = history_args and L = sample_lib and H = sample_asb_host
      and config = sample_asb_config and x = 6 and y = 20] by simp
qed

section \<open>The rendezvous points\<close>

lemma fresh_node:
  "rn_address (rendezvous_node_new a p ns t) = a" "rn_peer_id (rendezvous_node_new a p ns t) = p"
  "rn_connection_status (rendezvous_node_new a p ns t) = Disconnected"
  "rn_registration_status (rendezvous_node_new a p ns t) = RegisterOnNextConnection"
  by (simp_all add: rendezvous_node_new_def)

lemma distinct_sorted_dedup: "sorted xs \<Longrightarrow> distinct (remdups_adj xs)"
  by (induction xs rule: remdups_adj.induct) auto

lemma collect_results_eq:
  "collect_results f xs = Ok ys \<Longrightarrow> list_all2 (\<lambda>x y. f x = Ok y) xs ys"
  by (induction xs arbitrary: ys) (auto simp: outcome_rules)

text \<open>
  if the rendezvous points of the configuration name different peers, the rendezvous behaviour of the ASB's swarm
  starts with one node per point, in the state in which it registers on the next connection, no peer twice.
\<close>

theorem asb_rendezvous_starts_fresh:
  assumes "swarm_asb peer transport keypair min_buy max_buy resume_only env ns (rendezvous_addrs_of config) server = Ok b"
    and "inj_on peer (set (ac_rendezvous_point config))"
  shows "case bh_rendezvous b of None \<Rightarrow> ac_rendezvous_point config = []
    | Some rz \<Rightarrow> distinct (map rn_peer_id (rz_rendezvous_nodes rz)) \<and>
        rn_address ` set (rz_rendezvous_nodes rz) = set (ac_rendezvous_point config) \<and>
        (\<forall>n\<in>set (rz_rendezvous_nodes rz). peer (rn_address n) = Some (rn_peer_id n) \<and>
           rn_connection_status n = Disconnected \<and> rn_registration_status n = RegisterOnNextConnection)"
proof -
  let ?addrs = "rendezvous_addrs_of config"
  let ?f = "\<lambda>addr. obind (expect_some ''Rendezvous node address must contain peer ID'' (peer addr)) (\<lambda>peer_id.
       Ok (rendezvous_node_new addr peer_id ns None))"
  obtain identity nodes where nodes: "collect_results ?f ?addrs = Ok nodes"
    and b: "b = asb_behaviour_new min_buy max_buy resume_only env (identity, ns) nodes server"
    using assms(1) by (auto simp: swarm_asb_def Let_def outcome_rules)
  have addrs: "distinct ?addrs" "set ?addrs = set (ac_rendezvous_point config)"
    by (simp_all add: rendezvous_addrs_of_def distinct_sorted_dedup)
  note fresh = fresh_node
  have node: "?f a = Ok n \<longleftrightarrow> peer a = Some (rn_peer_id n) \<and> n = rendezvous_node_new a (rn_peer_id n) ns None" for a n
    by (cases "peer a") (auto simp: outcome_rules fresh)
  have all2: "list_all2 (\<lambda>a n. peer a = Some (rn_peer_id n) \<and> n = rendezvous_node_new a (rn_peer_id n) ns None) ?addrs nodes"
    using collect_results_eq[OF nodes] unfolding node .
  have peers: "map Some (map rn_peer_id nodes) = map peer ?addrs" "map rn_address nodes = ?addrs"
    using all2 by (induction rule: list_all2_induct) (simp_all, (metis fresh)+)
  have "distinct (map peer ?addrs)" using addrs assms(2) by (simp add: distinct_map)
  hence "distinct (map rn_peer_id nodes)" unfolding peers(1)[symmetric]
    using distinct_map[of Some "map rn_peer_id nodes"] by blast
  moreover have "rn_address ` set nodes = set (ac_rendezvous_point config)" using peers(2) addrs(2) by (metis set_map)
  moreover have "\<forall>n\<in>set nodes. peer (rn_address n) = Some (rn_peer_id n) \<and> rn_connection_status n = Disconnected \<and>
      rn_registration_status n = RegisterOnNextConnection"
    using all2 by (induction rule: list_all2_induct) (simp, simp, metis fresh)
  ultimately show ?thesis by (auto simp: b asb_behaviour_new_def rendezvous_new_def)
qed

theorem asb_rendezvous_starts_fresh_witness:
  "\<exists>b rz. swarm_asb Some (Ok ()) (Ok 3) 200000 2000000 False testnet_config NsTestnet
      (rendezvous_addrs_of sample_asb_config) False = Ok b \<and> bh_rendezvous b = Some rz \<and>
    distinct (map rn_peer_id (rz_rendezvous_nodes rz)) \<and> rn_address ` set (rz_rendezvous_nodes rz) = {5, 9}"
proof -
  have "rendezvous_addrs_of sample_asb_config = [5, 9]"
    by (simp add: rendezvous_addrs_of_def sample_asb_config_def sort_key_def insort_key_def)
  then obtain b rz where b: "swarm_asb Some (Ok ()) (Ok 3) 200000 2000000 False testnet_config NsTestnet
      (rendezvous_addrs_of sample_asb_config) False = Ok b" "bh_rendezvous b = Some rz"
    by (simp add: swarm_asb_def asb_behaviour_new_def expect_some_def)
  have points: "set (ac_rendezvous_point sample_asb_config) = {5, 9}" by (auto simp: sample_asb_config_def)
  have "distinct (map rn_peer_id (rz_rendezvous_nodes rz)) \<and> rn_address ` set (rz_rendezvous_nodes rz) = {5, 9}"
    using asb_rendezvous_starts_fresh[OF b(1)] unfolding b(2) points option.case by (simp only: inj_on_def, blast)
  thus ?thesis using b by blast
qed

end
