(* ===== verification/Wallet_Process.thy ===== *)
theory Wallet_Process
  imports Files Beldex_Types
begin

text \<open>
  The process of the Beldex wallet's RPC server, \<open>beldex/wallet_rpc.rs\<close> as it is compiled for Linux: the choice of a
  daemon, downloading and unpacking the server, starting it. Files are those of \<open>Files\<close>; HTTP, the decompression and the
  archive are the records \<open>web\<close> and \<open>archive_tools\<close>, the started process is the record \<open>process_host\<close>.
\<close>

section \<open>Texts\<close>

text \<open>How a number is printed, and \<open>contains\<close> of a string.\<close>

fun decimal_text :: "nat \<Rightarrow> string" where
  "decimal_text n = (if n < 10 then [char_of (48 + n)] else decimal_text (n div 10) @ [char_of (48 + n mod 10)])"

declare decimal_text.simps [simp del]

definition contains_text :: "string \<Rightarrow> string \<Rightarrow> bool" where
  "contains_text s part = list_ex (prefix part) (suffixes s)"

section \<open>The daemons\<close>

record beldex_daemon =
  bd_address :: string
  bd_port :: nat
  bd_network :: bdx_network

definition beldex_daemon_new :: "string \<Rightarrow> nat \<Rightarrow> bdx_network \<Rightarrow> beldex_daemon" where
  "beldex_daemon_new address port n = \<lparr>bd_address = address, bd_port = port, bd_network = n\<rparr>"

definition BELDEX_DAEMONS :: "beldex_daemon list" where
  "BELDEX_DAEMONS = [
     beldex_daemon_new ''bdx-node.cakewallet.com'' 18081 BdxMainnet,
     beldex_daemon_new ''nodex.monerujo.io'' 18081 BdxMainnet,
     beldex_daemon_new ''node.beldexworld.com'' 18089 BdxMainnet,
     beldex_daemon_new ''nodes.hashvault.pro'' 18081 BdxMainnet,
     beldex_daemon_new ''p2pmd.bdxvsbeast.com'' 18081 BdxMainnet,
     beldex_daemon_new ''node.beldexdevs.org'' 18089 BdxMainnet,
     beldex_daemon_new ''bdx-node-usa-east.cakewallet.com'' 18081 BdxMainnet,
     beldex_daemon_new ''bdx-node-uk.cakewallet.com'' 18081 BdxMainnet,
     beldex_daemon_new ''node.community.rino.io'' 18081 BdxMainnet,
     beldex_daemon_new ''testingjohnross.com'' 20031 BdxMainnet,
     beldex_daemon_new ''bdx.litepay.ch'' 18081 BdxMainnet,
     beldex_daemon_new ''node.trocador.app'' 18089 BdxMainnet,
     beldex_daemon_new ''stagenet.bdx-tw.org'' 38081 BdxTestnet,
     beldex_daemon_new ''node.beldexdevs.org'' 38089 BdxTestnet,
     beldex_daemon_new ''singapore.node.bdx.pm'' 38081 BdxTestnet,
     beldex_daemon_new ''bdx-lux.boldsuck.org'' 38081 BdxTestnet,
     beldex_daemon_new ''stagenet.community.rino.io'' 38081 BdxTestnet]"

definition beldex_daemon_display :: "beldex_daemon \<Rightarrow> string" where
  "beldex_daemon_display d = bd_address d @ '':'' @ decimal_text (bd_port d)"

record daemon_info =
  di_status :: string
  di_synchronized :: bool
  di_mainnet :: bool
  di_stagenet :: bool
  di_testnet :: bool

text \<open>
  The HTTP client: whether it can be built, the response to a \<open>GET\<close>, its body as the answer of \<open>get_info\<close>, its header
  \<open>content-length\<close>, and its body as the stream of decompressed chunks.
\<close>

record 'r web =
  wb_build :: "unit outcome"
  wb_get :: "string \<Rightarrow> 'r outcome"
  wb_get_info :: "'r \<Rightarrow> daemon_info outcome"
  wb_content_length :: "'r \<Rightarrow> string outcome option"
  wb_parse_u64 :: "string \<Rightarrow> nat outcome"
  wb_chunks :: "'r \<Rightarrow> bytes outcome list"

definition is_available :: "'r web \<Rightarrow> beldex_daemon \<Rightarrow> bool outcome" where
  "is_available W d =
     (let url = ''http://'' @ bd_address d @ '':'' @ decimal_text (bd_port d) @ ''/get_info'' in
      obind (with_context ''Failed to send request to get_info endpoint'' (wb_get W url)) (\<lambda>res.
      obind (with_context ''Failed to deserialize daemon get_info response'' (wb_get_info W res)) (\<lambda>json.
      let is_status_ok = (di_status json = ''OK'');
          is_synchronized = di_synchronized json;
          is_correct_network = (case bd_network d of
            BdxMainnet \<Rightarrow> di_mainnet json | BdxStagenet \<Rightarrow> di_stagenet json | BdxTestnet \<Rightarrow> di_testnet json) in
      Ok (is_status_ok \<and> is_synchronized \<and> is_correct_network))))"

primrec first_available :: "'r web \<Rightarrow> beldex_daemon list \<Rightarrow> beldex_daemon outcome" where
  "first_available W [] = Err (Msg ''No Beldex daemon could be found. Please specify one manually or try again later.'')"
| "first_available W (daemon # daemons) = (case is_available W daemon of
     Ok True \<Rightarrow> Ok daemon
   | Err err \<Rightarrow> first_available W daemons
   | Ok False \<Rightarrow> first_available W daemons
   | Panic p \<Rightarrow> Panic p
   | Pending \<Rightarrow> Pending)"

definition choose_beldex_daemon :: "'r web \<Rightarrow> bdx_network \<Rightarrow> beldex_daemon outcome" where
  "choose_beldex_daemon W n =
     obind (wb_build W) (\<lambda>_. first_available W (filter (\<lambda>daemon. bd_network daemon = n) BELDEX_DAEMONS))"

section \<open>Installing the server\<close>

definition DOWNLOAD_URL :: string where
  "DOWNLOAD_URL = ''https://github.com/Beldex-Coin/beldex/releases/download/v7.0.1/beldex-linux-x86_64-v7.0.1.tar.xz''"

definition PACKED_FILE :: string where
  "PACKED_FILE = ''beldex-wallet-rpc''"

definition archive_path :: "path \<Rightarrow> path" where
  "archive_path working_dir = path_join working_dir ''beldex-cli-wallet.archive''"

definition exec_path :: "path \<Rightarrow> path" where
  "exec_path working_dir = path_join working_dir PACKED_FILE"

text \<open>
  \<open>write\<close> answers how many of the bytes it took; an entry of the archive has a path, which need not be text, and
  unpacking it puts some bytes into the target before it succeeds or fails.
\<close>

record tar_entry =
  te_path :: "string option outcome"
  te_unpack :: "bytes \<times> unit outcome"

record archive_tools =
  at_write :: "bytes \<Rightarrow> nat outcome"
  at_flush :: "unit outcome"
  at_entries :: "bytes \<Rightarrow> tar_entry outcome list outcome"

primrec write_chunks :: "archive_tools \<Rightarrow> path \<Rightarrow> bytes outcome list \<Rightarrow> unit file_io" where
  "write_chunks A p [] = ret ()"
| "write_chunks A p (chunk # chunks) =
     bindio (lift chunk) (\<lambda>bytes.
     bindio (lift (at_write A bytes)) (\<lambda>n.
     bindio (\<lambda>fs. (Ok (), append_bytes p (take n bytes) fs)) (\<lambda>_.
     write_chunks A p chunks)))"

primrec unpack_executable :: "path \<Rightarrow> tar_entry outcome list \<Rightarrow> unit file_io" where
  "unpack_executable exec [] = lift (Err (Msg ''beldex wallet rpc executable not found in downloaded archive''))"
| "unpack_executable exec (entry # entries) =
     bindio (lift entry) (\<lambda>f.
     bindio (lift (te_path f)) (\<lambda>p.
     bindio (lift (of_option (Msg ''Could not find convert path to str in tar ball'') p)) (\<lambda>name.
     if contains_text name PACKED_FILE
     then (\<lambda>fs. case te_unpack f of (data, r) \<Rightarrow> (r, fs\<lparr>fi_content := (fi_content fs)(exec := Some data)\<rparr>))
     else unpack_executable exec entries)))"

definition extract_archive :: "disk \<Rightarrow> archive_tools \<Rightarrow> path \<Rightarrow> unit file_io" where
  "extract_archive D A working_dir =
     bindio (read_file D (archive_path working_dir)) (\<lambda>file.
     bindio (lift (at_entries A file)) (\<lambda>entries.
     bindio (unpack_executable (exec_path working_dir) entries) (\<lambda>_.
     remove_file D (archive_path working_dir))))"

definition download_archive :: "disk \<Rightarrow> 'r web \<Rightarrow> archive_tools \<Rightarrow> path \<Rightarrow> unit file_io" where
  "download_archive D W A working_dir =
     bindio (create_new_file D (archive_path working_dir)) (\<lambda>_.
     bindio (lift (wb_get W DOWNLOAD_URL)) (\<lambda>response.
     bindio (lift (expect_some ''no entry found for key \"content-length\"'' (wb_content_length W response))) (\<lambda>header.
     bindio (lift (with_context ''Failed to convert content-length to string'' header)) (\<lambda>header_text.
     bindio (lift (wb_parse_u64 W header_text)) (\<lambda>content_length.
     bindio (write_chunks A (archive_path working_dir) (wb_chunks W response)) (\<lambda>_.
     bindio (lift (at_flush A)) (\<lambda>_.
     extract_archive D A working_dir)))))))"

text \<open>A \<open>WalletRpc\<close> is its working directory.\<close>

definition wallet_rpc_new :: "disk \<Rightarrow> 'r web \<Rightarrow> archive_tools \<Rightarrow> path \<Rightarrow> path file_io" where
  "wallet_rpc_new D W A working_dir =
     bindio (\<lambda>fs. if path_exists fs working_dir then (Ok (), fs) else create_dir D working_dir fs) (\<lambda>_.
     bindio (\<lambda>fs. if path_exists fs (archive_path working_dir) then remove_file D (archive_path working_dir) fs else (Ok (), fs)) (\<lambda>_.
     bindio (\<lambda>fs. if path_exists fs (exec_path working_dir) then (Ok (), fs) else download_archive D W A working_dir fs) (\<lambda>_.
     ret working_dir)))"

section \<open>Running the server\<close>

text \<open>
  A free port, the lines that the started server prints, and whether it answers on the port. A standard output that
  ends is the end of the list, one that falls silent is a line that stays \<open>Pending\<close>.
\<close>

record process_host =
  ph_bind :: "nat outcome"
  ph_spawn :: "path \<Rightarrow> string list \<Rightarrow> string outcome list option outcome"
  ph_get_version :: "nat \<Rightarrow> unit outcome"

record wallet_rpc_process =
  wp_port :: nat

definition endpoint :: "system \<Rightarrow> wallet_rpc_process \<Rightarrow> string outcome" where
  "endpoint S process = expect_ok ''Static url template is always valid''
     (sy_url S (''http://127.0.0.1:'' @ decimal_text (wp_port process) @ ''/json_rpc''))"

primrec network_flag :: "bdx_network \<Rightarrow> string list" where
  "network_flag BdxMainnet = []"
| "network_flag BdxTestnet = [''--testnet'']"
| "network_flag BdxStagenet = [''--stagenet'']"

primrec await_started :: "string outcome list \<Rightarrow> unit outcome" where
  "await_started [] = Ok ()"
| "await_started (line # reader) = obind line (\<lambda>line.
     if contains_text line ''Starting wallet RPC server'' then Ok () else await_started reader)"

definition wallet_rpc_args :: "path \<Rightarrow> bdx_network \<Rightarrow> string \<Rightarrow> nat \<Rightarrow> string list" where
  "wallet_rpc_args working_dir n daemon_address port =
     network_flag n @ [''--daemon-address'', daemon_address, ''--rpc-bind-port'', decimal_text port,
       ''--disable-rpc-login'', ''--wallet-dir'', path_display (path_join working_dir ''beldex-data'')]"

definition wallet_rpc_run ::
  "'r web \<Rightarrow> process_host \<Rightarrow> path \<Rightarrow> bdx_network \<Rightarrow> string option \<Rightarrow> wallet_rpc_process outcome" where
  "wallet_rpc_run W H working_dir n daemon_address =
     obind (ph_bind H) (\<lambda>port.
     obind (case daemon_address of
         Some daemon_address \<Rightarrow> Ok daemon_address
       | None \<Rightarrow> omap beldex_daemon_display (choose_beldex_daemon W n)) (\<lambda>daemon_address.
     obind (ph_spawn H (exec_path working_dir) (wallet_rpc_args working_dir n daemon_address port)) (\<lambda>stdout.
     obind (expect_some ''beldex wallet rpc stdout was not piped parent process'' stdout) (\<lambda>reader.
     obind (await_started reader) (\<lambda>_.
     obind (ph_get_version H port) (\<lambda>_.
     Ok \<lparr>wp_port = port\<rparr>))))))"

end
