(* ===== verification/Wallet_Process_Properties.thy ===== *)
theory Wallet_Process_Properties
  imports Wallet_Process
begin

text \<open>
  Which daemon is chosen, what an installation leaves behind, and what a failed one does.
\<close>

section \<open>The choice of a daemon\<close>

definition passed_over :: "'r web \<Rightarrow> beldex_daemon \<Rightarrow> bool" where
  "passed_over W d \<longleftrightarrow> is_available W d = Ok False \<or> (\<exists>e. is_available W d = Err e)"

lemma first_split_Cons:
  "(\<exists>before after. x # xs = before @ y # after \<and> P y \<and> (\<forall>z\<in>set before. Q z)) \<longleftrightarrow>
    x = y \<and> P y \<or> Q x \<and> (\<exists>before after. xs = before @ y # after \<and> P y \<and> (\<forall>z\<in>set before. Q z))"
  (is "?l \<longleftrightarrow> ?r")
proof
  assume ?l
  then obtain before after where *: "x # xs = before @ y # after" "P y" "\<forall>z\<in>set before. Q z" by blast
  thus ?r by (cases before) auto
next
  assume ?r
  thus ?l by (metis append_Cons append_Nil empty_iff list.set(1) set_ConsD)
qed

lemma first_available_eq_Ok:
  "first_available W (filter (\<lambda>daemon. bd_network daemon = n) ds) = Ok d \<longleftrightarrow>
    (\<exists>before after. ds = before @ d # after \<and> (bd_network d = n \<and> is_available W d = Ok True) \<and>
      (\<forall>e\<in>set before. bd_network e = n \<longrightarrow> passed_over W e))"
proof (induction ds)
  case (Cons x ds)
  have step: "first_available W (x # xs) = Ok d \<longleftrightarrow> x = d \<and> is_available W d = Ok True \<or> passed_over W x \<and> first_available W xs = Ok d" for xs
    by (auto simp: passed_over_def split: outcome.splits bool.splits)
  have "first_available W (filter (\<lambda>daemon. bd_network daemon = n) (x # ds)) = Ok d \<longleftrightarrow>
      x = d \<and> (bd_network d = n \<and> is_available W d = Ok True) \<or>
      (bd_network x = n \<longrightarrow> passed_over W x) \<and> first_available W (filter (\<lambda>daemon. bd_network daemon = n) ds) = Ok d"
    using step by (cases "bd_network x = n") (auto simp del: first_available.simps)
  thus ?case
    using first_split_Cons[of x ds d "\<lambda>d. bd_network d = n \<and> is_available W d = Ok True" "\<lambda>e. bd_network e = n \<longrightarrow> passed_over W e"] Cons.IH
    by blast
qed simp

text \<open>
  the daemon that is chosen is the first of the list that is declared for the network and answers that it is in
  order, synchronized and on that network; those before it on the list are for other networks or did not answer so.
\<close>

theorem chosen_daemon_is_available:
  "choose_beldex_daemon W n = Ok d \<longleftrightarrow> wb_build W = Ok () \<and>
    (\<exists>before after. BELDEX_DAEMONS = before @ d # after \<and> bd_network d = n \<and> is_available W d = Ok True \<and>
      (\<forall>e\<in>set before. bd_network e = n \<longrightarrow> passed_over W e))"
  unfolding choose_beldex_daemon_def obind_eq_Ok first_available_eq_Ok by auto

definition one_daemon :: "string web" where
  "one_daemon = \<lparr>wb_build = Ok (), wb_get = Ok, wb_get_info = (\<lambda>url. if url = ''http://nodex.monerujo.io:18081/get_info''
       then Ok \<lparr>di_status = ''OK'', di_synchronized = True, di_mainnet = True, di_stagenet = False, di_testnet = False\<rparr>
       else Err (Msg ''no answer'')), wb_content_length = (\<lambda>_. Some (Ok ''3'')), wb_parse_u64 = (\<lambda>_. Ok 3), wb_chunks = (\<lambda>_. [Ok [1, 2], Ok [3]])\<rparr>"

theorem chosen_daemon_is_available_witness:
  "\<exists>d before after. choose_beldex_daemon one_daemon BdxMainnet = Ok d \<and> bd_address d = ''nodex.monerujo.io'' \<and>
    BELDEX_DAEMONS = before @ d # after \<and> is_available one_daemon d = Ok True"
proof -
  let ?d = "beldex_daemon_new ''nodex.monerujo.io'' 18081 BdxMainnet"
  have chosen: "choose_beldex_daemon one_daemon BdxMainnet = Ok ?d"
    by (simp add: choose_beldex_daemon_def BELDEX_DAEMONS_def is_available_def one_daemon_def beldex_daemon_new_def
      decimal_text.simps char_of_def bit_iff_odd Let_def)
  then obtain before after where d: "BELDEX_DAEMONS = before @ ?d # after" "is_available one_daemon ?d = Ok True"
    using chosen_daemon_is_available by blast
  thus ?thesis using chosen d by (auto simp: beldex_daemon_new_def)
qed

section \<open>Installations\<close>

lemma write_chunks_Ok:
  assumes "write_chunks A p chunks fs = (Ok (), fs')" "fi_content fs p = Some c"
    and "\<And>bs. Ok bs \<in> set chunks \<Longrightarrow> at_write A bs = Ok (length bs)"
  shows "fi_content fs' p = Some (c @ concat (map (\<lambda>chunk. case chunk of Ok bs \<Rightarrow> bs | _ \<Rightarrow> []) chunks))"
  using assms
proof (induction chunks arbitrary: fs c)
  case (Cons chunk chunks)
  then obtain bs where bs: "chunk = Ok bs" "at_write A bs = Ok (length bs)"
    by (cases chunk) (auto simp: bindio_def lift_def)
  have "write_chunks A p chunks (append_bytes p bs fs) = (Ok (), fs')" using Cons.prems(1) bs by (simp add: bindio_def)
  from Cons.IH[OF this, of "c @ bs"] show ?case using Cons.prems(2,3) bs by simp
qed simp

definition unpacks :: "tar_entry outcome \<Rightarrow> bytes \<Rightarrow> bool" where
  "unpacks entry data \<longleftrightarrow> (\<exists>f name. entry = Ok f \<and> te_path f = Ok (Some name) \<and> contains_text name PACKED_FILE \<and> te_unpack f = (data, Ok ()))"

definition other_file :: "tar_entry outcome \<Rightarrow> bool" where
  "other_file entry \<longleftrightarrow> (\<exists>f name. entry = Ok f \<and> te_path f = Ok (Some name) \<and> \<not> contains_text name PACKED_FILE)"

lemma unpack_executable_Ok:
  "unpack_executable exec entries fs = (Ok (), fs') \<Longrightarrow> \<exists>before entry after data. entries = before @ entry # after \<and>
     unpacks entry data \<and> (\<forall>g\<in>set before. other_file g) \<and> fs' = fs\<lparr>fi_content := (fi_content fs)(exec := Some data)\<rparr>"
proof (induction entries)
  case (Cons entry entries)
  then obtain f name where f: "entry = Ok f" "te_path f = Ok (Some name)"
    by (auto simp: bindio_eq_Ok outcome_rules)
  show ?case
  proof (cases "contains_text name PACKED_FILE")
    case True
    hence "unpacks entry (fst (te_unpack f))" "fs' = fs\<lparr>fi_content := (fi_content fs)(exec := Some (fst (te_unpack f)))\<rparr>"
      using Cons.prems f by (auto simp: unpacks_def split: prod.splits)
    thus ?thesis by (metis append_Nil empty_iff list.set(1))
  next
    case False
    hence "other_file entry" "unpack_executable exec entries fs = (Ok (), fs')"
      using Cons.prems f by (auto simp: other_file_def)
    thus ?thesis using Cons.IH by (metis append_Cons set_ConsD)
  qed
qed simp

text \<open>
  an installation that succeeds on a directory without the executable leaves what the first matching entry of the
  downloaded archive unpacks to, and no archive, provided the disk takes each chunk whole.
\<close>

theorem installs_the_downloaded_executable:
  assumes "wallet_rpc_new D W A dir fs = (Ok dir', fs')" "\<not> path_exists fs (exec_path dir)"
    and "\<And>bs. at_write A bs = Ok (length bs)"
  shows "\<exists>response before entry after data. wb_get W DOWNLOAD_URL = Ok response \<and>
    at_entries A (concat (map (\<lambda>chunk. case chunk of Ok bs \<Rightarrow> bs | _ \<Rightarrow> []) (wb_chunks W response))) = Ok (before @ entry # after) \<and>
    (\<forall>g\<in>set before. other_file g) \<and> unpacks entry data \<and>
    fi_content fs' (exec_path dir) = Some data \<and> fi_content fs' (archive_path dir) = None"
proof -
  have neq: "exec_path dir \<noteq> archive_path dir" by (simp add: exec_path_def archive_path_def PACKED_FILE_def)
  obtain fs0 where dir: "(if path_exists fs dir then (Ok (), fs) else create_dir D dir fs) = (Ok (), fs0)"
    and rest: "bindio (\<lambda>fs. if path_exists fs (archive_path dir) then remove_file D (archive_path dir) fs else (Ok (), fs)) (\<lambda>_.
     bindio (\<lambda>fs. if path_exists fs (exec_path dir) then (Ok (), fs) else download_archive D W A dir fs) (\<lambda>_. ret dir)) fs0 = (Ok dir', fs')"
    using assms(1) by (auto simp: wallet_rpc_new_def bindio_eq_Ok)
  have absent: "\<not> path_exists fs0 (exec_path dir)"
    using dir assms(2) by (auto simp: create_dir_def syscall_effects path_exists_def exec_path_def split: if_splits)
  obtain fs1 where "(if path_exists fs0 (archive_path dir) then remove_file D (archive_path dir) fs0 else (Ok (), fs0)) = (Ok (), fs1)"
    and install: "bindio (\<lambda>fs. if path_exists fs (exec_path dir) then (Ok (), fs) else download_archive D W A dir fs) (\<lambda>_. ret dir) fs1 = (Ok dir', fs')"
    using rest by (auto simp: bindio_eq_Ok)
  hence "\<not> path_exists fs1 (exec_path dir)"
    using absent neq by (auto simp: remove_file_def syscall_effects path_exists_def split: if_splits)
  hence down: "download_archive D W A dir fs1 = (Ok (), fs')" using install by (auto simp: bindio_eq_Ok)
  obtain fs2 response fs3 where create: "create_new_file D (archive_path dir) fs1 = (Ok (), fs2)"
    and response: "wb_get W DOWNLOAD_URL = Ok response"
    and chunks: "write_chunks A (archive_path dir) (wb_chunks W response) fs2 = (Ok (), fs3)"
    and unpacked: "extract_archive D A dir fs3 = (Ok (), fs')"
    using down by (auto simp: download_archive_def bindio_eq_Ok)
  have "fi_content fs2 (archive_path dir) = Some []"
    using create by (auto simp: create_new_file_def create_file_def syscall_effects split: if_splits)
  note archive = write_chunks_Ok[OF chunks this, unfolded append_Nil, OF assms(3)]
  obtain entries fs4 where "at_entries A (concat (map (\<lambda>chunk. case chunk of Ok bs \<Rightarrow> bs | _ \<Rightarrow> []) (wb_chunks W response))) = Ok entries"
    and unpack: "unpack_executable (exec_path dir) entries fs3 = (Ok (), fs4)"
    and remove: "remove_file D (archive_path dir) fs4 = (Ok (), fs')"
    using unpacked archive by (auto simp: extract_archive_def bindio_eq_Ok read_file_def outcome_rules)
  thus ?thesis using unpack_executable_Ok[OF unpack] response neq
    by (fastforce simp: remove_file_def syscall_effects)
qed

definition sample_entry :: "string \<Rightarrow> bytes \<Rightarrow> unit outcome \<Rightarrow> tar_entry outcome" where
  "sample_entry name data r = Ok \<lparr>te_path = Ok (Some name), te_unpack = (data, r)\<rparr>"

definition sample_tools :: "unit outcome \<Rightarrow> archive_tools" where
  "sample_tools r = \<lparr>at_write = (\<lambda>bs. Ok (length bs)), at_flush = Ok (),
     at_entries = (\<lambda>bs. Ok [sample_entry ''beldex/README'' [] (Ok ()), sample_entry ''beldex/beldex-wallet-rpc'' (take 2 bs) r])\<rparr>"

lemmas installation_rules = wallet_rpc_new_def download_archive_def extract_archive_def path_exists_def create_dir_def
  create_new_file_def create_file_def syscall_def remove_file_def read_file_def good_disk_def append_bytes_def bindio_def ret_def lift_def

theorem installs_the_downloaded_executable_witness:
  "\<exists>fs'. wallet_rpc_new good_disk one_daemon (sample_tools (Ok ())) [''d''] no_files = (Ok [''d''], fs') \<and>
    (\<exists>data. fi_content fs' (exec_path [''d'']) = Some data) \<and> fi_content fs' (archive_path [''d'']) = None"
proof -
  have names: "contains_text ''beldex/beldex-wallet-rpc'' PACKED_FILE" "\<not> contains_text ''beldex/README'' PACKED_FILE" by code_simp+
  have neq: "exec_path dir \<noteq> archive_path dir" "archive_path dir \<noteq> dir" "exec_path dir \<noteq> dir" for dir
    by (simp_all add: exec_path_def archive_path_def PACKED_FILE_def)
  obtain fs' where run: "wallet_rpc_new good_disk one_daemon (sample_tools (Ok ())) [''d''] no_files = (Ok [''d''], fs')"
    using names neq neq[THEN not_sym] by (simp add: installation_rules no_files_def one_daemon_def sample_tools_def sample_entry_def)
  have "\<not> path_exists no_files (exec_path [''d''])" "\<And>bs. at_write (sample_tools (Ok ())) bs = Ok (length bs)"
    by (simp_all add: path_exists_def no_files_def sample_tools_def)
  thus ?thesis using installs_the_downloaded_executable[OF run] run by blast
qed

text \<open>
  an installation that fails while it unpacks leaves a part of the executable behind, and every later one takes that
  part for the executable: it reports success without asking for the archive again.
\<close>

theorem partial_executable_is_kept:
  assumes "fi_dirs fs = {dir}" "fi_content fs = (\<lambda>_. None)"
    and "wb_get W DOWNLOAD_URL = Ok response" "wb_content_length W response = Some (Ok h)" "wb_parse_u64 W h = Ok n"
    and "wb_chunks W response = [Ok bs]" "at_write A bs = Ok m" "at_flush A = Ok ()" "at_entries A (take m bs) = Ok (Ok f # es)"
    and "te_path f = Ok (Some name)" "contains_text name PACKED_FILE" "te_unpack f = (part, Err e)"
  shows "\<exists>fs' fs''. wallet_rpc_new good_disk W A dir fs = (Err e, fs') \<and>
    (\<forall>W' A'. wallet_rpc_new good_disk W' A' dir fs' = (Ok dir, fs'')) \<and> fi_content fs'' (exec_path dir) = Some part"
proof -
  have neq: "exec_path dir \<noteq> archive_path dir" "archive_path dir \<noteq> dir" "exec_path dir \<noteq> dir"
    by (simp_all add: exec_path_def archive_path_def PACKED_FILE_def)
  show ?thesis using assms neq neq[THEN not_sym] by (simp add: installation_rules)
qed

theorem partial_executable_is_kept_witness:
  "\<exists>fs' fs''. wallet_rpc_new good_disk (one_daemon\<lparr>wb_chunks := \<lambda>_. [Ok [1, 2]]\<rparr>) 
      \<lparr>at_write = (\<lambda>bs. Ok (length bs)), at_flush = Ok (), at_entries = (\<lambda>bs. Ok [sample_entry ''beldex-wallet-rpc'' [1] (Err (Msg ''disk full''))])\<rparr>
      [''d''] (no_files\<lparr>fi_dirs := {[''d'']}\<rparr>) = (Err (Msg ''disk full''), fs') \<and>
    (\<forall>W' A'. wallet_rpc_new good_disk (W' :: string web) A' [''d''] fs' = (Ok [''d''], fs'')) \<and> fi_content fs'' (exec_path [''d'']) = Some [1]"
proof -
  have "contains_text ''beldex-wallet-rpc'' PACKED_FILE" by code_simp
  thus ?thesis by (intro partial_executable_is_kept[where f = "\<lparr>te_path = Ok (Some ''beldex-wallet-rpc''), te_unpack = ([1], Err (Msg ''disk full''))\<rparr>"])
      (simp_all add: no_files_def one_daemon_def sample_entry_def)
qed

end
