(* ===== verification/Cli_Main.thy ===== *)
theory Cli_Main
  imports Api_Requests Rendezvous Beldex_Wallet Seed Wallet_Process
begin

text \<open>
  Starting the CLI: \<open>cli/command.rs\<close>, \<open>ContextBuilder\<close> and \<open>Context\<close> of \<open>cli/api.rs\<close> and \<open>main\<close> of \<open>bin/swap.rs\<close>. The
  command line that \<open>clap\<close> has parsed is an argument. The world has the files of \<open>Files\<close>, on which the seed and the
  wallet server are those of \<open>Seed\<close> and \<open>Wallet_Process\<close>; the rest of the surroundings is the record \<open>cli_host\<close>.
\<close>

section \<open>The command line\<close>

definition DEFAULT_BELDEX_DAEMON_ADDRESS :: string where
  "DEFAULT_BELDEX_DAEMON_ADDRESS = ''http://127.0.0.1:29091''"

definition DEFAULT_BELDEX_DAEMON_ADDRESS_STAGENET :: string where
  "DEFAULT_BELDEX_DAEMON_ADDRESS_STAGENET = ''http://127.0.0.1:29091''"

definition DEFAULT_ELECTRUM_RPC_URL :: string where
  "DEFAULT_ELECTRUM_RPC_URL = ''ssl://blockstream.info:700''"

definition DEFAULT_ELECTRUM_RPC_URL_TESTNET :: string where
  "DEFAULT_ELECTRUM_RPC_URL_TESTNET = ''ssl://electrum.blockstream.info:60002''"

definition DEFAULT_BITCOIN_CONFIRMATION_TARGET :: nat where
  "DEFAULT_BITCOIN_CONFIRMATION_TARGET = 1"

definition DEFAULT_BITCOIN_CONFIRMATION_TARGET_TESTNET :: nat where
  "DEFAULT_BITCOIN_CONFIRMATION_TARGET_TESTNET = 2"

record cli_beldex =
  cm_beldex_daemon_address :: "string option"

record cli_bitcoin =
  cm_bitcoin_electrum_rpc_url :: "string option"
  cm_bitcoin_target_block :: "nat option"

record cli_tor =
  cm_tor_socks5_port :: nat

definition beldex_apply_defaults :: "cli_beldex \<Rightarrow> bool \<Rightarrow> string" where
  "beldex_apply_defaults beldex testnet = (case cm_beldex_daemon_address beldex of
     Some address \<Rightarrow> address
   | None \<Rightarrow> if testnet then DEFAULT_BELDEX_DAEMON_ADDRESS_STAGENET else DEFAULT_BELDEX_DAEMON_ADDRESS)"

definition bitcoin_apply_defaults :: "system \<Rightarrow> cli_bitcoin \<Rightarrow> bool \<Rightarrow> (string \<times> nat) outcome" where
  "bitcoin_apply_defaults S bitcoin testnet =
     obind (case cm_bitcoin_electrum_rpc_url bitcoin of
         Some url \<Rightarrow> Ok url
       | None \<Rightarrow> if testnet then sy_url S DEFAULT_ELECTRUM_RPC_URL_TESTNET else sy_url S DEFAULT_ELECTRUM_RPC_URL) (\<lambda>bitcoin_electrum_rpc_url.
     let bitcoin_target_block = (case cm_bitcoin_target_block bitcoin of
         Some target_block \<Rightarrow> target_block
       | None \<Rightarrow> if testnet then DEFAULT_BITCOIN_CONFIRMATION_TARGET_TESTNET else DEFAULT_BITCOIN_CONFIRMATION_TARGET) in
     Ok (bitcoin_electrum_rpc_url, bitcoin_target_block))"

datatype cli_command =
    CliBuyBeldex multiaddr cli_bitcoin address cli_beldex bdx_address cli_tor "btc_amount option"
  | CliHistory
  | CliLogs "path option" bool "uuid option"
  | CliConfig
  | CliWithdrawBtc cli_bitcoin "btc_amount option" address
  | CliBalance cli_bitcoin
  | CliStartDaemon cli_bitcoin cli_beldex "string option" cli_tor
  | CliResume uuid cli_bitcoin cli_beldex cli_tor
  | CliCancelAndRefund uuid cli_bitcoin cli_tor
  | CliListSellers multiaddr cli_tor
  | CliExportBitcoinWallet cli_bitcoin
  | CliBeldexRecovery uuid

record cli_arguments =
  cg_testnet :: bool
  cg_data :: "path option"
  cg_debug :: bool
  cg_json :: bool
  cg_cmd :: cli_command

section \<open>The context\<close>

record context_builder =
  cb_beldex :: "cli_beldex option"
  cb_bitcoin :: "cli_bitcoin option"
  cb_tor :: "cli_tor option"
  cb_data :: "path option"
  cb_is_testnet :: bool
  cb_debug :: bool
  cb_json :: bool

definition builder_mainnet :: context_builder where
  "builder_mainnet = \<lparr>cb_beldex = None, cb_bitcoin = None, cb_tor = None, cb_data = None, cb_is_testnet = False,
     cb_debug = False, cb_json = False\<rparr>"

definition builder_testnet :: context_builder where
  "builder_testnet = builder_mainnet\<lparr>cb_is_testnet := True\<rparr>"

definition builder_new :: "bool \<Rightarrow> context_builder" where
  "builder_new is_testnet = (if is_testnet then builder_testnet else builder_mainnet)"

definition with_beldex :: "cli_beldex \<Rightarrow> context_builder \<Rightarrow> context_builder" where
  "with_beldex beldex b = b\<lparr>cb_beldex := Some beldex\<rparr>"

definition with_bitcoin :: "cli_bitcoin \<Rightarrow> context_builder \<Rightarrow> context_builder" where
  "with_bitcoin bitcoin b = b\<lparr>cb_bitcoin := Some bitcoin\<rparr>"

definition with_tor :: "cli_tor \<Rightarrow> context_builder \<Rightarrow> context_builder" where
  "with_tor tor b = b\<lparr>cb_tor := Some tor\<rparr>"

definition with_data_dir :: "path option \<Rightarrow> context_builder \<Rightarrow> context_builder" where
  "with_data_dir data b = b\<lparr>cb_data := data\<rparr>"

definition with_debug :: "bool \<Rightarrow> context_builder \<Rightarrow> context_builder" where
  "with_debug debug b = b\<lparr>cb_debug := debug\<rparr>"

definition with_json :: "bool \<Rightarrow> context_builder \<Rightarrow> context_builder" where
  "with_json json b = b\<lparr>cb_json := json\<rparr>"

record cli_config =
  co_tor_socks5_port :: nat
  co_namespace :: beldex_btc_namespace
  co_env_config :: config
  co_seed :: "seed option"
  co_debug :: bool
  co_json :: bool
  co_data_dir :: path
  co_is_testnet :: bool

text \<open>The swap lock of a new context is free, and no task is pending.\<close>

record 'w cli_context =
  cn_bitcoin_wallet :: "'w open_wallet option"
  cn_beldex_wallet :: "('w wallet_rpc \<times> bdx_wallet) option"
  cn_beldex_rpc_process :: "wallet_rpc_process option"
  cn_config :: cli_config
  cn_current_swap :: "uuid option"

datatype cli_request =
    ReqBuyBeldex multiaddr address bdx_address "btc_amount option"
  | ReqHistory
  | ReqLogs "path option" bool "uuid option"
  | ReqConfig
  | ReqBalance bool
  | ReqStartDaemon "string option"
  | ReqWithdrawBtc "btc_amount option" address
  | ReqResumeSwap uuid
  | ReqCancelAndRefund uuid
  | ReqListSellers multiaddr
  | ReqExportBitcoinWallet
  | ReqBeldexRecovery uuid

text \<open>
  The surroundings: the operating system and the web for \<open>Seed\<close> and \<open>Wallet_Process\<close>, opening the wallets and the
  database, the requests other than those of \<open>Api_Requests\<close> that use only a wallet, waiting for the pending tasks,
  and killing the wallet server.
\<close>

record ('v, 'r) cli_host =
  ch_system :: system
  ch_disk :: disk
  ch_seed_lib :: seed_lib
  ch_web :: "'r web"
  ch_tools :: archive_tools
  ch_process :: process_host
  ch_open_bitcoin :: "string \<Rightarrow> path \<Rightarrow> nat \<Rightarrow> config \<Rightarrow> nat \<Rightarrow> (files \<times> 'v, (files \<times> 'v) open_wallet) io"
  ch_client :: "string \<Rightarrow> (files \<times> 'v) wallet_rpc outcome"
  ch_text :: bdx_text
  ch_open_db :: "path \<Rightarrow> (files \<times> 'v, unit) io"
  ch_request :: "(files \<times> 'v) cli_context \<Rightarrow> cli_request \<Rightarrow> (files \<times> 'v, unit) io"
  ch_wait_for_tasks :: "(files \<times> 'v, unit) io"
  ch_kill :: "wallet_rpc_process \<Rightarrow> (files \<times> 'v, unit) io"

definition on_files :: "'a file_io \<Rightarrow> (files \<times> 'v, 'a) io" where
  "on_files m = (\<lambda>(fs, v). case m fs of (r, fs) \<Rightarrow> (r, (fs, v)))"

definition data_dir_from :: "system \<Rightarrow> path option \<Rightarrow> bool \<Rightarrow> path outcome" where
  "data_dir_from S arg_dir testnet =
     obind (case arg_dir of
         Some custom_base_dir \<Rightarrow> Ok custom_base_dir
       | None \<Rightarrow> omap (\<lambda>dir. path_join dir ''cli'') (system_data_dir S)) (\<lambda>base_dir.
     let sub_directory = (if testnet then ''testnet'' else ''mainnet'') in
     Ok (path_join base_dir sub_directory))"

definition env_config_from :: "bool \<Rightarrow> config" where
  "env_config_from testnet = (if testnet then testnet_config else mainnet_config)"

definition cli_init_bitcoin_wallet ::
  "('v, 'r) cli_host \<Rightarrow> string \<Rightarrow> seed \<Rightarrow> path \<Rightarrow> config \<Rightarrow> nat \<Rightarrow> (files \<times> 'v, (files \<times> 'v) open_wallet) io" where
  "cli_init_bitcoin_wallet H electrum_rpc_url seed data_dir env_config bitcoin_target_block =
     (let wallet_dir = path_join data_dir ''wallet'' in
      bindio (lift (derive_extended_private_key (ch_seed_lib H) seed (bitcoin_network env_config))) (\<lambda>key.
      bindio (context_io ''Failed to initialize Bitcoin wallet''
        (ch_open_bitcoin H electrum_rpc_url wallet_dir key env_config bitcoin_target_block)) (\<lambda>wallet.
      bindio (wallet_sync (ow_bdk wallet)) (\<lambda>_.
      ret wallet))))"

definition cli_init_beldex_wallet ::
  "('v, 'r) cli_host \<Rightarrow> path \<Rightarrow> string \<Rightarrow> config \<Rightarrow> (files \<times> 'v, ((files \<times> 'v) wallet_rpc \<times> bdx_wallet) \<times> wallet_rpc_process) io" where
  "cli_init_beldex_wallet H data_dir beldex_daemon_address env_config =
     (let network = beldex_network env_config in
      bindio (on_files (wallet_rpc_new (ch_disk H) (ch_web H) (ch_tools H) (path_join data_dir ''beldex''))) (\<lambda>beldex_wallet_rpc.
      bindio (lift (wallet_rpc_run (ch_web H) (ch_process H) beldex_wallet_rpc network (Some beldex_daemon_address))) (\<lambda>process.
      bindio (lift (endpoint (ch_system H) process)) (\<lambda>url.
      bindio (lift (ch_client H url)) (\<lambda>client.
      bindio (wallet_open_or_create (ch_text H) client ''swap-tool-blockchain-monitoring-wallet'' env_config) (\<lambda>beldex_wallet.
      ret ((client, beldex_wallet), process)))))))"

definition build_bitcoin ::
  "('v, 'r) cli_host \<Rightarrow> context_builder \<Rightarrow> seed \<Rightarrow> path \<Rightarrow> config \<Rightarrow> (files \<times> 'v, (files \<times> 'v) open_wallet option) io" where
  "build_bitcoin H b seed data_dir env_config = (case cb_bitcoin b of
     Some bitcoin \<Rightarrow>
       bindio (lift (bitcoin_apply_defaults (ch_system H) bitcoin (cb_is_testnet b))) (\<lambda>(bitcoin_electrum_rpc_url, bitcoin_target_block).
       bindio (cli_init_bitcoin_wallet H bitcoin_electrum_rpc_url seed data_dir env_config bitcoin_target_block) (\<lambda>wallet.
       ret (Some wallet)))
   | None \<Rightarrow> ret None)"

definition build_beldex ::
  "('v, 'r) cli_host \<Rightarrow> context_builder \<Rightarrow> path \<Rightarrow> config \<Rightarrow>
   (files \<times> 'v, ((files \<times> 'v) wallet_rpc \<times> bdx_wallet) option \<times> wallet_rpc_process option) io" where
  "build_beldex H b data_dir env_config = (case cb_beldex b of
     Some beldex \<Rightarrow>
       let beldex_daemon_address = beldex_apply_defaults beldex (cb_is_testnet b) in
       bindio (cli_init_beldex_wallet H data_dir beldex_daemon_address env_config) (\<lambda>(wlt, prc).
       ret (Some wlt, Some prc))
   | None \<Rightarrow> ret (None, None))"

text \<open>\<open>build\<close>; setting up the logging, whose failure is ignored, is not modelled.\<close>

definition build_context :: "('v, 'r) cli_host \<Rightarrow> context_builder \<Rightarrow> (files \<times> 'v, (files \<times> 'v) cli_context) io" where
  "build_context H b =
     bindio (lift (data_dir_from (ch_system H) (cb_data b) (cb_is_testnet b))) (\<lambda>data_dir.
     let env_config = env_config_from (cb_is_testnet b) in
     bindio (context_io ''Failed to read seed in file'' (on_files (from_file_or_generate (ch_disk H) (ch_seed_lib H) data_dir))) (\<lambda>seed.
     bindio (build_bitcoin H b seed data_dir env_config) (\<lambda>bitcoin_wallet.
     bindio (build_beldex H b data_dir env_config) (\<lambda>(beldex_wallet, beldex_rpc_process).
     bindio (ch_open_db H (path_join data_dir ''sqlite'')) (\<lambda>_.
     let tor_socks5_port = (case cb_tor b of Some tor \<Rightarrow> cm_tor_socks5_port tor | None \<Rightarrow> 9050) in
     ret \<lparr>cn_bitcoin_wallet = bitcoin_wallet, cn_beldex_wallet = beldex_wallet, cn_beldex_rpc_process = beldex_rpc_process,
          cn_config = \<lparr>co_tor_socks5_port = tor_socks5_port, co_namespace = namespace_from_is_testnet (cb_is_testnet b),
            co_env_config = env_config, co_seed = Some seed, co_debug = cb_debug b, co_json = cb_json b,
            co_data_dir = data_dir, co_is_testnet = cb_is_testnet b\<rparr>,
          cn_current_swap = None\<rparr>)))))"

definition context_cleanup :: "('v, 'r) cli_host \<Rightarrow> (files \<times> 'v) cli_context \<Rightarrow> (files \<times> 'v, unit) io" where
  "context_cleanup H c = (case cn_beldex_rpc_process c of Some process \<Rightarrow> ch_kill H process | None \<Rightarrow> ret ())"

section \<open>Requests and main\<close>

text \<open>The arguments of the request of a command, and the builder of its context.\<close>

definition cli_request_of :: "bool \<Rightarrow> cli_command \<Rightarrow> cli_request outcome" where
  "cli_request_of is_testnet cmd = (case cmd of
     CliBuyBeldex seller bitcoin bitcoin_change_address beldex beldex_receive_address tor amount \<Rightarrow>
       obind (bdx_address_validate_is_testnet beldex_receive_address is_testnet) (\<lambda>beldex_receive_address.
       obind (address_validate_is_testnet bitcoin_change_address is_testnet) (\<lambda>bitcoin_change_address.
       Ok (ReqBuyBeldex seller bitcoin_change_address beldex_receive_address amount)))
   | CliHistory \<Rightarrow> Ok ReqHistory
   | CliLogs logs_dir redact swap_id \<Rightarrow> Ok (ReqLogs logs_dir redact swap_id)
   | CliConfig \<Rightarrow> Ok ReqConfig
   | CliBalance bitcoin \<Rightarrow> Ok (ReqBalance True)
   | CliStartDaemon bitcoin beldex server_address tor \<Rightarrow> Ok (ReqStartDaemon server_address)
   | CliWithdrawBtc bitcoin amount address \<Rightarrow>
       obind (address_validate_is_testnet address is_testnet) (\<lambda>address. Ok (ReqWithdrawBtc amount address))
   | CliResume swap_id bitcoin beldex tor \<Rightarrow> Ok (ReqResumeSwap swap_id)
   | CliCancelAndRefund swap_id bitcoin tor \<Rightarrow> Ok (ReqCancelAndRefund swap_id)
   | CliListSellers rendezvous_point tor \<Rightarrow> Ok (ReqListSellers rendezvous_point)
   | CliExportBitcoinWallet bitcoin \<Rightarrow> Ok ReqExportBitcoinWallet
   | CliBeldexRecovery swap_id \<Rightarrow> Ok (ReqBeldexRecovery swap_id))"

definition cli_parts :: "cli_command \<Rightarrow> context_builder \<Rightarrow> context_builder" where
  "cli_parts cmd b = (case cmd of
     CliBuyBeldex _ bitcoin _ beldex _ tor _ \<Rightarrow> with_tor tor (with_beldex beldex (with_bitcoin bitcoin b))
   | CliHistory \<Rightarrow> b
   | CliLogs _ _ _ \<Rightarrow> b
   | CliConfig \<Rightarrow> b
   | CliBalance bitcoin \<Rightarrow> with_bitcoin bitcoin b
   | CliStartDaemon bitcoin beldex _ tor \<Rightarrow> with_tor tor (with_beldex beldex (with_bitcoin bitcoin b))
   | CliWithdrawBtc bitcoin _ _ \<Rightarrow> with_bitcoin bitcoin b
   | CliResume _ bitcoin beldex tor \<Rightarrow> with_tor tor (with_beldex beldex (with_bitcoin bitcoin b))
   | CliCancelAndRefund _ bitcoin tor \<Rightarrow> with_tor tor (with_bitcoin bitcoin b)
   | CliListSellers _ tor \<Rightarrow> with_tor tor b
   | CliExportBitcoinWallet bitcoin \<Rightarrow> with_bitcoin bitcoin b
   | CliBeldexRecovery _ \<Rightarrow> b)"

definition cli_builder :: "cli_arguments \<Rightarrow> context_builder" where
  "cli_builder args = with_json (cg_json args) (with_debug (cg_debug args) (with_data_dir (cg_data args)
     (cli_parts (cg_cmd args) (builder_new (cg_testnet args)))))"

definition run_request :: "lib \<Rightarrow> ('v, 'r) cli_host \<Rightarrow> (files \<times> 'v) cli_context \<Rightarrow> cli_request \<Rightarrow> (files \<times> 'v, unit) io" where
  "run_request L H c req = (case req of
     ReqWithdrawBtc amount address \<Rightarrow> bindio (withdraw_btc L (cn_bitcoin_wallet c) address amount) (\<lambda>_. ret ())
   | ReqBalance force_refresh \<Rightarrow> bindio (request_balance (cn_bitcoin_wallet c) force_refresh) (\<lambda>_. ret ())
   | _ \<Rightarrow> ch_request H c req)"

datatype 'w parse_result = Success "'w cli_context" | PrintAndExitZero string

text \<open>\<open>raw\<close> is what \<open>clap\<close> makes of the command line: arguments, or a text to print.\<close>

definition parse_args_and_apply_defaults ::
  "lib \<Rightarrow> ('v, 'r) cli_host \<Rightarrow> (string + cli_arguments) outcome \<Rightarrow> (files \<times> 'v, (files \<times> 'v) parse_result) io" where
  "parse_args_and_apply_defaults L H raw =
     bindio (lift raw) (\<lambda>parsed. case parsed of
       Inl message \<Rightarrow> ret (PrintAndExitZero message)
     | Inr args \<Rightarrow>
         bindio (lift (cli_request_of (cg_testnet args) (cg_cmd args))) (\<lambda>request.
         bindio (build_context H (cli_builder args)) (\<lambda>c.
         bindio (run_request L H c request) (\<lambda>_.
         ret (Success c)))))"

definition cli_main :: "lib \<Rightarrow> ('v, 'r) cli_host \<Rightarrow> (string + cli_arguments) outcome \<Rightarrow> (files \<times> 'v, string option) io" where
  "cli_main L H raw =
     bindio (parse_args_and_apply_defaults L H raw) (\<lambda>result. case result of
       Success c \<Rightarrow> bindio (ch_wait_for_tasks H) (\<lambda>_. ret None)
     | PrintAndExitZero message \<Rightarrow> ret (Some message))"

end
