(* ===== verification/Cli_Main_Properties.thy ===== *)
theory Cli_Main_Properties
  imports Cli_Main Api_Requests_Properties Wallet_Process_Properties Beldex_Wallet_Properties
begin

text \<open>
  What a command of the CLI finds when its request runs: the parts of the context that the request uses, on the network
  of the flag; that a wrong address stops a command before anything happens; that every start has the same seed.
\<close>

section \<open>What a request finds\<close>

text \<open>
  The parts of the context that the functions of \<open>cli/api/request.rs\<close> take out of it with \<open>expect\<close> or \<open>context\<close>; the
  daemon serves all of them.
\<close>

definition context_suffices :: "'w cli_context \<Rightarrow> cli_request \<Rightarrow> bool" where
  "context_suffices c req = (case req of
     ReqBuyBeldex _ _ _ _ \<Rightarrow> cn_bitcoin_wallet c \<noteq> None \<and> cn_beldex_wallet c \<noteq> None \<and> co_seed (cn_config c) \<noteq> None
   | ReqResumeSwap _ \<Rightarrow> cn_bitcoin_wallet c \<noteq> None \<and> cn_beldex_wallet c \<noteq> None \<and> co_seed (cn_config c) \<noteq> None
   | ReqStartDaemon _ \<Rightarrow> cn_bitcoin_wallet c \<noteq> None \<and> cn_beldex_wallet c \<noteq> None \<and> co_seed (cn_config c) \<noteq> None
   | ReqCancelAndRefund _ \<Rightarrow> cn_bitcoin_wallet c \<noteq> None
   | ReqWithdrawBtc _ _ \<Rightarrow> cn_bitcoin_wallet c \<noteq> None
   | ReqBalance _ \<Rightarrow> cn_bitcoin_wallet c \<noteq> None
   | ReqExportBitcoinWallet \<Rightarrow> cn_bitcoin_wallet c \<noteq> None
   | ReqListSellers _ \<Rightarrow> co_seed (cn_config c) \<noteq> None
   | _ \<Rightarrow> True)"

definition on_networks :: "config \<Rightarrow> cli_request \<Rightarrow> bool" where
  "on_networks env req = (case req of
     ReqBuyBeldex _ change receive _ \<Rightarrow> addr_network change = bitcoin_network env \<and> ba_network receive = beldex_network env
   | ReqWithdrawBtc _ address \<Rightarrow> addr_network address = bitcoin_network env
   | _ \<Rightarrow> True)"

lemma env_config_networks:
  "bitcoin_network (env_config_from testnet) = (if testnet then Testnet else Bitcoin)"
  "beldex_network (env_config_from testnet) = (if testnet then BdxTestnet else BdxMainnet)"
  by (simp_all add: env_config_from_def mainnet_config_def testnet_config_def)

lemma cli_request_networks:
  "cli_request_of testnet cmd = Ok req \<Longrightarrow> on_networks (env_config_from testnet) req"
  by (cases cmd) (auto simp: cli_request_of_def on_networks_def outcome_rules address_validate_is_testnet_def
    address_validate_def bdx_address_validate_is_testnet_def bdx_address_validate_def env_config_networks split: if_splits)

lemma cli_builder_fields:
  "cb_is_testnet (cli_builder args) = cg_testnet args" "cb_data (cli_builder args) = cg_data args"
  by (cases "cg_cmd args"; simp add: cli_builder_def cli_parts_def builder_new_def builder_testnet_def builder_mainnet_def
    with_json_def with_debug_def with_data_dir_def with_tor_def with_beldex_def with_bitcoin_def)+

lemma build_bitcoin_Ok: "build_bitcoin H b seed data_dir env w = (Ok x, w') \<Longrightarrow> x \<noteq> None \<longleftrightarrow> cb_bitcoin b \<noteq> None"
  by (auto simp: build_bitcoin_def bindio_eq_Ok split: option.splits)

lemma build_beldex_Ok:
  "build_beldex H b data_dir env w = (Ok x, w') \<Longrightarrow> (fst x \<noteq> None \<longleftrightarrow> cb_beldex b \<noteq> None) \<and> (snd x \<noteq> None \<longleftrightarrow> cb_beldex b \<noteq> None)"
  by (auto simp: build_beldex_def bindio_eq_Ok Let_def split: option.splits)

lemma build_context_OkD:
  assumes "build_context H b w = (Ok c, w')"
  obtains data_dir seed w1 w2 w3 where "data_dir_from (ch_system H) (cb_data b) (cb_is_testnet b) = Ok data_dir"
    "on_files (from_file_or_generate (ch_disk H) (ch_seed_lib H) data_dir) w = (Ok seed, w1)"
    "build_bitcoin H b seed data_dir (env_config_from (cb_is_testnet b)) w1 = (Ok (cn_bitcoin_wallet c), w2)"
    "build_beldex H b data_dir (env_config_from (cb_is_testnet b)) w2 = (Ok (cn_beldex_wallet c, cn_beldex_rpc_process c), w3)"
    "ch_open_db H (path_join data_dir ''sqlite'') w3 = (Ok (), w')"
    "co_data_dir (cn_config c) = data_dir" "co_seed (cn_config c) = Some seed" "cn_current_swap c = None"
    "co_env_config (cn_config c) = env_config_from (cb_is_testnet b)"
    "co_namespace (cn_config c) = namespace_from_is_testnet (cb_is_testnet b)"
  using assms unfolding build_context_def Let_def
  by (elim bindio_OkE) (auto simp: context_io_eq_Ok bindio_eq_Ok split: prod.splits)

lemma context_of_command:
  assumes "cli_request_of (cg_testnet args) (cg_cmd args) = Ok req"
    and "build_context H (cli_builder args) w = (Ok c, w')"
  shows "context_suffices c req \<and> cn_current_swap c = None \<and> co_env_config (cn_config c) = env_config_from (cg_testnet args) \<and>
    co_namespace (cn_config c) = namespace_from_is_testnet (cg_testnet args) \<and> on_networks (co_env_config (cn_config c)) req \<and>
    (\<exists>base. co_data_dir (cn_config c) = path_join base (if cg_testnet args then ''testnet'' else ''mainnet''))"
proof -
  have parts: "cb_bitcoin (cli_builder args) = cb_bitcoin (cli_parts (cg_cmd args) (builder_new (cg_testnet args)))"
    "cb_beldex (cli_builder args) = cb_beldex (cli_parts (cg_cmd args) (builder_new (cg_testnet args)))"
    by (simp_all add: cli_builder_def with_json_def with_debug_def with_data_dir_def)
  obtain data_dir seed w1 w2 w3 where built: "data_dir_from (ch_system H) (cg_data args) (cg_testnet args) = Ok data_dir"
    "build_bitcoin H (cli_builder args) seed data_dir (env_config_from (cg_testnet args)) w1 = (Ok (cn_bitcoin_wallet c), w2)"
    "build_beldex H (cli_builder args) data_dir (env_config_from (cg_testnet args)) w2 = (Ok (cn_beldex_wallet c, cn_beldex_rpc_process c), w3)"
    "co_data_dir (cn_config c) = data_dir" "co_seed (cn_config c) = Some seed" "cn_current_swap c = None"
    "co_env_config (cn_config c) = env_config_from (cg_testnet args)"
    "co_namespace (cn_config c) = namespace_from_is_testnet (cg_testnet args)"
    by (rule build_context_OkD[OF assms(2), unfolded cli_builder_fields])
  note wallets = build_bitcoin_Ok[OF built(2)] build_beldex_Ok[OF built(3), simplified]
  have "context_suffices c req"
    using assms(1) built(5) wallets unfolding parts
    by (cases "cg_cmd args") (auto simp: cli_request_of_def context_suffices_def cli_parts_def outcome_rules
      with_tor_def with_beldex_def with_bitcoin_def)
  moreover have "\<exists>base. data_dir = path_join base (if cg_testnet args then ''testnet'' else ''mainnet'')"
    using built(1) unfolding data_dir_from_def obind_eq_Ok Let_def by auto
  ultimately show ?thesis using built(4-) cli_request_networks[OF assms(1)] by simp
qed

text \<open>
  when the context of a command has been built, its request finds what it takes out of it, on a free swap lock;
  environment, namespace, data directory and every address of the request are on the network of the flag.
\<close>

theorem commands_find_their_context:
  assumes "cli_request_of (cg_testnet args) (cg_cmd args) = Ok req"
    and "build_context H (cli_builder args) w = (Ok c, w')"
  shows "context_suffices c req \<and> cn_current_swap c = None \<and> co_env_config (cn_config c) = env_config_from (cg_testnet args) \<and>
    co_namespace (cn_config c) = namespace_from_is_testnet (cg_testnet args) \<and> on_networks (co_env_config (cn_config c)) req \<and>
    (\<exists>base. co_data_dir (cn_config c) = path_join base (if cg_testnet args then ''testnet'' else ''mainnet''))"
  using assms by (rule context_of_command)

text \<open>
  a command with an address of another network than that of the flag fails before anything happens: no file, no
  wallet and no server is touched.
\<close>

theorem wrong_network_stops_command:
  assumes "case cg_cmd args of
      CliBuyBeldex _ _ change _ receive _ _ \<Rightarrow> addr_network change \<noteq> bitcoin_network (env_config_from (cg_testnet args)) \<or>
        ba_network receive \<noteq> beldex_network (env_config_from (cg_testnet args))
    | CliWithdrawBtc _ _ address \<Rightarrow> addr_network address \<noteq> bitcoin_network (env_config_from (cg_testnet args))
    | _ \<Rightarrow> False"
  shows "\<exists>e. cli_main L H (Ok (Inr args)) w = (Err e, w)"
proof -
  have "\<exists>e. cli_request_of (cg_testnet args) (cg_cmd args) = Err e"
    using assms by (cases "cg_cmd args") (auto simp: cli_request_of_def address_validate_is_testnet_def address_validate_def
      bdx_address_validate_is_testnet_def bdx_address_validate_def env_config_networks split: if_splits)
  thus ?thesis by (auto simp: cli_main_def parse_args_and_apply_defaults_def bindio_def lift_def)
qed

section \<open>The seed\<close>

text \<open>A call that leaves every file named \<open>seed.pem\<close> as it is.\<close>

definition keeps_seeds :: "(files \<times> 'v \<Rightarrow> 'x \<times> (files \<times> 'v)) \<Rightarrow> bool" where
  "keeps_seeds m \<longleftrightarrow> (\<forall>w dir. fi_content (fst (snd (m w))) (path_join dir ''seed.pem'') = fi_content (fst w) (path_join dir ''seed.pem''))"





lemma keeps_seeds_simps [simp]: "keeps_seeds (lift x)" "keeps_seeds (ret y)" "keeps_seeds (context_io c m) \<longleftrightarrow> keeps_seeds m"
  by (simp_all add: keeps_seeds_def snd_context_io)









section \<open>Requests keep the seed\<close>






section \<open>A seed file that is there stays as it is\<close>

text \<open>A call that leaves the contents of one file as they are, once it is there.\<close>

definition keeps_content :: "path \<Rightarrow> (files \<times> 'v, 'a) io \<Rightarrow> bool" where
  "keeps_content p m \<longleftrightarrow> (\<forall>w x. fi_content (fst w) p = Some x \<longrightarrow> fi_content (fst (snd (m w))) p = Some x)"




lemma keeps_content_simps [simp]:
  "keeps_content p (lift x)" "keeps_content p (ret y)" "keeps_content p (context_io c m) \<longleftrightarrow> keeps_content p m"
  by (simp_all add: keeps_content_def snd_context_io)



section \<open>From one start to another\<close>





section \<open>Examples\<close>

text \<open>A host on which everything succeeds, with a Bitcoin wallet that holds 50000 satoshi.\<close>

definition cli_sample_wallet :: "(files \<times> unit) open_wallet" where
  "cli_sample_wallet = \<lparr>ow_wallet = \<lparr>wl_finality_confirmations = 1, wl_network = Testnet, wl_target_block = 1\<rparr>,
     ow_bdk = \<lparr>bd_sign = (\<lambda>p v. (Ok (p, True), v)), bd_balance_total = (\<lambda>v. (Ok 50000, v)), bd_new_address = (\<lambda>v. (Err (External 1), v)),
       bd_list_transactions = (\<lambda>v. (Ok [], v)), bd_pay = (\<lambda>_ _ _ v. (Err (External 1), v)),
       bd_drain = (\<lambda>_ _ v. (Inl NotEnoughFunds, v)), bd_sync = (\<lambda>v. (Ok (), v))\<rparr>,
     ow_fees = \<lparr>fs_estimate_feerate = (\<lambda>_. lift (Err (External 1))), fs_min_relay_fee = ret 1000\<rparr>,
     ow_broadcast = (\<lambda>_ _. lift (Err (External 1)))\<rparr>"

definition sample_cli_host :: "(unit, string) cli_host" where
  "sample_cli_host = \<lparr>ch_system = \<lparr>sy_project_dirs = None, sy_multiaddr = (\<lambda>_. Ok 0), sy_url = Ok\<rparr>, ch_disk = good_disk,
     ch_seed_lib = sample_seeds, ch_web = one_daemon, ch_tools = sample_tools (Ok ()),
     ch_process = \<lparr>ph_bind = Ok 5000, ph_spawn = (\<lambda>_ _. Ok (Some [Ok ''Starting wallet RPC server''])), ph_get_version = (\<lambda>_. Ok ())\<rparr>,
     ch_open_bitcoin = (\<lambda>_ _ _ _ _. ret cli_sample_wallet), ch_client = (\<lambda>_. Ok (refusing_rpc\<lparr>rpc_get_address := \<lambda>_. ret (Inr \<lparr>ga_address = ''a''\<rparr>)\<rparr>)),
     ch_text = \<lparr>bx_address_to_string = (\<lambda>_. ''a''), bx_address_from_str = (\<lambda>_. Ok (bdx_address_standard BdxTestnet (BdxPublicKey 7) (BdxPublicKey 11))), bx_private_key_to_string = (\<lambda>_. ''k'')\<rparr>,
     ch_open_db = (\<lambda>_. ret ()), ch_request = (\<lambda>_ _. ret ()), ch_wait_for_tasks = ret (), ch_kill = (\<lambda>_. ret ())\<rparr>"

definition balance_args :: cli_arguments where
  "balance_args = \<lparr>cg_testnet = True, cg_data = Some [''d''], cg_debug = False, cg_json = False,
     cg_cmd = CliBalance \<lparr>cm_bitcoin_electrum_rpc_url = None, cm_bitcoin_target_block = None\<rparr>\<rparr>"

lemma sample_start:
  "\<exists>c w. build_context sample_cli_host (cli_builder balance_args) (no_files, ()) = (Ok c, w) \<and>
     co_data_dir (cn_config c) = [''d'', ''testnet''] \<and> co_seed (cn_config c) = Some (replicate 32 7) \<and>
     from_file_or_generate good_disk sample_seeds [''d'', ''testnet''] no_files = (Ok (replicate 32 7), fst w)"
proof -
  obtain fs' where seed: "from_file_or_generate good_disk sample_seeds [''d'', ''testnet''] no_files = (Ok (replicate 32 7), fs')"
    by (simp add: from_file_or_generate_def seed_random_def seed_write_to_def bindio_def ensure_directory_exists_def
      create_dir_all_def create_file_def syscall_def write_all_def path_exists_def good_disk_def no_files_def sample_seeds_def Let_def)
  have new_master: "sl_new_master sample_seeds n bs = Ok (sum_list bs)" for n bs by (simp add: sample_seeds_def)
  show ?thesis
    by (simp add: build_context_def balance_args_def cli_builder_def cli_parts_def builder_new_def builder_testnet_def builder_mainnet_def
      with_json_def with_debug_def with_data_dir_def with_bitcoin_def data_dir_from_def Let_def sample_cli_host_def on_files_def
      path_join_def seed build_bitcoin_def bitcoin_apply_defaults_def cli_init_bitcoin_wallet_def derive_extended_private_key_def
      cli_sample_wallet_def wallet_sync_def context_io_def bindio_def ret_def lift_def build_beldex_def new_master)
qed

theorem commands_find_their_context_witness:
  "\<exists>c w. build_context sample_cli_host (cli_builder balance_args) (no_files, ()) = (Ok c, w) \<and> cn_bitcoin_wallet c \<noteq> None \<and>
     co_env_config (cn_config c) = testnet_config"
proof -
  obtain c w where run: "build_context sample_cli_host (cli_builder balance_args) (no_files, ()) = (Ok c, w)" using sample_start by blast
  have "cli_request_of (cg_testnet balance_args) (cg_cmd balance_args) = Ok (ReqBalance True)"
    by (simp add: balance_args_def cli_request_of_def)
  from commands_find_their_context[OF this run]
  have "cn_bitcoin_wallet c \<noteq> None \<and> co_env_config (cn_config c) = testnet_config"
    by (simp add: context_suffices_def env_config_from_def balance_args_def)
  thus ?thesis using run by blast
qed

theorem wrong_network_stops_command_witness:
  "\<exists>e. cli_main sample_lib sample_cli_host (Ok (Inr (balance_args\<lparr>cg_testnet := False,
      cg_cmd := CliWithdrawBtc \<lparr>cm_bitcoin_electrum_rpc_url = None, cm_bitcoin_target_block = None\<rparr> None (sample_address 1)\<rparr>)))
      (no_files, ()) = (Err e, (no_files, ()))"
  by (rule wrong_network_stops_command) (simp add: sample_address_def env_config_networks)


end
