(* ===== verification/Rpc_Methods.thy ===== *)
theory Rpc_Methods
  imports Cli_Main_Properties
begin

text \<open>
  The methods of the JSON-RPC server, \<open>rpc/methods.rs\<close>: which request a call becomes. Reading the parameters of a call is
  the record \<open>rpc_params\<close>; what a request does is its function in \<open>cli/api/request.rs\<close>.
\<close>

datatype rpc_request =
    ApiSuspendCurrentSwap
  | ApiGetSwapInfo uuid
  | ApiGetCurrentSwap
  | ApiRequest cli_request

record 'p rpc_params =
  rp_swap_id :: "'p \<Rightarrow> uuid outcome"
  rp_force_refresh :: "'p \<Rightarrow> bool outcome"
  rp_logs :: "'p \<Rightarrow> (path option \<times> bool \<times> uuid option) outcome"
  rp_withdraw :: "'p \<Rightarrow> (btc_amount option \<times> address) outcome"
  rp_buy :: "'p \<Rightarrow> (multiaddr \<times> address \<times> bdx_address \<times> btc_amount option) outcome"
  rp_rendezvous_point :: "'p \<Rightarrow> multiaddr outcome"

definition rpc_methods :: "'p rpc_params \<Rightarrow> config \<Rightarrow> (string \<times> ('p \<Rightarrow> rpc_request outcome)) list" where
  "rpc_methods R env_config = [
     (''suspend_current_swap'', \<lambda>_. Ok ApiSuspendCurrentSwap),
     (''get_swap_info'', \<lambda>params_raw. omap ApiGetSwapInfo (rp_swap_id R params_raw)),
     (''get_bitcoin_balance'', \<lambda>params_raw. omap (\<lambda>f. ApiRequest (ReqBalance f)) (rp_force_refresh R params_raw)),
     (''get_history'', \<lambda>_. Ok (ApiRequest ReqHistory)),
     (''get_logs'', \<lambda>params_raw. omap (\<lambda>(logs_dir, redact, swap_id). ApiRequest (ReqLogs logs_dir redact swap_id)) (rp_logs R params_raw)),
     (''resume_swap'', \<lambda>params_raw. omap (\<lambda>i. ApiRequest (ReqResumeSwap i)) (rp_swap_id R params_raw)),
     (''cancel_refund_swap'', \<lambda>params_raw. omap (\<lambda>i. ApiRequest (ReqCancelAndRefund i)) (rp_swap_id R params_raw)),
     (''get_beldex_recovery_info'', \<lambda>params_raw. omap (\<lambda>i. ApiRequest (ReqBeldexRecovery i)) (rp_swap_id R params_raw)),
     (''withdraw_btc'', \<lambda>params_raw.
       obind (rp_withdraw R params_raw) (\<lambda>(amount, address).
       obind (address_validate address (bitcoin_network env_config)) (\<lambda>address.
       Ok (ApiRequest (ReqWithdrawBtc amount address))))),
     (''buy_bdx'', \<lambda>params_raw.
       obind (rp_buy R params_raw) (\<lambda>(seller, bitcoin_change_address, beldex_receive_address, amount).
       obind (address_validate bitcoin_change_address (bitcoin_network env_config)) (\<lambda>bitcoin_change_address.
       obind (bdx_address_validate beldex_receive_address (beldex_network env_config)) (\<lambda>beldex_receive_address.
       Ok (ApiRequest (ReqBuyBeldex seller bitcoin_change_address beldex_receive_address amount)))))),
     (''list_sellers'', \<lambda>params_raw. omap (\<lambda>p. ApiRequest (ReqListSellers p)) (rp_rendezvous_point R params_raw)),
     (''get_current_swap'', \<lambda>_. Ok ApiGetCurrentSwap)]"

definition rpc_call :: "'p rpc_params \<Rightarrow> config \<Rightarrow> string \<Rightarrow> 'p \<Rightarrow> rpc_request outcome" where
  "rpc_call R env_config name params_raw = (case map_of (rpc_methods R env_config) name of
     None \<Rightarrow> Err (Msg ''Method not found'')
   | Some callback \<Rightarrow> callback params_raw)"

lemma methods_on_networks:
  assumes "(name, callback) \<in> set (rpc_methods R env)" "callback params = Ok (ApiRequest req)"
  shows "on_networks env req"
  using assms by (auto simp: rpc_methods_def outcome_rules on_networks_def address_validate_def bdx_address_validate_def split: if_splits)

text \<open>
  C37: whatever is called with whatever parameters, a request that the daemon's server makes of it finds what it takes
  out of the daemon's context, and its addresses are on the networks of the daemon.
\<close>

theorem server_requests_are_served:
  assumes "cg_cmd args = CliStartDaemon bitcoin beldex server_address tor"
    and "build_context H (cli_builder args) w = (Ok c, w')"
    and "rpc_call R (co_env_config (cn_config c)) name params = Ok (ApiRequest req)"
  shows "context_suffices c req \<and> on_networks (co_env_config (cn_config c)) req"
proof -
  have "context_suffices c (ReqStartDaemon server_address)"
    using context_of_command[OF _ assms(2), of "ReqStartDaemon server_address"] by (simp add: assms(1) cli_request_of_def)
  hence "context_suffices c req" by (cases req) (simp_all add: context_suffices_def)
  moreover have "on_networks (co_env_config (cn_config c)) req"
    using assms(3) by (auto simp: rpc_call_def split: option.splits dest!: map_of_SomeD intro: methods_on_networks)
  ultimately show ?thesis ..
qed

definition daemon_args :: cli_arguments where
  "daemon_args = \<lparr>cg_testnet = True, cg_data = Some [''d''], cg_debug = False, cg_json = False,
     cg_cmd = CliStartDaemon \<lparr>cm_bitcoin_electrum_rpc_url = None, cm_bitcoin_target_block = None\<rparr>
       \<lparr>cm_beldex_daemon_address = None\<rparr> None \<lparr>cm_tor_socks5_port = 9050\<rparr>\<rparr>"

definition sample_rpc_params :: "address rpc_params" where
  "sample_rpc_params = \<lparr>rp_swap_id = (\<lambda>_. Ok 7), rp_force_refresh = (\<lambda>_. Ok True), rp_logs = (\<lambda>_. Ok (None, False, None)),
     rp_withdraw = (\<lambda>a. Ok (None, a)), rp_buy = (\<lambda>_. Err (Msg ''invalid params'')), rp_rendezvous_point = (\<lambda>_. Ok 1)\<rparr>"

theorem server_requests_are_served_witness:
  "\<exists>c w. build_context sample_cli_host (cli_builder daemon_args) (no_files, ()) = (Ok c, w) \<and>
     rpc_call sample_rpc_params (co_env_config (cn_config c)) ''withdraw_btc'' (sample_address 1) =
       Ok (ApiRequest (ReqWithdrawBtc None (sample_address 1))) \<and> cn_bitcoin_wallet c \<noteq> None"
proof -
  obtain fs' where seed: "from_file_or_generate good_disk sample_seeds [''d'', ''testnet''] no_files = (Ok (replicate 32 7), fs')"
      "fi_content fs' [''d'', ''testnet'', ''beldex'', PACKED_FILE] = None" "[''d'', ''testnet'', ''beldex'', PACKED_FILE] \<notin> fi_dirs fs'"
      "fi_content fs' [''d'', ''testnet'', ''beldex''] = None" "[''d'', ''testnet'', ''beldex''] \<notin> fi_dirs fs'"
      "fi_content fs' [''d'', ''testnet'', ''beldex'', ''beldex-cli-wallet.archive''] = None"
      "[''d'', ''testnet'', ''beldex'', ''beldex-cli-wallet.archive''] \<notin> fi_dirs fs'"
    by (simp add: from_file_or_generate_def seed_random_def seed_write_to_def bindio_def ensure_directory_exists_def
      create_dir_all_def create_file_def syscall_def write_all_def path_exists_def good_disk_def no_files_def sample_seeds_def Let_def
      path_join_def path_parent_def)
  have texts: "contains_text ''beldex/beldex-wallet-rpc'' PACKED_FILE" "\<not> contains_text ''beldex/README'' PACKED_FILE"
    "contains_text ''Starting wallet RPC server'' ''Starting wallet RPC server''" "PACKED_FILE \<noteq> ''beldex-cli-wallet.archive''" by code_simp+
  have new_master: "sl_new_master sample_seeds n bs = Ok (sum_list bs)" for n bs by (simp add: sample_seeds_def)
  obtain fs2 where inst: "wallet_rpc_new good_disk one_daemon (sample_tools (Ok ())) [''d'', ''testnet'', ''beldex''] fs' =
      (Ok [''d'', ''testnet'', ''beldex''], fs2)"
    using seed(2-) texts texts(4)[symmetric] by (simp add: installation_rules one_daemon_def sample_tools_def sample_entry_def
      archive_path_def exec_path_def path_join_def)
  obtain c w where run: "build_context sample_cli_host (cli_builder daemon_args) (no_files, ()) = (Ok c, w)"
    by (simp add: build_context_def daemon_args_def cli_builder_def cli_parts_def builder_new_def builder_testnet_def builder_mainnet_def
      with_json_def with_debug_def with_data_dir_def with_bitcoin_def with_beldex_def with_tor_def data_dir_from_def Let_def
      sample_cli_host_def on_files_def path_join_def seed(1) build_bitcoin_def bitcoin_apply_defaults_def cli_init_bitcoin_wallet_def
      derive_extended_private_key_def cli_sample_wallet_def wallet_sync_def context_io_def bindio_def ret_def lift_def
      build_beldex_def new_master cli_init_beldex_wallet_def inst wallet_rpc_run_def endpoint_def texts
      wallet_open_or_create_def wallet_connect_def refusing_rpc_def try_rpc_def)
  have env: "co_env_config (cn_config c) = testnet_config"
    by (rule build_context_OkD[OF run]) (simp add: cli_builder_fields env_config_from_def daemon_args_def)
  have call: "rpc_call sample_rpc_params (co_env_config (cn_config c)) ''withdraw_btc'' (sample_address 1) =
       Ok (ApiRequest (ReqWithdrawBtc None (sample_address 1)))"
    by (simp add: env rpc_call_def rpc_methods_def sample_rpc_params_def address_validate_def sample_address_def testnet_config_def)
  have "cg_cmd daemon_args = CliStartDaemon \<lparr>cm_bitcoin_electrum_rpc_url = None, cm_bitcoin_target_block = None\<rparr>
       \<lparr>cm_beldex_daemon_address = None\<rparr> None \<lparr>cm_tor_socks5_port = 9050\<rparr>"
    by (simp add: daemon_args_def)
  from server_requests_are_served[OF this run call] have "cn_bitcoin_wallet c \<noteq> None" by (simp add: context_suffices_def)
  thus ?thesis using run call by blast
qed

end
