(* ===== verification/Spec2Isabelle.thy ===== *)
theory Spec2Isabelle
  imports Timelock_Properties Setup_Properties Alice_Properties Bob_Properties
    Database_Properties Resume Recovery_Properties Beldex_Wallet_Properties Setup_Wire
    Asb_Loop_Properties Cli_Proofs
    Electrum_Properties Bitcoin_Wallet_Properties Database_Calls
    Swap_Amount_Properties Swap_Api_Properties
    List_Sellers_Properties Rendezvous_Properties Redial Setup_Queues_Properties Wire_Events
    Api_Requests_Properties Asb_Main_Properties Wallet_Process_Properties Rpc_Methods
begin

text \<open>
  The atomic swap between Bitcoin and Beldex of the crate \<open>src/swap\<close>.

  \<^bold>\<open>The program.\<close> Alice sells Beldex for Bitcoin, Bob buys it. They exchange five messages
  (\<open>protocol/alice/state.rs\<close>, \<open>protocol/bob/state.rs\<close>) after which Bob locks bitcoin in an output
  that only both of them together can spend, and Alice locks Beldex in an output whose spend key is
  the sum \<open>s_a + s_b\<close> of a secret of each party. From then on two state machines
  (\<open>protocol/alice/swap.rs\<close>, \<open>protocol/bob/swap.rs\<close>) run against the two chains: Bob gives Alice an
  encrypted signature on the redeem transaction, publishing it reveals \<open>s_a\<close> to Bob; or the cancel
  timelock expires, Bob publishes the refund transaction, which reveals \<open>s_b\<close> to Alice; or Bob does
  nothing until the punish timelock expires and Alice takes the bitcoin. \<open>bitcoin/*.rs\<close> builds the
  transactions and reads the timelocks off the chain.

  \<^bold>\<open>The theories\<close>, in the order of the code's layers:

    \<^item> \<open>Prelude\<close>: results of Rust code (\<open>outcome\<close>: a value, an error, a panic, or a future that never
      becomes ready), code that runs on a world (\<open>io\<close>), the rule collection \<open>outcome_rules\<close>, slices
      and iterators.
    \<^item> \<open>Timelocks\<close>: \<open>bitcoin/timelocks.rs\<close>, the timelocks of \<open>bitcoin/cancel.rs\<close>, \<open>ScriptStatus\<close> and
      \<open>Confirmed\<close> of \<open>bitcoin/wallet.rs\<close>, \<open>current_epoch\<close> of \<open>bitcoin.rs\<close>; all on 32-bit words.
      \<open>Timelock_Properties\<close>: the refinement of an epoch specification on natural numbers, its
      monotonicity, the exact block counts.
    \<^item> \<open>Bitcoin_Crypto\<close>: keys, signatures, descriptors and addresses of \<open>bitcoin.rs\<close>, the scalar
      conversions of \<open>beldex.rs\<close> and \<open>beldex_ext.rs\<close>. What the crates outside the repository compute is
      the record \<open>lib\<close>, an argument of every definition that uses it.
    \<^item> \<open>Bitcoin_Tx\<close>: \<open>bitcoin/lock.rs\<close>, \<open>cancel.rs\<close>, \<open>refund.rs\<close>, \<open>redeem.rs\<close>, \<open>punish.rs\<close>.
    \<^item> \<open>Beldex_Types\<close>: amounts, transfer and watch requests and proofs (\<open>beldex.rs\<close>,
      \<open>beldex/wallet.rs\<close>), the configurations of \<open>env.rs\<close>.
    \<^item> \<open>Alice_State\<close>, \<open>Bob_State\<close>: the messages of \<open>protocol.rs\<close> and the states of the two parties
      with every method that uses no wallet. \<open>Setup\<close>: the seven calls of a setup in sequence, the
      laws assumed of \<open>lib\<close> about witnesses, completion and PSBTs, and what it means that both parties hold
      the same swap (\<open>counterpart_keys\<close>, \<open>agreed_terms\<close>, \<open>same_transactions\<close>) and that a transaction is
      signed by both. \<open>Setup_Properties\<close>: agreement, that each party can complete its way out, what a
      published signature reveals, the chain of transactions.
    \<^item> \<open>Swap_Env\<close>: the world. A record \<open>env\<close> answers each call to a wallet, a node, the network or the
      database; every call is logged in the world as \<open>Begun\<close>, then \<open>Done\<close> or \<open>Failed\<close>. \<open>select!\<close>
      and \<open>timeout\<close> run on a list of snapshots of what the outside offers at each poll, and end in
      \<open>Pending\<close> when no snapshot makes a branch ready. The Bitcoin wallet's \<open>broadcast\<close>,
      \<open>subscribe_to\<close> and the waits of a \<open>Subscription\<close> are modelled here, as are the rules about
      logs the other theories use (\<open>logs\<close>, \<open>returns\<close>, \<open>post\<close>, \<open>at_most\<close>).
    \<^item> \<open>Swap_Machine\<close>: the locale \<open>ranked_machine\<close>, the contract between a swap loop and its step.
    \<^item> \<open>Alice_Swap\<close>, \<open>Bob_Swap\<close>: \<open>next_state\<close> arm by arm, \<open>run_until\<close>, \<open>run\<close> and the methods that use
      a wallet. \<open>Alice_Machine\<close>, \<open>Bob_Machine\<close>: the abstract step relations \<open>alice_edge\<close> and
      \<open>bob_edge\<close>, the ranks, and the interpretations \<open>alice_loop\<close> and \<open>bob_loop\<close> of the locale.
      \<open>Alice_Properties\<close>, \<open>Bob_Properties\<close>: refinement, safety along a run, termination.
    \<^item> \<open>Database\<close>: \<open>database.rs\<close>, \<open>database/alice.rs\<close>, \<open>database/bob.rs\<close>: the stored forms of the states and
      the conversions; the locales \<open>codec\<close> and \<open>exact_codec\<close>. \<open>Sqlite\<close>: \<open>database/sqlite.rs\<close> on four tables,
      each a list of rows, every SQL statement translated clause by clause. What serde_json, sqlx and
      the string forms of ids do is the record \<open>db_lib\<close>. \<open>Database_Properties\<close>: the tables as maps
      (locales \<open>latest_store\<close> and \<open>once_store\<close> with their interpretations), what the queries return.
      \<open>Database_Calls\<close>: sequences of queries keep the tables well typed.
      \<open>Resume\<close>: an environment whose calls to the database run the model of \<open>Sqlite\<close>, and that a run of
      either loop leaves the state it reached as the one a later run resumes from.
    \<^item> \<open>Recovery\<close>: the manual commands on a stored swap (\<open>asb/recovery/*.rs\<close>, \<open>bin/asb.rs\<close>,
      \<open>cli/cancel_and_refund.rs\<close>). \<open>Recovery_Properties\<close>: the plan of each command, Bob's outcome.
    \<^item> \<open>Beldex_Rpc\<close>: the client of \<open>src/beldex-rpc/src/wallet.rs\<close>: the trait as the record \<open>wallet_rpc\<close>, its
      implementation over HTTP with the shapes of every request and answer. \<open>Beldex_Wallet\<close>:
      \<open>src/swap/src/beldex/wallet.rs\<close> on that record, with the loop that waits for confirmations.
      \<open>Polling\<close>: the locale of a loop that repeats a step until it answers. \<open>Beldex_Wallet_Properties\<close>:
      when the wait ends, and where the wallet believes too much.
    \<^item> \<open>Electrum\<close>: \<open>Client\<close> of \<open>bitcoin/wallet.rs\<close>, which remembers the histories of scripts; the server and the
      clock are the record \<open>electrum\<close>, an \<open>Instant\<close> is a natural number, a \<open>BTreeMap\<close> is the library's \<open>rbt\<close>.
      \<open>Electrum_Properties\<close>: how the client evolves under any sequence of calls, what it reports.
      \<open>Bitcoin_Wallet\<close>: fees, balances, payments and signatures of the wallet; floating point numbers are
      rational numbers with infinities, \<open>bdk\<close> is the record \<open>bdk_wallet\<close>. \<open>Bitcoin_Wallet_Properties\<close>: the
      bounds of a fee, and that the lock transaction of Bob's wallet is the one Alice accepts.
    \<^item> \<open>Rates\<close>: \<open>asb/rate.rs\<close>, the rates and \<open>make_quote\<close> of \<open>asb/event_loop.rs\<close>, \<open>coingecko.rs\<close>,
      \<open>network/quote.rs\<close>. \<open>Swap_Setup\<close>: \<open>network/swap_setup.rs\<close> and the two handlers of
      \<open>network/swap_setup/alice.rs\<close> and \<open>bob.rs\<close> over a substream. \<open>Quote_Properties\<close>: the limits of a quote
      and that a quoted amount is accepted. \<open>Setup_Wire\<close>: the two handlers connected frame by frame agree, and
      what Alice's handler lets through.
    \<^item> \<open>Asb_Loop\<close>: \<open>EventLoop\<close> of \<open>asb/event_loop.rs\<close>. Its maps and queues of futures are the record
      \<open>asb_loop\<close>; the swarm, the wallets, the database and the running swaps answer through the record
      \<open>asb_env\<close>; every event that \<open>select!\<close> delivers and every call and reply is logged in the world. The
      loop runs on the list of events delivered to it. \<open>Asb_Loop_Properties\<close>: an abstract machine over log
      entries that the loop follows, and invariants of that machine: who is given the secret, which
      signatures are relayed, that no transfer proof is lost, which swaps are resumed.
    \<^item> \<open>Event_Log\<close>: the world of an event loop with its log, machines whose steps are labelled with pieces of
      the log, and the locale \<open>event_machine\<close>; shared by both loops.
    \<^item> \<open>Cli_Loop\<close>: \<open>EventLoop\<close> of \<open>cli/event_loop.rs\<close>, modelled in the same way: the record \<open>cli_loop\<close> with the
      streams of requests as lists, the calls as \<open>cli_env\<close>. \<open>Cli_Loop_Properties\<close>: its abstract machine \<open>cli_step\<close>,
      one step for a select. \<open>Request_Broker\<close>: the specification of the four request streams, the refinement, and
      what it gives for every request. \<open>Cli_Proofs\<close>: transfer proofs, also on the database of \<open>Sqlite\<close>.
    \<^item> \<open>Swap_Amount\<close>: \<open>determine_btc_to_swap\<close> of \<open>cli/api/request.rs\<close>, the closures it is given as the record
      \<open>funding\<close>, both loops as partial functions. \<open>Swap_Amount_Properties\<close>: the amount, its limits, when the
      wait for a deposit ends. \<open>Swap_Api\<close>: \<open>SwapLock\<close> of \<open>cli/api.rs\<close> and the requests that hold it, cut where
      other tasks can get in between; \<open>api_step\<close> interleaves them. \<open>Swap_Api_Properties\<close>: the lock as an
      interface (locale \<open>exclusive_lock\<close>), mutual exclusion, and a lock that is lost.
    \<^item> \<open>Setup_Queues\<close>: the behaviours and handlers of \<open>network/swap_setup/alice.rs\<close> and \<open>bob.rs\<close> with the
      queues in which they hand over their futures; \<open>Setup_Queues_Properties\<close>: which results the event loops are
      told. \<open>Wire_Events\<close>: the codecs of \<open>network/cbor_request_response.rs\<close> and \<open>json_pull_codec.rs\<close>, and the
      conversions of libp2p's events; what \<open>serde\<close> derives is the record \<open>serde\<close>, one codec per format.
    \<^item> \<open>Call_Log\<close>: code that only logs calls. \<open>Rendezvous\<close>: the module \<open>rendezvous\<close> of \<open>asb/network.rs\<close>, with the
      clock and the inner behaviour as arguments of a poll; \<open>Rendezvous_Properties\<close>: when the ASB registers.
      \<open>Redial\<close>: \<open>network/redial.rs\<close>. \<open>List_Sellers\<close>: \<open>cli/list_sellers.rs\<close> on the list of events delivered to it;
      \<open>List_Sellers_Properties\<close>: where an entry of the list comes from, that listing does not panic.
    \<^item> \<open>Api_Requests\<close>: the requests of \<open>cli/api/request.rs\<close> that report about swaps, recover the Beldex and move
      bitcoin, on the database of \<open>Sqlite\<close> and the wallet of \<open>Bitcoin_Wallet\<close>; \<open>Api_Requests_Properties\<close>: that
      they only read, that what they report is true, that the recovered keys open the output.
    \<^item> \<open>Files\<close>: a file system, and \<open>fs.rs\<close>. \<open>Seed\<close>: \<open>seed.rs\<close>, and that a seed is never overwritten.
      \<open>Wallet_Process\<close>: \<open>beldex/wallet_rpc.rs\<close>, installing and starting the server of the Beldex wallet;
      \<open>Wallet_Process_Properties\<close>: the daemon it chooses, the executable it leaves.
    \<^item> \<open>Asb_Main\<close>: starting the ASB (\<open>asb/command.rs\<close>, \<open>asb/config.rs\<close>, \<open>bin/asb.rs\<close>, \<open>network/swarm.rs\<close>);
      \<open>Asb_Main_Properties\<close>: one network throughout, the first configuration, the initial rendezvous state.
      \<open>Cli_Main\<close>: starting the CLI (\<open>cli/command.rs\<close>, \<open>ContextBuilder\<close> of \<open>cli/api.rs\<close>, \<open>bin/swap.rs\<close>) on
      \<open>Files\<close>, \<open>Seed\<close> and \<open>Wallet_Process\<close>; \<open>Cli_Main_Properties\<close>: what a request finds; \<open>program_steps\<close>, what any
      sequence of starts, failed ones included, may do to the files, and the seed of every start.
      \<open>Rpc_Methods\<close>: \<open>rpc/methods.rs\<close>, which request a call of the server becomes.
    \<^item> \<open>Sample_Library\<close>, \<open>Sample_World\<close>: a concrete \<open>lib\<close> that satisfies every law, and concrete
      environments, for the theorems that show the hypotheses can be met.

  \<^bold>\<open>Correspondence.\<close> Structs are records, with a short prefix per state (\<open>a3_\<close> for Alice's \<open>State3\<close>,
  \<open>b6_\<close> for Bob's \<open>State6\<close>), enums are datatypes with a prefix \<open>A\<close> or \<open>B\<close> for the two state enums.
  A method \<open>m\<close> of Bob's \<open>State4\<close> is \<open>bob4_m\<close> or \<open>bob_m\<close>, the arm of \<open>next_state\<close> for \<open>BtcLocked\<close> is
  \<open>bob_btc_locked\<close>. An \<open>Err\<close> is an \<open>Err\<close> of the same message, \<open>expect\<close>, \<open>unwrap\<close> and an index out of
  bounds are \<open>Panic\<close>.

  \<^bold>\<open>Laws assumed of the library.\<close> \<open>scalar_laws\<close>, \<open>signature_laws\<close>, \<open>group_laws\<close> (in \<open>Bitcoin_Crypto\<close>),
  \<open>witness_laws\<close>, \<open>completion_laws\<close> and \<open>psbt_laws\<close> (in \<open>Setup\<close>), \<open>dleq_laws\<close> (in \<open>Setup_Properties\<close>): signatures made with a key verify, a decrypted
  signature verifies and reveals the decryption key, a satisfied descriptor carries both signatures
  on its witness stack and one with both signatures is satisfied, a cross-curve proof comes with the public
  keys of its scalar, curves are groups, the scalar encodings round-trip. \<open>Sample_Library\<close> proves
  all of them of one instance. \<open>db_laws\<close> (in \<open>Sqlite\<close>): what is printed parses back; \<open>sample_db\<close> satisfies
  it. \<open>decimal_laws\<close> (in \<open>Rates\<close>): the rounding of \<open>rust_decimal\<close>; \<open>exact_decimal\<close> satisfies it; \<open>fee_laws\<close>
  (in \<open>Bitcoin_Wallet_Properties\<close>) adds literals and comparisons, \<open>exact_fees\<close> satisfies it; \<open>pays_recipient\<close> and
  \<open>address_law\<close>: the outputs that \<open>bdk\<close> builds, and that the address of a descriptor pays to its script.
  \<open>honest\<close> (in \<open>Electrum_Properties\<close>): a server on a chain that only grows. \<open>cbor_laws\<close>
  (in \<open>Setup_Wire\<close>): what was serialized can be read back. \<open>pem_law\<close> (in \<open>Seed\<close>): a PEM block parses to what was encoded; \<open>own_files\<close> (in
  \<open>Cli_Main_Properties\<close>): the calls of the wallets and the database, and the requests that are a parameter there, leave the seed
  files alone; \<open>sample_seeds\<close> and \<open>sample_cli_host\<close>
  satisfy them. Nothing is assumed of the environment of a run: theorems about runs
  hold for every \<open>env\<close>.

  \<^bold>\<open>Termination.\<close> The loops \<open>run_until\<close> are \<open>partial_function (option)\<close>, with \<open>None\<close> for a loop that
  does not end; no fuel is used. \<open>alice_rank\<close> and \<open>bob_rank\<close> decrease with each step from a state in
  which the loop goes on, so both loops are total (\<open>alice_run_until_total\<close>, \<open>bob_run_total\<close>). The
  retries inside \<open>Subscription\<close> and \<open>select!\<close> recurse on the list of snapshots. A wait the world never
  ends is the outcome \<open>Pending\<close>; a call of the environment that the code retries with backoff
  answers once, with the final result.

  \<^bold>\<open>Not modelled.\<close> Logging and the events for the user interface (the fallible computations of their
  arguments are kept), wire formats, the SQL migrations, the order in which \<open>GROUP BY\<close> lists its groups
  (\<open>sql_all\<close> lists them in the order of their first rows; its theorem is about the set), and, of the Bitcoin wallet, opening, migrating and exporting its database. The swap
  loops see the chain through \<open>env\<close>, not through the model of the Electrum client, and the Beldex wallet through \<open>env\<close>; \<open>with_wallet\<close> (in \<open>Beldex_Wallet_Properties\<close>) is an environment
  whose answers are those of the modelled wallet. In \<open>Setup_Queues\<close> the futures of
  \<open>Swap_Setup\<close> are numbers, and a poll is told which are ready. The texts of the configuration file and of the command line, the prompts,
  the web and the file system's answers are arguments of the theories about starting. Transports and Tor are wiring of libp2p.

  \<^bold>\<open>What the model shows of the code's flaws.\<close> \<open>bob_mistakes_lock_for_cancel\<close>: Bob recognises the
  cancel transaction by the script of its output, which is the lock output's script.
  \<open>bob_refunded_without_refund\<close>: he recognises his refund by any history of the refund address, to
  which the lock transaction sends its change. \<open>from_psbt_accepts_wrong_vout\<close>: Alice checks the
  amount of one output and builds on another, of any amount. \<open>cli_cancel_reports_lock_as_cancel\<close>: for the
  first of these reasons a manual cancel before the timelock reports success with the id of the lock
  transaction and stores \<open>BtcCancelled\<close>. \<open>bob_punished_step\<close>: the early exit of Bob's loop for
  states that run at most once is never taken. \<open>watch_trusts_own_transfer\<close>: the wait for the Beldex lock
  accepts any transfer of Bob's own wallet with enough confirmations under the id in the transfer proof,
  without looking at key, address or amount. \<open>alice_refunded_without_sweep\<close>: an error of the sweep after
  a refund is dropped, and Alice ends in \<open>BeldexRefunded\<close> with nothing swept.
  \<open>setup_with_known_id_cuts_swap\<close>: a second setup with the id of a running swap replaces the channel on
  which that swap waits for its encrypted signature, and is refused by the database only afterwards.
  \<open>stranger_proof_takes_the_place\<close>: the CLI stores a transfer proof for another swap without looking at its
  sender, and the first one stays. \<open>failed_first_sync_reads_unseen\<close>: when the Electrum server does not answer
  as a script is asked for the first time, the client takes its history for empty until the next interval.
  \<open>fee_above_relative_bound\<close>: a fee above 100000 satoshi is cut to 100000 satoshi, not to three percent of
  the amount. \<open>failed_resume_blocks_swaps\<close>: a swap that cannot be resumed keeps the lock, and no other swap
  can start. \<open>small_gap_ends_the_swap\<close>: a wallet that lacks a few satoshi gets an error about dust instead of
  a request for a deposit. \<open>silent_node_blocks_the_list\<close>: a rendezvous node that gives no quote keeps the list of
  sellers from ending. \<open>lost_registration_is_final\<close>: a registration without an answer is never repeated;
  \<open>failed_dial_hides_connection\<close>: a refused dial makes a standing connection look closed, so nothing is renewed.
  \<open>failed_first_dial_is_not_repeated\<close>: redialling begins only after a connection was lost.
  \<open>failed_substream_is_not_reported\<close>: a setup whose substream fails has no result.
  \<open>configured_finality_is_ignored\<close>: the numbers of confirmations in the ASB's configuration file have no effect.
  \<open>partial_executable_is_kept\<close>: what a failed installation of the wallet's server leaves is taken for the server.
\<close>

end
